(* ===== verification/Prelude.thy ===== *)
theory Prelude
  imports Main
begin

text \<open>
  Shared vocabulary of the development: JavaScript values as the sources use them (nullable
  fields, safe integers, strings as sequences of code units below 256), errors as values, and
  the operations on a table of SQL rows (a table is the list of its rows in insertion order)
  with the lemmas that the component theories share.
\<close>

named_theorems table_simps "rewriting of table updates, inserts and look-ups"
named_theorems guard_simps "validators with their success conditions"

section \<open>Errors and results\<close>

text \<open>
  A thrown \<open>TypeError\<close>, a thrown plain \<open>Error\<close>, and the error that SQLite raises for a
  violated \<open>CHECK\<close>, \<open>UNIQUE\<close> or \<open>PRIMARY KEY\<close> constraint. The text is the message of
  the source without its interpolated values. A \<open>CategoryError\<close> also carries what the repair
  executor and the provider adapters attach to their errors: \<open>name\<close>, message, \<open>category\<close> and
  \<open>retryable\<close>.
\<close>

datatype js_error = TypeError string | JsError string | SqlConstraint string
  | CategoryError string string string bool

type_synonym 'a res = "js_error + 'a"

definition is_ok :: "'a res \<Rightarrow> bool" where
  "is_ok r = (case r of Inl _ \<Rightarrow> False | Inr _ \<Rightarrow> True)"

definition res_bind :: "'a res \<Rightarrow> ('a \<Rightarrow> 'b res) \<Rightarrow> 'b res" where
  "res_bind m f = (case m of Inl e \<Rightarrow> Inl e | Inr x \<Rightarrow> f x)"

definition ensure :: "bool \<Rightarrow> js_error \<Rightarrow> unit res" where
  "ensure c e = (if c then Inr () else Inl e)"

lemma res_bind_simps [simp]:
  "res_bind (Inl e) f = Inl e" "res_bind (Inr x) f = f x"
  by (simp_all add: res_bind_def)

lemma res_bind_Inr [guard_simps]:
  "(res_bind m f = Inr y) = (\<exists>x. m = Inr x \<and> f x = Inr y)"
  by (cases m) (auto simp: res_bind_def)

lemma res_bind_Inl:
  "(res_bind m f = Inl e) = (m = Inl e \<or> (\<exists>x. m = Inr x \<and> f x = Inl e))"
  by (cases m) (auto simp: res_bind_def)

lemma ensure_Inr [guard_simps]: "(ensure c e = Inr u) = c"
  by (auto simp: ensure_def)

lemma ensure_Inl: "(ensure c e = Inl e') = (\<not> c \<and> e' = e)"
  by (auto simp: ensure_def)

lemma ensure_simps [simp]: "ensure True e = Inr ()" "ensure False e = Inl e"
  by (simp_all add: ensure_def)

lemma is_ok_simps [simp]: "is_ok (Inr x)" "\<not> is_ok (Inl e)"
  by (simp_all add: is_ok_def)

lemma is_ok_conv: "is_ok r = (\<exists>x. r = Inr x)"
  by (cases r) auto

section \<open>Numbers\<close>

text \<open>\<open>Number.isSafeInteger\<close>: an integer of magnitude at most \<open>2^53 - 1\<close>.\<close>

definition max_safe :: int where
  "max_safe = 9007199254740991"

definition is_safe_integer :: "int \<Rightarrow> bool" where
  "is_safe_integer i \<longleftrightarrow> \<bar>i\<bar> \<le> max_safe"

section \<open>Optional fields\<close>

text \<open>\<open>a ?? b\<close>.\<close>

definition nullish :: "'a option \<Rightarrow> 'a \<Rightarrow> 'a" where
  "nullish a b = (case a of None \<Rightarrow> b | Some x \<Rightarrow> x)"

text \<open>\<open>COALESCE(a, b)\<close> and \<open>a ?? b\<close> where the result may be null.\<close>

definition coalesce :: "'a option \<Rightarrow> 'a option \<Rightarrow> 'a option" where
  "coalesce a b = (case a of None \<Rightarrow> b | Some x \<Rightarrow> Some x)"

lemma nullish_simps [simp]: "nullish None b = b" "nullish (Some x) b = x"
  by (simp_all add: nullish_def)

lemma coalesce_simps [simp]: "coalesce None b = b" "coalesce (Some x) b = Some x"
  by (simp_all add: coalesce_def)

lemma coalesce_None_iff [simp]: "(coalesce a b = None) = (a = None \<and> b = None)"
  by (cases a) auto

text \<open>An object property that may be absent, present and null, or present with a value.\<close>

datatype 'a field = Absent | Null | Val 'a

text \<open>
  A JavaScript value, for the functions that inspect the dynamic type of their argument. A
  number is an integer or not one; an object is the list of its own properties.
\<close>

datatype jv = JUndef | JNull | JBool bool | JInt int | JFloat | JStr string | JArr "jv list"
  | JObj "(string \<times> jv) list"

definition has_own :: "(string \<times> jv) list \<Rightarrow> string \<Rightarrow> bool" where
  "has_own ps k = (map_of ps k \<noteq> None)"

definition prop_of :: "(string \<times> jv) list \<Rightarrow> string \<Rightarrow> jv" where
  "prop_of ps k = (case map_of ps k of None \<Rightarrow> JUndef | Some v \<Rightarrow> v)"

section \<open>Strings\<close>

definition code_of :: "char \<Rightarrow> nat" where
  "code_of c = of_char c"

text \<open>White space and letter case of \<open>trim\<close> and \<open>toLowerCase\<close>, for code units below 256.\<close>

definition js_space :: "char \<Rightarrow> bool" where
  "js_space c \<longleftrightarrow> (let n = code_of c in (9 \<le> n \<and> n \<le> 13) \<or> n = 32 \<or> n = 160)"

definition js_trim :: "string \<Rightarrow> string" where
  "js_trim s = rev (dropWhile js_space (rev (dropWhile js_space s)))"

definition lower_char :: "char \<Rightarrow> char" where
  "lower_char c = (let n = code_of c in
     if (65 \<le> n \<and> n \<le> 90) \<or> (192 \<le> n \<and> n \<le> 222 \<and> n \<noteq> 215) then char_of (n + 32) else c)"

definition js_lower :: "string \<Rightarrow> string" where
  "js_lower s = map lower_char s"

definition is_digit :: "char \<Rightarrow> bool" where
  "is_digit c \<longleftrightarrow> (let n = code_of c in 48 \<le> n \<and> n \<le> 57)"

definition is_letter :: "char \<Rightarrow> bool" where
  "is_letter c \<longleftrightarrow> (let n = code_of c in (65 \<le> n \<and> n \<le> 90) \<or> (97 \<le> n \<and> n \<le> 122))"

lemma code_of_less: "code_of c < 256"
  by (simp add: code_of_def)

lemma code_of_char_of: "n < 256 \<Longrightarrow> code_of (char_of n) = n"
  by (simp add: code_of_def)

lemma lower_char_idem [simp]: "lower_char (lower_char c) = lower_char c"
proof -
  have "code_of c < 256" by (rule code_of_less)
  then show ?thesis
    by (auto simp: lower_char_def Let_def code_of_char_of)
qed

lemma js_lower_idem [simp]: "js_lower (js_lower s) = js_lower s"
  by (simp add: js_lower_def)

lemma length_js_lower [simp]: "length (js_lower s) = length s"
  by (simp add: js_lower_def)

lemma lower_char_space: "js_space (lower_char c) = js_space c"
proof -
  have "code_of c < 256" by (rule code_of_less)
  then show ?thesis
    by (auto simp: lower_char_def js_space_def Let_def code_of_char_of)
qed

lemma dropWhile_space_idem [simp]:
  "dropWhile P (dropWhile P xs) = dropWhile P xs"
  by (induction xs) auto

lemma dropWhile_map_lower:
  "dropWhile js_space (map lower_char s) = map lower_char (dropWhile js_space s)"
  by (simp add: dropWhile_map comp_def lower_char_space)

lemma js_trim_lower: "js_trim (js_lower s) = js_lower (js_trim s)"
  by (simp add: js_trim_def js_lower_def dropWhile_map_lower rev_map)

lemma hd_rev_dropWhile:
  assumes "xs = [] \<or> \<not> P (hd xs)"
  shows "rev (dropWhile P (rev xs)) = [] \<or> \<not> P (hd (rev (dropWhile P (rev xs))))"
  using assms
proof (cases xs)
  case Nil
  then show ?thesis by simp
next
  case (Cons a ys)
  with assms have a: "\<not> P a" by simp
  have "dropWhile P (rev ys @ [a]) = dropWhile P (rev ys) @ [a]"
    using a by (induction ys rule: rev_induct) (auto simp: dropWhile_append3)
  with Cons a show ?thesis by simp
qed

lemma js_trim_idem [simp]: "js_trim (js_trim s) = js_trim s"
proof -
  let ?d = "dropWhile js_space s"
  have "?d = [] \<or> \<not> js_space (hd ?d)"
    using hd_dropWhile [of js_space s] by auto
  then have "js_trim s = [] \<or> \<not> js_space (hd (js_trim s))"
    unfolding js_trim_def by (rule hd_rev_dropWhile)
  then have "dropWhile js_space (js_trim s) = js_trim s"
    by (cases "js_trim s") auto
  then show ?thesis
    by (simp add: js_trim_def)
qed

text \<open>
  \<open>requireString(value, field, max)\<close>: \<open>None\<close> stands for a value that is not a string. The
  length test is on the untrimmed value, the result is trimmed.
\<close>

definition require_string :: "string option \<Rightarrow> string \<Rightarrow> nat \<Rightarrow> string res" where
  "require_string value field mx = (case value of
      None \<Rightarrow> Inl (TypeError field)
    | Some s \<Rightarrow> if js_trim s = [] \<or> length s > mx then Inl (TypeError field) else Inr (js_trim s))"

lemma require_string_Inr [guard_simps]:
  "(require_string v f m = Inr t) =
     (\<exists>s. v = Some s \<and> js_trim s \<noteq> [] \<and> length s \<le> m \<and> t = js_trim s)"
  by (auto simp: require_string_def split: option.splits)

text \<open>\<open>requireTimestamp\<close>, \<open>requireBoundedExpiry\<close>.\<close>

definition require_timestamp :: "int option \<Rightarrow> string \<Rightarrow> int res" where
  "require_timestamp value field = (case value of
      None \<Rightarrow> Inl (TypeError field)
    | Some i \<Rightarrow> if \<not> is_safe_integer i \<or> i < 0 then Inl (TypeError field) else Inr i)"

definition require_bounded_expiry :: "int option \<Rightarrow> int \<Rightarrow> string \<Rightarrow> int res" where
  "require_bounded_expiry value observedAt subject =
     res_bind (require_timestamp value ''expiresAt'') (\<lambda>e.
       if e \<le> observedAt then Inl (TypeError subject) else Inr e)"

lemma require_timestamp_Inr [guard_simps]:
  "(require_timestamp v f = Inr i) = (v = Some i \<and> is_safe_integer i \<and> 0 \<le> i)"
  by (auto simp: require_timestamp_def split: option.splits)

lemma require_bounded_expiry_Inr [guard_simps]:
  "(require_bounded_expiry v at f = Inr i) = (v = Some i \<and> is_safe_integer i \<and> 0 \<le> i \<and> at < i)"
  by (cases v) (auto simp: require_bounded_expiry_def require_timestamp_def)

text \<open>
  \<open>normalizeIdentifier\<close>: the trimmed value matches \<open>[a-z0-9][a-z0-9._-]{0,127}\<close> without
  regard to case, and is lower-cased.
\<close>

definition ident_head :: "char \<Rightarrow> bool" where
  "ident_head c \<longleftrightarrow> is_digit c \<or> is_letter c"

definition ident_char :: "char \<Rightarrow> bool" where
  "ident_char c \<longleftrightarrow> is_digit c \<or> is_letter c \<or> c \<in> set ''._-''"

definition valid_identifier :: "string \<Rightarrow> bool" where
  "valid_identifier s \<longleftrightarrow> s \<noteq> [] \<and> ident_head (hd s) \<and> list_all ident_char s \<and> length s \<le> 128"

definition normalize_identifier :: "string option \<Rightarrow> string res" where
  "normalize_identifier value = (case value of
      None \<Rightarrow> Inl (TypeError ''Provider identifier is invalid'')
    | Some s \<Rightarrow> if valid_identifier (js_trim s) then Inr (js_lower (js_trim s))
               else Inl (TypeError ''Provider identifier is invalid''))"

lemma normalize_identifier_Inr [guard_simps]:
  "(normalize_identifier v = Inr t) =
     (\<exists>s. v = Some s \<and> valid_identifier (js_trim s) \<and> t = js_lower (js_trim s))"
  by (auto simp: normalize_identifier_def split: option.splits)

text \<open>Decimal digits of a natural number, as a template literal prints it.\<close>

definition digit_char :: "nat \<Rightarrow> char" where
  "digit_char n = char_of (48 + n)"

fun show_nat :: "nat \<Rightarrow> string" where
  "show_nat n = (if n < 10 then [digit_char n] else show_nat (n div 10) @ [digit_char (n mod 10)])"

declare show_nat.simps [simp del]

definition parse_nat :: "string \<Rightarrow> nat" where
  "parse_nat s = foldl (\<lambda>a c. 10 * a + (code_of c - 48)) 0 s"

lemma code_of_digit_char: "n < 10 \<Longrightarrow> code_of (digit_char n) = 48 + n"
  by (simp add: digit_char_def code_of_char_of)

lemma parse_show_nat: "parse_nat (show_nat n) = n"
proof (induction n rule: show_nat.induct)
  case (1 n)
  show ?case
  proof (cases "n < 10")
    case True
    then show ?thesis
      by (simp add: show_nat.simps [of n] parse_nat_def code_of_digit_char)
  next
    case False
    with 1 have "parse_nat (show_nat (n div 10)) = n div 10" by simp
    with False show ?thesis
      by (simp add: show_nat.simps [of n] parse_nat_def code_of_digit_char)
  qed
qed

lemma show_nat_inj [simp]: "(show_nat a = show_nat b) = (a = b)"
  by (metis parse_show_nat)

lemma show_nat_digits: "c \<in> set (show_nat n) \<Longrightarrow> is_digit c"
proof (induction n rule: show_nat.induct)
  case (1 n)
  have d: "m < 10 \<Longrightarrow> is_digit (digit_char m)" for m
    by (simp add: is_digit_def Let_def code_of_digit_char)
  show ?case
  proof (cases "n < 10")
    case True
    with 1 d show ?thesis by (simp add: show_nat.simps [of n])
  next
    case False
    with 1 d [of "n mod 10"] show ?thesis by (auto simp: show_nat.simps [of n])
  qed
qed

lemma show_nat_nonempty [simp]: "show_nat n \<noteq> []"
  by (subst show_nat.simps) simp

text \<open>Substring tests: \<open>includes\<close>, \<open>startsWith\<close>, \<open>endsWith\<close>.\<close>

definition starts_with :: "string \<Rightarrow> string \<Rightarrow> bool" where
  "starts_with s p = (take (length p) s = p)"

definition ends_with :: "string \<Rightarrow> string \<Rightarrow> bool" where
  "ends_with s p = starts_with (rev s) (rev p)"

fun includes_str :: "string \<Rightarrow> string \<Rightarrow> bool" where
  "includes_str [] p = (p = [])"
| "includes_str (c # cs) p = (starts_with (c # cs) p \<or> includes_str cs p)"

text \<open>\<open>JSON.stringify\<close> of strings, integers and lists of strings.\<close>

definition show_int :: "int \<Rightarrow> string" where
  "show_int i = (if i < 0 then ''-'' @ show_nat (nat (- i)) else show_nat (nat i))"

definition hex_digit :: "nat \<Rightarrow> char" where
  "hex_digit n = (if n < 10 then char_of (48 + n) else char_of (87 + n))"

definition json_char :: "char \<Rightarrow> string" where
  "json_char c = (let n = code_of c in
     if n = 34 then [CHR 0x5C, CHR 0x22]
     else if n = 92 then [CHR 0x5C, CHR 0x5C]
     else if n = 8 then [CHR 0x5C, CHR ''b'']
     else if n = 9 then [CHR 0x5C, CHR ''t'']
     else if n = 10 then [CHR 0x5C, CHR ''n'']
     else if n = 12 then [CHR 0x5C, CHR ''f'']
     else if n = 13 then [CHR 0x5C, CHR ''r'']
     else if n < 32 then [CHR 0x5C, CHR ''u'', CHR ''0'', CHR ''0'', hex_digit (n div 16), hex_digit (n mod 16)]
     else [c])"

definition json_string :: "string \<Rightarrow> string" where
  "json_string s = [CHR 0x22] @ concat (map json_char s) @ [CHR 0x22]"

fun json_items :: "string list \<Rightarrow> string" where
  "json_items [] = []"
| "json_items [x] = x"
| "json_items (x # y # ys) = x @ '','' @ json_items (y # ys)"

definition json_strings :: "string list \<Rightarrow> string" where
  "json_strings xs = ''['' @ json_items (map json_string xs) @ '']''"

definition json_object :: "(string \<times> string) list \<Rightarrow> string" where
  "json_object kvs = ''{'' @ json_items (map (\<lambda>(k, v). json_string k @ '':'' @ v) kvs) @ ''}''"

section \<open>Tables\<close>

text \<open>\<open>UPDATE t SET f WHERE P\<close>.\<close>

definition upd_where :: "('r \<Rightarrow> bool) \<Rightarrow> ('r \<Rightarrow> 'r) \<Rightarrow> 'r list \<Rightarrow> 'r list" where
  "upd_where P f t = map (\<lambda>r. if P r then f r else r) t"

text \<open>\<open>INSERT ... ON CONFLICT(key) DO UPDATE SET f\<close>, \<open>P\<close> selecting the conflicting row.\<close>

definition upsert :: "('r \<Rightarrow> bool) \<Rightarrow> ('r \<Rightarrow> 'r) \<Rightarrow> 'r \<Rightarrow> 'r list \<Rightarrow> 'r list" where
  "upsert P f new t = (if list_ex P t then upd_where P f t else t @ [new])"

text \<open>A \<open>UNIQUE\<close> constraint, and a partial unique index (\<open>... WHERE P\<close>).\<close>

definition unique_by :: "('r \<Rightarrow> 'k) \<Rightarrow> 'r list \<Rightarrow> bool" where
  "unique_by key t \<longleftrightarrow> distinct (map key t)"

definition unique_where :: "('r \<Rightarrow> bool) \<Rightarrow> ('r \<Rightarrow> 'k) \<Rightarrow> 'r list \<Rightarrow> bool" where
  "unique_where P key t \<longleftrightarrow> distinct (map key (filter P t))"

lemma upd_where_Nil [table_simps]: "upd_where P f [] = []"
  by (simp add: upd_where_def)

lemma upd_where_Cons [table_simps]:
  "upd_where P f (r # t) = (if P r then f r else r) # upd_where P f t"
  by (simp add: upd_where_def)

lemma upd_where_append [table_simps]:
  "upd_where P f (s @ t) = upd_where P f s @ upd_where P f t"
  by (simp add: upd_where_def)

lemma length_upd_where [simp]: "length (upd_where P f t) = length t"
  by (simp add: upd_where_def)

lemma in_upd_where:
  "(r \<in> set (upd_where P f t)) = (\<exists>s \<in> set t. r = (if P s then f s else s))"
  by (auto simp: upd_where_def)

lemma in_upd_whereE:
  assumes "r \<in> set (upd_where P f t)"
  obtains (kept) "r \<in> set t" "\<not> P r" | (changed) s where "s \<in> set t" "P s" "r = f s"
  using assms by (auto simp: in_upd_where split: if_splits)

lemma upd_where_id: "(\<And>r. r \<in> set t \<Longrightarrow> P r \<Longrightarrow> f r = r) \<Longrightarrow> upd_where P f t = t"
  by (induction t) (auto simp: upd_where_def)

lemma upd_where_none: "(\<And>r. r \<in> set t \<Longrightarrow> \<not> P r) \<Longrightarrow> upd_where P f t = t"
  by (rule upd_where_id) auto

lemma map_upd_where: "(\<And>r. P r \<Longrightarrow> key (f r) = key r) \<Longrightarrow> map key (upd_where P f t) = map key t"
  by (induction t) (auto simp: upd_where_def)

lemma unique_by_upd_where:
  "unique_by key t \<Longrightarrow> (\<And>r. P r \<Longrightarrow> key (f r) = key r) \<Longrightarrow> unique_by key (upd_where P f t)"
  by (simp add: unique_by_def map_upd_where)

lemma unique_by_snoc:
  "unique_by key (t @ [r]) = (unique_by key t \<and> key r \<notin> key ` set t)"
  by (auto simp: unique_by_def)

lemma unique_byD:
  "unique_by key t \<Longrightarrow> r \<in> set t \<Longrightarrow> s \<in> set t \<Longrightarrow> key r = key s \<Longrightarrow> r = s"
  by (auto simp: unique_by_def distinct_map inj_on_def)

lemma unique_where_filter_map:
  "unique_where P key t = unique_by key (filter P t)"
  by (simp add: unique_where_def unique_by_def)

lemma unique_whereD:
  "unique_where P key t \<Longrightarrow> r \<in> set t \<Longrightarrow> s \<in> set t \<Longrightarrow> P r \<Longrightarrow> P s \<Longrightarrow> key r = key s \<Longrightarrow> r = s"
  by (auto simp: unique_where_def distinct_map inj_on_def)

lemma unique_whereI:
  assumes "unique_by k t"
    and "\<And>r s. r \<in> set t \<Longrightarrow> s \<in> set t \<Longrightarrow> P r \<Longrightarrow> P s \<Longrightarrow> key r = key s \<Longrightarrow> r = s"
  shows "unique_where P key t"
  using assms by (auto simp: unique_where_def unique_by_def distinct_map inj_on_def)

lemma upd_where_cong:
  "(\<And>r. r \<in> set t \<Longrightarrow> P r = Q r) \<Longrightarrow> (\<And>r. r \<in> set t \<Longrightarrow> Q r \<Longrightarrow> f r = g r) \<Longrightarrow>
   upd_where P f t = upd_where Q g t"
  by (induction t) (auto simp: upd_where_def)

lemma in_upd_where_changed: "s \<in> set t \<Longrightarrow> P s \<Longrightarrow> f s \<in> set (upd_where P f t)"
  by (auto simp: upd_where_def)

lemma in_upd_where_kept: "s \<in> set t \<Longrightarrow> \<not> P s \<Longrightarrow> s \<in> set (upd_where P f t)"
  by (auto simp: upd_where_def)

lemma unique_where_snoc:
  "unique_where P key (t @ [r]) =
     (unique_where P key t \<and> (P r \<longrightarrow> (\<forall>s \<in> set t. P s \<longrightarrow> key s \<noteq> key r)))"
  by (auto simp: unique_where_def image_def)

lemma unique_by_upsert:
  assumes "unique_by key t" "\<And>r. P r = (key r = key new)" "\<And>r. P r \<Longrightarrow> key (f r) = key r"
  shows "unique_by key (upsert P f new t)"
proof (cases "list_ex P t")
  case True
  with assms(1) show ?thesis
    using assms(3) by (simp add: upsert_def unique_by_upd_where)
next
  case False
  with assms(1,2) show ?thesis
    by (auto simp: upsert_def unique_by_snoc list_ex_iff)
qed

lemma find_upd_where:
  "(\<And>r. P r \<Longrightarrow> Q (f r) = Q r) \<Longrightarrow>
   find Q (upd_where P f t) = map_option (\<lambda>r. if P r then f r else r) (find Q t)"
  by (induction t) (auto simp: upd_where_def)

lemma filter_upd_where:
  "(\<And>r. P r \<Longrightarrow> \<not> Q r) \<Longrightarrow> (\<And>r. P r \<Longrightarrow> \<not> Q (f r)) \<Longrightarrow> filter Q (upd_where P f t) = filter Q t"
  by (induction t) (auto simp: upd_where_def)

lemma find_append:
  "find Q (s @ t) = (case find Q s of None \<Rightarrow> find Q t | Some r \<Rightarrow> Some r)"
  by (induction s) auto

lemma find_None_list_ex: "(find Q t = None) = (\<not> list_ex Q t)"
  by (auto simp: find_None_iff list_ex_iff)

lemma find_SomeD: "find Q t = Some r \<Longrightarrow> r \<in> set t \<and> Q r"
  by (auto simp: find_Some_iff)

lemma find_Some_list_ex: "find Q t = Some r \<Longrightarrow> list_ex Q t"
  by (auto simp: find_Some_iff list_ex_iff)

lemma find_upsert_same:
  assumes "\<And>r. Q r \<Longrightarrow> Q (f r)" "Q new"
  shows "find Q (upsert Q f new t) =
    Some (case find Q t of None \<Rightarrow> new | Some r \<Rightarrow> f r)"
proof (cases "find Q t")
  case None
  then have "\<not> list_ex Q t" by (simp add: find_None_list_ex)
  with None assms show ?thesis by (simp add: upsert_def find_append)
next
  case (Some r)
  then have "list_ex Q t" by (rule find_Some_list_ex)
  moreover have "Q r" using Some by (simp add: find_SomeD)
  ultimately show ?thesis using Some assms(1)
    by (simp add: upsert_def find_upd_where)
qed

lemma find_upsert_other:
  assumes "\<And>r. P r \<Longrightarrow> \<not> Q r" "\<And>r. P r \<Longrightarrow> \<not> Q (f r)" "\<not> Q new"
  shows "find Q (upsert P f new t) = find Q t"
proof -
  have u: "find Q (upd_where P f t) = find Q t" if "\<And>r. r \<in> set t \<Longrightarrow> True"
    using assms(1,2) by (induction t) (auto simp: upd_where_def)
  show ?thesis
    using assms u by (auto simp: upsert_def find_append split: option.splits)
qed

lemma find_unique:
  assumes "unique_by key t" "r \<in> set t"
  shows "find (\<lambda>s. key s = key r) t = Some r"
proof -
  from assms(2) have "list_ex (\<lambda>s. key s = key r) t" by (auto simp: list_ex_iff)
  then obtain s where s: "find (\<lambda>s. key s = key r) t = Some s"
    by (metis find_None_list_ex not_None_eq)
  then have "s \<in> set t" "key s = key r" by (auto simp: find_Some_iff)
  with unique_byD [OF assms(1) _ assms(2)] have "s = r" by blast
  with s show ?thesis by simp
qed

lemma list_ex_upd_where: "list_ex Q (upd_where P f t) = list_ex (\<lambda>r. Q (if P r then f r else r)) t"
  by (induction t) (simp_all add: table_simps)

lemma filter_unique_length:
  assumes "unique_by key s"
  shows "(length (filter (\<lambda>r. key r = i \<and> P r) s) = 1) = list_ex (\<lambda>r. key r = i \<and> P r) s"
  using assms
proof (induction s)
  case (Cons a s)
  then have IH: "(length (filter (\<lambda>r. key r = i \<and> P r) s) = 1) = list_ex (\<lambda>r. key r = i \<and> P r) s"
    and fresh: "key a \<notin> key ` set s" by (auto simp: unique_by_def)
  show ?case
  proof (cases "key a = i \<and> P a")
    case True
    with fresh have "filter (\<lambda>r. key r = i \<and> P r) s = []" by (auto simp: filter_empty_conv image_iff)
    with True show ?thesis by simp
  qed (use IH in auto)
qed simp

text \<open>\<open>SELECT COALESCE(MAX(f), 0)\<close> over the rows that satisfy \<open>P\<close>.\<close>

definition max_of :: "('r \<Rightarrow> bool) \<Rightarrow> ('r \<Rightarrow> nat) \<Rightarrow> 'r list \<Rightarrow> nat" where
  "max_of P f t = foldr (\<lambda>r m. if P r then max (f r) m else m) t 0"

lemma max_of_ge: "r \<in> set t \<Longrightarrow> P r \<Longrightarrow> f r \<le> max_of P f t"
  by (induction t) (auto simp: max_of_def)

lemma max_of_attained: "max_of P f t = 0 \<or> (\<exists>r \<in> set t. P r \<and> f r = max_of P f t)"
proof (induction t)
  case Nil
  then show ?case by (simp add: max_of_def)
next
  case (Cons a t)
  have step: "max_of P f (a # t) = (if P a then max (f a) (max_of P f t) else max_of P f t)"
    by (simp add: max_of_def)
  show ?case
    using Cons by (auto simp: step max_def)
qed

text \<open>\<open>ORDER BY f DESC LIMIT 1\<close>: the row with the largest key, the first one among equals.\<close>

fun top_by :: "('r \<Rightarrow> 'k::linorder) \<Rightarrow> 'r list \<Rightarrow> 'r option" where
  "top_by f [] = None"
| "top_by f (r # t) = (case top_by f t of
      None \<Rightarrow> Some r
    | Some s \<Rightarrow> if f s \<le> f r then Some r else Some s)"

lemma top_by_None [simp]: "(top_by f t = None) = (t = [])"
  by (cases t) (auto split: option.splits)

lemma top_by_Some:
  "top_by f t = Some r \<Longrightarrow> r \<in> set t \<and> (\<forall>s \<in> set t. f s \<le> f r)"
proof (induction t arbitrary: r)
  case Nil
  then show ?case by simp
next
  case (Cons a t)
  show ?case
  proof (cases "top_by f t")
    case None
    with Cons show ?thesis by simp
  next
    case (Some s)
    then have "s \<in> set t \<and> (\<forall>u \<in> set t. f u \<le> f s)" by (rule Cons.IH)
    with Cons.prems Some show ?thesis by (auto split: if_splits)
  qed
qed

section \<open>Sequences of operations\<close>

text \<open>Operations applied one after the other; the sequence stops at the first that throws.\<close>

fun fold_res :: "('i \<Rightarrow> 'd \<Rightarrow> ('d \<times> 'r) res) \<Rightarrow> 'i list \<Rightarrow> 'd \<Rightarrow> ('d \<times> 'r list) res" where
  "fold_res f [] d = Inr (d, [])"
| "fold_res f (i # is) d = res_bind (f i d) (\<lambda>(d1, r).
     res_bind (fold_res f is d1) (\<lambda>(d2, rs). Inr (d2, r # rs)))"

lemma fold_res_ConsE:
  assumes "fold_res f (i # is) d = Inr (d2, rs)"
  obtains d1 r rs1 where "f i d = Inr (d1, r)" "fold_res f is d1 = Inr (d2, rs1)" "rs = r # rs1"
  using assms by (auto simp: res_bind_Inr split: prod.splits)

lemma fold_res_invariant:
  assumes "\<And>i d d' r. I d \<Longrightarrow> f i d = Inr (d', r) \<Longrightarrow> I d'"
    and "fold_res f is d = Inr (d', rs)" "I d"
  shows "I d'"
  using assms(2,3)
proof (induction "is" arbitrary: d rs)
  case Nil
  then show ?case by simp
next
  case (Cons i "is")
  from Cons.prems(1) show ?case
    by (rule fold_res_ConsE) (use Cons assms(1) in blast)
qed

lemma fold_res_relation:
  assumes "\<And>d. R d d" "\<And>a b c. R a b \<Longrightarrow> R b c \<Longrightarrow> R a c"
    and "\<And>i d d' r. f i d = Inr (d', r) \<Longrightarrow> R d d'"
    and "fold_res f is d = Inr (d', rs)"
  shows "R d d'"
  using assms(4)
proof (induction "is" arbitrary: d rs)
  case Nil
  then show ?case using assms(1) by simp
next
  case (Cons i "is")
  from Cons.prems(1) show ?case
    by (rule fold_res_ConsE) (use Cons assms(2,3) in blast)
qed

end
