(* ===== verification/Release_Identity.thy ===== *)
theory Release_Identity
  imports Prelude
begin

text \<open>
  The release contract, \<open>src/media-search/src/api/release-contract.js\<close>: the canonical
  identity \<open>(infoHash, fileIndex)\<close> of a physical release, its printed key, the validation of
  an identity supplied at a public boundary, the legacy handoff reader and the projection to
  the public response shape.
\<close>

section \<open>Definitions\<close>

record release_identity =
  ri_infoHash :: string
  ri_fileIndex :: "int option"
  ri_releaseKey :: string

definition hex_chars :: "char set" where
  "hex_chars = set ''0123456789abcdef''"

definition info_hash_pattern :: "string \<Rightarrow> bool" where
  "info_hash_pattern s \<longleftrightarrow> length s = 40 \<and> list_all (\<lambda>c. c \<in> hex_chars) s"

definition public_release_fields :: "string list" where
  "public_release_fields =
     [''title'', ''filename'', ''size'', ''resolution'', ''quality'', ''codec'', ''hdr'', ''audio'',
      ''releaseGroup'', ''year'', ''season'', ''episode'', ''confidence'', ''score'',
      ''components'', ''providers'', ''providerObservations'', ''media'', ''_source'',
      ''_sources'', ''_selectedMediaId'', ''_provenance'', ''_justification'']"

fun require_release_object :: "jv \<Rightarrow> (string \<times> jv) list res" where
  "require_release_object (JObj ps) = Inr ps"
| "require_release_object _ = Inl (JsError ''release is required'')"

definition normalize_info_hash :: "jv \<Rightarrow> string res" where
  "normalize_info_hash v =
     (let normalized = (case v of JStr s \<Rightarrow> js_lower s | _ \<Rightarrow> [])
      in if info_hash_pattern normalized then Inr normalized
         else Inl (JsError ''infoHash must be 40 hexadecimal characters''))"

definition validate_file_index :: "jv \<Rightarrow> int option res" where
  "validate_file_index v = (case v of
      JNull \<Rightarrow> Inr None
    | JInt i \<Rightarrow> if is_safe_integer i \<and> 0 \<le> i then Inr (Some i)
               else Inl (JsError ''fileIndex must be null or a non-negative integer'')
    | _ \<Rightarrow> Inl (JsError ''fileIndex must be null or a non-negative integer''))"

definition release_key :: "string \<Rightarrow> int option \<Rightarrow> string" where
  "release_key h idx =
     h @ '':'' @ (case idx of None \<Rightarrow> ''torrent'' | Some i \<Rightarrow> show_nat (nat i))"

definition create_release_identity :: "jv \<Rightarrow> jv \<Rightarrow> release_identity res" where
  "create_release_identity infoHash fileIndex =
     res_bind (normalize_info_hash infoHash) (\<lambda>h.
     res_bind (validate_file_index fileIndex) (\<lambda>i.
       Inr \<lparr>ri_infoHash = h, ri_fileIndex = i, ri_releaseKey = release_key h i\<rparr>))"

definition create_release_key :: "jv \<Rightarrow> jv \<Rightarrow> string res" where
  "create_release_key infoHash fileIndex =
     res_bind (create_release_identity infoHash fileIndex) (\<lambda>r. Inr (ri_releaseKey r))"

definition validate_release_identity :: "jv \<Rightarrow> release_identity res" where
  "validate_release_identity release =
     res_bind (require_release_object release) (\<lambda>ps.
     res_bind (ensure (has_own ps ''fileIndex'') (JsError ''fileIndex is required'')) (\<lambda>_.
     res_bind (ensure (has_own ps ''releaseKey'') (JsError ''releaseKey is required'')) (\<lambda>_.
     res_bind (create_release_identity (prop_of ps ''infoHash'') (prop_of ps ''fileIndex'')) (\<lambda>r.
     res_bind (ensure (prop_of ps ''releaseKey'' = JStr (ri_releaseKey r))
                 (JsError ''releaseKey must match infoHash and fileIndex'')) (\<lambda>_.
       Inr r)))))"

definition read_handoff_release_identity :: "jv \<Rightarrow> release_identity res" where
  "read_handoff_release_identity release =
     res_bind (require_release_object release) (\<lambda>ps.
       let hasFileIndex = has_own ps ''fileIndex''; hasReleaseKey = has_own ps ''releaseKey''
       in if \<not> hasFileIndex \<and> \<not> hasReleaseKey
          then create_release_identity (prop_of ps ''infoHash'') JNull
          else if hasFileIndex \<noteq> hasReleaseKey
          then Inl (JsError ''fileIndex and releaseKey must be provided together'')
          else validate_release_identity (JObj ps))"

text \<open>The public projection: the required fields, the optional ones with their defaults.\<close>

definition optional_release_fields :: "string list" where
  "optional_release_fields =
     [''_sources'', ''_selectedMediaId'', ''providerObservations'', ''_provenance'', ''_justification'']"

definition array_or_empty :: "jv \<Rightarrow> jv" where
  "array_or_empty v = (case v of JArr xs \<Rightarrow> JArr xs | _ \<Rightarrow> JArr [])"

definition object_or_null :: "jv \<Rightarrow> jv" where
  "object_or_null v = (case v of JArr xs \<Rightarrow> JArr xs | JObj ps \<Rightarrow> JObj ps | _ \<Rightarrow> JNull)"

definition value_or_null :: "jv \<Rightarrow> jv" where
  "value_or_null v = (if v = JUndef then JNull else v)"

definition public_field :: "(string \<times> jv) list \<Rightarrow> string \<Rightarrow> jv" where
  "public_field ps f =
     (if f = ''_sources'' then array_or_empty (prop_of ps f)
      else if f = ''_selectedMediaId'' then value_or_null (prop_of ps f)
      else if f = ''providerObservations'' then array_or_empty (prop_of ps f)
      else if f = ''_provenance'' then object_or_null (prop_of ps f)
      else if f = ''_justification'' then object_or_null (prop_of ps f)
      else prop_of ps f)"

definition identity_entries :: "release_identity \<Rightarrow> (string \<times> jv) list" where
  "identity_entries r =
     [(''infoHash'', JStr (ri_infoHash r)),
      (''fileIndex'', case ri_fileIndex r of None \<Rightarrow> JNull | Some i \<Rightarrow> JInt i),
      (''releaseKey'', JStr (ri_releaseKey r))]"

definition to_public_release_dto :: "jv \<Rightarrow> (string \<times> jv) list res" where
  "to_public_release_dto release =
     res_bind (require_release_object release) (\<lambda>ps.
     res_bind (validate_release_identity (JObj ps)) (\<lambda>r.
       if list_all (has_own ps)
            (filter (\<lambda>f. f \<notin> set optional_release_fields) public_release_fields)
       then Inr (identity_entries r @ map (\<lambda>f. (f, public_field ps f)) public_release_fields)
       else Inl (JsError ''Public release is missing a field'')))"

section \<open>Lemmas\<close>

definition valid_identity :: "release_identity \<Rightarrow> bool" where
  "valid_identity r \<longleftrightarrow> info_hash_pattern (ri_infoHash r)
     \<and> (\<forall>i. ri_fileIndex r = Some i \<longrightarrow> is_safe_integer i \<and> 0 \<le> i)
     \<and> ri_releaseKey r = release_key (ri_infoHash r) (ri_fileIndex r)"

lemma normalize_info_hash_Inr [guard_simps]:
  "(normalize_info_hash v = Inr h) = (\<exists>s. v = JStr s \<and> h = js_lower s \<and> info_hash_pattern h)"
  by (cases v) (auto simp: normalize_info_hash_def Let_def info_hash_pattern_def)

lemma validate_file_index_Inr [guard_simps]:
  "(validate_file_index v = Inr r) =
     (v = JNull \<and> r = None \<or> (\<exists>i. v = JInt i \<and> is_safe_integer i \<and> 0 \<le> i \<and> r = Some i))"
  by (cases v) (auto simp: validate_file_index_def)

lemma create_release_identity_valid:
  "create_release_identity h i = Inr r \<Longrightarrow> valid_identity r"
  by (auto simp: create_release_identity_def guard_simps valid_identity_def)

lemma create_torrent_identity:
  "create_release_identity h JNull = Inr r \<Longrightarrow> ri_fileIndex r = None"
  by (auto simp: create_release_identity_def guard_simps)

lemma validate_release_identity_valid:
  "validate_release_identity v = Inr r \<Longrightarrow> valid_identity r"
  by (auto simp: validate_release_identity_def guard_simps dest: create_release_identity_valid)

lemma valid_identity_eqI:
  "valid_identity r \<Longrightarrow> valid_identity s \<Longrightarrow> ri_infoHash r = ri_infoHash s
   \<Longrightarrow> ri_fileIndex r = ri_fileIndex s \<Longrightarrow> r = s"
  by (simp add: valid_identity_def)

lemma hex_lower: "c \<in> hex_chars \<Longrightarrow> lower_char c = c"
  by (auto simp: hex_chars_def lower_char_def code_of_def Let_def)

lemma js_lower_hex: "info_hash_pattern s \<Longrightarrow> js_lower s = s"
  unfolding info_hash_pattern_def js_lower_def
  by (auto simp: list_all_iff hex_lower intro: map_idI)

lemma release_key_torrent_not_index:
  "show_nat n \<noteq> ''torrent''"
proof
  assume "show_nat n = ''torrent''"
  then have "CHR ''t'' \<in> set (show_nat n)" by simp
  then have "is_digit (CHR ''t'')" by (rule show_nat_digits)
  then show False by (simp add: is_digit_def code_of_def)
qed

lemma release_key_inj_gen:
  assumes "length h = length h'" "\<And>x. i = Some x \<Longrightarrow> 0 \<le> x" "\<And>x. j = Some x \<Longrightarrow> 0 \<le> x"
  shows "(release_key h i = release_key h' j) = (h = h' \<and> i = j)"
  using assms release_key_torrent_not_index not_sym [OF release_key_torrent_not_index]
  by (auto simp: release_key_def split: option.splits)

lemma identity_round_trip:
  assumes "valid_identity r"
  shows "validate_release_identity (JObj (identity_entries r)) = Inr r"
proof -
  have c: "create_release_identity (JStr (ri_infoHash r))
      (case ri_fileIndex r of None \<Rightarrow> JNull | Some i \<Rightarrow> JInt i) = Inr r"
    using assms
    by (cases r; cases "ri_fileIndex r")
       (auto simp: create_release_identity_def normalize_info_hash_def validate_file_index_def
         valid_identity_def js_lower_hex)
  show ?thesis
    by (simp add: validate_release_identity_def identity_entries_def has_own_def prop_of_def c)
qed

end
