(* ===== verification/Canonical_Path.thy ===== *)
theory Canonical_Path
  imports Prelude
begin

text \<open>
  Library identity keys and canonical paths,
  \<open>src/media-search/src/lib/control-plane/canonical-path.js\<close>. Unicode normalisation
  (\<open>String.normalize('NFKC')\<close>) and the SHA-256 digest in hexadecimal are the parameters
  \<open>nfkc\<close> and \<open>sha256\<close>.
\<close>

section \<open>Definitions\<close>

datatype media_type = Movie | Episode

definition max_segment_length :: nat where "max_segment_length = 160"
definition max_path_length :: nat where "max_path_length = 768"

definition is_control :: "char \<Rightarrow> bool" where
  "is_control c \<longleftrightarrow> code_of c < 32 \<or> code_of c = 127"

definition reserved_chars :: string where
  "reserved_chars = [CHR 0x5C, CHR ''/'', CHR '':'', CHR ''*'', CHR ''?'', CHR 0x22, CHR ''<'', CHR ''>'', CHR ''|'']"

text \<open>\<open>replace(/\s+/g, ' ')\<close> and \<open>replace(/\/+/g, '/')\<close>: a run becomes one character.\<close>

fun collapse_from :: "(char \<Rightarrow> bool) \<Rightarrow> char \<Rightarrow> bool \<Rightarrow> string \<Rightarrow> string" where
  "collapse_from P c inRun [] = []"
| "collapse_from P c inRun (x # xs) =
     (if P x then (if inRun then collapse_from P c True xs else c # collapse_from P c True xs)
      else x # collapse_from P c False xs)"

definition collapse :: "(char \<Rightarrow> bool) \<Rightarrow> char \<Rightarrow> string \<Rightarrow> string" where
  "collapse P c s = collapse_from P c False s"

definition trim_end :: "(char \<Rightarrow> bool) \<Rightarrow> string \<Rightarrow> string" where
  "trim_end P s = rev (dropWhile P (rev s))"

definition sanitize_path_segment :: "(string \<Rightarrow> string) \<Rightarrow> string \<Rightarrow> string option \<Rightarrow> string res" where
  "sanitize_path_segment nfkc value fallback =
     (let s1 = filter (\<lambda>c. \<not> is_control c) (nfkc value);
          s2 = map (\<lambda>c. if c \<in> set reserved_chars then CHR '' '' else c) s1;
          s3 = collapse js_space (CHR '' '') s2;
          s4 = trim_end (\<lambda>c. c = CHR ''.'' \<or> c = CHR '' '') s3;
          safe = js_trim s4;
          safe' = (if safe = [] then (case fallback of None \<Rightarrow> [] | Some f \<Rightarrow> f) else safe)
      in if safe' = [] then Inl (TypeError ''canonicalPath contains an empty unsafe segment'')
         else if max_segment_length < length safe'
         then Inr (trim_end js_space (take max_segment_length safe'))
         else Inr safe')"

fun split_on :: "char \<Rightarrow> string \<Rightarrow> string list" where
  "split_on c [] = [[]]"
| "split_on c (x # xs) =
     (if x = c then [] # split_on c xs
      else (case split_on c xs of [] \<Rightarrow> [[x]] | s # ss \<Rightarrow> (x # s) # ss))"

fun join_with :: "char \<Rightarrow> string list \<Rightarrow> string" where
  "join_with c [] = []"
| "join_with c [s] = s"
| "join_with c (s # ss) = s @ c # join_with c ss"

fun map_res :: "('a \<Rightarrow> 'b res) \<Rightarrow> 'a list \<Rightarrow> 'b list res" where
  "map_res f [] = Inr []"
| "map_res f (x # xs) = res_bind (f x) (\<lambda>y. res_bind (map_res f xs) (\<lambda>ys. Inr (y # ys)))"

definition has_drive_prefix :: "string \<Rightarrow> bool" where
  "has_drive_prefix s = (case s of a # b # c # _ \<Rightarrow> is_letter a \<and> b = CHR '':'' \<and> c = CHR ''/'' | _ \<Rightarrow> False)"

definition dot_segment :: "string \<Rightarrow> bool" where
  "dot_segment s \<longleftrightarrow> s = [] \<or> s = ''.'' \<or> s = ''..''"

definition normalize_canonical_path :: "(string \<Rightarrow> string) \<Rightarrow> string option \<Rightarrow> string res" where
  "normalize_canonical_path nfkc value = (case value of
      None \<Rightarrow> Inl (TypeError ''canonicalPath must be a non-empty relative path'')
    | Some v \<Rightarrow>
       if js_trim v = [] then Inl (TypeError ''canonicalPath must be a non-empty relative path'')
       else let normalized = collapse (\<lambda>c. c = CHR ''/'') (CHR ''/'')
                   (map (\<lambda>c. if c = CHR 0x5C then CHR ''/'' else c) (js_trim v))
            in if normalized \<noteq> [] \<and> hd normalized = CHR ''/'' \<or> has_drive_prefix normalized
               then Inl (TypeError ''canonicalPath must be relative'')
               else if list_ex dot_segment (split_on (CHR ''/'') normalized)
               then Inl (TypeError ''canonicalPath cannot contain empty, dot, or parent segments'')
               else res_bind (map_res (\<lambda>s. sanitize_path_segment nfkc s None)
                                (split_on (CHR ''/'') normalized)) (\<lambda>segs.
                      let safe = join_with (CHR ''/'') segs
                      in if max_path_length < length safe
                         then Inl (TypeError ''canonicalPath is too long'') else Inr safe))"

definition normalize_extension :: "string option \<Rightarrow> string res" where
  "normalize_extension value = (case value of
      None \<Rightarrow> Inl (TypeError ''extension must be a dot-prefixed alphanumeric file extension'')
    | Some v \<Rightarrow> (case js_trim v of
         d # e \<Rightarrow> if d = CHR ''.'' \<and> e \<noteq> [] \<and> length e \<le> 10 \<and> list_all ident_head e
                  then Inr (js_lower (d # e))
                  else Inl (TypeError ''extension must be a dot-prefixed alphanumeric file extension'')
       | [] \<Rightarrow> Inl (TypeError ''extension must be a dot-prefixed alphanumeric file extension'')))"

definition normalize_media_type :: "string \<Rightarrow> media_type res" where
  "normalize_media_type v =
     (if v = ''movie'' then Inr Movie else if v = ''episode'' then Inr Episode
      else Inl (TypeError ''mediaType must be movie or episode''))"

definition media_type_name :: "media_type \<Rightarrow> string" where
  "media_type_name t = (case t of Movie \<Rightarrow> ''movie'' | Episode \<Rightarrow> ''episode'')"

definition normalize_optional_integer :: "int option \<Rightarrow> string \<Rightarrow> int option res" where
  "normalize_optional_integer v field = (case v of
      None \<Rightarrow> Inr None
    | Some i \<Rightarrow> if \<not> is_safe_integer i \<or> i < 0 then Inl (TypeError field) else Inr (Some i))"

definition normalize_identity_part :: "string option \<Rightarrow> string \<Rightarrow> string res" where
  "normalize_identity_part v field = require_string v field 256"

definition pad2 :: "int \<Rightarrow> string" where
  "pad2 i = (let s = show_nat (nat i) in if length s < 2 then CHR ''0'' # s else s)"

record path_item =
  pi_mediaType :: media_type
  pi_title :: string
  pi_year :: "int option"
  pi_season :: "int option"
  pi_episode :: "int option"

definition build_preferred_canonical_path ::
  "(string \<Rightarrow> string) \<Rightarrow> path_item \<Rightarrow> string option \<Rightarrow> string res" where
  "build_preferred_canonical_path nfkc item ext =
     res_bind (sanitize_path_segment nfkc (pi_title item) (Some ''Untitled'')) (\<lambda>title.
     res_bind (normalize_extension (Some (nullish ext ''.mkv''))) (\<lambda>extension.
     res_bind (normalize_optional_integer (pi_year item) ''year'') (\<lambda>year.
       let yearSuffix = (case year of None \<Rightarrow> [] | Some y \<Rightarrow> '' ('' @ show_nat (nat y) @ '')'')
       in case pi_mediaType item of
            Movie \<Rightarrow> let display = title @ yearSuffix
                     in normalize_canonical_path nfkc
                          (Some (''Movies/'' @ display @ ''/'' @ display @ extension))
          | Episode \<Rightarrow>
              res_bind (normalize_optional_integer (pi_season item) ''season'') (\<lambda>season.
              res_bind (normalize_optional_integer (pi_episode item) ''episode'') (\<lambda>episode.
                case (season, episode) of
                  (Some s, Some e) \<Rightarrow> normalize_canonical_path nfkc
                     (Some (''TV/'' @ title @ yearSuffix @ ''/Season '' @ pad2 s @ ''/'' @ title
                        @ '' - S'' @ pad2 s @ ''E'' @ pad2 e @ extension))
                | _ \<Rightarrow> Inl (TypeError ''Episode canonical paths require season and episode''))))))"

text \<open>\<open>path.posix.parse\<close> of a relative path without trailing slash: directory, name, extension.\<close>

definition posix_parse :: "string \<Rightarrow> string \<times> string \<times> string" where
  "posix_parse p =
     (let base = rev (takeWhile (\<lambda>c. c \<noteq> CHR ''/'') (rev p));
          dir = rev (drop 1 (dropWhile (\<lambda>c. c \<noteq> CHR ''/'') (rev p)));
          suf = rev (takeWhile (\<lambda>c. c \<noteq> CHR ''.'') (rev base));
          stem = rev (drop 1 (dropWhile (\<lambda>c. c \<noteq> CHR ''.'') (rev base)))
      in if CHR ''.'' \<notin> set base \<or> stem = [] \<or> base = ''..'' then (dir, base, [])
         else (dir, stem, CHR ''.'' # suf))"

definition add_deterministic_collision_suffix ::
  "(string \<Rightarrow> string) \<Rightarrow> (string \<Rightarrow> string) \<Rightarrow> string \<Rightarrow> string \<Rightarrow> string res" where
  "add_deterministic_collision_suffix nfkc sha256 canonicalPath identityKey =
     res_bind (normalize_canonical_path nfkc (Some canonicalPath)) (\<lambda>normalized.
       if identityKey = [] then Inl (TypeError ''identityKey is required for collision handling'')
       else let token = take 10 (sha256 identityKey); (dir, name, ext) = posix_parse normalized
            in Inr ((if dir = [] then [] else dir @ ''/'') @ name @ '' ['' @ token @ '']'' @ ext))"

definition stable_library_item_id :: "(string \<Rightarrow> string) \<Rightarrow> string \<Rightarrow> string res" where
  "stable_library_item_id sha256 identityKey =
     (if identityKey = [] then Inl (TypeError ''identityKey is required'')
      else Inr (''li_'' @ take 24 (sha256 identityKey)))"

definition create_library_identity_key ::
  "string \<Rightarrow> string option \<Rightarrow> int option \<Rightarrow> int option \<Rightarrow> string option \<Rightarrow> string res" where
  "create_library_identity_key mediaType mediaId season episode editionKey =
     res_bind (normalize_media_type mediaType) (\<lambda>type.
     res_bind (normalize_identity_part mediaId ''mediaId'') (\<lambda>i.
     res_bind (normalize_identity_part (Some (nullish editionKey ''default'')) ''editionKey'') (\<lambda>ed.
       let edition = js_lower ed; base = media_type_name type @ '':'' @ i @ '':'' @ edition
       in case type of
            Movie \<Rightarrow> Inr base
          | Episode \<Rightarrow> (case (season, episode) of
              (Some s, Some e) \<Rightarrow>
                 if \<not> is_safe_integer s \<or> s < 0
                 then Inl (TypeError ''season must be a non-negative safe integer for episode identity'')
                 else if \<not> is_safe_integer e \<or> e < 1
                 then Inl (TypeError ''episode must be a positive safe integer for episode identity'')
                 else Inr (base @ '':'' @ show_nat (nat s) @ '':'' @ show_nat (nat e))
            | (None, _) \<Rightarrow> Inl (TypeError ''season must be a non-negative safe integer for episode identity'')
            | (Some s, None) \<Rightarrow>
                 if \<not> is_safe_integer s \<or> s < 0
                 then Inl (TypeError ''season must be a non-negative safe integer for episode identity'')
                 else Inl (TypeError ''episode must be a positive safe integer for episode identity'')))))"

section \<open>Lemmas\<close>

lemma set_dropWhile_subset: "set (dropWhile P xs) \<subseteq> set xs"
  using set_dropWhileD by fast

lemma set_js_trim: "set (js_trim s) \<subseteq> set s"
  unfolding js_trim_def using set_dropWhile_subset by (metis order_trans set_rev)

lemma set_trim_end: "set (trim_end P s) \<subseteq> set s"
  unfolding trim_end_def using set_dropWhile_subset by (metis set_rev)

lemma set_collapse_from: "set (collapse_from P c b s) \<subseteq> insert c (set s)"
  by (induction P c b s rule: collapse_from.induct) auto

lemma set_collapse: "set (collapse P c s) \<subseteq> insert c (set s)"
  unfolding collapse_def by (rule set_collapse_from)

text \<open>After collapsing no two neighbours are in the class, and its only member left is \<open>c\<close>.\<close>

lemma collapse_from_hd:
  "b \<Longrightarrow> collapse_from P c b s \<noteq> [] \<Longrightarrow> \<not> P (hd (collapse_from P c b s))"
  by (induction P c b s rule: collapse_from.induct) (auto split: if_splits)

lemma collapse_from_successively:
  "successively (\<lambda>x y. \<not> (P x \<and> P y)) (collapse_from P c b s)"
proof (induction P c b s rule: collapse_from.induct)
  case (1 P c b)
  then show ?case by simp
next
  case (2 P c b x xs)
  have "collapse_from P c True xs \<noteq> [] \<Longrightarrow> \<not> P (hd (collapse_from P c True xs))"
    by (rule collapse_from_hd) simp_all
  with 2 show ?case by (auto simp: successively_Cons)
qed

lemma collapse_from_class: "x \<in> set (collapse_from P c b s) \<Longrightarrow> P x \<Longrightarrow> x = c"
  by (induction P c b s rule: collapse_from.induct) (auto split: if_splits)

lemma successively_take: "successively R xs \<Longrightarrow> successively R (take n xs)"
  by (metis append_take_drop_id successively_append_iff)

lemma successively_dropWhile: "successively R xs \<Longrightarrow> successively R (dropWhile Q xs)"
  by (metis takeWhile_dropWhile_id successively_append_iff)

lemma length_dropWhile_successively:
  "successively (\<lambda>x y. \<not> (P x \<and> P y)) xs \<Longrightarrow> length xs \<le> Suc (length (dropWhile P xs))"
  by (cases xs rule: remdups_adj.cases) (auto simp: successively_Cons)

lemma length_trim_end_successively:
  assumes "successively (\<lambda>x y. \<not> (P x \<and> P y)) xs"
  shows "length xs \<le> Suc (length (trim_end P xs))"
proof -
  have "successively (\<lambda>x y. \<not> (P x \<and> P y)) (rev xs)"
    using assms by (auto simp: successively_rev elim: successively_mono)
  then show ?thesis
    using length_dropWhile_successively [of P "rev xs"] by (simp add: trim_end_def)
qed

lemma trim_end_last: "trim_end P s \<noteq> [] \<Longrightarrow> \<not> P (last (trim_end P s))"
  unfolding trim_end_def by (metis hd_dropWhile last_rev rev_is_Nil_conv)

lemma trim_end_stable: "s \<noteq> [] \<Longrightarrow> \<not> P (last s) \<Longrightarrow> trim_end P s = s"
  by (cases s rule: rev_cases) (auto simp: trim_end_def)

text \<open>A segment is safe: not empty, no separator, neither \<open>.\<close> nor \<open>..\<close>.\<close>

definition safe_segment :: "string \<Rightarrow> bool" where
  "safe_segment s \<longleftrightarrow> s \<noteq> [] \<and> CHR ''/'' \<notin> set s \<and> CHR 0x5C \<notin> set s \<and> s \<noteq> ''.'' \<and> s \<noteq> ''..''
     \<and> length s \<le> max_segment_length"

lemma successively_trim_end: "successively R xs \<Longrightarrow> successively R (trim_end Q xs)"
proof -
  assume "successively R xs"
  then have "successively (\<lambda>x y. R y x) (rev xs)" by (simp add: successively_rev)
  then have "successively (\<lambda>x y. R y x) (dropWhile Q (rev xs))" by (rule successively_dropWhile)
  then show ?thesis by (simp add: trim_end_def successively_rev)
qed

lemma js_trim_conv: "js_trim s = trim_end js_space (dropWhile js_space s)"
  by (simp add: js_trim_def trim_end_def)

lemma last_dropWhile: "dropWhile P s \<noteq> [] \<Longrightarrow> last (dropWhile P s) = last s"
  by (metis last_append takeWhile_dropWhile_id)

lemma sanitize_safe:
  assumes "sanitize_path_segment nfkc v None = Inr s"
  shows "safe_segment s"
proof -
  define s2 where "s2 = map (\<lambda>c. if c \<in> set reserved_chars then CHR '' '' else c)
     (filter (\<lambda>c. \<not> is_control c) (nfkc v))"
  define s3 where "s3 = collapse js_space (CHR '' '') s2"
  define s4 where "s4 = trim_end (\<lambda>c. c = CHR ''.'' \<or> c = CHR '' '') s3"
  define safe where "safe = js_trim s4"
  have s: "safe \<noteq> []" "s = (if max_segment_length < length safe
      then trim_end js_space (take max_segment_length safe) else safe)"
    using assms by (auto simp: sanitize_path_segment_def Let_def s2_def s3_def s4_def safe_def
        split: if_splits)
  have res: "CHR ''/'' \<in> set reserved_chars" "CHR 0x5C \<in> set reserved_chars"
    "CHR '' '' \<notin> set reserved_chars" by (simp_all add: reserved_chars_def)
  have "set s2 \<inter> set reserved_chars = {}" using res(3) by (auto simp: s2_def)
  moreover have "set s3 \<subseteq> insert (CHR '' '') (set s2)"
    unfolding s3_def by (rule set_collapse)
  moreover have "set safe \<subseteq> set s3"
    unfolding safe_def s4_def using set_js_trim set_trim_end by blast
  ultimately have no_res: "set safe \<inter> set reserved_chars = {}" using res(3) by blast
  have sub: "set s \<subseteq> set safe"
    using s(2) set_trim_end [of js_space "take max_segment_length safe"]
      set_take_subset [of max_segment_length safe] by (auto split: if_splits)
  have succ3: "successively (\<lambda>x y. \<not> (js_space x \<and> js_space y)) s3"
    unfolding s3_def collapse_def by (rule collapse_from_successively)
  then have succ: "successively (\<lambda>x y. \<not> (js_space x \<and> js_space y)) safe"
    unfolding safe_def s4_def js_trim_conv
    by (intro successively_trim_end successively_dropWhile)
  have space3: "x \<in> set s3 \<Longrightarrow> js_space x \<Longrightarrow> x = CHR '' ''" for x
    unfolding s3_def collapse_def by (rule collapse_from_class)
  show ?thesis
  proof (cases "max_segment_length < length safe")
    case True
    with s(2) have s': "s = trim_end js_space (take max_segment_length safe)" by simp
    have "length (take max_segment_length safe) \<le> Suc (length s)"
      unfolding s' using succ by (intro length_trim_end_successively successively_take)
    with True have long: "159 \<le> length s" by (simp add: max_segment_length_def)
    have "length s \<le> max_segment_length"
      unfolding s' trim_end_def using length_dropWhile_le
      by (metis length_rev length_take min.bounded_iff order_trans order_refl)
    with long no_res res sub show ?thesis by (auto simp: safe_segment_def)
  next
    case False
    with s have s': "s = safe" by simp
    have ned: "dropWhile js_space s4 \<noteq> []"
      using s(1) unfolding safe_def js_trim_conv trim_end_def by (metis dropWhile.simps(1) rev.simps(1))
    then have ne4: "s4 \<noteq> []" by auto
    then have l4: "last s4 \<noteq> CHR ''.'' \<and> last s4 \<noteq> CHR '' ''"
      using trim_end_last [of "\<lambda>c. c = CHR ''.'' \<or> c = CHR '' ''" s3] by (simp add: s4_def)
    have "last s4 \<in> set s3"
      using ne4 set_trim_end [of "\<lambda>c. c = CHR ''.'' \<or> c = CHR '' ''" s3] unfolding s4_def
      by (meson last_in_set subsetD)
    with space3 l4 have "\<not> js_space (last s4)" by blast
    then have "safe = dropWhile js_space s4"
      unfolding safe_def js_trim_conv using ned by (intro trim_end_stable) (simp_all add: last_dropWhile)
    with ned l4 have "last safe \<noteq> CHR ''.''" by (simp add: last_dropWhile)
    with False s s' no_res res show ?thesis by (auto simp: safe_segment_def)
  qed
qed

lemma split_on_join:
  "ss \<noteq> [] \<Longrightarrow> \<forall>s \<in> set ss. c \<notin> set s \<Longrightarrow> split_on c (join_with c ss) = ss"
proof (induction ss rule: induct_list012)
  case 1
  then show ?case by simp
next
  case (2 s)
  have "c \<notin> set s \<Longrightarrow> split_on c s = [s]" by (induction s) auto
  with 2 show ?case by simp
next
  case (3 s t ss)
  have app: "c \<notin> set s \<Longrightarrow> split_on c (s @ c # u) = s # split_on c u" for u
    by (induction s) auto
  from 3 show ?case by (simp add: app)
qed

lemma map_res_Inr:
  "map_res f xs = Inr ys \<Longrightarrow> length ys = length xs \<and> (\<forall>y \<in> set ys. \<exists>x \<in> set xs. f x = Inr y)"
  by (induction xs arbitrary: ys) (fastforce simp: guard_simps)+

lemma split_on_nonempty [simp]: "split_on c s \<noteq> []"
  by (cases s) (auto split: list.splits)

lemma normalize_canonical_path_cases:
  assumes "normalize_canonical_path nfkc v = Inr p"
  obtains segs where "segs \<noteq> []" "\<forall>s \<in> set segs. safe_segment s"
    "p = join_with (CHR ''/'') segs" "length p \<le> max_path_length"
proof -
  from assms have "\<exists>w segs. map_res (\<lambda>s. sanitize_path_segment nfkc s None) (split_on (CHR ''/'') w) = Inr segs
      \<and> p = join_with (CHR ''/'') segs \<and> length p \<le> max_path_length"
    by (cases v) (fastforce simp: normalize_canonical_path_def Let_def res_bind_Inr
        simp del: split_on.simps split: if_splits)+
  then obtain w segs where
    m: "map_res (\<lambda>s. sanitize_path_segment nfkc s None) (split_on (CHR ''/'') w) = Inr segs"
    and p: "p = join_with (CHR ''/'') segs" "length p \<le> max_path_length"
    by blast
  from map_res_Inr [OF m] have "segs \<noteq> []" "\<forall>s \<in> set segs. safe_segment s"
    by (auto dest: sanitize_safe)
  with p that show thesis by blast
qed

end
