(* ===== verification/Store_Schema.thy ===== *)
theory Store_Schema
  imports Release_Identity Canonical_Path "HOL-Library.Countable"
begin

text \<open>
  The control-plane database, \<open>src/media-search/src/lib/control-plane/store.js\<close>: one record per
  table of \<open>CONTROL_PLANE_SCHEMA\<close>, the enumerations of its \<open>CHECK\<close> constraints, and the state
  \<open>db\<close> with all tables. A nullable column is an option; a JSON column is its text; a primary key
  that SQLite assigns (\<open>AUTOINCREMENT\<close>) is a natural number.
\<close>

section \<open>Enumerations\<close>

datatype desired_state = DesPresent | DesAbsent
datatype placement_state = PsPending | PsReady | PsDegraded | PsError | PsRemoved | PsUnknown
datatype ownership = Owned | Reused | External | OwnUnknown
datatype observation_state = ObPresent | ObMissing | ObError
datatype mapping_state = Unmapped | Mapped | Incomplete | Conflict
datatype candidate_state = CmMapped | CmAmbiguous | CmMissing | CmStale
datatype exposure_state = ExPending | ExVisible | ExMissing | ExDegraded | ExError | ExUnknown
datatype binding_status = BdActive | BdSuperseded | BdDegraded | BdFailed
datatype repair_status = RpPlanned | RpAuthorized | RpExecuting | RpFailed | RpSucceeded
datatype step_status = StRunning | StSucceeded | StFailed
datatype evidence_state = EvUsable | EvTemporary | EvTerminal

definition parse_desired_state :: "string \<Rightarrow> desired_state option" where
  "parse_desired_state s = map_of [(''present'', DesPresent), (''absent'', DesAbsent)] s"

definition parse_placement_state :: "string \<Rightarrow> placement_state option" where
  "parse_placement_state s = map_of
     [(''pending'', PsPending), (''ready'', PsReady), (''degraded'', PsDegraded),
      (''error'', PsError), (''removed'', PsRemoved), (''unknown'', PsUnknown)] s"

definition parse_ownership :: "string \<Rightarrow> ownership option" where
  "parse_ownership s = map_of
     [(''owned'', Owned), (''reused'', Reused), (''external'', External), (''unknown'', OwnUnknown)] s"

definition parse_observation_state :: "string \<Rightarrow> observation_state option" where
  "parse_observation_state s = map_of
     [(''present'', ObPresent), (''missing'', ObMissing), (''error'', ObError)] s"

definition parse_candidate_state :: "string \<Rightarrow> candidate_state option" where
  "parse_candidate_state s = map_of
     [(''mapped'', CmMapped), (''ambiguous'', CmAmbiguous), (''missing'', CmMissing), (''stale'', CmStale)] s"

definition parse_exposure_state :: "string \<Rightarrow> exposure_state option" where
  "parse_exposure_state s = map_of
     [(''pending'', ExPending), (''visible'', ExVisible), (''missing'', ExMissing),
      (''degraded'', ExDegraded), (''error'', ExError), (''unknown'', ExUnknown)] s"

definition parse_evidence_state :: "string \<Rightarrow> evidence_state option" where
  "parse_evidence_state s = map_of
     [(''usable'', EvUsable), (''temporary'', EvTemporary), (''terminal'', EvTerminal)] s"

text \<open>
  \<open>requireEnum(value, allowed, field)\<close> throws a \<open>TypeError\<close>; an enumeration that only the table's
  \<open>CHECK\<close> constrains makes SQLite throw.
\<close>

definition require_enum :: "(string \<Rightarrow> 'e option) \<Rightarrow> string \<Rightarrow> string \<Rightarrow> 'e res" where
  "require_enum parse value field = (case parse value of
      None \<Rightarrow> Inl (TypeError field) | Some e \<Rightarrow> Inr e)"

definition check_enum :: "(string \<Rightarrow> 'e option) \<Rightarrow> string \<Rightarrow> string \<Rightarrow> 'e res" where
  "check_enum parse value field = (case parse value of
      None \<Rightarrow> Inl (SqlConstraint field) | Some e \<Rightarrow> Inr e)"

lemma require_enum_Inr [guard_simps]: "(require_enum p v f = Inr e) = (p v = Some e)"
  by (auto simp: require_enum_def split: option.splits)

lemma check_enum_Inr [guard_simps]: "(check_enum p v f = Inr e) = (p v = Some e)"
  by (auto simp: check_enum_def split: option.splits)

section \<open>Tables\<close>

record library_item =
  li_id :: string
  li_identity_key :: string
  li_media_type :: media_type
  li_media_id :: string
  li_edition_key :: string
  li_title :: string
  li_year :: "int option"
  li_season :: "int option"
  li_episode :: "int option"
  li_desired_state :: desired_state
  li_created_at :: int
  li_updated_at :: int
  li_publication_mode :: string
  li_retire_at :: "int option"
  li_first_played_at :: "int option"
  li_last_played_at :: "int option"
  li_max_progress :: "rat option"
  li_profile :: string
  li_intent :: string
  li_upgrade_policy :: string
  li_presentation_title :: "string option"
  li_presentation_year :: "int option"
  li_presentation_path :: "string option"
  li_presentation_strm_path :: "string option"
  li_presentation_committed_at :: "int option"

record library_path =
  lp_id :: string
  lp_library_item_id :: string
  lp_canonical_path :: string
  lp_preferred_path :: string
  lp_collision_key :: string
  lp_active :: bool
  lp_created_at :: int
  lp_retired_at :: "int option"

record placement =
  pl_id :: string
  pl_provider :: string
  pl_account_scope :: string
  pl_info_hash :: string
  pl_provider_resource_id :: string
  pl_state :: placement_state
  pl_ownership :: ownership
  pl_owner_key :: "string option"
  pl_provenance :: string
  pl_idempotency_key :: "string option"
  pl_observed_at :: int
  pl_expires_at :: "int option"
  pl_created_at :: int
  pl_updated_at :: int
  pl_failure_category :: "string option"
  pl_retryable :: "bool option"

record placement_observation =
  po_id :: string
  po_provider :: string
  po_account_scope :: string
  po_info_hash :: string
  po_observation_state :: observation_state
  po_placement_id :: "string option"
  po_observed_at :: int
  po_expires_at :: int
  po_source :: string
  po_failure_category :: "string option"
  po_retryable :: "bool option"

record readiness_observation =
  ro_placement_id :: string
  ro_state :: placement_state
  ro_observed_at :: int
  ro_expires_at :: int
  ro_source :: string
  ro_failure_category :: "string option"
  ro_retryable :: "bool option"

record torrent_file =
  tf_id :: string
  tf_info_hash :: string
  tf_internal_path :: string
  tf_size :: int
  tf_created_at :: int

text \<open>The JSON text of \<open>mapping_error\<close>, by its payload.\<close>

datatype mapping_error =
    InvalidSize
  | DuplicateCanonicalPath string "string list" int
  | SizeConflict string string int int int

record provider_file =
  pf_id :: string
  pf_placement_id :: string
  pf_provider_file_id :: string
  pf_path :: string
  pf_name :: string
  pf_size :: "int option"
  pf_selected :: "bool option"
  pf_media_hint :: "string option"
  pf_corpus_file_index :: "int option"
  pf_present :: bool
  pf_inventory_observed_at :: int
  pf_inventory_expires_at :: "int option"
  pf_missing_since :: "int option"
  pf_evidence :: "string option"
  pf_torrent_file_id :: "string option"
  pf_mapping_state :: mapping_state
  pf_mapping_error :: "mapping_error option"

record inventory_snapshot =
  iv_placement_id :: string
  iv_authoritative :: bool
  iv_complete :: bool
  iv_observed_at :: int
  iv_expires_at :: "int option"
  iv_file_count :: nat
  iv_evidence :: "string option"

record file_mapping =
  fm_id :: string
  fm_info_hash :: string
  fm_file_index :: "int option"
  fm_release_key :: string
  fm_placement_id :: string
  fm_provider_file_id :: string
  fm_state :: candidate_state
  fm_method :: string
  fm_authoritative :: bool
  fm_evidence :: "string option"
  fm_mapped_at :: int
  fm_failure_category :: "string option"

record exposure =
  ex_id :: string
  ex_placement_id :: string
  ex_provider_file_id :: string
  ex_account_scope :: string
  ex_mount_scope :: string
  ex_transport :: string
  ex_exposure_key :: string
  ex_relative_path :: "string option"
  ex_state :: exposure_state
  ex_read_only :: bool
  ex_observed_at :: int
  ex_expires_at :: "int option"
  ex_failure_category :: "string option"
  ex_retryable :: "bool option"

record zurg_observation =
  zm_id :: string
  zm_provider :: string
  zm_account_scope :: string
  zm_instance_scope :: string
  zm_info_hash :: string
  zm_metadata_path :: string
  zm_observation_state :: observation_state
  zm_zurg_state :: "string option"
  zm_zurg_state_when :: "int option"
  zm_observed_at :: int
  zm_expires_at :: "int option"
  zm_source :: string
  zm_failure_category :: "string option"
  zm_retryable :: "bool option"
  zm_evidence :: "string option"

record binding =
  bd_id :: string
  bd_library_item_id :: string
  bd_library_path_id :: string
  bd_release_key :: string
  bd_info_hash :: string
  bd_file_index :: "int option"
  bd_torrent_file_id :: string
  bd_placement_id :: string
  bd_provider_file_id :: string
  bd_exposure_id :: string
  bd_version :: nat
  bd_status :: binding_status
  bd_reason :: string
  bd_valid_from :: int
  bd_superseded_at :: "int option"
  bd_reconciled_at :: int
  bd_failure_category :: "string option"
  bd_representation_reason :: "string option"

record repair_scope =
  rs_account :: string
  rs_instance :: string
  rs_mount :: string

record plan_binding =
  pb_id :: string
  pb_version :: nat
  pb_placement_id :: string
  pb_provider_file_id :: string
  pb_exposure_id :: string

text \<open>
  The repair plan as the store keeps it and the executor reads it: its \<open>status\<close>, \<open>planKey\<close>,
  \<open>desiredIdentity\<close>, \<open>scope\<close>, \<open>binding\<close>, \<open>permittedActions\<close>, \<open>actionSequence\<close>, \<open>reason\<close> and
  \<open>evaluatedAt\<close>.
\<close>

record repair_plan =
  pn_status :: string
  pn_planKey :: string
  pn_desiredIdentity :: jv
  pn_scope :: "repair_scope option"
  pn_binding :: "plan_binding option"
  pn_permittedActions :: "string list"
  pn_actionSequence :: "string list"
  pn_reason :: string
  pn_evaluatedAt :: int

record repair_transaction =
  rt_id :: string
  rt_plan_key :: string
  rt_library_item_id :: string
  rt_info_hash :: string
  rt_file_index :: "int option"
  rt_release_key :: string
  rt_scope :: repair_scope
  rt_expected_binding_version :: nat
  rt_status :: repair_status
  rt_plan :: repair_plan
  rt_authorized_actions :: "string list"
  rt_authorized_by :: "string option"
  rt_created_at :: int
  rt_authorized_at :: "int option"
  rt_started_at :: "int option"
  rt_completed_at :: "int option"
  rt_updated_at :: int
  rt_failure_category :: "string option"

record repair_step =
  st_id :: nat
  st_transaction_id :: string
  st_action :: string
  st_status :: step_status
  st_attempt :: nat
  st_request :: "string option"
  st_result :: "string option"
  st_failure_category :: "string option"
  st_retryable :: "bool option"
  st_started_at :: int
  st_completed_at :: "int option"

record lifecycle_event =
  le_id :: nat
  le_library_item_id :: string
  le_milestone :: string
  le_status :: string
  le_occurred_at :: int
  le_failure_category :: "string option"
  le_retryable :: "bool option"
  le_retry_after_ms :: "int option"
  le_source :: string
  le_reason :: "string option"
  le_evidence :: "string option"
  le_correlation_id :: "string option"
  le_recorded_at :: int

record accepted_file =
  af_id :: nat
  af_library_item_id :: string
  af_torrent_file_id :: string
  af_source :: string
  af_reason :: string
  af_observed_at :: int
  af_evidence :: "string option"

record delivery_evidence =
  de_provider :: string
  de_account_scope :: string
  de_placement_id :: string
  de_provider_file_id :: string
  de_info_hash :: "string option"
  de_file_index_key :: int
  de_state :: evidence_state
  de_reason :: "string option"
  de_failure_category :: "string option"
  de_endpoint_class :: "string option"
  de_retry_after_ms :: "int option"
  de_observed_at :: int
  de_expires_at :: int
  de_recorded_at :: int

record db =
  db_items :: "library_item list"
  db_paths :: "library_path list"
  db_placements :: "placement list"
  db_placement_obs :: "placement_observation list"
  db_readiness :: "readiness_observation list"
  db_torrent_files :: "torrent_file list"
  db_provider_files :: "provider_file list"
  db_inventories :: "inventory_snapshot list"
  db_mappings :: "file_mapping list"
  db_exposures :: "exposure list"
  db_zurg :: "zurg_observation list"
  db_bindings :: "binding list"
  db_repairs :: "repair_transaction list"
  db_steps :: "repair_step list"
  db_events :: "lifecycle_event list"
  db_accepted :: "accepted_file list"
  db_delivery :: "delivery_evidence list"

definition empty_db :: db where
  "empty_db = \<lparr>db_items = [], db_paths = [], db_placements = [], db_placement_obs = [],
     db_readiness = [], db_torrent_files = [], db_provider_files = [], db_inventories = [],
     db_mappings = [], db_exposures = [], db_zurg = [], db_bindings = [], db_repairs = [],
     db_steps = [], db_events = [], db_accepted = [], db_delivery = []\<rparr>"

section \<open>Look-ups every operation shares\<close>

definition get_library_item :: "db \<Rightarrow> string \<Rightarrow> library_item option" where
  "get_library_item d i = find (\<lambda>r. li_id r = i) (db_items d)"

definition require_library_item :: "db \<Rightarrow> string \<Rightarrow> library_item res" where
  "require_library_item d i = (case get_library_item d i of
      None \<Rightarrow> Inl (JsError ''Unknown library item'') | Some r \<Rightarrow> Inr r)"

definition get_placement :: "db \<Rightarrow> string \<Rightarrow> placement option" where
  "get_placement d i = find (\<lambda>r. pl_id r = i) (db_placements d)"

definition require_placement :: "db \<Rightarrow> string \<Rightarrow> placement res" where
  "require_placement d i = (case get_placement d i of
      None \<Rightarrow> Inl (JsError ''Unknown provider placement'') | Some r \<Rightarrow> Inr r)"

definition get_provider_file :: "db \<Rightarrow> string \<Rightarrow> string \<Rightarrow> provider_file option" where
  "get_provider_file d p f =
     find (\<lambda>r. pf_placement_id r = p \<and> pf_provider_file_id r = f) (db_provider_files d)"

definition require_provider_file :: "db \<Rightarrow> string \<Rightarrow> string \<Rightarrow> provider_file res" where
  "require_provider_file d p f =
     (case find (\<lambda>r. pf_placement_id r = p \<and> pf_provider_file_id r = f \<and> pf_present r)
             (db_provider_files d) of
        None \<Rightarrow> Inl (JsError ''Provider file is not present in authoritative placement inventory'')
      | Some r \<Rightarrow> Inr r)"

definition get_torrent_file :: "db \<Rightarrow> string option \<Rightarrow> torrent_file option res" where
  "get_torrent_file d i =
     res_bind (require_string i ''torrentFileId'' 256) (\<lambda>t.
       Inr (find (\<lambda>r. tf_id r = t) (db_torrent_files d)))"

lemma require_library_item_Inr [guard_simps]:
  "(require_library_item d i = Inr r) = (get_library_item d i = Some r)"
  by (auto simp: require_library_item_def split: option.splits)

lemma require_placement_Inr [guard_simps]:
  "(require_placement d i = Inr r) = (get_placement d i = Some r)"
  by (auto simp: require_placement_def split: option.splits)

lemma get_placement_SomeD: "get_placement d i = Some r \<Longrightarrow> r \<in> set (db_placements d) \<and> pl_id r = i"
  by (auto simp: get_placement_def dest: find_SomeD)

lemma get_library_item_SomeD: "get_library_item d i = Some r \<Longrightarrow> r \<in> set (db_items d) \<and> li_id r = i"
  by (auto simp: get_library_item_def dest: find_SomeD)

lemma require_provider_file_InrD:
  "require_provider_file d p f = Inr r \<Longrightarrow>
     r \<in> set (db_provider_files d) \<and> pf_placement_id r = p \<and> pf_provider_file_id r = f \<and> pf_present r"
  by (auto simp: require_provider_file_def split: option.splits dest: find_SomeD)

end
