(* ===== verification/Latest_Wins.thy ===== *)
theory Latest_Wins
  imports Prelude
begin

text \<open>
  The contract of the observation tables of the control-plane store. Several operations
  (\<open>recordPlacement\<close>, \<open>recordPlacementLookupObservation\<close>, \<open>recordReadinessObservation\<close>,
  \<open>recordExposure\<close>, \<open>recordZurgMetadataObservation\<close>) keep one row per key and refuse to replace
  it by an older observation. The SQL statement they share is \<open>upsert_newer\<close>; the locale
  \<open>latest_wins\<close> states the contract on whole operations and derives what holds after any
  sequence of them.
\<close>

section \<open>The statement\<close>

text \<open>
  \<open>INSERT ... ON CONFLICT(key) DO UPDATE ... WHERE EXCLUDED.observed_at >= t.observed_at\<close>: a
  new row whose primary key is taken by another row is a constraint error.
\<close>

definition upsert_newer ::
  "('r \<Rightarrow> 'k) \<Rightarrow> ('r \<Rightarrow> int) \<Rightarrow> ('r \<Rightarrow> bool) \<Rightarrow> ('r \<Rightarrow> 'r \<Rightarrow> 'r) \<Rightarrow> 'r \<Rightarrow> 'r list \<Rightarrow> 'r list res" where
  "upsert_newer key time clash merge row tab =
     (if list_ex (\<lambda>r. key r = key row) tab
      then Inr (upd_where (\<lambda>r. key r = key row \<and> time r \<le> time row) (merge row) tab)
      else if list_ex clash tab then Inl (SqlConstraint ''primary key'')
      else Inr (tab @ [row]))"

lemma find_upd_newer:
  assumes "\<And>r. key (merge row r) = key r"
  shows "find (\<lambda>r. key r = k) (upd_where (\<lambda>r. key r = key row \<and> time r \<le> time row) (merge row) tab) =
    (case find (\<lambda>r. key r = k) tab of None \<Rightarrow> None
     | Some old \<Rightarrow> Some (if k = key row \<and> time old \<le> time row then merge row old else old))"
proof (induction tab)
  case Nil
  then show ?case by (simp add: upd_where_Nil)
next
  case (Cons a tab)
  then show ?case using assms by (auto simp: upd_where_Cons split: option.splits)
qed

text \<open>The row of a key after the statement: the new one, the merged one, or the newer old one.\<close>

lemma upsert_newer_find:
  assumes "upsert_newer key time clash merge row tab = Inr tab'"
    and "\<And>r. key (merge row r) = key r"
  shows "find (\<lambda>r. key r = k) tab' =
    (if k = key row
     then Some (case find (\<lambda>r. key r = k) tab of None \<Rightarrow> row
                | Some old \<Rightarrow> if time old \<le> time row then merge row old else old)
     else find (\<lambda>r. key r = k) tab)"
proof (cases "list_ex (\<lambda>r. key r = key row) tab")
  case True
  then obtain old where old: "find (\<lambda>r. key r = key row) tab = Some old"
    by (metis find_None_list_ex not_None_eq)
  from True assms(1) have "tab' = upd_where (\<lambda>r. key r = key row \<and> time r \<le> time row) (merge row) tab"
    by (simp add: upsert_newer_def)
  with old show ?thesis
    by (auto simp: find_upd_newer [of key merge row, OF assms(2)] split: option.splits)
next
  case False
  then have none: "find (\<lambda>r. key r = key row) tab = None" by (simp add: find_None_list_ex)
  from False assms(1) have "tab' = tab @ [row]"
    by (auto simp: upsert_newer_def split: if_splits)
  with none show ?thesis by (auto simp: find_append split: option.splits)
qed

lemma upsert_newer_unique:
  assumes "upsert_newer key time clash merge row tab = Inr tab'"
    and "\<And>r. key (merge row r) = key r" "unique_by key tab"
  shows "unique_by key tab'"
proof (cases "list_ex (\<lambda>r. key r = key row) tab")
  case True
  with assms show ?thesis
    by (auto simp: upsert_newer_def intro!: unique_by_upd_where)
next
  case False
  then have "key row \<notin> key ` set tab" by (auto simp: list_ex_iff)
  with False assms(1,3) show ?thesis
    by (auto simp: upsert_newer_def unique_by_snoc split: if_splits)
qed

section \<open>The contract\<close>

locale latest_wins =
  fixes observe :: "'i \<Rightarrow> 'd \<Rightarrow> ('d \<times> 'r option) res"
    and at :: "'i \<Rightarrow> int"
    and time :: "'r \<Rightarrow> int"
    and key :: "'r \<Rightarrow> 'k"
    and stored :: "'k \<Rightarrow> 'd \<Rightarrow> 'r option"
  assumes returns: "observe i d = Inr (d', r) \<Longrightarrow> \<exists>row. r = Some row \<and> stored (key row) d' = Some row"
    and newest: "observe i d = Inr (d', Some row) \<Longrightarrow>
          time row = (case stored (key row) d of None \<Rightarrow> at i | Some old \<Rightarrow> max (time old) (at i))"
    and stale: "observe i d = Inr (d', Some row) \<Longrightarrow> stored (key row) d = Some old \<Longrightarrow>
          at i < time old \<Longrightarrow> d' = d"
    and frame: "observe i d = Inr (d', Some row) \<Longrightarrow> k \<noteq> key row \<Longrightarrow> stored k d' = stored k d"
begin

lemma step_monotone:
  assumes "observe i d = Inr (d', r)" "stored k d = Some old"
  shows "\<exists>new. stored k d' = Some new \<and> time old \<le> time new"
proof -
  obtain row where row: "r = Some row" "stored (key row) d' = Some row"
    using returns [OF assms(1)] by blast
  show ?thesis
  proof (cases "k = key row")
    case True
    with newest [of i d d' row] assms row show ?thesis by auto
  next
    case False
    with frame [of i d d' row k] assms row show ?thesis by auto
  qed
qed

lemma step_source:
  assumes "observe i d = Inr (d', r)" "stored k d' = Some new"
  shows "(\<exists>old. stored k d = Some old \<and> time old = time new) \<or> time new = at i"
proof -
  obtain row where row: "r = Some row" "stored (key row) d' = Some row"
    using returns [OF assms(1)] by blast
  show ?thesis
  proof (cases "k = key row")
    case True
    with newest [of i d d' row] assms row show ?thesis
      by (auto simp: max_def split: option.splits if_splits)
  next
    case False
    with frame [of i d d' row k] assms row have "stored k d = Some new" by simp
    then show ?thesis by blast
  qed
qed

lemma run_monotone:
  assumes "fold_res observe is d = Inr (d', rs)" "stored k d = Some old"
  shows "\<exists>new. stored k d' = Some new \<and> time old \<le> time new"
proof -
  let ?R = "\<lambda>a b. \<forall>old. stored k a = Some old \<longrightarrow> (\<exists>new. stored k b = Some new \<and> time old \<le> time new)"
  have "?R d d'"
    by (rule fold_res_relation [where R = ?R, OF _ _ _ assms(1)])
       (use step_monotone in \<open>fastforce intro: order_trans\<close>)+
  with assms(2) show ?thesis by blast
qed

text \<open>After a sequence of observations, no accepted one is newer than the row of its key.\<close>

lemma run_covers:
  assumes "fold_res observe is d = Inr (d', rs)" "(i, Some row) \<in> set (zip is rs)"
  shows "\<exists>new. stored (key row) d' = Some new \<and> at i \<le> time new"
  using assms
proof (induction "is" arbitrary: d rs)
  case Nil
  then show ?case by simp
next
  case (Cons j "is")
  from Cons.prems(1) obtain d1 r rs1 where
    s: "observe j d = Inr (d1, r)" "fold_res observe is d1 = Inr (d', rs1)" "rs = r # rs1"
    by (rule fold_res_ConsE)
  from Cons.prems(2) s(3) consider "i = j" "r = Some row" | "(i, Some row) \<in> set (zip is rs1)"
    by auto
  then show ?case
  proof cases
    case 1
    with returns [OF s(1)] have st: "stored (key row) d1 = Some row" by auto
    from 1 newest [of j d d1 row] s(1) have "at i \<le> time row" by (auto split: option.splits)
    with run_monotone [OF s(2) st] show ?thesis by force
  next
    case 2
    with Cons.IH s(2) show ?thesis by blast
  qed
qed

text \<open>The time of a row is that of its old row or of one of the observations.\<close>

lemma run_source:
  assumes "fold_res observe is d = Inr (d', rs)" "stored k d' = Some new"
  shows "(\<exists>old. stored k d = Some old \<and> time old = time new) \<or> (\<exists>i \<in> set is. time new = at i)"
  using assms
proof (induction "is" arbitrary: d rs)
  case Nil
  then show ?case by auto
next
  case (Cons j "is")
  from Cons.prems(1) obtain d1 r rs1 where
    s: "observe j d = Inr (d1, r)" "fold_res observe is d1 = Inr (d', rs1)"
    by (rule fold_res_ConsE)
  from Cons.IH [OF s(2) Cons.prems(2)] step_source [OF s(1)] show ?case by fastforce
qed

end

section \<open>Tables that satisfy it\<close>

text \<open>
  An operation satisfies the contract when it either leaves the table alone and returns a newer
  stored row, or runs the shared statement and returns the row it finds afterwards.
\<close>

definition observes_newest ::
  "('r \<Rightarrow> 'k) \<Rightarrow> ('r \<Rightarrow> int) \<Rightarrow> ('r \<Rightarrow> 'r \<Rightarrow> 'r) \<Rightarrow> ('d \<Rightarrow> 'r list) \<Rightarrow> int \<Rightarrow> 'd \<Rightarrow> 'd \<Rightarrow> 'r option \<Rightarrow> bool" where
  "observes_newest key time merge tab t d d' r \<longleftrightarrow>
     (\<exists>old. find (\<lambda>r. key r = key old) (tab d) = Some old \<and> t < time old \<and> d' = d \<and> r = Some old) \<or>
     (\<exists>row clash. time row = t \<and> upsert_newer key time clash merge row (tab d) = Inr (tab d')
        \<and> (\<forall>old. find (\<lambda>r. key r = key row) (tab d) = Some old \<longrightarrow> time old \<le> t)
        \<and> r = find (\<lambda>r. key r = key row) (tab d'))"

text \<open>
  The body the recorders share once their input is validated: look up the row of the key, return
  it when the observation is older, otherwise build the row, run the statement and read it back.
\<close>

definition observe_row ::
  "('r \<Rightarrow> 'k) \<Rightarrow> ('r \<Rightarrow> int) \<Rightarrow> ('r \<Rightarrow> 'r \<Rightarrow> bool) \<Rightarrow> ('r \<Rightarrow> 'r \<Rightarrow> 'r) \<Rightarrow> ('d \<Rightarrow> 'r list) \<Rightarrow> ('r list \<Rightarrow> 'd \<Rightarrow> 'd)
     \<Rightarrow> 'k \<Rightarrow> int \<Rightarrow> 'r res \<Rightarrow> 'd \<Rightarrow> ('d \<times> 'r option) res" where
  "observe_row key time clash merge tab put k observedAt row d =
     (let existing = find (\<lambda>r. key r = k) (tab d);
          write = res_bind row (\<lambda>new.
            res_bind (upsert_newer key time (clash new) merge new (tab d)) (\<lambda>t.
              Inr (put t d, find (\<lambda>r. key r = k) t)))
      in case existing of
           Some old \<Rightarrow> if observedAt < time old then Inr (d, Some old) else write
         | None \<Rightarrow> write)"

lemma observe_row_newest:
  assumes "observe_row key time clash merge tab put k t row d = Inr (d', r)"
    and "\<And>new. row = Inr new \<Longrightarrow> key new = k \<and> time new = t"
    and "\<And>t d. tab (put t d) = t"
  shows "observes_newest key time merge tab t d d' r"
proof -
  have w: "observes_newest key time merge tab t d d' r"
    if wr: "res_bind row (\<lambda>new. res_bind (upsert_newer key time (clash new) merge new (tab d)) (\<lambda>t.
              Inr (put t d, find (\<lambda>r. key r = k) t))) = Inr (d', r)"
      and le: "\<And>old. find (\<lambda>r. key r = k) (tab d) = Some old \<Longrightarrow> time old \<le> t"
  proof -
    from wr obtain new tb where n: "row = Inr new"
      "upsert_newer key time (clash new) merge new (tab d) = Inr tb" "d' = put tb d"
      "r = find (\<lambda>r. key r = k) tb"
      by (auto simp: res_bind_Inr)
    with assms(2) [of new] assms(3) le show ?thesis
      unfolding observes_newest_def by (intro disjI2 exI [of _ new] exI [of _ "clash new"]) auto
  qed
  show ?thesis
  proof (cases "find (\<lambda>r. key r = k) (tab d)")
    case None
    with assms(1) show ?thesis by (intro w) (simp_all add: observe_row_def)
  next
    case (Some old)
    have k: "key old = k" using find_SomeD [OF Some] by simp
    show ?thesis
    proof (cases "t < time old")
      case True
      with Some assms(1) k show ?thesis
        unfolding observes_newest_def
        by (intro disjI1 exI [of _ old]) (simp add: observe_row_def)
    next
      case False
      with Some assms(1) show ?thesis by (intro w) (simp_all add: observe_row_def)
    qed
  qed
qed

lemma observes_newest_cases:
  assumes "observes_newest key time merge tab t d d' r"
    and "\<And>row r. key (merge row r) = key r" "\<And>row r. time (merge row r) = time row"
  obtains (old) row where "r = Some row" "d' = d" "find (\<lambda>r. key r = key row) (tab d) = Some row" "t < time row"
  | (new) row where "r = Some row" "time row = t" "find (\<lambda>r. key r = key row) (tab d') = Some row"
      "\<And>k. k \<noteq> key row \<Longrightarrow> find (\<lambda>r. key r = k) (tab d') = find (\<lambda>r. key r = k) (tab d)"
      "\<And>old. find (\<lambda>r. key r = key row) (tab d) = Some old \<Longrightarrow> time old \<le> t"
proof -
  from assms(1) consider
      old where "find (\<lambda>r. key r = key old) (tab d) = Some old" "t < time old" "d' = d" "r = Some old"
    | row clash where "time row = t" "upsert_newer key time clash merge row (tab d) = Inr (tab d')"
        "\<And>old. find (\<lambda>r. key r = key row) (tab d) = Some old \<Longrightarrow> time old \<le> t"
        "r = find (\<lambda>r. key r = key row) (tab d')"
    unfolding observes_newest_def by blast
  then show ?thesis
  proof cases
    case (1 old)
    then show ?thesis by (intro that(1)) auto
  next
    case (2 row clash)
    note f = upsert_newer_find [OF 2(2), OF assms(2)]
    define new where "new = (case find (\<lambda>r. key r = key row) (tab d) of None \<Rightarrow> row
                 | Some old \<Rightarrow> merge row old)"
    have n: "find (\<lambda>r. key r = key row) (tab d') = Some new"
      using 2(1,3) by (auto simp: f new_def split: option.splits)
    have k: "key new = key row"
      using find_SomeD [OF n] by simp
    have t: "time new = t"
      using 2(1) assms(3) by (auto simp: new_def split: option.splits)
    have r: "r = Some new" using 2(4) n by simp
    show ?thesis
    proof (rule that(2) [OF r t])
      show "find (\<lambda>r. key r = key new) (tab d') = Some new"
        unfolding k by (rule n)
      show "find (\<lambda>r. key r = j) (tab d') = find (\<lambda>r. key r = j) (tab d)" if "j \<noteq> key new" for j
        using that unfolding k f by (rule if_not_P)
      show "time old \<le> t" if "find (\<lambda>r. key r = key new) (tab d) = Some old" for old
        using that unfolding k by (rule 2(3))
    qed
  qed
qed

lemma latest_winsI:
  assumes step: "\<And>i d d' r. observe i d = Inr (d', r) \<Longrightarrow>
        observes_newest key time merge tab (at i) d d' r"
    and merge: "\<And>row r. key (merge row r) = key r" "\<And>row r. time (merge row r) = time row"
  shows "latest_wins observe at time key (\<lambda>k d. find (\<lambda>r. key r = k) (tab d))"
proof
  fix i d d' r
  assume "observe i d = Inr (d', r)"
  then have o: "observes_newest key time merge tab (at i) d d' r" by (rule step)
  show "\<exists>row. r = Some row \<and> find (\<lambda>r. key r = key row) (tab d') = Some row"
    by (rule observes_newest_cases [OF o, OF merge]) blast+
next
  fix i d d' row
  assume "observe i d = Inr (d', Some row)"
  then have o: "observes_newest key time merge tab (at i) d d' (Some row)" by (rule step)
  show "time row = (case find (\<lambda>r. key r = key row) (tab d) of None \<Rightarrow> at i
       | Some old \<Rightarrow> max (time old) (at i))"
  proof (rule observes_newest_cases [OF o, OF merge])
    fix row'
    assume "Some row = Some row'" "find (\<lambda>r. key r = key row') (tab d) = Some row'" "at i < time row'"
    then show ?thesis by simp
  next
    fix row'
    assume "Some row = Some row'" "time row' = at i"
      "\<And>old. find (\<lambda>r. key r = key row') (tab d) = Some old \<Longrightarrow> time old \<le> at i"
    then show ?thesis by (cases "find (\<lambda>r. key r = key row) (tab d)") auto
  qed
  show "d' = d" if s: "find (\<lambda>r. key r = key row) (tab d) = Some old" "at i < time old" for old
  proof (rule observes_newest_cases [OF o, OF merge])
    fix row'
    assume "Some row = Some row'"
      "\<And>old. find (\<lambda>r. key r = key row') (tab d) = Some old \<Longrightarrow> time old \<le> at i"
    with s show ?thesis by fastforce
  qed
  show "find (\<lambda>r. key r = k) (tab d') = find (\<lambda>r. key r = k) (tab d)" if k: "k \<noteq> key row" for k
  proof (rule observes_newest_cases [OF o, OF merge])
    assume "d' = d"
    then show ?thesis by simp
  next
    fix row'
    assume "Some row = Some row'"
      "\<And>k. k \<noteq> key row' \<Longrightarrow> find (\<lambda>r. key r = k) (tab d') = find (\<lambda>r. key r = k) (tab d)"
    with k show ?thesis by simp
  qed
qed

end
