(* ===== verification/Store_Provider.thy ===== *)
theory Store_Provider
  imports Store_Schema Latest_Wins
    "HOL-Library.List_Lexorder" "HOL-Library.Char_ord" "HOL-Library.Product_Lexorder"
begin

text \<open>
  Provider placements and delivery evidence of the control-plane store: \<open>recordPlacement\<close> to
  \<open>findFileMapping\<close>, \<open>listPlacementsByInfoHash\<close>, and the delivery-evidence operations of
  \<open>control-plane/store.js\<close>. The placement table is an instance of the locale \<open>latest_wins\<close>.
\<close>

section \<open>Placements\<close>

record placement_input =
  plx_infoHash :: jv
  plx_provider :: "string option"
  plx_accountScope :: "string option"
  plx_resourceId :: "string option"
  plx_ownership :: "string option"
  plx_observedAt :: "int option"
  plx_id :: "string option"
  plx_state :: "string option"
  plx_ownerKey :: "string option"
  plx_provenance :: "string option"
  plx_idempotencyKey :: "string option"
  plx_expiresAt :: "int option"
  plx_failureCategory :: "string option"
  plx_retryable :: "bool option"

definition store_info_hash :: "string \<Rightarrow> string" where
  "store_info_hash s = js_lower (js_trim s)"

definition account_scope_or_default :: "string option \<Rightarrow> string res" where
  "account_scope_or_default s = normalize_identifier (Some (nullish s ''default''))"

definition placement_key :: "placement \<Rightarrow> string \<times> string \<times> string" where
  "placement_key r = (pl_provider r, pl_account_scope r, pl_provider_resource_id r)"

text \<open>The \<open>UNIQUE(provider, account_scope, idempotency_key)\<close> constraint; nulls never collide.\<close>

definition idempotency_clash :: "placement \<Rightarrow> string option \<Rightarrow> placement \<Rightarrow> bool" where
  "idempotency_clash row k r \<longleftrightarrow> k \<noteq> None \<and> pl_idempotency_key r = k
     \<and> pl_provider r = pl_provider row \<and> pl_account_scope r = pl_account_scope row"

definition merge_placement :: "placement \<Rightarrow> placement \<Rightarrow> placement" where
  "merge_placement ex old = old\<lparr>
     pl_state := pl_state ex, pl_ownership := pl_ownership ex, pl_owner_key := pl_owner_key ex,
     pl_provenance := pl_provenance ex,
     pl_idempotency_key := coalesce (pl_idempotency_key ex) (pl_idempotency_key old),
     pl_observed_at := pl_observed_at ex, pl_expires_at := pl_expires_at ex,
     pl_updated_at := pl_updated_at ex, pl_failure_category := pl_failure_category ex,
     pl_retryable := pl_retryable ex\<rparr>"

definition write_placement :: "placement \<Rightarrow> db \<Rightarrow> (db \<times> placement option) res" where
  "write_placement row d =
     (let tab = db_placements d; P = (\<lambda>r. placement_key r = placement_key row) in
      case find P tab of
        Some old \<Rightarrow>
          if list_ex (\<lambda>r. pl_id r \<noteq> pl_id old \<and> idempotency_clash row
               (coalesce (pl_idempotency_key row) (pl_idempotency_key old)) r) tab
          then Inl (SqlConstraint ''provider_placements.idempotency_key'')
          else let tab' = upd_where (\<lambda>r. P r \<and> pl_observed_at r \<le> pl_observed_at row)
                 (merge_placement row) tab
               in Inr (d\<lparr>db_placements := tab'\<rparr>, find P tab')
      | None \<Rightarrow>
          if list_ex (\<lambda>r. pl_id r = pl_id row \<or> idempotency_clash row (pl_idempotency_key row) r) tab
          then Inl (SqlConstraint ''provider_placements'')
          else Inr (d\<lparr>db_placements := tab @ [row]\<rparr>, Some row))"

definition placement_row ::
  "int \<Rightarrow> string \<Rightarrow> placement_input \<Rightarrow> string \<Rightarrow> string \<Rightarrow> string \<Rightarrow> string \<Rightarrow> placement res" where
  "placement_row now uuid input infoHash provider accountScope resourceId =
     res_bind (require_string (plx_provenance input) ''provenance'' 256) (\<lambda>provenance.
     res_bind (check_enum parse_placement_state (nullish (plx_state input) ''unknown'') ''state'') (\<lambda>st.
     res_bind (check_enum parse_ownership (nullish (plx_ownership input) ''unknown'') ''ownership'') (\<lambda>own.
       Inr \<lparr>pl_id = nullish (plx_id input) (''pl_'' @ uuid), pl_provider = provider,
         pl_account_scope = accountScope, pl_info_hash = infoHash,
         pl_provider_resource_id = resourceId, pl_state = st, pl_ownership = own,
         pl_owner_key = plx_ownerKey input, pl_provenance = provenance,
         pl_idempotency_key = plx_idempotencyKey input,
         pl_observed_at = nullish (plx_observedAt input) now,
         pl_expires_at = plx_expiresAt input, pl_created_at = now, pl_updated_at = now,
         pl_failure_category = plx_failureCategory input, pl_retryable = plx_retryable input\<rparr>)))"

definition record_placement ::
  "int \<Rightarrow> string \<Rightarrow> placement_input \<Rightarrow> db \<Rightarrow> (db \<times> placement option) res" where
  "record_placement now uuid input d =
     res_bind (create_release_identity (plx_infoHash input) JNull) (\<lambda>identity.
     res_bind (normalize_identifier (plx_provider input)) (\<lambda>provider.
     res_bind (account_scope_or_default (plx_accountScope input)) (\<lambda>accountScope.
     res_bind (require_string (plx_resourceId input) ''providerResourceId'' 256) (\<lambda>resourceId.
       let observedAt = nullish (plx_observedAt input) now;
           existing = find (\<lambda>r. placement_key r = (provider, accountScope, resourceId)) (db_placements d);
           write = res_bind (placement_row now uuid input (ri_infoHash identity) provider accountScope resourceId)
                     (\<lambda>row. write_placement row d)
       in case existing of
            Some old \<Rightarrow>
              if pl_info_hash old \<noteq> ri_infoHash identity
              then Inl (JsError ''Provider resource observation cannot change its torrent hash'')
              else if observedAt < pl_observed_at old then Inr (d, Some old)
              else write
          | None \<Rightarrow> write))))"

definition find_placement :: "string option \<Rightarrow> string option \<Rightarrow> string option \<Rightarrow> db \<Rightarrow> placement option res" where
  "find_placement provider accountScope resourceId d =
     res_bind (normalize_identifier provider) (\<lambda>p.
     res_bind (account_scope_or_default accountScope) (\<lambda>a.
     res_bind (require_string resourceId ''providerResourceId'' 256) (\<lambda>r.
       Inr (find (\<lambda>x. placement_key x = (p, a, r)) (db_placements d)))))"

definition find_placement_by_info_hash :: "string option \<Rightarrow> string \<Rightarrow> db \<Rightarrow> placement option res" where
  "find_placement_by_info_hash provider infoHash d =
     res_bind (normalize_identifier provider) (\<lambda>p.
       Inr (find (\<lambda>r. pl_provider r = p \<and> pl_info_hash r = store_info_hash infoHash
                    \<and> pl_state r \<noteq> PsRemoved) (db_placements d)))"

definition list_placements_by_info_hash :: "string option \<Rightarrow> string \<Rightarrow> db \<Rightarrow> placement list res" where
  "list_placements_by_info_hash provider infoHash d =
     res_bind (normalize_identifier provider) (\<lambda>p.
       Inr (sort_key (\<lambda>r. (pl_observed_at r, pl_id r))
         (filter (\<lambda>r. pl_provider r = p \<and> pl_info_hash r = store_info_hash infoHash
                    \<and> pl_state r \<noteq> PsRemoved) (db_placements d))))"

definition demote_mapping :: "string \<Rightarrow> file_mapping \<Rightarrow> file_mapping" where
  "demote_mapping reason r = r\<lparr>fm_state := CmStale, fm_failure_category := Some reason\<rparr>"

definition remove_placement :: "string \<Rightarrow> int \<Rightarrow> int \<Rightarrow> placement \<Rightarrow> placement" where
  "remove_placement reason observedAt now r = r\<lparr>pl_state := PsRemoved, pl_observed_at := observedAt,
     pl_updated_at := now, pl_failure_category := Some reason\<rparr>"

definition mark_placement_removed ::
  "int \<Rightarrow> string \<Rightarrow> string option \<Rightarrow> int option \<Rightarrow> db \<Rightarrow> (db \<times> placement) res" where
  "mark_placement_removed now placementId reason observedAt d =
     (let rsn = nullish reason ''stale-resource''; at = nullish observedAt now in
      res_bind (require_placement d placementId) (\<lambda>placement.
        if pl_state placement = PsRemoved then Inr (d, placement)
        else let d' = d\<lparr>
               db_placements := upd_where (\<lambda>r. pl_id r = placementId \<and> pl_state r \<noteq> PsRemoved)
                 (remove_placement rsn at now) (db_placements d),
               db_mappings := upd_where (\<lambda>r. fm_placement_id r = placementId \<and> fm_state r = CmMapped)
                 (demote_mapping rsn) (db_mappings d)\<rparr>
             in res_bind (require_placement d' placementId) (\<lambda>p. Inr (d', p))))"

definition find_file_mapping :: "string \<Rightarrow> string \<Rightarrow> db \<Rightarrow> file_mapping option" where
  "find_file_mapping releaseKey placementId d =
     find (\<lambda>r. fm_release_key r = releaseKey \<and> fm_placement_id r = placementId) (db_mappings d)"

section \<open>Delivery evidence\<close>

record evidence_input =
  evx_provider :: "string option"
  evx_accountScope :: "string option"
  evx_placementId :: string
  evx_state :: string
  evx_observedAt :: "int option"
  evx_expiresAt :: "int option"
  evx_providerFileId :: "string option"
  evx_infoHash :: "string option"
  evx_fileIndexKey :: "int option"
  evx_reason :: "string option"
  evx_failureCategory :: "string option"
  evx_endpointClass :: "string option"
  evx_retryAfterMs :: "int option"

definition evidence_key :: "delivery_evidence \<Rightarrow> string \<times> string \<times> string \<times> string" where
  "evidence_key r = (de_provider r, de_account_scope r, de_placement_id r, de_provider_file_id r)"

definition positive_or_null :: "int option \<Rightarrow> int option" where
  "positive_or_null v = (case v of None \<Rightarrow> None | Some i \<Rightarrow> if 0 < i then Some i else None)"

definition record_delivery_evidence ::
  "int \<Rightarrow> evidence_input \<Rightarrow> db \<Rightarrow> (db \<times> delivery_evidence option) res" where
  "record_delivery_evidence now input d =
     res_bind (normalize_identifier (evx_provider input)) (\<lambda>provider.
     res_bind (account_scope_or_default (evx_accountScope input)) (\<lambda>accountScope.
     res_bind (require_placement d (evx_placementId input)) (\<lambda>placement.
     res_bind (ensure (pl_provider placement = provider \<and> pl_account_scope placement = accountScope)
        (JsError ''Delivery evidence scope does not match placement'')) (\<lambda>_.
     res_bind (require_enum parse_evidence_state (evx_state input) ''delivery evidence state'') (\<lambda>st.
     res_bind (require_timestamp (evx_observedAt input) ''observedAt'') (\<lambda>observedAt.
     res_bind (require_bounded_expiry (evx_expiresAt input) observedAt ''delivery evidence'') (\<lambda>expiresAt.
     res_bind (require_string (evx_providerFileId input) ''providerFileId'' 256) (\<lambda>fileId.
       let row = \<lparr>de_provider = provider, de_account_scope = accountScope,
             de_placement_id = pl_id placement, de_provider_file_id = fileId,
             de_info_hash = map_option store_info_hash (evx_infoHash input),
             de_file_index_key = nullish (evx_fileIndexKey input) (-1), de_state = st,
             de_reason = evx_reason input, de_failure_category = evx_failureCategory input,
             de_endpoint_class = evx_endpointClass input,
             de_retry_after_ms = positive_or_null (evx_retryAfterMs input),
             de_observed_at = observedAt, de_expires_at = expiresAt, de_recorded_at = now\<rparr>;
           P = (\<lambda>r. evidence_key r = evidence_key row);
           tab' = upsert P (\<lambda>_. row) row (db_delivery d)
       in Inr (d\<lparr>db_delivery := tab'\<rparr>, find P tab')))))))))"

definition find_delivery_evidence ::
  "string option \<Rightarrow> string option \<Rightarrow> string \<Rightarrow> string \<Rightarrow> db \<Rightarrow> delivery_evidence option res" where
  "find_delivery_evidence provider accountScope placementId fileId d =
     res_bind (normalize_identifier provider) (\<lambda>p.
     res_bind (account_scope_or_default accountScope) (\<lambda>a.
       Inr (find (\<lambda>r. evidence_key r = (p, a, placementId, fileId)) (db_delivery d))))"

definition list_delivery_evidence_for_hash :: "string \<Rightarrow> int option \<Rightarrow> db \<Rightarrow> delivery_evidence list" where
  "list_delivery_evidence_for_hash infoHash key d =
     filter (\<lambda>r. de_info_hash r = Some (store_info_hash infoHash)
               \<and> de_file_index_key r = nullish key (-1)) (db_delivery d)"

definition prune_expired_delivery_evidence :: "int \<Rightarrow> int option \<Rightarrow> db \<Rightarrow> db \<times> nat" where
  "prune_expired_delivery_evidence now asOf d =
     (let cutoff = nullish asOf now in
      (d\<lparr>db_delivery := filter (\<lambda>r. \<not> de_expires_at r \<le> cutoff) (db_delivery d)\<rparr>,
       length (filter (\<lambda>r. de_expires_at r \<le> cutoff) (db_delivery d))))"

section \<open>Placements keep the newest observation\<close>

lemma merge_placement_key: "placement_key (merge_placement row r) = placement_key r"
  by (simp add: merge_placement_def placement_key_def)

lemma merge_placement_time: "pl_observed_at (merge_placement row r) = pl_observed_at row"
  by (simp add: merge_placement_def)

lemma write_placement_upsert:
  assumes "write_placement row d = Inr (d', r)"
  obtains clash where
    "upsert_newer placement_key pl_observed_at clash merge_placement row (db_placements d)
       = Inr (db_placements d')"
    "r = find (\<lambda>x. placement_key x = placement_key row) (db_placements d')"
    "d' = d\<lparr>db_placements := db_placements d'\<rparr>"
proof (cases "find (\<lambda>x. placement_key x = placement_key row) (db_placements d)")
  case None
  then have n: "\<not> list_ex (\<lambda>x. placement_key x = placement_key row) (db_placements d)"
    by (simp add: find_None_list_ex)
  from None assms have "d' = d\<lparr>db_placements := db_placements d @ [row]\<rparr>" "r = Some row"
    by (auto simp: write_placement_def Let_def split: if_splits)
  with n None show ?thesis
    by (intro that [of "\<lambda>_. False"]) (auto simp: upsert_newer_def find_append list_ex_iff)
next
  case (Some old)
  then have n: "list_ex (\<lambda>x. placement_key x = placement_key row) (db_placements d)"
    by (rule find_Some_list_ex)
  from Some assms n show ?thesis
    by (intro that [of "\<lambda>_. False"])
       (auto simp: write_placement_def Let_def upsert_newer_def split: if_splits)
qed

lemma placement_row_Inr:
  "placement_row now uuid input h p a res = Inr row \<Longrightarrow>
     placement_key row = (p, a, res) \<and> pl_info_hash row = h
     \<and> pl_observed_at row = nullish (plx_observedAt input) now"
  by (auto simp: placement_row_def res_bind_Inr placement_key_def)

text \<open>An observation either meets a newer row, or is written over a row of the same torrent hash.\<close>

lemma record_placement_cases:
  assumes "record_placement now uuid input d = Inr (d', r)"
  obtains
    (old) old where "find (\<lambda>x. placement_key x = placement_key old) (db_placements d) = Some old"
      "nullish (plx_observedAt input) now < pl_observed_at old" "d' = d" "r = Some old"
  | (new) row identity where "write_placement row d = Inr (d', r)"
      "pl_observed_at row = nullish (plx_observedAt input) now"
      "\<And>old. find (\<lambda>x. placement_key x = placement_key row) (db_placements d) = Some old \<Longrightarrow>
         pl_observed_at old \<le> pl_observed_at row \<and> pl_info_hash old = pl_info_hash row"
      "create_release_identity (plx_infoHash input) JNull = Inr identity"
      "pl_info_hash row = ri_infoHash identity"
proof -
  obtain identity p a res where
    i: "create_release_identity (plx_infoHash input) JNull = Inr identity" and
    body: "(let observedAt = nullish (plx_observedAt input) now;
           existing = find (\<lambda>r. placement_key r = (p, a, res)) (db_placements d);
           write = res_bind (placement_row now uuid input (ri_infoHash identity) p a res)
                     (\<lambda>row. write_placement row d)
       in case existing of
            Some old \<Rightarrow>
              if pl_info_hash old \<noteq> ri_infoHash identity
              then Inl (JsError ''Provider resource observation cannot change its torrent hash'')
              else if observedAt < pl_observed_at old then Inr (d, Some old)
              else write
          | None \<Rightarrow> write) = Inr (d', r)"
    using assms unfolding record_placement_def res_bind_Inr [of "create_release_identity x y" for x y]
      res_bind_Inr [of "normalize_identifier x" for x]
      res_bind_Inr [of "account_scope_or_default x" for x]
      res_bind_Inr [of "require_string x ''providerResourceId'' n" for x n] by blast
  have w: thesis if "res_bind (placement_row now uuid input (ri_infoHash identity) p a res)
        (\<lambda>row. write_placement row d) = Inr (d', r)"
      "\<And>old. find (\<lambda>x. placement_key x = (p, a, res)) (db_placements d) = Some old \<Longrightarrow>
         pl_observed_at old \<le> nullish (plx_observedAt input) now \<and> pl_info_hash old = ri_infoHash identity"
  proof -
    from that(1) obtain row where
      "placement_row now uuid input (ri_infoHash identity) p a res = Inr row" "write_placement row d = Inr (d', r)"
      by (auto simp: res_bind_Inr)
    with that(2) i show thesis
      by (intro new [of row identity]) (auto dest: placement_row_Inr)
  qed
  show ?thesis
  proof (cases "find (\<lambda>x. placement_key x = (p, a, res)) (db_placements d)")
    case None
    with body show ?thesis by (intro w) (simp_all add: Let_def)
  next
    case (Some o')
    have k: "placement_key o' = (p, a, res)" using find_SomeD [OF Some] by simp
    show ?thesis
    proof (cases "nullish (plx_observedAt input) now < pl_observed_at o'")
      case True
      with Some k body show ?thesis
        by (intro old [of o']) (simp_all add: Let_def split: if_splits)
    next
      case False
      with Some body show ?thesis
        by (intro w) (simp_all add: Let_def split: if_splits)
    qed
  qed
qed

interpretation placements: latest_wins
  "\<lambda>(now, uuid, input). record_placement now uuid input"
  "\<lambda>(now, uuid, input). nullish (plx_observedAt input) now"
  pl_observed_at placement_key "\<lambda>k d. find (\<lambda>r. placement_key r = k) (db_placements d)"
proof (rule latest_winsI [where merge = merge_placement], goal_cases)
  case (1 i d d' r)
  obtain now uuid input where i: "i = (now, uuid, input)" by (cases i)
  with 1 have "record_placement now uuid input d = Inr (d', r)" by simp
  then show ?case
  proof (cases rule: record_placement_cases)
    case (old old)
    with i show ?thesis by (auto simp: observes_newest_def)
  next
    case (new row)
    from new(1) obtain clash where
      "upsert_newer placement_key pl_observed_at clash merge_placement row (db_placements d)
         = Inr (db_placements d')"
      "r = find (\<lambda>x. placement_key x = placement_key row) (db_placements d')"
      by (rule write_placement_upsert)
    with new i show ?thesis unfolding observes_newest_def by auto
  qed
qed (simp_all add: merge_placement_key merge_placement_time)

section \<open>Properties\<close>

text \<open>The keys of the placement table.\<close>

definition placement_inv :: "db \<Rightarrow> bool" where
  "placement_inv d \<longleftrightarrow> unique_by pl_id (db_placements d) \<and> unique_by placement_key (db_placements d)
     \<and> unique_where (\<lambda>r. pl_idempotency_key r \<noteq> None)
         (\<lambda>r. (pl_provider r, pl_account_scope r, pl_idempotency_key r)) (db_placements d)"

text \<open>What no write changes of a placement.\<close>

definition placement_identity :: "placement \<Rightarrow> string \<times> (string \<times> string \<times> string) \<times> string \<times> int" where
  "placement_identity r = (pl_id r, placement_key r, pl_info_hash r, pl_created_at r)"

definition placements_kept :: "db \<Rightarrow> db \<Rightarrow> bool" where
  "placements_kept d d' \<longleftrightarrow> (\<exists>new. map placement_identity (db_placements d') =
     map placement_identity (db_placements d) @ new)"

lemma placements_kept_refl: "placements_kept d d"
  by (simp add: placements_kept_def)

lemma placements_kept_trans: "placements_kept a b \<Longrightarrow> placements_kept b c \<Longrightarrow> placements_kept a c"
  by (auto simp: placements_kept_def)

lemma placements_keptD:
  assumes "placements_kept d d'" "r \<in> set (db_placements d)"
  shows "\<exists>r' \<in> set (db_placements d'). placement_identity r' = placement_identity r"
proof -
  from assms(1) obtain new where
    "map placement_identity (db_placements d') = map placement_identity (db_placements d) @ new"
    by (auto simp: placements_kept_def)
  then have "set (map placement_identity (db_placements d')) =
      set (map placement_identity (db_placements d)) \<union> set new" by (metis set_append)
  with assms(2) have "placement_identity r \<in> placement_identity ` set (db_placements d')" by auto
  then show ?thesis by (metis imageE)
qed

lemma merge_placement_identity: "placement_identity (merge_placement row r) = placement_identity r"
  by (simp add: merge_placement_def placement_identity_def placement_key_def)

lemma write_placement_new:
  assumes "write_placement row d = Inr (d', r)"
    and "find (\<lambda>x. placement_key x = placement_key row) (db_placements d) = None"
  shows "db_placements d' = db_placements d @ [row]"
    "\<not> list_ex (\<lambda>r. pl_id r = pl_id row \<or> idempotency_clash row (pl_idempotency_key row) r) (db_placements d)"
  using assms by (auto simp: write_placement_def Let_def split: if_splits)

lemma write_placement_old:
  assumes "write_placement row d = Inr (d', r)"
    and "find (\<lambda>x. placement_key x = placement_key row) (db_placements d) = Some old"
  shows "db_placements d' = upd_where (\<lambda>r. placement_key r = placement_key row
      \<and> pl_observed_at r \<le> pl_observed_at row) (merge_placement row) (db_placements d)"
    "\<not> list_ex (\<lambda>r. pl_id r \<noteq> pl_id old \<and> idempotency_clash row
        (coalesce (pl_idempotency_key row) (pl_idempotency_key old)) r) (db_placements d)"
  using assms by (auto simp: write_placement_def Let_def split: if_splits)

lemma write_placement_kept:
  assumes "write_placement row d = Inr (d', r)"
  shows "placements_kept d d'"
proof (cases "find (\<lambda>x. placement_key x = placement_key row) (db_placements d)")
  case None
  then show ?thesis using write_placement_new [OF assms] by (simp add: placements_kept_def)
next
  case (Some old)
  then show ?thesis using write_placement_old [OF assms Some]
    by (simp add: placements_kept_def map_upd_where merge_placement_identity)
qed

lemma record_placement_kept:
  assumes "record_placement now uuid input d = Inr (d', r)"
  shows "placements_kept d d'"
  using assms
proof (cases rule: record_placement_cases)
  case (old old)
  then show ?thesis by (simp add: placements_kept_refl)
next
  case (new row)
  from new(1) show ?thesis by (rule write_placement_kept)
qed

lemma write_placement_inv:
  assumes "write_placement row d = Inr (d', r)" "placement_inv d"
  shows "placement_inv d'"
proof (cases "find (\<lambda>x. placement_key x = placement_key row) (db_placements d)")
  case None
  note n = write_placement_new [OF assms(1) None]
  from None have "placement_key row \<notin> placement_key ` set (db_placements d)"
    by (auto simp: find_None_iff)
  with n assms(2) show ?thesis
    by (fastforce simp: placement_inv_def unique_by_snoc unique_where_snoc list_ex_iff
        idempotency_clash_def)
next
  case (Some old)
  note o = write_placement_old [OF assms(1) Some] and f = find_SomeD [OF Some]
  let ?tab = "db_placements d" and ?P = "\<lambda>r. placement_key r = placement_key row
      \<and> pl_observed_at r \<le> pl_observed_at row"
  let ?key = "\<lambda>r. (pl_provider r, pl_account_scope r, pl_idempotency_key r)"
  have u: "unique_by pl_id ?tab" "unique_by placement_key ?tab"
      "unique_where (\<lambda>r. pl_idempotency_key r \<noteq> None) ?key ?tab"
    using assms(2) by (auto simp: placement_inv_def)
  have only: "r = old" if "r \<in> set ?tab" "?P r" for r
    using unique_byD [OF u(2) that(1)] f that(2) by auto
  have "unique_by pl_id (db_placements d')" "unique_by placement_key (db_placements d')"
    using u o by (auto intro!: unique_by_upd_where simp: merge_placement_def placement_key_def)
  moreover have "unique_where (\<lambda>r. pl_idempotency_key r \<noteq> None) ?key (db_placements d')"
  proof (cases "?P old")
    case False
    with only have "db_placements d' = ?tab" unfolding o(1) by (intro upd_where_none) blast
    with u show ?thesis by simp
  next
    case True
    from f obtain xs ys where split: "?tab = xs @ old # ys" by (meson split_list)
    with u(1) have others: "pl_id r \<noteq> pl_id old" if "r \<in> set xs \<union> set ys" for r
      using that by (auto simp: unique_by_def image_iff)
    have same: "upd_where ?P (merge_placement row) zs = zs" if "set zs \<subseteq> set xs \<union> set ys" for zs
    proof (rule upd_where_none)
      fix r assume "r \<in> set zs"
      with that have r: "r \<in> set xs \<union> set ys" by blast
      with split have "r \<in> set ?tab" by auto
      with only [of r] others [OF r] show "\<not> ?P r" by blast
    qed
    have tab: "db_placements d' = xs @ merge_placement row old # ys"
      unfolding o(1) split upd_where_append upd_where_Cons using True same by auto
    let ?k = "coalesce (pl_idempotency_key row) (pl_idempotency_key old)"
    have noclash: "?key r \<noteq> (pl_provider row, pl_account_scope row, ?k)"
      if "r \<in> set xs \<union> set ys" "?k \<noteq> None" for r
      using o(2) others that split by (fastforce simp: list_ex_iff idempotency_clash_def)
    have old_key: "pl_provider old = pl_provider row" "pl_account_scope old = pl_account_scope row"
      using f by (auto simp: placement_key_def)
    from u(3) split have "distinct (map ?key (filter (\<lambda>r. pl_idempotency_key r \<noteq> None) (xs @ ys)))"
      by (auto simp: unique_where_def split: if_splits)
    with noclash old_key show ?thesis
      unfolding tab unique_where_def
      by (auto simp: merge_placement_def image_iff simp del: coalesce_None_iff)
  qed
  ultimately show ?thesis by (simp add: placement_inv_def)
qed

lemma record_placement_inv:
  assumes "record_placement now uuid input d = Inr (d', r)" "placement_inv d"
  shows "placement_inv d'"
  using assms(1)
proof (cases rule: record_placement_cases)
  case (old old)
  with assms(2) show ?thesis by simp
next
  case (new row)
  from new(1) assms(2) show ?thesis by (rule write_placement_inv)
qed

definition record_placements ::
  "(int \<times> string \<times> placement_input) list \<Rightarrow> db \<Rightarrow> (db \<times> placement option list) res" where
  "record_placements = fold_res (\<lambda>(now, uuid, input). record_placement now uuid input)"

definition sample_hash :: string where
  "sample_hash = replicate 40 (CHR ''a'')"

definition sample_placement_input :: "int \<Rightarrow> string \<Rightarrow> placement_input" where
  "sample_placement_input at st = \<lparr>plx_infoHash = JStr sample_hash, plx_provider = Some ''torbox'',
     plx_accountScope = None, plx_resourceId = Some ''77'', plx_ownership = None,
     plx_observedAt = Some at, plx_id = None, plx_state = Some st, plx_ownerKey = None,
     plx_provenance = Some ''scan'', plx_idempotencyKey = None, plx_expiresAt = None,
     plx_failureCategory = None, plx_retryable = None\<rparr>"

definition sample_placement :: placement where
  "sample_placement = \<lparr>pl_id = ''pl_u1'', pl_provider = ''torbox'', pl_account_scope = ''default'',
     pl_info_hash = sample_hash, pl_provider_resource_id = ''77'', pl_state = PsReady,
     pl_ownership = OwnUnknown, pl_owner_key = None, pl_provenance = ''scan'',
     pl_idempotency_key = None, pl_observed_at = 10, pl_expires_at = None, pl_created_at = 100,
     pl_updated_at = 100, pl_failure_category = None, pl_retryable = None\<rparr>"

definition sample_placements :: "(int \<times> string \<times> placement_input) list" where
  "sample_placements = [(200, ''u2'', sample_placement_input 30 ''degraded''),
     (300, ''u3'', sample_placement_input 20 ''ready'')]"

lemma sample_run: "record_placements sample_placements (empty_db\<lparr>db_placements := [sample_placement]\<rparr>) =
    Inr (empty_db\<lparr>db_placements := [sample_placement\<lparr>pl_state := PsDegraded, pl_observed_at := 30,
           pl_updated_at := 200\<rparr>]\<rparr>,
         replicate 2 (Some (sample_placement\<lparr>pl_state := PsDegraded, pl_observed_at := 30,
           pl_updated_at := 200\<rparr>)))"
  by code_simp

text \<open>
  C7: A sequence of placement observations keeps the keys of the table unique, and every
  placement it found keeps its id, its provider coordinates, its torrent hash and its creation
  time: a provider resource never changes its torrent.
\<close>

theorem placement_identity_immutable:
  assumes "record_placements ops d = Inr (d', rs)" "placement_inv d"
  shows "placement_inv d' \<and>
    (\<forall>r \<in> set (db_placements d). \<exists>r' \<in> set (db_placements d'). placement_identity r' = placement_identity r)"
proof -
  have run: "fold_res (\<lambda>(now, uuid, input). record_placement now uuid input) ops d = Inr (d', rs)"
    using assms(1) by (simp add: record_placements_def)
  have "placement_inv d'"
    by (rule fold_res_invariant [where I = placement_inv, OF _ run assms(2)]) (auto intro: record_placement_inv)
  moreover have "placements_kept d d'"
    by (rule fold_res_relation [where R = placements_kept, OF placements_kept_refl _ _ run])
       (auto intro: placements_kept_trans record_placement_kept)
  ultimately show ?thesis by (auto intro: placements_keptD)
qed

theorem placement_identity_immutable_witness:
  "placement_inv (empty_db\<lparr>db_placements := [sample_placement\<lparr>pl_state := PsDegraded,
     pl_observed_at := 30, pl_updated_at := 200\<rparr>]\<rparr>)"
  using placement_identity_immutable [OF sample_run]
  by (simp add: placement_inv_def unique_by_def unique_where_def)

text \<open>
  After a sequence of placement observations the stored row of a provider resource is at
  least as new as every observation of it, however they were ordered, and its time is that of
  the row found at the start or of one of the observations.
\<close>

theorem placement_latest_wins:
  assumes "record_placements ops d = Inr (d', rs)"
  shows "(\<forall>now uuid input row. ((now, uuid, input), Some row) \<in> set (zip ops rs) \<longrightarrow>
      (\<exists>new. find (\<lambda>r. placement_key r = placement_key row) (db_placements d') = Some new
         \<and> nullish (plx_observedAt input) now \<le> pl_observed_at new)) \<and>
    (\<forall>k new. find (\<lambda>r. placement_key r = k) (db_placements d') = Some new \<longrightarrow>
      (\<exists>old. find (\<lambda>r. placement_key r = k) (db_placements d) = Some old
         \<and> pl_observed_at old = pl_observed_at new) \<or>
      (\<exists>(now, uuid, input) \<in> set ops. pl_observed_at new = nullish (plx_observedAt input) now))"
proof -
  have run: "fold_res (\<lambda>(now, uuid, input). record_placement now uuid input) ops d = Inr (d', rs)"
    using assms by (simp add: record_placements_def)
  show ?thesis
    using placements.run_covers [OF run] placements.run_source [OF run] by (fastforce split: prod.splits)
qed

theorem placement_latest_wins_witness:
  "\<exists>new. find (\<lambda>r. placement_key r = (''torbox'', ''default'', ''77''))
       (db_placements (empty_db\<lparr>db_placements := [sample_placement\<lparr>pl_state := PsDegraded,
          pl_observed_at := 30, pl_updated_at := 200\<rparr>]\<rparr>)) = Some new \<and> 20 \<le> pl_observed_at new"
proof -
  have "\<exists>new. find (\<lambda>r. placement_key r = placement_key (sample_placement\<lparr>pl_state := PsDegraded,
            pl_observed_at := 30, pl_updated_at := 200\<rparr>))
       (db_placements (empty_db\<lparr>db_placements := [sample_placement\<lparr>pl_state := PsDegraded,
          pl_observed_at := 30, pl_updated_at := 200\<rparr>]\<rparr>)) = Some new
       \<and> nullish (plx_observedAt (sample_placement_input 20 ''ready'')) 300 \<le> pl_observed_at new"
    by (rule placement_latest_wins [OF sample_run, THEN conjunct1, rule_format, where uuid = "''u3''"])
       (simp add: sample_placements_def numeral_2_eq_2)
  then show ?thesis by (simp add: placement_key_def sample_placement_def sample_placement_input_def)
qed

text \<open>
  Marking a placement removed leaves a removed placement and no candidate mapping of it in
  the mapped state, unless it was removed already; other placements and mappings, and every other
  table, are untouched, and doing it again changes nothing.
\<close>

theorem mark_placement_removed_effect:
  assumes "mark_placement_removed now i reason at d = Inr (d', p)"
  shows "pl_id p = i \<and> pl_state p = PsRemoved \<and> get_placement d' i = Some p \<and>
    (\<forall>pl. get_placement d i = Some pl \<longrightarrow> pl_state pl \<noteq> PsRemoved \<longrightarrow>
       (\<forall>m \<in> set (db_mappings d'). fm_placement_id m = i \<longrightarrow> fm_state m \<noteq> CmMapped)) \<and>
    filter (\<lambda>r. pl_id r \<noteq> i) (db_placements d') = filter (\<lambda>r. pl_id r \<noteq> i) (db_placements d) \<and>
    filter (\<lambda>m. fm_placement_id m \<noteq> i) (db_mappings d') = filter (\<lambda>m. fm_placement_id m \<noteq> i) (db_mappings d) \<and>
    d'\<lparr>db_placements := db_placements d, db_mappings := db_mappings d\<rparr> = d \<and>
    mark_placement_removed now' i reason' at' d' = Inr (d', p)"
proof -
  from assms(1) obtain pl where pl: "get_placement d i = Some pl"
    by (auto simp: mark_placement_removed_def res_bind_Inr require_placement_Inr Let_def)
  show ?thesis
  proof (cases "pl_state pl = PsRemoved")
    case True
    with pl assms(1) have "d' = d" "p = pl"
      by (auto simp: mark_placement_removed_def res_bind_Inr require_placement_Inr Let_def)
    with True pl get_placement_SomeD [OF pl] show ?thesis
      by (simp add: mark_placement_removed_def require_placement_def)
  next
    case False
    define rsn where "rsn = nullish reason ''stale-resource''"
    define t where "t = nullish at now"
    have d': "d' = d\<lparr>db_placements := upd_where (\<lambda>r. pl_id r = i \<and> pl_state r \<noteq> PsRemoved)
          (remove_placement rsn t now) (db_placements d),
        db_mappings := upd_where (\<lambda>r. fm_placement_id r = i \<and> fm_state r = CmMapped)
          (demote_mapping rsn) (db_mappings d)\<rparr>" and p: "get_placement d' i = Some p"
      using False pl assms(1)
      by (auto simp: mark_placement_removed_def res_bind_Inr require_placement_Inr Let_def rsn_def t_def)
    have pp: "p = remove_placement rsn t now pl"
    proof -
      have "find (\<lambda>r. pl_id r = i) (upd_where (\<lambda>r. pl_id r = i \<and> pl_state r \<noteq> PsRemoved)
          (remove_placement rsn t now) (db_placements d)) = Some (remove_placement rsn t now pl)"
        using pl False get_placement_SomeD [OF pl]
        by (subst find_upd_where) (simp_all add: get_placement_def remove_placement_def)
      then have "get_placement d' i = Some (remove_placement rsn t now pl)"
        unfolding d' get_placement_def by simp
      with p show ?thesis by (simp only: option.inject)
    qed
    then have rem: "pl_id p = i" "pl_state p = PsRemoved"
      using get_placement_SomeD [OF pl] by (simp_all add: remove_placement_def)
    have others: "filter (\<lambda>r. pl_id r \<noteq> i) (db_placements d') = filter (\<lambda>r. pl_id r \<noteq> i) (db_placements d)"
      "filter (\<lambda>m. fm_placement_id m \<noteq> i) (db_mappings d') = filter (\<lambda>m. fm_placement_id m \<noteq> i) (db_mappings d)"
      unfolding d' by (simp_all, (rule filter_upd_where; simp add: remove_placement_def demote_mapping_def)+)
    have maps: "fm_state m \<noteq> CmMapped" if "m \<in> set (db_mappings d')" "fm_placement_id m = i" for m
    proof -
      have "db_mappings d' = upd_where (\<lambda>r. fm_placement_id r = i \<and> fm_state r = CmMapped)
          (demote_mapping rsn) (db_mappings d)"
        unfolding d' by simp
      with that(1) have "m \<in> set (upd_where (\<lambda>r. fm_placement_id r = i \<and> fm_state r = CmMapped)
          (demote_mapping rsn) (db_mappings d))" by (simp only:)
      then show ?thesis
      proof (cases rule: in_upd_whereE)
        case kept
        with that(2) show ?thesis by blast
      next
        case (changed s)
        then show ?thesis by (simp add: demote_mapping_def)
      qed
    qed
    have "d'\<lparr>db_placements := db_placements d, db_mappings := db_mappings d\<rparr> = d"
      unfolding d' by simp
    moreover have "mark_placement_removed now' i reason' at' d' = Inr (d', p)"
      using p rem by (simp add: mark_placement_removed_def require_placement_def)
    ultimately show ?thesis using p rem others maps by blast
  qed
qed

theorem mark_placement_removed_effect_witness:
  "\<exists>d' p. mark_placement_removed 500 ''pl_u1'' None None
     (empty_db\<lparr>db_placements := [sample_placement]\<rparr>) = Inr (d', p) \<and> pl_state p = PsRemoved
     \<and> mark_placement_removed 600 ''pl_u1'' None None d' = Inr (d', p)"
proof -
  have "\<exists>d' p. mark_placement_removed 500 ''pl_u1'' None None
     (empty_db\<lparr>db_placements := [sample_placement]\<rparr>) = Inr (d', p)"
    by (simp add: mark_placement_removed_def require_placement_def get_placement_def Let_def
        sample_placement_def upd_where_def remove_placement_def)
  with mark_placement_removed_effect show ?thesis by blast
qed

end
