(* ===== verification/Store_Observations.thy ===== *)
theory Store_Observations
  imports Store_Provider
begin

text \<open>
  Observations of the control-plane store, \<open>control-plane/store.js\<close>: placement look-ups,
  readiness, exposures, Zurg metadata and candidate file mappings. Each of the first four tables
  keeps the newest observation per key and is an instance of the locale \<open>latest_wins\<close>.
\<close>

section \<open>Observations\<close>

record lookup_input =
  lkx_infoHash :: jv
  lkx_provider :: "string option"
  lkx_accountScope :: "string option"
  lkx_state :: string
  lkx_observedAt :: "int option"
  lkx_expiresAt :: "int option"
  lkx_placementId :: "string option"
  lkx_id :: "string option"
  lkx_source :: "string option"
  lkx_failureCategory :: "string option"
  lkx_retryable :: "bool option"

definition lookup_key :: "placement_observation \<Rightarrow> string \<times> string \<times> string" where
  "lookup_key r = (po_provider r, po_account_scope r, po_info_hash r)"

definition merge_lookup :: "placement_observation \<Rightarrow> placement_observation \<Rightarrow> placement_observation" where
  "merge_lookup ex old = old\<lparr>po_observation_state := po_observation_state ex,
     po_placement_id := po_placement_id ex, po_observed_at := po_observed_at ex,
     po_expires_at := po_expires_at ex, po_source := po_source ex,
     po_failure_category := po_failure_category ex, po_retryable := po_retryable ex\<rparr>"

definition record_placement_lookup_observation ::
  "string \<Rightarrow> lookup_input \<Rightarrow> db \<Rightarrow> (db \<times> placement_observation option) res" where
  "record_placement_lookup_observation uuid input d =
     res_bind (create_release_identity (lkx_infoHash input) JNull) (\<lambda>identity.
     res_bind (normalize_identifier (lkx_provider input)) (\<lambda>provider.
     res_bind (account_scope_or_default (lkx_accountScope input)) (\<lambda>accountScope.
     res_bind (require_enum parse_observation_state (lkx_state input) ''observationState'') (\<lambda>st.
     res_bind (require_timestamp (lkx_observedAt input) ''observedAt'') (\<lambda>observedAt.
     res_bind (require_bounded_expiry (lkx_expiresAt input) observedAt ''placement lookup'') (\<lambda>expiresAt.
     res_bind (case lkx_placementId input of
          None \<Rightarrow> Inr None
        | Some pid \<Rightarrow> res_bind (require_placement d pid) (\<lambda>p.
            if pl_provider p \<noteq> provider \<or> pl_account_scope p \<noteq> accountScope
               \<or> pl_info_hash p \<noteq> ri_infoHash identity
            then Inl (JsError ''Placement lookup observation scope does not match placement'')
            else Inr (Some (pl_id p)))) (\<lambda>placementId.
     res_bind (ensure (\<not> (st = ObPresent \<and> (placementId = None \<or> placementId = Some [])))
        (TypeError ''Present placement lookup observation requires placementId'')) (\<lambda>_.
       observe_row lookup_key po_observed_at (\<lambda>row r. po_id r = po_id row) merge_lookup
         db_placement_obs (\<lambda>t. db_placement_obs_update (\<lambda>_. t))
         (provider, accountScope, ri_infoHash identity) observedAt
         (res_bind (require_string (lkx_source input) ''source'' 256) (\<lambda>source.
            Inr \<lparr>po_id = nullish (lkx_id input) (''po_'' @ uuid), po_provider = provider,
              po_account_scope = accountScope, po_info_hash = ri_infoHash identity,
              po_observation_state = st, po_placement_id = placementId,
              po_observed_at = observedAt, po_expires_at = expiresAt, po_source = source,
              po_failure_category = lkx_failureCategory input, po_retryable = lkx_retryable input\<rparr>)) d))))))))"

record readiness_input =
  rdx_placementId :: string
  rdx_observedAt :: "int option"
  rdx_expiresAt :: "int option"
  rdx_state :: string
  rdx_source :: "string option"
  rdx_failureCategory :: "string option"
  rdx_retryable :: "bool option"

definition merge_readiness :: "readiness_observation \<Rightarrow> readiness_observation \<Rightarrow> readiness_observation" where
  "merge_readiness ex old = old\<lparr>ro_state := ro_state ex, ro_observed_at := ro_observed_at ex,
     ro_expires_at := ro_expires_at ex, ro_source := ro_source ex,
     ro_failure_category := ro_failure_category ex, ro_retryable := ro_retryable ex\<rparr>"

definition record_readiness_observation ::
  "readiness_input \<Rightarrow> db \<Rightarrow> (db \<times> readiness_observation option) res" where
  "record_readiness_observation input d =
     res_bind (require_placement d (rdx_placementId input)) (\<lambda>placement.
     res_bind (require_timestamp (rdx_observedAt input) ''observedAt'') (\<lambda>observedAt.
     res_bind (require_bounded_expiry (rdx_expiresAt input) observedAt ''readiness'') (\<lambda>expiresAt.
     res_bind (require_enum parse_placement_state (rdx_state input) ''readiness state'') (\<lambda>st.
       observe_row ro_placement_id ro_observed_at (\<lambda>_ _. False) merge_readiness
         db_readiness (\<lambda>t. db_readiness_update (\<lambda>_. t)) (pl_id placement) observedAt
         (res_bind (require_string (rdx_source input) ''source'' 256) (\<lambda>source.
            Inr \<lparr>ro_placement_id = pl_id placement, ro_state = st, ro_observed_at = observedAt,
              ro_expires_at = expiresAt, ro_source = source,
              ro_failure_category = rdx_failureCategory input,
              ro_retryable = rdx_retryable input\<rparr>)) d))))"

record exposure_input =
  exx_placementId :: string
  exx_providerFileId :: string
  exx_accountScope :: "string option"
  exx_mountScope :: "string option"
  exx_transport :: "string option"
  exx_exposureKey :: "string option"
  exx_relativePath :: "string option"
  exx_state :: "string option"
  exx_readOnly :: "bool option"
  exx_observedAt :: "int option"
  exx_expiresAt :: "int option"
  exx_id :: "string option"
  exx_failureCategory :: "string option"
  exx_retryable :: "bool option"

definition exposure_row_key :: "exposure \<Rightarrow> string \<times> string \<times> string \<times> string" where
  "exposure_row_key r = (ex_transport r, ex_exposure_key r, ex_placement_id r, ex_provider_file_id r)"

definition merge_exposure :: "exposure \<Rightarrow> exposure \<Rightarrow> exposure" where
  "merge_exposure ex old = old\<lparr>ex_account_scope := ex_account_scope ex,
     ex_mount_scope := ex_mount_scope ex, ex_state := ex_state ex,
     ex_relative_path := ex_relative_path ex, ex_read_only := ex_read_only ex,
     ex_observed_at := ex_observed_at ex, ex_expires_at := ex_expires_at ex,
     ex_failure_category := ex_failure_category ex, ex_retryable := ex_retryable ex\<rparr>"

definition record_exposure ::
  "int \<Rightarrow> string \<Rightarrow> exposure_input \<Rightarrow> db \<Rightarrow> (db \<times> exposure option) res" where
  "record_exposure now uuid input d =
     res_bind (require_placement d (exx_placementId input)) (\<lambda>placement.
     res_bind (require_provider_file d (exx_placementId input) (exx_providerFileId input)) (\<lambda>_.
     res_bind (normalize_identifier (Some (nullish (exx_accountScope input) (pl_account_scope placement)))) (\<lambda>accountScope.
     res_bind (ensure (accountScope = pl_account_scope placement)
        (JsError ''Exposure account scope must match provider placement account scope'')) (\<lambda>_.
     res_bind (account_scope_or_default (exx_mountScope input)) (\<lambda>mountScope.
     res_bind (normalize_identifier (exx_transport input)) (\<lambda>transport.
     res_bind (require_string (exx_exposureKey input) ''exposureKey'' 1000) (\<lambda>exposureKey.
       let observedAt = nullish (exx_observedAt input) now in
       observe_row exposure_row_key ex_observed_at (\<lambda>row r. ex_id r = ex_id row) merge_exposure
         db_exposures (\<lambda>t. db_exposures_update (\<lambda>_. t))
         (transport, exposureKey, exx_placementId input, exx_providerFileId input) observedAt
         (res_bind (check_enum parse_exposure_state (nullish (exx_state input) ''unknown'') ''state'') (\<lambda>st.
            Inr \<lparr>ex_id = nullish (exx_id input) (''ex_'' @ uuid),
              ex_placement_id = exx_placementId input,
              ex_provider_file_id = exx_providerFileId input, ex_account_scope = accountScope,
              ex_mount_scope = mountScope, ex_transport = transport,
              ex_exposure_key = exposureKey, ex_relative_path = exx_relativePath input,
              ex_state = st, ex_read_only = (exx_readOnly input = Some True),
              ex_observed_at = observedAt, ex_expires_at = exx_expiresAt input,
              ex_failure_category = exx_failureCategory input,
              ex_retryable = exx_retryable input\<rparr>)) d)))))))"

record zurg_input =
  zmx_infoHash :: jv
  zmx_provider :: "string option"
  zmx_accountScope :: "string option"
  zmx_instanceScope :: "string option"
  zmx_metadataPath :: "string option"
  zmx_observationState :: string
  zmx_zurgState :: "string option"
  zmx_zurgStateWhen :: "int option"
  zmx_observedAt :: "int option"
  zmx_expiresAt :: "int option"
  zmx_id :: "string option"
  zmx_source :: "string option"
  zmx_failureCategory :: "string option"
  zmx_retryable :: "bool option"
  zmx_evidence :: "string option"

definition zurg_row_key :: "zurg_observation \<Rightarrow> string \<times> string \<times> string \<times> string \<times> string" where
  "zurg_row_key r = (zm_provider r, zm_account_scope r, zm_instance_scope r, zm_info_hash r, zm_metadata_path r)"

definition merge_zurg :: "zurg_observation \<Rightarrow> zurg_observation \<Rightarrow> zurg_observation" where
  "merge_zurg ex old = old\<lparr>zm_observation_state := zm_observation_state ex,
     zm_zurg_state := zm_zurg_state ex, zm_zurg_state_when := zm_zurg_state_when ex,
     zm_observed_at := zm_observed_at ex, zm_expires_at := zm_expires_at ex,
     zm_source := zm_source ex, zm_failure_category := zm_failure_category ex,
     zm_retryable := zm_retryable ex, zm_evidence := zm_evidence ex\<rparr>"

definition record_zurg_metadata_observation ::
  "string \<Rightarrow> zurg_input \<Rightarrow> db \<Rightarrow> (db \<times> zurg_observation option) res" where
  "record_zurg_metadata_observation uuid input d =
     res_bind (create_release_identity (zmx_infoHash input) JNull) (\<lambda>identity.
     res_bind (normalize_identifier (zmx_provider input)) (\<lambda>provider.
     res_bind (account_scope_or_default (zmx_accountScope input)) (\<lambda>accountScope.
     res_bind (account_scope_or_default (zmx_instanceScope input)) (\<lambda>instanceScope.
     res_bind (require_string (zmx_metadataPath input) ''metadataPath'' 4000) (\<lambda>metadataPath.
     res_bind (require_timestamp (zmx_observedAt input) ''observedAt'') (\<lambda>observedAt.
       observe_row zurg_row_key zm_observed_at (\<lambda>row r. zm_id r = zm_id row) merge_zurg
         db_zurg (\<lambda>t. db_zurg_update (\<lambda>_. t))
         (provider, accountScope, instanceScope, ri_infoHash identity, metadataPath) observedAt
         (res_bind (require_enum parse_observation_state (zmx_observationState input) ''observationState'') (\<lambda>st.
          res_bind (require_string (zmx_source input) ''source'' 256) (\<lambda>source.
            Inr \<lparr>zm_id = nullish (zmx_id input) (''zm_'' @ uuid), zm_provider = provider,
              zm_account_scope = accountScope, zm_instance_scope = instanceScope,
              zm_info_hash = ri_infoHash identity, zm_metadata_path = metadataPath,
              zm_observation_state = st, zm_zurg_state = zmx_zurgState input,
              zm_zurg_state_when = zmx_zurgStateWhen input, zm_observed_at = observedAt,
              zm_expires_at = zmx_expiresAt input, zm_source = source,
              zm_failure_category = zmx_failureCategory input,
              zm_retryable = zmx_retryable input, zm_evidence = zmx_evidence input\<rparr>))) d))))))"

text \<open>
  \<open>recordZurgMetadataObservation\<close> reads the observation time from its input; the recorders that
  default it to the clock take \<open>now\<close>.
\<close>

definition required_time :: "int option \<Rightarrow> int" where
  "required_time t = nullish t 0"

interpretation lookups: latest_wins
  "\<lambda>(uuid, input). record_placement_lookup_observation uuid input"
  "\<lambda>(uuid, input). required_time (lkx_observedAt input)"
  po_observed_at lookup_key "\<lambda>k d. find (\<lambda>r. lookup_key r = k) (db_placement_obs d)"
proof (rule latest_winsI [where merge = merge_lookup], goal_cases)
  case (1 i d d' r)
  then show ?case
    by (cases i) (auto simp: record_placement_lookup_observation_def res_bind_Inr require_timestamp_Inr
        required_time_def lookup_key_def elim!: observe_row_newest)
qed (simp_all add: merge_lookup_def lookup_key_def)

interpretation readiness: latest_wins
  record_readiness_observation "\<lambda>input. required_time (rdx_observedAt input)"
  ro_observed_at ro_placement_id "\<lambda>k d. find (\<lambda>r. ro_placement_id r = k) (db_readiness d)"
proof (rule latest_winsI [where merge = merge_readiness], goal_cases)
  case (1 i d d' r)
  then show ?case
    by (auto simp: record_readiness_observation_def res_bind_Inr require_timestamp_Inr
        required_time_def
        elim!: observe_row_newest)
qed (simp_all add: merge_readiness_def)

interpretation exposures: latest_wins
  "\<lambda>(now, uuid, input). record_exposure now uuid input"
  "\<lambda>(now, uuid, input). nullish (exx_observedAt input) now"
  ex_observed_at exposure_row_key "\<lambda>k d. find (\<lambda>r. exposure_row_key r = k) (db_exposures d)"
proof (rule latest_winsI [where merge = merge_exposure], goal_cases)
  case (1 i d d' r)
  then show ?case
    by (cases i) (auto simp: record_exposure_def res_bind_Inr Let_def exposure_row_key_def elim!: observe_row_newest)
qed (simp_all add: merge_exposure_def exposure_row_key_def)

interpretation zurg: latest_wins
  "\<lambda>(uuid, input). record_zurg_metadata_observation uuid input"
  "\<lambda>(uuid, input). required_time (zmx_observedAt input)"
  zm_observed_at zurg_row_key "\<lambda>k d. find (\<lambda>r. zurg_row_key r = k) (db_zurg d)"
proof (rule latest_winsI [where merge = merge_zurg], goal_cases)
  case (1 i d d' r)
  then show ?case
    by (cases i) (auto simp: record_zurg_metadata_observation_def res_bind_Inr require_timestamp_Inr
        required_time_def zurg_row_key_def elim!: observe_row_newest)
qed (simp_all add: merge_zurg_def zurg_row_key_def)

section \<open>Candidate file mappings and listings\<close>

record mapping_input =
  fmx_release :: jv
  fmx_placementId :: string
  fmx_providerFileId :: string
  fmx_id :: "string option"
  fmx_state :: "string option"
  fmx_method :: "string option"
  fmx_authoritative :: "bool option"
  fmx_evidence :: "string option"
  fmx_mappedAt :: "int option"
  fmx_failureCategory :: "string option"

definition mapping_key :: "file_mapping \<Rightarrow> string \<times> string" where
  "mapping_key r = (fm_release_key r, fm_placement_id r)"

definition merge_file_mapping :: "file_mapping \<Rightarrow> file_mapping \<Rightarrow> file_mapping" where
  "merge_file_mapping ex old = old\<lparr>fm_provider_file_id := fm_provider_file_id ex,
     fm_state := fm_state ex, fm_method := fm_method ex, fm_authoritative := fm_authoritative ex,
     fm_evidence := fm_evidence ex, fm_mapped_at := fm_mapped_at ex,
     fm_failure_category := fm_failure_category ex\<rparr>"

definition record_file_mapping ::
  "int \<Rightarrow> string \<Rightarrow> mapping_input \<Rightarrow> db \<Rightarrow> (db \<times> file_mapping option) res" where
  "record_file_mapping now uuid input d =
     res_bind (validate_release_identity (fmx_release input)) (\<lambda>identity.
     res_bind (require_placement d (fmx_placementId input)) (\<lambda>placement.
     res_bind (ensure (pl_info_hash placement = ri_infoHash identity)
        (JsError ''Candidate mapping hash must match provider placement hash'')) (\<lambda>_.
     res_bind (require_provider_file d (fmx_placementId input) (fmx_providerFileId input)) (\<lambda>file.
     res_bind (require_string (fmx_method input) ''method'' 256) (\<lambda>method.
     res_bind (check_enum parse_candidate_state (nullish (fmx_state input) ''mapped'') ''state'') (\<lambda>st.
       let row = \<lparr>fm_id = nullish (fmx_id input) (''fm_'' @ uuid),
             fm_info_hash = ri_infoHash identity, fm_file_index = ri_fileIndex identity,
             fm_release_key = ri_releaseKey identity, fm_placement_id = fmx_placementId input,
             fm_provider_file_id = pf_provider_file_id file, fm_state = st, fm_method = method,
             fm_authoritative = (fmx_authoritative input = Some True),
             fm_evidence = fmx_evidence input, fm_mapped_at = nullish (fmx_mappedAt input) now,
             fm_failure_category = fmx_failureCategory input\<rparr>;
           P = (\<lambda>r. mapping_key r = mapping_key row)
       in if \<not> list_ex P (db_mappings d) \<and> list_ex (\<lambda>r. fm_id r = fm_id row) (db_mappings d)
          then Inl (SqlConstraint ''candidate_file_mappings.id'')
          else let tab = upsert P (merge_file_mapping row) row (db_mappings d)
               in Inr (d\<lparr>db_mappings := tab\<rparr>, find P tab)))))))"

text \<open>\<open>listZurgMetadataObservations\<close>: a scope field that is given narrows the listing.\<close>

record zurg_scope =
  zs_provider :: "string option"
  zs_accountScope :: "string option"
  zs_instanceScope :: "string option"

definition scope_clause :: "string option \<Rightarrow> string option res" where
  "scope_clause v = (case v of None \<Rightarrow> Inr None
     | Some s \<Rightarrow> res_bind (normalize_identifier (Some s)) (\<lambda>n. Inr (Some n)))"

definition clause_holds :: "string option \<Rightarrow> string \<Rightarrow> bool" where
  "clause_holds c v = (case c of None \<Rightarrow> True | Some n \<Rightarrow> v = n)"

definition list_zurg_metadata_observations ::
  "jv \<Rightarrow> zurg_scope \<Rightarrow> db \<Rightarrow> zurg_observation list res" where
  "list_zurg_metadata_observations infoHash scope d =
     res_bind (create_release_identity infoHash JNull) (\<lambda>identity.
     res_bind (scope_clause (zs_provider scope)) (\<lambda>p.
     res_bind (scope_clause (zs_accountScope scope)) (\<lambda>a.
     res_bind (scope_clause (zs_instanceScope scope)) (\<lambda>i.
       Inr (sort_key (\<lambda>r. (zm_provider r, zm_account_scope r, zm_instance_scope r, zm_metadata_path r))
         (filter (\<lambda>r. zm_info_hash r = ri_infoHash identity \<and> clause_holds p (zm_provider r)
            \<and> clause_holds a (zm_account_scope r) \<and> clause_holds i (zm_instance_scope r)) (db_zurg d)))))))"

section \<open>Properties\<close>

definition record_exposures ::
  "(int \<times> string \<times> exposure_input) list \<Rightarrow> db \<Rightarrow> (db \<times> exposure option list) res" where
  "record_exposures = fold_res (\<lambda>(now, uuid, input). record_exposure now uuid input)"

text \<open>
  After a sequence of exposure observations the stored exposure of a coordinate is at least as
  new as every observation of it, and as every exposure that was stored before: a late report
  never brings back an older state.
\<close>

theorem exposure_latest_wins:
  assumes "record_exposures ops d = Inr (d', rs)"
  shows "(\<forall>now uuid input row. ((now, uuid, input), Some row) \<in> set (zip ops rs) \<longrightarrow>
      (\<exists>new. find (\<lambda>r. exposure_row_key r = exposure_row_key row) (db_exposures d') = Some new
         \<and> nullish (exx_observedAt input) now \<le> ex_observed_at new)) \<and>
    (\<forall>k old. find (\<lambda>r. exposure_row_key r = k) (db_exposures d) = Some old \<longrightarrow>
      (\<exists>new. find (\<lambda>r. exposure_row_key r = k) (db_exposures d') = Some new
         \<and> ex_observed_at old \<le> ex_observed_at new))"
proof -
  have run: "fold_res (\<lambda>(now, uuid, input). record_exposure now uuid input) ops d = Inr (d', rs)"
    using assms by (simp add: record_exposures_def)
  show ?thesis
    using exposures.run_covers [OF run] exposures.run_monotone [OF run] by fastforce
qed

text \<open>
  A readiness observation, a placement look-up or a Zurg observation that is older than the row
  of its key changes nothing and returns that row.
\<close>

theorem stale_observation_ignored:
  "(record_readiness_observation ri d = Inr (d', Some ro) \<longrightarrow>
      find (\<lambda>r. ro_placement_id r = ro_placement_id ro) (db_readiness d) = Some ro1 \<longrightarrow>
      required_time (rdx_observedAt ri) < ro_observed_at ro1 \<longrightarrow> d' = d \<and> ro = ro1) \<and>
   (record_placement_lookup_observation u li d = Inr (d', Some po) \<longrightarrow>
      find (\<lambda>r. lookup_key r = lookup_key po) (db_placement_obs d) = Some po1 \<longrightarrow>
      required_time (lkx_observedAt li) < po_observed_at po1 \<longrightarrow> d' = d \<and> po = po1) \<and>
   (record_zurg_metadata_observation u zi d = Inr (d', Some zo) \<longrightarrow>
      find (\<lambda>r. zurg_row_key r = zurg_row_key zo) (db_zurg d) = Some zo1 \<longrightarrow>
      required_time (zmx_observedAt zi) < zm_observed_at zo1 \<longrightarrow> d' = d \<and> zo = zo1)"
  using readiness.stale [of ri d d' ro ro1] lookups.stale [of "(u, li)" d d' po po1]
    zurg.stale [of "(u, zi)" d d' zo zo1] readiness.returns [of ri d d' "Some ro"]
    lookups.returns [of "(u, li)" d d' "Some po"] zurg.returns [of "(u, zi)" d d' "Some zo"] by auto

definition sample_file :: provider_file where
  "sample_file = \<lparr>pf_id = ''pf_1'', pf_placement_id = ''pl_u1'', pf_provider_file_id = ''5'',
     pf_path = ''a/b.mkv'', pf_name = ''b.mkv'', pf_size = Some 1000, pf_selected = None,
     pf_media_hint = None, pf_corpus_file_index = None, pf_present = True,
     pf_inventory_observed_at = 10, pf_inventory_expires_at = None, pf_missing_since = None,
     pf_evidence = None, pf_torrent_file_id = Some ''tf_1'', pf_mapping_state = Mapped,
     pf_mapping_error = None\<rparr>"

definition sample_exposure :: exposure where
  "sample_exposure = \<lparr>ex_id = ''ex_1'', ex_placement_id = ''pl_u1'', ex_provider_file_id = ''5'',
     ex_account_scope = ''default'', ex_mount_scope = ''default'', ex_transport = ''vfs'',
     ex_exposure_key = ''k'', ex_relative_path = None, ex_state = ExVisible, ex_read_only = True,
     ex_observed_at = 30, ex_expires_at = None, ex_failure_category = None, ex_retryable = None\<rparr>"

definition sample_readiness :: readiness_observation where
  "sample_readiness = \<lparr>ro_placement_id = ''pl_u1'', ro_state = PsReady, ro_observed_at = 50,
     ro_expires_at = 90, ro_source = ''s'', ro_failure_category = None, ro_retryable = None\<rparr>"

definition sample_db :: db where
  "sample_db = empty_db\<lparr>db_placements := [sample_placement], db_provider_files := [sample_file],
     db_exposures := [sample_exposure], db_readiness := [sample_readiness]\<rparr>"

definition sample_exposure_input :: "int \<Rightarrow> exposure_input" where
  "sample_exposure_input at = \<lparr>exx_placementId = ''pl_u1'', exx_providerFileId = ''5'',
     exx_accountScope = None, exx_mountScope = None, exx_transport = Some ''vfs'',
     exx_exposureKey = Some ''k'', exx_relativePath = None, exx_state = Some ''missing'',
     exx_readOnly = Some True, exx_observedAt = Some at, exx_expiresAt = None, exx_id = None,
     exx_failureCategory = None, exx_retryable = None\<rparr>"

definition sample_readiness_input :: readiness_input where
  "sample_readiness_input = \<lparr>rdx_placementId = ''pl_u1'', rdx_observedAt = Some 40,
     rdx_expiresAt = Some 99, rdx_state = ''error'', rdx_source = Some ''s'',
     rdx_failureCategory = None, rdx_retryable = None\<rparr>"

lemma sample_exposure_run:
  "record_exposures [(100, ''u'', sample_exposure_input 20), (100, ''v'', sample_exposure_input 40)] sample_db =
     Inr (sample_db\<lparr>db_exposures := [sample_exposure\<lparr>ex_state := ExMissing, ex_observed_at := 40\<rparr>]\<rparr>,
       [Some sample_exposure, Some (sample_exposure\<lparr>ex_state := ExMissing, ex_observed_at := 40\<rparr>)])"
  by code_simp

theorem exposure_latest_wins_witness:
  "\<exists>new. find (\<lambda>r. exposure_row_key r = exposure_row_key sample_exposure)
      [sample_exposure\<lparr>ex_state := ExMissing, ex_observed_at := 40\<rparr>] = Some new \<and> 30 \<le> ex_observed_at new"
  using exposure_latest_wins [OF sample_exposure_run, THEN conjunct2, rule_format,
      of "exposure_row_key sample_exposure" sample_exposure]
  by (simp add: sample_db_def sample_exposure_def)

theorem stale_observation_ignored_witness:
  "\<exists>d' ro. record_readiness_observation sample_readiness_input sample_db = Inr (d', Some ro)
     \<and> d' = sample_db \<and> ro = sample_readiness"
proof -
  have r: "record_readiness_observation sample_readiness_input sample_db = Inr (sample_db, Some sample_readiness)"
    by code_simp
  have "sample_db = sample_db \<and> sample_readiness = sample_readiness"
    by (rule stale_observation_ignored [THEN conjunct1, rule_format, OF r])
       (simp_all add: sample_db_def sample_readiness_input_def required_time_def sample_readiness_def)
  with r show ?thesis by blast
qed

end
