(* ===== verification/Store_Inventory.thy ===== *)
theory Store_Inventory
  imports Store_Observations
begin

text \<open>
  Provider file inventories of the control-plane store, \<open>control-plane/store.js\<close>:
  \<open>replaceProviderFileInventory\<close> with the torrent files it creates, the mapping conflicts it
  records and the terminal delivery evidence it supersedes, and the look-ups of provider and
  torrent files. A transaction is a value: \<open>Inl\<close> is the rolled-back one.
\<close>

section \<open>Paths, sizes and indices\<close>

definition canonicalize_internal_path :: "string option \<Rightarrow> string res" where
  "canonicalize_internal_path rawPath = (case rawPath of
      None \<Rightarrow> Inl (TypeError ''internal path must be a string'')
    | Some s \<Rightarrow>
        if s = [] then Inl (TypeError ''internal path must be a non-empty string'')
        else if CHR 0x5C \<in> set s \<or> CHR 0x00 \<in> set s
        then Inl (TypeError ''internal path must not contain backslashes or NULs'')
        else let p1 = (if starts_with s ''/'' then drop 1 s else s);
                 p = (if starts_with p1 ''./'' then drop 2 p1 else p1)
             in if p = [] \<or> p = ''.'' \<or> p = ''..'' \<or> includes_str p ''/../'' \<or> ends_with p ''/..''
                   \<or> starts_with p ''../''
                then Inl (TypeError ''internal path must not resolve above the torrent root'')
                else Inr p)"

definition is_valid_torrent_file_size :: "int option \<Rightarrow> bool" where
  "is_valid_torrent_file_size v = (case v of None \<Rightarrow> False | Some i \<Rightarrow> is_safe_integer i \<and> 0 < i)"

definition normalize_optional_file_index :: "int option \<Rightarrow> int option res" where
  "normalize_optional_file_index v = (case v of
      None \<Rightarrow> Inr None
    | Some i \<Rightarrow> if is_safe_integer i \<and> 0 \<le> i then Inr (Some i)
               else Inl (TypeError ''corpusFileIndex must be null or a non-negative safe integer''))"

section \<open>Look-ups\<close>

definition find_torrent_file :: "string \<Rightarrow> string option \<Rightarrow> db \<Rightarrow> torrent_file option res" where
  "find_torrent_file infoHash internalPath d =
     res_bind (canonicalize_internal_path internalPath) (\<lambda>c.
       Inr (find (\<lambda>t. tf_info_hash t = store_info_hash infoHash \<and> tf_internal_path t = c)
              (db_torrent_files d)))"

definition list_torrent_files_for_release :: "string \<Rightarrow> db \<Rightarrow> torrent_file list" where
  "list_torrent_files_for_release infoHash d =
     sort_key tf_internal_path (filter (\<lambda>t. tf_info_hash t = store_info_hash infoHash) (db_torrent_files d))"

definition list_provider_refs_for_torrent_file :: "string option \<Rightarrow> db \<Rightarrow> provider_file list res" where
  "list_provider_refs_for_torrent_file torrentFileId d =
     res_bind (require_string torrentFileId ''torrentFileId'' 256) (\<lambda>_.
       Inr (sort_key (\<lambda>r. (pf_placement_id r, pf_provider_file_id r))
              (filter (\<lambda>r. pf_torrent_file_id r = torrentFileId) (db_provider_files d))))"

definition list_provider_files :: "string \<Rightarrow> bool \<Rightarrow> db \<Rightarrow> provider_file list" where
  "list_provider_files placementId includeMissing d =
     sort_key (\<lambda>r. (pf_path r, pf_provider_file_id r))
       (filter (\<lambda>r. pf_placement_id r = placementId \<and> (includeMissing \<or> pf_present r)) (db_provider_files d))"

definition get_provider_inventory_snapshot :: "string \<Rightarrow> db \<Rightarrow> inventory_snapshot option" where
  "get_provider_inventory_snapshot placementId d =
     find (\<lambda>r. iv_placement_id r = placementId) (db_inventories d)"

definition find_library_item_by_info_hash :: "string \<Rightarrow> db \<Rightarrow> library_item option" where
  "find_library_item_by_info_hash infoHash d =
     find (\<lambda>li. list_ex (\<lambda>b. bd_library_item_id b = li_id li \<and> bd_info_hash b = store_info_hash infoHash
                  \<and> bd_status b = BdActive) (db_bindings d)) (db_items d)"

section \<open>The inventory replacement\<close>

record inventory_file =
  if_providerFileId :: "string option"
  if_path :: "string option"
  if_name :: "string option"
  if_size :: "int option"
  if_selected :: "bool option"
  if_mediaHint :: "string option"
  if_corpusFileIndex :: "int option"
  if_evidence :: "string option"

record inventory_options =
  io_observedAt :: "int option"
  io_expiresAt :: "int option"
  io_enforceObservationOrder :: bool
  io_authoritative :: bool
  io_complete :: bool
  io_evidence :: "string option"

text \<open>
  The pre-pass: \<open>seen\<close> provider file ids, the first owner of each canonical path, and the ids
  in conflict in the order in which the set received them.
\<close>

definition add_new :: "string \<Rightarrow> string list \<Rightarrow> string list" where
  "add_new x xs = (if x \<in> set xs then xs else xs @ [x])"

fun scan_duplicates ::
  "inventory_file list \<Rightarrow> string list \<Rightarrow> (string \<times> string) list \<Rightarrow> string list \<Rightarrow> string list res" where
  "scan_duplicates [] seen owners conflicts = Inr conflicts"
| "scan_duplicates (file # files) seen owners conflicts =
     res_bind (require_string (if_providerFileId file) ''providerFileId'' 256) (\<lambda>providerFileId.
       if providerFileId \<in> set seen then Inl (TypeError ''Duplicate providerFileId'')
       else if \<not> is_valid_torrent_file_size (if_size file)
       then scan_duplicates files (providerFileId # seen) owners conflicts
       else res_bind (canonicalize_internal_path (if_path file)) (\<lambda>canonical.
         case map_of owners canonical of
           Some prior \<Rightarrow> scan_duplicates files (providerFileId # seen) owners
                           (add_new providerFileId (add_new prior conflicts))
         | None \<Rightarrow> scan_duplicates files (providerFileId # seen)
                     ((canonical, providerFileId) # owners) conflicts))"

record inventory_context =
  ic_now :: int
  ic_uuid :: "nat \<Rightarrow> string"
  ic_placement :: placement
  ic_options :: inventory_options
  ic_at :: int
  ic_conflicts :: "string list"

definition provider_file_key :: "provider_file \<Rightarrow> string \<times> string" where
  "provider_file_key r = (pf_placement_id r, pf_provider_file_id r)"

definition merge_provider_file :: "provider_file \<Rightarrow> provider_file \<Rightarrow> provider_file" where
  "merge_provider_file ex old = ex\<lparr>pf_id := pf_id old, pf_placement_id := pf_placement_id old,
     pf_provider_file_id := pf_provider_file_id old, pf_present := True, pf_missing_since := None\<rparr>"

text \<open>The upsert of a file and the id of its row.\<close>

definition upsert_provider_file :: "provider_file \<Rightarrow> db \<Rightarrow> (db \<times> string) res" where
  "upsert_provider_file row d =
     (let P = (\<lambda>r. provider_file_key r = provider_file_key row); tab = db_provider_files d in
      case find P tab of
        Some old \<Rightarrow> Inr (d\<lparr>db_provider_files := upd_where P (merge_provider_file row) tab\<rparr>, pf_id old)
      | None \<Rightarrow> if list_ex (\<lambda>r. pf_id r = pf_id row) tab
                then Inl (SqlConstraint ''provider_files.id'')
                else Inr (d\<lparr>db_provider_files := tab @ [row]\<rparr>, pf_id row))"

definition set_mapping :: "string option \<Rightarrow> mapping_state \<Rightarrow> mapping_error option \<Rightarrow> provider_file \<Rightarrow> provider_file" where
  "set_mapping tf st err r = r\<lparr>pf_torrent_file_id := tf, pf_mapping_state := st, pf_mapping_error := err\<rparr>"

definition set_conflict :: "mapping_error \<Rightarrow> provider_file \<Rightarrow> provider_file" where
  "set_conflict err r = r\<lparr>pf_mapping_state := Conflict, pf_mapping_error := Some err\<rparr>"

definition mark_missing :: "int \<Rightarrow> int option \<Rightarrow> provider_file \<Rightarrow> provider_file" where
  "mark_missing at expiresAt r = r\<lparr>pf_present := False,
     pf_missing_since := coalesce (pf_missing_since r) (Some at),
     pf_inventory_observed_at := at, pf_inventory_expires_at := expiresAt\<rparr>"

fun conflict_reason :: "mapping_error \<Rightarrow> string" where
  "conflict_reason InvalidSize = ''invalid-size''"
| "conflict_reason (DuplicateCanonicalPath _ _ _) = ''duplicate-canonical-path''"
| "conflict_reason (SizeConflict _ _ _ _ _) = ''size-conflict''"

fun conflict_event_json :: "mapping_error \<Rightarrow> string \<Rightarrow> string" where
  "conflict_event_json InvalidSize rowId = json_object [(''providerFileRowId'', json_string rowId)]"
| "conflict_event_json (DuplicateCanonicalPath path ids at) rowId = json_object
     [(''canonicalPath'', json_string path), (''conflictingProviderFileIds'', json_strings ids),
      (''observedAt'', show_int at), (''providerFileRowId'', json_string rowId)]"
| "conflict_event_json (SizeConflict path tf existing observed at) rowId = json_object
     [(''canonicalPath'', json_string path), (''existingTorrentFileId'', json_string tf),
      (''existingSize'', show_int existing), (''observedSize'', show_int observed),
      (''observedAt'', show_int at), (''providerFileRowId'', json_string rowId)]"

definition apply_mapping_conflict :: "int \<Rightarrow> string \<Rightarrow> mapping_error \<Rightarrow> int \<Rightarrow> db \<Rightarrow> db" where
  "apply_mapping_conflict now rowId err at d =
     (let d1 = d\<lparr>db_provider_files :=
            upd_where (\<lambda>r. pf_id r = rowId) (set_conflict err) (db_provider_files d)\<rparr>
      in case find (\<lambda>r. pf_id r = rowId) (db_provider_files d1) of
           None \<Rightarrow> d1
         | Some row \<Rightarrow> (case get_placement d1 (pf_placement_id row) of
             None \<Rightarrow> d1
           | Some placement \<Rightarrow> (case find_library_item_by_info_hash (pl_info_hash placement) d1 of
               None \<Rightarrow> d1
             | Some item \<Rightarrow> d1\<lparr>db_events := db_events d1 @
                 [\<lparr>le_id = max_of (\<lambda>_. True) le_id (db_events d1) + 1,
                   le_library_item_id = li_id item, le_milestone = ''torrent-file-mapping-conflict'',
                   le_status = ''degraded'', le_occurred_at = at,
                   le_failure_category = Some (conflict_reason err), le_retryable = Some False,
                   le_retry_after_ms = None, le_source = ''control-plane-store'',
                   le_reason = Some (conflict_reason err),
                   le_evidence = Some (conflict_event_json err rowId), le_correlation_id = None,
                   le_recorded_at = now\<rparr>]\<rparr>)))"

text \<open>
  A file of valid size that no other file of the snapshot shares its path with: reuse the torrent
  file of its path, record a size conflict, or create the torrent file.
\<close>

definition map_torrent_file ::
  "inventory_context \<Rightarrow> string \<Rightarrow> string \<Rightarrow> int \<Rightarrow> string \<Rightarrow> string \<Rightarrow> db \<Rightarrow> db res" where
  "map_torrent_file ctx tfId canonical sz fileId rowId d =
     (let placement = ic_placement ctx; at = ic_at ctx in
      case find (\<lambda>t. tf_info_hash t = pl_info_hash placement \<and> tf_internal_path t = canonical)
             (db_torrent_files d) of
        Some existing \<Rightarrow>
          if tf_size existing \<noteq> sz
          then let err = SizeConflict canonical (tf_id existing) (tf_size existing) sz at
               in Inr (apply_mapping_conflict (ic_now ctx) rowId err at
                    (d\<lparr>db_provider_files := upd_where (\<lambda>r. pf_id r = rowId) (set_conflict err) (db_provider_files d)\<rparr>))
          else let demoted = upd_where (\<lambda>r. pf_placement_id r = pl_id placement
                     \<and> pf_torrent_file_id r = Some (tf_id existing) \<and> pf_present r
                     \<and> pf_provider_file_id r \<noteq> fileId)
                   (mark_missing at (io_expiresAt (ic_options ctx))) (db_provider_files d)
               in Inr (d\<lparr>db_provider_files := upd_where (\<lambda>r. pf_id r = rowId)
                    (set_mapping (Some (tf_id existing)) Mapped None) demoted\<rparr>)
      | None \<Rightarrow>
          if list_ex (\<lambda>t. tf_id t = tfId) (db_torrent_files d)
          then Inl (SqlConstraint ''torrent_files.id'')
          else Inr (d\<lparr>db_torrent_files := db_torrent_files d @
                   [\<lparr>tf_id = tfId, tf_info_hash = pl_info_hash placement, tf_internal_path = canonical,
                     tf_size = sz, tf_created_at = at\<rparr>],
                 db_provider_files := upd_where (\<lambda>r. pf_id r = rowId)
                   (set_mapping (Some tfId) Mapped None) (db_provider_files d)\<rparr>))"

text \<open>One turn of the loop over the files; \<open>k\<close> is the index of the file.\<close>

definition process_file ::
  "inventory_context \<Rightarrow> nat \<Rightarrow> inventory_file \<Rightarrow> string list \<Rightarrow> db \<Rightarrow> (db \<times> string list) res" where
  "process_file ctx k file seen d =
     res_bind (require_string (if_providerFileId file) ''providerFileId'' 256) (\<lambda>fileId.
     res_bind (ensure (fileId \<notin> set seen) (TypeError ''Duplicate providerFileId'')) (\<lambda>_.
       let sizeValid = is_valid_torrent_file_size (if_size file);
           inDuplicateSet = (fileId \<in> set (ic_conflicts ctx)); at = ic_at ctx
       in res_bind (if sizeValid then canonicalize_internal_path (if_path file) else Inr []) (\<lambda>canonical.
          res_bind (require_string (if_path file) ''path'' 2000) (\<lambda>path.
          res_bind (require_string (if_name file) ''name'' 1000) (\<lambda>name.
          res_bind (normalize_optional_file_index (if_corpusFileIndex file)) (\<lambda>corpusIndex.
          res_bind (upsert_provider_file
            \<lparr>pf_id = ''pf_'' @ ic_uuid ctx (2 * k), pf_placement_id = pl_id (ic_placement ctx),
             pf_provider_file_id = fileId, pf_path = path, pf_name = name, pf_size = if_size file,
             pf_selected = if_selected file, pf_media_hint = if_mediaHint file,
             pf_corpus_file_index = corpusIndex, pf_present = True, pf_inventory_observed_at = at,
             pf_inventory_expires_at = io_expiresAt (ic_options ctx), pf_missing_since = None,
             pf_evidence = if_evidence file, pf_torrent_file_id = None,
             pf_mapping_state = (if \<not> sizeValid then Incomplete
                else if inDuplicateSet then Conflict else Mapped),
             pf_mapping_error = (if \<not> sizeValid then Some InvalidSize
                else if inDuplicateSet
                then Some (DuplicateCanonicalPath canonical
                       (filter (\<lambda>i. i \<noteq> fileId) (ic_conflicts ctx)) at)
                else None)\<rparr> d) (\<lambda>(d1, rowId).
          if \<not> sizeValid then Inr (d1, fileId # seen)
          else if inDuplicateSet
          then Inr (apply_mapping_conflict (ic_now ctx) rowId
                 (DuplicateCanonicalPath canonical (ic_conflicts ctx) at) at d1, fileId # seen)
          else res_bind (map_torrent_file ctx (''tf_'' @ ic_uuid ctx (2 * k + 1)) canonical
                 (the (if_size file)) fileId rowId d1) (\<lambda>d2. Inr (d2, fileId # seen)))))))))"

fun process_files ::
  "inventory_context \<Rightarrow> nat \<Rightarrow> inventory_file list \<Rightarrow> string list \<Rightarrow> db \<Rightarrow> (db \<times> string list) res" where
  "process_files ctx k [] seen d = Inr (d, seen)"
| "process_files ctx k (file # files) seen d =
     res_bind (process_file ctx k file seen d) (\<lambda>(d1, seen1). process_files ctx (Suc k) files seen1 d1)"

definition retire_unlisted :: "inventory_context \<Rightarrow> string list \<Rightarrow> db \<Rightarrow> db" where
  "retire_unlisted ctx seen d = d\<lparr>db_provider_files :=
     upd_where (\<lambda>r. pf_placement_id r = pl_id (ic_placement ctx) \<and> pf_present r
                  \<and> pf_provider_file_id r \<notin> set seen)
       (mark_missing (ic_at ctx) (io_expiresAt (ic_options ctx))) (db_provider_files d)\<rparr>"

definition write_snapshot :: "inventory_context \<Rightarrow> nat \<Rightarrow> db \<Rightarrow> db" where
  "write_snapshot ctx n d =
     (let opts = ic_options ctx;
          row = \<lparr>iv_placement_id = pl_id (ic_placement ctx), iv_authoritative = io_authoritative opts,
            iv_complete = io_complete opts, iv_observed_at = ic_at ctx, iv_expires_at = io_expiresAt opts,
            iv_file_count = n, iv_evidence = io_evidence opts\<rparr>
      in d\<lparr>db_inventories := upsert (\<lambda>r. iv_placement_id r = pl_id (ic_placement ctx))
             (\<lambda>_. row) row (db_inventories d)\<rparr>)"

definition route_key :: "placement \<Rightarrow> delivery_evidence \<Rightarrow> bool" where
  "route_key placement r \<longleftrightarrow> de_provider r = pl_provider placement
     \<and> de_account_scope r = pl_account_scope placement \<and> de_placement_id r = pl_id placement"

definition supersede_terminal_route_evidence ::
  "int \<Rightarrow> placement \<Rightarrow> string list \<Rightarrow> int \<Rightarrow> db \<Rightarrow> db" where
  "supersede_terminal_route_evidence now placement fileIds at d =
     (let rows = map de_provider_file_id (filter (\<lambda>r. route_key placement r
            \<and> de_provider_file_id r \<in> set fileIds \<and> de_state r = EvTerminal \<and> at < de_expires_at r)
            (db_delivery d))
      in d\<lparr>db_delivery := upd_where (\<lambda>r. route_key placement r \<and> de_provider_file_id r \<in> set rows)
           (\<lambda>r. r\<lparr>de_state := EvUsable, de_reason := Some ''superseded-by-fresh-provider-inventory'',
              de_failure_category := None, de_observed_at := at,
              de_expires_at := at + 30 * 60 * 1000, de_recorded_at := now\<rparr>) (db_delivery d)\<rparr>)"

definition inventory_is_stale :: "inventory_options \<Rightarrow> int \<Rightarrow> inventory_snapshot option \<Rightarrow> bool" where
  "inventory_is_stale opts at current = (case current of
      None \<Rightarrow> False | Some c \<Rightarrow> io_enforceObservationOrder opts \<and> at < iv_observed_at c)"

definition replace_provider_file_inventory ::
  "int \<Rightarrow> (nat \<Rightarrow> string) \<Rightarrow> string \<Rightarrow> inventory_file list \<Rightarrow> inventory_options \<Rightarrow> db
     \<Rightarrow> (db \<times> provider_file list) res" where
  "replace_provider_file_inventory now uuid placementId files opts d =
     res_bind (require_placement d placementId) (\<lambda>placement.
       let at = nullish (io_observedAt opts) now in
       if inventory_is_stale opts at (get_provider_inventory_snapshot placementId d)
       then Inr (d, list_provider_files placementId False d)
       else res_bind (scan_duplicates files [] [] []) (\<lambda>conflicts.
         let ctx = \<lparr>ic_now = now, ic_uuid = uuid, ic_placement = placement, ic_options = opts,
               ic_at = at, ic_conflicts = conflicts\<rparr> in
         res_bind (process_files ctx 0 files [] d) (\<lambda>(d1, seen).
           let d2 = retire_unlisted ctx seen d1;
               d3 = write_snapshot ctx (length files) d2;
               d4 = supersede_terminal_route_evidence now placement seen at d3
           in Inr (d4, list_provider_files placementId False d4))))"

section \<open>The pre-pass\<close>

definition file_id_of :: "inventory_file \<Rightarrow> string res" where
  "file_id_of file = require_string (if_providerFileId file) ''providerFileId'' 256"

definition path_clash :: "inventory_file \<Rightarrow> inventory_file \<Rightarrow> bool" where
  "path_clash f g \<longleftrightarrow> file_id_of f \<noteq> file_id_of g
     \<and> is_valid_torrent_file_size (if_size f) \<and> is_valid_torrent_file_size (if_size g)
     \<and> is_ok (canonicalize_internal_path (if_path f))
     \<and> canonicalize_internal_path (if_path f) = canonicalize_internal_path (if_path g)"

text \<open>What the pre-pass knows after the files \<open>done\<close>.\<close>

definition scan_state ::
  "inventory_file list \<Rightarrow> string list \<Rightarrow> (string \<times> string) list \<Rightarrow> string list \<Rightarrow> bool" where
  "scan_state done seen owners conflicts \<longleftrightarrow>
     map file_id_of done = map Inr (rev seen) \<and> distinct seen \<and>
     (\<forall>f \<in> set done. is_valid_torrent_file_size (if_size f) \<longrightarrow>
        (\<exists>c owner g. canonicalize_internal_path (if_path f) = Inr c \<and> map_of owners c = Some owner
           \<and> g \<in> set done \<and> file_id_of g = Inr owner \<and> is_valid_torrent_file_size (if_size g)
           \<and> canonicalize_internal_path (if_path g) = Inr c
           \<and> (file_id_of f = Inr owner \<or> (\<forall>i. file_id_of f = Inr i \<longrightarrow> i \<in> set conflicts \<and> owner \<in> set conflicts)))) \<and>
     (\<forall>c owner. map_of owners c = Some owner \<longrightarrow> (\<exists>g \<in> set done. file_id_of g = Inr owner
        \<and> is_valid_torrent_file_size (if_size g) \<and> canonicalize_internal_path (if_path g) = Inr c)) \<and>
     (\<forall>i \<in> set conflicts. \<exists>f \<in> set done. \<exists>g \<in> set done. file_id_of f = Inr i \<and> path_clash f g)"

lemma set_add_new [simp]: "set (add_new x xs) = insert x (set xs)"
  by (auto simp: add_new_def)

lemma scan_state_init: "scan_state [] [] [] []"
  by (simp add: scan_state_def)

lemma scan_state_id:
  assumes "scan_state done seen owners conflicts" "f \<in> set done" "file_id_of f = Inr i"
  shows "i \<in> set seen"
proof -
  have "file_id_of f \<in> Inr ` set seen"
    using assms(1,2) unfolding scan_state_def by (metis imageI list.set_map set_rev)
  with assms(3) show ?thesis by auto
qed

lemma scan_state_skip:
  assumes "scan_state done seen owners conflicts" "file_id_of file = Inr i" "i \<notin> set seen"
    "\<not> is_valid_torrent_file_size (if_size file)"
  shows "scan_state (done @ [file]) (i # seen) owners conflicts"
  using assms unfolding scan_state_def by (auto; blast)

lemma scan_state_fresh:
  assumes s: "scan_state done seen owners conflicts" and i: "file_id_of nf = Inr i" "i \<notin> set seen"
    and v: "is_valid_torrent_file_size (if_size nf)" "canonicalize_internal_path (if_path nf) = Inr c"
    and none: "map_of owners c = None"
  shows "scan_state (done @ [nf]) (i # seen) ((c, i) # owners) conflicts"
proof -
  have old: "\<exists>c' owner g. canonicalize_internal_path (if_path f) = Inr c' \<and> map_of ((c, i) # owners) c' = Some owner
           \<and> g \<in> set (done @ [nf]) \<and> file_id_of g = Inr owner \<and> is_valid_torrent_file_size (if_size g)
           \<and> canonicalize_internal_path (if_path g) = Inr c'
           \<and> (file_id_of f = Inr owner \<or> (\<forall>i. file_id_of f = Inr i \<longrightarrow> i \<in> set conflicts \<and> owner \<in> set conflicts))"
    if f: "f \<in> set done" "is_valid_torrent_file_size (if_size f)" for f
  proof -
    from s f obtain c' owner g where "canonicalize_internal_path (if_path f) = Inr c'" "map_of owners c' = Some owner"
      "g \<in> set done" "file_id_of g = Inr owner" "is_valid_torrent_file_size (if_size g)"
      "canonicalize_internal_path (if_path g) = Inr c'"
      "file_id_of f = Inr owner \<or> (\<forall>i. file_id_of f = Inr i \<longrightarrow> i \<in> set conflicts \<and> owner \<in> set conflicts)"
      unfolding scan_state_def by blast
    moreover from this none have "c' \<noteq> c" by auto
    ultimately show ?thesis by (intro exI [of _ c'] exI [of _ owner] exI [of _ g]) auto
  qed
  have new: "\<exists>c' owner g. canonicalize_internal_path (if_path nf) = Inr c' \<and> map_of ((c, i) # owners) c' = Some owner
           \<and> g \<in> set (done @ [nf]) \<and> file_id_of g = Inr owner \<and> is_valid_torrent_file_size (if_size g)
           \<and> canonicalize_internal_path (if_path g) = Inr c'
           \<and> (file_id_of nf = Inr owner \<or> (\<forall>i. file_id_of nf = Inr i \<longrightarrow> i \<in> set conflicts \<and> owner \<in> set conflicts))"
    using i v by (intro exI [of _ c] exI [of _ i] exI [of _ nf]) auto
  have owners: "\<exists>g \<in> set (done @ [nf]). file_id_of g = Inr owner
        \<and> is_valid_torrent_file_size (if_size g) \<and> canonicalize_internal_path (if_path g) = Inr c'"
    if "map_of ((c, i) # owners) c' = Some owner" for c' owner
    using that s i v unfolding scan_state_def by (auto split: if_splits)
  show ?thesis
    unfolding scan_state_def
    using old new owners s i unfolding scan_state_def by (auto; blast)
qed

lemma scan_state_clash:
  assumes s: "scan_state done seen owners conflicts" and i: "file_id_of nf = Inr i" "i \<notin> set seen"
    and v: "is_valid_torrent_file_size (if_size nf)" "canonicalize_internal_path (if_path nf) = Inr c"
    and some: "map_of owners c = Some prior"
  shows "scan_state (done @ [nf]) (i # seen) owners (add_new i (add_new prior conflicts))"
proof -
  from s some obtain g where g: "g \<in> set done" "file_id_of g = Inr prior"
      "is_valid_torrent_file_size (if_size g)" "canonicalize_internal_path (if_path g) = Inr c"
    unfolding scan_state_def by blast
  have ne: "prior \<noteq> i" using scan_state_id [OF s g(1,2)] i(2) by auto
  have clash: "path_clash nf g" "path_clash g nf"
    using g i v ne by (auto simp: path_clash_def)
  have conf: "\<exists>f \<in> set (done @ [nf]). \<exists>g \<in> set (done @ [nf]). file_id_of f = Inr j \<and> path_clash f g"
    if "j \<in> set (add_new i (add_new prior conflicts))" for j
  proof -
    from that consider "j = i" | "j = prior" | "j \<in> set conflicts" by auto
    then show ?thesis
    proof cases
      case 3
      with s show ?thesis unfolding scan_state_def by auto
    qed (use clash g i in auto)
  qed
  have new: "\<exists>c' owner g. canonicalize_internal_path (if_path nf) = Inr c' \<and> map_of owners c' = Some owner
           \<and> g \<in> set (done @ [nf]) \<and> file_id_of g = Inr owner \<and> is_valid_torrent_file_size (if_size g)
           \<and> canonicalize_internal_path (if_path g) = Inr c'
           \<and> (file_id_of nf = Inr owner \<or> (\<forall>j. file_id_of nf = Inr j \<longrightarrow>
                j \<in> set (add_new i (add_new prior conflicts)) \<and> owner \<in> set (add_new i (add_new prior conflicts))))"
    using i v g some by (intro exI [of _ c] exI [of _ prior] exI [of _ g]) auto
  have old: "\<exists>c' owner g. canonicalize_internal_path (if_path f) = Inr c' \<and> map_of owners c' = Some owner
           \<and> g \<in> set (done @ [nf]) \<and> file_id_of g = Inr owner \<and> is_valid_torrent_file_size (if_size g)
           \<and> canonicalize_internal_path (if_path g) = Inr c'
           \<and> (file_id_of f = Inr owner \<or> (\<forall>j. file_id_of f = Inr j \<longrightarrow>
                j \<in> set (add_new i (add_new prior conflicts)) \<and> owner \<in> set (add_new i (add_new prior conflicts))))"
    if f: "f \<in> set done" "is_valid_torrent_file_size (if_size f)" for f
  proof -
    from s f obtain c' owner g where "canonicalize_internal_path (if_path f) = Inr c'" "map_of owners c' = Some owner"
      "g \<in> set done" "file_id_of g = Inr owner" "is_valid_torrent_file_size (if_size g)"
      "canonicalize_internal_path (if_path g) = Inr c'"
      "file_id_of f = Inr owner \<or> (\<forall>i. file_id_of f = Inr i \<longrightarrow> i \<in> set conflicts \<and> owner \<in> set conflicts)"
      unfolding scan_state_def by blast
    then show ?thesis by (intro exI [of _ c'] exI [of _ owner] exI [of _ g]) auto
  qed
  have ids: "map file_id_of (done @ [nf]) = map Inr (rev (i # seen))" "distinct (i # seen)"
    using s i unfolding scan_state_def by auto
  have own: "\<exists>g \<in> set (done @ [nf]). file_id_of g = Inr owner
        \<and> is_valid_torrent_file_size (if_size g) \<and> canonicalize_internal_path (if_path g) = Inr c'"
    if "map_of owners c' = Some owner" for c' owner
    using that s unfolding scan_state_def by (metis Un_iff set_append)
  show ?thesis
    unfolding scan_state_def [of "done @ [nf]"]
    using ids own conf old new by simp
qed

lemma scan_duplicates_state:
  assumes "scan_duplicates files seen owners conflicts = Inr r" "scan_state done seen owners conflicts"
  shows "\<exists>seen' owners'. scan_state (done @ files) seen' owners' r"
  using assms
proof (induction files arbitrary: seen owners conflicts "done")
  case Nil
  then show ?case by auto
next
  case (Cons nf files)
  from Cons.prems(1) obtain i where i: "file_id_of nf = Inr i" "i \<notin> set seen"
    by (auto simp: res_bind_Inr file_id_of_def split: if_splits)
  have step: "\<exists>seen' owners' conflicts'. scan_duplicates files seen' owners' conflicts' = Inr r
      \<and> scan_state (done @ [nf]) seen' owners' conflicts'"
  proof (cases "is_valid_torrent_file_size (if_size nf)")
    case False
    with Cons.prems(1) i have "scan_duplicates files (i # seen) owners conflicts = Inr r"
      by (auto simp: res_bind_Inr file_id_of_def)
    with scan_state_skip [OF Cons.prems(2) i False] show ?thesis by blast
  next
    case True
    with Cons.prems(1) i obtain c where c: "canonicalize_internal_path (if_path nf) = Inr c"
      by (auto simp: res_bind_Inr file_id_of_def)
    show ?thesis
    proof (cases "map_of owners c")
      case None
      with Cons.prems(1) i c True
      have "scan_duplicates files (i # seen) ((c, i) # owners) conflicts = Inr r"
        by (auto simp: res_bind_Inr file_id_of_def)
      with scan_state_fresh [OF Cons.prems(2) i True c None] show ?thesis by blast
    next
      case (Some prior)
      with Cons.prems(1) i c True
      have "scan_duplicates files (i # seen) owners (add_new i (add_new prior conflicts)) = Inr r"
        by (auto simp: res_bind_Inr file_id_of_def)
      with scan_state_clash [OF Cons.prems(2) i True c Some] show ?thesis by blast
    qed
  qed
  then obtain seen' owners' conflicts' where "scan_duplicates files seen' owners' conflicts' = Inr r"
      "scan_state (done @ [nf]) seen' owners' conflicts'" by blast
  from Cons.IH [OF this] show ?case by simp
qed

text \<open>The pre-pass finds exactly the files that share their canonical path with another one.\<close>

lemma scan_duplicates_exact:
  assumes "scan_duplicates files [] [] [] = Inr conflicts"
  shows "distinct (map file_id_of files)"
    and "f \<in> set files \<Longrightarrow> is_ok (file_id_of f)"
    and "f \<in> set files \<Longrightarrow> g \<in> set files \<Longrightarrow> path_clash f g \<Longrightarrow> file_id_of f = Inr i \<Longrightarrow> i \<in> set conflicts"
    and "i \<in> set conflicts \<Longrightarrow> \<exists>f \<in> set files. \<exists>g \<in> set files. file_id_of f = Inr i \<and> path_clash f g"
proof -
  obtain seen owners where s: "scan_state files seen owners conflicts"
    using scan_duplicates_state [OF assms scan_state_init] by auto
  then show "distinct (map file_id_of files)" by (auto simp: scan_state_def distinct_map)
  show "is_ok (file_id_of f)" if "f \<in> set files"
    using s that unfolding scan_state_def by (metis image_iff is_ok_simps(1) list.set_map)
  show "i \<in> set conflicts" if f: "f \<in> set files" and g: "g \<in> set files" and c: "path_clash f g"
      and i: "file_id_of f = Inr i"
  proof -
    from s f c obtain p own where p: "canonicalize_internal_path (if_path f) = Inr p" "map_of owners p = Some own"
        "file_id_of f = Inr own \<or> (\<forall>i. file_id_of f = Inr i \<longrightarrow> i \<in> set conflicts \<and> own \<in> set conflicts)"
      unfolding scan_state_def path_clash_def by blast
    from s g c obtain q own' where q: "canonicalize_internal_path (if_path g) = Inr q" "map_of owners q = Some own'"
        "file_id_of g = Inr own' \<or> (\<forall>i. file_id_of g = Inr i \<longrightarrow> i \<in> set conflicts \<and> own' \<in> set conflicts)"
      unfolding scan_state_def path_clash_def by blast
    from p q c have "own' = own" by (auto simp: path_clash_def)
    moreover obtain j where "file_id_of g = Inr j"
      using s g unfolding scan_state_def by (metis image_iff list.set_map)
    ultimately show ?thesis using p(3) q(3) i c by (auto simp: path_clash_def)
  qed
  show "\<exists>f \<in> set files. \<exists>g \<in> set files. file_id_of f = Inr i \<and> path_clash f g" if "i \<in> set conflicts"
    using s that unfolding scan_state_def by blast
qed

end
