(* ===== verification/Inventory_Invariant.thy ===== *)
theory Inventory_Invariant
  imports Store_Inventory
begin

text \<open>
  The invariant of the provider-file and torrent-file tables, and what an inventory replacement
  (\<open>replaceProviderFileInventory\<close>) does to them: at most one present file of a placement maps to
  a torrent file, torrent files never change, the present files are those of the snapshot, and
  conflicting files are never mapped.
\<close>

section \<open>The invariant\<close>

definition mapping_sound :: "db \<Rightarrow> provider_file \<Rightarrow> bool" where
  "mapping_sound d r \<longleftrightarrow> (case pf_torrent_file_id r of
      None \<Rightarrow> pf_mapping_state r \<noteq> Mapped
    | Some t \<Rightarrow> pf_mapping_state r = Mapped \<and>
        (\<exists>tf \<in> set (db_torrent_files d). tf_id tf = t \<and> pf_size r = Some (tf_size tf)
           \<and> (\<exists>pl \<in> set (db_placements d). pl_id pl = pf_placement_id r
                \<and> pl_info_hash pl = tf_info_hash tf)))"

definition torrent_key :: "torrent_file \<Rightarrow> string \<times> string" where
  "torrent_key t = (tf_info_hash t, tf_internal_path t)"

definition current_mapping :: "provider_file \<Rightarrow> bool" where
  "current_mapping r \<longleftrightarrow> pf_present r \<and> pf_torrent_file_id r \<noteq> None"

definition mapping_target :: "provider_file \<Rightarrow> string \<times> string option" where
  "mapping_target r = (pf_placement_id r, pf_torrent_file_id r)"

definition inventory_inv :: "db \<Rightarrow> bool" where
  "inventory_inv d \<longleftrightarrow> unique_by pl_id (db_placements d)
     \<and> unique_by pf_id (db_provider_files d) \<and> unique_by provider_file_key (db_provider_files d)
     \<and> unique_by tf_id (db_torrent_files d) \<and> unique_by torrent_key (db_torrent_files d)
     \<and> unique_where current_mapping mapping_target (db_provider_files d)
     \<and> (\<forall>r \<in> set (db_provider_files d). mapping_sound d r)"

lemma inventory_invD:
  assumes "inventory_inv d"
  shows "unique_by pl_id (db_placements d)" "unique_by pf_id (db_provider_files d)"
    "unique_by provider_file_key (db_provider_files d)" "unique_by tf_id (db_torrent_files d)"
    "unique_by torrent_key (db_torrent_files d)"
    "unique_where current_mapping mapping_target (db_provider_files d)"
    "r \<in> set (db_provider_files d) \<Longrightarrow> mapping_sound d r"
  using assms by (auto simp: inventory_inv_def)

section \<open>Replacing the row of one key\<close>

definition keeps_keys :: "(provider_file \<Rightarrow> provider_file) \<Rightarrow> bool" where
  "keeps_keys f \<longleftrightarrow> (\<forall>r. pf_id (f r) = pf_id r \<and> provider_file_key (f r) = provider_file_key r)"

text \<open>\<open>tab'\<close> has \<open>row\<close> for the key \<open>K\<close> and the image under \<open>m\<close> of every other row of \<open>tab\<close>.\<close>

definition row_replaced ::
  "string \<times> string \<Rightarrow> provider_file \<Rightarrow> (provider_file \<Rightarrow> provider_file) \<Rightarrow> provider_file list \<Rightarrow> provider_file list \<Rightarrow> bool"
where
  "row_replaced K row m tab tab' \<longleftrightarrow>
     keeps_keys m \<and> unique_by pf_id tab' \<and> unique_by provider_file_key tab' \<and>
     row \<in> set tab' \<and> provider_file_key row = K \<and>
     (\<forall>r \<in> set tab'. provider_file_key r \<noteq> K \<longrightarrow> (\<exists>r0 \<in> set tab. provider_file_key r0 \<noteq> K \<and> r = m r0)) \<and>
     (\<forall>r0 \<in> set tab. provider_file_key r0 \<noteq> K \<longrightarrow> m r0 \<in> set tab')"

lemma keeps_keys_id [simp]: "keeps_keys id"
  by (simp add: keeps_keys_def)

lemma keeps_keys_simps [simp]:
  "keeps_keys (set_mapping tf st err)" "keeps_keys (set_conflict e)" "keeps_keys (mark_missing at ex)"
  by (auto simp: keeps_keys_def set_mapping_def set_conflict_def mark_missing_def provider_file_key_def)

lemma row_replaced_row:
  assumes "row_replaced K row m tab tab'" "r \<in> set tab'" "provider_file_key r = K"
  shows "r = row"
  using assms unique_byD [of provider_file_key tab' r row] by (auto simp: row_replaced_def)

lemma row_replaced_cases:
  assumes "row_replaced K row m tab tab'" "r \<in> set tab'"
  obtains (row) "r = row" | (other) r0 where "r0 \<in> set tab" "provider_file_key r0 \<noteq> K" "r = m r0"
proof (cases "provider_file_key r = K")
  case True
  with assms show ?thesis by (blast intro: row row_replaced_row)
next
  case False
  with assms show ?thesis by (auto simp: row_replaced_def intro: other)
qed

lemma upsert_provider_file_replaces:
  assumes "upsert_provider_file row d = Inr (d1, rowId)" "pf_present row" "pf_missing_since row = None"
    and u: "unique_by pf_id (db_provider_files d)" "unique_by provider_file_key (db_provider_files d)"
  shows "d1 = d\<lparr>db_provider_files := db_provider_files d1\<rparr>"
    and "row_replaced (provider_file_key row) (row\<lparr>pf_id := rowId\<rparr>) id (db_provider_files d) (db_provider_files d1)"
proof -
  let ?P = "\<lambda>r. provider_file_key r = provider_file_key row"
  show "d1 = d\<lparr>db_provider_files := db_provider_files d1\<rparr>"
    using assms(1) by (auto simp: upsert_provider_file_def Let_def split: option.splits if_splits)
  show "row_replaced (provider_file_key row) (row\<lparr>pf_id := rowId\<rparr>) id (db_provider_files d) (db_provider_files d1)"
  proof (cases "find ?P (db_provider_files d)")
    case None
    then have n: "r \<in> set (db_provider_files d) \<Longrightarrow> provider_file_key r \<noteq> provider_file_key row" for r
      by (auto simp: find_None_iff)
    from None assms(1) have t: "db_provider_files d1 = db_provider_files d @ [row]" "rowId = pf_id row"
      "\<not> list_ex (\<lambda>r. pf_id r = pf_id row) (db_provider_files d)"
      by (auto simp: upsert_provider_file_def Let_def split: if_splits)
    have "provider_file_key row \<notin> provider_file_key ` set (db_provider_files d)"
      using n by (metis imageE)
    with t u have "unique_by provider_file_key (db_provider_files d1)" "unique_by pf_id (db_provider_files d1)"
      by (auto simp: unique_by_snoc list_ex_iff image_iff)
    with n t show ?thesis by (simp add: row_replaced_def)
  next
    case (Some old)
    note f = find_SomeD [OF Some]
    from Some assms(1) have t: "db_provider_files d1 = upd_where ?P (merge_provider_file row) (db_provider_files d)"
      "rowId = pf_id old"
      by (auto simp: upsert_provider_file_def Let_def)
    have only: "r = old" if "r \<in> set (db_provider_files d)" "?P r" for r
      using unique_byD [OF u(2) that(1)] f that(2) by auto
    have merged: "merge_provider_file row old = row\<lparr>pf_id := rowId\<rparr>"
      using f assms(2,3) t(2) by (simp add: merge_provider_file_def provider_file_key_def)
    have "row\<lparr>pf_id := rowId\<rparr> \<in> set (db_provider_files d1)"
      unfolding t(1) using in_upd_where_changed [of old _ ?P "merge_provider_file row"] f merged by simp
    moreover have "\<exists>r0 \<in> set (db_provider_files d). provider_file_key r0 \<noteq> provider_file_key row \<and> r = id r0"
      if "r \<in> set (db_provider_files d1)" "provider_file_key r \<noteq> provider_file_key row" for r
      using that only merged unfolding t(1)
      by (auto elim!: in_upd_whereE simp: provider_file_key_def merge_provider_file_def)
    moreover have "id r0 \<in> set (db_provider_files d1)"
      if "r0 \<in> set (db_provider_files d)" "provider_file_key r0 \<noteq> provider_file_key row" for r0
      unfolding t(1) using that by (simp add: in_upd_where_kept)
    moreover have "unique_by pf_id (db_provider_files d1)" "unique_by provider_file_key (db_provider_files d1)"
      unfolding t(1) using u
      by (auto intro!: unique_by_upd_where simp: merge_provider_file_def provider_file_key_def)
    ultimately show ?thesis by (auto simp: row_replaced_def provider_file_key_def)
  qed
qed

lemma row_replaced_upd:
  assumes r: "row_replaced K row m tab tab'" and f: "keeps_keys f"
  shows "row_replaced K (f row) m tab (upd_where (\<lambda>r. pf_id r = pf_id row) f tab')"
proof -
  let ?P = "\<lambda>r. pf_id r = pf_id row"
  from r have u: "unique_by pf_id tab'" "unique_by provider_file_key tab'" and row: "row \<in> set tab'"
      "provider_file_key row = K"
    by (auto simp: row_replaced_def)
  have other: "pf_id r \<noteq> pf_id row" if "r \<in> set tab'" "provider_file_key r \<noteq> K" for r
    using unique_byD [OF u(1) that(1) row(1)] that row by auto
  have fk: "pf_id (f r) = pf_id r" "provider_file_key (f r) = provider_file_key r" for r
    using f by (auto simp: keeps_keys_def)
  have a: "f row \<in> set (upd_where ?P f tab')" using row by (intro in_upd_where_changed) auto
  have b: "\<exists>r0 \<in> set tab. provider_file_key r0 \<noteq> K \<and> s = m r0"
    if s: "s \<in> set (upd_where ?P f tab')" "provider_file_key s \<noteq> K" for s
  proof -
    from s(1) have "s \<in> set tab'"
    proof (cases rule: in_upd_whereE)
      case (changed q)
      with unique_byD [OF u(1) changed(1) row(1)] have "q = row" by auto
      with changed s(2) fk row show ?thesis by simp
    qed
    with r s(2) show ?thesis by (simp add: row_replaced_def)
  qed
  have c: "m r0 \<in> set (upd_where ?P f tab')" if r0: "r0 \<in> set tab" "provider_file_key r0 \<noteq> K" for r0
  proof (rule in_upd_where_kept)
    show "m r0 \<in> set tab'" using r r0 by (simp add: row_replaced_def)
    moreover have "provider_file_key (m r0) \<noteq> K"
      using r r0(2) by (simp add: row_replaced_def keeps_keys_def)
    ultimately show "pf_id (m r0) \<noteq> pf_id row" using other by blast
  qed
  have "unique_by pf_id (upd_where ?P f tab')" "unique_by provider_file_key (upd_where ?P f tab')"
    using u fk by (auto intro: unique_by_upd_where)
  with a b c r row fk show ?thesis by (simp add: row_replaced_def)
qed

text \<open>Changing other rows after the row of the key.\<close>

lemma row_replaced_others:
  assumes r: "row_replaced K row id tab tab'" and g: "keeps_keys g" and Q: "\<not> Q row"
  shows "row_replaced K row (\<lambda>r. if Q r then g r else r) tab (upd_where Q g tab')"
proof -
  have gk: "pf_id (g r) = pf_id r" "provider_file_key (g r) = provider_file_key r" for r
    using g by (auto simp: keeps_keys_def)
  have b: "\<exists>r0 \<in> set tab. provider_file_key r0 \<noteq> K \<and> s = (if Q r0 then g r0 else r0)"
    if s: "s \<in> set (upd_where Q g tab')" "provider_file_key s \<noteq> K" for s
    using s r gk by (fastforce simp: row_replaced_def in_upd_where)
  have c: "(if Q r0 then g r0 else r0) \<in> set (upd_where Q g tab')"
    if "r0 \<in> set tab" "provider_file_key r0 \<noteq> K" for r0
    using r that by (auto simp: row_replaced_def in_upd_where_changed in_upd_where_kept)
  have "row \<in> set (upd_where Q g tab')" using r Q by (simp add: row_replaced_def in_upd_where_kept)
  moreover have "unique_by pf_id (upd_where Q g tab')" "unique_by provider_file_key (upd_where Q g tab')"
    using r gk by (auto simp: row_replaced_def intro: unique_by_upd_where)
  ultimately show ?thesis using b c r gk by (simp add: row_replaced_def keeps_keys_def)
qed

lemma row_replaced_map_cong:
  assumes "row_replaced K row m tab tab'" "keeps_keys m'"
    "\<And>r. r \<in> set tab \<Longrightarrow> provider_file_key r \<noteq> K \<Longrightarrow> m r = m' r"
  shows "row_replaced K row m' tab tab'"
  using assms unfolding row_replaced_def by (metis (no_types, lifting))

section \<open>One file\<close>

lemma apply_mapping_conflict_effect:
  assumes "d' = apply_mapping_conflict now rowId err at d"
  shows "db_provider_files d' = upd_where (\<lambda>r. pf_id r = rowId) (set_conflict err) (db_provider_files d)"
    and "d'\<lparr>db_provider_files := db_provider_files d, db_events := db_events d\<rparr> = d"
    and "db_torrent_files d' = db_torrent_files d"
  unfolding assms apply_mapping_conflict_def by (auto simp: Let_def split: option.splits)

text \<open>The rows other than the one of the file: the present ones that share its torrent file are demoted.\<close>

definition demote_shared :: "int \<Rightarrow> int option \<Rightarrow> provider_file \<Rightarrow> provider_file \<Rightarrow> provider_file" where
  "demote_shared at ex row r =
     (if pf_torrent_file_id row \<noteq> None \<and> pf_torrent_file_id r = pf_torrent_file_id row
         \<and> pf_placement_id r = pf_placement_id row \<and> pf_present r
         \<and> provider_file_key r \<noteq> provider_file_key row
      then mark_missing at ex r else r)"

lemma keeps_keys_demote_shared: "keeps_keys (demote_shared at ex row)"
  by (simp add: demote_shared_def keeps_keys_def mark_missing_def provider_file_key_def)

text \<open>What a file's turn makes of the tables: \<open>row\<close> is the row of the file afterwards.\<close>

definition file_step ::
  "inventory_context \<Rightarrow> inventory_file \<Rightarrow> string \<Rightarrow> provider_file \<Rightarrow> db \<Rightarrow> db \<Rightarrow> bool" where
  "file_step ctx f fileId row d d' \<longleftrightarrow>
     row_replaced (pl_id (ic_placement ctx), fileId) row
       (demote_shared (ic_at ctx) (io_expiresAt (ic_options ctx)) row)
       (db_provider_files d) (db_provider_files d') \<and>
     pf_present row \<and> pf_size row = if_size f \<and>
     d'\<lparr>db_provider_files := db_provider_files d, db_torrent_files := db_torrent_files d,
        db_events := db_events d\<rparr> = d \<and>
     (\<exists>new. db_torrent_files d' = db_torrent_files d @ new) \<and>
     unique_by tf_id (db_torrent_files d') \<and> unique_by torrent_key (db_torrent_files d') \<and>
     (case pf_torrent_file_id row of
        None \<Rightarrow> pf_mapping_state row \<noteq> Mapped
      | Some t \<Rightarrow> pf_mapping_state row = Mapped \<and> fileId \<notin> set (ic_conflicts ctx)
          \<and> is_valid_torrent_file_size (if_size f)
          \<and> (\<exists>tf \<in> set (db_torrent_files d'). tf_id tf = t \<and> if_size f = Some (tf_size tf)
               \<and> tf_info_hash tf = pl_info_hash (ic_placement ctx)
               \<and> canonicalize_internal_path (if_path f) = Inr (tf_internal_path tf)))"

lemma row_replaced_unmapped:
  assumes "row_replaced K row id tab tab'" "pf_torrent_file_id row = None"
  shows "row_replaced K row (demote_shared at ex row) tab tab'"
  by (rule row_replaced_map_cong [OF assms(1) keeps_keys_demote_shared])
     (simp add: demote_shared_def assms(2))

lemma row_key_pair:
  "provider_file_key r = (p, f) \<longleftrightarrow> pf_placement_id r = p \<and> pf_provider_file_id r = f"
  by (auto simp: provider_file_key_def)

text \<open>The file reaches \<open>map_torrent_file\<close>; \<open>d1\<close> is the database after the upsert.\<close>

lemma map_torrent_file_step:
  assumes inv: "inventory_inv d"
    and up: "row_replaced (pl_id (ic_placement ctx), fileId) row1 id (db_provider_files d) (db_provider_files d1)"
      "d1 = d\<lparr>db_provider_files := db_provider_files d1\<rparr>" "pf_id row1 = rowId" "pf_present row1"
      "pf_size row1 = if_size f" "pf_torrent_file_id row1 = None"
    and vf: "is_valid_torrent_file_size (if_size f)" "fileId \<notin> set (ic_conflicts ctx)"
      "canonicalize_internal_path (if_path f) = Inr c"
    and map: "map_torrent_file ctx tfId c (the (if_size f)) fileId rowId d1 = Inr d'"
  shows "\<exists>row. file_step ctx f fileId row d d'"
proof -
  let ?K = "(pl_id (ic_placement ctx), fileId)" and ?pl = "ic_placement ctx"
  let ?at = "ic_at ctx" and ?ex = "io_expiresAt (ic_options ctx)"
  have tfs: "db_torrent_files d1 = db_torrent_files d" by (subst up(2)) simp
  obtain sz where sz: "if_size f = Some sz" using vf(1) by (auto simp: is_valid_torrent_file_size_def split: option.splits)
  have k1: "provider_file_key row1 = ?K" using up(1) by (simp add: row_replaced_def)
  note ui = inventory_invD [OF inv]
  show ?thesis
  proof (cases "find (\<lambda>t. tf_info_hash t = pl_info_hash ?pl \<and> tf_internal_path t = c) (db_torrent_files d)")
    case (Some existing)
    note ex = find_SomeD [OF Some]
    show ?thesis
    proof (cases "tf_size existing = sz")
      case False
      define err where "err = SizeConflict c (tf_id existing) (tf_size existing) sz ?at"
      define dx where "dx = d1\<lparr>db_provider_files := upd_where (\<lambda>r. pf_id r = rowId) (set_conflict err) (db_provider_files d1)\<rparr>"
      from map Some False sz tfs have d': "d' = apply_mapping_conflict (ic_now ctx) rowId err ?at dx"
        by (simp add: map_torrent_file_def Let_def err_def dx_def)
      note ac = apply_mapping_conflict_effect [OF d']
      define row where "row = set_conflict err (set_conflict err row1)"
      have r1: "row_replaced ?K (set_conflict err row1) id (db_provider_files d) (db_provider_files dx)"
        using row_replaced_upd [OF up(1), of "set_conflict err"] up(3) by (simp add: dx_def)
      have "row_replaced ?K row id (db_provider_files d) (db_provider_files d')"
        unfolding ac(1) row_def using row_replaced_upd [OF r1, of "set_conflict err"] up(3)
        by (simp add: set_conflict_def)
      then have "row_replaced ?K row (demote_shared ?at ?ex row) (db_provider_files d) (db_provider_files d')"
        by (rule row_replaced_unmapped) (simp add: row_def set_conflict_def up(6))
      moreover have "db_torrent_files d' = db_torrent_files d"
        using ac(3) tfs by (simp add: dx_def)
      moreover have "d'\<lparr>db_provider_files := db_provider_files d, db_torrent_files := db_torrent_files d,
        db_events := db_events d\<rparr> = d"
        using ac(2) up(2) by (cases d; cases d1; cases d'; simp add: dx_def)
      ultimately have "file_step ctx f fileId row d d'"
        using ui(4,5) up(4,5,6) by (simp add: file_step_def row_def set_conflict_def)
      then show ?thesis by blast
    next
      case True
      define Q where "Q = (\<lambda>r :: provider_file. pf_placement_id r = pl_id ?pl \<and> pf_torrent_file_id r = Some (tf_id existing)
          \<and> pf_present r \<and> pf_provider_file_id r \<noteq> fileId)"
      define dem where "dem = upd_where Q (mark_missing ?at ?ex) (db_provider_files d1)"
      define row where "row = set_mapping (Some (tf_id existing)) Mapped None row1"
      from map Some True sz tfs have d': "d' = d1\<lparr>db_provider_files := upd_where (\<lambda>r. pf_id r = rowId)
          (set_mapping (Some (tf_id existing)) Mapped None) dem\<rparr>"
        by (simp add: map_torrent_file_def Let_def Q_def dem_def)
      have "\<not> Q row1" using k1 by (simp add: Q_def row_key_pair)
      from row_replaced_others [where Q = Q and g = "mark_missing ?at ?ex", OF up(1) _ this]
      have "row_replaced ?K row1 (\<lambda>r. if Q r then mark_missing ?at ?ex r else r) (db_provider_files d) dem"
        by (simp add: dem_def)
      from row_replaced_upd [OF this, of "set_mapping (Some (tf_id existing)) Mapped None"] up(3)
      have "row_replaced ?K row (\<lambda>r. if Q r then mark_missing ?at ?ex r else r) (db_provider_files d) (db_provider_files d')"
        by (simp add: d' row_def)
      then have "row_replaced ?K row (demote_shared ?at ?ex row) (db_provider_files d) (db_provider_files d')"
      proof (rule row_replaced_map_cong [OF _ keeps_keys_demote_shared])
        fix r assume "provider_file_key r \<noteq> ?K"
        with k1 show "(if Q r then mark_missing ?at ?ex r else r) = demote_shared ?at ?ex row r"
          by (auto simp: Q_def demote_shared_def row_def set_mapping_def row_key_pair provider_file_key_def)
      qed
      moreover have "d'\<lparr>db_provider_files := db_provider_files d, db_torrent_files := db_torrent_files d,
        db_events := db_events d\<rparr> = d" "db_torrent_files d' = db_torrent_files d"
        using up(2) tfs by (cases d; cases d1; simp add: d')+
      ultimately have "file_step ctx f fileId row d d'"
        using ui(4,5) up(4,5) vf ex True sz by (auto simp: file_step_def row_def set_mapping_def)
      then show ?thesis by blast
    qed
  next
    case None
    define tf where "tf = \<lparr>tf_id = tfId, tf_info_hash = pl_info_hash ?pl, tf_internal_path = c,
       tf_size = sz, tf_created_at = ?at\<rparr>"
    define row where "row = set_mapping (Some tfId) Mapped None row1"
    from map None sz tfs have fresh: "\<not> list_ex (\<lambda>t. tf_id t = tfId) (db_torrent_files d)"
      and d': "d' = d1\<lparr>db_torrent_files := db_torrent_files d1 @ [tf],
          db_provider_files := upd_where (\<lambda>r. pf_id r = rowId) (set_mapping (Some tfId) Mapped None) (db_provider_files d1)\<rparr>"
      by (auto simp: map_torrent_file_def Let_def tf_def split: if_splits)
    have "row_replaced ?K row id (db_provider_files d) (db_provider_files d')"
      using row_replaced_upd [OF up(1), of "set_mapping (Some tfId) Mapped None"] up(3) by (simp add: d' row_def)
    then have "row_replaced ?K row (demote_shared ?at ?ex row) (db_provider_files d) (db_provider_files d')"
    proof (rule row_replaced_map_cong [OF _ keeps_keys_demote_shared])
      fix r assume "r \<in> set (db_provider_files d)"
      with ui(7) [of r] fresh have "pf_torrent_file_id r \<noteq> Some tfId"
        by (auto simp: mapping_sound_def list_ex_iff)
      then show "id r = demote_shared ?at ?ex row r" by (simp add: demote_shared_def row_def set_mapping_def)
    qed
    moreover have "unique_by tf_id (db_torrent_files d @ [tf])" "unique_by torrent_key (db_torrent_files d @ [tf])"
      using ui(4,5) fresh None by (auto simp: unique_by_snoc list_ex_iff find_None_iff torrent_key_def tf_def)
    moreover have "d'\<lparr>db_provider_files := db_provider_files d, db_torrent_files := db_torrent_files d,
      db_events := db_events d\<rparr> = d" "db_torrent_files d' = db_torrent_files d @ [tf]"
      using up(2) tfs by (cases d; cases d1; simp add: d')+
    ultimately have "file_step ctx f fileId row d d'"
      using up(4,5) vf sz by (auto simp: file_step_def row_def set_mapping_def tf_def)
    then show ?thesis by blast
  qed
qed

lemma process_file_upsert:
  assumes "process_file ctx k f seen d = Inr (d', seen')"
  obtains fileId canonical row0 d1 rowId where
    "file_id_of f = Inr fileId" "fileId \<notin> set seen" "seen' = fileId # seen"
    "is_valid_torrent_file_size (if_size f) \<Longrightarrow> canonicalize_internal_path (if_path f) = Inr canonical"
    "upsert_provider_file row0 d = Inr (d1, rowId)"
    "provider_file_key row0 = (pl_id (ic_placement ctx), fileId)" "pf_present row0"
    "pf_missing_since row0 = None" "pf_size row0 = if_size f" "pf_torrent_file_id row0 = None"
    "\<not> is_valid_torrent_file_size (if_size f) \<Longrightarrow> pf_mapping_state row0 = Incomplete"
    "(if \<not> is_valid_torrent_file_size (if_size f) then Inr d1
      else if fileId \<in> set (ic_conflicts ctx)
      then Inr (apply_mapping_conflict (ic_now ctx) rowId
             (DuplicateCanonicalPath canonical (ic_conflicts ctx) (ic_at ctx)) (ic_at ctx) d1)
      else map_torrent_file ctx (''tf_'' @ ic_uuid ctx (2 * k + 1)) canonical
             (the (if_size f)) fileId rowId d1) = Inr d'"
proof -
  from assms obtain fileId canonical row0 d1 rowId where
    a: "file_id_of f = Inr fileId" "fileId \<notin> set seen"
    "(if is_valid_torrent_file_size (if_size f) then canonicalize_internal_path (if_path f) else Inr [])
        = Inr canonical"
    "upsert_provider_file row0 d = Inr (d1, rowId)"
    "provider_file_key row0 = (pl_id (ic_placement ctx), fileId)" "pf_present row0"
    "pf_missing_since row0 = None" "pf_size row0 = if_size f" "pf_torrent_file_id row0 = None"
    "\<not> is_valid_torrent_file_size (if_size f) \<Longrightarrow> pf_mapping_state row0 = Incomplete"
    and b: "(if \<not> is_valid_torrent_file_size (if_size f) then Inr (d1, fileId # seen)
      else if fileId \<in> set (ic_conflicts ctx)
      then Inr (apply_mapping_conflict (ic_now ctx) rowId
             (DuplicateCanonicalPath canonical (ic_conflicts ctx) (ic_at ctx)) (ic_at ctx) d1, fileId # seen)
      else res_bind (map_torrent_file ctx (''tf_'' @ ic_uuid ctx (2 * k + 1)) canonical
             (the (if_size f)) fileId rowId d1) (\<lambda>d2. Inr (d2, fileId # seen))) = Inr (d', seen')"
    unfolding process_file_def res_bind_Inr ensure_Inr Let_def file_id_of_def
    by (elim exE conjE) (simp add: provider_file_key_def split: prod.splits, rule that, auto simp: provider_file_key_def file_id_of_def)
  show thesis
  proof (rule that [OF a(1,2) _ _ a(4-10)])
    show "seen' = fileId # seen" using b by (auto simp: res_bind_Inr split: if_splits)
    show "canonicalize_internal_path (if_path f) = Inr canonical" if "is_valid_torrent_file_size (if_size f)"
      using a(3) that by simp
    show "(if \<not> is_valid_torrent_file_size (if_size f) then Inr d1
      else if fileId \<in> set (ic_conflicts ctx)
      then Inr (apply_mapping_conflict (ic_now ctx) rowId
             (DuplicateCanonicalPath canonical (ic_conflicts ctx) (ic_at ctx)) (ic_at ctx) d1)
      else map_torrent_file ctx (''tf_'' @ ic_uuid ctx (2 * k + 1)) canonical
             (the (if_size f)) fileId rowId d1) = Inr d'"
      using b by (auto simp: res_bind_Inr split: if_splits)
  qed
qed

lemma process_file_step:
  assumes step: "process_file ctx k f seen d = Inr (d', seen')" and inv: "inventory_inv d"
  obtains fileId row where "file_id_of f = Inr fileId" "fileId \<notin> set seen" "seen' = fileId # seen"
    "file_step ctx f fileId row d d'"
  using step
proof (rule process_file_upsert)
  fix fileId canonical row0 d1 rowId
  assume a: "file_id_of f = Inr fileId" "fileId \<notin> set seen" "seen' = fileId # seen"
    and can: "is_valid_torrent_file_size (if_size f) \<Longrightarrow> canonicalize_internal_path (if_path f) = Inr canonical"
    and up: "upsert_provider_file row0 d = Inr (d1, rowId)"
    and row0: "provider_file_key row0 = (pl_id (ic_placement ctx), fileId)" "pf_present row0"
      "pf_missing_since row0 = None" "pf_size row0 = if_size f" "pf_torrent_file_id row0 = None"
    and inc: "\<not> is_valid_torrent_file_size (if_size f) \<Longrightarrow> pf_mapping_state row0 = Incomplete"
    and tail: "(if \<not> is_valid_torrent_file_size (if_size f) then Inr d1
      else if fileId \<in> set (ic_conflicts ctx)
      then Inr (apply_mapping_conflict (ic_now ctx) rowId
             (DuplicateCanonicalPath canonical (ic_conflicts ctx) (ic_at ctx)) (ic_at ctx) d1)
      else map_torrent_file ctx (''tf_'' @ ic_uuid ctx (2 * k + 1)) canonical
             (the (if_size f)) fileId rowId d1) = Inr d'"
  let ?K = "(pl_id (ic_placement ctx), fileId)"
  note u = upsert_provider_file_replaces [OF up row0(2,3) inventory_invD(2,3) [OF inv]]
  define row1 where "row1 = row0\<lparr>pf_id := rowId\<rparr>"
  have r1: "row_replaced ?K row1 id (db_provider_files d) (db_provider_files d1)"
    using u(2) row0(1) by (simp add: row1_def)
  have f1: "pf_id row1 = rowId" "pf_present row1" "pf_size row1 = if_size f" "pf_torrent_file_id row1 = None"
      "\<not> is_valid_torrent_file_size (if_size f) \<Longrightarrow> pf_mapping_state row1 = Incomplete"
    using row0 inc by (simp_all add: row1_def)
  have same: "db_torrent_files d1 = db_torrent_files d" by (subst u(1)) simp
  have "\<exists>row. file_step ctx f fileId row d d'"
  proof (cases "is_valid_torrent_file_size (if_size f)")
    case False
    with tail have "d' = d1" by simp
    have "d1\<lparr>db_provider_files := db_provider_files d, db_torrent_files := db_torrent_files d,
        db_events := db_events d\<rparr> = d"
      using u(1) by (cases d; cases d1; simp)
    with False f1 same \<open>d' = d1\<close> row_replaced_unmapped [OF r1 f1(4)] inventory_invD(4,5) [OF inv]
    have "file_step ctx f fileId row1 d d'" by (simp add: file_step_def)
    then show ?thesis by blast
  next
    case valid: True
    show ?thesis
    proof (cases "fileId \<in> set (ic_conflicts ctx)")
      case False
      with tail valid have "map_torrent_file ctx (''tf_'' @ ic_uuid ctx (2 * k + 1)) canonical
             (the (if_size f)) fileId rowId d1 = Inr d'" by simp
      then show ?thesis
        by (rule map_torrent_file_step [OF inv r1 u(1) f1(1-4) valid False can [OF valid]])
    next
      case True
      define err where "err = DuplicateCanonicalPath canonical (ic_conflicts ctx) (ic_at ctx)"
      from True tail valid have d': "d' = apply_mapping_conflict (ic_now ctx) rowId err (ic_at ctx) d1"
        by (simp add: err_def)
      note ac = apply_mapping_conflict_effect [OF d']
      have "row_replaced ?K (set_conflict err row1) id (db_provider_files d) (db_provider_files d')"
        using row_replaced_upd [OF r1, of "set_conflict err"] f1(1) by (simp add: ac(1))
      from row_replaced_unmapped [OF this]
      have "row_replaced ?K (set_conflict err row1)
          (demote_shared (ic_at ctx) (io_expiresAt (ic_options ctx)) (set_conflict err row1))
          (db_provider_files d) (db_provider_files d')"
        using f1(4) by (simp add: set_conflict_def)
      moreover have "d'\<lparr>db_provider_files := db_provider_files d, db_torrent_files := db_torrent_files d,
          db_events := db_events d\<rparr> = d"
        using ac(2) u(1) by (cases d; cases d1; cases d'; simp)
      moreover have "db_torrent_files d' = db_torrent_files d" using ac(3) same by simp
      ultimately have "file_step ctx f fileId (set_conflict err row1) d d'"
        using f1 inventory_invD(4,5) [OF inv] by (simp add: file_step_def set_conflict_def)
      then show ?thesis by blast
    qed
  qed
  with a that show thesis by blast
qed

lemma file_step_placements: "file_step ctx f i row d d' \<Longrightarrow> db_placements d' = db_placements d"
  unfolding file_step_def by (cases d; cases d'; simp)

lemma demote_shared_fields [simp]:
  "pf_torrent_file_id (demote_shared at ex row r) = pf_torrent_file_id r"
  "pf_mapping_state (demote_shared at ex row r) = pf_mapping_state r"
  "pf_size (demote_shared at ex row r) = pf_size r"
  "pf_placement_id (demote_shared at ex row r) = pf_placement_id r"
  "pf_provider_file_id (demote_shared at ex row r) = pf_provider_file_id r"
  "provider_file_key (demote_shared at ex row r) = provider_file_key r"
  by (simp_all add: demote_shared_def mark_missing_def provider_file_key_def)

lemma demote_shared_current:
  "current_mapping (demote_shared at ex row r) \<Longrightarrow> demote_shared at ex row r = r"
  by (auto simp: demote_shared_def current_mapping_def mark_missing_def)

lemma mapping_sound_mono:
  assumes "mapping_sound d r" "set (db_torrent_files d) \<subseteq> set (db_torrent_files d')"
    "db_placements d' = db_placements d" "pf_torrent_file_id r' = pf_torrent_file_id r"
    "pf_mapping_state r' = pf_mapping_state r" "pf_size r' = pf_size r" "pf_placement_id r' = pf_placement_id r"
  shows "mapping_sound d' r'"
  using assms unfolding mapping_sound_def by (auto split: option.splits)

lemma file_step_inv:
  assumes s: "file_step ctx f fileId row d d'" and inv: "inventory_inv d"
    and pl: "ic_placement ctx \<in> set (db_placements d)"
  shows "inventory_inv d'"
proof -
  let ?m = "demote_shared (ic_at ctx) (io_expiresAt (ic_options ctx)) row"
  note ui = inventory_invD [OF inv]
  from s have r: "row_replaced (pl_id (ic_placement ctx), fileId) row ?m (db_provider_files d) (db_provider_files d')"
    and tfs: "set (db_torrent_files d) \<subseteq> set (db_torrent_files d')"
      "unique_by tf_id (db_torrent_files d')" "unique_by torrent_key (db_torrent_files d')"
    and present: "pf_present row"
    by (auto simp: file_step_def)
  from r have k: "provider_file_key row = (pl_id (ic_placement ctx), fileId)"
    and u: "unique_by pf_id (db_provider_files d')" "unique_by provider_file_key (db_provider_files d')"
    by (auto simp: row_replaced_def)
  note same = file_step_placements [OF s]
  have sound: "mapping_sound d' q" if q: "q \<in> set (db_provider_files d')" for q
    using r q
  proof (cases rule: row_replaced_cases)
    case row
    have "pf_placement_id row = pl_id (ic_placement ctx)" using k by (simp add: row_key_pair)
    moreover from s pl have "pf_mapping_state row = Mapped \<and> (\<exists>tf \<in> set (db_torrent_files d'). tf_id tf = t
        \<and> pf_size row = Some (tf_size tf) \<and> pl_info_hash (ic_placement ctx) = tf_info_hash tf)"
      if "pf_torrent_file_id row = Some t" for t
      using that by (fastforce simp: file_step_def)
    moreover from s have "pf_mapping_state row \<noteq> Mapped" if "pf_torrent_file_id row = None"
      using that by (simp add: file_step_def)
    ultimately show ?thesis
      unfolding row mapping_sound_def same using pl by (auto split: option.splits; metis)
  next
    case (other r0)
    then show ?thesis
      by (intro mapping_sound_mono [OF ui(7) [OF other(1)] tfs(1) same]) simp_all
  qed
  have one: "p = q"
    if p: "p \<in> set (db_provider_files d')" "current_mapping p"
      and q: "q \<in> set (db_provider_files d')" "current_mapping q"
      and eq: "mapping_target p = mapping_target q" for p q
  proof -
    have shared: False
      if o: "o' \<in> set (db_provider_files d')" "current_mapping o'" "mapping_target o' = mapping_target row" "o' \<noteq> row" for o'
      using r o(1)
    proof (cases rule: row_replaced_cases)
      case (other r0)
      with o k show False
        by (auto simp: demote_shared_def current_mapping_def mapping_target_def mark_missing_def split: if_splits)
    qed (use o in simp)
    show ?thesis
      using r p(1)
    proof (cases rule: row_replaced_cases)
      case row
      with shared [OF q] eq show ?thesis by metis
    next
      case p0: (other p0)
      show ?thesis
        using r q(1)
      proof (cases rule: row_replaced_cases)
        case row
        with shared [OF p] eq show ?thesis by metis
      next
        case (other q0)
        have "p = p0" using p(2) unfolding p0(3) by (rule demote_shared_current)
        have "q = q0" using q(2) unfolding other(3) by (rule demote_shared_current)
        have "p0 = q0"
          using p(2) q(2) eq unfolding \<open>p = p0\<close> \<open>q = q0\<close>
          by (rule unique_whereD [OF ui(6) p0(1) other(1)])
        then show ?thesis unfolding \<open>p = p0\<close> \<open>q = q0\<close> .
      qed
    qed
  qed
  have "unique_where current_mapping mapping_target (db_provider_files d')"
    using u(2) by (rule unique_whereI) (rule one)
  then show ?thesis unfolding inventory_inv_def same using ui(1) u tfs(2,3) sound by blast
qed

section \<open>All files\<close>

definition file_tables_only :: "db \<Rightarrow> db \<Rightarrow> bool" where
  "file_tables_only d d' \<longleftrightarrow> d'\<lparr>db_provider_files := db_provider_files d,
     db_torrent_files := db_torrent_files d, db_events := db_events d\<rparr> = d"

lemma file_tables_only_trans: "file_tables_only a b \<Longrightarrow> file_tables_only b c \<Longrightarrow> file_tables_only a c"
  unfolding file_tables_only_def by (cases a; cases b; cases c; simp)

lemma file_tables_only_placements: "file_tables_only a b \<Longrightarrow> db_placements b = db_placements a"
  unfolding file_tables_only_def by (cases a; cases b; simp)

definition others_kept :: "string \<Rightarrow> db \<Rightarrow> db \<Rightarrow> bool" where
  "others_kept p d d' \<longleftrightarrow> (\<forall>r. pf_placement_id r \<noteq> p \<longrightarrow>
     (r \<in> set (db_provider_files d')) = (r \<in> set (db_provider_files d)))"

text \<open>A listed file's row: present, and mapped only to the torrent file of its own path.\<close>

definition listed_row :: "inventory_context \<Rightarrow> inventory_file \<Rightarrow> db \<Rightarrow> provider_file \<Rightarrow> bool" where
  "listed_row ctx f d row \<longleftrightarrow> pf_placement_id row = pl_id (ic_placement ctx)
     \<and> file_id_of f = Inr (pf_provider_file_id row) \<and> row \<in> set (db_provider_files d) \<and> pf_present row
     \<and> (pf_torrent_file_id row \<noteq> None \<longrightarrow> pf_provider_file_id row \<notin> set (ic_conflicts ctx)
          \<and> is_valid_torrent_file_size (if_size f)
          \<and> (\<exists>tf \<in> set (db_torrent_files d). pf_torrent_file_id row = Some (tf_id tf)
               \<and> if_size f = Some (tf_size tf)
               \<and> canonicalize_internal_path (if_path f) = Inr (tf_internal_path tf)))"

definition conflicts_closed :: "inventory_context \<Rightarrow> inventory_file list \<Rightarrow> bool" where
  "conflicts_closed ctx files \<longleftrightarrow> (\<forall>f \<in> set files. \<forall>g \<in> set files. \<forall>i.
     path_clash f g \<longrightarrow> file_id_of f = Inr i \<longrightarrow> i \<in> set (ic_conflicts ctx))"

lemma file_step_listed:
  assumes s: "file_step ctx f fileId row d d'" "file_id_of f = Inr fileId"
  shows "listed_row ctx f d' row"
proof -
  from s(1) have "row_replaced (pl_id (ic_placement ctx), fileId) row
      (demote_shared (ic_at ctx) (io_expiresAt (ic_options ctx)) row) (db_provider_files d) (db_provider_files d')"
    by (simp add: file_step_def)
  then have "row \<in> set (db_provider_files d')" "pf_placement_id row = pl_id (ic_placement ctx)"
      "pf_provider_file_id row = fileId"
    by (auto simp: row_replaced_def row_key_pair)
  with s show ?thesis
    by (auto simp: listed_row_def file_step_def split: option.splits)
qed

lemma file_step_keeps_listed:
  assumes s: "file_step ctx f fileId row d d'" "file_id_of f = Inr fileId"
    and g: "listed_row ctx g d r" "file_id_of g \<noteq> Inr fileId"
    and closed: "conflicts_closed ctx files" "f \<in> set files" "g \<in> set files"
    and inv: "inventory_inv d'"
  shows "listed_row ctx g d' r"
proof -
  let ?m = "demote_shared (ic_at ctx) (io_expiresAt (ic_options ctx)) row"
  from s(1) have rr: "row_replaced (pl_id (ic_placement ctx), fileId) row ?m (db_provider_files d) (db_provider_files d')"
    and tfs: "set (db_torrent_files d) \<subseteq> set (db_torrent_files d')"
    by (auto simp: file_step_def)
  have ne: "provider_file_key r \<noteq> (pl_id (ic_placement ctx), fileId)"
    using g by (auto simp: listed_row_def row_key_pair)
  have "?m r = r"
  proof (rule ccontr)
    assume "?m r \<noteq> r"
    then obtain t where t: "pf_torrent_file_id row = Some t" "pf_torrent_file_id r = Some t"
      by (auto simp: demote_shared_def split: if_splits)
    from s(1) t(1) obtain a where a: "a \<in> set (db_torrent_files d')" "tf_id a = t"
        "fileId \<notin> set (ic_conflicts ctx)" "is_valid_torrent_file_size (if_size f)"
        "canonicalize_internal_path (if_path f) = Inr (tf_internal_path a)"
      by (auto simp: file_step_def)
    from g(1) t(2) tfs obtain b where b: "b \<in> set (db_torrent_files d')" "tf_id b = t"
        "is_valid_torrent_file_size (if_size g)"
        "canonicalize_internal_path (if_path g) = Inr (tf_internal_path b)"
      by (auto simp: listed_row_def)
    from unique_byD [OF inventory_invD(4) [OF inv] a(1) b(1)] a(2) b(2) have "a = b" by simp
    with a b s(2) g(2) have "path_clash f g" by (auto simp: path_clash_def)
    with closed s(2) have "fileId \<in> set (ic_conflicts ctx)" by (auto simp: conflicts_closed_def)
    with a(3) show False by blast
  qed
  moreover have "?m r \<in> set (db_provider_files d')"
    using rr g(1) ne by (auto simp: row_replaced_def listed_row_def)
  ultimately have "r \<in> set (db_provider_files d')" by simp
  with g(1) tfs show ?thesis unfolding listed_row_def by blast
qed

lemma file_step_others:
  assumes "file_step ctx f fileId row d d'"
  shows "others_kept (pl_id (ic_placement ctx)) d d'"
proof -
  let ?m = "demote_shared (ic_at ctx) (io_expiresAt (ic_options ctx)) row" and ?p = "pl_id (ic_placement ctx)"
  from assms have rr: "row_replaced (?p, fileId) row ?m (db_provider_files d) (db_provider_files d')"
    by (simp add: file_step_def)
  then have row: "pf_placement_id row = ?p" by (simp add: row_replaced_def row_key_pair)
  have m: "?m r = r" if "pf_placement_id r \<noteq> ?p" for r
    using that row by (auto simp: demote_shared_def)
  have mp: "pf_placement_id (?m r) = pf_placement_id r" for r by simp
  show ?thesis
    unfolding others_kept_def
  proof (intro allI impI iffI)
    fix r assume ne: "pf_placement_id r \<noteq> ?p" and r: "r \<in> set (db_provider_files d')"
    show "r \<in> set (db_provider_files d)"
      using rr r
    proof (cases rule: row_replaced_cases)
      case row': row
      with ne row show ?thesis by simp
    next
      case (other r0)
      with ne mp have "pf_placement_id r0 \<noteq> ?p" by metis
      with other m show ?thesis by metis
    qed
  next
    fix r assume r: "pf_placement_id r \<noteq> ?p" "r \<in> set (db_provider_files d)"
    then have "provider_file_key r \<noteq> (?p, fileId)" by (simp add: row_key_pair)
    with rr r(2) have "?m r \<in> set (db_provider_files d')" by (simp add: row_replaced_def)
    then show "r \<in> set (db_provider_files d')" unfolding m [OF r(1)] .
  qed
qed

text \<open>What the loop has established after the files \<open>done\<close>.\<close>

definition loop_state :: "inventory_context \<Rightarrow> inventory_file list \<Rightarrow> string list \<Rightarrow> db \<Rightarrow> db \<Rightarrow> bool" where
  "loop_state ctx done seen d0 d \<longleftrightarrow> inventory_inv d \<and> map file_id_of done = map Inr (rev seen)
     \<and> (\<forall>f \<in> set done. \<exists>row. listed_row ctx f d row)
     \<and> (\<exists>new. db_torrent_files d = db_torrent_files d0 @ new)
     \<and> file_tables_only d0 d \<and> others_kept (pl_id (ic_placement ctx)) d0 d"

lemma process_file_loop:
  assumes p: "process_file ctx k f seen d = Inr (d', seen')"
    and l: "loop_state ctx done seen d0 d" and pl: "ic_placement ctx \<in> set (db_placements d0)"
    and closed: "conflicts_closed ctx files" "set (done @ [f]) \<subseteq> set files"
  shows "loop_state ctx (done @ [f]) seen' d0 d'"
proof -
  from l have inv: "inventory_inv d" by (simp add: loop_state_def)
  obtain fileId row where st: "file_id_of f = Inr fileId" "fileId \<notin> set seen" "seen' = fileId # seen"
      "file_step ctx f fileId row d d'"
    using p inv by (rule process_file_step)
  from l have "db_placements d = db_placements d0"
    by (auto simp: loop_state_def intro: file_tables_only_placements)
  with pl have pl': "ic_placement ctx \<in> set (db_placements d)" by simp
  from file_step_inv [OF st(4) inv pl'] have inv': "inventory_inv d'" .
  have ids: "map file_id_of (done @ [f]) = map Inr (rev seen')"
    using l st by (simp add: loop_state_def)
  have listed: "\<exists>row. listed_row ctx g d' row" if g: "g \<in> set (done @ [f])" for g
  proof (cases "file_id_of g = Inr fileId")
    case True
    have "file_id_of g' \<noteq> Inr fileId" if "g' \<in> set done" for g'
    proof -
      have "file_id_of g' \<in> Inr ` set seen"
        using l that unfolding loop_state_def by (metis imageI list.set_map set_rev)
      with st(2) show ?thesis by auto
    qed
    with True g have "g = f" by auto
    with file_step_listed [OF st(4,1)] show ?thesis by blast
  next
    case False
    with g st(1) have "g \<in> set done" by auto
    with l obtain r where "listed_row ctx g d r" by (auto simp: loop_state_def)
    from file_step_keeps_listed [OF st(4,1) this False closed(1) _ _ inv'] closed(2) g
    show ?thesis by auto
  qed
  have tf: "\<exists>new. db_torrent_files d' = db_torrent_files d0 @ new"
    using l st(4) by (auto simp: loop_state_def file_step_def)
  have "file_tables_only d0 d'"
    using l st(4) file_tables_only_trans by (auto simp: loop_state_def file_step_def file_tables_only_def [of d])
  moreover have "others_kept (pl_id (ic_placement ctx)) d0 d'"
    using l file_step_others [OF st(4)] by (simp add: loop_state_def others_kept_def)
  ultimately show ?thesis using inv' ids listed tf by (simp add: loop_state_def)
qed

lemma process_files_loop:
  assumes "process_files ctx k files seen d = Inr (d', seen')"
    and "loop_state ctx done seen d0 d" "ic_placement ctx \<in> set (db_placements d0)"
    and "conflicts_closed ctx (done @ files)"
  shows "loop_state ctx (done @ files) seen' d0 d'"
  using assms
proof (induction files arbitrary: k seen d "done")
  case Nil
  then show ?case by simp
next
  case (Cons f files)
  from Cons.prems(1) obtain d1 seen1 where
    s: "process_file ctx k f seen d = Inr (d1, seen1)" "process_files ctx (Suc k) files seen1 d1 = Inr (d', seen')"
    by (auto simp: res_bind_Inr)
  from process_file_loop [OF s(1) Cons.prems(2,3,4)]
  have "loop_state ctx (done @ [f]) seen1 d0 d1" by auto
  from Cons.IH [OF s(2) this Cons.prems(3)] Cons.prems(4) show ?case by simp
qed

section \<open>The whole replacement\<close>

lemma in_retire_unlisted:
  assumes "r \<in> set (db_provider_files (retire_unlisted ctx seen d))"
  obtains (kept) "r \<in> set (db_provider_files d)"
      "pf_placement_id r = pl_id (ic_placement ctx) \<Longrightarrow> pf_present r \<Longrightarrow> pf_provider_file_id r \<in> set seen"
  | (retired) r0 where "r0 \<in> set (db_provider_files d)" "\<not> pf_present r"
      "pf_placement_id r0 = pl_id (ic_placement ctx)"
      "r = mark_missing (ic_at ctx) (io_expiresAt (ic_options ctx)) r0"
proof -
  from assms have "r \<in> set (upd_where (\<lambda>r. pf_placement_id r = pl_id (ic_placement ctx) \<and> pf_present r
      \<and> pf_provider_file_id r \<notin> set seen) (mark_missing (ic_at ctx) (io_expiresAt (ic_options ctx))) (db_provider_files d))"
    by (simp add: retire_unlisted_def)
  then show thesis
  proof (cases rule: in_upd_whereE)
    case kept
    then show ?thesis by (intro that(1)) auto
  next
    case (changed r0)
    then show ?thesis by (intro that(2) [of r0]) (auto simp: mark_missing_def)
  qed
qed

lemma retire_unlisted_inv:
  assumes inv: "inventory_inv d"
  shows "inventory_inv (retire_unlisted ctx seen d)"
proof -
  let ?d = "retire_unlisted ctx seen d"
  note ui = inventory_invD [OF inv]
  have same: "db_placements ?d = db_placements d" "db_torrent_files ?d = db_torrent_files d"
    by (simp_all add: retire_unlisted_def)
  have u: "unique_by pf_id (db_provider_files ?d)" "unique_by provider_file_key (db_provider_files ?d)"
    using ui(2,3) unfolding retire_unlisted_def
    by (auto intro!: unique_by_upd_where simp: mark_missing_def provider_file_key_def)
  have old: "r \<in> set (db_provider_files d)" if "r \<in> set (db_provider_files ?d)" "current_mapping r" for r
    using that(1) by (cases rule: in_retire_unlisted) (use that(2) in \<open>auto simp: current_mapping_def\<close>)
  have one: "unique_where current_mapping mapping_target (db_provider_files ?d)"
    using u(2)
  proof (rule unique_whereI)
    fix r q
    assume "r \<in> set (db_provider_files ?d)" "q \<in> set (db_provider_files ?d)"
      and c: "current_mapping r" "current_mapping q" "mapping_target r = mapping_target q"
    then show "r = q" using unique_whereD [OF ui(6) old old c(1,2,3)] by blast
  qed
  have "mapping_sound ?d r" if "r \<in> set (db_provider_files ?d)" for r
    using that
  proof (cases rule: in_retire_unlisted)
    case kept
    show ?thesis by (rule mapping_sound_mono [OF ui(7) [OF kept(1)]]) (simp_all add: same)
  next
    case (retired r0)
    show ?thesis
      by (rule mapping_sound_mono [OF ui(7) [OF retired(1)]]) (simp_all add: same retired(4) mark_missing_def)
  qed
  then show ?thesis unfolding inventory_inv_def same using ui(1,4,5) u one by blast
qed

lemma retire_unlisted_listed:
  assumes "listed_row ctx f d row" "pf_provider_file_id row \<in> set seen"
  shows "listed_row ctx f (retire_unlisted ctx seen d) row"
proof -
  have "row \<in> set (db_provider_files (retire_unlisted ctx seen d))"
    using assms by (auto simp: retire_unlisted_def listed_row_def intro: in_upd_where_kept)
  with assms(1) show ?thesis by (auto simp: listed_row_def retire_unlisted_def)
qed

lemma retire_unlisted_others: "others_kept (pl_id (ic_placement ctx)) d (retire_unlisted ctx seen d)"
  unfolding others_kept_def
proof (intro allI impI iffI)
  fix r assume ne: "pf_placement_id r \<noteq> pl_id (ic_placement ctx)"
    and r: "r \<in> set (db_provider_files (retire_unlisted ctx seen d))"
  from r show "r \<in> set (db_provider_files d)"
    by (cases rule: in_retire_unlisted) (use ne in \<open>auto simp: mark_missing_def\<close>)
next
  fix r assume "pf_placement_id r \<noteq> pl_id (ic_placement ctx)" "r \<in> set (db_provider_files d)"
  then show "r \<in> set (db_provider_files (retire_unlisted ctx seen d))"
    by (simp add: retire_unlisted_def in_upd_where_kept)
qed

lemma file_tables_same:
  fixes d d' :: db
  assumes "db_provider_files d' = db_provider_files d" "db_torrent_files d' = db_torrent_files d"
    "db_placements d' = db_placements d"
  shows "inventory_inv d' = inventory_inv d" "listed_row ctx f d' row = listed_row ctx f d row"
    "others_kept p d0 d' = others_kept p d0 d"
  using assms by (simp_all add: inventory_inv_def mapping_sound_def listed_row_def others_kept_def cong: option.case_cong)

lemma snapshot_tables [simp]:
  "db_provider_files (write_snapshot ctx n d) = db_provider_files d"
  "db_torrent_files (write_snapshot ctx n d) = db_torrent_files d"
  "db_placements (write_snapshot ctx n d) = db_placements d"
  "db_delivery (write_snapshot ctx n d) = db_delivery d"
  by (simp_all add: write_snapshot_def Let_def)

lemma supersede_tables [simp]:
  "db_provider_files (supersede_terminal_route_evidence now pl ids at d) = db_provider_files d"
  "db_torrent_files (supersede_terminal_route_evidence now pl ids at d) = db_torrent_files d"
  "db_placements (supersede_terminal_route_evidence now pl ids at d) = db_placements d"
  "db_inventories (supersede_terminal_route_evidence now pl ids at d) = db_inventories d"
  by (simp_all add: supersede_terminal_route_evidence_def Let_def)

text \<open>A replacement that is not stale, with everything its parts establish.\<close>

definition replaced ::
  "inventory_context \<Rightarrow> inventory_file list \<Rightarrow> string list \<Rightarrow> db \<Rightarrow> db \<Rightarrow> db \<Rightarrow> bool" where
  "replaced ctx files seen d d1 d' \<longleftrightarrow>
     scan_duplicates files [] [] [] = Inr (ic_conflicts ctx) \<and>
     process_files ctx 0 files [] d = Inr (d1, seen) \<and>
     d' = supersede_terminal_route_evidence (ic_now ctx) (ic_placement ctx) seen (ic_at ctx)
            (write_snapshot ctx (length files) (retire_unlisted ctx seen d1))"

lemma replace_inventory_cases:
  assumes "replace_provider_file_inventory now uuid p files opts d = Inr (d', l)"
  obtains
    (stale) "inventory_is_stale opts (nullish (io_observedAt opts) now) (get_provider_inventory_snapshot p d)"
      "d' = d" "l = list_provider_files p False d'"
  | (fresh) ctx d1 seen where
      "\<not> inventory_is_stale opts (nullish (io_observedAt opts) now) (get_provider_inventory_snapshot p d)"
      "get_placement d p = Some (ic_placement ctx)" "ic_at ctx = nullish (io_observedAt opts) now"
      "ic_now ctx = now" "ic_options ctx = opts"
      "replaced ctx files seen d d1 d'" "l = list_provider_files p False d'" "ic_uuid ctx = uuid"
proof -
  from assms obtain placement where pl: "get_placement d p = Some placement"
    and body: "(if inventory_is_stale opts (nullish (io_observedAt opts) now) (get_provider_inventory_snapshot p d)
       then Inr (d, list_provider_files p False d)
       else res_bind (scan_duplicates files [] [] []) (\<lambda>conflicts.
         let ctx = \<lparr>ic_now = now, ic_uuid = uuid, ic_placement = placement, ic_options = opts,
               ic_at = nullish (io_observedAt opts) now, ic_conflicts = conflicts\<rparr> in
         res_bind (process_files ctx 0 files [] d) (\<lambda>(d1, seen).
           let d2 = retire_unlisted ctx seen d1;
               d3 = write_snapshot ctx (length files) d2;
               d4 = supersede_terminal_route_evidence now placement seen (nullish (io_observedAt opts) now) d3
           in Inr (d4, list_provider_files p False d4)))) = Inr (d', l)"
    unfolding replace_provider_file_inventory_def res_bind_Inr [of "require_placement d p"] require_placement_Inr Let_def
    by blast
  show thesis
  proof (cases "inventory_is_stale opts (nullish (io_observedAt opts) now) (get_provider_inventory_snapshot p d)")
    case True
    with body show ?thesis by (intro stale) auto
  next
    case False
    with body obtain conflicts d1 seen where
      "scan_duplicates files [] [] [] = Inr conflicts"
      "process_files \<lparr>ic_now = now, ic_uuid = uuid, ic_placement = placement, ic_options = opts,
               ic_at = nullish (io_observedAt opts) now, ic_conflicts = conflicts\<rparr> 0 files [] d = Inr (d1, seen)"
      "d' = supersede_terminal_route_evidence now placement seen (nullish (io_observedAt opts) now)
        (write_snapshot \<lparr>ic_now = now, ic_uuid = uuid, ic_placement = placement, ic_options = opts,
               ic_at = nullish (io_observedAt opts) now, ic_conflicts = conflicts\<rparr> (length files)
          (retire_unlisted \<lparr>ic_now = now, ic_uuid = uuid, ic_placement = placement, ic_options = opts,
               ic_at = nullish (io_observedAt opts) now, ic_conflicts = conflicts\<rparr> seen d1))"
      "l = list_provider_files p False d'"
      by (auto simp: res_bind_Inr Let_def)
    with pl False show ?thesis
      by (intro fresh [of "\<lparr>ic_now = now, ic_uuid = uuid, ic_placement = placement, ic_options = opts,
               ic_at = nullish (io_observedAt opts) now, ic_conflicts = conflicts\<rparr>" seen d1])
         (simp_all add: replaced_def)
  qed
qed

lemma replaced_loop:
  assumes "replaced ctx files seen d d1 d'" "inventory_inv d" "ic_placement ctx \<in> set (db_placements d)"
  shows "loop_state ctx files seen d d1"
proof -
  have "loop_state ctx [] [] d d"
    using assms(2) by (simp add: loop_state_def file_tables_only_def others_kept_def)
  moreover have "conflicts_closed ctx ([] @ files)"
    using assms(1) scan_duplicates_exact(3) by (auto simp: replaced_def conflicts_closed_def)
  ultimately show ?thesis
    using process_files_loop [of ctx 0 files "[]" d d1 seen "[]" d] assms by (simp add: replaced_def)
qed

lemma loop_state_ids:
  assumes "loop_state ctx files seen d0 d"
  shows "i \<in> set seen \<longleftrightarrow> (\<exists>f \<in> set files. file_id_of f = Inr i)"
proof -
  have "set (map file_id_of files) = set (map Inr (rev seen))"
    using assms by (simp only: loop_state_def)
  then have "Inr i \<in> file_id_of ` set files \<longleftrightarrow> i \<in> set seen" by auto
  then show ?thesis by (metis image_iff)
qed

section \<open>Properties\<close>

lemma inventory_replacement_facts:
  assumes "replace_provider_file_inventory now uuid p files opts d = Inr (d', l)" "inventory_inv d"
  shows "inventory_inv d' \<and> (\<exists>new. db_torrent_files d' = db_torrent_files d @ new) \<and> others_kept p d d'"
  using assms(1)
proof (cases rule: replace_inventory_cases)
  case stale
  with assms(2) show ?thesis by (simp add: others_kept_def)
next
  case (fresh ctx d1 seen)
  note pl = get_placement_SomeD [OF fresh(2)]
  from replaced_loop [OF fresh(6) assms(2)] pl have l: "loop_state ctx files seen d d1" by blast
  from fresh(6) have d': "d' = supersede_terminal_route_evidence (ic_now ctx) (ic_placement ctx) seen (ic_at ctx)
      (write_snapshot ctx (length files) (retire_unlisted ctx seen d1))" by (simp add: replaced_def)
  have same: "db_provider_files d' = db_provider_files (retire_unlisted ctx seen d1)"
    "db_torrent_files d' = db_torrent_files (retire_unlisted ctx seen d1)"
    "db_placements d' = db_placements (retire_unlisted ctx seen d1)"
    by (simp_all add: d')
  have "inventory_inv d'"
    unfolding file_tables_same(1) [OF same] using l by (simp add: retire_unlisted_inv loop_state_def)
  moreover have "db_torrent_files d' = db_torrent_files d1" by (simp add: same(2) retire_unlisted_def)
  moreover have "others_kept p d d'"
    using l retire_unlisted_others [of ctx d1 seen] pl same(1) by (simp add: loop_state_def others_kept_def)
  ultimately show ?thesis using l by (simp add: loop_state_def)
qed

text \<open>
  C4: An inventory replacement keeps the invariant of the file tables (unique keys, at most one
  present file of a placement per torrent file, a mapped file has the size and the torrent hash of
  its torrent file), only adds torrent files and never changes one, and leaves the files of every
  other placement alone.
\<close>

theorem inventory_replacement_invariant:
  assumes "replace_provider_file_inventory now uuid p files opts d = Inr (d', l)" "inventory_inv d"
  shows "inventory_inv d' \<and> (\<exists>new. db_torrent_files d' = db_torrent_files d @ new) \<and> others_kept p d d'"
  using assms by (rule inventory_replacement_facts)

text \<open>
  C5: After an inventory replacement that is not stale, the present files of the placement are
  exactly the files of the snapshot, and the snapshot itself is stored with its time, its flags
  and the number of its files.
\<close>

theorem inventory_replacement_exact:
  assumes run: "replace_provider_file_inventory now uuid p files opts d = Inr (d', l)" and inv: "inventory_inv d"
    and ns: "\<not> inventory_is_stale opts (nullish (io_observedAt opts) now) (get_provider_inventory_snapshot p d)"
  shows "(\<forall>r \<in> set (db_provider_files d'). pf_placement_id r = p \<longrightarrow>
      pf_present r = (\<exists>f \<in> set files. file_id_of f = Inr (pf_provider_file_id r))) \<and>
    (\<forall>f \<in> set files. \<exists>r \<in> set (db_provider_files d'). pf_placement_id r = p
      \<and> file_id_of f = Inr (pf_provider_file_id r)) \<and>
    set l = {r \<in> set (db_provider_files d'). pf_placement_id r = p \<and> pf_present r} \<and>
    (\<exists>iv. get_provider_inventory_snapshot p d' = Some iv \<and> iv_authoritative iv = io_authoritative opts
      \<and> iv_complete iv = io_complete opts \<and> iv_observed_at iv = nullish (io_observedAt opts) now
      \<and> iv_file_count iv = length files)"
  using run
proof (cases rule: replace_inventory_cases)
  case stale
  with ns show ?thesis by simp
next
  case (fresh ctx d1 seen)
  note pl = get_placement_SomeD [OF fresh(2)]
  from replaced_loop [OF fresh(6) inv] pl have lp: "loop_state ctx files seen d d1" by blast
  from fresh(6) have d': "d' = supersede_terminal_route_evidence (ic_now ctx) (ic_placement ctx) seen (ic_at ctx)
      (write_snapshot ctx (length files) (retire_unlisted ctx seen d1))" by (simp add: replaced_def)
  note ids = loop_state_ids [OF lp]
  have pf: "db_provider_files d' = db_provider_files (retire_unlisted ctx seen d1)" by (simp add: d')
  have listed: "\<exists>row. listed_row ctx f (retire_unlisted ctx seen d1) row" if f: "f \<in> set files" for f
  proof -
    from lp f obtain row where row: "listed_row ctx f d1 row" by (auto simp: loop_state_def)
    then have "pf_provider_file_id row \<in> set seen" using f ids by (auto simp: listed_row_def)
    with row show ?thesis by (blast intro: retire_unlisted_listed)
  qed
  have uk: "unique_by provider_file_key (db_provider_files (retire_unlisted ctx seen d1))"
    using retire_unlisted_inv [of d1 ctx seen] lp by (simp add: loop_state_def inventory_inv_def)
  have present: "pf_present r = (pf_provider_file_id r \<in> set seen)"
    if r: "r \<in> set (db_provider_files (retire_unlisted ctx seen d1))" "pf_placement_id r = p" for r
  proof
    assume "pf_present r"
    with r(1) show "pf_provider_file_id r \<in> set seen"
      by (cases rule: in_retire_unlisted) (use r(2) pl \<open>pf_present r\<close> in auto)
  next
    assume "pf_provider_file_id r \<in> set seen"
    with ids obtain f where f: "f \<in> set files" "file_id_of f = Inr (pf_provider_file_id r)" by blast
    with listed obtain row where row: "listed_row ctx f (retire_unlisted ctx seen d1) row" by blast
    with f r(2) pl have "provider_file_key row = provider_file_key r"
      by (auto simp: listed_row_def provider_file_key_def)
    with unique_byD [OF uk] row r(1) have "row = r" by (auto simp: listed_row_def)
    with row show "pf_present r" by (simp add: listed_row_def)
  qed
  have iv: "\<exists>iv. get_provider_inventory_snapshot p d' = Some iv \<and> iv_authoritative iv = io_authoritative opts
      \<and> iv_complete iv = io_complete opts \<and> iv_observed_at iv = nullish (io_observedAt opts) now
      \<and> iv_file_count iv = length files"
    using pl fresh(3,4,5)
    by (simp add: d' get_provider_inventory_snapshot_def write_snapshot_def Let_def find_upsert_same split: option.splits)
  have 1: "\<forall>r \<in> set (db_provider_files d'). pf_placement_id r = p \<longrightarrow>
      pf_present r = (\<exists>f \<in> set files. file_id_of f = Inr (pf_provider_file_id r))"
    unfolding pf ids [symmetric] using present by blast
  have 2: "\<forall>f \<in> set files. \<exists>r \<in> set (db_provider_files d'). pf_placement_id r = p
      \<and> file_id_of f = Inr (pf_provider_file_id r)"
    unfolding pf using listed pl by (auto simp: listed_row_def)
  have 3: "set l = {r \<in> set (db_provider_files d'). pf_placement_id r = p \<and> pf_present r}"
    using fresh(7) by (auto simp: list_provider_files_def)
  from 1 2 3 iv show ?thesis by blast
qed

text \<open>
  C6: After an inventory replacement that is not stale, a file of the snapshot is mapped only when
  its size is valid and no other file of the snapshot has its canonical path, and then to the
  torrent file of that path and size.
\<close>

theorem inventory_mapping_exact:
  assumes run: "replace_provider_file_inventory now uuid p files opts d = Inr (d', l)" and inv: "inventory_inv d"
    and ns: "\<not> inventory_is_stale opts (nullish (io_observedAt opts) now) (get_provider_inventory_snapshot p d)"
    and f: "f \<in> set files" and r: "r \<in> set (db_provider_files d')" "pf_placement_id r = p"
      "file_id_of f = Inr (pf_provider_file_id r)" "pf_torrent_file_id r = Some t"
  shows "is_valid_torrent_file_size (if_size f) \<and> (\<forall>g \<in> set files. \<not> path_clash f g) \<and>
    (\<exists>tf \<in> set (db_torrent_files d'). tf_id tf = t \<and> if_size f = Some (tf_size tf)
       \<and> canonicalize_internal_path (if_path f) = Inr (tf_internal_path tf))"
  using run
proof (cases rule: replace_inventory_cases)
  case stale
  with ns show ?thesis by simp
next
  case (fresh ctx d1 seen)
  note pl = get_placement_SomeD [OF fresh(2)]
  from replaced_loop [OF fresh(6) inv] pl have lp: "loop_state ctx files seen d d1" by blast
  from fresh(6) have d': "d' = supersede_terminal_route_evidence (ic_now ctx) (ic_placement ctx) seen (ic_at ctx)
      (write_snapshot ctx (length files) (retire_unlisted ctx seen d1))"
    and scan: "scan_duplicates files [] [] [] = Inr (ic_conflicts ctx)" by (simp_all add: replaced_def)
  from lp f obtain row where row: "listed_row ctx f d1 row" by (auto simp: loop_state_def)
  have "pf_provider_file_id row \<in> set seen"
    using row f loop_state_ids [OF lp] by (auto simp: listed_row_def)
  from retire_unlisted_listed [OF row this]
  have row': "listed_row ctx f d' row"
    by (subst file_tables_same(2) [where d = "retire_unlisted ctx seen d1"]) (simp_all add: d')
  have "unique_by provider_file_key (db_provider_files d')"
    using retire_unlisted_inv [of d1 ctx seen] lp by (simp add: d' loop_state_def inventory_inv_def)
  from unique_byD [OF this, of row r] row' r pl have "row = r"
    by (auto simp: listed_row_def provider_file_key_def)
  with row' r(4) have m: "pf_provider_file_id r \<notin> set (ic_conflicts ctx)"
    "is_valid_torrent_file_size (if_size f)"
    "\<exists>tf \<in> set (db_torrent_files d'). tf_id tf = t \<and> if_size f = Some (tf_size tf)
       \<and> canonicalize_internal_path (if_path f) = Inr (tf_internal_path tf)"
    by (auto simp: listed_row_def)
  with scan_duplicates_exact(3) [OF scan f _ _ r(3)] show ?thesis by blast
qed

lemma replacement_supersedes_evidence:
  assumes run: "replace_provider_file_inventory now uuid p files opts d = Inr (d', l)" and inv: "inventory_inv d"
    and ns: "\<not> inventory_is_stale opts (nullish (io_observedAt opts) now) (get_provider_inventory_snapshot p d)"
    and pl: "get_placement d p = Some pl"
  shows "(\<forall>e \<in> set (db_delivery d'). \<forall>f \<in> set files. route_key pl e \<longrightarrow> file_id_of f = Inr (de_provider_file_id e)
      \<longrightarrow> \<not> (de_state e = EvTerminal \<and> nullish (io_observedAt opts) now < de_expires_at e)) \<and>
    (\<forall>e \<in> set (db_delivery d). (\<not> route_key pl e \<or> (\<forall>f \<in> set files. file_id_of f \<noteq> Inr (de_provider_file_id e)))
      \<longrightarrow> e \<in> set (db_delivery d'))"
  using run
proof (cases rule: replace_inventory_cases)
  case stale
  with ns show ?thesis by simp
next
  case (fresh ctx d1 seen)
  note plD = get_placement_SomeD [OF fresh(2)]
  from fresh(2) pl have c: "ic_placement ctx = pl" by simp
  from replaced_loop [OF fresh(6) inv] plD have lp: "loop_state ctx files seen d d1" by blast
  from fresh(6) have d': "d' = supersede_terminal_route_evidence (ic_now ctx) (ic_placement ctx) seen (ic_at ctx)
      (write_snapshot ctx (length files) (retire_unlisted ctx seen d1))" by (simp add: replaced_def)
  have "db_delivery d1 = db_delivery d"
    using lp unfolding loop_state_def file_tables_only_def by (cases d; cases d1; simp)
  then have same: "db_delivery (retire_unlisted ctx seen d1) = db_delivery d" by (simp add: retire_unlisted_def)
  note ids = loop_state_ids [OF lp]
  have no: "\<not> (de_state e = EvTerminal \<and> ic_at ctx < de_expires_at e)"
    if e: "e \<in> set (db_delivery d')" "route_key pl e" "de_provider_file_id e \<in> set seen" for e
    using e unfolding d'
    by (auto simp: supersede_terminal_route_evidence_def Let_def same c elim!: in_upd_whereE)
  have keep: "e \<in> set (db_delivery d')"
    if e: "e \<in> set (db_delivery d)" "\<not> route_key pl e \<or> de_provider_file_id e \<notin> set seen" for e
    using e unfolding d'
    by (auto simp: supersede_terminal_route_evidence_def Let_def same c intro: in_upd_where_kept)
  show ?thesis
    using no keep ids fresh(3) by (intro conjI ballI impI) auto
qed

text \<open>
  After an inventory replacement that is not stale, no file of the snapshot has a terminal
  delivery observation that is still fresh: the inventory supersedes it. The evidence of every
  other route is untouched.
\<close>

theorem inventory_supersedes_terminal:
  assumes run: "replace_provider_file_inventory now uuid p files opts d = Inr (d', l)" and inv: "inventory_inv d"
    and ns: "\<not> inventory_is_stale opts (nullish (io_observedAt opts) now) (get_provider_inventory_snapshot p d)"
    and pl: "get_placement d p = Some pl"
  shows "(\<forall>e \<in> set (db_delivery d'). \<forall>f \<in> set files. route_key pl e \<longrightarrow> file_id_of f = Inr (de_provider_file_id e)
      \<longrightarrow> \<not> (de_state e = EvTerminal \<and> nullish (io_observedAt opts) now < de_expires_at e)) \<and>
    (\<forall>e \<in> set (db_delivery d). (\<not> route_key pl e \<or> (\<forall>f \<in> set files. file_id_of f \<noteq> Inr (de_provider_file_id e)))
      \<longrightarrow> e \<in> set (db_delivery d'))"
  using assms by (rule replacement_supersedes_evidence)

definition sample_torrent_file :: torrent_file where
  "sample_torrent_file = \<lparr>tf_id = ''tf_1'', tf_info_hash = sample_hash, tf_internal_path = ''a/b.mkv'',
     tf_size = 1000, tf_created_at = 10\<rparr>"

definition sample_inventory_db :: db where
  "sample_inventory_db = sample_db\<lparr>db_torrent_files := [sample_torrent_file],
     db_delivery := [\<lparr>de_provider = ''torbox'', de_account_scope = ''default'', de_placement_id = ''pl_u1'',
        de_provider_file_id = ''6'', de_info_hash = None, de_file_index_key = -1, de_state = EvTerminal,
        de_reason = None, de_failure_category = None, de_endpoint_class = None, de_retry_after_ms = None,
        de_observed_at = 20, de_expires_at = 900, de_recorded_at = 20\<rparr>]\<rparr>"

definition sample_inventory_file :: "string \<Rightarrow> string \<Rightarrow> int \<Rightarrow> inventory_file" where
  "sample_inventory_file i path sz = \<lparr>if_providerFileId = Some i, if_path = Some path, if_name = Some ''n'',
     if_size = Some sz, if_selected = None, if_mediaHint = None, if_corpusFileIndex = None, if_evidence = None\<rparr>"

text \<open>A new provider file id for the known path, two files that share a path, and a new file.\<close>

definition sample_snapshot :: "inventory_file list" where
  "sample_snapshot = [sample_inventory_file ''6'' ''/a/b.mkv'' 1000, sample_inventory_file ''7'' ''x'' 5,
     sample_inventory_file ''8'' ''./x'' 6, sample_inventory_file ''9'' ''y'' 7]"

definition sample_inventory_options :: inventory_options where
  "sample_inventory_options = \<lparr>io_observedAt = Some 200, io_expiresAt = Some 500,
     io_enforceObservationOrder = True, io_authoritative = True, io_complete = True, io_evidence = None\<rparr>"

definition sample_uuid :: "nat \<Rightarrow> string" where
  "sample_uuid n = ''u'' @ show_nat n"

definition sample_replacement :: "(db \<times> provider_file list) res" where
  "sample_replacement = replace_provider_file_inventory 300 sample_uuid ''pl_u1'' sample_snapshot
     sample_inventory_options sample_inventory_db"

lemma sample_replacement_ok:
  "(case sample_replacement of Inl _ \<Rightarrow> False | Inr (d', l) \<Rightarrow>
     map (\<lambda>r. (pf_provider_file_id r, pf_present r, pf_torrent_file_id r)) (db_provider_files d') =
       [(''5'', False, Some ''tf_1''), (''6'', True, Some ''tf_1''), (''7'', True, None),
        (''8'', True, None), (''9'', True, Some ''tf_u7'')])"
  by code_simp

lemma sample_inventory_inv: "inventory_inv sample_inventory_db"
  by code_simp

lemma sample_replacement_run: "\<exists>d' l. sample_replacement = Inr (d', l)"
  using sample_replacement_ok by (auto split: sum.splits)

lemma sample_not_stale: "\<not> inventory_is_stale sample_inventory_options
    (nullish (io_observedAt sample_inventory_options) 300) (get_provider_inventory_snapshot ''pl_u1'' sample_inventory_db)"
  by code_simp

theorem inventory_replacement_invariant_witness:
  "\<exists>d' l. sample_replacement = Inr (d', l) \<and> inventory_inv d'
     \<and> (\<exists>new. db_torrent_files d' = sample_torrent_file # new)"
proof -
  obtain d' l where r: "sample_replacement = Inr (d', l)" using sample_replacement_run by blast
  from inventory_replacement_invariant [OF r [unfolded sample_replacement_def] sample_inventory_inv] r
  show ?thesis by (auto simp: sample_inventory_db_def)
qed

theorem inventory_replacement_exact_witness:
  "\<exists>d' l. sample_replacement = Inr (d', l) \<and> (\<exists>iv. get_provider_inventory_snapshot ''pl_u1'' d' = Some iv
     \<and> iv_file_count iv = 4)"
proof -
  obtain d' l where r: "sample_replacement = Inr (d', l)" using sample_replacement_run by blast
  from inventory_replacement_exact [OF r [unfolded sample_replacement_def] sample_inventory_inv sample_not_stale] r
  show ?thesis by (auto simp: sample_snapshot_def)
qed

theorem inventory_mapping_exact_witness:
  "\<exists>d' l. sample_replacement = Inr (d', l) \<and>
     (\<exists>tf \<in> set (db_torrent_files d'). tf_id tf = ''tf_1''
        \<and> canonicalize_internal_path (Some ''/a/b.mkv'') = Inr (tf_internal_path tf))"
proof -
  obtain d' l where r: "sample_replacement = Inr (d', l)" using sample_replacement_run by blast
  let ?f = "sample_inventory_file ''6'' ''/a/b.mkv'' 1000"
  have "(case sample_replacement of Inl _ \<Rightarrow> False | Inr (d', l) \<Rightarrow>
      list_ex (\<lambda>r. pf_placement_id r = ''pl_u1'' \<and> file_id_of ?f = Inr (pf_provider_file_id r)
        \<and> pf_torrent_file_id r = Some ''tf_1'') (db_provider_files d'))" by code_simp
  then have "\<exists>q \<in> set (db_provider_files d'). pf_placement_id q = ''pl_u1''
      \<and> file_id_of ?f = Inr (pf_provider_file_id q) \<and> pf_torrent_file_id q = Some ''tf_1''"
    unfolding r by (simp only: list_ex_iff sum.case prod.case)
  then obtain q where q: "q \<in> set (db_provider_files d')" "pf_placement_id q = ''pl_u1''"
      "file_id_of ?f = Inr (pf_provider_file_id q)" "pf_torrent_file_id q = Some ''tf_1''" by blast
  have "?f \<in> set sample_snapshot" by (simp add: sample_snapshot_def)
  from inventory_mapping_exact [OF r [unfolded sample_replacement_def] sample_inventory_inv sample_not_stale this q] r
  show ?thesis by (auto simp: sample_inventory_file_def)
qed

theorem inventory_supersedes_terminal_witness:
  "\<exists>d' l. sample_replacement = Inr (d', l) \<and>
     (\<forall>e \<in> set (db_delivery d'). route_key sample_placement e \<longrightarrow> de_provider_file_id e = ''6'' \<longrightarrow>
        \<not> (de_state e = EvTerminal \<and> 200 < de_expires_at e))"
proof -
  obtain d' l where r: "sample_replacement = Inr (d', l)" using sample_replacement_run by blast
  have pl: "get_placement sample_inventory_db ''pl_u1'' = Some sample_placement" by code_simp
  have f: "file_id_of (sample_inventory_file ''6'' ''/a/b.mkv'' 1000) = Inr ''6''" by code_simp
  have m: "sample_inventory_file ''6'' ''/a/b.mkv'' 1000 \<in> set sample_snapshot"
    by (simp add: sample_snapshot_def)
  have at: "nullish (io_observedAt sample_inventory_options) 300 = 200"
    by (simp add: sample_inventory_options_def)
  from inventory_supersedes_terminal [OF r [unfolded sample_replacement_def] sample_inventory_inv sample_not_stale pl]
    f m r at
  show ?thesis by fastforce
qed

end
