(* ===== verification/Store_Library.thy ===== *)
theory Store_Library
  imports Store_Schema "HOL-Library.List_Lexorder" "HOL-Library.Char_ord"
begin

text \<open>
  Library items, canonical paths and presentation identities of the control-plane store
  (\<open>ensureLibraryItem\<close> to \<open>listPresentationIdentities\<close> and \<open>getLibraryItemByIdentityKey\<close> of
  \<open>control-plane/store.js\<close>, \<open>normalizePresentationYear\<close> of \<open>presentation-identity.js\<close>). An
  operation takes the reading \<open>now\<close> of the injected clock; \<open>nfkc\<close>, \<open>sha256\<close> and the fresh
  \<open>uuid\<close> are parameters.
\<close>

section \<open>Library items\<close>

record item_input =
  ii_mediaType :: string
  ii_mediaId :: "string option"
  ii_season :: "int option"
  ii_episode :: "int option"
  ii_editionKey :: "string option"
  ii_title :: "string option"
  ii_year :: "int option"
  ii_desiredState :: "string option"

text \<open>The \<open>CHECK\<close> that a movie has no season and episode and an episode has both.\<close>

definition item_shape_ok :: "media_type \<Rightarrow> int option \<Rightarrow> int option \<Rightarrow> bool" where
  "item_shape_ok mt season episode =
     (case mt of Movie \<Rightarrow> season = None \<and> episode = None
               | Episode \<Rightarrow> season \<noteq> None \<and> episode \<noteq> None)"

definition new_item :: "string \<Rightarrow> string \<Rightarrow> media_type \<Rightarrow> string \<Rightarrow> item_input \<Rightarrow> string
    \<Rightarrow> desired_state \<Rightarrow> int \<Rightarrow> library_item" where
  "new_item i key mt mediaId input title ds now =
     \<lparr>li_id = i, li_identity_key = key, li_media_type = mt, li_media_id = mediaId,
      li_edition_key = nullish (ii_editionKey input) ''default'', li_title = title,
      li_year = ii_year input, li_season = ii_season input, li_episode = ii_episode input,
      li_desired_state = ds, li_created_at = now, li_updated_at = now,
      li_publication_mode = ''permanent'', li_retire_at = None, li_first_played_at = None,
      li_last_played_at = None, li_max_progress = None, li_profile = ''balanced'',
      li_intent = ''library'', li_upgrade_policy = ''auto'', li_presentation_title = None,
      li_presentation_year = None, li_presentation_path = None,
      li_presentation_strm_path = None, li_presentation_committed_at = None\<rparr>"

text \<open>The \<open>ON CONFLICT(identity_key) DO UPDATE\<close> clause.\<close>

definition merge_item :: "library_item \<Rightarrow> library_item \<Rightarrow> library_item" where
  "merge_item ex old = old\<lparr>
     li_title := (if li_title ex = li_media_id old then li_title old else li_title ex),
     li_year := coalesce (li_year ex) (li_year old),
     li_desired_state := li_desired_state ex,
     li_updated_at := li_updated_at ex\<rparr>"

definition ensure_library_item ::
  "(string \<Rightarrow> string) \<Rightarrow> int \<Rightarrow> item_input \<Rightarrow> db \<Rightarrow> (db \<times> library_item option) res" where
  "ensure_library_item sha256 now input d =
     res_bind (create_library_identity_key (ii_mediaType input) (ii_mediaId input)
        (ii_season input) (ii_episode input) (ii_editionKey input)) (\<lambda>key.
     res_bind (stable_library_item_id sha256 key) (\<lambda>i.
     res_bind (normalize_media_type (ii_mediaType input)) (\<lambda>mt.
     res_bind (require_string (ii_title input) ''title'' 256) (\<lambda>title.
     res_bind (check_enum parse_desired_state (nullish (ii_desiredState input) ''present'') ''desired_state'') (\<lambda>ds.
     res_bind (ensure (item_shape_ok mt (ii_season input) (ii_episode input))
                 (SqlConstraint ''library_items'')) (\<lambda>_.
       let row = new_item i key mt (nullish (ii_mediaId input) []) input title ds now
       in if list_ex (\<lambda>r. li_identity_key r = key) (db_items d)
          then let d' = d\<lparr>db_items := upd_where (\<lambda>r. li_identity_key r = key) (merge_item row) (db_items d)\<rparr>
               in Inr (d', get_library_item d' i)
          else if list_ex (\<lambda>r. li_id r = i) (db_items d)
          then Inl (SqlConstraint ''library_items.id'')
          else let d' = d\<lparr>db_items := db_items d @ [row]\<rparr>
               in Inr (d', get_library_item d' i)))))))"

definition list_all_library_items :: "int \<Rightarrow> db \<Rightarrow> library_item list res" where
  "list_all_library_items limit d =
     (if \<not> is_safe_integer limit \<or> limit < 1 \<or> 500 < limit
      then Inl (TypeError ''limit must be between 1 and 500'')
      else Inr (take (nat limit) (sort_key li_identity_key (db_items d))))"

definition list_library_items :: "string option \<Rightarrow> int \<Rightarrow> db \<Rightarrow> library_item list res" where
  "list_library_items mediaId limit d =
     res_bind (require_string mediaId ''mediaId'' 256) (\<lambda>m.
       if \<not> is_safe_integer limit \<or> limit < 1 \<or> 100 < limit
       then Inl (TypeError ''limit must be between 1 and 100'')
       else Inr (take (nat limit)
              (sort_key li_identity_key (filter (\<lambda>r. li_media_id r = m) (db_items d)))))"

definition get_library_item_by_identity_key :: "db \<Rightarrow> string \<Rightarrow> library_item option res" where
  "get_library_item_by_identity_key d key =
     (if key = [] then Inl (TypeError ''identityKey must be a non-empty string'')
      else Inr (find (\<lambda>r. li_identity_key r = key) (db_items d)))"

section \<open>Canonical paths\<close>

definition active_path :: "db \<Rightarrow> string \<Rightarrow> library_path option" where
  "active_path d i = find (\<lambda>r. lp_library_item_id r = i \<and> lp_active r) (db_paths d)"

definition get_active_canonical_path :: "db \<Rightarrow> string \<Rightarrow> library_path option res" where
  "get_active_canonical_path d i =
     res_bind (require_library_item d i) (\<lambda>_. Inr (active_path d i))"

definition item_path_input :: "library_item \<Rightarrow> path_item" where
  "item_path_input r = \<lparr>pi_mediaType = li_media_type r,
     pi_title = (if li_title r = [] then li_media_id r else li_title r),
     pi_year = li_year r, pi_season = li_season r, pi_episode = li_episode r\<rparr>"

definition given_path :: "string option \<Rightarrow> bool" where
  "given_path p = (case p of None \<Rightarrow> False | Some s \<Rightarrow> s \<noteq> [])"

definition rename_path :: "string \<Rightarrow> library_path \<Rightarrow> library_path" where
  "rename_path p r = r\<lparr>lp_canonical_path := p, lp_preferred_path := p\<rparr>"

definition insert_path :: "library_path \<Rightarrow> db \<Rightarrow> (db \<times> library_path) res" where
  "insert_path row d =
     (if list_ex (\<lambda>r. lp_id r = lp_id row \<or> lp_canonical_path r = lp_canonical_path row) (db_paths d)
      then Inl (SqlConstraint ''library_paths'')
      else Inr (d\<lparr>db_paths := db_paths d @ [row]\<rparr>, row))"

definition ensure_canonical_path ::
  "(string \<Rightarrow> string) \<Rightarrow> (string \<Rightarrow> string) \<Rightarrow> int \<Rightarrow> string \<Rightarrow> string \<Rightarrow> string option \<Rightarrow> string option
   \<Rightarrow> db \<Rightarrow> (db \<times> library_path) res" where
  "ensure_canonical_path nfkc sha256 now uuid itemId canonicalPath ext d =
     res_bind (require_library_item d itemId) (\<lambda>item.
     res_bind (if given_path canonicalPath then normalize_canonical_path nfkc canonicalPath
               else build_preferred_canonical_path nfkc (item_path_input item) ext) (\<lambda>preferred.
       case active_path d itemId of
         Some existing \<Rightarrow>
           if given_path canonicalPath
           then res_bind (normalize_canonical_path nfkc (Some (lp_canonical_path existing))) (\<lambda>current.
             if current = preferred then Inr (d, existing)
             else if list_ex (\<lambda>r. lp_canonical_path r = preferred \<and> lp_id r \<noteq> lp_id existing) (db_paths d)
             then Inl (SqlConstraint ''library_paths.canonical_path'')
             else Inr (d\<lparr>db_paths := upd_where (\<lambda>r. lp_id r = lp_id existing) (rename_path preferred) (db_paths d)\<rparr>,
                       rename_path preferred existing))
           else Inr (d, existing)
       | None \<Rightarrow>
           res_bind (case find (\<lambda>r. lp_canonical_path r = preferred \<and> lp_active r) (db_paths d) of
                Some owner \<Rightarrow> if lp_library_item_id owner \<noteq> itemId
                  then add_deterministic_collision_suffix nfkc sha256 preferred (li_identity_key item)
                  else Inr preferred
              | None \<Rightarrow> Inr preferred) (\<lambda>path.
             insert_path \<lparr>lp_id = ''lp_'' @ uuid, lp_library_item_id = itemId,
                   lp_canonical_path = path, lp_preferred_path = preferred,
                   lp_collision_key = li_identity_key item, lp_active = True,
                   lp_created_at = now, lp_retired_at = None\<rparr> d)))"

section \<open>Presentation identities\<close>

text \<open>A year as it is supplied: null, a number, or anything else by its \<open>String(value)\<close>.\<close>

datatype year_value = YNull | YNum int | YText string

fun first_four_digits :: "string \<Rightarrow> string option" where
  "first_four_digits [] = None"
| "first_four_digits (c # cs) =
     (if length (take 4 (c # cs)) = 4 \<and> list_all is_digit (take 4 (c # cs))
      then Some (take 4 (c # cs)) else first_four_digits cs)"

definition year_in_range :: "int \<Rightarrow> int option" where
  "year_in_range y = (if \<not> is_safe_integer y \<or> y < 1000 \<or> 2999 < y then None else Some y)"

definition normalize_presentation_year :: "year_value \<Rightarrow> int option" where
  "normalize_presentation_year v = (case v of
      YNull \<Rightarrow> None
    | YNum y \<Rightarrow> year_in_range y
    | YText s \<Rightarrow> (case first_four_digits (js_trim s) of
        None \<Rightarrow> None | Some ds \<Rightarrow> year_in_range (int (parse_nat ds))))"

record presentation_identity =
  pr_libraryItemId :: string
  pr_identityKey :: string
  pr_mediaType :: media_type
  pr_mediaId :: string
  pr_season :: "int option"
  pr_episode :: "int option"
  pr_title :: "string option"
  pr_year :: "int option"
  pr_canonicalPath :: "string option"
  pr_strmPath :: "string option"
  pr_committedAt :: int

definition identity_of_row :: "library_item \<Rightarrow> int \<Rightarrow> presentation_identity" where
  "identity_of_row r at = \<lparr>pr_libraryItemId = li_id r, pr_identityKey = li_identity_key r,
     pr_mediaType = li_media_type r, pr_mediaId = li_media_id r, pr_season = li_season r,
     pr_episode = li_episode r, pr_title = li_presentation_title r,
     pr_year = li_presentation_year r, pr_canonicalPath = li_presentation_path r,
     pr_strmPath = li_presentation_strm_path r, pr_committedAt = at\<rparr>"

definition get_presentation_identity :: "db \<Rightarrow> string \<Rightarrow> presentation_identity option" where
  "get_presentation_identity d i =
     (if i = [] then None
      else case get_library_item d i of
        None \<Rightarrow> None
      | Some r \<Rightarrow> (case li_presentation_committed_at r of
          None \<Rightarrow> None | Some at \<Rightarrow> Some (identity_of_row r at)))"

record identity_input =
  id_title :: "string option"
  id_year :: year_value
  id_canonicalPath :: "string option"
  id_strmPath :: "string option"
  id_committedAt :: "int option"

definition set_presentation ::
  "string \<Rightarrow> int option \<Rightarrow> string option \<Rightarrow> string \<Rightarrow> int \<Rightarrow> int \<Rightarrow> library_item \<Rightarrow> library_item" where
  "set_presentation title year path strm committedAt now r = r\<lparr>
     li_presentation_title := Some title, li_presentation_year := year,
     li_presentation_path := path, li_presentation_strm_path := Some strm,
     li_presentation_committed_at := Some committedAt, li_updated_at := now\<rparr>"

definition commit_presentation_identity ::
  "(string \<Rightarrow> string) \<Rightarrow> int \<Rightarrow> string \<Rightarrow> identity_input \<Rightarrow> db
   \<Rightarrow> (db \<times> bool \<times> presentation_identity option) res" where
  "commit_presentation_identity nfkc now i input d =
     res_bind (require_library_item d i) (\<lambda>item.
       case get_presentation_identity d i of
         Some ex \<Rightarrow> Inr (d, False, Some ex)
       | None \<Rightarrow>
         res_bind (require_string (Some (nullish (id_title input) (li_title item))) ''title'' 256) (\<lambda>title.
         res_bind (case id_canonicalPath input of
              None \<Rightarrow> Inr None
            | Some p \<Rightarrow> res_bind (normalize_canonical_path nfkc (Some p)) (\<lambda>q. Inr (Some q))) (\<lambda>path.
         res_bind (require_string (Some (nullish (id_strmPath input) [])) ''strmPath'' 256) (\<lambda>strm.
           let at = (case id_committedAt input of
                 Some t \<Rightarrow> if is_safe_integer t then t else now | None \<Rightarrow> now);
               d' = d\<lparr>db_items := upd_where (\<lambda>r. li_id r = i \<and> li_presentation_committed_at r = None)
                 (set_presentation title (normalize_presentation_year (id_year input)) path strm at now)
                 (db_items d)\<rparr>
           in Inr (d', True, get_presentation_identity d' i)))))"

definition describe_item :: "string option \<Rightarrow> int option \<Rightarrow> library_item \<Rightarrow> library_item" where
  "describe_item title year r = r\<lparr>li_presentation_title := title, li_presentation_year := year\<rparr>"

definition refresh_presentation_description ::
  "string \<Rightarrow> string option \<Rightarrow> year_value field \<Rightarrow> db \<Rightarrow> (db \<times> presentation_identity option) res" where
  "refresh_presentation_description i title year d =
     res_bind (require_library_item d i) (\<lambda>item.
       if li_presentation_committed_at item = None then Inr (d, None)
       else res_bind (case title of
              None \<Rightarrow> Inr (li_presentation_title item)
            | Some t \<Rightarrow> res_bind (require_string (Some t) ''title'' 256) (\<lambda>t'. Inr (Some t'))) (\<lambda>ttl.
         let y = (case year of Absent \<Rightarrow> li_presentation_year item
                  | Null \<Rightarrow> None | Val v \<Rightarrow> normalize_presentation_year v);
             d' = d\<lparr>db_items := upd_where (\<lambda>r. li_id r = i) (describe_item ttl y) (db_items d)\<rparr>
         in Inr (d', get_presentation_identity d' i)))"

definition list_presentation_identities :: "int \<Rightarrow> int \<Rightarrow> db \<Rightarrow> presentation_identity list" where
  "list_presentation_identities limit offset d =
     (let bounded = min (max 1 (if limit = 0 then 500 else limit)) 5000; start = max 0 offset;
          rows = sort_key li_identity_key
             (filter (\<lambda>r. li_presentation_committed_at r \<noteq> None) (db_items d))
      in map (\<lambda>r. identity_of_row r (nullish (li_presentation_committed_at r) 0))
           (take (nat bounded) (drop (nat start) rows)))"

section \<open>Invariant and frame lemmas\<close>

text \<open>
  Keys are unique, no two items share a canonical path and an item has at most one active one.
\<close>

definition library_inv :: "db \<Rightarrow> bool" where
  "library_inv d \<longleftrightarrow> unique_by li_id (db_items d) \<and> unique_by li_identity_key (db_items d)
     \<and> unique_by lp_id (db_paths d) \<and> unique_by lp_canonical_path (db_paths d)
     \<and> unique_where lp_active lp_library_item_id (db_paths d)"

lemma merge_item_keys [simp]:
  "li_id (merge_item ex r) = li_id r" "li_identity_key (merge_item ex r) = li_identity_key r"
  by (simp_all add: merge_item_def)

lemma set_presentation_keys [simp]:
  "li_id (set_presentation a b c e f g r) = li_id r"
  "li_identity_key (set_presentation a b c e f g r) = li_identity_key r"
  by (simp_all add: set_presentation_def)

lemma describe_item_keys [simp]:
  "li_id (describe_item a b r) = li_id r" "li_identity_key (describe_item a b r) = li_identity_key r"
  by (simp_all add: describe_item_def)

lemma new_item_keys [simp]:
  "li_id (new_item i key mt m inp t ds now) = i"
  "li_identity_key (new_item i key mt m inp t ds now) = key"
  by (simp_all add: new_item_def)

lemma ensure_library_item_cases:
  assumes "ensure_library_item sha256 now input d = Inr (d', r)"
  obtains key i mt title ds where
    "stable_library_item_id sha256 key = Inr i"
    "\<exists>x. x \<in> set (db_items d) \<and> li_identity_key x = key"
    "d' = d\<lparr>db_items := upd_where (\<lambda>r. li_identity_key r = key)
        (merge_item (new_item i key mt (nullish (ii_mediaId input) []) input title ds now)) (db_items d)\<rparr>"
  | key i mt title ds where
    "stable_library_item_id sha256 key = Inr i"
    "\<forall>x \<in> set (db_items d). li_identity_key x \<noteq> key \<and> li_id x \<noteq> i"
    "d' = d\<lparr>db_items := db_items d @ [new_item i key mt (nullish (ii_mediaId input) []) input title ds now]\<rparr>"
proof -
  from assms obtain key i mt title ds where
    k: "stable_library_item_id sha256 key = Inr i"
    and body: "(let row = new_item i key mt (nullish (ii_mediaId input) []) input title ds now
       in if list_ex (\<lambda>r. li_identity_key r = key) (db_items d)
          then let d' = d\<lparr>db_items := upd_where (\<lambda>r. li_identity_key r = key) (merge_item row) (db_items d)\<rparr>
               in Inr (d', get_library_item d' i)
          else if list_ex (\<lambda>r. li_id r = i) (db_items d)
          then Inl (SqlConstraint ''library_items.id'')
          else let d' = d\<lparr>db_items := db_items d @ [row]\<rparr>
               in Inr (d', get_library_item d' i)) = Inr (d', r)"
    unfolding ensure_library_item_def res_bind_Inr by blast
  show thesis
  proof (cases "list_ex (\<lambda>r. li_identity_key r = key) (db_items d)")
    case True
    then have "\<exists>x. x \<in> set (db_items d) \<and> li_identity_key x = key" by (auto simp: list_ex_iff)
    moreover from True body have "d' = d\<lparr>db_items := upd_where (\<lambda>r. li_identity_key r = key)
        (merge_item (new_item i key mt (nullish (ii_mediaId input) []) input title ds now)) (db_items d)\<rparr>"
      by (simp add: Let_def)
    ultimately show ?thesis by (rule that(1) [OF k])
  next
    case False
    with body have "\<forall>x \<in> set (db_items d). li_identity_key x \<noteq> key \<and> li_id x \<noteq> i"
      by (auto simp: Let_def list_ex_iff split: if_split_asm)
    moreover from False body have "d' = d\<lparr>db_items := db_items d
        @ [new_item i key mt (nullish (ii_mediaId input) []) input title ds now]\<rparr>"
      by (auto simp: Let_def split: if_split_asm)
    ultimately show ?thesis by (rule that(2) [OF k])
  qed
qed

lemma ensure_library_item_inv:
  assumes "library_inv d" "ensure_library_item sha256 now input d = Inr (d', r)"
  shows "library_inv d'"
  using assms(2)
proof (cases rule: ensure_library_item_cases)
  case 1
  with assms(1) show ?thesis by (simp add: library_inv_def unique_by_upd_where)
next
  case 2
  with assms(1) show ?thesis by (auto simp: library_inv_def unique_by_snoc)
qed

lemma active_path_SomeD:
  "active_path d i = Some r \<Longrightarrow> r \<in> set (db_paths d) \<and> lp_library_item_id r = i \<and> lp_active r"
  by (auto simp: active_path_def dest: find_SomeD)

lemma active_path_NoneD:
  "active_path d i = None \<Longrightarrow> r \<in> set (db_paths d) \<Longrightarrow> lp_active r \<Longrightarrow> lp_library_item_id r \<noteq> i"
  by (auto simp: active_path_def find_None_iff)

lemma ensure_canonical_path_cases:
  assumes "ensure_canonical_path nfkc sha256 now uuid i p e d = Inr (d', r)"
  obtains "d' = d"
  | q x where "x \<in> set (db_paths d)" "\<forall>y \<in> set (db_paths d). lp_canonical_path y = q \<longrightarrow> lp_id y = lp_id x"
      "d' = d\<lparr>db_paths := upd_where (\<lambda>r. lp_id r = lp_id x) (rename_path q) (db_paths d)\<rparr>"
  | row where "\<forall>y \<in> set (db_paths d). lp_id y \<noteq> lp_id row \<and> lp_canonical_path y \<noteq> lp_canonical_path row"
      "active_path d i = None" "lp_library_item_id row = i"
      "d' = d\<lparr>db_paths := db_paths d @ [row]\<rparr>"
proof (cases "active_path d i")
  case None
  with assms obtain row where row: "lp_library_item_id row = i" "insert_path row d = Inr (d', r)"
    unfolding ensure_canonical_path_def by (auto simp: res_bind_Inr intro: that [rotated])
  then have "\<forall>y \<in> set (db_paths d). lp_id y \<noteq> lp_id row \<and> lp_canonical_path y \<noteq> lp_canonical_path row"
    "d' = d\<lparr>db_paths := db_paths d @ [row]\<rparr>"
    by (auto simp: insert_path_def list_ex_iff split: if_split_asm)
  with None row(1) that(3) show ?thesis by blast
next
  case (Some x)
  then have x: "x \<in> set (db_paths d)" by (rule active_path_SomeD [THEN conjunct1])
  show ?thesis
  proof (cases "d' = d")
    case True
    with that(1) show ?thesis by blast
  next
    case False
    with assms Some obtain q where
      "\<not> list_ex (\<lambda>r. lp_canonical_path r = q \<and> lp_id r \<noteq> lp_id x) (db_paths d)"
      "d' = d\<lparr>db_paths := upd_where (\<lambda>r. lp_id r = lp_id x) (rename_path q) (db_paths d)\<rparr>"
      unfolding ensure_canonical_path_def res_bind_Inr
      by (auto simp: res_bind_Inr split: if_split_asm)
    with x that(2) show ?thesis by (auto simp: list_ex_iff)
  qed
qed

lemma ensure_canonical_path_inv:
  assumes "library_inv d" "ensure_canonical_path nfkc sha256 now uuid i p e d = Inr (d', r)"
  shows "library_inv d'"
  using assms(2)
proof (cases rule: ensure_canonical_path_cases)
  case 1
  with assms(1) show ?thesis by simp
next
  case (2 q x)
  let ?P = "\<lambda>r. lp_id r = lp_id x" and ?f = "rename_path q"
  have keep: "lp_id (?f r) = lp_id r" "lp_active (?f r) = lp_active r"
    "lp_library_item_id (?f r) = lp_library_item_id r" for r
    by (simp_all add: rename_path_def)
  have inv: "unique_by lp_id (db_paths d)" "unique_by lp_canonical_path (db_paths d)"
    "unique_where lp_active lp_library_item_id (db_paths d)"
    using assms(1) by (simp_all add: library_inv_def)
  have "unique_by lp_canonical_path (upd_where ?P ?f (db_paths d))"
    unfolding unique_by_def
  proof (rule distinct_map [THEN iffD2], intro conjI inj_onI)
    show "distinct (upd_where ?P ?f (db_paths d))"
      using inv(1) unique_by_upd_where [of lp_id "db_paths d" ?P ?f] keep(1)
      by (simp add: unique_by_def distinct_map)
    fix a b assume a: "a \<in> set (upd_where ?P ?f (db_paths d))"
      and b: "b \<in> set (upd_where ?P ?f (db_paths d))"
      and ab: "lp_canonical_path a = lp_canonical_path b"
    from a obtain a' where a': "a' \<in> set (db_paths d)" "a = (if ?P a' then ?f a' else a')"
      by (auto simp: in_upd_where)
    from b obtain b' where b': "b' \<in> set (db_paths d)" "b = (if ?P b' then ?f b' else b')"
      by (auto simp: in_upd_where)
    have "a' = b'"
    proof (cases "?P a'"; cases "?P b'")
      assume "?P a'" "?P b'"
      with unique_byD [OF inv(1) a'(1) b'(1)] show ?thesis by simp
    next
      assume "?P a'" "\<not> ?P b'"
      with 2(2) a' b' ab show ?thesis by (auto simp: rename_path_def)
    next
      assume "\<not> ?P a'" "?P b'"
      with 2(2) a' b' ab show ?thesis by (auto simp: rename_path_def)
    next
      assume "\<not> ?P a'" "\<not> ?P b'"
      with unique_byD [OF inv(2) a'(1) b'(1)] a' b' ab show ?thesis by simp
    qed
    with a' b' show "a = b" by simp
  qed
  moreover have "map lp_library_item_id (filter lp_active (upd_where ?P ?f (db_paths d)))
      = map lp_library_item_id (filter lp_active (db_paths d))"
    by (induction "db_paths d") (auto simp: upd_where_def keep filter_map comp_def)
  ultimately show ?thesis
    using 2(3) assms(1) inv(3) keep
    by (simp add: library_inv_def unique_by_upd_where unique_where_def)
next
  case (3 row)
  then show ?thesis
    using assms(1) active_path_NoneD [OF 3(2)]
    by (auto simp: library_inv_def unique_by_snoc unique_where_snoc)
qed

section \<open>The committed identity\<close>

text \<open>One step of the component, and the part of a presentation identity that is frozen.\<close>

inductive library_step :: "db \<Rightarrow> db \<Rightarrow> bool" where
  ls_item: "ensure_library_item sha256 now input d = Inr (d', r) \<Longrightarrow> library_step d d'"
| ls_path: "ensure_canonical_path nfkc sha256 now uuid i p e d = Inr (d', r) \<Longrightarrow> library_step d d'"
| ls_commit: "commit_presentation_identity nfkc now i input d = Inr (d', c, r) \<Longrightarrow> library_step d d'"
| ls_describe: "refresh_presentation_description i t y d = Inr (d', r) \<Longrightarrow> library_step d d'"

definition frozen_of :: "library_item \<Rightarrow> (string option \<times> string option \<times> int) option" where
  "frozen_of r = map_option (\<lambda>at. (li_presentation_path r, li_presentation_strm_path r, at))
     (li_presentation_committed_at r)"

definition frozen_presentation :: "db \<Rightarrow> string \<Rightarrow> (string option \<times> string option \<times> int) option" where
  "frozen_presentation d i = Option.bind (get_library_item d i) frozen_of"

lemma frozen_upd_where:
  assumes "\<And>r. P r \<Longrightarrow> li_id (f r) = li_id r"
    and "\<And>r. P r \<Longrightarrow> frozen_of r \<noteq> None \<Longrightarrow> frozen_of (f r) = frozen_of r"
    and "frozen_presentation d i = Some k"
  shows "frozen_presentation (d\<lparr>db_items := upd_where P f (db_items d)\<rparr>) i = Some k"
proof -
  from assms(3) obtain r where r: "find (\<lambda>r. li_id r = i) (db_items d) = Some r" "frozen_of r = Some k"
    by (auto simp: frozen_presentation_def get_library_item_def bind_eq_Some_conv)
  have "find (\<lambda>r. li_id r = i) (upd_where P f (db_items d)) = Some (if P r then f r else r)"
    using assms(1) r(1) by (simp add: find_upd_where)
  moreover have "frozen_of (if P r then f r else r) = Some k"
    using assms(2) [of r] r(2) by auto
  ultimately show ?thesis by (simp add: frozen_presentation_def get_library_item_def)
qed

lemma library_step_frozen:
  assumes "library_step d d'" "frozen_presentation d i = Some k"
  shows "frozen_presentation d' i = Some k"
  using assms(1)
proof cases
  case (ls_item sha256 now input r)
  from ls_item show ?thesis
  proof (cases rule: ensure_library_item_cases)
    case (1 key j mt title ds)
    show ?thesis
      unfolding 1(3) by (rule frozen_upd_where [OF _ _ assms(2)]) (auto simp: frozen_of_def merge_item_def)
  next
    case (2 key j mt title ds)
    with assms(2) show ?thesis
      by (auto simp: frozen_presentation_def get_library_item_def find_append bind_eq_Some_conv)
  qed
next
  case (ls_path nfkc sha256 now uuid j p e r)
  from ls_path show ?thesis
    by (cases rule: ensure_canonical_path_cases)
       (use assms(2) in \<open>auto simp: frozen_presentation_def get_library_item_def\<close>)
next
  case (ls_commit nfkc now j input c r)
  then consider "d' = d" | a b p s at where
    "d' = d\<lparr>db_items := upd_where (\<lambda>r. li_id r = j \<and> li_presentation_committed_at r = None)
       (set_presentation a b p s at now) (db_items d)\<rparr>"
    by (auto simp: commit_presentation_identity_def guard_simps Let_def split: option.splits)
  then show ?thesis
  proof cases
    case 1
    with assms(2) show ?thesis by simp
  next
    case 2
    show ?thesis
      unfolding 2 by (rule frozen_upd_where [OF _ _ assms(2)]) (auto simp: frozen_of_def)
  qed
next
  case (ls_describe j t y r)
  then consider "d' = d" | a b where
    "d' = d\<lparr>db_items := upd_where (\<lambda>r. li_id r = j) (describe_item a b) (db_items d)\<rparr>"
    by (auto simp: refresh_presentation_description_def guard_simps Let_def split: if_splits)
  then show ?thesis
  proof cases
    case 1
    with assms(2) show ?thesis by simp
  next
    case 2
    show ?thesis
      unfolding 2 by (rule frozen_upd_where [OF _ _ assms(2)]) (auto simp: frozen_of_def describe_item_def)
  qed
qed

lemma library_steps_frozen:
  "library_step\<^sup>*\<^sup>* d d' \<Longrightarrow> frozen_presentation d i = Some k \<Longrightarrow> frozen_presentation d' i = Some k"
  by (induction rule: rtranclp_induct) (auto intro: library_step_frozen)

end
