(* ===== verification/Representation_Authority.thy ===== *)
theory Representation_Authority
  imports Store_Schema
begin

text \<open>
  Who may choose the torrent file of a binding: \<open>src/media-search/src/lib/control-plane/representation-authority.js\<close>.
  The reasons and their owners are the table \<open>representation_change_owners\<close>; a missing or empty
  torrent file id is falsy.
\<close>

definition representation_change_owners :: "(string \<times> string) list" where
  "representation_change_owners =
     [(''initial-selection'', ''request-selection''),
      (''request-reselection'', ''request-selection''),
      (''quality-upgrade'', ''upgrade-policy''),
      (''rejection-supersede'', ''publication-policy''),
      (''delivery-exhaustion-fallback'', ''representation-policy''),
      (''manual-override'', ''operator'')]"

definition truthy_id :: "string option \<Rightarrow> bool" where
  "truthy_id v = (case v of None \<Rightarrow> False | Some s \<Rightarrow> s \<noteq> [])"

definition legal_reason :: "string option \<Rightarrow> bool" where
  "legal_reason r = (case r of None \<Rightarrow> False
     | Some s \<Rightarrow> s \<noteq> [] \<and> map_of representation_change_owners s \<noteq> None)"

definition representation_changes :: "string option \<Rightarrow> string option \<Rightarrow> bool" where
  "representation_changes current next \<longleftrightarrow> truthy_id current \<and> truthy_id next \<and> current \<noteq> next"

definition assert_representation_change_allowed ::
  "string option \<Rightarrow> string option \<Rightarrow> string option \<Rightarrow> (bool \<times> string option) res" where
  "assert_representation_change_allowed current next reason =
     (if \<not> representation_changes current next then Inr (False, reason)
      else if \<not> legal_reason reason then Inl (JsError ''Representation change refused'')
      else Inr (True, reason))"

definition representation_reason_of :: "string option \<Rightarrow> string option" where
  "representation_reason_of r = (case r of None \<Rightarrow> None
     | Some s \<Rightarrow> let reason = js_trim s in
         if reason = [] \<or> map_of representation_change_owners reason = None then None else Some reason)"

lemma assert_representation_change_allowed_Inr [guard_simps]:
  "(assert_representation_change_allowed c n r = Inr x) =
     (if representation_changes c n then legal_reason r \<and> x = (True, r) else x = (False, r))"
  by (auto simp: assert_representation_change_allowed_def)

lemma representation_reason_of_legal:
  "representation_reason_of r = Some s \<Longrightarrow> legal_reason (Some s)"
  by (auto simp: representation_reason_of_def legal_reason_def Let_def split: option.splits if_splits)

end
