(* ===== verification/Store_Bindings.thy ===== *)
theory Store_Bindings
  imports Inventory_Invariant Store_Library Representation_Authority
begin

text \<open>
  Bindings of the control-plane store, \<open>control-plane/store.js\<close>: \<open>activateBinding\<close> with its guards,
  the in-place route change and the new version, \<open>unpublishLibraryItem\<close>, \<open>markBindingDegraded\<close>
  and the binding look-ups; then the steps of a binding table and what holds along them.
\<close>

section \<open>Look-ups\<close>

definition bindings_of :: "string \<Rightarrow> db \<Rightarrow> binding list" where
  "bindings_of item d = filter (\<lambda>b. bd_library_item_id b = item) (db_bindings d)"

definition active_binding :: "string \<Rightarrow> db \<Rightarrow> binding option" where
  "active_binding item d = find (\<lambda>b. bd_library_item_id b = item \<and> bd_status b = BdActive) (db_bindings d)"

definition newest_binding :: "string \<Rightarrow> db \<Rightarrow> binding option" where
  "newest_binding item d = top_by bd_version (bindings_of item d)"

definition list_bindings :: "string \<Rightarrow> db \<Rightarrow> binding list" where
  "list_bindings item d = sort_key bd_version (bindings_of item d)"

definition list_active_bindings_for_placement :: "string \<Rightarrow> db \<Rightarrow> binding list res" where
  "list_active_bindings_for_placement placementId d =
     res_bind (require_placement d placementId) (\<lambda>_.
       Inr (sort_key (\<lambda>b. (bd_library_item_id b, bd_version b))
              (filter (\<lambda>b. bd_placement_id b = placementId \<and> bd_status b = BdActive) (db_bindings d))))"

definition has_active_binding_for_torrent_file :: "string option \<Rightarrow> db \<Rightarrow> bool" where
  "has_active_binding_for_torrent_file torrentFileId d =
     (case torrentFileId of None \<Rightarrow> False
      | Some t \<Rightarrow> t \<noteq> [] \<and> list_ex (\<lambda>b. bd_torrent_file_id b = t \<and> bd_status b = BdActive) (db_bindings d))"

definition get_active_binding_for_library_item ::
  "string \<Rightarrow> db \<Rightarrow> (binding \<times> torrent_file) option res" where
  "get_active_binding_for_library_item itemId d =
     res_bind (require_library_item d itemId) (\<lambda>item.
       case top_by bd_version (filter (\<lambda>b. bd_library_item_id b = li_id item \<and> bd_status b = BdActive) (db_bindings d)) of
         None \<Rightarrow> Inr None
       | Some b \<Rightarrow> if bd_torrent_file_id b = [] then Inr None
           else res_bind (get_torrent_file d (Some (bd_torrent_file_id b))) (\<lambda>tf.
             case tf of None \<Rightarrow> Inr None
             | Some t \<Rightarrow> if tf_info_hash t \<noteq> bd_info_hash b then Inr None else Inr (Some (b, t))))"

section \<open>Activation\<close>

record binding_input =
  bix_release :: jv
  bix_libraryItemId :: string
  bix_libraryPathId :: string
  bix_placementId :: string
  bix_providerFileId :: string
  bix_exposureId :: string
  bix_torrentFileId :: "string option"
  bix_expectedBindingVersion :: "int option"
  bix_representationReason :: "string option"
  bix_reason :: "string option"
  bix_failureCategory :: "string option"

text \<open>A time bound that is missing or has passed: \<open>x == null || x <= timestamp\<close>.\<close>

definition expired :: "int option \<Rightarrow> int \<Rightarrow> bool" where
  "expired e now = (case e of None \<Rightarrow> True | Some t \<Rightarrow> t \<le> now)"

definition file_mapping_is_authoritative :: "provider_file \<Rightarrow> int \<Rightarrow> bool" where
  "file_mapping_is_authoritative f now \<longleftrightarrow> pf_torrent_file_id f \<noteq> None \<and> pf_mapping_state f = Mapped
     \<and> \<not> expired (pf_inventory_expires_at f) now"

definition check_readiness :: "int \<Rightarrow> placement \<Rightarrow> db \<Rightarrow> unit res" where
  "check_readiness now placement d =
     (case find (\<lambda>r. ro_placement_id r = pl_id placement) (db_readiness d) of
        Some r \<Rightarrow> if ro_state r \<noteq> PsReady then Inl (JsError ''Cannot bind before provider readiness'')
                  else if ro_expires_at r \<le> now
                  then Inl (JsError ''Cannot bind through a stale provider readiness observation'')
                  else Inr ()
      | None \<Rightarrow> ensure (pl_state placement = PsReady) (JsError ''Cannot bind before provider readiness''))"

definition check_inventory :: "int \<Rightarrow> placement \<Rightarrow> provider_file \<Rightarrow> db \<Rightarrow> unit res" where
  "check_inventory now placement f d =
     (case get_provider_inventory_snapshot (pl_id placement) d of
        None \<Rightarrow> Inl (JsError ''Binding requires an authoritative complete inventory snapshot'')
      | Some iv \<Rightarrow>
          res_bind (ensure (iv_authoritative iv \<and> iv_complete iv)
            (JsError ''Binding requires an authoritative complete inventory snapshot'')) (\<lambda>_.
          ensure (\<not> expired (iv_expires_at iv) now \<and> \<not> expired (pf_inventory_expires_at f) now)
            (JsError ''Cannot bind through a stale or unbounded provider inventory observation'')))"

definition check_exposure :: "placement \<Rightarrow> exposure \<Rightarrow> unit res" where
  "check_exposure placement ex =
     res_bind (ensure (ex_account_scope ex = pl_account_scope placement)
        (JsError ''Exposure account scope must match provider placement account scope'')) (\<lambda>_.
     res_bind (ensure (ex_state ex = ExVisible)
        (JsError ''Cannot bind a provider file without visible exposure'')) (\<lambda>_.
     ensure (ex_read_only ex) (JsError ''Cannot bind a provider file through writable exposure'')))"

text \<open>What the guards of \<open>activateBindingInner\<close> establish before the transaction.\<close>

record activation =
  ac_identity :: release_identity
  ac_item_id :: string
  ac_path_id :: string
  ac_torrent_file_id :: string

definition check_activation :: "int \<Rightarrow> binding_input \<Rightarrow> db \<Rightarrow> activation res" where
  "check_activation now input d =
     res_bind (validate_release_identity (bix_release input)) (\<lambda>identity.
     res_bind (require_library_item d (bix_libraryItemId input)) (\<lambda>item.
     case find (\<lambda>p. lp_id p = bix_libraryPathId input \<and> lp_library_item_id p = li_id item \<and> lp_active p)
            (db_paths d) of
       None \<Rightarrow> Inl (JsError ''Active canonical path does not belong to library item'')
     | Some path \<Rightarrow>
     res_bind (require_placement d (bix_placementId input)) (\<lambda>placement.
     res_bind (ensure (pl_info_hash placement = ri_infoHash identity)
        (JsError ''Binding hash must match provider placement hash'')) (\<lambda>_.
     res_bind (require_provider_file d (bix_placementId input) (bix_providerFileId input)) (\<lambda>f.
     let mapping = list_ex (\<lambda>m. fm_release_key m = ri_releaseKey identity
           \<and> fm_placement_id m = bix_placementId input \<and> fm_provider_file_id m = pf_provider_file_id f
           \<and> fm_state m = CmMapped \<and> fm_authoritative m) (db_mappings d);
         torrentFileId = coalesce (bix_torrentFileId input) (pf_torrent_file_id f) in
     case find (\<lambda>e. ex_id e = bix_exposureId input \<and> ex_placement_id e = bix_placementId input
            \<and> ex_provider_file_id e = pf_provider_file_id f) (db_exposures d) of
       None \<Rightarrow> Inl (JsError ''Exposure does not identify the mapped provider file'')
     | Some exposure \<Rightarrow>
     res_bind (check_exposure placement exposure) (\<lambda>_.
     res_bind (ensure (mapping \<or> file_mapping_is_authoritative f now \<or> truthy_id (bix_torrentFileId input))
        (JsError ''Binding requires an authoritative exact file mapping'')) (\<lambda>_.
     res_bind (if truthy_id torrentFileId then get_torrent_file d torrentFileId else Inr None) (\<lambda>torrentFile.
     res_bind (ensure (\<not> (truthy_id (bix_torrentFileId input) \<and> truthy_id (pf_torrent_file_id f)
          \<and> bix_torrentFileId input \<noteq> pf_torrent_file_id f))
        (JsError ''Binding TorrentFile identity disagrees with provider-file mapping'')) (\<lambda>_.
     res_bind (ensure (case torrentFile of None \<Rightarrow> False | Some t \<Rightarrow> tf_info_hash t = ri_infoHash identity)
        (JsError ''Binding requires an exact TorrentFile identity'')) (\<lambda>_.
     res_bind (check_readiness now placement d) (\<lambda>_.
     res_bind (check_inventory now placement f d) (\<lambda>_.
     res_bind (ensure (\<not> expired (ex_expires_at exposure) now)
        (JsError ''Cannot bind through a stale or unbounded exposure observation'')) (\<lambda>_.
       Inr \<lparr>ac_identity = identity, ac_item_id = li_id item, ac_path_id = lp_id path,
            ac_torrent_file_id = nullish torrentFileId []\<rparr>)))))))))))))"

definition supersede_binding :: "int \<Rightarrow> binding \<Rightarrow> binding" where
  "supersede_binding now b = b\<lparr>bd_status := BdSuperseded, bd_superseded_at := Some now, bd_reconciled_at := now\<rparr>"

definition rebind_route :: "int \<Rightarrow> string \<Rightarrow> binding_input \<Rightarrow> binding \<Rightarrow> binding" where
  "rebind_route now reason input b = b\<lparr>bd_placement_id := bix_placementId input,
     bd_provider_file_id := bix_providerFileId input, bd_exposure_id := bix_exposureId input,
     bd_reason := reason, bd_reconciled_at := now, bd_failure_category := None\<rparr>"

definition same_representation :: "activation \<Rightarrow> binding \<Rightarrow> bool" where
  "same_representation a b \<longleftrightarrow> bd_torrent_file_id b = ac_torrent_file_id a
     \<and> bd_release_key b = ri_releaseKey (ac_identity a) \<and> bd_info_hash b = ri_infoHash (ac_identity a)
     \<and> bd_file_index b = ri_fileIndex (ac_identity a)"

text \<open>The binding that the new version replaces is superseded.\<close>

definition supersede_previous :: "int \<Rightarrow> binding_input \<Rightarrow> activation \<Rightarrow> db \<Rightarrow> db" where
  "supersede_previous now input a d =
     (case active_binding (ac_item_id a) d of
        Some active \<Rightarrow> d\<lparr>db_bindings := upd_where (\<lambda>b. bd_id b = bd_id active) (supersede_binding now) (db_bindings d)\<rparr>
      | None \<Rightarrow>
          (case find (\<lambda>b. bd_library_item_id b = ac_item_id a \<and> bd_status b \<noteq> BdSuperseded) (db_bindings d) of
             Some stale \<Rightarrow>
               if bd_release_key stale = ri_releaseKey (ac_identity a)
                  \<and> (bd_placement_id stale \<noteq> bix_placementId input
                     \<or> bd_provider_file_id stale \<noteq> bix_providerFileId input
                     \<or> bd_exposure_id stale \<noteq> bix_exposureId input)
               then d\<lparr>db_bindings := upd_where (\<lambda>b. bd_id b = bd_id stale) (supersede_binding now) (db_bindings d)\<rparr>
               else d
           | None \<Rightarrow> d))"

definition insert_binding :: "int \<Rightarrow> string \<Rightarrow> binding_input \<Rightarrow> activation \<Rightarrow> db \<Rightarrow> (db \<times> binding) res" where
  "insert_binding now uuid input a d =
     (let version = max_of (\<lambda>b. bd_library_item_id b = ac_item_id a) bd_version (db_bindings d) + 1 in
      res_bind (require_string (bix_reason input) ''reason'' 1000) (\<lambda>reason.
        let row = \<lparr>bd_id = ''bd_'' @ uuid, bd_library_item_id = ac_item_id a, bd_library_path_id = ac_path_id a,
              bd_release_key = ri_releaseKey (ac_identity a), bd_info_hash = ri_infoHash (ac_identity a),
              bd_file_index = ri_fileIndex (ac_identity a), bd_torrent_file_id = ac_torrent_file_id a,
              bd_placement_id = bix_placementId input, bd_provider_file_id = bix_providerFileId input,
              bd_exposure_id = bix_exposureId input, bd_version = version, bd_status = BdActive,
              bd_reason = reason, bd_valid_from = now, bd_superseded_at = None, bd_reconciled_at = now,
              bd_failure_category = bix_failureCategory input,
              bd_representation_reason = bix_representationReason input\<rparr>
        in if list_ex (\<lambda>b. bd_id b = bd_id row) (db_bindings d)
              \<or> \<not> list_ex (\<lambda>t. tf_id t = bd_torrent_file_id row) (db_torrent_files d)
           then Inl (SqlConstraint ''bindings'')
           else Inr (d\<lparr>db_bindings := db_bindings d @ [row]\<rparr>, row)))"

definition commit_binding :: "int \<Rightarrow> string \<Rightarrow> binding_input \<Rightarrow> activation \<Rightarrow> db \<Rightarrow> (db \<times> binding) res" where
  "commit_binding now uuid input a d =
     (let active = active_binding (ac_item_id a) d; newest = newest_binding (ac_item_id a) d in
      res_bind (assert_representation_change_allowed (map_option bd_torrent_file_id active)
          (Some (ac_torrent_file_id a)) (bix_representationReason input)) (\<lambda>_.
      res_bind (ensure (case bix_expectedBindingVersion input of None \<Rightarrow> True
          | Some v \<Rightarrow> v = (case newest of None \<Rightarrow> 0 | Some b \<Rightarrow> int (bd_version b)))
        (JsError ''Active binding version changed during reconciliation'')) (\<lambda>_.
      case active of
        Some b \<Rightarrow>
          if same_representation a b
          then res_bind (require_string (bix_reason input) ''reason'' 1000) (\<lambda>reason.
            Inr (d\<lparr>db_bindings := upd_where (\<lambda>r. bd_id r = bd_id b \<and> bd_status r = BdActive)
                   (rebind_route now reason input) (db_bindings d)\<rparr>, rebind_route now reason input b))
          else insert_binding now uuid input a (supersede_previous now input a d)
      | None \<Rightarrow> insert_binding now uuid input a (supersede_previous now input a d))))"

definition activate_binding :: "int \<Rightarrow> string \<Rightarrow> binding_input \<Rightarrow> db \<Rightarrow> (db \<times> binding) res" where
  "activate_binding now uuid input d =
     res_bind (check_activation now input d) (\<lambda>a. commit_binding now uuid input a d)"

section \<open>Unpublishing and degradation\<close>

record unpublish_result =
  un_libraryItemId :: string
  un_identityKey :: string
  un_supersededBindings :: nat

definition unpublish_library_item ::
  "int \<Rightarrow> string \<Rightarrow> db \<Rightarrow> (db \<times> unpublish_result option) res" where
  "unpublish_library_item now identityKey d =
     res_bind (get_library_item_by_identity_key d identityKey) (\<lambda>found.
       case found of
         None \<Rightarrow> Inr (d, None)
       | Some item \<Rightarrow>
           let active = filter (\<lambda>b. bd_library_item_id b = li_id item \<and> bd_status b = BdActive) (db_bindings d) in
           Inr (d\<lparr>db_items := upd_where (\<lambda>i. li_id i = li_id item)
                    (\<lambda>i. i\<lparr>li_desired_state := DesAbsent, li_updated_at := now\<rparr>) (db_items d),
                  db_bindings := upd_where (\<lambda>b. bd_id b \<in> set (map bd_id active))
                    (supersede_binding now) (db_bindings d)\<rparr>,
                Some \<lparr>un_libraryItemId = li_id item, un_identityKey = identityKey,
                      un_supersededBindings = length active\<rparr>))"

definition degrade_binding :: "int \<Rightarrow> string \<Rightarrow> binding \<Rightarrow> binding" where
  "degrade_binding now category b =
     b\<lparr>bd_status := BdDegraded, bd_reconciled_at := now, bd_failure_category := Some category\<rparr>"

definition mark_binding_degraded ::
  "int \<Rightarrow> string \<Rightarrow> int option \<Rightarrow> string option \<Rightarrow> db \<Rightarrow> (db \<times> binding) res" where
  "mark_binding_degraded now itemId expectedVersion failureCategory d =
     res_bind (require_library_item d itemId) (\<lambda>item.
       case active_binding (li_id item) d of
         None \<Rightarrow> Inl (JsError ''No active binding to degrade'')
       | Some b \<Rightarrow>
           res_bind (ensure (case expectedVersion of None \<Rightarrow> True | Some v \<Rightarrow> v = int (bd_version b))
             (JsError ''Active binding version changed during degradation'')) (\<lambda>_.
           let category = nullish failureCategory ''unknown'' in
           Inr (d\<lparr>db_bindings := upd_where (\<lambda>r. bd_id r = bd_id b \<and> bd_status r = BdActive)
                  (degrade_binding now category) (db_bindings d)\<rparr>, degrade_binding now category b)))"

section \<open>The invariant of the binding table\<close>

text \<open>What no operation changes of a binding.\<close>

definition binding_identity ::
  "binding \<Rightarrow> string \<times> string \<times> string \<times> string \<times> string \<times> int option \<times> string \<times> nat \<times> int \<times> string option" where
  "binding_identity b = (bd_id b, bd_library_item_id b, bd_library_path_id b, bd_release_key b,
     bd_info_hash b, bd_file_index b, bd_torrent_file_id b, bd_version b, bd_valid_from b,
     bd_representation_reason b)"

definition bindings_kept :: "db \<Rightarrow> db \<Rightarrow> bool" where
  "bindings_kept d d' \<longleftrightarrow> (\<exists>new. map binding_identity (db_bindings d') = map binding_identity (db_bindings d) @ new)"

definition item_version :: "binding \<Rightarrow> string \<times> nat" where
  "item_version b = (bd_library_item_id b, bd_version b)"

definition is_active :: "binding \<Rightarrow> bool" where
  "is_active b \<longleftrightarrow> bd_status b = BdActive"

definition binding_table_inv :: "torrent_file list \<Rightarrow> binding list \<Rightarrow> bool" where
  "binding_table_inv tfs bs \<longleftrightarrow> unique_by bd_id bs \<and> unique_by item_version bs
     \<and> unique_where is_active bd_library_item_id bs
     \<and> (\<forall>b \<in> set bs. 0 < bd_version b \<and> bd_torrent_file_id b \<noteq> []
          \<and> (\<exists>tf \<in> set tfs. tf_id tf = bd_torrent_file_id b))
     \<and> (\<forall>b \<in> set bs. \<forall>c \<in> set bs. is_active b \<longrightarrow> bd_library_item_id c = bd_library_item_id b \<longrightarrow>
          bd_version c \<le> bd_version b)"

definition binding_inv :: "db \<Rightarrow> bool" where
  "binding_inv d \<longleftrightarrow> binding_table_inv (db_torrent_files d) (db_bindings d)"

lemma bindings_kept_refl [simp]: "bindings_kept d d"
  by (simp add: bindings_kept_def)

lemma bindings_kept_trans: "bindings_kept a b \<Longrightarrow> bindings_kept b c \<Longrightarrow> bindings_kept a c"
  by (auto simp: bindings_kept_def)

lemma binding_identity_fields:
  assumes "binding_identity b = binding_identity c"
  shows "bd_id b = bd_id c" "item_version b = item_version c" "bd_library_item_id b = bd_library_item_id c"
    "bd_version b = bd_version c" "bd_torrent_file_id b = bd_torrent_file_id c"
  using assms by (simp_all add: binding_identity_def item_version_def)

lemma binding_table_invD:
  assumes "binding_table_inv tfs bs"
  shows "unique_by bd_id bs" "unique_by item_version bs" "unique_where is_active bd_library_item_id bs"
    "b \<in> set bs \<Longrightarrow> 0 < bd_version b \<and> bd_torrent_file_id b \<noteq> []" "b \<in> set bs \<Longrightarrow> \<exists>tf \<in> set tfs. tf_id tf = bd_torrent_file_id b"
    "b \<in> set bs \<Longrightarrow> c \<in> set bs \<Longrightarrow> is_active b \<Longrightarrow> bd_library_item_id c = bd_library_item_id b \<Longrightarrow>
       bd_version c \<le> bd_version b"
  using assms by (auto simp: binding_table_inv_def)

text \<open>An update that keeps the identity of a binding and activates none.\<close>

definition demotes :: "(binding \<Rightarrow> binding) \<Rightarrow> bool" where
  "demotes f \<longleftrightarrow> (\<forall>b. binding_identity (f b) = binding_identity b \<and> (is_active (f b) \<longrightarrow> is_active b))"

lemma demotes_supersede [simp]: "demotes (supersede_binding now)"
  by (simp add: demotes_def supersede_binding_def binding_identity_def is_active_def)

lemma demotes_degrade [simp]: "demotes (degrade_binding now category)"
  by (simp add: demotes_def degrade_binding_def binding_identity_def is_active_def)

lemma demotes_rebind [simp]: "demotes (rebind_route now reason input)"
  by (simp add: demotes_def rebind_route_def binding_identity_def is_active_def)

lemma demotes_inv:
  assumes f: "demotes f" and inv: "binding_table_inv tfs bs"
  shows "binding_table_inv tfs (upd_where P f bs)"
proof -
  note D = binding_table_invD [OF inv]
  have id: "binding_identity (f b) = binding_identity b" for b using f by (simp add: demotes_def)
  note fields = binding_identity_fields [OF id]
  have src: "\<exists>b \<in> set bs. binding_identity c = binding_identity b \<and> (is_active c \<longrightarrow> is_active b)"
    if "c \<in> set (upd_where P f bs)" for c
    using that by (cases rule: in_upd_whereE) (use f in \<open>auto simp: demotes_def\<close>)
  have u: "unique_by bd_id (upd_where P f bs)" "unique_by item_version (upd_where P f bs)"
    using D(1,2) fields by (auto intro: unique_by_upd_where)
  have act: "unique_where is_active bd_library_item_id (upd_where P f bs)"
    using u(1)
  proof (rule unique_whereI)
    fix b c
    assume b: "b \<in> set (upd_where P f bs)" "is_active b" and c: "c \<in> set (upd_where P f bs)" "is_active c"
      and eq: "bd_library_item_id b = bd_library_item_id c"
    obtain b0 where b0: "b0 \<in> set bs" "binding_identity b = binding_identity b0" "is_active b0"
      using src [OF b(1)] b(2) by blast
    obtain c0 where c0: "c0 \<in> set bs" "binding_identity c = binding_identity c0" "is_active c0"
      using src [OF c(1)] c(2) by blast
    from unique_whereD [OF D(3) b0(1) c0(1) b0(3) c0(3)] eq binding_identity_fields(3) [OF b0(2)]
      binding_identity_fields(3) [OF c0(2)] have "b0 = c0" by simp
    with binding_identity_fields(1) [OF b0(2)] binding_identity_fields(1) [OF c0(2)]
    have "bd_id b = bd_id c" by simp
    then show "b = c" by (rule unique_byD [OF u(1) b(1) c(1)])
  qed
  have rows: "0 < bd_version b \<and> bd_torrent_file_id b \<noteq> [] \<and> (\<exists>tf \<in> set tfs. tf_id tf = bd_torrent_file_id b)"
    if b: "b \<in> set (upd_where P f bs)" for b
  proof -
    obtain b0 where b0: "b0 \<in> set bs" "binding_identity b = binding_identity b0"
      using src [OF b] by blast
    then show ?thesis using D(4,5) [OF b0(1)] binding_identity_fields [OF b0(2)] by simp
  qed
  have newest: "bd_version c \<le> bd_version b"
    if b: "b \<in> set (upd_where P f bs)" "is_active b" and c: "c \<in> set (upd_where P f bs)"
      and eq: "bd_library_item_id c = bd_library_item_id b" for b c
  proof -
    obtain b0 where b0: "b0 \<in> set bs" "binding_identity b = binding_identity b0" "is_active b0"
      using src [OF b(1)] b(2) by blast
    obtain c0 where c0: "c0 \<in> set bs" "binding_identity c = binding_identity c0"
      using src [OF c] by blast
    show ?thesis
      using D(6) [OF b0(1) c0(1) b0(3)] eq binding_identity_fields [OF b0(2)] binding_identity_fields [OF c0(2)]
      by simp
  qed
  show ?thesis unfolding binding_table_inv_def using u act rows newest by blast
qed

lemma demotes_kept: "demotes f \<Longrightarrow> map binding_identity (upd_where P f bs) = map binding_identity bs"
  by (rule map_upd_where) (simp add: demotes_def)

text \<open>Adding the active binding of an item that has none, with the next version.\<close>

lemma insert_active_inv:
  assumes inv: "binding_table_inv tfs bs"
    and none: "\<And>b. b \<in> set bs \<Longrightarrow> is_active b \<Longrightarrow> bd_library_item_id b \<noteq> bd_library_item_id row"
    and fresh: "\<And>b. b \<in> set bs \<Longrightarrow> bd_id b \<noteq> bd_id row"
    and version: "bd_version row = max_of (\<lambda>b. bd_library_item_id b = bd_library_item_id row) bd_version bs + 1"
    and tf: "\<exists>tf \<in> set tfs. tf_id tf = bd_torrent_file_id row" "bd_torrent_file_id row \<noteq> []"
  shows "binding_table_inv tfs (bs @ [row])"
proof -
  note D = binding_table_invD [OF inv]
  have less: "bd_version b < bd_version row" if "b \<in> set bs" "bd_library_item_id b = bd_library_item_id row" for b
    using max_of_ge [of b bs "\<lambda>b. bd_library_item_id b = bd_library_item_id row" bd_version] that version by simp
  have "bd_id row \<notin> bd_id ` set bs" using fresh by (metis imageE)
  then have "unique_by bd_id (bs @ [row])" using D(1) by (simp add: unique_by_snoc)
  moreover have "item_version row \<notin> item_version ` set bs"
    using less by (fastforce simp: item_version_def)
  then have "unique_by item_version (bs @ [row])" using D(2) by (simp add: unique_by_snoc)
  moreover have "unique_where is_active bd_library_item_id (bs @ [row])"
    using D(3) none by (auto simp: unique_where_snoc)
  moreover have "\<forall>b \<in> set (bs @ [row]). 0 < bd_version b \<and> bd_torrent_file_id b \<noteq> [] \<and> (\<exists>tf \<in> set tfs. tf_id tf = bd_torrent_file_id b)"
    using D(4,5) version tf by auto
  moreover have "bd_version c \<le> bd_version b"
    if b: "b \<in> set (bs @ [row])" "is_active b" and c: "c \<in> set (bs @ [row])"
      "bd_library_item_id c = bd_library_item_id b" for b c
  proof (cases "b = row")
    case True
    then show ?thesis using c less by (cases "c = row") (auto intro: less_imp_le)
  next
    case False
    with b have b': "b \<in> set bs" by simp
    from none [OF b' b(2)] c(2) have "c \<noteq> row" by metis
    with c(1) have "c \<in> set bs" by simp
    with D(6) [OF b' _ b(2)] c(2) show ?thesis by blast
  qed
  ultimately show ?thesis unfolding binding_table_inv_def by blast
qed

section \<open>What the operations do to the table\<close>

lemma active_bindingD:
  "active_binding item d = Some b \<Longrightarrow> b \<in> set (db_bindings d) \<and> bd_library_item_id b = item \<and> is_active b"
  by (auto simp: active_binding_def is_active_def dest: find_SomeD)

lemma active_binding_None:
  "active_binding item d = None \<Longrightarrow> b \<in> set (db_bindings d) \<Longrightarrow> bd_library_item_id b = item \<Longrightarrow> \<not> is_active b"
  by (auto simp: active_binding_def is_active_def find_None_iff)

lemma supersede_previous_effect:
  assumes inv: "binding_inv d" and d1_def: "d1 = supersede_previous now input a d"
  obtains P where "d1 = d\<lparr>db_bindings := upd_where P (supersede_binding now) (db_bindings d)\<rparr>"
    "\<And>b. b \<in> set (db_bindings d1) \<Longrightarrow> is_active b \<Longrightarrow> bd_library_item_id b \<noteq> ac_item_id a"
proof (cases "active_binding (ac_item_id a) d")
  case (Some act)
  let ?P = "\<lambda>b. bd_id b = bd_id act"
  from Some have d1: "d1 = d\<lparr>db_bindings := upd_where ?P (supersede_binding now) (db_bindings d)\<rparr>"
    by (simp add: d1_def supersede_previous_def)
  note act = active_bindingD [OF Some]
  show ?thesis
  proof (rule that [OF d1])
    fix b assume "b \<in> set (db_bindings d1)" "is_active b"
    then have "b \<in> set (upd_where ?P (supersede_binding now) (db_bindings d))" by (simp add: d1)
    then show "bd_library_item_id b \<noteq> ac_item_id a"
    proof (cases rule: in_upd_whereE)
      case kept
      with binding_table_invD(3) [OF inv [unfolded binding_inv_def]] act \<open>is_active b\<close>
      show ?thesis by (metis unique_whereD)
    next
      case (changed s)
      with \<open>is_active b\<close> show ?thesis by (simp add: supersede_binding_def is_active_def)
    qed
  qed
next
  case None
  note none = active_binding_None [OF None]
  have ex: "\<exists>P. d1 = d\<lparr>db_bindings := upd_where P (supersede_binding now) (db_bindings d)\<rparr>"
  proof -
    have id: "d = d\<lparr>db_bindings := upd_where (\<lambda>_. False) (supersede_binding now) (db_bindings d)\<rparr>"
      by (simp add: upd_where_def)
    show ?thesis
      using None id by (simp add: d1_def supersede_previous_def split: option.splits) (metis id)
  qed
  then obtain P where d1: "d1 = d\<lparr>db_bindings := upd_where P (supersede_binding now) (db_bindings d)\<rparr>" by blast
  show ?thesis
  proof (rule that [OF d1])
    fix b assume "b \<in> set (db_bindings d1)" "is_active b"
    then have "b \<in> set (upd_where P (supersede_binding now) (db_bindings d))" by (simp add: d1)
    then show "bd_library_item_id b \<noteq> ac_item_id a"
    proof (cases rule: in_upd_whereE)
      case kept
      with none \<open>is_active b\<close> show ?thesis by blast
    next
      case (changed s)
      with \<open>is_active b\<close> show ?thesis by (simp add: supersede_binding_def is_active_def)
    qed
  qed
qed

lemma insert_binding_Inr:
  assumes "insert_binding now uuid input a d = Inr (d', row)"
  shows "d' = d\<lparr>db_bindings := db_bindings d @ [row]\<rparr>"
    "bd_version row = max_of (\<lambda>b. bd_library_item_id b = bd_library_item_id row) bd_version (db_bindings d) + 1"
    "bd_library_item_id row = ac_item_id a" "is_active row" "bd_torrent_file_id row = ac_torrent_file_id a"
    "bd_representation_reason row = bix_representationReason input"
    "bd_placement_id row = bix_placementId input" "bd_provider_file_id row = bix_providerFileId input"
    "bd_exposure_id row = bix_exposureId input" "bd_info_hash row = ri_infoHash (ac_identity a)"
    "\<And>b. b \<in> set (db_bindings d) \<Longrightarrow> bd_id b \<noteq> bd_id row"
    "\<exists>tf \<in> set (db_torrent_files d). tf_id tf = bd_torrent_file_id row"
  using assms by (auto simp: insert_binding_def Let_def res_bind_Inr is_active_def list_ex_iff split: if_splits)

lemma commit_binding_cases:
  assumes "commit_binding now uuid input a d = Inr (d', b)"
  obtains
    (rebind) b0 reason where "active_binding (ac_item_id a) d = Some b0" "same_representation a b0"
      "d' = d\<lparr>db_bindings := upd_where (\<lambda>r. bd_id r = bd_id b0 \<and> bd_status r = BdActive)
          (rebind_route now reason input) (db_bindings d)\<rparr>"
      "b = rebind_route now reason input b0"
  | (insert) "insert_binding now uuid input a (supersede_previous now input a d) = Inr (d', b)"
      "\<And>b0. active_binding (ac_item_id a) d = Some b0 \<Longrightarrow>
         bd_torrent_file_id b0 \<noteq> ac_torrent_file_id a \<Longrightarrow> bd_torrent_file_id b0 \<noteq> [] \<Longrightarrow>
         ac_torrent_file_id a \<noteq> [] \<Longrightarrow> legal_reason (bix_representationReason input)"
proof -
  from assms obtain x where
    allowed: "assert_representation_change_allowed (map_option bd_torrent_file_id (active_binding (ac_item_id a) d))
        (Some (ac_torrent_file_id a)) (bix_representationReason input) = Inr x" and
    body: "(case active_binding (ac_item_id a) d of
        Some b \<Rightarrow>
          if same_representation a b
          then res_bind (require_string (bix_reason input) ''reason'' 1000) (\<lambda>reason.
            Inr (d\<lparr>db_bindings := upd_where (\<lambda>r. bd_id r = bd_id b \<and> bd_status r = BdActive)
                   (rebind_route now reason input) (db_bindings d)\<rparr>, rebind_route now reason input b))
          else insert_binding now uuid input a (supersede_previous now input a d)
      | None \<Rightarrow> insert_binding now uuid input a (supersede_previous now input a d)) = Inr (d', b)"
    unfolding commit_binding_def Let_def res_bind_Inr [of "assert_representation_change_allowed x y z" for x y z]
      res_bind_Inr [of "ensure x y" for x y] by blast
  have legal: "legal_reason (bix_representationReason input)"
    if "active_binding (ac_item_id a) d = Some b0" "bd_torrent_file_id b0 \<noteq> ac_torrent_file_id a"
      "bd_torrent_file_id b0 \<noteq> []" "ac_torrent_file_id a \<noteq> []" for b0
    using allowed that
    by (auto simp: assert_representation_change_allowed_Inr representation_changes_def truthy_id_def split: if_splits)
  show thesis
  proof (cases "active_binding (ac_item_id a) d")
    case None
    with body show ?thesis by (intro insert) simp_all
  next
    case (Some b0)
    show ?thesis
    proof (cases "same_representation a b0")
      case True
      with Some body show ?thesis by (auto simp: res_bind_Inr intro: rebind)
    next
      case False
      with Some body show ?thesis by (intro insert legal) simp_all
    qed
  qed
qed

lemma commit_binding_effect:
  assumes c: "commit_binding now uuid input a d = Inr (d', b)" and inv: "binding_inv d"
    and tf: "ac_torrent_file_id a \<noteq> []"
  shows "binding_inv d'" "bindings_kept d d'" "d'\<lparr>db_bindings := db_bindings d\<rparr> = d"
    "b \<in> set (db_bindings d')" "is_active b" "bd_library_item_id b = ac_item_id a"
    "bd_torrent_file_id b = ac_torrent_file_id a"
    "bd_placement_id b = bix_placementId input" "bd_provider_file_id b = bix_providerFileId input"
    "bd_exposure_id b = bix_exposureId input"
proof -
  have "binding_inv d' \<and> bindings_kept d d' \<and> d'\<lparr>db_bindings := db_bindings d\<rparr> = d \<and>
    b \<in> set (db_bindings d') \<and> is_active b \<and> bd_library_item_id b = ac_item_id a \<and>
    bd_torrent_file_id b = ac_torrent_file_id a \<and>
    bd_placement_id b = bix_placementId input \<and> bd_provider_file_id b = bix_providerFileId input \<and>
    bd_exposure_id b = bix_exposureId input"
    using c
  proof (cases rule: commit_binding_cases)
    case (rebind b0 reason)
    note act = active_bindingD [OF rebind(1)]
    let ?P = "\<lambda>r. bd_id r = bd_id b0 \<and> bd_status r = BdActive"
    have "b \<in> set (upd_where ?P (rebind_route now reason input) (db_bindings d))"
      unfolding rebind(4) using act by (intro in_upd_where_changed) (auto simp: is_active_def)
    moreover have "binding_table_inv (db_torrent_files d) (upd_where ?P (rebind_route now reason input) (db_bindings d))"
      using inv by (simp add: binding_inv_def demotes_inv)
    ultimately show ?thesis
      using act rebind(2,4)
      by (simp add: rebind(3) binding_inv_def bindings_kept_def demotes_kept same_representation_def
          rebind_route_def is_active_def)
  next
    case insert
    obtain P where sp: "supersede_previous now input a d =
          d\<lparr>db_bindings := upd_where P (supersede_binding now) (db_bindings d)\<rparr>"
      "\<And>b. b \<in> set (db_bindings (supersede_previous now input a d)) \<Longrightarrow> is_active b \<Longrightarrow>
         bd_library_item_id b \<noteq> ac_item_id a"
      using supersede_previous_effect [OF inv refl] by metis
    note ib = insert_binding_Inr [OF insert(1)]
    have t: "binding_table_inv (db_torrent_files d) (db_bindings (supersede_previous now input a d))"
      using inv by (simp add: sp(1) binding_inv_def demotes_inv)
    have "binding_table_inv (db_torrent_files d) (db_bindings (supersede_previous now input a d) @ [b])"
      by (rule insert_active_inv [OF t]) (use sp ib tf in auto)
    then have "binding_inv d'" by (simp add: ib(1) sp(1) binding_inv_def)
    moreover have "bindings_kept d d'" by (simp add: ib(1) sp(1) bindings_kept_def demotes_kept)
    ultimately show ?thesis using ib by (simp add: ib(1) sp(1))
  qed
  then show "binding_inv d'" "bindings_kept d d'" "d'\<lparr>db_bindings := db_bindings d\<rparr> = d"
    "b \<in> set (db_bindings d')" "is_active b" "bd_library_item_id b = ac_item_id a"
    "bd_torrent_file_id b = ac_torrent_file_id a"
    "bd_placement_id b = bix_placementId input" "bd_provider_file_id b = bix_providerFileId input"
    "bd_exposure_id b = bix_exposureId input" by blast+
qed

lemma commit_binding_info_hash:
  assumes "commit_binding now uuid input a d = Inr (d', b)"
  shows "bd_info_hash b = ri_infoHash (ac_identity a)"
  using assms
  by (cases rule: commit_binding_cases)
     (auto dest: insert_binding_Inr(10) simp: same_representation_def rebind_route_def)

lemma activate_binding_Inr:
  "(activate_binding now uuid input d = Inr x) =
     (\<exists>a. check_activation now input d = Inr a \<and> commit_binding now uuid input a d = Inr x)"
  by (simp add: activate_binding_def res_bind_Inr)

section \<open>What an activation has checked\<close>

text \<open>The state of the world an activation requires, as predicates over the database.\<close>

definition provider_is_ready :: "int \<Rightarrow> placement \<Rightarrow> db \<Rightarrow> bool" where
  "provider_is_ready now pl d \<longleftrightarrow>
     (case find (\<lambda>r. ro_placement_id r = pl_id pl) (db_readiness d) of
        Some r \<Rightarrow> ro_state r = PsReady \<and> now < ro_expires_at r
      | None \<Rightarrow> pl_state pl = PsReady)"

definition inventory_is_fresh :: "int \<Rightarrow> placement \<Rightarrow> provider_file \<Rightarrow> db \<Rightarrow> bool" where
  "inventory_is_fresh now pl f d \<longleftrightarrow> (\<exists>iv t u. get_provider_inventory_snapshot (pl_id pl) d = Some iv
     \<and> iv_authoritative iv \<and> iv_complete iv \<and> iv_expires_at iv = Some t \<and> now < t
     \<and> pf_inventory_expires_at f = Some u \<and> now < u)"

definition exposure_is_usable :: "int \<Rightarrow> placement \<Rightarrow> exposure \<Rightarrow> bool" where
  "exposure_is_usable now pl e \<longleftrightarrow> ex_state e = ExVisible \<and> ex_read_only e
     \<and> ex_account_scope e = pl_account_scope pl \<and> (\<exists>t. ex_expires_at e = Some t \<and> now < t)"

lemma not_expired: "(\<not> expired e now) = (\<exists>t. e = Some t \<and> now < t)"
  by (auto simp: expired_def split: option.splits)

lemma check_readiness_Inr: "(check_readiness now pl d = Inr u) = provider_is_ready now pl d"
  by (auto simp: check_readiness_def provider_is_ready_def ensure_Inr split: option.splits)

lemma check_inventory_Inr: "(check_inventory now pl f d = Inr u) = inventory_is_fresh now pl f d"
  by (auto simp: check_inventory_def inventory_is_fresh_def ensure_Inr res_bind_Inr not_expired split: option.splits)

lemma check_exposure_Inr:
  "(check_exposure pl e = Inr u) = (ex_state e = ExVisible \<and> ex_read_only e \<and> ex_account_scope e = pl_account_scope pl)"
  by (auto simp: check_exposure_def ensure_Inr res_bind_Inr)

lemma find_case_Inr:
  "((case x of None \<Rightarrow> Inl e | Some y \<Rightarrow> g y) = Inr z) = (\<exists>y. x = Some y \<and> g y = Inr z)"
  by (auto split: option.splits)

lemma check_activation_facts:
  assumes "check_activation now input d = Inr a"
  obtains pl f e path t where
    "get_placement d (bix_placementId input) = Some pl"
    "pl_info_hash pl = ri_infoHash (ac_identity a)"
    "require_provider_file d (bix_placementId input) (bix_providerFileId input) = Inr f"
    "e \<in> set (db_exposures d)" "ex_id e = bix_exposureId input"
    "ex_placement_id e = bix_placementId input" "ex_provider_file_id e = bix_providerFileId input"
    "exposure_is_usable now pl e" "provider_is_ready now pl d" "inventory_is_fresh now pl f d"
    "path \<in> set (db_paths d)" "lp_id path = ac_path_id a" "lp_library_item_id path = ac_item_id a" "lp_active path"
    "t \<in> set (db_torrent_files d)" "tf_id t = js_trim (ac_torrent_file_id a)"
    "tf_info_hash t = ri_infoHash (ac_identity a)" "ac_torrent_file_id a \<noteq> []"
    "pf_torrent_file_id f = None \<or> pf_torrent_file_id f = Some [] \<or> pf_torrent_file_id f = Some (ac_torrent_file_id a)"
    "valid_identity (ac_identity a)" "ac_item_id a = bix_libraryItemId input"
    "pf_torrent_file_id f = None \<longrightarrow> bix_torrentFileId input = Some (ac_torrent_file_id a)"
proof -
  from assms obtain identity item path pl f e torrentFile where
    id: "validate_release_identity (bix_release input) = Inr identity" and
    item: "get_library_item d (bix_libraryItemId input) = Some item" and
    path: "find (\<lambda>p. lp_id p = bix_libraryPathId input \<and> lp_library_item_id p = li_id item \<and> lp_active p)
            (db_paths d) = Some path" and
    pl: "get_placement d (bix_placementId input) = Some pl" "pl_info_hash pl = ri_infoHash identity" and
    f: "require_provider_file d (bix_placementId input) (bix_providerFileId input) = Inr f" and
    e: "find (\<lambda>e. ex_id e = bix_exposureId input \<and> ex_placement_id e = bix_placementId input
            \<and> ex_provider_file_id e = pf_provider_file_id f) (db_exposures d) = Some e"
       "ex_state e = ExVisible" "ex_read_only e" "ex_account_scope e = pl_account_scope pl"
       "\<not> expired (ex_expires_at e) now" and
    tf: "(if truthy_id (coalesce (bix_torrentFileId input) (pf_torrent_file_id f))
          then get_torrent_file d (coalesce (bix_torrentFileId input) (pf_torrent_file_id f)) else Inr None) = Inr torrentFile"
       "\<not> (truthy_id (bix_torrentFileId input) \<and> truthy_id (pf_torrent_file_id f)
          \<and> bix_torrentFileId input \<noteq> pf_torrent_file_id f)"
       "case torrentFile of None \<Rightarrow> False | Some t \<Rightarrow> tf_info_hash t = ri_infoHash identity" and
    r: "provider_is_ready now pl d" "inventory_is_fresh now pl f d" and
    a: "a = \<lparr>ac_identity = identity, ac_item_id = li_id item, ac_path_id = lp_id path,
            ac_torrent_file_id = nullish (coalesce (bix_torrentFileId input) (pf_torrent_file_id f)) []\<rparr>"
    unfolding check_activation_def Let_def res_bind_Inr find_case_Inr ensure_Inr require_library_item_Inr
      require_placement_Inr check_readiness_Inr check_inventory_Inr check_exposure_Inr
    by blast
  from tf(1,3) obtain t where truthy: "truthy_id (coalesce (bix_torrentFileId input) (pf_torrent_file_id f))"
    and t: "get_torrent_file d (coalesce (bix_torrentFileId input) (pf_torrent_file_id f)) = Inr (Some t)"
      "tf_info_hash t = ri_infoHash identity"
    by (auto split: if_splits option.splits)
  from truthy have ac: "coalesce (bix_torrentFileId input) (pf_torrent_file_id f) = Some (ac_torrent_file_id a)"
      "ac_torrent_file_id a \<noteq> []"
    by (auto simp: a truthy_id_def split: option.splits)
  from t(1) ac have tin: "t \<in> set (db_torrent_files d)" "tf_id t = js_trim (ac_torrent_file_id a)"
    by (auto simp: get_torrent_file_def res_bind_Inr require_string_Inr dest: find_SomeD)
  note pD = find_SomeD [OF path] and eD = find_SomeD [OF e(1)] and iD = get_library_item_SomeD [OF item]
  note fD = require_provider_file_InrD [OF f]
  show thesis
  proof (rule that [of pl f e path t])
    show "pf_torrent_file_id f = None \<or> pf_torrent_file_id f = Some [] \<or> pf_torrent_file_id f = Some (ac_torrent_file_id a)"
      using tf(2) ac by (cases "bix_torrentFileId input") (auto simp: truthy_id_def split: option.splits)
    show "pf_torrent_file_id f = None \<longrightarrow> bix_torrentFileId input = Some (ac_torrent_file_id a)"
      using ac by (cases "bix_torrentFileId input") auto
    show "exposure_is_usable now pl e" using e by (simp add: exposure_is_usable_def not_expired)
    show "valid_identity (ac_identity a)" using validate_release_identity_valid [OF id] by (simp add: a)
  qed (use pl f eD fD r pD tin t(2) ac(2) iD in \<open>simp_all add: a\<close>)
qed

section \<open>Steps of the binding table\<close>

inductive binding_step :: "db \<Rightarrow> db \<Rightarrow> bool" where
  activate: "activate_binding now uuid input d = Inr (d', b) \<Longrightarrow> binding_step d d'"
| unpublish: "unpublish_library_item now key d = Inr (d', r) \<Longrightarrow> binding_step d d'"
| degrade: "mark_binding_degraded now item version category d = Inr (d', b) \<Longrightarrow> binding_step d d'"

inductive_cases binding_stepE: "binding_step d d'"

lemma activate_binding_effect:
  assumes "activate_binding now uuid input d = Inr (d', b)" "binding_inv d"
  obtains a where "check_activation now input d = Inr a" "commit_binding now uuid input a d = Inr (d', b)"
    "ac_torrent_file_id a \<noteq> []" "binding_inv d'" "bindings_kept d d'" "b \<in> set (db_bindings d')" "is_active b"
    "bd_library_item_id b = ac_item_id a" "bd_torrent_file_id b = ac_torrent_file_id a"
proof -
  from assms(1) obtain a where a: "check_activation now input d = Inr a" "commit_binding now uuid input a d = Inr (d', b)"
    by (auto simp: activate_binding_Inr)
  from a(1) have tf: "ac_torrent_file_id a \<noteq> []" by (rule check_activation_facts)
  from commit_binding_effect [OF a(2) assms(2) tf] a tf show thesis by (intro that)
qed

lemma unpublish_effect:
  assumes "unpublish_library_item now key d = Inr (d', r)" and inv: "binding_inv d"
  shows "binding_inv d'" "bindings_kept d d'"
    "\<And>item. get_library_item_by_identity_key d key = Inr (Some item) \<Longrightarrow>
       active_binding (li_id item) d' = None \<and> r \<noteq> None"
    "b' \<in> set (db_bindings d') \<Longrightarrow> is_active b' \<Longrightarrow> b' \<in> set (db_bindings d)"
proof -
  have "binding_inv d' \<and> bindings_kept d d' \<and>
    (\<forall>item. get_library_item_by_identity_key d key = Inr (Some item) \<longrightarrow>
       active_binding (li_id item) d' = None \<and> r \<noteq> None) \<and>
    (\<forall>b' \<in> set (db_bindings d'). is_active b' \<longrightarrow> b' \<in> set (db_bindings d))"
  proof (cases "get_library_item_by_identity_key d key")
    case (Inl e)
    with assms(1) show ?thesis by (simp add: unpublish_library_item_def)
  next
    case (Inr found)
    show ?thesis
    proof (cases found)
      case None
      with Inr assms show ?thesis by (simp add: unpublish_library_item_def)
    next
      case (Some item)
      let ?act = "filter (\<lambda>b. bd_library_item_id b = li_id item \<and> bd_status b = BdActive) (db_bindings d)"
      let ?P = "\<lambda>b. bd_id b \<in> set (map bd_id ?act)"
      from Some Inr assms(1) have d': "db_bindings d' = upd_where ?P (supersede_binding now) (db_bindings d)"
          "db_torrent_files d' = db_torrent_files d" "r \<noteq> None"
        by (auto simp: unpublish_library_item_def Let_def)
      have kept: "b' \<in> set (db_bindings d) \<and> \<not> ?P b'" if "b' \<in> set (db_bindings d')" "is_active b'" for b'
        using that(1) unfolding d'(1)
        by (cases rule: in_upd_whereE) (use that(2) in \<open>auto simp: supersede_binding_def is_active_def\<close>)
      have "active_binding (li_id item) d' = None"
        unfolding active_binding_def find_None_iff using kept by (auto simp: is_active_def)
      moreover have "binding_inv d'"
        using inv by (simp add: binding_inv_def d' demotes_inv)
      moreover have "bindings_kept d d'" by (simp add: bindings_kept_def d' demotes_kept)
      moreover have "item' = item" if "get_library_item_by_identity_key d key = Inr (Some item')" for item'
        using that Inr Some by simp
      ultimately show ?thesis using kept d'(3) by blast
    qed
  qed
  note all = this
  from all show "binding_inv d'" "bindings_kept d d'" by blast+
  from all show "\<And>item. get_library_item_by_identity_key d key = Inr (Some item) \<Longrightarrow>
       active_binding (li_id item) d' = None \<and> r \<noteq> None" by blast
  from all show "b' \<in> set (db_bindings d)" if "b' \<in> set (db_bindings d')" "is_active b'"
    using that by simp
qed

lemma degrade_effect:
  assumes "mark_binding_degraded now item version category d = Inr (d', b)" and inv: "binding_inv d"
  shows "binding_inv d'" "bindings_kept d d'"
    "b' \<in> set (db_bindings d') \<Longrightarrow> is_active b' \<Longrightarrow> b' \<in> set (db_bindings d)"
proof -
  from assms(1) obtain b0 :: binding where e: "d\<lparr>db_bindings := upd_where (\<lambda>r. bd_id r = bd_id b0 \<and> bd_status r = BdActive)
      (degrade_binding now (nullish category ''unknown'')) (db_bindings d)\<rparr> = d'"
    unfolding mark_binding_degraded_def res_bind_Inr find_case_Inr Let_def sum.inject prod.inject
    by blast
  have d': "db_bindings d' = upd_where (\<lambda>r. bd_id r = bd_id b0 \<and> bd_status r = BdActive)
      (degrade_binding now (nullish category ''unknown'')) (db_bindings d)" "db_torrent_files d' = db_torrent_files d"
    unfolding e [symmetric] by simp_all
  show "binding_inv d'" using inv by (simp add: binding_inv_def d' demotes_inv)
  show "bindings_kept d d'" by (simp add: bindings_kept_def d' demotes_kept)
  show "b' \<in> set (db_bindings d)" if "b' \<in> set (db_bindings d')" "is_active b'"
    using that(1) unfolding d'(1)
    by (cases rule: in_upd_whereE) (use that(2) in \<open>auto simp: degrade_binding_def is_active_def\<close>)
qed

lemma binding_step_effect:
  assumes "binding_step d d'" "binding_inv d"
  shows "binding_inv d'" "bindings_kept d d'"
proof -
  have "binding_inv d' \<and> bindings_kept d d'"
    using assms(1)
  proof (cases rule: binding_step.cases)
    case (activate now uuid input b)
    from activate_binding_effect [OF this assms(2)] show ?thesis by blast
  next
    case (unpublish now key r)
    from unpublish_effect(1,2) [OF this assms(2)] show ?thesis by blast
  next
    case (degrade now item version category b)
    from degrade_effect(1,2) [OF this assms(2)] show ?thesis by blast
  qed
  then show "binding_inv d'" "bindings_kept d d'" by blast+
qed

lemma binding_steps_effect:
  assumes "binding_step\<^sup>*\<^sup>* d d'" "binding_inv d"
  shows "binding_inv d' \<and> bindings_kept d d'"
  using assms
proof (induction rule: rtranclp_induct)
  case base
  then show ?case by simp
next
  case (step b c)
  then show ?case using binding_step_effect [of b c] bindings_kept_trans by blast
qed

end
