(* ===== verification/Store_Repair.thy ===== *)
theory Store_Repair
  imports Store_Bindings
begin

text \<open>
  Repair transactions of the control-plane store, \<open>control-plane/store.js\<close>: \<open>createRepairTransaction\<close>,
  \<open>authorizeRepairTransaction\<close>, the steps, failure, resumption and completion, as a state machine
  over the tables \<open>repair_transactions\<close> and \<open>repair_steps\<close>; then its invariant and the properties
  that follow from it. A plan key carries no surrounding white space (the planner builds it); for
  one that does, the source stores a row it then fails to find.
\<close>

section \<open>Validation\<close>

text \<open>\<open>requireStringArray\<close>: an entry that is no string is \<open>None\<close>.\<close>

definition require_string_array :: "string option list \<Rightarrow> string \<Rightarrow> string list res" where
  "require_string_array xs field =
     (if xs = [] then Inl (TypeError field)
      else res_bind (map_res (\<lambda>x. require_string x field 256) xs) (\<lambda>ys.
        if distinct ys then Inr ys else Inl (TypeError field)))"

definition same_repair_scope :: "repair_scope option \<Rightarrow> repair_scope option \<Rightarrow> bool" where
  "same_repair_scope l r = (case (l, r) of (Some a, Some b) \<Rightarrow> a = b | _ \<Rightarrow> False)"

definition same_string_set :: "string list \<Rightarrow> string list \<Rightarrow> bool" where
  "same_string_set l r \<longleftrightarrow> l \<noteq> [] \<and> length l = length r \<and> distinct l \<and> list_all (\<lambda>x. x \<in> set l) r"

section \<open>Operations\<close>

type_synonym repair_view = "repair_transaction \<times> repair_step list"

definition find_repair :: "string \<Rightarrow> db \<Rightarrow> repair_transaction option" where
  "find_repair i d = find (\<lambda>r. rt_id r = i) (db_repairs d)"

definition require_repair :: "string \<Rightarrow> db \<Rightarrow> repair_transaction res" where
  "require_repair i d = (case find_repair i d of
      None \<Rightarrow> Inl (JsError ''Unknown repair transaction'') | Some r \<Rightarrow> Inr r)"

definition steps_of :: "string \<Rightarrow> db \<Rightarrow> repair_step list" where
  "steps_of i d = filter (\<lambda>s. st_transaction_id s = i) (db_steps d)"

definition repair_transaction_with_steps :: "repair_transaction \<Rightarrow> db \<Rightarrow> repair_view" where
  "repair_transaction_with_steps r d = (r, sort_key st_id (steps_of (rt_id r) d))"

definition get_repair_transaction :: "string option \<Rightarrow> db \<Rightarrow> repair_view option res" where
  "get_repair_transaction i d =
     res_bind (require_string i ''repairTransactionId'' 256) (\<lambda>t.
       Inr (map_option (\<lambda>r. repair_transaction_with_steps r d) (find_repair t d)))"

definition list_repair_transactions :: "string \<Rightarrow> db \<Rightarrow> repair_view list res" where
  "list_repair_transactions itemId d =
     res_bind (require_library_item d itemId) (\<lambda>_.
       Inr (map (\<lambda>r. repair_transaction_with_steps r d)
         (sort_key (\<lambda>r. (rt_created_at r, rt_id r))
           (filter (\<lambda>r. rt_library_item_id r = itemId) (db_repairs d)))))"

record repair_input =
  rix_libraryItemId :: string
  rix_desiredIdentity :: jv
  rix_plan :: "repair_plan option"
  rix_planKey :: "string option"
  rix_expectedBindingVersion :: nat
  rix_scope :: "repair_scope option"
  rix_id :: "string option"

definition plan_is_consistent :: "repair_input \<Rightarrow> repair_plan \<Rightarrow> release_identity \<Rightarrow> release_identity \<Rightarrow> bool" where
  "plan_is_consistent input plan identity planIdentity \<longleftrightarrow>
     pn_status plan = ''repair-required'' \<and> Some (pn_planKey plan) = rix_planKey input
     \<and> map_option pb_version (pn_binding plan) = Some (rix_expectedBindingVersion input)
     \<and> ri_releaseKey planIdentity = ri_releaseKey identity
     \<and> same_repair_scope (pn_scope plan) (rix_scope input)
     \<and> same_string_set (pn_permittedActions plan) (pn_actionSequence plan)"

definition plan_matches_binding :: "nat \<Rightarrow> release_identity \<Rightarrow> plan_binding \<Rightarrow> binding \<Rightarrow> bool" where
  "plan_matches_binding version identity pb b \<longleftrightarrow> bd_release_key b = ri_releaseKey identity
     \<and> bd_version b = version \<and> bd_id b = pb_id pb \<and> bd_placement_id b = pb_placement_id pb
     \<and> bd_provider_file_id b = pb_provider_file_id pb \<and> bd_exposure_id b = pb_exposure_id pb"

definition normalize_repair_scope :: "repair_scope \<Rightarrow> repair_scope res" where
  "normalize_repair_scope s =
     res_bind (normalize_identifier (Some (rs_account s))) (\<lambda>a.
     res_bind (normalize_identifier (Some (rs_instance s))) (\<lambda>i.
     res_bind (normalize_identifier (Some (rs_mount s))) (\<lambda>m.
       Inr \<lparr>rs_account = a, rs_instance = i, rs_mount = m\<rparr>)))"

definition same_plan :: "repair_transaction \<Rightarrow> repair_transaction \<Rightarrow> bool" where
  "same_plan row r \<longleftrightarrow> rt_plan_key r = rt_plan_key row
     \<and> rt_expected_binding_version r = rt_expected_binding_version row"

text \<open>\<open>INSERT ... ON CONFLICT(plan_key, expected_binding_version) DO NOTHING\<close>.\<close>

definition insert_repair :: "repair_transaction \<Rightarrow> db \<Rightarrow> db res" where
  "insert_repair row d =
     (if rt_expected_binding_version row = 0 then Inl (SqlConstraint ''expected_binding_version'')
      else if list_ex (same_plan row) (db_repairs d) then Inr d
      else if list_ex (\<lambda>r. rt_id r = rt_id row) (db_repairs d) then Inl (SqlConstraint ''repair_transactions.id'')
      else Inr (d\<lparr>db_repairs := db_repairs d @ [row]\<rparr>))"

definition create_repair_transaction ::
  "int \<Rightarrow> string \<Rightarrow> repair_input \<Rightarrow> db \<Rightarrow> (db \<times> repair_view) res" where
  "create_repair_transaction now uuid input d =
     res_bind (require_library_item d (rix_libraryItemId input)) (\<lambda>item.
     res_bind (validate_release_identity (rix_desiredIdentity input)) (\<lambda>identity.
     res_bind (validate_release_identity
        (case rix_plan input of None \<Rightarrow> JUndef | Some p \<Rightarrow> pn_desiredIdentity p)) (\<lambda>planIdentity.
     case rix_plan input of
       None \<Rightarrow> Inl (TypeError ''Repair transaction requires a consistent executable repair plan'')
     | Some plan \<Rightarrow>
     res_bind (ensure (plan_is_consistent input plan identity planIdentity)
        (TypeError ''Repair transaction requires a consistent executable repair plan'')) (\<lambda>_.
     case (pn_binding plan, newest_binding (li_id item) d) of
       (Some pb, Some b) \<Rightarrow>
         res_bind (ensure (plan_matches_binding (rix_expectedBindingVersion input) identity pb b)
           (JsError ''Repair plan binding version is no longer current'')) (\<lambda>_.
         res_bind (require_string (rix_planKey input) ''planKey'' 1000) (\<lambda>planKey.
         case rix_scope input of
           None \<Rightarrow> Inl (TypeError ''scope'')
         | Some scope \<Rightarrow>
         res_bind (normalize_repair_scope scope) (\<lambda>nscope.
         let row = \<lparr>rt_id = nullish (rix_id input) (''rp_'' @ uuid), rt_plan_key = planKey,
               rt_library_item_id = li_id item, rt_info_hash = ri_infoHash identity,
               rt_file_index = ri_fileIndex identity, rt_release_key = ri_releaseKey identity,
               rt_scope = nscope, rt_expected_binding_version = rix_expectedBindingVersion input,
               rt_status = RpPlanned, rt_plan = plan, rt_authorized_actions = [],
               rt_authorized_by = None, rt_created_at = now, rt_authorized_at = None,
               rt_started_at = None, rt_completed_at = None, rt_updated_at = now,
               rt_failure_category = None\<rparr>
         in res_bind (insert_repair row d) (\<lambda>d1.
            case find (\<lambda>r. Some (rt_plan_key r) = rix_planKey input
                   \<and> rt_expected_binding_version r = rix_expectedBindingVersion input) (db_repairs d1) of
              None \<Rightarrow> Inl (TypeError ''repair transaction row'')
            | Some r \<Rightarrow> Inr (d1, repair_transaction_with_steps r d1)))))
     | _ \<Rightarrow> Inl (JsError ''Repair plan binding version is no longer current'')))))"

text \<open>\<open>UPDATE repair_transactions SET ... WHERE id = ? AND status = ?\<close>, read back with its steps.\<close>

definition update_repair ::
  "string \<Rightarrow> (repair_transaction \<Rightarrow> bool) \<Rightarrow> (repair_transaction \<Rightarrow> repair_transaction) \<Rightarrow> db \<Rightarrow> db res" where
  "update_repair i P f d =
     (if list_ex (\<lambda>r. rt_id r = i \<and> P r) (db_repairs d)
      then Inr (d\<lparr>db_repairs := upd_where (\<lambda>r. rt_id r = i \<and> P r) f (db_repairs d)\<rparr>)
      else Inl (JsError ''Repair transaction state changed concurrently''))"

definition read_repair :: "string \<Rightarrow> db \<Rightarrow> (db \<times> repair_view) res" where
  "read_repair i d = res_bind (require_repair i d) (\<lambda>r. Inr (d, repair_transaction_with_steps r d))"

record authorization =
  au_actions :: "string option list"
  au_authorizedBy :: "string option"

definition authorize_row :: "int \<Rightarrow> string list \<Rightarrow> string \<Rightarrow> repair_transaction \<Rightarrow> repair_transaction" where
  "authorize_row now actions who r = r\<lparr>rt_status := RpAuthorized, rt_authorized_actions := actions,
     rt_authorized_by := Some who, rt_authorized_at := coalesce (rt_authorized_at r) (Some now),
     rt_updated_at := now, rt_failure_category := None\<rparr>"

definition authorize_repair_transaction ::
  "int \<Rightarrow> string option \<Rightarrow> authorization \<Rightarrow> db \<Rightarrow> (db \<times> repair_view) res" where
  "authorize_repair_transaction now i input d =
     res_bind (require_string i ''repairTransactionId'' 256) (\<lambda>t.
     res_bind (require_repair t d) (\<lambda>row.
     res_bind (ensure (rt_status row = RpPlanned \<or> rt_status row = RpAuthorized)
        (JsError ''Repair transaction cannot be authorized'')) (\<lambda>_.
     res_bind (ensure (case newest_binding (rt_library_item_id row) d of None \<Rightarrow> False
          | Some b \<Rightarrow> bd_version b = rt_expected_binding_version row \<and> bd_release_key b = rt_release_key row)
        (JsError ''Repair authorization binding version is no longer current'')) (\<lambda>_.
     res_bind (require_string_array (au_actions input) ''actions'') (\<lambda>requested.
     let sequence = pn_actionSequence (rt_plan row); permitted = pn_permittedActions (rt_plan row);
         ordered = filter (\<lambda>a. a \<in> set requested) sequence in
     res_bind (ensure (list_all (\<lambda>a. a \<in> set permitted) requested)
        (JsError ''Repair authorization includes an action not permitted by the plan'')) (\<lambda>_.
     res_bind (ensure (ordered = requested)
        (JsError ''Repair authorization actions must preserve the plan action order'')) (\<lambda>_.
     res_bind (require_string (au_authorizedBy input) ''authorizedBy'' 256) (\<lambda>who.
     res_bind (update_repair t (\<lambda>r. rt_status r = rt_status row) (authorize_row now requested who) d) (\<lambda>d1.
       read_repair t d1)))))))))"

definition executing_row :: "int \<Rightarrow> repair_transaction \<Rightarrow> repair_transaction" where
  "executing_row now r = r\<lparr>rt_status := RpExecuting,
     rt_started_at := coalesce (rt_started_at r) (Some now), rt_updated_at := now\<rparr>"

definition step_where :: "string \<Rightarrow> string \<Rightarrow> step_status \<Rightarrow> db \<Rightarrow> repair_step option" where
  "step_where i action st d = top_by st_attempt
     (filter (\<lambda>s. st_transaction_id s = i \<and> st_action s = action \<and> st_status s = st) (db_steps d))"

definition start_repair_step ::
  "int \<Rightarrow> string option \<Rightarrow> string \<Rightarrow> string option \<Rightarrow> db \<Rightarrow> (db \<times> repair_step) res" where
  "start_repair_step now i action request d =
     res_bind (require_string i ''repairTransactionId'' 256) (\<lambda>t.
     res_bind (require_repair t d) (\<lambda>row.
     res_bind (ensure (rt_status row = RpAuthorized \<or> rt_status row = RpExecuting)
        (JsError ''Repair transaction cannot execute'')) (\<lambda>_.
     res_bind (ensure (action \<in> set (rt_authorized_actions row))
        (JsError ''Repair action is not authorized'')) (\<lambda>_.
     case step_where t action StSucceeded d of
       Some s \<Rightarrow> Inr (d, s)
     | None \<Rightarrow>
     (case step_where t action StRunning d of
       Some s \<Rightarrow> Inr (d, s)
     | None \<Rightarrow>
     res_bind (update_repair t (\<lambda>r. rt_status r = RpAuthorized \<or> rt_status r = RpExecuting)
        (executing_row now) d) (\<lambda>d1.
     res_bind (require_string (Some action) ''action'' 256) (\<lambda>act.
     let step = \<lparr>st_id = max_of (\<lambda>_. True) st_id (db_steps d1) + 1, st_transaction_id = t,
           st_action = act, st_status = StRunning,
           st_attempt = max_of (\<lambda>s. st_transaction_id s = t \<and> st_action s = action) st_attempt (db_steps d1) + 1,
           st_request = request, st_result = None, st_failure_category = None, st_retryable = None,
           st_started_at = now, st_completed_at = None\<rparr>
     in Inr (d1\<lparr>db_steps := db_steps d1 @ [step]\<rparr>, step))))))))"

definition find_step :: "nat \<Rightarrow> db \<Rightarrow> repair_step option" where
  "find_step i d = find (\<lambda>s. st_id s = i) (db_steps d)"

definition succeed_step :: "int \<Rightarrow> string option \<Rightarrow> repair_step \<Rightarrow> repair_step" where
  "succeed_step now result s = s\<lparr>st_status := StSucceeded, st_result := result, st_completed_at := Some now\<rparr>"

definition touch_row :: "int \<Rightarrow> repair_transaction \<Rightarrow> repair_transaction" where
  "touch_row now r = r\<lparr>rt_updated_at := now\<rparr>"

definition complete_repair_step ::
  "int \<Rightarrow> nat \<Rightarrow> string option \<Rightarrow> db \<Rightarrow> (db \<times> repair_step) res" where
  "complete_repair_step now stepId result d =
     (case find_step stepId d of
        None \<Rightarrow> Inl (JsError ''Unknown repair step'')
      | Some s \<Rightarrow>
          if st_status s = StSucceeded then Inr (d, s)
          else if st_status s \<noteq> StRunning then Inl (JsError ''Repair step cannot succeed'')
          else res_bind (update_repair (st_transaction_id s) (\<lambda>r. rt_status r = RpExecuting) (touch_row now)
              (d\<lparr>db_steps := upd_where (\<lambda>x. st_id x = stepId \<and> st_status x = StRunning)
                   (succeed_step now result) (db_steps d)\<rparr>)) (\<lambda>d1.
            Inr (d1, succeed_step now result s)))"

record repair_failure =
  rf_failureCategory :: "string option"
  rf_result :: "string option"
  rf_retryable :: "bool option"

definition fail_step :: "int \<Rightarrow> string \<Rightarrow> repair_failure \<Rightarrow> repair_step \<Rightarrow> repair_step" where
  "fail_step now category err s = s\<lparr>st_status := StFailed, st_result := rf_result err,
     st_failure_category := Some category, st_retryable := rf_retryable err, st_completed_at := Some now\<rparr>"

definition fail_row :: "int \<Rightarrow> string \<Rightarrow> repair_transaction \<Rightarrow> repair_transaction" where
  "fail_row now category r = r\<lparr>rt_status := RpFailed, rt_failure_category := Some category,
     rt_completed_at := Some now, rt_updated_at := now\<rparr>"

definition failure_category_of :: "repair_failure \<Rightarrow> string res" where
  "failure_category_of err =
     require_string (Some (nullish (rf_failureCategory err) ''repair-operation-failed'')) ''failureCategory'' 256"

definition fail_repair_step ::
  "int \<Rightarrow> nat \<Rightarrow> repair_failure \<Rightarrow> db \<Rightarrow> (db \<times> repair_step) res" where
  "fail_repair_step now stepId err d =
     (case find_step stepId d of
        None \<Rightarrow> Inl (JsError ''Unknown repair step'')
      | Some s \<Rightarrow>
          if st_status s \<noteq> StRunning then Inl (JsError ''Repair step cannot fail'')
          else res_bind (failure_category_of err) (\<lambda>category.
            res_bind (update_repair (st_transaction_id s) (\<lambda>r. rt_status r = RpExecuting) (fail_row now category)
              (d\<lparr>db_steps := upd_where (\<lambda>x. st_id x = stepId \<and> st_status x = StRunning)
                   (fail_step now category err) (db_steps d)\<rparr>)) (\<lambda>d1.
            Inr (d1, fail_step now category err s))))"

definition fail_repair_transaction ::
  "int \<Rightarrow> string option \<Rightarrow> repair_failure \<Rightarrow> db \<Rightarrow> (db \<times> repair_view) res" where
  "fail_repair_transaction now i err d =
     res_bind (require_string i ''repairTransactionId'' 256) (\<lambda>t.
     res_bind (require_repair t d) (\<lambda>row.
     res_bind (ensure (rt_status row = RpAuthorized \<or> rt_status row = RpExecuting)
        (JsError ''Repair transaction cannot fail'')) (\<lambda>_.
     res_bind (failure_category_of err) (\<lambda>category.
     res_bind (update_repair t (\<lambda>r. rt_status r = rt_status row) (fail_row now category) d) (\<lambda>d1.
       read_repair t d1)))))"

definition has_running_step :: "string \<Rightarrow> db \<Rightarrow> bool" where
  "has_running_step i d = list_ex (\<lambda>s. st_transaction_id s = i \<and> st_status s = StRunning) (db_steps d)"

definition resume_row :: "int \<Rightarrow> repair_transaction \<Rightarrow> repair_transaction" where
  "resume_row now r = r\<lparr>rt_status := RpAuthorized, rt_failure_category := None,
     rt_completed_at := None, rt_updated_at := now\<rparr>"

definition resume_repair_transaction ::
  "int \<Rightarrow> string option \<Rightarrow> db \<Rightarrow> (db \<times> repair_view) res" where
  "resume_repair_transaction now i d =
     res_bind (require_string i ''repairTransactionId'' 256) (\<lambda>t.
     res_bind (require_repair t d) (\<lambda>row.
     res_bind (ensure (rt_status row = RpFailed) (JsError ''Repair transaction cannot resume'')) (\<lambda>_.
     res_bind (ensure (\<not> has_running_step t d)
        (JsError ''Repair transaction has an ambiguous running operation requiring manual resolution'')) (\<lambda>_.
     res_bind (update_repair t (\<lambda>r. rt_status r = RpFailed) (resume_row now) d) (\<lambda>d1.
       read_repair t d1)))))"

definition succeed_row :: "int \<Rightarrow> repair_transaction \<Rightarrow> repair_transaction" where
  "succeed_row now r = r\<lparr>rt_status := RpSucceeded, rt_completed_at := Some now,
     rt_updated_at := now, rt_failure_category := None\<rparr>"

definition action_succeeded :: "string \<Rightarrow> db \<Rightarrow> string \<Rightarrow> bool" where
  "action_succeeded i d action =
     list_ex (\<lambda>s. st_transaction_id s = i \<and> st_status s = StSucceeded \<and> st_action s = action) (db_steps d)"

definition complete_repair_transaction ::
  "int \<Rightarrow> string option \<Rightarrow> db \<Rightarrow> (db \<times> repair_view) res" where
  "complete_repair_transaction now i d =
     res_bind (require_string i ''repairTransactionId'' 256) (\<lambda>t.
     res_bind (require_repair t d) (\<lambda>row.
     if rt_status row = RpSucceeded then read_repair t d
     else
     res_bind (ensure (rt_status row = RpExecuting) (JsError ''Repair transaction cannot succeed'')) (\<lambda>_.
     res_bind (ensure (\<not> has_running_step t d) (JsError ''Repair transaction has incomplete steps'')) (\<lambda>_.
     res_bind (ensure (list_all (action_succeeded t d) (rt_authorized_actions row))
        (JsError ''Repair transaction has actions without successful attempts'')) (\<lambda>_.
     res_bind (update_repair t (\<lambda>r. rt_status r = RpExecuting) (succeed_row now) d) (\<lambda>d1.
       read_repair t d1))))))"

end
