(* ===== verification/Binding_Properties.thy ===== *)
theory Binding_Properties
  imports Store_Bindings
begin

text \<open>
  The properties of \<open>activateBinding\<close>, \<open>unpublishLibraryItem\<close> and \<open>markBindingDegraded\<close>
  (\<open>control-plane/store.js\<close>), with a concrete database on which each of them is exercised.
\<close>

section \<open>A concrete database\<close>

definition sample_item :: library_item where
  "sample_item = \<lparr>li_id = ''li_1'', li_identity_key = ''movie:tt1:default'', li_media_type = Movie,
     li_media_id = ''tt1'', li_edition_key = ''default'', li_title = ''T'', li_year = None, li_season = None,
     li_episode = None, li_desired_state = DesPresent, li_created_at = 1, li_updated_at = 1,
     li_publication_mode = ''vfs'', li_retire_at = None, li_first_played_at = None, li_last_played_at = None,
     li_max_progress = None, li_profile = ''p'', li_intent = ''i'', li_upgrade_policy = ''u'',
     li_presentation_title = None, li_presentation_year = None, li_presentation_path = None,
     li_presentation_strm_path = None, li_presentation_committed_at = None\<rparr>"

definition sample_path :: library_path where
  "sample_path = \<lparr>lp_id = ''lp_1'', lp_library_item_id = ''li_1'', lp_canonical_path = ''Movies/T/T.mkv'',
     lp_preferred_path = ''Movies/T/T.mkv'', lp_collision_key = ''movies/t/t.mkv'', lp_active = True,
     lp_created_at = 1, lp_retired_at = None\<rparr>"

definition sample_bound_file :: "string \<Rightarrow> string option \<Rightarrow> mapping_state \<Rightarrow> provider_file" where
  "sample_bound_file i tf st = sample_file\<lparr>pf_id := ''pf_'' @ i, pf_provider_file_id := i,
     pf_torrent_file_id := tf, pf_mapping_state := st, pf_inventory_expires_at := Some 1000\<rparr>"

definition sample_bound_exposure :: "string \<Rightarrow> exposure" where
  "sample_bound_exposure i = sample_exposure\<lparr>ex_id := ''ex_'' @ i, ex_provider_file_id := i,
     ex_exposure_key := ''k'' @ i, ex_expires_at := Some 1000\<rparr>"

text \<open>One item and path, one ready placement with two mapped files and one file in conflict.\<close>

definition binding_db :: db where
  "binding_db = empty_db\<lparr>db_items := [sample_item], db_paths := [sample_path],
     db_placements := [sample_placement],
     db_readiness := [sample_readiness\<lparr>ro_expires_at := 1000\<rparr>],
     db_torrent_files := [sample_torrent_file, sample_torrent_file\<lparr>tf_id := ''tf_2'', tf_internal_path := ''c.mkv''\<rparr>],
     db_provider_files := [sample_bound_file ''5'' (Some ''tf_1'') Mapped,
        sample_bound_file ''6'' (Some ''tf_2'') Mapped, sample_bound_file ''7'' None Conflict],
     db_inventories := [\<lparr>iv_placement_id = ''pl_u1'', iv_authoritative = True, iv_complete = True,
        iv_observed_at = 10, iv_expires_at = Some 1000, iv_file_count = 3, iv_evidence = None\<rparr>],
     db_exposures := [sample_bound_exposure ''5'', sample_bound_exposure ''6'', sample_bound_exposure ''7'']\<rparr>"

definition sample_release :: jv where
  "sample_release = JObj [(''infoHash'', JStr sample_hash), (''fileIndex'', JNull),
     (''releaseKey'', JStr (sample_hash @ '':torrent''))]"

definition sample_binding_input :: "string \<Rightarrow> string option \<Rightarrow> string option \<Rightarrow> binding_input" where
  "sample_binding_input i tf reason = \<lparr>bix_release = sample_release, bix_libraryItemId = ''li_1'',
     bix_libraryPathId = ''lp_1'', bix_placementId = ''pl_u1'', bix_providerFileId = i,
     bix_exposureId = ''ex_'' @ i, bix_torrentFileId = tf, bix_expectedBindingVersion = None,
     bix_representationReason = reason, bix_reason = Some ''r'', bix_failureCategory = None\<rparr>"

definition run_activations :: "(string \<times> binding_input) list \<Rightarrow> (db \<times> binding list) res" where
  "run_activations inputs = fold_res (\<lambda>(uuid, input). activate_binding 100 uuid input) inputs binding_db"

lemma sample_activations:
  "(case run_activations [(''a'', sample_binding_input ''5'' None None),
       (''b'', sample_binding_input ''6'' None (Some ''quality-upgrade''))] of
      Inl _ \<Rightarrow> False
    | Inr (d', bs) \<Rightarrow> map (\<lambda>b. (bd_version b, bd_torrent_file_id b, bd_status b)) (db_bindings d') =
        [(1, ''tf_1'', BdSuperseded), (2, ''tf_2'', BdActive)])"
  "run_activations [(''a'', sample_binding_input ''5'' None None), (''b'', sample_binding_input ''6'' None None)] =
     Inl (JsError ''Representation change refused'')"
  by code_simp+

lemma binding_db_inv: "binding_inv binding_db"
  by code_simp

text \<open>The database after the first activation.\<close>

definition sample_binding :: binding where
  "sample_binding = \<lparr>bd_id = ''bd_a'', bd_library_item_id = ''li_1'', bd_library_path_id = ''lp_1'',
     bd_release_key = sample_hash @ '':torrent'', bd_info_hash = sample_hash, bd_file_index = None,
     bd_torrent_file_id = ''tf_1'', bd_placement_id = ''pl_u1'', bd_provider_file_id = ''5'',
     bd_exposure_id = ''ex_5'', bd_version = 1, bd_status = BdActive, bd_reason = ''r'', bd_valid_from = 100,
     bd_superseded_at = None, bd_reconciled_at = 100, bd_failure_category = None, bd_representation_reason = None\<rparr>"

definition bound_db :: db where
  "bound_db = binding_db\<lparr>db_bindings := [sample_binding]\<rparr>"

lemma bound_db_run: "\<exists>b. activate_binding 100 ''a'' (sample_binding_input ''5'' None None) binding_db = Inr (bound_db, b)
    \<and> bd_torrent_file_id b = ''tf_1'' \<and> bd_version b = 1"
proof -
  have "(case activate_binding 100 ''a'' (sample_binding_input ''5'' None None) binding_db of
      Inl _ \<Rightarrow> False | Inr (d, b) \<Rightarrow> d = bound_db \<and> bd_torrent_file_id b = ''tf_1'' \<and> bd_version b = 1)" by code_simp
  then show ?thesis by (auto split: sum.splits)
qed

lemma bound_db_inv: "binding_inv bound_db"
  using bound_db_run activate_binding_effect [OF _ binding_db_inv] by metis

section \<open>Activation\<close>

text \<open>
  C1: A binding is activated only when the placement of its torrent hash is ready, its provider
  file is present in an authoritative, complete and fresh inventory and is not mapped to another
  torrent file, its exposure is visible, read-only, fresh and of the placement's account, its path
  is the active path of the item, and its torrent file exists with the hash of the release.
\<close>

theorem activation_preconditions:
  assumes "activate_binding now uuid input d = Inr (d', b)" "binding_inv d"
  shows "\<exists>pl f e path t. get_placement d (bd_placement_id b) = Some pl \<and> pl_info_hash pl = bd_info_hash b
    \<and> f \<in> set (db_provider_files d) \<and> pf_placement_id f = bd_placement_id b
    \<and> pf_provider_file_id f = bd_provider_file_id b \<and> pf_present f
    \<and> (pf_torrent_file_id f = None \<or> pf_torrent_file_id f = Some [] \<or> pf_torrent_file_id f = Some (bd_torrent_file_id b))
    \<and> inventory_is_fresh now pl f d \<and> provider_is_ready now pl d
    \<and> e \<in> set (db_exposures d) \<and> ex_id e = bd_exposure_id b \<and> exposure_is_usable now pl e
    \<and> path \<in> set (db_paths d) \<and> lp_library_item_id path = bd_library_item_id b \<and> lp_active path
    \<and> t \<in> set (db_torrent_files d) \<and> tf_id t = js_trim (bd_torrent_file_id b) \<and> tf_info_hash t = bd_info_hash b"
proof -
  from assms obtain a where a: "check_activation now input d = Inr a" "commit_binding now uuid input a d = Inr (d', b)"
      "ac_torrent_file_id a \<noteq> []"
    by (rule activate_binding_effect)
  note c = commit_binding_effect [OF a(2) assms(2) a(3)] and h = commit_binding_info_hash [OF a(2)]
  from a(1) show ?thesis
  proof (rule check_activation_facts)
    fix pl f e path t
    assume *: "get_placement d (bix_placementId input) = Some pl"
    "pl_info_hash pl = ri_infoHash (ac_identity a)"
    "require_provider_file d (bix_placementId input) (bix_providerFileId input) = Inr f"
    "e \<in> set (db_exposures d)" "ex_id e = bix_exposureId input"
    "exposure_is_usable now pl e" "provider_is_ready now pl d" "inventory_is_fresh now pl f d"
    "path \<in> set (db_paths d)" "lp_library_item_id path = ac_item_id a" "lp_active path"
    "t \<in> set (db_torrent_files d)" "tf_id t = js_trim (ac_torrent_file_id a)"
    "tf_info_hash t = ri_infoHash (ac_identity a)"
    "pf_torrent_file_id f = None \<or> pf_torrent_file_id f = Some [] \<or> pf_torrent_file_id f = Some (ac_torrent_file_id a)"
    note f = require_provider_file_InrD [OF *(3)]
    show ?thesis
      by (intro exI [of _ pl] exI [of _ f] exI [of _ e] exI [of _ path] exI [of _ t])
         (use * f c h in simp)
  qed
qed

theorem activation_preconditions_witness:
  "\<exists>pl f. get_placement binding_db ''pl_u1'' = Some pl \<and> f \<in> set (db_provider_files binding_db)
     \<and> inventory_is_fresh 100 pl f binding_db \<and> provider_is_ready 100 pl binding_db"
proof -
  obtain b where "activate_binding 100 ''a'' (sample_binding_input ''5'' None None) binding_db = Inr (bound_db, b)"
    using bound_db_run by blast
  from activation_preconditions [OF this binding_db_inv] this have
    "\<exists>pl f. get_placement binding_db (bd_placement_id b) = Some pl \<and> f \<in> set (db_provider_files binding_db)
     \<and> inventory_is_fresh 100 pl f binding_db \<and> provider_is_ready 100 pl binding_db" by blast
  moreover have "(case activate_binding 100 ''a'' (sample_binding_input ''5'' None None) binding_db of
      Inl _ \<Rightarrow> False | Inr (d, b) \<Rightarrow> bd_placement_id b = ''pl_u1'')" by code_simp
  ultimately show ?thesis
    using \<open>activate_binding 100 ''a'' (sample_binding_input ''5'' None None) binding_db = Inr (bound_db, b)\<close> by auto
qed

text \<open>
  C2: Along any sequence of activations, unpublications and degradations the binding table keeps
  its invariant (unique ids, unique versions per item, at most one active binding per item, which
  has the newest version of the item, every binding names an existing torrent file), and no binding
  is ever removed or changes its item, path, release, torrent file, version or reason.
\<close>

theorem binding_history_immutable:
  assumes "binding_step\<^sup>*\<^sup>* d d'" "binding_inv d"
  shows "binding_inv d' \<and>
    (\<exists>new. map binding_identity (db_bindings d') = map binding_identity (db_bindings d) @ new)"
  using binding_steps_effect [OF assms] by (simp add: bindings_kept_def)

theorem binding_history_immutable_witness:
  "binding_inv bound_db"
proof -
  obtain b where "activate_binding 100 ''a'' (sample_binding_input ''5'' None None) binding_db = Inr (bound_db, b)"
    using bound_db_run by blast
  then have "binding_step\<^sup>*\<^sup>* binding_db bound_db" by (blast intro: binding_step.activate)
  from binding_history_immutable [OF this binding_db_inv] show ?thesis by blast
qed

lemma representation_boundary_step:
  assumes step: "binding_step d d'" and inv: "binding_inv d"
    and b: "active_binding item d = Some b" and b': "active_binding item d' = Some b'"
    and changed: "bd_torrent_file_id b' \<noteq> bd_torrent_file_id b"
  shows "legal_reason (bd_representation_reason b')"
proof -
  note bD = active_bindingD [OF b] and bD' = active_bindingD [OF b']
  note inv' = binding_step_effect(1) [OF step inv]
  have same: "b' = b" if "b' \<in> set (db_bindings d)"
    using unique_whereD [OF binding_table_invD(3) [OF inv [unfolded binding_inv_def]] that, of b] bD bD' by simp
  from step show ?thesis
  proof (cases rule: binding_step.cases)
    case (activate now uuid input n)
    from activate inv obtain a where a: "check_activation now input d = Inr a"
        "commit_binding now uuid input a d = Inr (d', n)" "ac_torrent_file_id a \<noteq> []"
        "n \<in> set (db_bindings d')" "is_active n" "bd_library_item_id n = ac_item_id a"
        "bd_torrent_file_id n = ac_torrent_file_id a"
      by (rule activate_binding_effect)
    show ?thesis
    proof (cases "ac_item_id a = item")
      case True
      from unique_whereD [OF binding_table_invD(3) [OF inv' [unfolded binding_inv_def]] a(4), of b'] bD' a True
      have n: "n = b'" by simp
      from a(2) show ?thesis
      proof (cases rule: commit_binding_cases)
        case (rebind b0 reason)
        with b True have "b0 = b" by simp
        with rebind n changed show ?thesis by (simp add: rebind_route_def)
      next
        case insert
        have "bd_torrent_file_id b \<noteq> []"
          using binding_table_invD(4) [OF inv [unfolded binding_inv_def]] bD by blast
        with insert(2) [of b] b True changed n a(3,7) have "legal_reason (bix_representationReason input)" by simp
        with insert_binding_Inr(6) [OF insert(1)] n show ?thesis by simp
      qed
    next
      case False
      have "b' \<in> set (db_bindings d)"
        using a(2)
      proof (cases rule: commit_binding_cases)
        case (rebind b0 reason)
        have "b' \<in> set (upd_where (\<lambda>r. bd_id r = bd_id b0 \<and> bd_status r = BdActive)
            (rebind_route now reason input) (db_bindings d))" using bD' rebind(3) by simp
        then show ?thesis
        proof (cases rule: in_upd_whereE)
          case (changed s)
          with active_bindingD [OF rebind(1)] unique_byD [OF binding_table_invD(1) [OF inv [unfolded binding_inv_def]]]
          have "s = b0" by blast
          with changed active_bindingD [OF rebind(1)] bD' False show ?thesis by (simp add: rebind_route_def)
        qed
      next
        case insert
        obtain P where sp: "supersede_previous now input a d =
            d\<lparr>db_bindings := upd_where P (supersede_binding now) (db_bindings d)\<rparr>"
          using supersede_previous_effect [OF inv refl] by metis
        note ib = insert_binding_Inr [OF insert(1)]
        from bD' ib(1,3) False have "b' \<in> set (upd_where P (supersede_binding now) (db_bindings d))"
          by (auto simp: sp)
        then show ?thesis
        proof (cases rule: in_upd_whereE)
          case (changed s)
          with bD' show ?thesis by (simp add: supersede_binding_def is_active_def)
        qed
      qed
      with same changed show ?thesis by simp
    qed
  next
    case (unpublish now key r)
    from unpublish_effect(4) [OF this inv] bD' same changed show ?thesis by blast
  next
    case (degrade now it version category n)
    from degrade_effect(3) [OF this inv] bD' same changed show ?thesis by blast
  qed
qed

text \<open>
  C3: The representation boundary. When one operation takes an item from an active binding to an
  active binding with another torrent file, the new binding records one of the six legal
  representation reasons.
\<close>

theorem representation_boundary:
  assumes step: "binding_step d d'" and inv: "binding_inv d"
    and b: "active_binding item d = Some b" and b': "active_binding item d' = Some b'"
    and changed: "bd_torrent_file_id b' \<noteq> bd_torrent_file_id b"
  shows "legal_reason (bd_representation_reason b')"
  by (rule representation_boundary_step [OF assms])

theorem representation_boundary_witness:
  "\<exists>d' b'. activate_binding 100 ''b'' (sample_binding_input ''6'' None (Some ''quality-upgrade'')) bound_db = Inr (d', b')
     \<and> bd_torrent_file_id b' = ''tf_2'' \<and> legal_reason (bd_representation_reason b')"
proof -
  have "(case activate_binding 100 ''b'' (sample_binding_input ''6'' None (Some ''quality-upgrade'')) bound_db of
      Inl _ \<Rightarrow> False | Inr (d', b') \<Rightarrow> active_binding ''li_1'' d' = Some b' \<and> bd_torrent_file_id b' = ''tf_2'')"
    by code_simp
  then obtain d' b' where r: "activate_binding 100 ''b'' (sample_binding_input ''6'' None (Some ''quality-upgrade'')) bound_db = Inr (d', b')"
      "active_binding ''li_1'' d' = Some b'" "bd_torrent_file_id b' = ''tf_2''"
    by (auto split: sum.splits)
  have "map_option bd_torrent_file_id (active_binding ''li_1'' bound_db) = Some ''tf_1''" by code_simp
  then obtain b where b: "active_binding ''li_1'' bound_db = Some b" "bd_torrent_file_id b = ''tf_1''" by auto
  from representation_boundary [OF binding_step.activate [OF r(1)] bound_db_inv b(1) r(2)] b(2) r
  show ?thesis by simp
qed

text \<open>
  A new route for the same representation (torrent file, release key, hash and file index of
  the active binding) changes that binding in place: it keeps its id and its version, no binding is
  added, and every other binding is untouched.
\<close>

theorem route_change_in_place:
  assumes run: "activate_binding now uuid input d = Inr (d', b)" and inv: "binding_inv d"
    and act: "active_binding (bd_library_item_id b) d = Some b0"
    and same: "bd_torrent_file_id b = bd_torrent_file_id b0" "bd_release_key b = bd_release_key b0"
      "bd_info_hash b = bd_info_hash b0" "bd_file_index b = bd_file_index b0"
  shows "binding_identity b = binding_identity b0 \<and> length (db_bindings d') = length (db_bindings d) \<and>
    filter (\<lambda>c. bd_id c \<noteq> bd_id b0) (db_bindings d') = filter (\<lambda>c. bd_id c \<noteq> bd_id b0) (db_bindings d)"
proof -
  from run inv obtain a where a: "commit_binding now uuid input a d = Inr (d', b)" "bd_library_item_id b = ac_item_id a"
    by (rule activate_binding_effect)
  from a(1) show ?thesis
  proof (cases rule: commit_binding_cases)
    case (rebind b1 reason)
    with act a(2) have "b1 = b0" by simp
    moreover have "filter (\<lambda>c. bd_id c \<noteq> bd_id b0) (upd_where (\<lambda>r. bd_id r = bd_id b0 \<and> bd_status r = BdActive)
        (rebind_route now reason input) (db_bindings d)) = filter (\<lambda>c. bd_id c \<noteq> bd_id b0) (db_bindings d)"
      by (rule filter_upd_where) (simp_all add: rebind_route_def)
    ultimately show ?thesis using rebind(3,4) by (simp add: binding_identity_def rebind_route_def)
  next
    case insert
    then have "same_representation a b0"
      using same by (auto simp: insert_binding_def Let_def res_bind_Inr same_representation_def split: if_splits)
    with act a(1,2) have "binding_identity b = binding_identity b0 \<and> (\<exists>reason. d' = d\<lparr>db_bindings :=
        upd_where (\<lambda>r. bd_id r = bd_id b0 \<and> bd_status r = BdActive) (rebind_route now reason input) (db_bindings d)\<rparr>)"
      by (auto simp: commit_binding_def Let_def res_bind_Inr binding_identity_def rebind_route_def)
    then obtain reason where "binding_identity b = binding_identity b0" "d' = d\<lparr>db_bindings :=
        upd_where (\<lambda>r. bd_id r = bd_id b0 \<and> bd_status r = BdActive) (rebind_route now reason input) (db_bindings d)\<rparr>"
      by blast
    moreover have "filter (\<lambda>c. bd_id c \<noteq> bd_id b0) (upd_where (\<lambda>r. bd_id r = bd_id b0 \<and> bd_status r = BdActive)
        (rebind_route now reason input) (db_bindings d)) = filter (\<lambda>c. bd_id c \<noteq> bd_id b0) (db_bindings d)"
      by (rule filter_upd_where) (simp_all add: rebind_route_def)
    ultimately show ?thesis by simp
  qed
qed

theorem route_change_in_place_witness:
  "\<exists>d' b. activate_binding 150 ''b'' (sample_binding_input ''5'' None None) bound_db = Inr (d', b)
     \<and> length (db_bindings d') = length (db_bindings bound_db)"
proof -
  have "(case activate_binding 150 ''b'' (sample_binding_input ''5'' None None) bound_db of
      Inl _ \<Rightarrow> False | Inr (d', b) \<Rightarrow> (case active_binding (bd_library_item_id b) bound_db of
        None \<Rightarrow> False | Some b0 \<Rightarrow> bd_torrent_file_id b = bd_torrent_file_id b0 \<and> bd_release_key b = bd_release_key b0
          \<and> bd_info_hash b = bd_info_hash b0 \<and> bd_file_index b = bd_file_index b0))"
    by code_simp
  then obtain d' b b0 where r: "activate_binding 150 ''b'' (sample_binding_input ''5'' None None) bound_db = Inr (d', b)"
      "active_binding (bd_library_item_id b) bound_db = Some b0" "bd_torrent_file_id b = bd_torrent_file_id b0"
      "bd_release_key b = bd_release_key b0" "bd_info_hash b = bd_info_hash b0" "bd_file_index b = bd_file_index b0"
    by (auto split: sum.splits option.splits)
  from route_change_in_place [OF r(1) bound_db_inv r(2-6)] r(1) show ?thesis by blast
qed

text \<open>
  An activation whose expected version is not the newest version of the item (0 when it has
  none) is refused; one that succeeds makes its binding the only active one of the item, with a
  version no smaller than any other of the item.
\<close>

theorem activation_version_guard:
  assumes "activate_binding now uuid input d = Inr (d', b)" "binding_inv d"
  shows "(\<forall>v. bix_expectedBindingVersion input = Some v \<longrightarrow>
      v = (case newest_binding (bd_library_item_id b) d of None \<Rightarrow> 0 | Some n \<Rightarrow> int (bd_version n))) \<and>
    active_binding (bd_library_item_id b) d' = Some b \<and>
    (\<forall>c \<in> set (db_bindings d'). bd_library_item_id c = bd_library_item_id b \<longrightarrow>
       bd_version c \<le> bd_version b \<and> (is_active c \<longrightarrow> c = b))"
proof -
  from assms obtain a where a: "commit_binding now uuid input a d = Inr (d', b)" "bd_library_item_id b = ac_item_id a"
      "binding_inv d'" "b \<in> set (db_bindings d')" "is_active b"
    by (rule activate_binding_effect)
  note D = binding_table_invD [OF a(3) [unfolded binding_inv_def]]
  have v: "v = (case newest_binding (bd_library_item_id b) d of None \<Rightarrow> 0 | Some n \<Rightarrow> int (bd_version n))"
    if "bix_expectedBindingVersion input = Some v" for v
    using a(1,2) that unfolding commit_binding_def Let_def by (auto simp: res_bind_Inr ensure_Inr)
  have only: "c = b" if "c \<in> set (db_bindings d')" "bd_library_item_id c = bd_library_item_id b" "is_active c" for c
    using unique_whereD [OF D(3) that(1) a(4) that(3) a(5) that(2)] .
  have "active_binding (bd_library_item_id b) d' = Some b"
  proof (cases "active_binding (bd_library_item_id b) d'")
    case None
    from active_binding_None [OF None a(4)] a(5) show ?thesis by blast
  next
    case (Some c)
    with active_bindingD [OF Some] only show ?thesis by blast
  qed
  with v only D(6) [OF a(4) _ a(5)] show ?thesis by blast
qed

theorem activation_version_guard_witness:
  "\<exists>b. active_binding ''li_1'' bound_db = Some b \<and> bd_version b = 1"
proof -
  obtain b where r: "activate_binding 100 ''a'' (sample_binding_input ''5'' None None) binding_db = Inr (bound_db, b)"
      "bd_version b = 1" using bound_db_run by blast
  have "(case activate_binding 100 ''a'' (sample_binding_input ''5'' None None) binding_db of
      Inl _ \<Rightarrow> False | Inr (d, b) \<Rightarrow> bd_library_item_id b = ''li_1'')" by code_simp
  with r have "bd_library_item_id b = ''li_1''" by simp
  with activation_version_guard [OF r(1) binding_db_inv] r(2) show ?thesis by auto
qed

section \<open>Unpublishing\<close>

lemma unpublish_found:
  assumes "get_library_item_by_identity_key d key = Inr (Some item)"
    and "unpublish_library_item now key d = Inr (d', r)"
  shows "db_items d' = upd_where (\<lambda>i. li_id i = li_id item)
      (\<lambda>i. i\<lparr>li_desired_state := DesAbsent, li_updated_at := now\<rparr>) (db_items d)"
    "d'\<lparr>db_items := db_items d, db_bindings := db_bindings d\<rparr> = d"
    "r = Some \<lparr>un_libraryItemId = li_id item, un_identityKey = key, un_supersededBindings =
       length (filter (\<lambda>b. bd_library_item_id b = li_id item \<and> bd_status b = BdActive) (db_bindings d))\<rparr>"
  using assms by (auto simp: unpublish_library_item_def Let_def)

text \<open>
  Unpublishing an item marks it absent and leaves it without an active binding, removes no
  binding, placement, provider file or torrent file, and repeating it supersedes no further binding.
\<close>

theorem unpublish_converges:
  assumes item: "get_library_item_by_identity_key d key = Inr (Some item)"
    and run: "unpublish_library_item now key d = Inr (d1, r1)"
    and again: "unpublish_library_item now' key d1 = Inr (d2, r2)" and inv: "binding_inv d"
  shows "active_binding (li_id item) d1 = None \<and>
    (\<forall>i \<in> set (db_items d1). li_id i = li_id item \<longrightarrow> li_desired_state i = DesAbsent) \<and>
    bindings_kept d d1 \<and> d1\<lparr>db_items := db_items d, db_bindings := db_bindings d\<rparr> = d \<and>
    db_bindings d2 = db_bindings d1 \<and> map_option un_supersededBindings r2 = Some 0"
proof -
  note u = unpublish_found [OF item run]
  note e = unpublish_effect(2,3) [OF run inv]
  from e(2) [OF item] have none: "active_binding (li_id item) d1 = None" by blast
  have absent: "li_desired_state i = DesAbsent" if "i \<in> set (db_items d1)" "li_id i = li_id item" for i
    using that(1) unfolding u(1) by (cases rule: in_upd_whereE) (use that(2) in auto)
  obtain item1 where item1: "get_library_item_by_identity_key d1 key = Inr (Some item1)" "li_id item1 = li_id item"
  proof -
    have "find (\<lambda>i. li_identity_key i = key) (db_items d1) =
        map_option (\<lambda>i. if li_id i = li_id item then i\<lparr>li_desired_state := DesAbsent, li_updated_at := now\<rparr> else i)
          (find (\<lambda>i. li_identity_key i = key) (db_items d))"
      unfolding u(1) by (rule find_upd_where) simp
    with item show ?thesis
      by (auto simp: get_library_item_by_identity_key_def split: if_splits intro: that)
  qed
  have noact: "filter (\<lambda>b. bd_library_item_id b = li_id item1 \<and> bd_status b = BdActive) (db_bindings d1) = []"
    using none item1(2) by (auto simp: active_binding_def find_None_iff filter_empty_conv)
  have "unpublish_library_item now' key d1 = Inr (d1\<lparr>db_items := upd_where (\<lambda>i. li_id i = li_id item1)
        (\<lambda>i. i\<lparr>li_desired_state := DesAbsent, li_updated_at := now'\<rparr>) (db_items d1),
      db_bindings := upd_where (\<lambda>b. bd_id b \<in> set (map bd_id [])) (supersede_binding now') (db_bindings d1)\<rparr>,
      Some \<lparr>un_libraryItemId = li_id item1, un_identityKey = key, un_supersededBindings = length ([] :: binding list)\<rparr>)"
    unfolding unpublish_library_item_def item1(1) res_bind_simps option.case Let_def noact by simp
  with again have "db_bindings d2 = db_bindings d1" "map_option un_supersededBindings r2 = Some 0"
    by (auto simp: upd_where_none)
  with none absent e(1) u(2) show ?thesis by blast
qed

theorem unpublish_converges_witness:
  "\<exists>d1 r1 d2 r2. unpublish_library_item 200 ''movie:tt1:default'' bound_db = Inr (d1, r1)
     \<and> unpublish_library_item 300 ''movie:tt1:default'' d1 = Inr (d2, r2)
     \<and> active_binding ''li_1'' d1 = None \<and> map_option un_supersededBindings r2 = Some 0"
proof -
  have "(case get_library_item_by_identity_key bound_db ''movie:tt1:default'' of Inr (Some i) \<Rightarrow> li_id i = ''li_1'' | _ \<Rightarrow> False)"
    by code_simp
  then obtain item where item: "get_library_item_by_identity_key bound_db ''movie:tt1:default'' = Inr (Some item)"
      "li_id item = ''li_1''"
    by (auto split: sum.splits option.splits)
  have "(case unpublish_library_item 200 ''movie:tt1:default'' bound_db of Inl _ \<Rightarrow> False | Inr (d1, r1) \<Rightarrow>
      is_ok (unpublish_library_item 300 ''movie:tt1:default'' d1))" by code_simp
  then obtain d1 r1 d2 r2 where r: "unpublish_library_item 200 ''movie:tt1:default'' bound_db = Inr (d1, r1)"
      "unpublish_library_item 300 ''movie:tt1:default'' d1 = Inr (d2, r2)"
    by (auto simp: is_ok_conv split: sum.splits)
  from unpublish_converges [OF item(1) r bound_db_inv] r item(2) show ?thesis by auto
qed

section \<open>Where the code is laxer than its comments\<close>

text \<open>The guards of an activation do not read the bindings, and a degraded item has no active one.\<close>

lemma check_activation_bindings: "check_activation now input (d\<lparr>db_bindings := bs\<rparr>) = check_activation now input d"
proof -
  have "get_torrent_file (d\<lparr>db_bindings := bs\<rparr>) i = get_torrent_file d i" for i by (simp add: get_torrent_file_def)
  moreover have "check_readiness now p (d\<lparr>db_bindings := bs\<rparr>) = check_readiness now p d" for p
    by (simp add: check_readiness_def)
  moreover have "check_inventory now p f (d\<lparr>db_bindings := bs\<rparr>) = check_inventory now p f d" for p f
    by (simp add: check_inventory_def get_provider_inventory_snapshot_def)
  moreover have "require_library_item (d\<lparr>db_bindings := bs\<rparr>) i = require_library_item d i"
    "require_placement (d\<lparr>db_bindings := bs\<rparr>) i = require_placement d i"
    "require_provider_file (d\<lparr>db_bindings := bs\<rparr>) i j = require_provider_file d i j" for i j
    by (simp_all add: require_library_item_def require_placement_def require_provider_file_def
        get_library_item_def get_placement_def get_provider_file_def)
  ultimately show ?thesis by (simp add: check_activation_def cong: option.case_cong if_cong)
qed

lemma degrade_cases:
  assumes "mark_binding_degraded now item v c d = Inr (d1, b1)"
  obtains b0 where "active_binding (bd_library_item_id b1) d = Some b0" "b1 = degrade_binding now (nullish c ''unknown'') b0"
    "d1 = d\<lparr>db_bindings := upd_where (\<lambda>r. bd_id r = bd_id b0 \<and> bd_status r = BdActive)
      (degrade_binding now (nullish c ''unknown'')) (db_bindings d)\<rparr>"
proof -
  from assms obtain it :: library_item and b0 :: binding where b0: "active_binding (li_id it) d = Some b0" "degrade_binding now (nullish c ''unknown'') b0 = b1"
    "d\<lparr>db_bindings := upd_where (\<lambda>r. bd_id r = bd_id b0 \<and> bd_status r = BdActive)
      (degrade_binding now (nullish c ''unknown'')) (db_bindings d)\<rparr> = d1"
    unfolding mark_binding_degraded_def Let_def res_bind_Inr find_case_Inr sum.inject prod.inject by blast
  have "bd_library_item_id b1 = li_id it"
    using active_bindingD [OF b0(1)] by (simp add: b0(2) [symmetric] degrade_binding_def)
  with b0(1) show thesis by (intro that [OF _ b0(2,3) [symmetric]]) simp
qed

lemma degraded_no_active:
  assumes "mark_binding_degraded now item v c d = Inr (d1, b1)" "binding_inv d"
  shows "active_binding (bd_library_item_id b1) d1 = None"
  using assms(1)
proof (rule degrade_cases)
  fix b0
  assume b0: "active_binding (bd_library_item_id b1) d = Some b0"
    "d1 = d\<lparr>db_bindings := upd_where (\<lambda>r. bd_id r = bd_id b0 \<and> bd_status r = BdActive)
      (degrade_binding now (nullish c ''unknown'')) (db_bindings d)\<rparr>"
  note D = binding_table_invD [OF assms(2) [unfolded binding_inv_def]]
  show ?thesis
  proof (rule ccontr)
    assume "active_binding (bd_library_item_id b1) d1 \<noteq> None"
    then obtain x where x: "active_binding (bd_library_item_id b1) d1 = Some x" by blast
    note x = active_bindingD [OF x] and y = active_bindingD [OF b0(1)]
    from x degrade_effect(3) [OF assms] have "x \<in> set (db_bindings d)" by blast
    then have same: "x = b0" by (rule unique_whereD [OF D(3) _ conjunct1 [OF y]]) (use x y in auto)
    from x have "b0 \<in> set (upd_where (\<lambda>r. bd_id r = bd_id b0 \<and> bd_status r = BdActive)
        (degrade_binding now (nullish c ''unknown'')) (db_bindings d))" by (simp add: same b0(2))
    then show False
      by (cases rule: in_upd_whereE) (use y in \<open>auto simp: is_active_def degrade_binding_def\<close>)
  qed
qed

lemma commit_without_active:
  assumes inv: "binding_inv d" and none: "active_binding (ac_item_id a) d = None"
    and "bix_expectedBindingVersion input = None" "require_string (bix_reason input) ''reason'' 1000 = Inr reason"
    and fresh: "\<exists>t \<in> set (db_torrent_files d). tf_id t = ac_torrent_file_id a" "\<forall>b \<in> set (db_bindings d). bd_id b \<noteq> ''bd_'' @ uuid"
  obtains d' b where "commit_binding now uuid input a d = Inr (d', b)"
    "bd_representation_reason b = bix_representationReason input"
proof -
  let ?d = "supersede_previous now input a d"
  obtain P where sp: "?d = d\<lparr>db_bindings := upd_where P (supersede_binding now) (db_bindings d)\<rparr>"
    using supersede_previous_effect [OF inv refl] by metis
  have "assert_representation_change_allowed None (Some (ac_torrent_file_id a)) r = Inr (False, r)" for r
    by (simp add: assert_representation_change_allowed_def representation_changes_def truthy_id_def)
  with none assms(3) have "commit_binding now uuid input a d = insert_binding now uuid input a ?d"
    by (simp add: commit_binding_def Let_def ensure_def)
  moreover have "\<not> list_ex (\<lambda>b. bd_id b = ''bd_'' @ uuid) (db_bindings ?d)"
    using fresh(2) by (auto simp: sp list_ex_iff upd_where_def supersede_binding_def)
  moreover have "list_ex (\<lambda>t. tf_id t = ac_torrent_file_id a) (db_torrent_files ?d)"
    using fresh(1) by (simp add: sp list_ex_iff)
  ultimately show thesis using assms(4) by (intro that) (auto simp: insert_binding_def Let_def)
qed

text \<open>
  C8: Let an activation pass every guard for an item that is bound to another torrent file, and give no
  representation reason. While the binding is active the activation is refused, as the rule of
  \<open>representation-authority.js\<close> demands. After \<open>markBindingDegraded\<close> the very same activation succeeds and
  records no reason: with no active binding nothing is compared with the degraded one that it replaces.
\<close>

theorem degraded_binding_escapes_boundary:
  assumes inv: "binding_inv d" and degraded: "mark_binding_degraded now item v c d = Inr (d1, b1)"
    and guards: "check_activation later input d = Inr a" "ac_item_id a = bd_library_item_id b1"
    and change: "ac_torrent_file_id a \<noteq> bd_torrent_file_id b1" "bix_representationReason input = None"
    and rest: "bix_expectedBindingVersion input = None" "require_string (bix_reason input) ''reason'' 1000 = Inr reason"
      "\<exists>t \<in> set (db_torrent_files d). tf_id t = ac_torrent_file_id a" "\<forall>b \<in> set (db_bindings d). bd_id b \<noteq> ''bd_'' @ uuid"
  shows "activate_binding later uuid input d = Inl (JsError ''Representation change refused'')
    \<and> (\<exists>d2 b2. activate_binding later uuid input d1 = Inr (d2, b2) \<and> active_binding (bd_library_item_id b1) d2 = Some b2
        \<and> bd_torrent_file_id b2 = ac_torrent_file_id a \<and> bd_representation_reason b2 = None)"
proof
  have tf: "ac_torrent_file_id a \<noteq> []" using guards(1) by (rule check_activation_facts)
  obtain b0 where b0: "active_binding (ac_item_id a) d = Some b0" "bd_torrent_file_id b0 = bd_torrent_file_id b1"
    "d1 = d\<lparr>db_bindings := upd_where (\<lambda>r. bd_id r = bd_id b0 \<and> bd_status r = BdActive)
      (degrade_binding now (nullish c ''unknown'')) (db_bindings d)\<rparr>"
    using degraded unfolding guards(2) by (rule degrade_cases) (simp add: degrade_binding_def)
  have "bd_torrent_file_id b0 \<noteq> []"
    using active_bindingD [OF b0(1)] inv by (simp add: binding_inv_def binding_table_invD(4))
  with tf change b0(2) have "assert_representation_change_allowed (Some (bd_torrent_file_id b0)) (Some (ac_torrent_file_id a)) None
      = Inl (JsError ''Representation change refused'')"
    by (simp add: assert_representation_change_allowed_def representation_changes_def truthy_id_def legal_reason_def)
  then show "activate_binding later uuid input d = Inl (JsError ''Representation change refused'')"
    using guards(1) b0(1) change(2) by (simp add: activate_binding_def commit_binding_def Let_def)
  have checked: "check_activation later input d1 = Inr a" using guards(1) by (simp add: b0(3) check_activation_bindings)
  have fresh: "\<forall>b \<in> set (db_bindings d1). bd_id b \<noteq> ''bd_'' @ uuid"
    using rest(4) by (auto simp: b0(3) upd_where_def degrade_binding_def)
  have inv1: "binding_inv d1" by (rule degrade_effect(1) [OF degraded inv])
  have "\<exists>t \<in> set (db_torrent_files d1). tf_id t = ac_torrent_file_id a" using rest(3) by (simp add: b0(3))
  from commit_without_active [OF inv1 _ rest(1,2) this fresh] degraded_no_active [OF degraded inv] guards(2)
  obtain d2 b2 where c: "commit_binding later uuid input a d1 = Inr (d2, b2)" "bd_representation_reason b2 = None"
    using change(2) by metis
  note e = commit_binding_effect [OF c(1) inv1 tf]
  obtain b where b: "active_binding (ac_item_id a) d2 = Some b"
    using active_binding_None [of "ac_item_id a" d2 b2] e(4-6) by (cases "active_binding (ac_item_id a) d2") auto
  have "b = b2"
    using active_bindingD [OF b] e(4-6) binding_table_invD(3) [OF e(1) [unfolded binding_inv_def]] by (metis unique_whereD)
  then show "\<exists>d2 b2. activate_binding later uuid input d1 = Inr (d2, b2) \<and> active_binding (bd_library_item_id b1) d2 = Some b2
      \<and> bd_torrent_file_id b2 = ac_torrent_file_id a \<and> bd_representation_reason b2 = None"
    using c checked b e(7) guards(2) by (auto simp: activate_binding_def)
qed

theorem degraded_binding_escapes_boundary_witness:
  "\<exists>d1 d2 b1 b2. mark_binding_degraded 110 ''li_1'' None None bound_db = Inr (d1, b1)
     \<and> activate_binding 120 ''b'' (sample_binding_input ''6'' None None) d1 = Inr (d2, b2)
     \<and> bd_torrent_file_id b1 = ''tf_1'' \<and> bd_torrent_file_id b2 = ''tf_2'' \<and> bd_representation_reason b2 = None"
proof -
  let ?input = "sample_binding_input ''6'' None None"
  have "(case mark_binding_degraded 110 ''li_1'' None None bound_db of Inl _ \<Rightarrow> False
      | Inr (d1, b1) \<Rightarrow> bd_library_item_id b1 = ''li_1'' \<and> bd_torrent_file_id b1 = ''tf_1'')"
    "(case check_activation 120 ?input bound_db of Inl _ \<Rightarrow> False
      | Inr a \<Rightarrow> ac_item_id a = ''li_1'' \<and> ac_torrent_file_id a = ''tf_2'')"
    "\<exists>t \<in> set (db_torrent_files bound_db). tf_id t = ''tf_2''" "\<forall>b \<in> set (db_bindings bound_db). bd_id b \<noteq> ''bd_'' @ ''b''"
    "require_string (bix_reason ?input) ''reason'' 1000 = Inr ''r''"
    by code_simp+
  then obtain d1 b1 a where r: "mark_binding_degraded 110 ''li_1'' None None bound_db = Inr (d1, b1)"
      "bd_library_item_id b1 = ''li_1''" "bd_torrent_file_id b1 = ''tf_1''"
      "check_activation 120 ?input bound_db = Inr a" "ac_item_id a = ''li_1''" "ac_torrent_file_id a = ''tf_2''"
      "\<exists>t \<in> set (db_torrent_files bound_db). tf_id t = ''tf_2''" "\<forall>b \<in> set (db_bindings bound_db). bd_id b \<noteq> ''bd_'' @ ''b''"
      "require_string (bix_reason ?input) ''reason'' 1000 = Inr ''r''"
    by (auto split: sum.splits prod.splits)
  have o: "bix_representationReason ?input = None" "bix_expectedBindingVersion ?input = None"
    by (simp_all add: sample_binding_input_def)
  from degraded_binding_escapes_boundary [OF bound_db_inv r(1,4) _ _ o r(9) _ r(8)] r(2,3,5,6,7) r(1)
  show ?thesis by auto
qed

text \<open>
  An explicit torrent file id replaces both kinds of mapping evidence: a provider file whose
  mapping is in conflict, with no candidate mapping, can be bound to any torrent file of the hash.
\<close>

theorem explicit_torrent_file_needs_no_mapping:
  "\<exists>d' b. activate_binding 100 ''a'' (sample_binding_input ''7'' (Some ''tf_1'') None) binding_db = Inr (d', b) \<and>
     bd_torrent_file_id b = ''tf_1'' \<and> db_mappings binding_db = [] \<and>
     map_option pf_mapping_state (get_provider_file binding_db ''pl_u1'' ''7'') = Some Conflict"
proof -
  have "(case activate_binding 100 ''a'' (sample_binding_input ''7'' (Some ''tf_1'') None) binding_db of
     Inl _ \<Rightarrow> False | Inr (d', b) \<Rightarrow> bd_torrent_file_id b = ''tf_1'') \<and> db_mappings binding_db = [] \<and>
     map_option pf_mapping_state (get_provider_file binding_db ''pl_u1'' ''7'') = Some Conflict"
    by code_simp
  then show ?thesis by (auto split: sum.splits)
qed

end
