(* ===== verification/Repair_Properties.thy ===== *)
theory Repair_Properties
  imports Store_Repair Binding_Properties
begin

text \<open>
  The repair transaction as a state machine: the invariant of its two tables, that every operation
  of \<open>Store_Repair\<close> keeps it, and what follows for a transaction that has succeeded, for an action
  that is started again and for a failed transaction with a running step.
\<close>

section \<open>The invariant\<close>

definition step_key :: "repair_step \<Rightarrow> string \<times> string" where
  "step_key s = (st_transaction_id s, st_action s)"

definition running :: "repair_step \<Rightarrow> bool" where
  "running s \<longleftrightarrow> st_status s = StRunning"

definition succeeded :: "repair_step \<Rightarrow> bool" where
  "succeeded s \<longleftrightarrow> st_status s = StSucceeded"

text \<open>An authorization names permitted actions, in the order of the plan.\<close>

definition authorization_ok :: "repair_plan \<Rightarrow> string list \<Rightarrow> bool" where
  "authorization_ok plan acts \<longleftrightarrow> acts \<noteq> [] \<and> set acts \<subseteq> set (pn_permittedActions plan)
     \<and> filter (\<lambda>a. a \<in> set acts) (pn_actionSequence plan) = acts \<and> (\<forall>a \<in> set acts. js_trim a = a)"

text \<open>What the steps require of a transaction's row.\<close>

definition row_ok :: "repair_step list \<Rightarrow> repair_transaction \<Rightarrow> bool" where
  "row_ok ss r \<longleftrightarrow>
     ((\<exists>s \<in> set ss. running s \<and> st_transaction_id s = rt_id r) \<longrightarrow> rt_status r \<in> {RpExecuting, RpFailed}) \<and>
     (rt_status r = RpSucceeded \<longrightarrow>
        (\<forall>a \<in> set (rt_authorized_actions r). \<exists>s \<in> set ss. succeeded s \<and> step_key s = (rt_id r, a))) \<and>
     (rt_status r \<noteq> RpPlanned \<longrightarrow> authorization_ok (rt_plan r) (rt_authorized_actions r))"

definition repair_table_inv :: "repair_transaction list \<Rightarrow> repair_step list \<Rightarrow> bool" where
  "repair_table_inv rs ss \<longleftrightarrow> unique_by rt_id rs \<and> unique_by st_id ss
     \<and> unique_where running step_key ss \<and> unique_where succeeded step_key ss
     \<and> (\<forall>s \<in> set ss. \<forall>t \<in> set ss. succeeded s \<longrightarrow> running t \<longrightarrow> step_key s \<noteq> step_key t)
     \<and> (\<forall>s \<in> set ss. \<exists>r \<in> set rs. rt_id r = st_transaction_id s)
     \<and> (\<forall>r \<in> set rs. row_ok ss r)"

definition repair_inv :: "db \<Rightarrow> bool" where
  "repair_inv d \<longleftrightarrow> repair_table_inv (db_repairs d) (db_steps d)"

lemma repair_table_invD:
  assumes "repair_table_inv rs ss"
  shows "unique_by rt_id rs" "unique_by st_id ss" "unique_where running step_key ss"
    "unique_where succeeded step_key ss"
    "s \<in> set ss \<Longrightarrow> t \<in> set ss \<Longrightarrow> succeeded s \<Longrightarrow> running t \<Longrightarrow> step_key s \<noteq> step_key t"
    "s \<in> set ss \<Longrightarrow> \<exists>r \<in> set rs. rt_id r = st_transaction_id s"
    "r \<in> set rs \<Longrightarrow> row_ok ss r"
  using assms by (auto simp: repair_table_inv_def)

lemma insert_row_inv:
  assumes inv: "repair_table_inv rs ss" and fresh: "\<And>r. r \<in> set rs \<Longrightarrow> rt_id r \<noteq> rt_id row"
    and planned: "rt_status row = RpPlanned"
  shows "repair_table_inv (rs @ [row]) ss"
proof -
  note D = repair_table_invD [OF inv]
  have "rt_id row \<notin> rt_id ` set rs" using fresh by (metis imageE)
  then have u: "unique_by rt_id (rs @ [row])" using D(1) by (simp add: unique_by_snoc)
  have "row_ok ss row"
    unfolding row_ok_def using planned D(6) fresh by fastforce
  then show ?thesis unfolding repair_table_inv_def using D u by fastforce
qed

lemma update_row_inv:
  assumes inv: "repair_table_inv rs ss" and id: "\<And>r. rt_id (f r) = rt_id r"
    and ok: "\<And>r. r \<in> set rs \<Longrightarrow> P r \<Longrightarrow> row_ok ss (f r)"
  shows "repair_table_inv (upd_where P f rs) ss"
proof -
  note D = repair_table_invD [OF inv]
  have u: "unique_by rt_id (upd_where P f rs)" using D(1) id by (simp add: unique_by_upd_where)
  have ids: "rt_id ` set (upd_where P f rs) = rt_id ` set rs"
    using map_upd_where [of P rt_id f rs] id by (metis list.set_map)
  have fk: "\<exists>r \<in> set (upd_where P f rs). rt_id r = st_transaction_id s" if s: "s \<in> set ss" for s
  proof -
    from D(6) [OF s] have "st_transaction_id s \<in> rt_id ` set (upd_where P f rs)"
      unfolding ids by (metis imageI)
    then show ?thesis by (metis imageE)
  qed
  have rows: "row_ok ss r" if "r \<in> set (upd_where P f rs)" for r
    using that by (cases rule: in_upd_whereE) (use D(7) ok in auto)
  show ?thesis unfolding repair_table_inv_def using D(2-5) u fk rows by blast
qed

lemma append_step_inv:
  assumes inv: "repair_table_inv rs ss" and st: "running s"
    and fresh: "\<And>t. t \<in> set ss \<Longrightarrow> st_id t \<noteq> st_id s"
    and idle: "\<And>t. t \<in> set ss \<Longrightarrow> step_key t = step_key s \<Longrightarrow> \<not> running t \<and> \<not> succeeded t"
    and row: "r \<in> set rs" "rt_id r = st_transaction_id s" "rt_status r = RpExecuting"
  shows "repair_table_inv rs (ss @ [s])"
proof -
  note D = repair_table_invD [OF inv]
  have ns: "\<not> succeeded s" using st by (simp add: running_def succeeded_def)
  have "st_id s \<notin> st_id ` set ss" using fresh by (metis imageE)
  then have u: "unique_by st_id (ss @ [s])" using D(2) by (simp add: unique_by_snoc)
  have ur: "unique_where running step_key (ss @ [s])" using D(3) idle by (auto simp: unique_where_snoc)
  have us: "unique_where succeeded step_key (ss @ [s])" using D(4) ns by (simp add: unique_where_snoc)
  have sep: "step_key a \<noteq> step_key b" if "a \<in> set (ss @ [s])" "b \<in> set (ss @ [s])" "succeeded a" "running b" for a b
    using that D(5) ns idle by auto
  have rows: "row_ok (ss @ [s]) q" if q: "q \<in> set rs" for q
  proof -
    have "rt_status q = RpExecuting" if "st_transaction_id s = rt_id q"
      using unique_byD [OF D(1) q row(1)] that row by simp
    with D(7) [OF q] show ?thesis unfolding row_ok_def by fastforce
  qed
  show ?thesis unfolding repair_table_inv_def using D(1,6) u ur us sep rows row by fastforce
qed

text \<open>A running step finishes.\<close>

lemma finish_step_inv:
  assumes inv: "repair_table_inv rs ss"
    and f: "\<And>s. st_id (f s) = st_id s \<and> step_key (f s) = step_key s \<and> \<not> running (f s)"
  shows "repair_table_inv rs (upd_where (\<lambda>s. st_id s = k \<and> st_status s = StRunning) f ss)"
proof -
  let ?P = "\<lambda>s. st_id s = k \<and> st_status s = StRunning" and ?ss = "upd_where (\<lambda>s. st_id s = k \<and> st_status s = StRunning) f ss"
  note D = repair_table_invD [OF inv]
  have src: "(t \<in> set ss \<and> \<not> ?P t) \<or> (\<exists>s \<in> set ss. ?P s \<and> t = f s)" if "t \<in> set ?ss" for t
    using that by (cases rule: in_upd_whereE) auto
  have run: "t \<in> set ss" if "t \<in> set ?ss" "running t" for t
    using src [OF that(1)] that(2) f by auto
  have u: "unique_by st_id ?ss" using D(2) f by (simp add: unique_by_upd_where)
  have ur: "unique_where running step_key ?ss"
    using u by (rule unique_whereI) (use run unique_whereD [OF D(3)] in blast)
  have suc: "\<exists>s \<in> set ss. step_key s = step_key t \<and> st_id s = st_id t \<and> (succeeded s \<or> ?P s \<and> running s)"
    if "t \<in> set ?ss" "succeeded t" for t
    using src [OF that(1)] that(2) f by (auto simp: running_def)
  have one: "s = t"
    if s: "s \<in> set ss" "succeeded s \<or> ?P s \<and> running s" and t: "t \<in> set ss" "succeeded t \<or> ?P t \<and> running t"
      and eq: "step_key s = step_key t" for s t
    using s t eq D(5) [of s t] D(5) [of t s] unique_whereD [OF D(3), of s t] unique_whereD [OF D(4), of s t] by metis
  have us: "unique_where succeeded step_key ?ss"
    using u
  proof (rule unique_whereI)
    fix s t assume s: "s \<in> set ?ss" "succeeded s" and t: "t \<in> set ?ss" "succeeded t" and eq: "step_key s = step_key t"
    obtain s0 where s0: "s0 \<in> set ss" "step_key s0 = step_key s" "st_id s0 = st_id s" "succeeded s0 \<or> ?P s0 \<and> running s0"
      using suc [OF s] by blast
    obtain t0 where t0: "t0 \<in> set ss" "step_key t0 = step_key t" "st_id t0 = st_id t" "succeeded t0 \<or> ?P t0 \<and> running t0"
      using suc [OF t] by blast
    from one [OF s0(1,4) t0(1,4)] eq s0 t0 have "st_id s = st_id t" by simp
    then show "s = t" by (rule unique_byD [OF u s(1) t(1)])
  qed
  have sep: "step_key s \<noteq> step_key t" if s: "s \<in> set ?ss" "succeeded s" and t: "t \<in> set ?ss" "running t" for s t
  proof
    assume eq: "step_key s = step_key t"
    obtain s0 where s0: "s0 \<in> set ss" "step_key s0 = step_key s" "succeeded s0 \<or> ?P s0 \<and> running s0"
      using suc [OF s] by blast
    from src [OF t(1)] t(2) f have t0: "t \<in> set ss" "\<not> ?P t" by auto
    show False
    proof (cases "succeeded s0")
      case True
      with D(5) [OF s0(1) t0(1)] t(2) s0(2) eq show False by simp
    next
      case False
      with s0(3) have "?P s0" "running s0" by auto
      with unique_whereD [OF D(3) s0(1) t0(1)] t(2) s0(2) eq t0(2) show False by simp
    qed
  qed
  have fk: "\<exists>r \<in> set rs. rt_id r = st_transaction_id t" if "t \<in> set ?ss" for t
    using src [OF that] D(6) f by (metis prod.inject step_key_def)
  have keep: "\<exists>t \<in> set ?ss. succeeded t \<and> step_key t = step_key s" if "s \<in> set ss" "succeeded s" for s
    using in_upd_where_kept [of s ss ?P f] that by (auto simp: succeeded_def)
  have rows: "row_ok ?ss r" if r: "r \<in> set rs" for r
    unfolding row_ok_def
  proof (intro conjI impI ballI)
    note ok = D(7) [OF r, unfolded row_ok_def]
    assume "\<exists>s \<in> set ?ss. running s \<and> st_transaction_id s = rt_id r"
    with run ok show "rt_status r \<in> {RpExecuting, RpFailed}" by blast
  next
    fix a assume "rt_status r = RpSucceeded" "a \<in> set (rt_authorized_actions r)"
    with D(7) [OF r] obtain s where "s \<in> set ss" "succeeded s" "step_key s = (rt_id r, a)"
      unfolding row_ok_def by blast
    with keep [of s] show "\<exists>s \<in> set ?ss. succeeded s \<and> step_key s = (rt_id r, a)" by metis
  qed (use D(7) [OF r] in \<open>simp_all add: row_ok_def\<close>)
  show ?thesis unfolding repair_table_inv_def using D(1) u ur us sep fk rows by blast
qed

section \<open>The operations keep it\<close>

lemma update_repair_Inr [guard_simps]:
  "(update_repair i P f d = Inr d') = (list_ex (\<lambda>r. rt_id r = i \<and> P r) (db_repairs d)
     \<and> d' = d\<lparr>db_repairs := upd_where (\<lambda>r. rt_id r = i \<and> P r) f (db_repairs d)\<rparr>)"
  by (auto simp: update_repair_def)

lemma require_repair_Inr [guard_simps]: "(require_repair i d = Inr r) = (find_repair i d = Some r)"
  by (auto simp: require_repair_def split: option.splits)

lemma read_repair_InrD: "read_repair i d = Inr (d', v) \<Longrightarrow> d' = d"
  by (auto simp: read_repair_def res_bind_Inr)

lemma find_repairD: "find_repair i d = Some r \<Longrightarrow> r \<in> set (db_repairs d) \<and> rt_id r = i"
  by (auto simp: find_repair_def dest: find_SomeD)

text \<open>A row update that leaves the authorization and the plan alone.\<close>

lemma status_update_inv:
  assumes inv: "repair_inv d" and d': "d' = d\<lparr>db_repairs := upd_where (\<lambda>r. rt_id r = i \<and> P r) f (db_repairs d)\<rparr>"
    and f: "\<And>r. rt_id (f r) = rt_id r \<and> rt_plan (f r) = rt_plan r \<and> rt_authorized_actions (f r) = rt_authorized_actions r"
    and st: "\<And>r. r \<in> set (db_repairs d) \<Longrightarrow> rt_id r = i \<Longrightarrow> P r \<Longrightarrow> rt_status r \<noteq> RpPlanned \<and> rt_status r \<noteq> RpSucceeded \<and>
        (rt_status (f r) \<in> {RpExecuting, RpFailed} \<or>
         rt_status (f r) = RpAuthorized \<and> \<not> has_running_step i d \<or>
         rt_status (f r) = RpSucceeded \<and> \<not> has_running_step i d
           \<and> (\<forall>a \<in> set (rt_authorized_actions r). action_succeeded i d a))"
  shows "repair_inv d'"
proof -
  from inv have ti: "repair_table_inv (db_repairs d) (db_steps d)" by (simp add: repair_inv_def)
  have "repair_table_inv (upd_where (\<lambda>r. rt_id r = i \<and> P r) f (db_repairs d)) (db_steps d)"
  proof (rule update_row_inv [OF ti])
    show "rt_id (f r) = rt_id r" for r using f by blast
    fix r assume r: "r \<in> set (db_repairs d)" "rt_id r = i \<and> P r"
    note ok = repair_table_invD(7) [OF ti r(1)]
    from r st have "rt_status r \<noteq> RpPlanned" by blast
    with ok have auth: "authorization_ok (rt_plan r) (rt_authorized_actions r)"
      by (simp add: row_ok_def)
    have run: "has_running_step i d" if "\<exists>s \<in> set (db_steps d). running s \<and> st_transaction_id s = i"
      using that by (auto simp: has_running_step_def running_def list_ex_iff)
    have suc: "\<exists>s \<in> set (db_steps d). succeeded s \<and> step_key s = (i, a)" if "action_succeeded i d a" for a
      using that by (auto simp: action_succeeded_def succeeded_def step_key_def list_ex_iff)
    show "row_ok (db_steps d) (f r)"
      unfolding row_ok_def using st [OF r(1)] r(2) f [of r] auth run suc by auto
  qed
  then show ?thesis by (simp add: repair_inv_def d')
qed

lemma create_repair_inv:
  assumes "create_repair_transaction now uuid input d = Inr (d', v)" "repair_inv d"
  shows "repair_inv d'"
proof -
  from assms(1) obtain row where row: "insert_repair row d = Inr d'" "rt_status row = RpPlanned"
    unfolding create_repair_transaction_def
    by (auto simp: res_bind_Inr find_case_Inr Let_def split: option.splits prod.splits)
  show ?thesis
    using row assms(2) insert_row_inv [of "db_repairs d" "db_steps d" row]
    by (auto simp: insert_repair_def repair_inv_def list_ex_iff split: if_splits)
qed

lemma require_string_array_InrD:
  assumes "require_string_array xs f = Inr ys"
  shows "ys \<noteq> []" "a \<in> set ys \<Longrightarrow> js_trim a = a"
proof -
  from assms have ne: "xs \<noteq> []" and m: "map_res (\<lambda>x. require_string x f 256) xs = Inr ys"
    by (auto simp: require_string_array_def res_bind_Inr split: if_splits)
  have *: "length ys = length xs \<and> (\<forall>a \<in> set ys. js_trim a = a)"
    using m by (induction xs arbitrary: ys) (fastforce simp: res_bind_Inr require_string_Inr)+
  from * ne show "ys \<noteq> []" by auto
  from * show "a \<in> set ys \<Longrightarrow> js_trim a = a" by blast
qed

lemma authorize_repair_inv:
  assumes run: "authorize_repair_transaction now i input d = Inr (d', v)" and inv: "repair_inv d"
  shows "repair_inv d'"
proof -
  from run obtain t row requested who where
    row: "find_repair t d = Some row" "rt_status row = RpPlanned \<or> rt_status row = RpAuthorized" and
    req: "require_string_array (au_actions input) ''actions'' = Inr requested"
      "list_all (\<lambda>a. a \<in> set (pn_permittedActions (rt_plan row))) requested"
      "filter (\<lambda>a. a \<in> set requested) (pn_actionSequence (rt_plan row)) = requested" and
    d': "d' = d\<lparr>db_repairs := upd_where (\<lambda>r. rt_id r = t \<and> rt_status r = rt_status row)
        (authorize_row now requested who) (db_repairs d)\<rparr>"
    unfolding authorize_repair_transaction_def Let_def
    by (auto simp: res_bind_Inr ensure_Inr require_repair_Inr update_repair_Inr dest: read_repair_InrD)
  have ok: "authorization_ok (rt_plan row) requested"
    using req require_string_array_InrD [OF req(1)] by (auto simp: authorization_ok_def list_all_iff)
  from inv have ti: "repair_table_inv (db_repairs d) (db_steps d)" by (simp add: repair_inv_def)
  note D = repair_table_invD [OF ti] and rowD = find_repairD [OF row(1)]
  have "repair_table_inv (upd_where (\<lambda>r. rt_id r = t \<and> rt_status r = rt_status row)
        (authorize_row now requested who) (db_repairs d)) (db_steps d)"
  proof (rule update_row_inv [OF ti])
    show "rt_id (authorize_row now requested who r) = rt_id r" for r by (simp add: authorize_row_def)
    fix r assume r: "r \<in> set (db_repairs d)" "rt_id r = t \<and> rt_status r = rt_status row"
    have "r = row" by (rule unique_byD [OF D(1) r(1)]) (use rowD r(2) in simp_all)
    with D(7) [OF r(1)] row(2) have "\<not> (\<exists>s \<in> set (db_steps d). running s \<and> st_transaction_id s = rt_id r)"
      by (auto simp: row_ok_def)
    with \<open>r = row\<close> ok show "row_ok (db_steps d) (authorize_row now requested who r)"
      by (auto simp: row_ok_def authorize_row_def)
  qed
  then show ?thesis by (simp add: repair_inv_def d')
qed

lemma top_by_filter_None: "top_by f (filter P xs) = None \<Longrightarrow> x \<in> set xs \<Longrightarrow> \<not> P x"
  by (auto simp: filter_empty_conv)

lemma start_repair_step_cases:
  assumes "start_repair_step now i action request d = Inr (d', s)"
  obtains
    (again) t where "d' = d" "s \<in> set (db_steps d)" "step_key s = (t, action)" "succeeded s \<or> running s"
      "require_string i ''repairTransactionId'' 256 = Inr t"
  | (new) t row where "find_repair t d = Some row" "rt_status row = RpAuthorized \<or> rt_status row = RpExecuting"
      "action \<in> set (rt_authorized_actions row)"
      "\<And>x. x \<in> set (db_steps d) \<Longrightarrow> step_key x = (t, action) \<Longrightarrow> \<not> running x \<and> \<not> succeeded x"
      "running s" "step_key s = (t, js_trim action)" "\<And>x. x \<in> set (db_steps d) \<Longrightarrow> st_id x < st_id s"
      "d' = d\<lparr>db_repairs := upd_where (\<lambda>r. rt_id r = t \<and> (rt_status r = RpAuthorized \<or> rt_status r = RpExecuting))
          (executing_row now) (db_repairs d), db_steps := db_steps d @ [s]\<rparr>"
      "require_string i ''repairTransactionId'' 256 = Inr t"
proof -
  from assms obtain t row where rq: "require_string i ''repairTransactionId'' 256 = Inr t"
    and row: "find_repair t d = Some row"
      "rt_status row = RpAuthorized \<or> rt_status row = RpExecuting" "action \<in> set (rt_authorized_actions row)"
    and body: "(case step_where t action StSucceeded d of
       Some s \<Rightarrow> Inr (d, s)
     | None \<Rightarrow>
     (case step_where t action StRunning d of
       Some s \<Rightarrow> Inr (d, s)
     | None \<Rightarrow>
     res_bind (update_repair t (\<lambda>r. rt_status r = RpAuthorized \<or> rt_status r = RpExecuting)
        (executing_row now) d) (\<lambda>d1.
     res_bind (require_string (Some action) ''action'' 256) (\<lambda>act.
     let step = \<lparr>st_id = max_of (\<lambda>_. True) st_id (db_steps d1) + 1, st_transaction_id = t,
           st_action = act, st_status = StRunning,
           st_attempt = max_of (\<lambda>s. st_transaction_id s = t \<and> st_action s = action) st_attempt (db_steps d1) + 1,
           st_request = request, st_result = None, st_failure_category = None, st_retryable = None,
           st_started_at = now, st_completed_at = None\<rparr>
     in Inr (d1\<lparr>db_steps := db_steps d1 @ [step]\<rparr>, step))))) = Inr (d', s)"
    unfolding start_repair_step_def res_bind_Inr [of "require_string x ''repairTransactionId'' n" for x n]
      res_bind_Inr [of "require_repair x y" for x y] res_bind_Inr [of "ensure x y" for x y]
      require_repair_Inr ensure_Inr by blast
  show thesis
  proof (cases "step_where t action StSucceeded d")
    case (Some x)
    with rq body top_by_Some [OF Some [unfolded step_where_def]] show ?thesis
      by (intro again [of t]) (auto simp: step_key_def succeeded_def)
  next
    case none1: None
    show ?thesis
    proof (cases "step_where t action StRunning d")
      case (Some x)
      with rq none1 body top_by_Some [OF Some [unfolded step_where_def]] show ?thesis
        by (intro again [of t]) (auto simp: step_key_def running_def)
    next
      case none2: None
      have idle: "\<not> running x \<and> \<not> succeeded x" if "x \<in> set (db_steps d)" "step_key x = (t, action)" for x
        using top_by_filter_None [OF none1 [unfolded step_where_def] that(1)]
          top_by_filter_None [OF none2 [unfolded step_where_def] that(1)] that(2)
        by (auto simp: step_key_def running_def succeeded_def)
      have less: "st_id x < Suc (max_of (\<lambda>_. True) st_id (db_steps d))" if "x \<in> set (db_steps d)" for x
        using max_of_ge [of x "db_steps d" "\<lambda>_. True" st_id] that by simp
      from rq none1 none2 body show ?thesis
        by (intro new [of t row, OF row idle])
           (auto simp: res_bind_Inr update_repair_Inr require_string_Inr Let_def running_def step_key_def less)
    qed
  qed
qed

end
