(* ===== verification/Repair_Machine.thy ===== *)
theory Repair_Machine
  imports Repair_Properties
begin

text \<open>
  The repair transaction as a step relation: every operation of \<open>Store_Repair\<close>, with any arguments,
  is one move. The moves keep the invariant of \<open>Repair_Properties\<close>, take each transaction along the
  graph \<open>repair_edge\<close> of its status, and leave its plan alone.
\<close>

section \<open>The remaining operations keep the invariant\<close>

lemma find_repair_upd:
  assumes "find_repair t d = Some row" "P row"
  shows "f row \<in> set (upd_where (\<lambda>r. rt_id r = t \<and> P r) f (db_repairs d))"
  using find_repairD [OF assms(1)] assms(2) by (intro in_upd_where_changed) auto

lemma start_repair_inv:
  assumes run: "start_repair_step now i action request d = Inr (d', s)" and inv: "repair_inv d"
  shows "repair_inv d'"
  using run
proof (cases rule: start_repair_step_cases)
  case (again t)
  with inv show ?thesis by simp
next
  case (new t row)
  let ?P = "\<lambda>r. rt_status r = RpAuthorized \<or> rt_status r = RpExecuting"
  let ?d1 = "d\<lparr>db_repairs := upd_where (\<lambda>r. rt_id r = t \<and> ?P r) (executing_row now) (db_repairs d)\<rparr>"
  have "repair_inv ?d1"
    by (rule status_update_inv [OF inv refl]) (auto simp: executing_row_def)
  then have ti: "repair_table_inv (db_repairs ?d1) (db_steps d)" by (simp add: repair_inv_def)
  from inv have "row_ok (db_steps d) row"
    using find_repairD [OF new(1)] by (auto simp: repair_inv_def dest: repair_table_invD(7))
  with new(2,3) have "js_trim action = action" by (auto simp: row_ok_def authorization_ok_def)
  with new(6) have key: "step_key s = (t, action)" by simp
  have "repair_table_inv (db_repairs ?d1) (db_steps d @ [s])"
  proof (rule append_step_inv [OF ti new(5)])
    show "st_id x \<noteq> st_id s" if "x \<in> set (db_steps d)" for x using new(7) [OF that] by simp
    show "\<not> running x \<and> \<not> succeeded x" if "x \<in> set (db_steps d)" "step_key x = step_key s" for x
      using new(4) that key by simp
    show "executing_row now row \<in> set (db_repairs ?d1)"
      using find_repair_upd [OF new(1), of ?P] new(2) by simp
    show "rt_id (executing_row now row) = st_transaction_id s"
      using key find_repairD [OF new(1)] by (simp add: executing_row_def step_key_def)
    show "rt_status (executing_row now row) = RpExecuting" by (simp add: executing_row_def)
  qed
  then show ?thesis using new(8) by (simp add: repair_inv_def)
qed

lemma finish_inv:
  assumes inv: "repair_inv d"
    and f: "\<And>s. st_id (f s) = st_id s \<and> step_key (f s) = step_key s \<and> \<not> running (f s)"
    and d1: "d1 = d\<lparr>db_steps := upd_where (\<lambda>s. st_id s = k \<and> st_status s = StRunning) f (db_steps d)\<rparr>"
  shows "repair_inv d1"
  using inv f by (simp add: repair_inv_def d1 finish_step_inv)

lemma complete_step_inv:
  assumes run: "complete_repair_step now k result d = Inr (d', s)" and inv: "repair_inv d"
  shows "repair_inv d'"
proof (cases "d' = d")
  case False
  let ?d1 = "d\<lparr>db_steps := upd_where (\<lambda>x. st_id x = k \<and> st_status x = StRunning) (succeed_step now result) (db_steps d)\<rparr>"
  from run False obtain t where
    d': "update_repair t (\<lambda>r. rt_status r = RpExecuting) (touch_row now) ?d1 = Inr d'"
    unfolding complete_repair_step_def by (auto simp: res_bind_Inr split: option.splits if_splits)
  have "repair_inv ?d1"
    by (rule finish_inv [OF inv _ refl]) (simp add: succeed_step_def step_key_def running_def)
  then show ?thesis
    by (rule status_update_inv [OF _ conjunct2 [OF d' [unfolded update_repair_Inr]]]) (auto simp: touch_row_def)
qed (use inv in simp)

lemma fail_step_inv:
  assumes run: "fail_repair_step now k err d = Inr (d', s)" and inv: "repair_inv d"
  shows "repair_inv d'"
proof -
  from run obtain t c where
    d': "update_repair t (\<lambda>r. rt_status r = RpExecuting) (fail_row now c)
          (d\<lparr>db_steps := upd_where (\<lambda>x. st_id x = k \<and> st_status x = StRunning) (fail_step now c err) (db_steps d)\<rparr>) = Inr d'"
    unfolding fail_repair_step_def by (auto simp: res_bind_Inr split: option.splits if_splits)
  let ?d1 = "d\<lparr>db_steps := upd_where (\<lambda>x. st_id x = k \<and> st_status x = StRunning) (fail_step now c err) (db_steps d)\<rparr>"
  have "repair_inv ?d1"
    by (rule finish_inv [OF inv _ refl]) (simp add: fail_step_def step_key_def running_def)
  then show ?thesis
    by (rule status_update_inv [OF _ conjunct2 [OF d' [unfolded update_repair_Inr]]]) (auto simp: fail_row_def)
qed

lemma fail_transaction_inv:
  assumes run: "fail_repair_transaction now i err d = Inr (d', v)" and inv: "repair_inv d"
  shows "repair_inv d'"
proof -
  from run obtain t c and row :: repair_transaction where "rt_status row = RpAuthorized \<or> rt_status row = RpExecuting"
    and d': "d' = d\<lparr>db_repairs := upd_where (\<lambda>r. rt_id r = t \<and> rt_status r = rt_status row) (fail_row now c) (db_repairs d)\<rparr>"
    unfolding fail_repair_transaction_def res_bind_Inr ensure_Inr update_repair_Inr
    by (blast dest!: read_repair_InrD)
  then show ?thesis by (intro status_update_inv [OF inv d']) (auto simp: fail_row_def)
qed

lemma resume_transaction_inv:
  assumes run: "resume_repair_transaction now i d = Inr (d', v)" and inv: "repair_inv d"
  shows "repair_inv d'"
proof -
  from run obtain t where idle: "\<not> has_running_step t d"
    and d': "d' = d\<lparr>db_repairs := upd_where (\<lambda>r. rt_id r = t \<and> rt_status r = RpFailed) (resume_row now) (db_repairs d)\<rparr>"
    unfolding resume_repair_transaction_def
    by (auto simp: res_bind_Inr ensure_Inr update_repair_Inr dest!: read_repair_InrD)
  show ?thesis by (rule status_update_inv [OF inv d']) (use idle in \<open>auto simp: resume_row_def\<close>)
qed

lemma complete_transaction_cases:
  assumes "complete_repair_transaction now i d = Inr (d', v)"
  obtains (same) "d' = d"
  | (now_done) t row where "find_repair t d = Some row" "\<not> has_running_step t d"
      "\<forall>a \<in> set (rt_authorized_actions row). action_succeeded t d a" "rt_status row = RpExecuting"
      "d' = d\<lparr>db_repairs := upd_where (\<lambda>r. rt_id r = t \<and> rt_status r = RpExecuting) (succeed_row now) (db_repairs d)\<rparr>"
proof -
  from assms obtain t row where row: "find_repair t d = Some row"
    and body: "(if rt_status row = RpSucceeded then read_repair t d
     else
     res_bind (ensure (rt_status row = RpExecuting) (JsError ''Repair transaction cannot succeed'')) (\<lambda>_.
     res_bind (ensure (\<not> has_running_step t d) (JsError ''Repair transaction has incomplete steps'')) (\<lambda>_.
     res_bind (ensure (list_all (action_succeeded t d) (rt_authorized_actions row))
        (JsError ''Repair transaction has actions without successful attempts'')) (\<lambda>_.
     res_bind (update_repair t (\<lambda>r. rt_status r = RpExecuting) (succeed_row now) d) (\<lambda>d1.
       read_repair t d1))))) = Inr (d', v)"
    unfolding complete_repair_transaction_def res_bind_Inr [of "require_string x ''repairTransactionId'' n" for x n]
      res_bind_Inr [of "require_repair x y" for x y] require_repair_Inr by blast
  show thesis
  proof (cases "rt_status row = RpSucceeded")
    case True
    with body show ?thesis by (intro same) (auto dest: read_repair_InrD)
  next
    case False
    with body show ?thesis
      by (intro now_done [OF row])
         (auto simp: res_bind_Inr ensure_Inr update_repair_Inr list_all_iff dest!: read_repair_InrD)
  qed
qed

lemma complete_transaction_inv:
  assumes run: "complete_repair_transaction now i d = Inr (d', v)" and inv: "repair_inv d"
  shows "repair_inv d'"
  using run
proof (cases rule: complete_transaction_cases)
  case (now_done t row)
  have "r = row" if "r \<in> set (db_repairs d)" "rt_id r = t" for r
    using inv that find_repairD [OF now_done(1)] unique_byD [of rt_id "db_repairs d" r row]
    by (auto simp: repair_inv_def dest: repair_table_invD(1))
  then show ?thesis
    by (intro status_update_inv [OF inv now_done(5)]) (use now_done in \<open>auto simp: succeed_row_def\<close>)
qed (use inv in simp)

section \<open>The step relation\<close>

text \<open>
  One move is one operation with any arguments that returns, or any operation of the store that
  leaves the two tables alone. An operation that throws is rolled back and is no move.
\<close>

inductive repair_move :: "db \<Rightarrow> db \<Rightarrow> bool" where
  create: "create_repair_transaction now uuid input d = Inr (d', v) \<Longrightarrow> repair_move d d'"
| authorize: "authorize_repair_transaction now i auth d = Inr (d', v) \<Longrightarrow> repair_move d d'"
| start: "start_repair_step now i action request d = Inr (d', s) \<Longrightarrow> repair_move d d'"
| complete_step: "complete_repair_step now k result d = Inr (d', s) \<Longrightarrow> repair_move d d'"
| fail_step: "fail_repair_step now k err d = Inr (d', s) \<Longrightarrow> repair_move d d'"
| fail: "fail_repair_transaction now i err d = Inr (d', v) \<Longrightarrow> repair_move d d'"
| resume: "resume_repair_transaction now i d = Inr (d', v) \<Longrightarrow> repair_move d d'"
| complete: "complete_repair_transaction now i d = Inr (d', v) \<Longrightarrow> repair_move d d'"
| other: "db_repairs d' = db_repairs d \<Longrightarrow> db_steps d' = db_steps d \<Longrightarrow> repair_move d d'"

abbreviation repair_moves :: "db \<Rightarrow> db \<Rightarrow> bool" where
  "repair_moves \<equiv> repair_move\<^sup>*\<^sup>*"

lemma repair_move_inv: "repair_move d d' \<Longrightarrow> repair_inv d \<Longrightarrow> repair_inv d'"
  by (induction rule: repair_move.induct)
     ((erule (1) create_repair_inv authorize_repair_inv start_repair_inv complete_step_inv fail_step_inv
        fail_transaction_inv resume_transaction_inv complete_transaction_inv)+,
      simp add: repair_inv_def)

lemma repair_moves_inv: "repair_moves d d' \<Longrightarrow> repair_inv d \<Longrightarrow> repair_inv d'"
  by (induction rule: rtranclp_induct) (auto intro: repair_move_inv)

lemma repair_inv_empty: "repair_inv empty_db"
  by (simp add: repair_inv_def repair_table_inv_def empty_db_def unique_by_def unique_where_def)

text \<open>The graph of a transaction's status.\<close>

fun repair_edge :: "repair_status \<Rightarrow> repair_status \<Rightarrow> bool" where
  "repair_edge RpPlanned t = (t = RpAuthorized)"
| "repair_edge RpAuthorized t = (t = RpAuthorized \<or> t = RpExecuting \<or> t = RpFailed)"
| "repair_edge RpExecuting t = (t = RpExecuting \<or> t = RpFailed \<or> t = RpSucceeded)"
| "repair_edge RpFailed t = (t = RpAuthorized)"
| "repair_edge RpSucceeded t = False"

definition same_transaction :: "repair_transaction \<Rightarrow> repair_transaction \<Rightarrow> bool" where
  "same_transaction r r' \<longleftrightarrow> rt_id r' = rt_id r \<and> rt_plan_key r' = rt_plan_key r
     \<and> rt_library_item_id r' = rt_library_item_id r \<and> rt_info_hash r' = rt_info_hash r
     \<and> rt_file_index r' = rt_file_index r \<and> rt_release_key r' = rt_release_key r \<and> rt_scope r' = rt_scope r
     \<and> rt_expected_binding_version r' = rt_expected_binding_version r \<and> rt_plan r' = rt_plan r
     \<and> rt_created_at r' = rt_created_at r"

definition tx_step :: "repair_transaction \<Rightarrow> repair_transaction \<Rightarrow> bool" where
  "tx_step r r' \<longleftrightarrow> r' = r \<or> same_transaction r r' \<and> repair_edge (rt_status r) (rt_status r')"

lemmas row_updates = authorize_row_def executing_row_def touch_row_def fail_row_def resume_row_def succeed_row_def

text \<open>What a move does to the two tables.\<close>

definition update_shape :: "string \<Rightarrow> (repair_transaction \<Rightarrow> bool) \<Rightarrow> (repair_transaction \<Rightarrow> repair_transaction) \<Rightarrow> db \<Rightarrow> db \<Rightarrow> bool" where
  "update_shape t P f d d' \<longleftrightarrow> db_repairs d' = upd_where (\<lambda>r. rt_id r = t \<and> P r) f (db_repairs d)
     \<and> (\<forall>r. P r \<longrightarrow> tx_step r (f r)) \<and> (\<forall>r. P r \<longrightarrow> rt_status r = RpFailed \<longrightarrow> \<not> has_running_step t d)"

definition finish_shape :: "nat \<Rightarrow> (repair_step \<Rightarrow> repair_step) \<Rightarrow> db \<Rightarrow> db \<Rightarrow> bool" where
  "finish_shape k g d d' \<longleftrightarrow> db_steps d' = upd_where (\<lambda>x. st_id x = k \<and> st_status x = StRunning) g (db_steps d)
     \<and> (\<exists>s f. find_step k d = Some s \<and> update_shape (st_transaction_id s) (\<lambda>r. rt_status r = RpExecuting) f d d'
          \<and> list_ex (\<lambda>r. rt_id r = st_transaction_id s \<and> rt_status r = RpExecuting) (db_repairs d))"

lemma finish_shapeI:
  assumes "find_step k d = Some s"
    and d': "update_repair (st_transaction_id s) (\<lambda>r. rt_status r = RpExecuting) f
        (d\<lparr>db_steps := upd_where (\<lambda>x. st_id x = k \<and> st_status x = StRunning) g (db_steps d)\<rparr>) = Inr d'"
    and f: "\<And>r. rt_status r = RpExecuting \<Longrightarrow> tx_step r (f r)"
  shows "finish_shape k g d d'"
proof -
  let ?P = "\<lambda>r. rt_id r = st_transaction_id s \<and> rt_status r = RpExecuting"
  from d' have ex: "list_ex ?P (db_repairs d)" and rs: "db_repairs d' = upd_where ?P f (db_repairs d)"
    and ss: "db_steps d' = upd_where (\<lambda>x. st_id x = k \<and> st_status x = StRunning) g (db_steps d)"
    unfolding update_repair_Inr by simp_all
  have "update_shape (st_transaction_id s) (\<lambda>r. rt_status r = RpExecuting) f d d'"
    using rs f by (simp add: update_shape_def)
  with assms(1) ex ss show ?thesis unfolding finish_shape_def by blast
qed

lemma repair_move_shape:
  assumes "repair_move d d'"
  shows "(db_repairs d' = db_repairs d \<and> db_steps d' = db_steps d)
    \<or> (\<exists>row. db_repairs d' = db_repairs d @ [row] \<and> db_steps d' = db_steps d)
    \<or> (\<exists>t P f. update_shape t P f d d' \<and> (\<exists>ss. db_steps d' = db_steps d @ ss))
    \<or> (\<exists>k g. finish_shape k g d d')"
    (is "?S d d' \<or> ?I d d' \<or> ?U d d' \<or> ?F d d'")
  using assms
proof (induction rule: repair_move.induct)
  case (create now uuid input d d' v)
  then obtain row where "insert_repair row d = Inr d'"
    unfolding create_repair_transaction_def
    by (auto simp: res_bind_Inr find_case_Inr Let_def split: option.splits prod.splits)
  then show ?case by (auto simp: insert_repair_def split: if_splits)
next
  case (authorize now i auth d d' v)
  then obtain t who requested and row :: repair_transaction where st: "rt_status row = RpPlanned \<or> rt_status row = RpAuthorized"
    and d': "d' = d\<lparr>db_repairs := upd_where (\<lambda>r. rt_id r = t \<and> rt_status r = rt_status row)
        (authorize_row now requested who) (db_repairs d)\<rparr>"
    unfolding authorize_repair_transaction_def res_bind_Inr ensure_Inr update_repair_Inr Let_def
    by (blast dest!: read_repair_InrD)
  have "update_shape t (\<lambda>r. rt_status r = rt_status row) (authorize_row now requested who) d d'"
    using st by (auto simp: update_shape_def d' tx_step_def same_transaction_def row_updates)
  then show ?case using d' by auto
next
  case (start now i action request d d' s)
  then show ?case
  proof (cases rule: start_repair_step_cases)
    case (new t row)
    have "update_shape t (\<lambda>r. rt_status r = RpAuthorized \<or> rt_status r = RpExecuting) (executing_row now) d d'"
      using new(8) by (auto simp: update_shape_def tx_step_def same_transaction_def row_updates)
    then show ?thesis using new(8) by auto
  qed simp
next
  case (complete_step now k result d d' s)
  show ?case
  proof (cases "d' = d")
    case False
    with complete_step obtain s0 where s0: "find_step k d = Some s0"
      and "update_repair (st_transaction_id s0) (\<lambda>r. rt_status r = RpExecuting) (touch_row now)
        (d\<lparr>db_steps := upd_where (\<lambda>x. st_id x = k \<and> st_status x = StRunning) (succeed_step now result) (db_steps d)\<rparr>) = Inr d'"
      unfolding complete_repair_step_def by (auto simp: res_bind_Inr split: option.splits if_splits)
    then have "finish_shape k (succeed_step now result) d d'"
      by (rule finish_shapeI) (simp add: tx_step_def same_transaction_def row_updates)
    then show ?thesis by blast
  qed simp
next
  case (fail_step now k err d d' s)
  then obtain s0 c where s0: "find_step k d = Some s0"
    and "update_repair (st_transaction_id s0) (\<lambda>r. rt_status r = RpExecuting) (fail_row now c)
        (d\<lparr>db_steps := upd_where (\<lambda>x. st_id x = k \<and> st_status x = StRunning) (Store_Repair.fail_step now c err) (db_steps d)\<rparr>) = Inr d'"
    unfolding fail_repair_step_def by (auto simp: res_bind_Inr split: option.splits if_splits)
  then have "finish_shape k (Store_Repair.fail_step now c err) d d'"
    by (rule finish_shapeI) (simp add: tx_step_def same_transaction_def row_updates)
  then show ?case by blast
next
  case (fail now i err d d' v)
  then obtain t c and row :: repair_transaction where st: "rt_status row = RpAuthorized \<or> rt_status row = RpExecuting"
    and d': "d' = d\<lparr>db_repairs := upd_where (\<lambda>r. rt_id r = t \<and> rt_status r = rt_status row) (fail_row now c) (db_repairs d)\<rparr>"
    unfolding fail_repair_transaction_def res_bind_Inr ensure_Inr update_repair_Inr
    by (blast dest!: read_repair_InrD)
  have "update_shape t (\<lambda>r. rt_status r = rt_status row) (fail_row now c) d d'"
    using st by (auto simp: update_shape_def d' tx_step_def same_transaction_def row_updates)
  then show ?case using d' by auto
next
  case (resume now i d d' v)
  then obtain t where idle: "\<not> has_running_step t d"
    and d': "d' = d\<lparr>db_repairs := upd_where (\<lambda>r. rt_id r = t \<and> rt_status r = RpFailed) (resume_row now) (db_repairs d)\<rparr>"
    unfolding resume_repair_transaction_def res_bind_Inr ensure_Inr update_repair_Inr
    by (blast dest!: read_repair_InrD)
  have "update_shape t (\<lambda>r. rt_status r = RpFailed) (resume_row now) d d'"
    using idle by (auto simp: update_shape_def d' tx_step_def same_transaction_def row_updates)
  then show ?case using d' by auto
next
  case (complete now i d d' v)
  then show ?case
  proof (cases rule: complete_transaction_cases)
    case (now_done t row)
    have "update_shape t (\<lambda>r. rt_status r = RpExecuting) (succeed_row now) d d'"
      using now_done(5) by (auto simp: update_shape_def tx_step_def same_transaction_def row_updates)
    then show ?thesis using now_done(5) by auto
  qed simp
qed simp

end
