(* ===== verification/Repair_Safety.thy ===== *)
theory Repair_Safety
  imports Repair_Machine
begin

text \<open>
  The properties of repair transactions, over all sequences of moves of \<open>Repair_Machine\<close>, and an
  executable driver on which the concrete runs are evaluated.
\<close>

section \<open>What a move preserves\<close>

lemma has_running_stepI: "s \<in> set (db_steps d) \<Longrightarrow> running s \<Longrightarrow> has_running_step (st_transaction_id s) d"
  by (auto simp: has_running_step_def running_def list_ex_iff)

lemma update_shape_row:
  assumes u: "update_shape t P f d d'" and r: "r \<in> set (db_repairs d)"
  shows "\<exists>r' \<in> set (db_repairs d'). tx_step r r'"
proof -
  from u have rs: "db_repairs d' = upd_where (\<lambda>r. rt_id r = t \<and> P r) f (db_repairs d)"
    and f: "\<And>r. P r \<Longrightarrow> tx_step r (f r)" by (simp_all add: update_shape_def)
  show ?thesis
  proof (cases "rt_id r = t \<and> P r")
    case True
    then have "f r \<in> set (db_repairs d')" unfolding rs by (intro in_upd_where_changed r)
    with f True show ?thesis by blast
  next
    case False
    then have "r \<in> set (db_repairs d')" unfolding rs by (intro in_upd_where_kept r)
    then show ?thesis by (auto simp: tx_step_def)
  qed
qed

lemma repair_move_row:
  assumes "repair_move d d'" "r \<in> set (db_repairs d)"
  shows "\<exists>r' \<in> set (db_repairs d'). tx_step r r'"
  using repair_move_shape [OF assms(1)] update_shape_row assms(2)
  by (fastforce simp: finish_shape_def tx_step_def)

text \<open>A failed transaction that still has a running step, and that step, are left as they are.\<close>

lemma ambiguous_kept:
  assumes mv: "repair_move d d'" and inv: "repair_inv d"
    and r: "r \<in> set (db_repairs d)" "rt_status r = RpFailed"
    and s: "s \<in> set (db_steps d)" "running s" "st_transaction_id s = rt_id r"
  shows "r \<in> set (db_repairs d') \<and> s \<in> set (db_steps d')"
proof -
  have run: "has_running_step (rt_id r) d" using has_running_stepI [OF s(1,2)] s(3) by simp
  have keep: "r \<in> set (db_repairs d')" if u: "update_shape t P f d d'" for t P f
  proof -
    from u run r(2) have "\<not> (rt_id r = t \<and> P r)" unfolding update_shape_def by blast
    moreover from u have "db_repairs d' = upd_where (\<lambda>r. rt_id r = t \<and> P r) f (db_repairs d)"
      by (simp add: update_shape_def)
    ultimately show ?thesis using in_upd_where_kept [OF r(1)] by simp
  qed
  have fin: "s \<in> set (db_steps d')" if f: "finish_shape k g d d'" for k g
  proof -
    from f obtain s0 q where s0: "find_step k d = Some s0"
      and q: "q \<in> set (db_repairs d)" "rt_id q = st_transaction_id s0" "rt_status q = RpExecuting"
      and ss: "db_steps d' = upd_where (\<lambda>x. st_id x = k \<and> st_status x = StRunning) g (db_steps d)"
      unfolding finish_shape_def list_ex_iff by blast
    note D = repair_table_invD [OF inv [unfolded repair_inv_def]]
    have "st_id s \<noteq> k"
    proof
      assume "st_id s = k"
      with s0 have "s = s0"
        by (intro unique_byD [OF D(2) s(1)]) (auto simp: find_step_def dest: find_SomeD)
      with q s(3) have "r = q" by (intro unique_byD [OF D(1) r(1)]) simp_all
      with q r(2) show False by simp
    qed
    then show ?thesis unfolding ss by (intro in_upd_where_kept s(1)) simp
  qed
  from repair_move_shape [OF mv] show ?thesis
  proof (elim disjE exE conjE)
    fix t P f ss assume "update_shape t P f d d'" "db_steps d' = db_steps d @ ss"
    with keep s(1) show ?thesis by simp
  next
    fix k g assume f: "finish_shape k g d d'"
    then obtain t P h where "update_shape t P h d d'" unfolding finish_shape_def by blast
    with keep fin [OF f] show ?thesis by blast
  qed (use r s in simp_all)
qed

section \<open>An executable driver\<close>

datatype repair_command =
    RCreate string repair_input
  | RAuthorize "string option" authorization
  | RStart "string option" string "string option"
  | RCompleteStep nat "string option"
  | RFailStep nat repair_failure
  | RFail "string option" repair_failure
  | RResume "string option"
  | RComplete "string option"

fun repair_exec :: "int \<Rightarrow> repair_command \<Rightarrow> db \<Rightarrow> db res" where
  "repair_exec now (RCreate uuid input) d = map_sum id fst (create_repair_transaction now uuid input d)"
| "repair_exec now (RAuthorize i auth) d = map_sum id fst (authorize_repair_transaction now i auth d)"
| "repair_exec now (RStart i action request) d = map_sum id fst (start_repair_step now i action request d)"
| "repair_exec now (RCompleteStep k result) d = map_sum id fst (complete_repair_step now k result d)"
| "repair_exec now (RFailStep k err) d = map_sum id fst (fail_repair_step now k err d)"
| "repair_exec now (RFail i err) d = map_sum id fst (fail_repair_transaction now i err d)"
| "repair_exec now (RResume i) d = map_sum id fst (resume_repair_transaction now i d)"
| "repair_exec now (RComplete i) d = map_sum id fst (complete_repair_transaction now i d)"

text \<open>The commands one after the other; one that throws leaves the database as it was.\<close>

fun repair_run :: "int \<Rightarrow> repair_command list \<Rightarrow> db \<Rightarrow> db" where
  "repair_run now [] d = d"
| "repair_run now (c # cs) d =
     repair_run (now + 1) cs (case repair_exec now c d of Inl _ \<Rightarrow> d | Inr d' \<Rightarrow> d')"

lemma map_sum_fst_Inr: "map_sum id fst x = Inr a \<Longrightarrow> \<exists>b. x = Inr (a, b)"
  by (cases x) auto

lemma repair_exec_move: "repair_exec now c d = Inr d' \<Longrightarrow> repair_move d d'"
  by (cases c) (auto dest!: map_sum_fst_Inr intro: repair_move.intros(1-8))

lemma repair_run_moves: "repair_moves d (repair_run now cs d)"
proof (induction cs arbitrary: now d)
  case (Cons c cs)
  show ?case
  proof (cases "repair_exec now c d")
    case (Inr d')
    with Cons [of d' "now + 1"] repair_exec_move [OF Inr] show ?thesis
      by (simp add: converse_rtranclp_into_rtranclp)
  qed (use Cons in simp)
qed simp

definition sample_plan :: repair_plan where
  "sample_plan = \<lparr>pn_status = ''repair-required'', pn_planKey = ''plan-1'', pn_desiredIdentity = sample_release,
     pn_scope = Some \<lparr>rs_account = ''acct'', rs_instance = ''inst'', rs_mount = ''mnt''\<rparr>,
     pn_binding = map_option (\<lambda>b. \<lparr>pb_id = bd_id b, pb_version = bd_version b, pb_placement_id = bd_placement_id b,
        pb_provider_file_id = bd_provider_file_id b, pb_exposure_id = bd_exposure_id b\<rparr>) (newest_binding ''li_1'' bound_db),
     pn_permittedActions = [''add'', ''select''], pn_actionSequence = [''add'', ''select''],
     pn_reason = ''r'', pn_evaluatedAt = 0\<rparr>"

definition sample_repair_input :: repair_input where
  "sample_repair_input = \<lparr>rix_libraryItemId = ''li_1'', rix_desiredIdentity = sample_release,
     rix_plan = Some sample_plan, rix_planKey = Some ''plan-1'', rix_expectedBindingVersion = 1,
     rix_scope = pn_scope sample_plan, rix_id = None\<rparr>"

abbreviation sample_tx :: "string option" where
  "sample_tx \<equiv> Some ''rp_u''"

text \<open>A transaction that executes both actions and succeeds, and one that fails with its step running.\<close>

definition repair_commands :: "repair_command list" where
  "repair_commands = [RCreate ''u'' sample_repair_input,
     RAuthorize sample_tx \<lparr>au_actions = [Some ''add'', Some ''select''], au_authorizedBy = Some ''op''\<rparr>,
     RStart sample_tx ''add'' None]"

definition started_tx :: repair_transaction where
  "started_tx = \<lparr>rt_id = ''rp_u'', rt_plan_key = ''plan-1'', rt_library_item_id = ''li_1'',
     rt_info_hash = sample_hash, rt_file_index = None, rt_release_key = sample_hash @ '':torrent'',
     rt_scope = \<lparr>rs_account = ''acct'', rs_instance = ''inst'', rs_mount = ''mnt''\<rparr>,
     rt_expected_binding_version = 1, rt_status = RpExecuting, rt_plan = sample_plan,
     rt_authorized_actions = [''add'', ''select''], rt_authorized_by = Some ''op'', rt_created_at = 200,
     rt_authorized_at = Some 201, rt_started_at = Some 202, rt_completed_at = None, rt_updated_at = 202,
     rt_failure_category = None\<rparr>"

definition started_step :: repair_step where
  "started_step = \<lparr>st_id = 1, st_transaction_id = ''rp_u'', st_action = ''add'', st_status = StRunning,
     st_attempt = 1, st_request = None, st_result = None, st_failure_category = None, st_retryable = None,
     st_started_at = 202, st_completed_at = None\<rparr>"

definition started_db :: db where
  "started_db = bound_db\<lparr>db_repairs := [started_tx], db_steps := [started_step]\<rparr>"

definition repaired_tx :: repair_transaction where
  "repaired_tx = succeed_row 303 (executing_row 301 (touch_row 300 started_tx))\<lparr>rt_updated_at := 303\<rparr>"

definition repaired_db :: db where
  "repaired_db = bound_db\<lparr>db_repairs := [repaired_tx],
     db_steps := [succeed_step 300 None started_step,
       succeed_step 302 None (started_step\<lparr>st_id := 2, st_action := ''select'', st_started_at := 301\<rparr>)]\<rparr>"

definition ambiguous_db :: db where
  "ambiguous_db = bound_db\<lparr>db_repairs := [fail_row 300 ''repair-operation-failed'' started_tx],
     db_steps := [started_step]\<rparr>"

lemma started_db_run: "repair_run 200 repair_commands bound_db = started_db"
  by code_simp

lemma repaired_db_run:
  "repair_run 300 [RCompleteStep 1 None, RStart sample_tx ''select'' None, RCompleteStep 2 None, RComplete sample_tx]
     started_db = repaired_db"
  by code_simp

lemma ambiguous_db_run:
  "repair_run 300 [RFail sample_tx \<lparr>rf_failureCategory = None, rf_result = None, rf_retryable = None\<rparr>] started_db
     = ambiguous_db"
  by code_simp

lemma repair_inv_bound: "repair_inv bound_db"
  by (simp add: repair_inv_def repair_table_inv_def bound_db_def binding_db_def empty_db_def unique_by_def unique_where_def)

lemma started_db_moves: "repair_moves bound_db started_db"
  using repair_run_moves [of bound_db 200 repair_commands] started_db_run by simp

lemma repaired_db_moves: "repair_moves started_db repaired_db"
  using repair_run_moves [of started_db 300
      "[RCompleteStep 1 None, RStart sample_tx ''select'' None, RCompleteStep 2 None, RComplete sample_tx]"]
    repaired_db_run by simp

lemma ambiguous_db_moves: "repair_moves bound_db ambiguous_db"
  using repair_run_moves [of started_db 300 "[RFail sample_tx \<lparr>rf_failureCategory = None, rf_result = None, rf_retryable = None\<rparr>]"]
    ambiguous_db_run started_db_moves by simp

section \<open>Properties\<close>

text \<open>
  C9: A repair transaction that has succeeded, in any database reached by operations of the store,
  has exactly one succeeded step for each action of its authorization and no running step; its
  authorization is a non-empty part of the plan's permitted actions, in the order of the plan.
\<close>

theorem succeeded_transaction_complete:
  assumes "repair_moves d0 d" "repair_inv d0" "r \<in> set (db_repairs d)" "rt_status r = RpSucceeded"
  shows "(\<forall>a \<in> set (rt_authorized_actions r). \<exists>!s. s \<in> set (db_steps d) \<and> st_transaction_id s = rt_id r
      \<and> st_action s = a \<and> st_status s = StSucceeded)
    \<and> (\<forall>s \<in> set (db_steps d). st_transaction_id s = rt_id r \<longrightarrow> st_status s \<noteq> StRunning)
    \<and> authorization_ok (rt_plan r) (rt_authorized_actions r)"
proof -
  from repair_moves_inv [OF assms(1,2)] have ti: "repair_table_inv (db_repairs d) (db_steps d)"
    by (simp add: repair_inv_def)
  note D = repair_table_invD [OF ti] and ok = repair_table_invD(7) [OF ti assms(3), unfolded row_ok_def]
  have "\<exists>!s. s \<in> set (db_steps d) \<and> st_transaction_id s = rt_id r \<and> st_action s = a \<and> st_status s = StSucceeded"
    if a: "a \<in> set (rt_authorized_actions r)" for a
  proof -
    from ok assms(4) a obtain s where s: "s \<in> set (db_steps d)" "succeeded s" "step_key s = (rt_id r, a)" by blast
    show ?thesis
    proof (rule ex1I [of _ s])
      fix t assume t: "t \<in> set (db_steps d) \<and> st_transaction_id t = rt_id r \<and> st_action t = a \<and> st_status t = StSucceeded"
      show "t = s"
        by (rule unique_whereD [OF D(4)]) (use t s in \<open>auto simp: succeeded_def step_key_def\<close>)
    qed (use s in \<open>auto simp: succeeded_def step_key_def\<close>)
  qed
  then show ?thesis using ok assms(4) by (auto simp: running_def)
qed

theorem succeeded_transaction_complete_witness:
  "(\<exists>!s. s \<in> set (db_steps repaired_db) \<and> st_transaction_id s = ''rp_u'' \<and> st_action s = ''add''
      \<and> st_status s = StSucceeded) \<and> rt_status repaired_tx = RpSucceeded"
proof -
  have "repair_moves bound_db repaired_db" using started_db_moves repaired_db_moves by simp
  from succeeded_transaction_complete [OF this repair_inv_bound, of repaired_tx] show ?thesis
    by (simp add: repaired_db_def repaired_tx_def row_updates started_tx_def)
qed

text \<open>
  Starting an action that already has a succeeded step, or one that is running, changes nothing
  and returns that step, so that an action is never executed twice after it succeeded and never twice
  at once.
\<close>

theorem started_action_not_repeated:
  assumes "start_repair_step now (Some i) action request d = Inr (d', s)" "repair_inv d"
    "x \<in> set (db_steps d)" "st_transaction_id x = js_trim i" "st_action x = action" "st_status x \<noteq> StFailed"
  shows "d' = d \<and> s = x"
proof -
  from assms(1) have tid: "require_string (Some i) ''repairTransactionId'' 256 = Inr (js_trim i)"
    unfolding start_repair_step_def by (auto simp: res_bind_Inr require_string_Inr)
  note D = repair_table_invD [OF assms(2) [unfolded repair_inv_def]]
  have x: "succeeded x \<or> running x" using assms(6) by (cases "st_status x") (auto simp: succeeded_def running_def)
  from assms(1) obtain row where body:
    "(case step_where (js_trim i) action StSucceeded d of Some s \<Rightarrow> Inr (d, s) | None \<Rightarrow>
       (case step_where (js_trim i) action StRunning d of Some s \<Rightarrow> Inr (d, s) | None \<Rightarrow>
         res_bind (update_repair (js_trim i) (\<lambda>r. rt_status r = RpAuthorized \<or> rt_status r = RpExecuting)
           (executing_row now) d) row)) = Inr (d', s)"
    unfolding start_repair_step_def tid res_bind_simps res_bind_Inr [of "require_repair x y" for x y]
      res_bind_Inr [of "ensure x y" for x y] by blast
  show ?thesis
  proof (cases "step_where (js_trim i) action StSucceeded d")
    case (Some y)
    with top_by_Some [OF Some [unfolded step_where_def]]
    have y: "y \<in> set (db_steps d)" "step_key y = step_key x" "succeeded y"
      using assms(4,5) by (auto simp: step_key_def succeeded_def)
    from x D(5) [OF y(1) assms(3) y(3)] y(2) have "succeeded x" by auto
    then have "y = x" by (intro unique_whereD [OF D(4) y(1) assms(3) y(3)]) (simp_all add: y(2))
    with Some body show ?thesis by simp
  next
    case None
    with top_by_filter_None [OF None [unfolded step_where_def] assms(3)] assms(4,5) have nx: "\<not> succeeded x"
      by (simp add: succeeded_def)
    with x have rx: "running x" by blast
    show ?thesis
    proof (cases "step_where (js_trim i) action StRunning d")
      case none2: None
      from top_by_filter_None [OF none2 [unfolded step_where_def] assms(3)] assms(4,5) rx show ?thesis
        by (simp add: running_def)
    next
      case (Some y)
      with top_by_Some [OF Some [unfolded step_where_def]]
      have y: "y \<in> set (db_steps d)" "step_key y = step_key x" "running y"
        using assms(4,5) by (auto simp: step_key_def running_def)
      have "y = x" by (rule unique_whereD [OF D(3) y(1) assms(3) y(3) rx y(2)])
      with Some None body show ?thesis by simp
    qed
  qed
qed

theorem started_action_not_repeated_witness:
  "start_repair_step 400 sample_tx ''add'' (Some ''again'') started_db = Inr (started_db, started_step)"
proof -
  have "is_ok (start_repair_step 400 sample_tx ''add'' (Some ''again'') started_db)" by code_simp
  then obtain d' s where run: "start_repair_step 400 sample_tx ''add'' (Some ''again'') started_db = Inr (d', s)"
    by (auto simp: is_ok_conv)
  have "repair_inv started_db" using repair_moves_inv [OF started_db_moves repair_inv_bound] .
  from started_action_not_repeated [OF run this, of started_step] run show ?thesis
    by (simp add: started_db_def started_step_def js_trim_def js_space_def code_of_def)
qed

text \<open>
  C10: Along any operations of the store a transaction keeps its row, its plan and the identity it
  repairs, and its status only moves along the graph planned, authorized, executing, failed,
  succeeded; a succeeded transaction never changes again.
\<close>

theorem repair_status_graph:
  assumes "repair_moves d d'" "r \<in> set (db_repairs d)"
  shows "\<exists>r' \<in> set (db_repairs d'). same_transaction r r' \<and> repair_edge\<^sup>*\<^sup>* (rt_status r) (rt_status r')
    \<and> (rt_status r = RpSucceeded \<longrightarrow> r' = r)"
  using assms
proof (induction rule: rtranclp_induct)
  case base
  then show ?case by (auto simp: same_transaction_def)
next
  case (step d1 d2)
  then obtain r1 where r1: "r1 \<in> set (db_repairs d1)" "same_transaction r r1" "repair_edge\<^sup>*\<^sup>* (rt_status r) (rt_status r1)"
      "rt_status r = RpSucceeded \<longrightarrow> r1 = r" by blast
  from repair_move_row [OF step(2) r1(1)] obtain r2 where r2: "r2 \<in> set (db_repairs d2)" "tx_step r1 r2" by blast
  have "same_transaction r r2" using r1(2) r2(2) by (auto simp: tx_step_def same_transaction_def)
  moreover have "repair_edge\<^sup>*\<^sup>* (rt_status r) (rt_status r2)"
    using r1(3) r2(2) by (auto simp: tx_step_def intro: rtranclp.rtrancl_into_rtrancl)
  moreover have "rt_status r = RpSucceeded \<longrightarrow> r2 = r" using r1(4) r2(2) by (auto simp: tx_step_def)
  ultimately show ?case using r2(1) by blast
qed

theorem repair_status_graph_witness:
  "\<exists>r' \<in> set (db_repairs repaired_db). same_transaction started_tx r' \<and> repair_edge\<^sup>*\<^sup>* RpExecuting (rt_status r')"
  using repair_status_graph [OF repaired_db_moves, of started_tx] by (auto simp: started_db_def started_tx_def)

text \<open>
  A transaction that failed while a step was running can be neither resumed nor completed, and
  that step is neither finished nor repeated, by any sequence of operations of the store: the
  ambiguous provider operation waits for a resolution outside of the store.
\<close>

theorem ambiguous_operation_frozen:
  assumes "repair_moves d d'" "repair_inv d" "r \<in> set (db_repairs d)" "rt_status r = RpFailed"
    "s \<in> set (db_steps d)" "st_status s = StRunning" "st_transaction_id s = rt_id r"
  shows "r \<in> set (db_repairs d') \<and> s \<in> set (db_steps d')"
  using assms
proof (induction rule: rtranclp_induct)
  case (step d1 d2)
  have "repair_inv d1" by (rule repair_moves_inv [OF step(1,4)])
  with step ambiguous_kept [OF step(2), of r s] show ?case by (simp add: running_def)
qed blast

theorem ambiguous_operation_frozen_witness:
  "started_step \<in> set (db_steps (repair_run 500 [RResume sample_tx, RCompleteStep 1 None] ambiguous_db))"
proof -
  let ?tx = "fail_row 300 ''repair-operation-failed'' started_tx"
  have inv: "repair_inv ambiguous_db" by (rule repair_moves_inv [OF ambiguous_db_moves repair_inv_bound])
  have mem: "?tx \<in> set (db_repairs ambiguous_db)" "started_step \<in> set (db_steps ambiguous_db)"
    by (simp_all add: ambiguous_db_def)
  have st: "rt_status ?tx = RpFailed" "st_status started_step = StRunning"
      "st_transaction_id started_step = rt_id ?tx"
    by (simp_all add: fail_row_def started_tx_def started_step_def)
  from ambiguous_operation_frozen [OF repair_run_moves inv mem(1) st(1) mem(2) st(2,3)] show ?thesis by blast
qed

end
