(* ===== verification/Library_Properties.thy ===== *)
theory Library_Properties
  imports Store_Library
begin

text \<open>
  The properties of release identities, canonical paths, library items and presentation identities
  (\<open>release-contract.js\<close>, \<open>canonical-path.js\<close> and the first operations of \<open>store.js\<close>).
\<close>

section \<open>Release identities\<close>

text \<open>
  C17: Printing an identity and validating what was printed gives the identity back, and two
  identities have the same release key exactly if they are equal: the key of a whole torrent is the
  key of none of its files.
\<close>

theorem release_identity_round_trip:
  assumes "valid_identity r" "valid_identity s"
  shows "validate_release_identity (JObj (identity_entries r)) = Inr r \<and> (ri_releaseKey r = ri_releaseKey s) = (r = s)"
proof -
  have "ri_releaseKey r = ri_releaseKey s \<Longrightarrow> r = s"
    using assms release_key_inj_gen [of "ri_infoHash r" "ri_infoHash s" "ri_fileIndex r" "ri_fileIndex s"]
    by (intro valid_identity_eqI) (auto simp: valid_identity_def info_hash_pattern_def)
  then show ?thesis using identity_round_trip [OF assms(1)] by auto
qed

definition sample_identity :: "int option \<Rightarrow> release_identity" where
  "sample_identity i = \<lparr>ri_infoHash = replicate 40 (CHR ''a''), ri_fileIndex = i,
     ri_releaseKey = release_key (replicate 40 (CHR ''a'')) i\<rparr>"

lemma sample_identity_valid: "valid_identity (sample_identity None)" "valid_identity (sample_identity (Some 0))"
  by (simp_all add: valid_identity_def sample_identity_def info_hash_pattern_def hex_chars_def list_all_iff
      is_safe_integer_def max_safe_def)

theorem release_identity_round_trip_witness:
  "validate_release_identity (JObj (identity_entries (sample_identity None))) = Inr (sample_identity None)
    \<and> ri_releaseKey (sample_identity None) \<noteq> ri_releaseKey (sample_identity (Some 0))"
  using release_identity_round_trip [OF sample_identity_valid] by (simp add: sample_identity_def)

section \<open>Canonical paths\<close>

text \<open>
  C18: A canonical path that is accepted is relative, at most 768 long, and each of its segments is
  not empty, neither a dot nor a parent segment, without separators and at most 160 long, whatever
  the Unicode normalisation returns.
\<close>

theorem canonical_path_safe:
  assumes "normalize_canonical_path nfkc v = Inr p"
  shows "(\<forall>s \<in> set (split_on (CHR ''/'') p). safe_segment s) \<and> length p \<le> max_path_length \<and> p \<noteq> [] \<and> hd p \<noteq> CHR ''/''"
proof -
  from assms obtain segs where segs: "segs \<noteq> []" "\<forall>s \<in> set segs. safe_segment s" "p = join_with (CHR ''/'') segs"
      "length p \<le> max_path_length"
    by (rule normalize_canonical_path_cases)
  have "split_on (CHR ''/'') p = segs"
    unfolding segs(3) by (rule split_on_join [OF segs(1)]) (use segs(2) in \<open>auto simp: safe_segment_def\<close>)
  moreover have "p \<noteq> [] \<and> hd p \<noteq> CHR ''/''"
  proof -
    obtain s ss where "segs = s # ss" using segs(1) by (cases segs) auto
    moreover obtain c cs where "s = c # cs" "c \<noteq> CHR ''/''"
      using segs(2) \<open>segs = s # ss\<close> by (cases s) (auto simp: safe_segment_def)
    ultimately show ?thesis unfolding segs(3) by (cases ss) auto
  qed
  ultimately show ?thesis using segs by simp
qed

theorem canonical_path_safe_witness:
  "normalize_canonical_path id (Some '' a//b:c. / d'') = Inr ''a/b c/d'' \<and> length ''a/b c/d'' \<le> max_path_length"
proof -
  have run: "normalize_canonical_path id (Some '' a//b:c. / d'') = Inr ''a/b c/d''" by code_simp
  with canonical_path_safe [OF run] show ?thesis by blast
qed

text \<open>A long title of letters, and what follows it in a segment.\<close>

lemma letter_cases:
  assumes "is_letter c"
  shows "\<not> is_control c" "c \<notin> set reserved_chars" "\<not> js_space c" "c \<noteq> CHR ''.''" "c \<noteq> CHR '' ''"
    "c \<noteq> CHR ''/''" "c \<noteq> CHR 0x5C"
  using assms by (auto simp: is_letter_def is_control_def reserved_chars_def js_space_def code_of_def Let_def)

lemma collapse_from_append:
  "list_all (\<lambda>c. \<not> P c) t \<Longrightarrow> t \<noteq> [] \<Longrightarrow> collapse_from P c b (t @ u) = t @ collapse_from P c False u"
proof (induction t arbitrary: b)
  case (Cons x t)
  then show ?case by (cases t) auto
qed simp

lemma collapse_from_none: "list_all (\<lambda>c. \<not> P c) t \<Longrightarrow> collapse_from P c b t = t"
  by (induction t arbitrary: b) auto

lemma dropWhile_none: "list_all (\<lambda>c. \<not> P c) t \<Longrightarrow> t \<noteq> [] \<Longrightarrow> dropWhile P (t @ u) = t @ u"
  by (cases t) auto

lemma trim_end_append:
  assumes "list_all (\<lambda>c. \<not> P c) t"
  shows "\<exists>y. trim_end P (t @ u) = t @ y"
proof (cases "list_all P u")
  case True
  then have "trim_end P (t @ u) = trim_end P t"
    using dropWhile_append2 [of "rev u" P "rev t"] by (simp add: trim_end_def list_all_iff)
  also have "\<dots> = t"
    using assms by (cases t rule: rev_cases) (auto simp: trim_end_def)
  finally show ?thesis by auto
next
  case False
  then have "trim_end P (t @ u) = t @ trim_end P u"
    by (auto simp: trim_end_def dropWhile_append1 list_all_iff)
  then show ?thesis by blast
qed

lemma sanitize_long_title:
  assumes t: "list_all is_letter t" "length t = 160"
  shows "sanitize_path_segment id (t @ u) fb = Inr t"
proof -
  have nt: "list_all (\<lambda>c. \<not> Q c) t" if "\<And>c. is_letter c \<Longrightarrow> \<not> Q c" for Q
    using t(1) that by (auto simp: list_all_iff)
  have ne: "t \<noteq> []" using t(2) by auto
  have f1: "filter (\<lambda>c. \<not> is_control c) t = t"
    using t(1) letter_cases(1) by (simp add: list_all_iff filter_id_conv)
  have f2: "map (\<lambda>c. if c \<in> set reserved_chars then CHR '' '' else c) t = t"
    using t(1) letter_cases(2) by (simp add: list_all_iff map_idI)
  define u2 where "u2 = map (\<lambda>c. if c \<in> set reserved_chars then CHR '' '' else c) (filter (\<lambda>c. \<not> is_control c) u)"
  obtain y where y: "trim_end (\<lambda>c. c = CHR ''.'' \<or> c = CHR '' '') (t @ collapse_from js_space (CHR '' '') False u2) = t @ y"
    using trim_end_append [OF nt, of "\<lambda>c. c = CHR ''.'' \<or> c = CHR '' ''"] letter_cases(4,5) by blast
  obtain z where z: "trim_end js_space (t @ y) = t @ z"
    using trim_end_append [OF nt, of js_space] letter_cases(3) by blast
  have "js_trim (t @ y) = t @ z"
    unfolding js_trim_conv using dropWhile_none [OF nt ne, of js_space y] letter_cases(3) z by simp
  moreover have "collapse js_space (CHR '' '') (t @ u2) = t @ collapse_from js_space (CHR '' '') False u2"
    unfolding collapse_def by (rule collapse_from_append [OF nt ne]) (rule letter_cases(3))
  moreover have "trim_end js_space t = t"
    using trim_end_stable [OF ne] last_in_set [OF ne] t(1) letter_cases(3) by (simp add: list_all_iff)
  ultimately show ?thesis
    using t(2) ne y by (simp add: sanitize_path_segment_def Let_def f1 f2 u2_def [symmetric] max_segment_length_def)
qed

lemma dot_segment_length: "dot_segment s \<Longrightarrow> length s \<le> 2"
  by (auto simp: dot_segment_def)

definition episode_of :: "string \<Rightarrow> int \<Rightarrow> path_item" where
  "episode_of t e = \<lparr>pi_mediaType = Episode, pi_title = t, pi_year = None, pi_season = Some 1, pi_episode = Some e\<rparr>"

text \<open>
  C19: A title of 160 letters leaves no room in its segment: the path that is built for an episode
  loses the episode code and the file extension, so that every episode of a season gets the same path.
\<close>

theorem long_title_loses_episode_and_extension:
  assumes t: "list_all is_letter t" "length t = 160" and e: "is_safe_integer e" "0 \<le> e"
  shows "build_preferred_canonical_path id (episode_of t e) None =
    Inr (''TV/'' @ t @ ''/Season 01/'' @ t)"
proof -
  define u where "u = '' - S01E'' @ pad2 e @ ''.mkv''"
  have dig: "c \<noteq> CHR ''/'' \<and> c \<noteq> CHR 0x5C" if "c \<in> set (pad2 e)" for c
    using that show_nat_digits [of c "nat e"]
    by (auto simp: pad2_def Let_def is_digit_def code_of_def split: if_splits)
  have uc: "list_all (\<lambda>c. c \<noteq> CHR ''/'' \<and> c \<noteq> CHR 0x5C) u" unfolding u_def using dig by (auto simp: list_all_iff)
  have tc: "list_all (\<lambda>c. c \<noteq> CHR ''/'' \<and> c \<noteq> CHR 0x5C) t"
    using t(1) letter_cases(6,7) by (auto simp: list_all_iff)
  have ne: "t \<noteq> []" using t(2) by auto
  let ?p = "''TV/'' @ t @ ''/Season 01/'' @ t @ u"
  have trim: "js_trim ?p = ?p"
    by (simp add: js_trim_def u_def js_space_def code_of_def)
  have slashes: "map (\<lambda>c. if c = CHR 0x5C then CHR ''/'' else c) ?p = ?p"
    using tc uc by (simp add: map_idI list_all_iff)
  let ?sl = "\<lambda>c. c = CHR ''/''"
  have nsl: "list_all (\<lambda>c. \<not> ?sl c) t" "list_all (\<lambda>c. \<not> ?sl c) (t @ u)" using tc uc by (auto simp: list_all_iff)
  have coll: "collapse ?sl (CHR ''/'') ?p = ?p"
    using collapse_from_append [OF nsl(1) ne] collapse_from_none [OF nsl(2)] by (simp add: collapse_def)
  have "split_on (CHR ''/'') (join_with (CHR ''/'') [''TV'', t, ''Season 01'', t @ u]) = [''TV'', t, ''Season 01'', t @ u]"
    by (rule split_on_join) (use tc uc in \<open>auto simp: list_all_iff\<close>)
  then have split: "split_on (CHR ''/'') ?p = [''TV'', t, ''Season 01'', t @ u]" by simp
  have s0: "sanitize_path_segment id ''TV'' None = Inr ''TV''" "sanitize_path_segment id ''Season 01'' None = Inr ''Season 01''"
    by code_simp+
  note st = sanitize_long_title [OF t]
  have s1: "sanitize_path_segment id t fb = Inr t" for fb using st [of "[]"] by simp
  have dots: "\<not> dot_segment ''TV''" "\<not> dot_segment t" "\<not> dot_segment ''Season 01''" "\<not> dot_segment (t @ u)"
    using dot_segment_length [of t] dot_segment_length [of "t @ u"] t(2) by (auto simp: dot_segment_def)
  have "normalize_canonical_path id (Some ?p) = Inr (''TV/'' @ t @ ''/Season 01/'' @ t)"
    unfolding normalize_canonical_path_def option.case trim slashes coll Let_def split
    using t(2) dots by (simp add: s0 s1 st max_path_length_def has_drive_prefix_def)
  moreover have "normalize_extension (Some ''.mkv'') = Inr ''.mkv''" by code_simp
  moreover have "pad2 1 = ''01''" by code_simp
  ultimately show ?thesis
    using e by (simp add: build_preferred_canonical_path_def episode_of_def s1 u_def normalize_optional_integer_def
        is_safe_integer_def max_safe_def)
qed

theorem long_title_loses_episode_and_extension_witness:
  "build_preferred_canonical_path id (episode_of (replicate 160 (CHR ''a'')) 1) None =
   build_preferred_canonical_path id (episode_of (replicate 160 (CHR ''a'')) 2) None"
proof -
  have "list_all is_letter (replicate 160 (CHR ''a''))" by (simp add: list_all_iff is_letter_def code_of_def)
  from long_title_loses_episode_and_extension [OF this, of 1] long_title_loses_episode_and_extension [OF this, of 2]
  show ?thesis by (simp add: is_safe_integer_def max_safe_def)
qed

section \<open>Items and paths\<close>

lemma library_step_inv: "library_step d d' \<Longrightarrow> library_inv d \<Longrightarrow> library_inv d'"
proof (induction rule: library_step.induct)
  case (ls_commit nfkc now i input d d' c r)
  then consider "d' = d" | a b p s at where
    "d' = d\<lparr>db_items := upd_where (\<lambda>r. li_id r = i \<and> li_presentation_committed_at r = None)
       (set_presentation a b p s at now) (db_items d)\<rparr>"
    by (auto simp: commit_presentation_identity_def guard_simps Let_def split: option.splits)
  then show ?case by cases (use ls_commit in \<open>simp_all add: library_inv_def unique_by_upd_where\<close>)
next
  case (ls_describe i t y d d' r)
  then consider "d' = d" | a b where
    "d' = d\<lparr>db_items := upd_where (\<lambda>r. li_id r = i) (describe_item a b) (db_items d)\<rparr>"
    by (auto simp: refresh_presentation_description_def guard_simps Let_def split: if_splits)
  then show ?case by cases (use ls_describe in \<open>simp_all add: library_inv_def unique_by_upd_where\<close>)
qed (auto intro: ensure_library_item_inv ensure_canonical_path_inv)

text \<open>
  Along any operations of the component, identity keys and item ids are unique, a canonical path
  belongs to one row, and an item has at most one active path.
\<close>

theorem library_keys_unique:
  assumes "library_step\<^sup>*\<^sup>* d d'" "library_inv d"
  shows "library_inv d'"
  using assms by (induction rule: rtranclp_induct) (auto intro: library_step_inv)

definition sample_item_input :: item_input where
  "sample_item_input = \<lparr>ii_mediaType = ''movie'', ii_mediaId = Some ''tt1'', ii_season = None, ii_episode = None,
     ii_editionKey = None, ii_title = Some ''T'', ii_year = Some 1999, ii_desiredState = None\<rparr>"

abbreviation sample_digest :: "string \<Rightarrow> string" where
  "sample_digest \<equiv> (\<lambda>s. s @ s @ s)"

definition item_db :: db where
  "item_db = (case ensure_library_item sample_digest 5 sample_item_input empty_db of Inl _ \<Rightarrow> empty_db | Inr (d, _) \<Rightarrow> d)"

definition sample_item_id :: string where
  "sample_item_id = ''li_movie:tt1:defaultmovie:t''"

definition identity_input_of :: "string \<Rightarrow> identity_input" where
  "identity_input_of strm = \<lparr>id_title = None, id_year = YText ''(1999)'', id_canonicalPath = Some ''Movies/T/T.mkv'',
     id_strmPath = Some strm, id_committedAt = None\<rparr>"

lemma item_db_run:
  "is_ok (ensure_library_item sample_digest 5 sample_item_input empty_db)"
  "map li_id (db_items item_db) = [sample_item_id]"
  by code_simp+

lemma item_db_step: "library_step empty_db item_db"
proof -
  from item_db_run(1) obtain r where r: "ensure_library_item sample_digest 5 sample_item_input empty_db = Inr r"
    by (auto simp: is_ok_conv)
  then show ?thesis
    by (cases r) (auto simp: item_db_def intro: library_step.ls_item)
qed

theorem library_keys_unique_witness:
  "library_inv item_db \<and> length (db_items item_db) = 1"
proof -
  have "library_inv empty_db"
    by (simp add: library_inv_def empty_db_def unique_by_def unique_where_def)
  from library_keys_unique [of empty_db item_db, OF r_into_rtranclp [of library_step, OF item_db_step] this]
  show ?thesis using arg_cong [OF item_db_run(2), of length] by simp
qed

text \<open>
  Once an item's presentation identity is committed, its canonical path, its strm path and its
  commit time never change again, whatever is committed, described, merged or allocated later.
\<close>

theorem presentation_write_once:
  assumes "library_step\<^sup>*\<^sup>* d d'" "get_library_item d i = Some r" "li_presentation_committed_at r = Some at"
  shows "\<exists>r'. get_library_item d' i = Some r' \<and> li_presentation_committed_at r' = Some at
    \<and> li_presentation_path r' = li_presentation_path r \<and> li_presentation_strm_path r' = li_presentation_strm_path r"
proof -
  have "frozen_presentation d i = Some (li_presentation_path r, li_presentation_strm_path r, at)"
    using assms(2,3) by (simp add: frozen_presentation_def frozen_of_def)
  from library_steps_frozen [OF assms(1) this] show ?thesis
    by (auto simp: frozen_presentation_def frozen_of_def bind_eq_Some_conv)
qed

definition committed_db :: db where
  "committed_db = (case commit_presentation_identity id 7 sample_item_id (identity_input_of ''T.strm'') item_db of
     Inl _ \<Rightarrow> empty_db | Inr (d, _) \<Rightarrow> d)"

lemma committed_db_run:
  "map_option (\<lambda>r. (li_presentation_committed_at r, li_presentation_strm_path r, li_presentation_year r))
     (get_library_item committed_db sample_item_id) = Some (Some 7, Some ''T.strm'', Some 1999)"
  "is_ok (refresh_presentation_description sample_item_id (Some ''Other'') Absent committed_db)"
  by code_simp+

theorem presentation_write_once_witness:
  "\<exists>d' p. refresh_presentation_description sample_item_id (Some ''Other'') Absent committed_db = Inr (d', p)
    \<and> map_option li_presentation_strm_path (get_library_item d' sample_item_id) = Some (Some ''T.strm'')"
proof -
  from committed_db_run(2) obtain d' p where run:
    "refresh_presentation_description sample_item_id (Some ''Other'') Absent committed_db = Inr (d', p)"
    by (auto simp: is_ok_conv)
  from committed_db_run(1) obtain r where r: "get_library_item committed_db sample_item_id = Some r"
    "li_presentation_committed_at r = Some 7" "li_presentation_strm_path r = Some ''T.strm''" by auto
  have "library_step\<^sup>*\<^sup>* committed_db d'" using run by (blast intro: library_step.ls_describe)
  from presentation_write_once [OF this r(1,2)] r(3) run show ?thesis by auto
qed

end
