(* ===== verification/Routes.thy ===== *)
theory Routes
  imports Inventory_Invariant Store_Bindings
begin

text \<open>
  The routes of a torrent file: \<open>route-classification.js\<close>, \<open>route-recovery.js\<close>, the part of
  \<open>route-reconciler.js\<close> that calls no provider, and the projections \<open>listDataPlaneCoordinates\<close> and
  \<open>resolveDeliveryCoordinates\<close> of \<open>store.js\<close>. A query without \<open>ORDER BY\<close> returns its rows in the
  order of the tables it joins; \<open>SELECT DISTINCT\<close> keeps the first of equal rows.
\<close>

section \<open>Rows of a join\<close>

text \<open>\<open>SELECT DISTINCT\<close> on the columns \<open>f\<close>.\<close>

fun distinct_on :: "('a \<Rightarrow> 'k) \<Rightarrow> 'a list \<Rightarrow> 'a list" where
  "distinct_on f [] = []"
| "distinct_on f (x # xs) = x # filter (\<lambda>y. f y \<noteq> f x) (distinct_on f xs)"

lemma set_distinct_on_subset: "set (distinct_on f xs) \<subseteq> set xs"
  by (induction xs) auto

lemma distinct_on_keys: "f ` set (distinct_on f xs) = f ` set xs"
proof (induction xs)
  case (Cons x xs)
  have "f ` set (filter (\<lambda>y. f y \<noteq> f x) (distinct_on f xs)) = f ` set (distinct_on f xs) - {f x}" by auto
  with Cons show ?case by auto
qed simp

lemma distinct_distinct_on: "distinct (map f (distinct_on f xs))"
  by (induction xs) (auto simp: distinct_map_filter)

lemma set_distinct_on_inj:
  assumes "\<And>x y. x \<in> set xs \<Longrightarrow> y \<in> set xs \<Longrightarrow> f x = f y \<Longrightarrow> x = y"
  shows "set (distinct_on f xs) = set xs"
proof
  show "set xs \<subseteq> set (distinct_on f xs)"
  proof
    fix x assume x: "x \<in> set xs"
    then have "f x \<in> f ` set (distinct_on f xs)" by (simp add: distinct_on_keys)
    then obtain y where "y \<in> set (distinct_on f xs)" "f x = f y" by (rule imageE)
    with assms [OF x, of y] set_distinct_on_subset show "x \<in> set (distinct_on f xs)" by fastforce
  qed
qed (rule set_distinct_on_subset)

type_synonym route_row = "provider_file \<times> placement \<times> delivery_evidence option"

text \<open>The \<open>LEFT JOIN\<close> with the evidence: its four join columns are the primary key.\<close>

definition route_evidence :: "db \<Rightarrow> provider_file \<Rightarrow> placement \<Rightarrow> delivery_evidence option" where
  "route_evidence d f p = find (\<lambda>e. evidence_key e =
      (pl_provider p, pl_account_scope p, pl_id p, pf_provider_file_id f)) (db_delivery d)"

definition routable :: "(string \<Rightarrow> bool) \<Rightarrow> provider_file \<Rightarrow> bool" where
  "routable Q f \<longleftrightarrow> (case pf_torrent_file_id f of None \<Rightarrow> False | Some t \<Rightarrow> Q t)
     \<and> pf_present f \<and> pf_mapping_state f = Mapped"

definition route_rows :: "(string \<Rightarrow> bool) \<Rightarrow> db \<Rightarrow> route_row list" where
  "route_rows Q d = concat (map (\<lambda>f. map (\<lambda>p. (f, p, route_evidence d f p))
     (filter (\<lambda>p. pl_id p = pf_placement_id f \<and> pl_state p \<noteq> PsRemoved) (db_placements d)))
     (filter (routable Q) (db_provider_files d)))"

lemma in_route_rows:
  "(f, p, e) \<in> set (route_rows Q d) \<longleftrightarrow> f \<in> set (db_provider_files d) \<and> routable Q f \<and> p \<in> set (db_placements d)
     \<and> pl_id p = pf_placement_id f \<and> pl_state p \<noteq> PsRemoved \<and> e = route_evidence d f p"
  by (auto simp: route_rows_def)

section \<open>Classification\<close>

datatype route_state = Serviceable | Retryable | Dead

fun state_rank :: "route_state \<Rightarrow> nat" where
  "state_rank Serviceable = 0" | "state_rank Retryable = 1" | "state_rank Dead = 2"

record route =
  rte_provider :: string
  rte_accountScope :: string
  rte_placementId :: string
  rte_providerResourceId :: string
  rte_providerFileId :: string
  rte_size :: "int option"
  rte_state :: route_state
  rte_evidence :: "evidence_state option"
  rte_evidenceExpiresAt :: "int option"
  rte_evidenceObservedAt :: "int option"

definition classify_state :: "int \<Rightarrow> delivery_evidence option \<Rightarrow> route_state" where
  "classify_state now ev = (case ev of
      None \<Rightarrow> Retryable
    | Some e \<Rightarrow> let fresh = now < de_expires_at e in
        if fresh \<and> de_state e = EvTerminal then Dead
        else if fresh \<and> de_state e = EvUsable then Serviceable else Retryable)"

fun classify_row :: "int \<Rightarrow> route_row \<Rightarrow> route" where
  "classify_row now (f, p, ev) = \<lparr>rte_provider = js_lower (pl_provider p), rte_accountScope = pl_account_scope p,
     rte_placementId = pl_id p, rte_providerResourceId = pl_provider_resource_id p,
     rte_providerFileId = pf_provider_file_id f, rte_size = pf_size f, rte_state = classify_state now ev,
     rte_evidence = map_option de_state ev, rte_evidenceExpiresAt = map_option de_expires_at ev,
     rte_evidenceObservedAt = map_option de_observed_at ev\<rparr>"

text \<open>\<open>byProvider\<close>, in the order in which the providers appear.\<close>

type_synonym provider_view = "(string \<times> route_state \<times> route list) list"

fun add_route :: "route \<Rightarrow> provider_view \<Rightarrow> provider_view" where
  "add_route r [] = [(rte_provider r, rte_state r, [r])]"
| "add_route r ((p, st, rs) # v) =
     (if p = rte_provider r
      then (p, if state_rank (rte_state r) < state_rank st then rte_state r else st, rs @ [r]) # v
      else (p, st, rs) # add_route r v)"

record classification =
  cl_routes :: "route list"
  cl_byProvider :: provider_view
  cl_serviceable :: "route list"
  cl_retryable :: "route list"
  cl_dead :: "route list"
  cl_hasServableRoute :: bool
  cl_hasRetryableRoute :: bool
  cl_allRoutesDead :: bool

definition empty_classification :: classification where
  "empty_classification = \<lparr>cl_routes = [], cl_byProvider = [], cl_serviceable = [], cl_retryable = [],
     cl_dead = [], cl_hasServableRoute = False, cl_hasRetryableRoute = False, cl_allRoutesDead = False\<rparr>"

definition classify_rows :: "int \<Rightarrow> route_row list \<Rightarrow> classification" where
  "classify_rows now rows =
     (let routes = map (classify_row now) rows;
          serviceable = filter (\<lambda>r. rte_state r = Serviceable) routes;
          retryable = filter (\<lambda>r. rte_state r = Retryable) routes;
          dead = filter (\<lambda>r. rte_state r = Dead) routes
      in \<lparr>cl_routes = routes, cl_byProvider = fold add_route routes [], cl_serviceable = serviceable,
          cl_retryable = retryable, cl_dead = dead, cl_hasServableRoute = 0 < length serviceable,
          cl_hasRetryableRoute = 0 < length retryable,
          cl_allRoutesDead = (0 < length routes \<and> length dead = length routes)\<rparr>)"

definition row_columns :: "route_row \<Rightarrow> string option \<times> string \<times> string \<times> string \<times> string \<times> string
    \<times> int option \<times> evidence_state option \<times> int option \<times> int option" where
  "row_columns r = (case r of (f, p, ev) \<Rightarrow> (pf_torrent_file_id f, pl_provider p, pl_account_scope p,
     pl_provider_resource_id p, pl_id p, pf_provider_file_id f, pf_size f, map_option de_state ev,
     map_option de_expires_at ev, map_option de_observed_at ev))"

definition classify_routes_for_torrent_files :: "string list \<Rightarrow> int \<Rightarrow> db \<Rightarrow> (string \<times> classification) list" where
  "classify_routes_for_torrent_files torrentFileIds now d =
     (let ids = distinct_on id (filter (\<lambda>i. i \<noteq> []) torrentFileIds);
          rows = distinct_on row_columns (route_rows (\<lambda>t. t \<in> set ids) d)
      in map (\<lambda>i. (i, classify_rows now (filter (\<lambda>(f, _). pf_torrent_file_id f = Some i) rows))) ids)"

definition classify_routes_for_torrent_file :: "string \<Rightarrow> int \<Rightarrow> db \<Rightarrow> classification" where
  "classify_routes_for_torrent_file i now d =
     (case map_of (classify_routes_for_torrent_files [i] now d) i of
        None \<Rightarrow> empty_classification | Some c \<Rightarrow> c)"

definition providers_needing_route :: "classification \<Rightarrow> string list" where
  "providers_needing_route c =
     (let view = (\<lambda>p. map_of (cl_byProvider c) p); all = [''torbox'', ''realdebrid''];
          dead = filter (\<lambda>p. case view p of None \<Rightarrow> False | Some (st, _) \<Rightarrow> st = Dead) all;
          absent = filter (\<lambda>p. view p = None) all
      in dead @ absent)"

section \<open>Projections of the store\<close>

record coordinate =
  co_provider :: string
  co_account_scope :: string
  co_provider_resource_id :: string
  co_placement_state :: placement_state
  co_provider_file_id :: string
  co_provider_path :: string
  co_size :: "int option"

fun coordinate_of :: "route_row \<Rightarrow> coordinate" where
  "coordinate_of (f, p, ev) = \<lparr>co_provider = pl_provider p, co_account_scope = pl_account_scope p,
     co_provider_resource_id = pl_provider_resource_id p, co_placement_state = pl_state p,
     co_provider_file_id = pf_provider_file_id f, co_provider_path = pf_path f, co_size = pf_size f\<rparr>"

fun terminal_now :: "int \<Rightarrow> route_row \<Rightarrow> bool" where
  "terminal_now now (f, p, ev) = (case ev of None \<Rightarrow> False
     | Some e \<Rightarrow> de_state e = EvTerminal \<and> now < de_expires_at e)"

fun coordinate_order :: "int \<Rightarrow> route_row \<Rightarrow> nat \<times> string \<times> string \<times> string" where
  "coordinate_order now (f, p, ev) =
     (case ev of None \<Rightarrow> 1 | Some e \<Rightarrow> if de_state e = EvUsable \<and> now < de_expires_at e then 0 else 1,
      pl_provider p, pl_account_scope p, pf_provider_file_id f)"

definition list_data_plane_coordinates :: "int \<Rightarrow> string option \<Rightarrow> db \<Rightarrow> coordinate list res" where
  "list_data_plane_coordinates now torrentFileId d =
     res_bind (require_string torrentFileId ''torrentFileId'' 256) (\<lambda>_.
       Inr (map coordinate_of (sort_key (coordinate_order now)
         (filter (\<lambda>r. \<not> terminal_now now r) (route_rows (\<lambda>t. Some t = torrentFileId) d)))))"

definition resolve_delivery_coordinates ::
  "string option \<Rightarrow> string option \<Rightarrow> db \<Rightarrow> (string \<times> string) option res" where
  "resolve_delivery_coordinates infoHash torrentFileId d =
     (case torrentFileId of None \<Rightarrow> Inr None
      | Some i \<Rightarrow> if i = [] then Inr None else
        res_bind (get_torrent_file d torrentFileId) (\<lambda>tf. case tf of
            None \<Rightarrow> Inr None
          | Some t \<Rightarrow>
              if (case infoHash of None \<Rightarrow> False | Some h \<Rightarrow> h \<noteq> [] \<and> tf_info_hash t \<noteq> store_info_hash h) then Inr None
              else Inr (case sort_key (\<lambda>(f, p, ev). (pl_provider p, pl_account_scope p, pf_provider_file_id f))
                      (route_rows (\<lambda>t. t = i) d) of
                  [] \<Rightarrow> None
                | (f, p, ev) # _ \<Rightarrow> Some (pl_id p, pf_provider_file_id f))))"

section \<open>Recovery\<close>

definition bounded_limit :: "int \<Rightarrow> nat" where
  "bounded_limit limit = nat (max 1 (if limit = 0 then 25 else limit))"

definition usable_placement_count :: "string \<Rightarrow> db \<Rightarrow> nat" where
  "usable_placement_count i d = length (distinct_on (\<lambda>(f, p, ev). pl_id p) (route_rows (\<lambda>t. t = i) d))"

definition bound_torrent_files :: "db \<Rightarrow> (torrent_file \<times> binding) list" where
  "bound_torrent_files d = concat (map (\<lambda>b. map (\<lambda>t. (t, b))
     (filter (\<lambda>t. tf_id t = bd_torrent_file_id b) (db_torrent_files d)))
     (filter (\<lambda>b. bd_status b = BdActive) (db_bindings d)))"

definition find_stale_route_torrent_files :: "int \<Rightarrow> db \<Rightarrow> string list" where
  "find_stale_route_torrent_files limit d =
     take (bounded_limit limit) (map (\<lambda>(t, b). tf_id t)
       (sort_key (\<lambda>(t, b). (bd_valid_from b, bd_id b)) (distinct_on (\<lambda>(t, b). tf_id t)
         (filter (\<lambda>(t, b). route_rows (\<lambda>i. i = tf_id t) d = []) (bound_torrent_files d)))))"

definition find_evidence_repair_due_torrent_files :: "int \<Rightarrow> int \<Rightarrow> db \<Rightarrow> (string \<times> string \<times> nat) list" where
  "find_evidence_repair_due_torrent_files limit now d =
     take (bounded_limit limit) (concat (map (\<lambda>(t, b).
         let view = classify_routes_for_torrent_file (tf_id t) now d
         in if cl_allRoutesDead view then [(tf_id t, tf_info_hash t, length (cl_dead view))] else [])
       (sort_key (\<lambda>(t, b). (bd_valid_from b, bd_id b)) (distinct_on (\<lambda>(t, b). (tf_id t, tf_info_hash t))
         (bound_torrent_files d)))))"

record dead_placement =
  dp_torrentFileId :: string
  dp_provider :: string
  dp_resourceId :: string
  dp_placementId :: string

definition active_torrent_files :: "db \<Rightarrow> string list" where
  "active_torrent_files d =
     distinct_on id (map bd_torrent_file_id (filter (\<lambda>b. bd_status b = BdActive) (db_bindings d)))"

definition find_evidence_proven_dead_placements :: "int \<Rightarrow> int \<Rightarrow> db \<Rightarrow> dead_placement list" where
  "find_evidence_proven_dead_placements now limit d =
     (let bound = active_torrent_files d; views = classify_routes_for_torrent_files bound now d
      in take (bounded_limit limit) (concat (map (\<lambda>i. case map_of views i of
            None \<Rightarrow> []
          | Some view \<Rightarrow>
              if cl_dead view = [] \<or> \<not> list_ex (\<lambda>r. rte_state r \<noteq> Dead) (cl_routes view) then []
              else map (\<lambda>r. \<lparr>dp_torrentFileId = i, dp_provider = rte_provider r,
                     dp_resourceId = rte_providerResourceId r, dp_placementId = rte_placementId r\<rparr>) (cl_dead view))
         bound)))"

fun retire_routes :: "int \<Rightarrow> int \<Rightarrow> dead_placement list \<Rightarrow> db \<Rightarrow> db \<times> dead_placement list" where
  "retire_routes clock at [] d = (d, [])"
| "retire_routes clock at (r # rs) d =
     (case mark_placement_removed clock (dp_placementId r) (Some ''route-terminal-evidence'') (Some at) d of
        Inl _ \<Rightarrow> retire_routes clock at rs d
      | Inr (d1, _) \<Rightarrow> let (d2, out) = retire_routes clock at rs d1 in (d2, r # out))"

text \<open>The list of dead placements already has at most \<open>limit\<close> entries, the bound of the loop.\<close>

definition retire_verified_dead_redundant_routes :: "int \<Rightarrow> int \<Rightarrow> int \<Rightarrow> db \<Rightarrow> db \<times> dead_placement list" where
  "retire_verified_dead_redundant_routes clock limit at d =
     retire_routes clock at (find_evidence_proven_dead_placements at limit d) d"

end
