(* ===== verification/Route_Properties.thy ===== *)
theory Route_Properties
  imports Routes Binding_Properties
begin

text \<open>
  Properties of the route classification, of the coordinates offered to the data plane, and of the
  retirement of dead routes, with the interplay between delivery evidence and inventories.
\<close>

section \<open>The classification of one torrent file\<close>

definition routes_of :: "string \<Rightarrow> int \<Rightarrow> db \<Rightarrow> route list" where
  "routes_of i now d = map (classify_row now) (distinct_on row_columns (route_rows (\<lambda>t. t = i) d))"

lemma filter_rows_single:
  "filter (\<lambda>(f, _). pf_torrent_file_id f = Some i) (distinct_on row_columns (route_rows (\<lambda>t. t = i) d))
     = distinct_on row_columns (route_rows (\<lambda>t. t = i) d)"
  using set_distinct_on_subset [of row_columns "route_rows (\<lambda>t. t = i) d"]
  by (auto simp: filter_id_conv in_route_rows routable_def split: option.splits)

lemma classify_one:
  assumes "i \<noteq> []"
  shows "classify_routes_for_torrent_file i now d = classify_rows now (distinct_on row_columns (route_rows (\<lambda>t. t = i) d))"
  using assms filter_rows_single [of i d]
  by (simp add: classify_routes_for_torrent_file_def classify_routes_for_torrent_files_def Let_def)

lemma classify_rows_routes [simp]:
  "cl_routes (classify_rows now rows) = map (classify_row now) rows"
  "cl_dead (classify_rows now rows) = filter (\<lambda>r. rte_state r = Dead) (map (classify_row now) rows)"
  "cl_byProvider (classify_rows now rows) = fold add_route (map (classify_row now) rows) []"
  by (simp_all add: classify_rows_def Let_def)

text \<open>Rows that agree in the columns of the query are classified alike.\<close>

lemma classify_columns:
  assumes "row_columns r = row_columns s"
  shows "classify_row now r = classify_row now s"
proof -
  obtain f p e g q h where rs: "r = (f, p, e)" "s = (g, q, h)" by (cases r; cases s) blast
  have "classify_state now e = classify_state now h"
    using assms unfolding rs row_columns_def classify_state_def
    by (cases e; cases h) (auto simp: Let_def)
  then show ?thesis using assms unfolding rs row_columns_def by simp
qed

lemma routes_of_set: "set (routes_of i now d) = classify_row now ` set (route_rows (\<lambda>t. t = i) d)"
proof
  show "set (routes_of i now d) \<subseteq> classify_row now ` set (route_rows (\<lambda>t. t = i) d)"
    unfolding routes_of_def set_map by (rule image_mono) (rule set_distinct_on_subset)
  show "classify_row now ` set (route_rows (\<lambda>t. t = i) d) \<subseteq> set (routes_of i now d)"
  proof (rule image_subsetI)
    fix r assume "r \<in> set (route_rows (\<lambda>t. t = i) d)"
    then have "row_columns r \<in> row_columns ` set (distinct_on row_columns (route_rows (\<lambda>t. t = i) d))"
      by (simp add: distinct_on_keys)
    then obtain s where s: "s \<in> set (distinct_on row_columns (route_rows (\<lambda>t. t = i) d))" "row_columns r = row_columns s"
      by (rule imageE)
    from classify_columns [OF s(2)] s(1) show "classify_row now r \<in> set (routes_of i now d)"
      by (simp add: routes_of_def)
  qed
qed

text \<open>The view of each provider.\<close>

lemma map_of_add_route:
  "map_of (add_route r v) q = (if q \<noteq> rte_provider r then map_of v q
     else Some (case map_of v q of None \<Rightarrow> (rte_state r, [r])
       | Some (st, rs) \<Rightarrow> (if state_rank (rte_state r) < state_rank st then rte_state r else st, rs @ [r])))"
  by (induction v) auto

lemma provider_view:
  "case map_of (fold add_route rs []) q of
     None \<Rightarrow> (\<forall>r \<in> set rs. rte_provider r \<noteq> q)
   | Some (st, qs) \<Rightarrow> qs = filter (\<lambda>r. rte_provider r = q) rs \<and> (\<exists>r \<in> set qs. rte_state r = st)
       \<and> (\<forall>r \<in> set qs. state_rank st \<le> state_rank (rte_state r))"
proof (induction rs rule: rev_induct)
  case (snoc r rs)
  then show ?case
    by (auto simp: map_of_add_route split: option.splits if_splits) (meson less_imp_le order_trans)
qed simp

lemma rank_dead: "state_rank s \<le> 2" "2 \<le> state_rank s \<Longrightarrow> s = Dead"
  by (cases s; simp)+

section \<open>Properties\<close>

text \<open>
  C20: The data plane is offered exactly the routes that the classification does not call dead at
  the same time, and the serviceable ones before the others.
\<close>

theorem data_plane_offers_live_routes:
  assumes "list_data_plane_coordinates now (Some i) d = Inr cs"
  shows "\<exists>rows. cs = map coordinate_of rows
    \<and> classify_row now ` set rows = {r \<in> set (cl_routes (classify_routes_for_torrent_file i now d)). rte_state r \<noteq> Dead}
    \<and> sorted_wrt (\<lambda>r s. rte_state (classify_row now s) = Serviceable \<longrightarrow> rte_state (classify_row now r) = Serviceable) rows"
proof -
  let ?rows = "sort_key (coordinate_order now) (filter (\<lambda>r. \<not> terminal_now now r) (route_rows (\<lambda>t. t = i) d))"
  from assms have ne: "i \<noteq> []" and cs: "cs = map coordinate_of ?rows"
    by (auto simp: list_data_plane_coordinates_def res_bind_Inr require_string_Inr js_trim_def)
  have dead_now: "terminal_now now r = (rte_state (classify_row now r) = Dead)" for r
    by (cases r) (auto simp: classify_state_def Let_def split: option.splits)
  have "set (cl_routes (classify_routes_for_torrent_file i now d)) = classify_row now ` set (route_rows (\<lambda>t. t = i) d)"
    using routes_of_set [of i now d] by (simp add: classify_one [OF ne] routes_of_def)
  then have live: "classify_row now ` set ?rows = {r \<in> set (cl_routes (classify_routes_for_torrent_file i now d)). rte_state r \<noteq> Dead}"
    using dead_now by auto
  have first: "fst (coordinate_order now r) = (if rte_state (classify_row now r) = Serviceable then 0 else 1)" for r
    by (cases r) (auto simp: classify_state_def Let_def split: option.splits)
  have "sorted (map (coordinate_order now) ?rows)" by simp
  then have "sorted_wrt (\<lambda>r s. coordinate_order now r \<le> coordinate_order now s) ?rows"
    by (simp add: sorted_map)
  then have "sorted_wrt (\<lambda>r s. rte_state (classify_row now s) = Serviceable \<longrightarrow> rte_state (classify_row now r) = Serviceable) ?rows"
  proof (rule sorted_wrt_mono_rel [rotated])
    fix r s assume "coordinate_order now r \<le> coordinate_order now s"
    then have "fst (coordinate_order now r) \<le> fst (coordinate_order now s)"
      by (auto simp: less_eq_prod_def)
    then show "rte_state (classify_row now s) = Serviceable \<longrightarrow> rte_state (classify_row now r) = Serviceable"
      by (simp add: first split: if_splits)
  qed
  with cs live show ?thesis by blast
qed

text \<open>
  A provider needs a route exactly if it is one of the two providers and none of its routes is
  other than dead, and the providers that lost a route come before those that never had one.
\<close>

theorem providers_needing_route_exact:
  assumes "i \<noteq> []" "c = classify_routes_for_torrent_file i now d"
  shows "(p \<in> set (providers_needing_route c)) = (p \<in> {''torbox'', ''realdebrid''}
      \<and> (\<forall>r \<in> set (cl_routes c). rte_provider r = p \<longrightarrow> rte_state r = Dead))
    \<and> sorted_wrt (\<lambda>p q. q \<in> rte_provider ` set (cl_routes c) \<longrightarrow> p \<in> rte_provider ` set (cl_routes c)) (providers_needing_route c)"
proof -
  define rs where "rs = cl_routes c"
  have by_p: "cl_byProvider c = fold add_route rs []" unfolding rs_def assms(2) classify_one [OF assms(1)] by simp
  have none: "(map_of (fold add_route rs []) q = None) = (q \<notin> rte_provider ` set rs)" for q
    using provider_view [of rs q] by (auto split: option.splits)
  have dead: "(case map_of (fold add_route rs []) q of None \<Rightarrow> False | Some (st, _) \<Rightarrow> st = Dead)
      = (q \<in> rte_provider ` set rs \<and> (\<forall>r \<in> set rs. rte_provider r = q \<longrightarrow> rte_state r = Dead))" for q
  proof (cases "map_of (fold add_route rs []) q")
    case None
    then show ?thesis using none [of q] by auto
  next
    case (Some v)
    obtain st qs where v: "v = (st, qs)" by (cases v)
    from provider_view [of rs q, unfolded Some v option.case prod.case] have view: "qs = filter (\<lambda>r. rte_provider r = q) rs" "\<exists>r \<in> set qs. rte_state r = st"
        "\<forall>r \<in> set qs. state_rank st \<le> state_rank (rte_state r)" by blast+
    have "q \<in> rte_provider ` set rs" using view(1,2) by auto
    moreover have "(st = Dead) = (\<forall>r \<in> set qs. rte_state r = Dead)"
      using view(2,3) rank_dead by (metis state_rank.simps(3))
    ultimately show ?thesis using Some v view(1) by auto
  qed
  have eq: "providers_needing_route c =
      filter (\<lambda>q. q \<in> rte_provider ` set rs \<and> (\<forall>r \<in> set rs. rte_provider r = q \<longrightarrow> rte_state r = Dead)) [''torbox'', ''realdebrid'']
      @ filter (\<lambda>q. q \<notin> rte_provider ` set rs) [''torbox'', ''realdebrid'']"
    unfolding providers_needing_route_def Let_def by_p dead none ..
  have "(p \<in> set (providers_needing_route c)) = (p \<in> {''torbox'', ''realdebrid''}
      \<and> (\<forall>r \<in> set rs. rte_provider r = p \<longrightarrow> rte_state r = Dead))"
    unfolding eq set_append set_filter by auto (metis imageI)+
  moreover have "sorted_wrt (\<lambda>p q. q \<in> rte_provider ` set rs \<longrightarrow> p \<in> rte_provider ` set rs) (providers_needing_route c)"
    unfolding eq sorted_wrt_append by simp
  ultimately show ?thesis unfolding rs_def by blast
qed

section \<open>Retirement of dead routes\<close>

lemma mark_removed_frame:
  assumes "mark_placement_removed clock i r at d = Inr (d', p)"
  shows "db_provider_files d' = db_provider_files d" "db_torrent_files d' = db_torrent_files d"
    "db_bindings d' = db_bindings d" "db_delivery d' = db_delivery d"
    "q \<in> set (db_placements d) \<Longrightarrow> pl_id q \<noteq> i \<Longrightarrow> q \<in> set (db_placements d')"
proof -
  from assms have "d' = d \<or> (\<exists>f g. d' = d\<lparr>db_placements := upd_where (\<lambda>r. pl_id r = i \<and> pl_state r \<noteq> PsRemoved) f (db_placements d),
      db_mappings := g\<rparr>)"
    unfolding mark_placement_removed_def Let_def by (auto simp: res_bind_Inr split: if_splits)
  then show "db_provider_files d' = db_provider_files d" "db_torrent_files d' = db_torrent_files d"
    "db_bindings d' = db_bindings d" "db_delivery d' = db_delivery d"
    "q \<in> set (db_placements d) \<Longrightarrow> pl_id q \<noteq> i \<Longrightarrow> q \<in> set (db_placements d')"
    by (auto intro: in_upd_where_kept)
qed

lemma retire_routes_frame:
  assumes "retire_routes clock at rs d = (d', out)"
  shows "db_provider_files d' = db_provider_files d \<and> db_torrent_files d' = db_torrent_files d
    \<and> db_bindings d' = db_bindings d \<and> db_delivery d' = db_delivery d
    \<and> (\<forall>q \<in> set (db_placements d). pl_id q \<notin> dp_placementId ` set rs \<longrightarrow> q \<in> set (db_placements d'))"
  using assms
proof (induction rs arbitrary: d d' out)
  case (Cons r rs)
  show ?case
  proof (cases "mark_placement_removed clock (dp_placementId r) (Some ''route-terminal-evidence'') (Some at) d")
    case (Inl e)
    with Cons show ?thesis by simp
  next
    case (Inr v)
    obtain d1 p where v: "v = (d1, p)" by (cases v)
    obtain d2 o2 where r2: "retire_routes clock at rs d1 = (d2, o2)" by (cases "retire_routes clock at rs d1")
    from Cons.prems Inr v r2 have "d' = d2" by simp
    with Cons.IH [OF r2] mark_removed_frame [OF Inr [unfolded v]] show ?thesis by auto
  qed
qed simp

lemma map_of_pairs: "i \<in> set xs \<Longrightarrow> map_of (map (\<lambda>i. (i, f i)) xs) i = Some (f i)"
  by (induction xs) auto

lemma proven_dead_row:
  assumes "x \<in> set (find_evidence_proven_dead_placements now limit d)"
  shows "\<exists>f p e. (f, p, e) \<in> set (route_rows (\<lambda>t. t = dp_torrentFileId x) d) \<and> classify_state now e = Dead
    \<and> pl_id p = dp_placementId x \<and> dp_torrentFileId x \<in> set (active_torrent_files d)"
proof -
  let ?ids = "distinct_on id (filter (\<lambda>i. i \<noteq> []) (active_torrent_files d))"
  let ?rows = "distinct_on row_columns (route_rows (\<lambda>t. t \<in> set ?ids) d)"
  let ?f = "\<lambda>i. classify_rows now (filter (\<lambda>(f, _). pf_torrent_file_id f = Some i) ?rows)"
  from in_set_takeD [OF assms [unfolded find_evidence_proven_dead_placements_def Let_def]]
  obtain i where i1: "i \<in> set (active_torrent_files d)"
    and case_x: "x \<in> set (case map_of (classify_routes_for_torrent_files (active_torrent_files d) now d) i of
            None \<Rightarrow> []
          | Some view \<Rightarrow>
              if cl_dead view = [] \<or> \<not> list_ex (\<lambda>r. rte_state r \<noteq> Dead) (cl_routes view) then []
              else map (\<lambda>r. \<lparr>dp_torrentFileId = i, dp_provider = rte_provider r,
                     dp_resourceId = rte_providerResourceId r, dp_placementId = rte_placementId r\<rparr>) (cl_dead view))"
    by auto
  from case_x obtain view where i2: "map_of (classify_routes_for_torrent_files (active_torrent_files d) now d) i = Some view"
    by (cases "map_of (classify_routes_for_torrent_files (active_torrent_files d) now d) i") auto
  with case_x have i3: "x \<in> set (map (\<lambda>r. \<lparr>dp_torrentFileId = i, dp_provider = rte_provider r,
                     dp_resourceId = rte_providerResourceId r, dp_placementId = rte_placementId r\<rparr>) (cl_dead view))"
    by (simp split: if_splits)
  note i = i1 i2 i3
  from map_of_SomeD [OF i(2)] have view: "view = ?f i"
    unfolding classify_routes_for_torrent_files_def Let_def set_map by blast
  from i(3) obtain f p e where row: "(f, p, e) \<in> set ?rows" "pf_torrent_file_id f = Some i" "classify_state now e = Dead"
      "dp_placementId x = pl_id p" "dp_torrentFileId x = i"
    unfolding view by auto
  have "(f, p, e) \<in> set (route_rows (\<lambda>t. t \<in> set ?ids) d)" by (rule subsetD [OF set_distinct_on_subset row(1)])
  with row i(1) show ?thesis by (auto simp: in_route_rows routable_def)
qed

text \<open>
  C21: If no placement carries present mapped files of two torrent files, retiring the proven dead
  routes never takes the last route that is not dead from an actively bound torrent file, and it
  changes no binding, file or evidence.
\<close>

theorem retirement_keeps_a_live_route:
  assumes inv: "inventory_inv d"
    and single: "\<And>f g. f \<in> set (db_provider_files d) \<Longrightarrow> g \<in> set (db_provider_files d) \<Longrightarrow> current_mapping f \<Longrightarrow>
      current_mapping g \<Longrightarrow> pf_placement_id f = pf_placement_id g \<Longrightarrow> pf_torrent_file_id f = pf_torrent_file_id g"
    and live: "r \<in> set (cl_routes (classify_routes_for_torrent_file i at d))" "rte_state r \<noteq> Dead" "i \<noteq> []"
    and run: "retire_verified_dead_redundant_routes clock limit at d = (d', out)"
  shows "r \<in> set (cl_routes (classify_routes_for_torrent_file i at d')) \<and> db_bindings d' = db_bindings d
    \<and> db_provider_files d' = db_provider_files d \<and> db_delivery d' = db_delivery d"
proof -
  note frame = retire_routes_frame [OF run [unfolded retire_verified_dead_redundant_routes_def]]
  have routes: "set (cl_routes (classify_routes_for_torrent_file i at x)) = classify_row at ` set (route_rows (\<lambda>t. t = i) x)" for x
    using routes_of_set [of i at x] by (simp add: classify_one [OF live(3)] routes_of_def)
  from live(1) obtain f p e where row: "(f, p, e) \<in> set (route_rows (\<lambda>t. t = i) d)" "r = classify_row at (f, p, e)"
    unfolding routes by auto
  have keep: "pl_id p \<notin> dp_placementId ` set (find_evidence_proven_dead_placements at limit d)"
  proof
    assume "pl_id p \<in> dp_placementId ` set (find_evidence_proven_dead_placements at limit d)"
    then obtain x where x: "x \<in> set (find_evidence_proven_dead_placements at limit d)" "pl_id p = dp_placementId x" by blast
    from proven_dead_row [OF x(1)] obtain g q h where dead: "(g, q, h) \<in> set (route_rows (\<lambda>t. t = dp_torrentFileId x) d)"
        "classify_state at h = Dead" "pl_id q = dp_placementId x" by blast
    have fg: "f \<in> set (db_provider_files d)" "g \<in> set (db_provider_files d)" "current_mapping f" "current_mapping g"
        "pf_placement_id f = pf_placement_id g"
      using row(1) dead x(2) by (auto simp: in_route_rows routable_def current_mapping_def split: option.splits)
    from single [OF fg] have "mapping_target f = mapping_target g" using fg(5) by (simp add: mapping_target_def)
    with fg have "f = g" by (intro unique_whereD [OF inventory_invD(6) [OF inv]])
    moreover have "p = q"
      by (rule unique_byD [OF inventory_invD(1) [OF inv]]) (use row(1) dead x(2) in \<open>auto simp: in_route_rows\<close>)
    ultimately have "e = h" using row(1) dead(1) by (simp add: in_route_rows)
    with live(2) row(2) dead(2) show False by simp
  qed
  have "(f, p, e) \<in> set (route_rows (\<lambda>t. t = i) d')"
    using row(1) frame keep by (auto simp: in_route_rows route_evidence_def)
  then show ?thesis using frame row(2) unfolding routes by blast
qed

text \<open>Two items bound to the files of a season pack on two providers, each of which has lost another of the files.\<close>

definition route_file :: "string \<Rightarrow> string \<Rightarrow> string \<Rightarrow> provider_file" where
  "route_file p i tf = sample_file\<lparr>pf_id := ''pf_'' @ p @ i, pf_placement_id := p, pf_provider_file_id := i,
     pf_torrent_file_id := Some tf\<rparr>"

definition route_terminal :: "placement \<Rightarrow> string \<Rightarrow> delivery_evidence" where
  "route_terminal p i = \<lparr>de_provider = pl_provider p, de_account_scope = pl_account_scope p, de_placement_id = pl_id p,
     de_provider_file_id = i, de_info_hash = Some sample_hash, de_file_index_key = -1, de_state = EvTerminal,
     de_reason = None, de_failure_category = None, de_endpoint_class = None, de_retry_after_ms = None,
     de_observed_at = 400, de_expires_at = 1000, de_recorded_at = 400\<rparr>"

definition second_placement :: placement where
  "second_placement = sample_placement\<lparr>pl_id := ''pl_u2'', pl_provider := ''realdebrid''\<rparr>"

definition route_db :: "string \<Rightarrow> db" where
  "route_db other = empty_db\<lparr>db_placements := [sample_placement, second_placement],
     db_torrent_files := [sample_torrent_file, sample_torrent_file\<lparr>tf_id := ''tf_2'', tf_internal_path := ''c.mkv''\<rparr>],
     db_provider_files := [route_file ''pl_u1'' ''5'' ''tf_1'', route_file ''pl_u2'' ''5'' ''tf_1'',
        route_file ''pl_u1'' ''6'' ''tf_2'', route_file ''pl_u2'' ''6'' ''tf_2''],
     db_bindings := [sample_binding, sample_binding\<lparr>bd_id := ''bd_b'', bd_library_item_id := ''li_2'', bd_torrent_file_id := other\<rparr>],
     db_delivery := [route_terminal sample_placement ''5'', route_terminal second_placement ''6'']\<rparr>"

text \<open>Which placements are left by a retirement.\<close>

definition live_placements :: "db \<Rightarrow> placement set" where
  "live_placements d = {q \<in> set (db_placements d). pl_state q \<noteq> PsRemoved}"

lemma mark_removed_live:
  assumes u: "unique_by pl_id (db_placements d)" and "i \<in> pl_id ` set (db_placements d)"
  obtains d' p where "mark_placement_removed clock i r at d = Inr (d', p)"
    "live_placements d' = {q \<in> live_placements d. pl_id q \<noteq> i}" "map pl_id (db_placements d') = map pl_id (db_placements d)"
proof -
  from assms(2) obtain q where q: "find (\<lambda>r. pl_id r = i) (db_placements d) = Some q" "q \<in> set (db_placements d)" "pl_id q = i"
    by (cases "find (\<lambda>r. pl_id r = i) (db_placements d)") (auto simp: find_None_iff dest: find_SomeD)
  have req: "require_placement d i = Inr q" by (simp add: require_placement_def get_placement_def q(1))
  show thesis
  proof (cases "pl_state q = PsRemoved")
    case True
    have "pl_state p = PsRemoved" if "p \<in> set (db_placements d)" "pl_id p = i" for p
      using unique_byD [OF u that(1) q(2)] that(2) q(3) True by simp
    with True req show thesis
      by (intro that [of d q]) (auto simp: mark_placement_removed_def live_placements_def)
  next
    case False
    let ?f = "remove_placement (nullish r ''stale-resource'') (nullish at clock) clock"
    let ?ps = "upd_where (\<lambda>r. pl_id r = i \<and> pl_state r \<noteq> PsRemoved) ?f (db_placements d)"
    have f: "pl_id (?f x) = pl_id x" "pl_state (?f x) = PsRemoved" for x by (simp_all add: remove_placement_def)
    have ids: "map pl_id ?ps = map pl_id (db_placements d)" by (rule map_upd_where) (simp add: f)
    have "find (\<lambda>r. pl_id r = i) ?ps = map_option (\<lambda>r. if pl_id r = i \<and> pl_state r \<noteq> PsRemoved then ?f r else r)
        (find (\<lambda>r. pl_id r = i) (db_placements d))"
      by (rule find_upd_where) (simp add: f)
    then obtain q' where q': "find (\<lambda>r. pl_id r = i) ?ps = Some q'" using q(1) by auto
    have "{p \<in> set ?ps. pl_state p \<noteq> PsRemoved} = {p \<in> live_placements d. pl_id p \<noteq> i}"
    proof (intro set_eqI iffI)
      fix p
      assume "p \<in> {p \<in> set ?ps. pl_state p \<noteq> PsRemoved}"
      then have p: "p \<in> set ?ps" "pl_state p \<noteq> PsRemoved" by simp_all
      from p(1) show "p \<in> {p \<in> live_placements d. pl_id p \<noteq> i}"
        by (cases rule: in_upd_whereE) (use p(2) f(2) in \<open>auto simp: live_placements_def\<close>)
    next
      fix p
      assume "p \<in> {p \<in> live_placements d. pl_id p \<noteq> i}"
      then have p: "p \<in> set (db_placements d)" "pl_state p \<noteq> PsRemoved" "pl_id p \<noteq> i" by (simp_all add: live_placements_def)
      from p(1,3) have "p \<in> set ?ps" by (intro in_upd_where_kept) simp_all
      with p(2) show "p \<in> {p \<in> set ?ps. pl_state p \<noteq> PsRemoved}" by simp
    qed
    moreover have removed: "mark_placement_removed clock i r at d = Inr (d\<lparr>db_placements := ?ps,
        db_mappings := upd_where (\<lambda>x. fm_placement_id x = i \<and> fm_state x = CmMapped)
          (demote_mapping (nullish r ''stale-resource'')) (db_mappings d)\<rparr>, q')"
      using False q' by (simp add: mark_placement_removed_def Let_def req) (simp add: require_placement_def get_placement_def)
    ultimately show thesis using ids by (intro that [OF removed]) (simp_all add: live_placements_def)
  qed
qed

lemma retire_routes_live:
  assumes "unique_by pl_id (db_placements d)" "dp_placementId ` set rs \<subseteq> pl_id ` set (db_placements d)"
    and "retire_routes clock at rs d = (d', out)"
  shows "live_placements d' = {q \<in> live_placements d. pl_id q \<notin> dp_placementId ` set rs}"
  using assms
proof (induction rs arbitrary: d d' out)
  case (Cons r rs)
  from Cons.prems(2) have "dp_placementId r \<in> pl_id ` set (db_placements d)" by auto
  then obtain d1 p where d1: "mark_placement_removed clock (dp_placementId r) (Some ''route-terminal-evidence'') (Some at) d = Inr (d1, p)"
      "live_placements d1 = {q \<in> live_placements d. pl_id q \<noteq> dp_placementId r}"
      "map pl_id (db_placements d1) = map pl_id (db_placements d)"
    by (rule mark_removed_live [OF Cons.prems(1)])
  from d1(3) have ids: "unique_by pl_id (db_placements d1)" "pl_id ` set (db_placements d1) = pl_id ` set (db_placements d)"
    using Cons.prems(1) by (simp_all add: unique_by_def flip: set_map)
  obtain d2 o2 where r2: "retire_routes clock at rs d1 = (d2, o2)" by (cases "retire_routes clock at rs d1")
  with Cons.prems(3) d1(1) have "d' = d2" by simp
  with Cons.IH [OF ids(1) _ r2] Cons.prems(2) ids(2) d1(2) show ?case by auto
qed simp

lemma retired_rows:
  assumes inv: "inventory_inv d" and run: "retire_verified_dead_redundant_routes clock limit at d = (d', out)"
  shows "set (route_rows Q d') = {(f, p, e) \<in> set (route_rows Q d).
    pl_id p \<notin> dp_placementId ` set (find_evidence_proven_dead_placements at limit d)}"
proof -
  let ?rs = "find_evidence_proven_dead_placements at limit d"
  have "dp_placementId ` set ?rs \<subseteq> pl_id ` set (db_placements d)"
  proof clarify
    fix x
    assume "x \<in> set ?rs"
    from proven_dead_row [OF this] obtain f p e where "(f, p, e) \<in> set (route_rows (\<lambda>t. t = dp_torrentFileId x) d)"
      "pl_id p = dp_placementId x" by blast
    then show "dp_placementId x \<in> pl_id ` set (db_placements d)" unfolding in_route_rows by (metis image_eqI)
  qed
  from retire_routes_live [OF inventory_invD(1) [OF inv] this run [unfolded retire_verified_dead_redundant_routes_def]]
  have "p \<in> set (db_placements d') \<and> pl_state p \<noteq> PsRemoved \<longleftrightarrow>
      p \<in> set (db_placements d) \<and> pl_state p \<noteq> PsRemoved \<and> pl_id p \<notin> dp_placementId ` set ?rs" for p
    unfolding live_placements_def by blast
  moreover have "db_provider_files d' = db_provider_files d" "route_evidence d' f p = route_evidence d f p" for f p
    using retire_routes_frame [OF run [unfolded retire_verified_dead_redundant_routes_def]] by (simp_all add: route_evidence_def)
  ultimately have "(f, p, e) \<in> set (route_rows Q d') \<longleftrightarrow>
      (f, p, e) \<in> set (route_rows Q d) \<and> pl_id p \<notin> dp_placementId ` set ?rs" for f p e
    unfolding in_route_rows by metis
  then show ?thesis by auto
qed

text \<open>
  C22: A retirement is by placement, not by route. Each placement that it retires is the dead route of some
  bound torrent file, and every torrent file is left with exactly its routes on the other placements: its
  live routes on a retired placement are gone as well. So when all routes of a torrent file lie on placements
  that are dead for some bound torrent file, whatever their own state, nothing is offered for it any more.
\<close>

theorem retirement_takes_whole_placements:
  assumes inv: "inventory_inv d" and run: "retire_verified_dead_redundant_routes clock limit at d = (d', out)" and "i \<noteq> []"
    and gone: "gone = dp_placementId ` set (find_evidence_proven_dead_placements at limit d)"
  shows "(\<forall>x \<in> set (find_evidence_proven_dead_placements at limit d). dp_torrentFileId x \<in> set (active_torrent_files d)
        \<and> (\<exists>f p e. (f, p, e) \<in> set (route_rows (\<lambda>t. t = dp_torrentFileId x) d) \<and> classify_state at e = Dead \<and> pl_id p = dp_placementId x))
    \<and> set (cl_routes (classify_routes_for_torrent_file i at d'))
        = {r \<in> set (cl_routes (classify_routes_for_torrent_file i at d)). rte_placementId r \<notin> gone}
    \<and> (rte_placementId ` set (cl_routes (classify_routes_for_torrent_file i at d)) \<subseteq> gone \<and> length i \<le> 256 \<and> js_trim i = i
        \<longrightarrow> list_data_plane_coordinates later (Some i) d' = Inr [])"
proof -
  have routes: "set (cl_routes (classify_routes_for_torrent_file i at x)) = classify_row at ` set (route_rows (\<lambda>t. t = i) x)" for x
    using routes_of_set [of i at x] by (simp add: classify_one [OF assms(3)] routes_of_def)
  have place: "rte_placementId (classify_row at (f, p, e)) = pl_id p" for f p e by simp
  note rows = retired_rows [OF inv run, folded gone]
  have left: "set (cl_routes (classify_routes_for_torrent_file i at d'))
      = {r \<in> set (cl_routes (classify_routes_for_torrent_file i at d)). rte_placementId r \<notin> gone}"
    unfolding routes rows by (auto simp: image_iff)
  moreover have "list_data_plane_coordinates later (Some i) d' = Inr []"
    if all: "rte_placementId ` set (cl_routes (classify_routes_for_torrent_file i at d)) \<subseteq> gone" and ok: "length i \<le> 256" "js_trim i = i"
  proof -
    from all left have "set (cl_routes (classify_routes_for_torrent_file i at d')) = {}" by auto
    then have none: "route_rows (\<lambda>t. t = i) d' = []" unfolding routes by simp
    have "require_string (Some i) ''torrentFileId'' 256 = Inr i" using ok assms(3) by (simp add: require_string_def)
    then show ?thesis by (simp add: list_data_plane_coordinates_def none)
  qed
  ultimately show ?thesis using proven_dead_row [of _ at limit d] by blast
qed

theorem retirement_takes_whole_placements_witness:
  "\<exists>d' out. retire_verified_dead_redundant_routes 600 25 500 (route_db ''tf_2'') = (d', out)
     \<and> (\<forall>i \<in> {''tf_1'', ''tf_2''}. cl_hasRetryableRoute (classify_routes_for_torrent_file i 500 (route_db ''tf_2''))
        \<and> list_data_plane_coordinates 600 (Some i) d' = Inr [])"
proof -
  let ?d = "route_db ''tf_2''"
  have inv: "inventory_inv ?d" by code_simp
  have gone: "set (map dp_placementId (find_evidence_proven_dead_placements 500 25 ?d)) = {''pl_u1'', ''pl_u2''}"
    "\<forall>i \<in> {''tf_1'', ''tf_2''}. cl_hasRetryableRoute (classify_routes_for_torrent_file i 500 ?d)
       \<and> i \<noteq> [] \<and> length i \<le> 256 \<and> js_trim i = i
       \<and> list_all (\<lambda>r. rte_placementId r \<in> {''pl_u1'', ''pl_u2''}) (cl_routes (classify_routes_for_torrent_file i 500 ?d))"
    by code_simp+
  obtain d' out where run: "retire_verified_dead_redundant_routes 600 25 500 ?d = (d', out)"
    by (cases "retire_verified_dead_redundant_routes 600 25 500 ?d")
  have "list_data_plane_coordinates 600 (Some i) d' = Inr []" if "i \<in> {''tf_1'', ''tf_2''}" for i
  proof -
    from gone(2) that have "i \<noteq> []" "length i \<le> 256" "js_trim i = i"
      "rte_placementId ` set (cl_routes (classify_routes_for_torrent_file i 500 ?d)) \<subseteq> {''pl_u1'', ''pl_u2''}"
      by (auto simp: list_all_iff)
    with retirement_takes_whole_placements [OF inv run this(1) refl, of 600] gone(1) show ?thesis by simp
  qed
  with run gone(2) show ?thesis by blast
qed

text \<open>One file on two providers, dead on the first.\<close>

definition single_db :: db where
  "single_db = (route_db ''tf_1'')\<lparr>db_provider_files := [route_file ''pl_u1'' ''5'' ''tf_1'', route_file ''pl_u2'' ''5'' ''tf_1'']\<rparr>"

lemma single_db_runs:
  "list_all (\<lambda>r. rte_provider r = ''torbox'' \<longrightarrow> rte_state r = Dead) (cl_routes (classify_routes_for_torrent_file ''tf_1'' 500 single_db))"
  "list_ex (\<lambda>r. rte_provider r = ''realdebrid'' \<and> rte_state r = Retryable) (cl_routes (classify_routes_for_torrent_file ''tf_1'' 500 single_db))"
  "map dp_placementId (snd (retire_verified_dead_redundant_routes 600 25 500 single_db)) = [''pl_u1'']"
  "(case list_data_plane_coordinates 500 (Some ''tf_1'') single_db of Inl _ \<Rightarrow> [] | Inr cs \<Rightarrow> map co_provider cs) = [''realdebrid'']"
  by code_simp+

lemma single_db_inv: "inventory_inv single_db"
  by code_simp

lemma single_db_single:
  "f \<in> set (db_provider_files single_db) \<Longrightarrow> g \<in> set (db_provider_files single_db) \<Longrightarrow>
     pf_torrent_file_id f = pf_torrent_file_id g"
  by (auto simp: single_db_def route_file_def)

theorem data_plane_offers_live_routes_witness:
  "\<exists>cs rows. list_data_plane_coordinates 500 (Some ''tf_1'') single_db = Inr cs \<and> map co_provider cs = [''realdebrid'']
    \<and> cs = map coordinate_of rows \<and> (\<forall>r \<in> set rows. rte_state (classify_row 500 r) \<noteq> Dead)"
proof -
  obtain cs where cs: "list_data_plane_coordinates 500 (Some ''tf_1'') single_db = Inr cs" "map co_provider cs = [''realdebrid'']"
    using single_db_runs(4) by (auto split: sum.splits)
  from data_plane_offers_live_routes [OF cs(1)] obtain rows where rows: "cs = map coordinate_of rows"
    "classify_row 500 ` set rows = {r \<in> set (cl_routes (classify_routes_for_torrent_file ''tf_1'' 500 single_db)). rte_state r \<noteq> Dead}"
    by blast
  have "\<forall>r \<in> set rows. rte_state (classify_row 500 r) \<noteq> Dead"
    using rows(2) imageI [of _ "set rows" "classify_row 500"] by fastforce
  with cs rows(1) show ?thesis by (intro exI [of _ cs] exI [of _ rows]) simp
qed

theorem providers_needing_route_exact_witness:
  "''torbox'' \<in> set (providers_needing_route (classify_routes_for_torrent_file ''tf_1'' 500 single_db))
    \<and> ''realdebrid'' \<notin> set (providers_needing_route (classify_routes_for_torrent_file ''tf_1'' 500 single_db))"
proof -
  let ?rs = "cl_routes (classify_routes_for_torrent_file ''tf_1'' 500 single_db)"
  have "\<forall>r \<in> set ?rs. rte_provider r = ''torbox'' \<longrightarrow> rte_state r = Dead"
    using single_db_runs(1) unfolding list_all_iff .
  moreover have "\<exists>r \<in> set ?rs. rte_provider r = ''realdebrid'' \<and> rte_state r \<noteq> Dead"
    using single_db_runs(2) unfolding list_ex_iff by auto
  ultimately show ?thesis
    using providers_needing_route_exact [where i = "''tf_1''" and now = 500 and d = single_db and p = "''torbox''", OF _ refl]
      providers_needing_route_exact [where i = "''tf_1''" and now = 500 and d = single_db and p = "''realdebrid''", OF _ refl] by auto
qed

theorem retirement_keeps_a_live_route_witness:
  "\<exists>d' out r. retire_verified_dead_redundant_routes 600 25 500 single_db = (d', out) \<and> out \<noteq> []
    \<and> r \<in> set (cl_routes (classify_routes_for_torrent_file ''tf_1'' 500 d')) \<and> rte_state r = Retryable"
proof -
  obtain d' out where run: "retire_verified_dead_redundant_routes 600 25 500 single_db = (d', out)" by fastforce
  with single_db_runs(3) have out: "out \<noteq> []" by auto
  obtain r where r: "r \<in> set (cl_routes (classify_routes_for_torrent_file ''tf_1'' 500 single_db))" "rte_state r = Retryable"
    using single_db_runs(2) unfolding list_ex_iff by blast
  from retirement_keeps_a_live_route [OF single_db_inv single_db_single r(1) _ _ run] r(2) run out show ?thesis by auto
qed

section \<open>Re-observation\<close>

lemma replacement_keeps_placements:
  assumes "replace_provider_file_inventory now uuid p files opts d = Inr (d', l)" "inventory_inv d"
  shows "db_placements d' = db_placements d"
  using assms(1)
proof (cases rule: replace_inventory_cases)
  case (fresh ctx d1 seen)
  note plD = get_placement_SomeD [OF fresh(2)]
  from replaced_loop [OF fresh(6) assms(2)] plD have "loop_state ctx files seen d d1" by blast
  then have "db_placements d1 = db_placements d"
    by (auto simp: loop_state_def intro: file_tables_only_placements)
  with fresh(6) show ?thesis
    by (simp add: replaced_def supersede_terminal_route_evidence_def write_snapshot_def retire_unlisted_def Let_def)
qed simp

text \<open>
  A provider inventory that lists a file revives its route: at the time of the inventory the
  classification no longer calls any route of that placement and file dead, whatever was recorded
  before.
\<close>

theorem inventory_revives_routes:
  assumes run: "replace_provider_file_inventory now uuid p files opts d = Inr (d', l)" and inv: "inventory_inv d"
    and ns: "\<not> inventory_is_stale opts (nullish (io_observedAt opts) now) (get_provider_inventory_snapshot p d)"
    and r: "r \<in> set (cl_routes (classify_routes_for_torrent_file i (nullish (io_observedAt opts) now) d'))" "i \<noteq> []"
    and route: "rte_placementId r = p" "f \<in> set files" "file_id_of f = Inr (rte_providerFileId r)"
  shows "rte_state r \<noteq> Dead"
proof
  let ?at = "nullish (io_observedAt opts) now"
  assume dead: "rte_state r = Dead"
  from r(1) obtain g q e where row: "(g, q, e) \<in> set (route_rows (\<lambda>t. t = i) d')" "r = classify_row ?at (g, q, e)"
    using routes_of_set [of i ?at d'] by (auto simp: classify_one [OF r(2)] routes_of_def)
  from dead row(2) obtain ev where ev: "e = Some ev" "de_state ev = EvTerminal" "?at < de_expires_at ev"
    by (auto simp: classify_state_def Let_def split: option.splits if_splits)
  have q: "q \<in> set (db_placements d')" "pl_id q = p" and e: "route_evidence d' g q = Some ev"
    using row route(1) ev(1) by (auto simp: in_route_rows)
  from e have evd: "ev \<in> set (db_delivery d')" "evidence_key ev = (pl_provider q, pl_account_scope q, pl_id q, pf_provider_file_id g)"
    by (auto simp: route_evidence_def dest: find_SomeD)
  from run obtain pl where pl: "get_placement d p = Some pl"
    unfolding replace_provider_file_inventory_def by (auto simp: res_bind_Inr require_placement_Inr)
  from get_placement_SomeD [OF pl] q replacement_keeps_placements [OF run inv] have "q = pl"
    by (intro unique_byD [OF inventory_invD(1) [OF inv]]) simp_all
  with evd(2) have key: "route_key pl ev" "de_provider_file_id ev = rte_providerFileId r"
    using row(2) by (simp_all add: route_key_def evidence_key_def)
  from replacement_supersedes_evidence [OF run inv ns pl] evd(1) route(2,3) key ev(2,3) show False by fastforce
qed

lemma sample_route:
  "(case sample_replacement of Inl _ \<Rightarrow> False | Inr (d', l) \<Rightarrow>
     list_ex (\<lambda>r. rte_placementId r = ''pl_u1'' \<and> rte_providerFileId r = ''6'')
       (cl_routes (classify_routes_for_torrent_file ''tf_1'' 200 d')))"
  by code_simp

theorem inventory_revives_routes_witness:
  "\<exists>d' l r. sample_replacement = Inr (d', l) \<and> r \<in> set (cl_routes (classify_routes_for_torrent_file ''tf_1'' 200 d'))
    \<and> rte_providerFileId r = ''6'' \<and> rte_state r \<noteq> Dead"
proof -
  obtain d' l where run: "sample_replacement = Inr (d', l)" using sample_replacement_run by blast
  have "\<exists>r \<in> set (cl_routes (classify_routes_for_torrent_file ''tf_1'' 200 d')). rte_placementId r = ''pl_u1'' \<and> rte_providerFileId r = ''6''"
    using sample_route unfolding run sum.case prod.case list_ex_iff .
  then obtain r where r: "r \<in> set (cl_routes (classify_routes_for_torrent_file ''tf_1'' 200 d'))"
      "rte_placementId r = ''pl_u1''" "rte_providerFileId r = ''6''" by blast
  have f: "file_id_of (sample_inventory_file ''6'' ''/a/b.mkv'' 1000) = Inr (rte_providerFileId r)"
    unfolding r(3) by code_simp
  have m: "sample_inventory_file ''6'' ''/a/b.mkv'' 1000 \<in> set sample_snapshot"
    by (simp add: sample_snapshot_def)
  have at: "nullish (io_observedAt sample_inventory_options) 300 = 200"
    by (simp add: sample_inventory_options_def)
  from inventory_revives_routes [OF run [unfolded sample_replacement_def] sample_inventory_inv sample_not_stale,
      unfolded at, OF r(1) _ r(2) m f] run r show ?thesis by blast
qed

end
