(* ===== verification/Job_Retry.thy ===== *)
theory Job_Retry
  imports Prelude
begin

text \<open>
  Bounded retry of media jobs, \<open>lifecycle/job-retry.js\<close>: the classification of a failure by the text
  of its error, the delays, and the recording of a failure against a store, which is any provider of
  \<open>get\<close>, \<open>markFailed\<close> and \<open>scheduleRetry\<close>. The locale \<open>job_store\<close> states what a store promises and
  bounds the attempts of a job; the download and promotion stores interpret it.
\<close>

section \<open>Patterns\<close>

text \<open>The regular expressions of the source on a lower-cased text.\<close>

definition word_char :: "char \<Rightarrow> bool" where
  "word_char c \<longleftrightarrow> is_digit c \<or> is_letter c \<or> c = CHR ''_''"

text \<open>The first match of \<open>\\b...\\b\<close> around \<open>n\<close> characters that satisfy \<open>P\<close>.\<close>

fun find_word :: "nat \<Rightarrow> (string \<Rightarrow> bool) \<Rightarrow> bool \<Rightarrow> string \<Rightarrow> string option" where
  "find_word n P prev [] = None"
| "find_word n P prev (c # cs) =
     (if \<not> prev \<and> length (take n (c # cs)) = n \<and> P (take n (c # cs))
         \<and> (case drop n (c # cs) of [] \<Rightarrow> True | x # _ \<Rightarrow> \<not> word_char x)
      then Some (take n (c # cs)) else find_word n P (word_char c) cs)"

definition has_word :: "string \<Rightarrow> string \<Rightarrow> bool" where
  "has_word w s = (find_word (length w) (\<lambda>x. x = w) False s \<noteq> None)"

definition three_digits :: "string \<Rightarrow> string option" where
  "three_digits s = find_word 3 (\<lambda>x. list_all is_digit x) False s"

definition has_5xx :: "string \<Rightarrow> bool" where
  "has_5xx s = (find_word 3 (\<lambda>x. list_all is_digit x \<and> hd x = CHR ''5'') False s \<noteq> None)"

text \<open>\<open>a.*b\<close>: the dot matches no line terminator.\<close>

fun includes_gap :: "string \<Rightarrow> string \<Rightarrow> string \<Rightarrow> bool" where
  "includes_gap a b [] = False"
| "includes_gap a b (c # cs) =
     (starts_with (c # cs) a
        \<and> includes_str (takeWhile (\<lambda>x. code_of x \<noteq> 10 \<and> code_of x \<noteq> 13) (drop (length a) (c # cs))) b
      \<or> includes_gap a b cs)"

definition includes_any :: "string list \<Rightarrow> string \<Rightarrow> bool" where
  "includes_any ps s = list_ex (includes_str s) ps"

section \<open>Classification\<close>

datatype job_stage = StageResolve | StageTarget | StageMaterialize | StageUnexpected

definition permanent_message :: "string \<Rightarrow> bool" where
  "permanent_message m \<longleftrightarrow>
     includes_any [''invalid-expected-size'', ''size-mismatch'', ''sparse-file'', ''invalid-input'',
       ''mediaid is required'', ''must not carry'', ''must be'', ''escapes root'', ''escapes owned root'',
       ''path escapes'', ''torrentfileid is required'', ''no healthy torrentfile'', ''no eligible candidate''] m
     \<or> includes_gap ''episode'' ''required'' m \<or> includes_gap ''positive '' '' size is required'' m
     \<or> has_word ''unresolvable'' m"

definition timeout_message :: "string \<Rightarrow> bool" where
  "timeout_message m = includes_any [''timeout'', ''time out'', ''timedout'', ''timed out''] m"

definition transient_message :: "string \<Rightarrow> bool" where
  "transient_message m \<longleftrightarrow> timeout_message m
     \<or> includes_any [''aborted'', ''aborterror'', ''econnreset'', ''econnrefused'', ''enotfound'', ''enetunreach'',
       ''eai_again'', ''socket hang up'', ''eacces'', ''ebusy'', ''enomem'', ''fetch failed'', ''network'', ''429'',
       ''too many requests'', ''rate limit'', ''incomplete stream'', ''connection'', ''temporar''] m
     \<or> has_5xx m"

definition resolve_transient_message :: "string \<Rightarrow> bool" where
  "resolve_transient_message m \<longleftrightarrow> timeout_message m
     \<or> includes_any [''aborted'', ''aborterror'', ''econn'', ''enotfound'', ''enetunreach'', ''eai_again'',
       ''socket hang up'', ''fetch failed'', ''network'', ''429'', ''too many requests'', ''rate limit'', ''temporar'',
       ''unavailable'', ''try again'', ''discovery failed''] m
     \<or> has_5xx m"

record job_failure =
  jf_retryable :: bool
  jf_category :: string

definition failure :: "bool \<Rightarrow> string \<Rightarrow> job_failure" where
  "failure r c = \<lparr>jf_retryable = r, jf_category = c\<rparr>"

definition classify_job_failure :: "job_stage \<Rightarrow> string \<Rightarrow> job_failure" where
  "classify_job_failure stage msg = (let m = js_lower msg in
     case stage of
       StageTarget \<Rightarrow> if includes_any [''escapes root'', ''escapes owned root''] m
                      then failure False ''path-escape'' else failure False ''path-config''
     | StageUnexpected \<Rightarrow> failure True ''unexpected-transient''
     | StageResolve \<Rightarrow> if includes_any [''invalid-input'', ''mediaid is required''] m
                       then failure False ''invalid-identity''
                       else if resolve_transient_message m then failure True ''resolve-transient''
                       else failure False ''no-candidate''
     | StageMaterialize \<Rightarrow>
         if permanent_message m then failure False ''deterministic-mismatch''
         else if transient_message m then failure True ''transient''
         else (case three_digits m of
             None \<Rightarrow> failure True ''transient''
           | Some w \<Rightarrow> let s = parse_nat w in
               if s = 429 \<or> (500 \<le> s \<and> s \<le> 599) then failure True ''transient''
               else if s = 400 \<or> s = 401 \<or> s = 403 \<or> s = 404 then failure False ''deterministic-mismatch''
               else failure True ''transient''))"

section \<open>Delays and budget\<close>

definition max_job_attempts :: nat where
  "max_job_attempts = 6"

definition intent_backoff_ms :: "int \<Rightarrow> int" where
  "intent_backoff_ms attempts =
     (let steps = [15 * 60 * 1000, 60 * 60 * 1000, 4 * 60 * 60 * 1000, 24 * 60 * 60 * 1000]
      in steps ! nat (min (max 0 attempts) (int (length steps) - 1)))"

definition retry_delay_ms :: "nat \<Rightarrow> int" where
  "retry_delay_ms failureNumber = intent_backoff_ms (max 0 (int failureNumber - 1))"

datatype job_outcome = OutcomeRetry | OutcomeFailed

text \<open>\<open>attempts\<close> is \<open>store.get(id)?.attempts\<close>; the two functions write to the store.\<close>

definition record_job_failure ::
  "('s \<Rightarrow> 'k \<Rightarrow> nat option) \<Rightarrow> ('k \<Rightarrow> string \<Rightarrow> string option \<Rightarrow> nat option \<Rightarrow> 's \<Rightarrow> 's)
   \<Rightarrow> ('k \<Rightarrow> string \<Rightarrow> string option \<Rightarrow> nat \<Rightarrow> int \<Rightarrow> 's \<Rightarrow> 's) \<Rightarrow> 'k \<Rightarrow> job_failure \<Rightarrow> string \<Rightarrow> 's \<Rightarrow> 's \<times> job_outcome" where
  "record_job_failure attempts_of mark_failed schedule_retry k c err s =
     (let attempts = nullish (attempts_of s k) 0 + 1; msg = take 2000 err in
      if \<not> jf_retryable c \<or> max_job_attempts \<le> attempts
      then (mark_failed k msg (Some (jf_category c)) (Some attempts) s, OutcomeFailed)
      else (schedule_retry k msg (Some (jf_category c)) attempts (retry_delay_ms attempts) s, OutcomeRetry))"

lemma intent_backoff_bounds: "15 * 60 * 1000 \<le> intent_backoff_ms a \<and> intent_backoff_ms a \<le> 24 * 60 * 60 * 1000"
proof -
  have "nat (min (max 0 a) 3) \<in> {0, 1, 2, 3}" by auto
  then show ?thesis by (auto simp: intent_backoff_ms_def)
qed

lemma intent_backoff_mono: "a \<le> b \<Longrightarrow> intent_backoff_ms a \<le> intent_backoff_ms b"
proof -
  assume ab: "a \<le> b"
  have a: "nat (min (max 0 a) 3) \<in> {0, 1, 2, 3}" and b: "nat (min (max 0 b) 3) \<in> {0, 1, 2, 3}" by auto
  from ab have "nat (min (max 0 a) 3) \<le> nat (min (max 0 b) 3)" by (simp add: nat_mono)
  with a b show ?thesis by (auto simp: intent_backoff_ms_def)
qed

text \<open>
  Runs of one job that fail: each is a claim that succeeds at its first time and a failure that is
  recorded at its second time. The result is \<open>None\<close> when a claim is refused.
\<close>

type_synonym run = "int \<times> int \<times> job_failure \<times> string"

definition failed_run ::
  "(int \<Rightarrow> 's \<Rightarrow> 's \<times> bool) \<Rightarrow> (int \<Rightarrow> job_failure \<Rightarrow> string \<Rightarrow> 's \<Rightarrow> 's \<times> job_outcome) \<Rightarrow> run \<Rightarrow> 's \<Rightarrow> 's option" where
  "failed_run claim record run s = (case run of (t1, t2, c, err) \<Rightarrow>
     (case claim t1 s of (s1, ok) \<Rightarrow> if ok then Some (fst (record t2 c err s1)) else None))"

fun failed_runs ::
  "(int \<Rightarrow> 's \<Rightarrow> 's \<times> bool) \<Rightarrow> (int \<Rightarrow> job_failure \<Rightarrow> string \<Rightarrow> 's \<Rightarrow> 's \<times> job_outcome) \<Rightarrow> run list \<Rightarrow> 's \<Rightarrow> 's option" where
  "failed_runs claim record [] s = Some s"
| "failed_runs claim record (r # rs) s =
     (case failed_run claim record r s of None \<Rightarrow> None | Some s1 \<Rightarrow> failed_runs claim record rs s1)"

section \<open>The interface of a job store\<close>

text \<open>
  A store of jobs with a claim: \<open>ready\<close> says that a job can be claimed at a time. The invariant
  keeps the attempts of a job that is not waiting below the budget.
\<close>

locale job_store =
  fixes inv :: "'s \<Rightarrow> bool"
    and attempts_of :: "'s \<Rightarrow> 'k \<Rightarrow> nat option"
    and ready :: "int \<Rightarrow> 's \<Rightarrow> 'k \<Rightarrow> bool"
    and claim :: "int \<Rightarrow> 'k \<Rightarrow> 's \<Rightarrow> 's \<times> bool"
    and mark_failed :: "int \<Rightarrow> 'k \<Rightarrow> string \<Rightarrow> string option \<Rightarrow> nat option \<Rightarrow> 's \<Rightarrow> 's"
    and schedule_retry :: "int \<Rightarrow> 'k \<Rightarrow> string \<Rightarrow> string option \<Rightarrow> nat \<Rightarrow> int \<Rightarrow> 's \<Rightarrow> 's"
    and reset_stale :: "int \<Rightarrow> 's \<Rightarrow> 's"
  assumes claim_inv: "inv s \<Longrightarrow> inv (fst (claim now k s))"
    and claim_result: "inv s \<Longrightarrow> snd (claim now k s) = ready now s k"
    and claim_attempts: "inv s \<Longrightarrow> attempts_of (fst (claim now k s)) k = attempts_of s k"
    and claim_once: "inv s \<Longrightarrow> ready now s k \<Longrightarrow> \<not> ready t (fst (claim now k s)) k"
    and ready_budget: "inv s \<Longrightarrow> ready now s k \<Longrightarrow> \<exists>a. attempts_of s k = Some a \<and> a < max_job_attempts"
    and failed_inv: "inv s \<Longrightarrow> inv (mark_failed now k msg cat att s)"
    and failed_attempts: "inv s \<Longrightarrow> attempts_of s k \<noteq> None \<Longrightarrow> attempts_of (mark_failed now k msg cat (Some a) s) k = Some a"
    and failed_final: "inv s \<Longrightarrow> \<not> ready t (mark_failed now k msg cat att s) k"
    and retry_inv: "inv s \<Longrightarrow> inv (schedule_retry now k msg cat a delay s)"
    and retry_attempts: "inv s \<Longrightarrow> attempts_of s k \<noteq> None \<Longrightarrow> attempts_of (schedule_retry now k msg cat a delay s) k = Some a"
    and retry_ready: "inv s \<Longrightarrow> ready t (schedule_retry now k msg cat a delay s) k \<Longrightarrow> now + delay \<le> t"
    and reset_inv: "inv s \<Longrightarrow> inv (reset_stale now s)"
    and reset_attempts: "inv s \<Longrightarrow> attempts_of (reset_stale now s) k = attempts_of s k"
begin

definition record_failure :: "int \<Rightarrow> 'k \<Rightarrow> job_failure \<Rightarrow> string \<Rightarrow> 's \<Rightarrow> 's \<times> job_outcome" where
  "record_failure now = record_job_failure attempts_of (mark_failed now) (schedule_retry now)"

lemma record_failure_inv: "inv s \<Longrightarrow> inv (fst (record_failure now k c err s))"
  by (simp add: record_failure_def record_job_failure_def Let_def failed_inv retry_inv)

lemma record_failure_attempts:
  "inv s \<Longrightarrow> attempts_of s k = Some a \<Longrightarrow> attempts_of (fst (record_failure now k c err s)) k = Some (a + 1)"
  by (simp add: record_failure_def record_job_failure_def Let_def failed_attempts retry_attempts)

lemma failed_run_step:
  assumes "failed_run (\<lambda>t. claim t k) (\<lambda>t. record_failure t k) r s = Some s'" "inv s"
  shows "inv s' \<and> (\<exists>a. attempts_of s k = Some a \<and> a < max_job_attempts \<and> attempts_of s' k = Some (a + 1))"
proof -
  obtain t1 t2 c err where r: "r = (t1, t2, c, err)" by (cases r)
  obtain s1 ok where c1: "claim t1 k s = (s1, ok)" by (cases "claim t1 k s")
  from assms(1) r c1 have ok: "ok" and s': "s' = fst (record_failure t2 k c err s1)"
    by (auto simp: failed_run_def split: if_splits)
  have i1: "inv s1" using claim_inv [OF assms(2), of t1 k] c1 by simp
  have rd: "ready t1 s k" using claim_result [OF assms(2), of t1 k] c1 ok by simp
  from ready_budget [OF assms(2) rd] obtain a where a: "attempts_of s k = Some a" "a < max_job_attempts" by blast
  have "attempts_of s1 k = Some a" using claim_attempts [OF assms(2), of t1 k] c1 a by simp
  from record_failure_attempts [OF i1 this] record_failure_inv [OF i1] a s' show ?thesis by simp
qed

text \<open>A job runs at most \<open>max_job_attempts\<close> times, counted over all its runs.\<close>

lemma failed_runs_bounded:
  "failed_runs (\<lambda>t. claim t k) (\<lambda>t. record_failure t k) rs s = Some s' \<Longrightarrow> inv s \<Longrightarrow> attempts_of s k = Some a \<Longrightarrow>
     inv s' \<and> attempts_of s' k = Some (a + length rs) \<and> (rs \<noteq> [] \<longrightarrow> a + length rs \<le> max_job_attempts)"
proof (induction rs arbitrary: s a)
  case (Cons r rs)
  then obtain s1 where s1: "failed_run (\<lambda>t. claim t k) (\<lambda>t. record_failure t k) r s = Some s1"
      "failed_runs (\<lambda>t. claim t k) (\<lambda>t. record_failure t k) rs s1 = Some s'"
    by (auto split: option.splits)
  from failed_run_step [OF s1(1) Cons.prems(2)] Cons.prems(3)
  have s1': "inv s1" "a < max_job_attempts" "attempts_of s1 k = Some (a + 1)" by auto
  from Cons.IH [OF s1(2) s1'(1,3)] s1'(2) show ?case by (cases rs) auto
qed simp

lemma exhausted_final:
  assumes "failed_runs (\<lambda>t. claim t k) (\<lambda>t. record_failure t k) rs s = Some s'" "inv s" "attempts_of s k = Some a" "a + length rs = max_job_attempts" "rs \<noteq> []"
  shows "\<not> ready t s' k"
proof -
  from failed_runs_bounded [OF assms(1-3)] assms(4)
  have "inv s'" "attempts_of s' k = Some max_job_attempts" by simp_all
  with ready_budget [of s' t k] show ?thesis by auto
qed

lemma permanent_final:
  assumes "inv s" "\<not> jf_retryable c"
  shows "\<not> ready t (fst (record_failure now k c err s)) k"
  using assms by (simp add: record_failure_def record_job_failure_def Let_def failed_final)

lemma retry_not_early:
  assumes "inv s" "ready t (fst (record_failure now k c err s)) k"
  shows "now + 15 * 60 * 1000 \<le> t"
proof -
  from assms have "ready t (schedule_retry now k (take 2000 err) (Some (jf_category c)) (nullish (attempts_of s k) 0 + 1)
      (retry_delay_ms (nullish (attempts_of s k) 0 + 1)) s) k"
    using failed_final by (auto simp: record_failure_def record_job_failure_def Let_def split: if_splits)
  from retry_ready [OF assms(1) this] intent_backoff_bounds show ?thesis
    unfolding retry_delay_ms_def by (smt (verit))
qed

end

end
