(* ===== verification/Download_Store.thy ===== *)
theory Download_Store
  imports Job_Retry Canonical_Path
begin

text \<open>
  Download intents, \<open>download/store.js\<close>: the table \<open>download_requests\<close> with its retry, handoff and
  cleanup columns. The file system is the parameter \<open>staged_size\<close> (the size of the regular file at a
  path, if there is one); \<open>known\<close> says which torrent files exist (the foreign key).
\<close>

section \<open>Rows\<close>

datatype download_status = DnRequested | DnResolving | DnMaterializing | DnStaged | DnFailed
datatype handoff_state = HoNone | HoPending | HoAccepted | HoCompleted | HoFailed

definition parse_handoff_state :: "string \<Rightarrow> handoff_state option" where
  "parse_handoff_state s = map_of
     [(''pending'', HoPending), (''accepted'', HoAccepted), (''completed'', HoCompleted), (''failed'', HoFailed)] s"

record download =
  dn_id :: string
  dn_media_id :: string
  dn_media_type :: media_type
  dn_season :: "int option"
  dn_episode :: "int option"
  dn_title :: "string option"
  dn_year :: "int option"
  dn_status :: download_status
  dn_torrent_file_id :: "string option"
  dn_expected_size :: "int option"
  dn_bytes_complete :: int
  dn_staged_path :: "string option"
  dn_last_error :: "string option"
  dn_created_at :: int
  dn_updated_at :: int
  dn_attempts :: nat
  dn_next_due_at :: "int option"
  dn_fail_category :: "string option"
  dn_handoff_version :: nat
  dn_handoff_state :: handoff_state
  dn_handoff_id :: "string option"
  dn_handoff_at :: "int option"
  dn_quality_profile :: string
  dn_cleanup_due_at :: "int option"
  dn_cleanup_done_at :: "int option"
  dn_cleanup_handoff_id :: "string option"
  dn_cleanup_attempts :: nat

type_synonym downloads = "download list"

definition staged_cleanup_grace_ms :: int where "staged_cleanup_grace_ms = 3600000"
definition staged_cleanup_retry_ms :: int where "staged_cleanup_retry_ms = 15 * 60000"
definition staged_cleanup_max_attempts :: nat where "staged_cleanup_max_attempts = 48"

definition get_download :: "downloads \<Rightarrow> string \<Rightarrow> download option" where
  "get_download s i = find (\<lambda>r. dn_id r = i) s"

definition upd_download :: "string \<Rightarrow> (download \<Rightarrow> download) \<Rightarrow> downloads \<Rightarrow> downloads" where
  "upd_download i f s = upd_where (\<lambda>r. dn_id r = i) f s"

definition staged_file_present :: "(string \<Rightarrow> int option) \<Rightarrow> download \<Rightarrow> bool" where
  "staged_file_present staged_size r =
     (case (dn_staged_path r, dn_expected_size r) of
        (Some p, Some n) \<Rightarrow> dn_status r = DnStaged \<and> p \<noteq> [] \<and> staged_size p = Some n
      | _ \<Rightarrow> False)"

section \<open>Requests\<close>

record download_input =
  dx_mediaId :: string
  dx_mediaType :: string
  dx_season :: "int option"
  dx_episode :: "int option"
  dx_title :: "string option"
  dx_year :: "int option"
  dx_qualityProfile :: "string option"

definition same_media :: "download_input \<Rightarrow> media_type \<Rightarrow> download \<Rightarrow> bool" where
  "same_media x mt r \<longleftrightarrow> dn_media_id r = dx_mediaId x \<and> dn_media_type r = mt
     \<and> nullish (dn_season r) (-1) = nullish (dx_season x) (-1)
     \<and> nullish (dn_episode r) (-1) = nullish (dx_episode x) (-1)"

definition adopt_profile :: "int \<Rightarrow> string option \<Rightarrow> string \<Rightarrow> downloads \<Rightarrow> downloads" where
  "adopt_profile now profile i s = (case profile of None \<Rightarrow> s
     | Some p \<Rightarrow> upd_download i (\<lambda>r. r\<lparr>dn_quality_profile := p, dn_updated_at := now\<rparr>) s)"

definition reset_download :: "int \<Rightarrow> download_input \<Rightarrow> download \<Rightarrow> download" where
  "reset_download now x r = r\<lparr>dn_status := DnRequested, dn_last_error := None, dn_torrent_file_id := None,
     dn_expected_size := None, dn_bytes_complete := 0, dn_staged_path := None,
     dn_title := coalesce (dx_title x) (dn_title r), dn_year := coalesce (dx_year x) (dn_year r),
     dn_attempts := 0, dn_next_due_at := None, dn_fail_category := None,
     dn_quality_profile := nullish (dx_qualityProfile x) (dn_quality_profile r), dn_updated_at := now\<rparr>"

definition new_download :: "int \<Rightarrow> string \<Rightarrow> download_input \<Rightarrow> media_type \<Rightarrow> download" where
  "new_download now uuid x mt = \<lparr>dn_id = uuid, dn_media_id = dx_mediaId x, dn_media_type = mt,
     dn_season = dx_season x, dn_episode = dx_episode x, dn_title = dx_title x, dn_year = dx_year x,
     dn_status = DnRequested, dn_torrent_file_id = None, dn_expected_size = None, dn_bytes_complete = 0,
     dn_staged_path = None, dn_last_error = None, dn_created_at = now, dn_updated_at = now, dn_attempts = 0,
     dn_next_due_at = None, dn_fail_category = None, dn_handoff_version = 0, dn_handoff_state = HoNone,
     dn_handoff_id = None, dn_handoff_at = None, dn_quality_profile = nullish (dx_qualityProfile x) ''balanced'',
     dn_cleanup_due_at = None, dn_cleanup_done_at = None, dn_cleanup_handoff_id = None, dn_cleanup_attempts = 0\<rparr>"

datatype request_outcome = Created | Reset | Existing

definition request_download ::
  "(string \<Rightarrow> int option) \<Rightarrow> int \<Rightarrow> string \<Rightarrow> download_input \<Rightarrow> downloads
   \<Rightarrow> (downloads \<times> download option \<times> request_outcome) res" where
  "request_download staged_size now uuid x s =
     (if dx_mediaId x = [] then Inl (JsError ''mediaId is required'')
      else if dx_mediaType x \<noteq> ''movie'' \<and> dx_mediaType x \<noteq> ''episode''
      then Inl (JsError ''mediaType must be movie or episode'')
      else let mt = (if dx_mediaType x = ''movie'' then Movie else Episode) in
        (case top_by dn_updated_at (filter (same_media x mt) s) of
           Some cur \<Rightarrow>
             if (if dn_status cur = DnStaged then staged_file_present staged_size cur else dn_status cur \<noteq> DnFailed)
             then let s' = adopt_profile now (dx_qualityProfile x) (dn_id cur) s
                  in Inr (s', get_download s' (dn_id cur), Existing)
             else let s' = upd_download (dn_id cur) (reset_download now x) s
                  in Inr (s', get_download s' (dn_id cur), Reset)
         | None \<Rightarrow>
             if list_ex (\<lambda>r. dn_id r = uuid) s then Inl (SqlConstraint ''download_requests.id'')
             else let s' = s @ [new_download now uuid x mt] in Inr (s', get_download s' uuid, Created)))"

section \<open>Worker operations\<close>

definition claimable_download :: "int \<Rightarrow> download \<Rightarrow> bool" where
  "claimable_download now r \<longleftrightarrow> dn_status r = DnRequested
     \<or> (dn_status r = DnFailed \<and> (case dn_next_due_at r of None \<Rightarrow> False | Some t \<Rightarrow> t \<le> now)
        \<and> dn_attempts r < max_job_attempts)"

definition claim_resolving :: "int \<Rightarrow> string \<Rightarrow> downloads \<Rightarrow> downloads \<times> bool" where
  "claim_resolving now i s =
     (upd_where (\<lambda>r. dn_id r = i \<and> claimable_download now r) (\<lambda>r. r\<lparr>dn_status := DnResolving, dn_updated_at := now\<rparr>) s,
      length (filter (\<lambda>r. dn_id r = i \<and> claimable_download now r) s) = 1)"

definition mark_materializing ::
  "(string \<Rightarrow> bool) \<Rightarrow> int \<Rightarrow> string \<Rightarrow> string \<Rightarrow> int option \<Rightarrow> string option \<Rightarrow> downloads
   \<Rightarrow> (downloads \<times> download option) res" where
  "mark_materializing known now i torrentFileId expectedSize stagedPath s =
     (if torrentFileId = [] then Inl (JsError ''torrentFileId is required'')
      else case expectedSize of
        None \<Rightarrow> Inl (JsError ''positive expected size is required'')
      | Some n \<Rightarrow>
          if \<not> is_safe_integer n \<or> n \<le> 0 then Inl (JsError ''positive expected size is required'')
          else if list_ex (\<lambda>r. dn_id r = i) s \<and> \<not> known torrentFileId then Inl (SqlConstraint ''torrent_file_id'')
          else let s' = upd_download i (\<lambda>r. r\<lparr>dn_status := DnMaterializing, dn_torrent_file_id := Some torrentFileId,
                 dn_expected_size := Some n, dn_staged_path := stagedPath, dn_updated_at := now\<rparr>) s
               in Inr (s', get_download s' i))"

definition note_download_progress :: "int \<Rightarrow> string \<Rightarrow> int \<Rightarrow> downloads \<Rightarrow> downloads res" where
  "note_download_progress now i bytes s =
     (if list_ex (\<lambda>r. dn_id r = i \<and> dn_status r = DnMaterializing) s \<and> bytes < 0
      then Inl (SqlConstraint ''bytes_complete'')
      else Inr (upd_where (\<lambda>r. dn_id r = i \<and> dn_status r = DnMaterializing)
             (\<lambda>r. r\<lparr>dn_bytes_complete := bytes, dn_updated_at := now\<rparr>) s))"

definition mark_staged :: "int \<Rightarrow> string \<Rightarrow> downloads \<Rightarrow> (downloads \<times> download option) res" where
  "mark_staged now i s = (case get_download s i of
      None \<Rightarrow> Inl (JsError ''unknown download request'')
    | Some row \<Rightarrow> (case dn_expected_size row of
        None \<Rightarrow> Inl (SqlConstraint ''bytes_complete'')
      | Some n \<Rightarrow> let s' = upd_download i (\<lambda>r. r\<lparr>dn_status := DnStaged, dn_bytes_complete := n,
              dn_last_error := None, dn_updated_at := now\<rparr>) s
            in Inr (s', get_download s' i)))"

definition mark_download_failed ::
  "int \<Rightarrow> string \<Rightarrow> string \<Rightarrow> string option \<Rightarrow> nat option \<Rightarrow> downloads \<Rightarrow> downloads" where
  "mark_download_failed now i err cat attempts s =
     upd_download i (\<lambda>r. r\<lparr>dn_status := DnFailed, dn_last_error := Some (take 2000 err),
       dn_fail_category := coalesce cat (dn_fail_category r),
       dn_attempts := nullish attempts (dn_attempts r + 1), dn_next_due_at := None, dn_updated_at := now\<rparr>) s"

definition schedule_download_retry ::
  "int \<Rightarrow> string \<Rightarrow> string \<Rightarrow> string option \<Rightarrow> nat \<Rightarrow> int \<Rightarrow> downloads \<Rightarrow> downloads" where
  "schedule_download_retry now i err cat attempts delay s =
     upd_download i (\<lambda>r. r\<lparr>dn_status := DnFailed, dn_last_error := Some (take 2000 err), dn_fail_category := cat,
       dn_attempts := attempts, dn_next_due_at := Some (now + delay), dn_updated_at := now\<rparr>) s"

definition list_claimable_downloads :: "int \<Rightarrow> nat \<Rightarrow> downloads \<Rightarrow> downloads" where
  "list_claimable_downloads now limit s = take limit (sort_key dn_created_at (filter (claimable_download now) s))"

definition list_recent_downloads :: "int \<Rightarrow> downloads \<Rightarrow> downloads" where
  "list_recent_downloads limit s =
     (let n = (if is_safe_integer limit \<and> 0 < limit then min limit 200 else 50)
      in take (nat n) (sort_key (\<lambda>r. - dn_updated_at r) s))"

definition transient_download :: "download \<Rightarrow> bool" where
  "transient_download r \<longleftrightarrow> dn_status r = DnResolving \<or> dn_status r = DnMaterializing"

definition reset_stale_downloads :: "int \<Rightarrow> downloads \<Rightarrow> downloads" where
  "reset_stale_downloads now s =
     upd_where transient_download (\<lambda>r. r\<lparr>dn_status := DnRequested, dn_last_error := None, dn_updated_at := now\<rparr>) s"

section \<open>Handoffs and cleanup\<close>

record handoff =
  ho_handoffId :: "string option"
  ho_version :: nat
  ho_downloadRequestId :: string
  ho_state :: handoff_state
  ho_handoffAt :: "int option"

definition row_to_handoff :: "download \<Rightarrow> handoff" where
  "row_to_handoff r = \<lparr>ho_handoffId = dn_handoff_id r, ho_version = dn_handoff_version r,
     ho_downloadRequestId = dn_id r, ho_state = dn_handoff_state r, ho_handoffAt = dn_handoff_at r\<rparr>"

definition active_handoff :: "download \<Rightarrow> bool" where
  "active_handoff r \<longleftrightarrow> dn_handoff_state r = HoPending \<or> dn_handoff_state r = HoAccepted"

definition begin_handoff :: "int \<Rightarrow> nat \<Rightarrow> string \<Rightarrow> download \<Rightarrow> download" where
  "begin_handoff now version handoffId r = r\<lparr>dn_handoff_version := version, dn_handoff_state := HoPending,
     dn_handoff_id := Some handoffId, dn_handoff_at := Some now, dn_cleanup_due_at := None,
     dn_cleanup_done_at := None, dn_cleanup_handoff_id := None, dn_cleanup_attempts := 0, dn_updated_at := now\<rparr>"

text \<open>The result is the handoff and whether it was created (else it is the active one).\<close>

definition create_handoff :: "int \<Rightarrow> string \<Rightarrow> downloads \<Rightarrow> (downloads \<times> handoff \<times> bool) res" where
  "create_handoff now i s = (case get_download s i of
      None \<Rightarrow> Inl (JsError ''unknown download request'')
    | Some row \<Rightarrow>
        if dn_status row \<noteq> DnStaged then Inl (JsError ''handoff requires staged bytes'')
        else if active_handoff row then Inr (s, row_to_handoff row, False)
        else let version = dn_handoff_version row + 1; handoffId = ''dl-'' @ i @ ''-v'' @ show_nat version;
                 row' = begin_handoff now version handoffId row
             in Inr (upd_download i (begin_handoff now version handoffId) s, row_to_handoff row', True))"

datatype handoff_result = Applied handoff | NotApplied string

definition move_handoff :: "int \<Rightarrow> handoff_state \<Rightarrow> string option \<Rightarrow> download \<Rightarrow> download" where
  "move_handoff now st detail r = r\<lparr>dn_handoff_state := st, dn_last_error := coalesce detail (dn_last_error r),
     dn_updated_at := now\<rparr>"

definition schedule_cleanup :: "int \<Rightarrow> int \<Rightarrow> string \<Rightarrow> download \<Rightarrow> download" where
  "schedule_cleanup now grace handoffId r = r\<lparr>dn_cleanup_due_at := Some (now + grace), dn_cleanup_done_at := None,
     dn_cleanup_handoff_id := Some handoffId, dn_cleanup_attempts := 0, dn_updated_at := now\<rparr>"

definition apply_handoff_event ::
  "int \<Rightarrow> int \<Rightarrow> string \<Rightarrow> string \<Rightarrow> string \<Rightarrow> string option \<Rightarrow> downloads \<Rightarrow> downloads \<times> handoff_result" where
  "apply_handoff_event grace now i handoffId state detail s = (case get_download s i of
      None \<Rightarrow> (s, NotApplied ''unknown-request'')
    | Some row \<Rightarrow>
        if dn_handoff_id row \<noteq> Some handoffId then (s, NotApplied ''superseded-version'')
        else case parse_handoff_state state of
          None \<Rightarrow> (s, NotApplied ''bad-state'')
        | Some st \<Rightarrow>
            if dn_handoff_state row = HoCompleted \<or> dn_handoff_state row = HoFailed
            then (s, NotApplied ''transfer-terminal'')
            else let f = (\<lambda>r. let r1 = move_handoff now st detail r
                     in if st = HoCompleted then schedule_cleanup now grace handoffId r1 else r1)
                 in (upd_download i f s, Applied (row_to_handoff (f row))))"

definition cleanup_due :: "int \<Rightarrow> download \<Rightarrow> bool" where
  "cleanup_due now r \<longleftrightarrow> dn_status r = DnStaged \<and> dn_handoff_state r = HoCompleted
     \<and> (case dn_cleanup_due_at r of None \<Rightarrow> False | Some t \<Rightarrow> t \<le> now)
     \<and> dn_cleanup_done_at r = None \<and> dn_handoff_id r \<noteq> None \<and> dn_handoff_id r = dn_cleanup_handoff_id r"

definition list_cleanup_due :: "int \<Rightarrow> nat \<Rightarrow> downloads \<Rightarrow> downloads" where
  "list_cleanup_due now limit s = take limit (sort_key (\<lambda>r. nullish (dn_cleanup_due_at r) 0) (filter (cleanup_due now) s))"

definition mark_cleanup_done :: "int \<Rightarrow> string \<Rightarrow> string \<Rightarrow> downloads \<Rightarrow> downloads \<times> download option" where
  "mark_cleanup_done now i handoffId s =
     (let P = (\<lambda>r. dn_id r = i \<and> dn_handoff_id r = Some handoffId \<and> dn_cleanup_handoff_id r = Some handoffId
            \<and> dn_status r = DnStaged \<and> dn_handoff_state r = HoCompleted \<and> dn_cleanup_done_at r = None)
      in if length (filter P s) = 1
         then let s' = upd_where P (\<lambda>r. r\<lparr>dn_cleanup_done_at := Some now, dn_updated_at := now\<rparr>) s
              in (s', get_download s' i)
         else (s, None))"

definition defer_cleanup :: "int \<Rightarrow> string \<Rightarrow> string \<Rightarrow> downloads \<Rightarrow> downloads \<times> (download option \<times> bool) option" where
  "defer_cleanup now i err s = (case get_download s i of
      None \<Rightarrow> (s, None)
    | Some row \<Rightarrow>
        let attempts = dn_cleanup_attempts row + 1; msg = take 300 err in
        if staged_cleanup_max_attempts \<le> attempts
        then let s' = upd_download i (\<lambda>r. r\<lparr>dn_cleanup_due_at := None, dn_cleanup_attempts := attempts,
                 dn_last_error := Some (''staged cleanup parked after '' @ show_nat attempts @ '' attempts: '' @ msg),
                 dn_updated_at := now\<rparr>) s
             in (s', Some (get_download s' i, True))
        else let s' = upd_download i (\<lambda>r. r\<lparr>dn_cleanup_due_at := Some (now + staged_cleanup_retry_ms),
                 dn_cleanup_attempts := attempts, dn_updated_at := now\<rparr>) s
             in (s', Some (get_download s' i, False)))"

section \<open>The worker\<close>

text \<open>
  \<open>sweepStagedCleanup\<close>: the files of the due rows are removed. \<open>stat_kind\<close> and \<open>unlink_error\<close> are the
  answers of the file system, \<open>within_root\<close> is \<open>isWithinRoot(stagingRoot, path)\<close>. Besides the
  counts of the source the result lists the paths that were unlinked.
\<close>

datatype file_kind = KindFile | KindAbsent | KindUnexpected

record sweep_counts =
  sw_checked :: nat
  sw_removed :: nat
  sw_converged :: nat
  sw_deferred :: nat
  sw_skipped :: nat
  sw_unlinked :: "string list"

definition sweep_defer :: "int \<Rightarrow> string \<Rightarrow> string \<Rightarrow> downloads \<times> sweep_counts \<Rightarrow> downloads \<times> sweep_counts" where
  "sweep_defer now i err st = (case st of (s, c) \<Rightarrow> (case defer_cleanup now i err s of
      (s', Some (_, True)) \<Rightarrow> (s', c\<lparr>sw_skipped := sw_skipped c + 1\<rparr>)
    | (s', _) \<Rightarrow> (s', c\<lparr>sw_deferred := sw_deferred c + 1\<rparr>)))"

definition sweep_row ::
  "int \<Rightarrow> (string \<Rightarrow> bool) \<Rightarrow> (string \<Rightarrow> file_kind) \<Rightarrow> (string \<Rightarrow> string option) \<Rightarrow> download
   \<Rightarrow> downloads \<times> sweep_counts \<Rightarrow> downloads \<times> sweep_counts" where
  "sweep_row now within_root stat_kind unlink_error row st = (case st of (s, c0) \<Rightarrow>
     let i = dn_id row; h = nullish (dn_handoff_id row) []; c = c0\<lparr>sw_checked := sw_checked c0 + 1\<rparr> in
     (case dn_staged_path row of
        None \<Rightarrow> sweep_defer now i ''staged path escapes owned root'' (s, c)
      | Some p \<Rightarrow>
          if p = [] \<or> \<not> within_root p then sweep_defer now i ''staged path escapes owned root'' (s, c)
          else (case stat_kind p of
             KindAbsent \<Rightarrow> (case mark_cleanup_done now i h s of
                 (s', Some _) \<Rightarrow> (s', c\<lparr>sw_converged := sw_converged c + 1\<rparr>)
               | (s', None) \<Rightarrow> (s', c\<lparr>sw_skipped := sw_skipped c + 1\<rparr>))
           | KindUnexpected \<Rightarrow> sweep_defer now i ''staged path is not a regular file'' (s, c)
           | KindFile \<Rightarrow> (case unlink_error p of
                 Some e \<Rightarrow> sweep_defer now i e (s, c)
               | None \<Rightarrow> (case mark_cleanup_done now i h s of
                     (s', Some _) \<Rightarrow> (s', c\<lparr>sw_removed := sw_removed c + 1, sw_unlinked := sw_unlinked c @ [p]\<rparr>)
                   | (s', None) \<Rightarrow> (s', c\<lparr>sw_skipped := sw_skipped c + 1, sw_unlinked := sw_unlinked c @ [p]\<rparr>))))))"

definition sweep_staged_cleanup ::
  "int \<Rightarrow> (string \<Rightarrow> bool) \<Rightarrow> (string \<Rightarrow> file_kind) \<Rightarrow> (string \<Rightarrow> string option) \<Rightarrow> nat \<Rightarrow> downloads
   \<Rightarrow> downloads \<times> sweep_counts" where
  "sweep_staged_cleanup now within_root stat_kind unlink_error limit s =
     fold (sweep_row now within_root stat_kind unlink_error) (list_cleanup_due now limit s)
       (s, \<lparr>sw_checked = 0, sw_removed = 0, sw_converged = 0, sw_deferred = 0, sw_skipped = 0, sw_unlinked = []\<rparr>)"

text \<open>\<open>failJob\<close>.\<close>

definition fail_download :: "int \<Rightarrow> string \<Rightarrow> job_failure \<Rightarrow> string \<Rightarrow> downloads \<Rightarrow> downloads \<times> job_outcome" where
  "fail_download now = record_job_failure (\<lambda>s i. map_option dn_attempts (get_download s i))
     (mark_download_failed now) (schedule_download_retry now)"

text \<open>
  \<open>processOne\<close> with what the calls outside of the store answer: the resolver throws, misses or finds
  a torrent file with its size and the staged path (or the error of building it); the materializer
  reports progress and then succeeds or fails. A call of the store that throws ends the run and
  leaves the row as it is, but for the notes of progress, whose errors the materializer swallows
  (\<open>reportProgress\<close> in \<open>materialize.js\<close>). The set of ids in flight in this process is not modelled: the claim
  decides.
\<close>

datatype resolution = ResolveThrows string | ResolveMisses string
  | Resolved string "int option" "string + string"

datatype worker_outcome = AlreadyClaimed | WorkerFailed job_outcome | WorkerStaged "download option" | WorkerThrows js_error

fun note_all_progress :: "int \<Rightarrow> string \<Rightarrow> int list \<Rightarrow> downloads \<Rightarrow> downloads" where
  "note_all_progress now i [] s = s"
| "note_all_progress now i (b # bs) s =
     note_all_progress now i bs (case note_download_progress now i b s of Inl e \<Rightarrow> s | Inr s' \<Rightarrow> s')"

definition process_download ::
  "(string \<Rightarrow> bool) \<Rightarrow> (string \<Rightarrow> bool) \<Rightarrow> int \<Rightarrow> string \<Rightarrow> resolution \<Rightarrow> int list \<Rightarrow> string option \<Rightarrow> downloads
   \<Rightarrow> downloads \<times> worker_outcome" where
  "process_download known within_root now i resolution progress materializeError s =
     (case claim_resolving now i s of (s1, claimed) \<Rightarrow>
        let fail = (\<lambda>stage err st. case fail_download now i (classify_job_failure stage err) err st of
              (st', out) \<Rightarrow> (st', WorkerFailed out)) in
        if \<not> claimed then (s1, AlreadyClaimed)
        else (case resolution of
            ResolveThrows e \<Rightarrow> fail StageUnexpected e s1
          | ResolveMisses reason \<Rightarrow> fail StageResolve reason s1
          | Resolved torrentFileId sz (Inl e) \<Rightarrow> fail StageTarget e s1
          | Resolved torrentFileId sz (Inr path) \<Rightarrow>
              if \<not> within_root path then fail StageTarget ''staged path escapes owned root'' s1
              else (case mark_materializing known now i torrentFileId sz (Some path) s1 of
                  Inl e \<Rightarrow> (s1, WorkerThrows e)
                | Inr (s2, _) \<Rightarrow> (let s3 = note_all_progress now i progress s2 in
                    case materializeError of
                      Some e \<Rightarrow> fail StageMaterialize e s3
                    | None \<Rightarrow> (case mark_staged now i s3 of
                        Inl e \<Rightarrow> (s3, WorkerThrows e)
                      | Inr (s4, r) \<Rightarrow> (s4, WorkerStaged r))))))"

section \<open>The store as a job store\<close>

text \<open>A job that is not failed or staged has attempts left.\<close>

definition download_inv :: "downloads \<Rightarrow> bool" where
  "download_inv s \<longleftrightarrow> unique_by dn_id s
     \<and> (\<forall>r \<in> set s. dn_status r \<in> {DnRequested, DnResolving, DnMaterializing} \<longrightarrow> dn_attempts r < max_job_attempts)"

definition download_ready :: "int \<Rightarrow> downloads \<Rightarrow> string \<Rightarrow> bool" where
  "download_ready now s i = list_ex (\<lambda>r. dn_id r = i \<and> claimable_download now r) s"

definition download_attempts :: "downloads \<Rightarrow> string \<Rightarrow> nat option" where
  "download_attempts s i = map_option dn_attempts (get_download s i)"

lemma download_inv_upd:
  assumes "download_inv s" "\<And>r. dn_id (f r) = dn_id r"
    and "\<And>r. r \<in> set s \<Longrightarrow> P r \<Longrightarrow> dn_status (f r) \<in> {DnRequested, DnResolving, DnMaterializing} \<Longrightarrow> dn_attempts (f r) < max_job_attempts"
  shows "download_inv (upd_where P f s)"
  using assms by (auto simp: download_inv_def unique_by_upd_where elim!: in_upd_whereE)

lemma get_downloadD: "get_download s i = Some r \<Longrightarrow> dn_id r = i"
  by (auto simp: get_download_def dest: find_SomeD)

lemma get_download_upd:
  assumes "\<And>r. dn_id (f r) = dn_id r"
  shows "get_download (upd_where P f s) i = map_option (\<lambda>r. if P r then f r else r) (get_download s i)"
  using assms by (simp add: get_download_def find_upd_where)

lemma download_ready_upd:
  "download_ready t (upd_where P f s) i =
     list_ex (\<lambda>r. dn_id (if P r then f r else r) = i \<and> claimable_download t (if P r then f r else r)) s"
  by (simp add: download_ready_def list_ex_upd_where)

interpretation download_jobs: job_store download_inv download_attempts download_ready
  "\<lambda>now i s. claim_resolving now i s" "\<lambda>now i. mark_download_failed now i" "\<lambda>now i. schedule_download_retry now i"
  reset_stale_downloads
proof
  fix s :: downloads and now t delay :: int and k msg :: string and cat :: "string option" and att :: "nat option" and a :: nat
  assume inv: "download_inv s"
  note u = inv [unfolded download_inv_def, THEN conjunct1]
  show "download_inv (fst (claim_resolving now k s))"
    unfolding claim_resolving_def fst_conv
    by (rule download_inv_upd [OF inv]) (use inv in \<open>auto simp: claimable_download_def download_inv_def\<close>)
  show "snd (claim_resolving now k s) = download_ready now s k"
    using filter_unique_length [OF u, of k "claimable_download now"]
    by (simp add: claim_resolving_def download_ready_def)
  show "download_attempts (fst (claim_resolving now k s)) k = download_attempts s k"
    by (cases "get_download s k") (simp_all add: download_attempts_def claim_resolving_def get_download_upd)
  show "\<not> download_ready t (fst (claim_resolving now k s)) k" if "download_ready now s k"
  proof -
    from that obtain r where r: "r \<in> set s" "dn_id r = k" "claimable_download now r"
      by (auto simp: download_ready_def list_ex_iff)
    show ?thesis
    proof
      assume "download_ready t (fst (claim_resolving now k s)) k"
      then obtain x where x: "x \<in> set s" and ex: "dn_id (if dn_id x = k \<and> claimable_download now x
            then x\<lparr>dn_status := DnResolving, dn_updated_at := now\<rparr> else x) = k"
          "claimable_download t (if dn_id x = k \<and> claimable_download now x
            then x\<lparr>dn_status := DnResolving, dn_updated_at := now\<rparr> else x)"
        unfolding claim_resolving_def fst_conv download_ready_upd list_ex_iff by blast
      from ex(1) have "dn_id x = k" by (simp split: if_splits)
      with unique_byD [OF u x r(1)] r(2) have "x = r" by simp
      with ex(2) r(2,3) show False by (simp add: claimable_download_def)
    qed
  qed
  show "\<exists>a. download_attempts s k = Some a \<and> a < max_job_attempts" if "download_ready now s k"
  proof -
    from that obtain r where r: "r \<in> set s" "dn_id r = k" "claimable_download now r"
      by (auto simp: download_ready_def list_ex_iff)
    have "get_download s k = Some r"
      unfolding get_download_def using find_unique [OF u r(1)] r(2) by simp
    with r inv show ?thesis by (auto simp: download_attempts_def claimable_download_def download_inv_def)
  qed
  show "download_inv (mark_download_failed now k msg cat att s)"
    unfolding mark_download_failed_def upd_download_def by (rule download_inv_upd [OF inv]) simp_all
  show "download_attempts (mark_download_failed now k msg cat (Some a) s) k = Some a" if "download_attempts s k \<noteq> None"
    using that by (cases "get_download s k")
      (simp_all add: download_attempts_def mark_download_failed_def upd_download_def get_download_upd get_downloadD)
  show "\<not> download_ready t (mark_download_failed now k msg cat att s) k"
    by (auto simp: mark_download_failed_def upd_download_def download_ready_upd list_ex_iff claimable_download_def)
  show "download_inv (schedule_download_retry now k msg cat a delay s)"
    unfolding schedule_download_retry_def upd_download_def by (rule download_inv_upd [OF inv]) simp_all
  show "download_attempts (schedule_download_retry now k msg cat a delay s) k = Some a" if "download_attempts s k \<noteq> None"
    using that by (cases "get_download s k")
      (simp_all add: download_attempts_def schedule_download_retry_def upd_download_def get_download_upd get_downloadD)
  show "now + delay \<le> t" if "download_ready t (schedule_download_retry now k msg cat a delay s) k"
    using that by (auto simp: schedule_download_retry_def upd_download_def download_ready_upd list_ex_iff claimable_download_def split: if_splits)
  show "download_inv (reset_stale_downloads now s)"
    unfolding reset_stale_downloads_def
    by (rule download_inv_upd [OF inv]) (use inv in \<open>auto simp: transient_download_def download_inv_def\<close>)
  show "download_attempts (reset_stale_downloads now s) k = download_attempts s k"
    by (cases "get_download s k") (simp_all add: download_attempts_def reset_stale_downloads_def get_download_upd)
qed

end
