(* ===== verification/Promotion_Store.thy ===== *)
theory Promotion_Store
  imports Job_Retry Canonical_Path
begin

text \<open>
  Promotions to owned storage, \<open>promotion/store.js\<close>, with \<open>materializeOne\<close> of \<open>promotion/worker.js\<close>:
  one row per torrent file. \<open>known\<close> says which torrent files exist (the foreign key).
\<close>

section \<open>Rows\<close>

datatype promotion_status = PrRequested | PrMaterializing | PrVerifying | PrPermanent | PrFailed

record promotion =
  pm_torrent_file_id :: string
  pm_library_item_id :: string
  pm_media_id :: string
  pm_media_type :: media_type
  pm_season :: "int option"
  pm_episode :: "int option"
  pm_status :: promotion_status
  pm_permanent_path :: "string option"
  pm_bytes_complete :: int
  pm_size :: int
  pm_last_error :: "string option"
  pm_created_at :: int
  pm_updated_at :: int
  pm_attempts :: nat
  pm_next_due_at :: "int option"
  pm_fail_category :: "string option"

type_synonym promotions = "promotion list"

definition get_promotion :: "promotions \<Rightarrow> string \<Rightarrow> promotion option" where
  "get_promotion s i = find (\<lambda>r. pm_torrent_file_id r = i) s"

definition get_promotion_by_media ::
  "string \<Rightarrow> media_type \<Rightarrow> int option \<Rightarrow> int option \<Rightarrow> promotions \<Rightarrow> promotion option" where
  "get_promotion_by_media mediaId mt season episode s = top_by pm_updated_at
     (filter (\<lambda>r. pm_media_id r = mediaId \<and> pm_media_type r = mt
        \<and> nullish (pm_season r) (-1) = nullish season (-1) \<and> nullish (pm_episode r) (-1) = nullish episode (-1)) s)"

section \<open>Operations\<close>

record promotion_input =
  mx_torrentFileId :: string
  mx_libraryItemId :: string
  mx_mediaId :: string
  mx_mediaType :: string
  mx_season :: "int option"
  mx_episode :: "int option"
  mx_size :: "int option"
  mx_permanentPath :: string

text \<open>The \<open>CHECK\<close> on the media type.\<close>

definition check_media :: "string \<Rightarrow> media_type res" where
  "check_media v = (if v = ''movie'' then Inr Movie else if v = ''episode'' then Inr Episode
     else Inl (SqlConstraint ''media_type''))"

definition reset_promotion :: "int \<Rightarrow> string \<Rightarrow> promotion \<Rightarrow> promotion" where
  "reset_promotion now path r = r\<lparr>pm_status := PrRequested, pm_last_error := None, pm_bytes_complete := 0,
     pm_permanent_path := Some path, pm_attempts := 0, pm_next_due_at := None, pm_fail_category := None,
     pm_updated_at := now\<rparr>"

definition new_promotion :: "int \<Rightarrow> promotion_input \<Rightarrow> media_type \<Rightarrow> int \<Rightarrow> promotion" where
  "new_promotion now x mt sz = \<lparr>pm_torrent_file_id = mx_torrentFileId x, pm_library_item_id = mx_libraryItemId x,
     pm_media_id = mx_mediaId x, pm_media_type = mt, pm_season = mx_season x, pm_episode = mx_episode x,
     pm_status = PrRequested, pm_permanent_path = Some (mx_permanentPath x), pm_bytes_complete = 0, pm_size = sz,
     pm_last_error = None, pm_created_at = now, pm_updated_at = now, pm_attempts = 0, pm_next_due_at = None,
     pm_fail_category = None\<rparr>"

datatype promotion_outcome = PromotionCreated | PromotionReset | PromotionExisting

definition request_promotion ::
  "(string \<Rightarrow> bool) \<Rightarrow> int \<Rightarrow> promotion_input \<Rightarrow> promotions \<Rightarrow> (promotions \<times> promotion option \<times> promotion_outcome) res" where
  "request_promotion known now x s =
     (if mx_torrentFileId x = [] then Inl (JsError ''torrentFileId is required'')
      else case mx_size x of
        None \<Rightarrow> Inl (JsError ''positive TorrentFile size is required'')
      | Some sz \<Rightarrow>
        if \<not> is_safe_integer sz \<or> sz \<le> 0 then Inl (JsError ''positive TorrentFile size is required'')
        else if mx_permanentPath x = [] then Inl (JsError ''permanentPath is required'')
        else (case get_promotion s (mx_torrentFileId x) of
            Some cur \<Rightarrow>
              if pm_status cur = PrPermanent then Inr (s, Some cur, PromotionExisting)
              else if pm_status cur \<noteq> PrFailed then Inr (s, Some cur, PromotionExisting)
              else let s' = upd_where (\<lambda>r. pm_torrent_file_id r = mx_torrentFileId x)
                       (reset_promotion now (mx_permanentPath x)) s
                   in Inr (s', get_promotion s' (mx_torrentFileId x), PromotionReset)
          | None \<Rightarrow>
              res_bind (check_media (mx_mediaType x)) (\<lambda>mt.
              if \<not> known (mx_torrentFileId x) then Inl (SqlConstraint ''torrent_file_id'')
              else let s' = s @ [new_promotion now x mt sz]
                   in Inr (s', get_promotion s' (mx_torrentFileId x), PromotionCreated))))"

definition claimable_promotion :: "int \<Rightarrow> promotion \<Rightarrow> bool" where
  "claimable_promotion now r \<longleftrightarrow> pm_status r = PrRequested
     \<or> (pm_status r = PrFailed \<and> (case pm_next_due_at r of None \<Rightarrow> False | Some t \<Rightarrow> t \<le> now)
        \<and> pm_attempts r < max_job_attempts)"

definition claim_materializing :: "int \<Rightarrow> string \<Rightarrow> promotions \<Rightarrow> promotions \<times> bool" where
  "claim_materializing now i s =
     (upd_where (\<lambda>r. pm_torrent_file_id r = i \<and> claimable_promotion now r)
        (\<lambda>r. r\<lparr>pm_status := PrMaterializing, pm_updated_at := now\<rparr>) s,
      length (filter (\<lambda>r. pm_torrent_file_id r = i \<and> claimable_promotion now r) s) = 1)"

definition mark_verifying :: "int \<Rightarrow> string \<Rightarrow> int \<Rightarrow> promotions \<Rightarrow> (promotions \<times> promotion option) res" where
  "mark_verifying now i bytes s =
     (if list_ex (\<lambda>r. pm_torrent_file_id r = i) s \<and> bytes < 0 then Inl (SqlConstraint ''bytes_complete'')
      else let s' = upd_where (\<lambda>r. pm_torrent_file_id r = i)
               (\<lambda>r. r\<lparr>pm_status := PrVerifying, pm_bytes_complete := bytes, pm_updated_at := now\<rparr>) s
           in Inr (s', get_promotion s' i))"

definition mark_permanent :: "int \<Rightarrow> string \<Rightarrow> promotions \<Rightarrow> (promotions \<times> promotion option) res" where
  "mark_permanent now i s = (case get_promotion s i of
      None \<Rightarrow> Inl (JsError ''unknown promotion'')
    | Some _ \<Rightarrow> let s' = upd_where (\<lambda>r. pm_torrent_file_id r = i)
          (\<lambda>r. r\<lparr>pm_status := PrPermanent, pm_bytes_complete := pm_size r, pm_last_error := None, pm_updated_at := now\<rparr>) s
        in Inr (s', get_promotion s' i))"

definition mark_promotion_failed ::
  "int \<Rightarrow> string \<Rightarrow> string \<Rightarrow> string option \<Rightarrow> nat option \<Rightarrow> promotions \<Rightarrow> promotions" where
  "mark_promotion_failed now i err cat attempts s =
     upd_where (\<lambda>r. pm_torrent_file_id r = i) (\<lambda>r. r\<lparr>pm_status := PrFailed, pm_last_error := Some (take 2000 err),
       pm_fail_category := coalesce cat (pm_fail_category r),
       pm_attempts := nullish attempts (pm_attempts r + 1), pm_next_due_at := None, pm_updated_at := now\<rparr>) s"

definition schedule_promotion_retry ::
  "int \<Rightarrow> string \<Rightarrow> string \<Rightarrow> string option \<Rightarrow> nat \<Rightarrow> int \<Rightarrow> promotions \<Rightarrow> promotions" where
  "schedule_promotion_retry now i err cat attempts delay s =
     upd_where (\<lambda>r. pm_torrent_file_id r = i) (\<lambda>r. r\<lparr>pm_status := PrFailed, pm_last_error := Some (take 2000 err),
       pm_fail_category := cat, pm_attempts := attempts, pm_next_due_at := Some (now + delay), pm_updated_at := now\<rparr>) s"

definition note_promotion_progress :: "int \<Rightarrow> string \<Rightarrow> int \<Rightarrow> promotions \<Rightarrow> promotions res" where
  "note_promotion_progress now i bytes s =
     (if list_ex (\<lambda>r. pm_torrent_file_id r = i \<and> pm_status r = PrMaterializing) s \<and> bytes < 0
      then Inl (SqlConstraint ''bytes_complete'')
      else Inr (upd_where (\<lambda>r. pm_torrent_file_id r = i \<and> pm_status r = PrMaterializing)
             (\<lambda>r. r\<lparr>pm_bytes_complete := bytes, pm_updated_at := now\<rparr>) s))"

definition list_claimable_promotions :: "int \<Rightarrow> nat \<Rightarrow> promotions \<Rightarrow> promotions" where
  "list_claimable_promotions now limit s = take limit (sort_key pm_created_at (filter (claimable_promotion now) s))"

definition transient_promotion :: "promotion \<Rightarrow> bool" where
  "transient_promotion r \<longleftrightarrow> pm_status r = PrMaterializing \<or> pm_status r = PrVerifying"

definition reset_stale_promotions :: "int \<Rightarrow> promotions \<Rightarrow> promotions" where
  "reset_stale_promotions now s =
     upd_where transient_promotion (\<lambda>r. r\<lparr>pm_status := PrRequested, pm_last_error := None, pm_updated_at := now\<rparr>) s"

section \<open>The worker\<close>

definition fail_promotion :: "int \<Rightarrow> string \<Rightarrow> job_failure \<Rightarrow> string \<Rightarrow> promotions \<Rightarrow> promotions \<times> job_outcome" where
  "fail_promotion now = record_job_failure (\<lambda>s i. map_option pm_attempts (get_promotion s i))
     (mark_promotion_failed now) (schedule_promotion_retry now)"

datatype promotion_run = PromotionClaimed | PromotionJobFailed job_outcome | PromotionDone "promotion option"
  | PromotionThrows js_error

fun note_all_promotion_progress :: "int \<Rightarrow> string \<Rightarrow> int list \<Rightarrow> promotions \<Rightarrow> promotions" where
  "note_all_promotion_progress now i [] s = s"
| "note_all_promotion_progress now i (b # bs) s =
     note_all_promotion_progress now i bs (case note_promotion_progress now i b s of Inl e \<Rightarrow> s | Inr s' \<Rightarrow> s')"

text \<open>
  \<open>materializeOne\<close> with the answer of the materializer: its progress, whose notes never end the run
  (\<open>reportProgress\<close> in \<open>materialize.js\<close> swallows their errors), and the error or the byte count it ends with. The set of ids in flight in this process is not modelled: the claim decides.
\<close>

definition materialize_one ::
  "(string \<Rightarrow> bool) \<Rightarrow> int \<Rightarrow> promotion \<Rightarrow> int list \<Rightarrow> string + int \<Rightarrow> promotions \<Rightarrow> promotions \<times> promotion_run" where
  "materialize_one within_root now p progress result s =
     (let i = pm_torrent_file_id p;
          fail = (\<lambda>stage err st. case fail_promotion now i (classify_job_failure stage err) err st of
              (st', out) \<Rightarrow> (st', PromotionJobFailed out))
      in if (case pm_permanent_path p of None \<Rightarrow> True | Some path \<Rightarrow> \<not> within_root path)
         then fail StageTarget ''permanent path escapes owned root'' s
         else (case claim_materializing now i s of
             (s1, False) \<Rightarrow> (s1, PromotionClaimed)
           | (s1, True) \<Rightarrow> (let s2 = note_all_promotion_progress now i progress s1 in
               case result of
                 Inl e \<Rightarrow> fail StageMaterialize e s2
               | Inr bytes \<Rightarrow> (case mark_verifying now i bytes s2 of
                   Inl e \<Rightarrow> (s2, PromotionThrows e)
                 | Inr (s3, _) \<Rightarrow> (case mark_permanent now i s3 of
                     Inl e \<Rightarrow> (s3, PromotionThrows e)
                   | Inr (s4, r) \<Rightarrow> (s4, PromotionDone r))))))"

section \<open>The store as a job store\<close>

definition promotion_inv :: "promotions \<Rightarrow> bool" where
  "promotion_inv s \<longleftrightarrow> unique_by pm_torrent_file_id s
     \<and> (\<forall>r \<in> set s. pm_status r \<in> {PrRequested, PrMaterializing, PrVerifying} \<longrightarrow> pm_attempts r < max_job_attempts)"

definition promotion_ready :: "int \<Rightarrow> promotions \<Rightarrow> string \<Rightarrow> bool" where
  "promotion_ready now s i = list_ex (\<lambda>r. pm_torrent_file_id r = i \<and> claimable_promotion now r) s"

definition promotion_attempts :: "promotions \<Rightarrow> string \<Rightarrow> nat option" where
  "promotion_attempts s i = map_option pm_attempts (get_promotion s i)"

lemma promotion_inv_upd:
  assumes "promotion_inv s" "\<And>r. pm_torrent_file_id (f r) = pm_torrent_file_id r"
    and "\<And>r. r \<in> set s \<Longrightarrow> P r \<Longrightarrow> pm_status (f r) \<in> {PrRequested, PrMaterializing, PrVerifying} \<Longrightarrow> pm_attempts (f r) < max_job_attempts"
  shows "promotion_inv (upd_where P f s)"
  using assms by (auto simp: promotion_inv_def unique_by_upd_where elim!: in_upd_whereE)

lemma get_promotionD: "get_promotion s i = Some r \<Longrightarrow> pm_torrent_file_id r = i"
  by (auto simp: get_promotion_def dest: find_SomeD)

lemma get_promotion_upd:
  assumes "\<And>r. pm_torrent_file_id (f r) = pm_torrent_file_id r"
  shows "get_promotion (upd_where P f s) i = map_option (\<lambda>r. if P r then f r else r) (get_promotion s i)"
  using assms by (simp add: get_promotion_def find_upd_where)

lemma promotion_ready_upd:
  "promotion_ready t (upd_where P f s) i =
     list_ex (\<lambda>r. pm_torrent_file_id (if P r then f r else r) = i \<and> claimable_promotion t (if P r then f r else r)) s"
  by (simp add: promotion_ready_def list_ex_upd_where)

lemma promotion_ready_row:
  assumes "promotion_inv s" "promotion_ready now s i"
  shows "\<exists>r. get_promotion s i = Some r \<and> r \<in> set s \<and> claimable_promotion now r"
proof -
  from assms(2) obtain r where r: "r \<in> set s" "pm_torrent_file_id r = i" "claimable_promotion now r"
    by (auto simp: promotion_ready_def list_ex_iff)
  with assms(1) find_unique [of pm_torrent_file_id s r] show ?thesis
    by (auto simp: get_promotion_def promotion_inv_def)
qed

interpretation promotion_jobs: job_store promotion_inv promotion_attempts promotion_ready
  "\<lambda>now i s. claim_materializing now i s" "\<lambda>now i. mark_promotion_failed now i"
  "\<lambda>now i. schedule_promotion_retry now i" reset_stale_promotions
proof
  fix s :: promotions and now t delay :: int and k msg :: string and cat :: "string option" and att :: "nat option" and a :: nat
  assume inv: "promotion_inv s"
  note u = inv [unfolded promotion_inv_def, THEN conjunct1]
  show "promotion_inv (fst (claim_materializing now k s))"
    unfolding claim_materializing_def fst_conv
    by (rule promotion_inv_upd [OF inv]) (use inv in \<open>auto simp: claimable_promotion_def promotion_inv_def\<close>)
  show "snd (claim_materializing now k s) = promotion_ready now s k"
    using filter_unique_length [OF u, of k "claimable_promotion now"]
    by (simp add: claim_materializing_def promotion_ready_def)
  show "promotion_attempts (fst (claim_materializing now k s)) k = promotion_attempts s k"
    by (cases "get_promotion s k") (simp_all add: promotion_attempts_def claim_materializing_def get_promotion_upd)
  show "\<not> promotion_ready t (fst (claim_materializing now k s)) k" if "promotion_ready now s k"
  proof
    assume "promotion_ready t (fst (claim_materializing now k s)) k"
    then obtain x where x: "x \<in> set s" and ex: "pm_torrent_file_id (if pm_torrent_file_id x = k \<and> claimable_promotion now x
          then x\<lparr>pm_status := PrMaterializing, pm_updated_at := now\<rparr> else x) = k"
        "claimable_promotion t (if pm_torrent_file_id x = k \<and> claimable_promotion now x
          then x\<lparr>pm_status := PrMaterializing, pm_updated_at := now\<rparr> else x)"
      unfolding claim_materializing_def fst_conv promotion_ready_upd list_ex_iff by blast
    from promotion_ready_row [OF inv that] obtain r where r: "r \<in> set s" "get_promotion s k = Some r" "claimable_promotion now r"
      by blast
    note rk = get_promotionD [OF r(2)]
    from ex(1) have "pm_torrent_file_id x = k" by (simp split: if_splits)
    with unique_byD [OF u x r(1)] rk have "x = r" by simp
    with ex(2) r(3) rk show False by (simp add: claimable_promotion_def)
  qed
  show "\<exists>a. promotion_attempts s k = Some a \<and> a < max_job_attempts" if "promotion_ready now s k"
    using promotion_ready_row [OF inv that] inv
    by (auto simp: promotion_attempts_def claimable_promotion_def promotion_inv_def)
  show "promotion_inv (mark_promotion_failed now k msg cat att s)"
    unfolding mark_promotion_failed_def by (rule promotion_inv_upd [OF inv]) simp_all
  show "promotion_attempts (mark_promotion_failed now k msg cat (Some a) s) k = Some a" if "promotion_attempts s k \<noteq> None"
    using that by (cases "get_promotion s k")
      (simp_all add: promotion_attempts_def mark_promotion_failed_def get_promotion_upd get_promotionD)
  show "\<not> promotion_ready t (mark_promotion_failed now k msg cat att s) k"
    by (auto simp: mark_promotion_failed_def promotion_ready_upd list_ex_iff claimable_promotion_def)
  show "promotion_inv (schedule_promotion_retry now k msg cat a delay s)"
    unfolding schedule_promotion_retry_def by (rule promotion_inv_upd [OF inv]) simp_all
  show "promotion_attempts (schedule_promotion_retry now k msg cat a delay s) k = Some a" if "promotion_attempts s k \<noteq> None"
    using that by (cases "get_promotion s k")
      (simp_all add: promotion_attempts_def schedule_promotion_retry_def get_promotion_upd get_promotionD)
  show "now + delay \<le> t" if "promotion_ready t (schedule_promotion_retry now k msg cat a delay s) k"
    using that by (auto simp: schedule_promotion_retry_def promotion_ready_upd list_ex_iff claimable_promotion_def split: if_splits)
  show "promotion_inv (reset_stale_promotions now s)"
    unfolding reset_stale_promotions_def
    by (rule promotion_inv_upd [OF inv]) (use inv in \<open>auto simp: transient_promotion_def promotion_inv_def\<close>)
  show "promotion_attempts (reset_stale_promotions now s) k = promotion_attempts s k"
    by (cases "get_promotion s k") (simp_all add: promotion_attempts_def reset_stale_promotions_def get_promotion_upd)
qed

end
