(* ===== verification/Job_Properties.thy ===== *)
theory Job_Properties
  imports Download_Store Promotion_Store
begin

text \<open>
  Properties of download intents and promotions: the retry budget from the locale \<open>job_store\<close>, what a
  worker run that reports success has written, permanence, the life cycle of a handoff and its
  cleanup.
\<close>

section \<open>The retry budget\<close>

lemma fail_download_eq: "fail_download = (\<lambda>now. download_jobs.record_failure now)"
proof (rule ext)
  fix now
  have "(\<lambda>s i. map_option dn_attempts (get_download s i)) = download_attempts"
    by (simp add: fun_eq_iff download_attempts_def)
  then show "fail_download now = download_jobs.record_failure now"
    unfolding fail_download_def download_jobs.record_failure_def by simp
qed

lemma fail_promotion_eq: "fail_promotion = (\<lambda>now. promotion_jobs.record_failure now)"
proof (rule ext)
  fix now
  have "(\<lambda>s i. map_option pm_attempts (get_promotion s i)) = promotion_attempts"
    by (simp add: fun_eq_iff promotion_attempts_def)
  then show "fail_promotion now = promotion_jobs.record_failure now"
    unfolding fail_promotion_def promotion_jobs.record_failure_def by simp
qed

text \<open>
  C23: A download job fails at most six times between two requests: runs of the worker that are claimed
  and fail raise the attempts one by one, never beyond the budget, and when the budget is used up no
  later claim succeeds, at whatever time.
\<close>

theorem download_retry_budget:
  assumes "failed_runs (\<lambda>t. claim_resolving t i) (\<lambda>t. fail_download t i) runs s = Some s'"
    and "download_inv s" "get_download s i = Some r" "runs \<noteq> []"
  shows "dn_attempts r + length runs \<le> max_job_attempts \<and> download_inv s'
    \<and> (dn_attempts r + length runs = max_job_attempts \<longrightarrow> (\<forall>t. \<not> snd (claim_resolving t i s')))"
proof -
  have att: "download_attempts s i = Some (dn_attempts r)" using assms(3) by (simp add: download_attempts_def)
  note fr = assms(1) [unfolded fail_download_eq]
  from download_jobs.failed_runs_bounded [OF fr assms(2) att] assms(4)
  have b: "dn_attempts r + length runs \<le> max_job_attempts" "download_inv s'" by auto
  have "\<not> snd (claim_resolving t i s')" if "dn_attempts r + length runs = max_job_attempts" for t
    using download_jobs.exhausted_final [OF fr assms(2) att that assms(4)] download_jobs.claim_result [OF b(2)] by simp
  with b show ?thesis by blast
qed

text \<open>The same budget holds for a promotion, and after a failure it is not claimed for fifteen minutes.\<close>

theorem promotion_retry_budget:
  assumes "failed_runs (\<lambda>t. claim_materializing t i) (\<lambda>t. fail_promotion t i) (runs @ [(t1, t2, c, err)]) s = Some s'"
    and "promotion_inv s" "get_promotion s i = Some r"
  shows "pm_attempts r + length runs < max_job_attempts
    \<and> (\<forall>t. snd (claim_materializing t i s') \<longrightarrow> jf_retryable c \<and> t2 + 15 * 60 * 1000 \<le> t)"
proof -
  have att: "promotion_attempts s i = Some (pm_attempts r)" using assms(3) by (simp add: promotion_attempts_def)
  note fr = assms(1) [unfolded fail_promotion_eq]
  from promotion_jobs.failed_runs_bounded [OF fr assms(2) att]
  have b: "pm_attempts r + length runs < max_job_attempts" "promotion_inv s'" by auto
  have split: "failed_runs f g (xs @ [x]) s0 = Option.bind (failed_runs f g xs s0) (failed_run f g x)" for f g xs x and s0 :: promotions
    by (induction xs arbitrary: s0) (auto split: option.splits)
  from fr [unfolded split] obtain s1 where s1: "failed_runs (\<lambda>t. claim_materializing t i) (\<lambda>t. promotion_jobs.record_failure t i) runs s = Some s1"
      "failed_run (\<lambda>t. claim_materializing t i) (\<lambda>t. promotion_jobs.record_failure t i) (t1, t2, c, err) s1 = Some s'"
    by (auto simp: bind_eq_Some_conv)
  from promotion_jobs.failed_runs_bounded [OF s1(1) assms(2) att] have i1: "promotion_inv s1" by blast
  obtain s2 ok where c2: "claim_materializing t1 i s1 = (s2, ok)" by (cases "claim_materializing t1 i s1")
  with s1(2) have s': "s' = fst (promotion_jobs.record_failure t2 i c err s2)" by (simp add: failed_run_def split: if_splits)
  have i2: "promotion_inv s2" using promotion_jobs.claim_inv [OF i1, of t1 i] c2 by simp
  have "jf_retryable c \<and> t2 + 15 * 60 * 1000 \<le> t" if "snd (claim_materializing t i s')" for t
  proof -
    from that promotion_jobs.claim_result [OF b(2), of t i] have rd: "promotion_ready t s' i" by simp
    then show ?thesis
      using promotion_jobs.permanent_final [OF i2, of c t t2 i err] promotion_jobs.retry_not_early [OF i2, of t t2 i c err]
      unfolding s' by blast
  qed
  with b show ?thesis by blast
qed

definition sample_download_input :: download_input where
  "sample_download_input = \<lparr>dx_mediaId = ''tt1'', dx_mediaType = ''movie'', dx_season = None, dx_episode = None,
     dx_title = Some ''T'', dx_year = None, dx_qualityProfile = None\<rparr>"

definition sample_downloads :: downloads where
  "sample_downloads = [new_download 1 ''u'' sample_download_input Movie]"

definition sample_promotions :: promotions where
  "sample_promotions = [new_promotion 1 \<lparr>mx_torrentFileId = ''tf_1'', mx_libraryItemId = ''li_1'', mx_mediaId = ''tt1'',
     mx_mediaType = ''movie'', mx_season = None, mx_episode = None, mx_size = Some 10, mx_permanentPath = ''/p''\<rparr> Movie 10]"

definition sample_runs :: "nat \<Rightarrow> run list" where
  "sample_runs n = map (\<lambda>k. (int k * 1000000000, int k * 1000000000, failure True ''transient'', ''e'')) [1..<n + 1]"

lemma sample_run_results:
  "(case failed_runs (\<lambda>t. claim_resolving t ''u'') (\<lambda>t. fail_download t ''u'') (sample_runs 6) sample_downloads of
      None \<Rightarrow> False | Some s' \<Rightarrow> map dn_attempts s' = [6])"
  "(case failed_runs (\<lambda>t. claim_materializing t ''tf_1'') (\<lambda>t. fail_promotion t ''tf_1'')
        (sample_runs 1 @ [(2000000000, 2000000000, failure True ''transient'', ''e'')]) sample_promotions of
      None \<Rightarrow> False | Some s' \<Rightarrow> snd (claim_materializing 2003600000 ''tf_1'' s'))"
  by code_simp+

lemma sample_jobs_inv: "download_inv sample_downloads" "promotion_inv sample_promotions"
  "get_download sample_downloads ''u'' = Some (new_download 1 ''u'' sample_download_input Movie)"
  by (simp_all add: download_inv_def promotion_inv_def sample_downloads_def sample_promotions_def unique_by_def
      new_download_def new_promotion_def max_job_attempts_def get_download_def)

theorem download_retry_budget_witness:
  "\<exists>s'. failed_runs (\<lambda>t. claim_resolving t ''u'') (\<lambda>t. fail_download t ''u'') (sample_runs 6) sample_downloads = Some s'
    \<and> (\<forall>t. \<not> snd (claim_resolving t ''u'' s'))"
proof -
  from sample_run_results(1) obtain s' where
    run: "failed_runs (\<lambda>t. claim_resolving t ''u'') (\<lambda>t. fail_download t ''u'') (sample_runs 6) sample_downloads = Some s'"
    by (auto split: option.splits)
  have "sample_runs 6 \<noteq> []" by (simp add: sample_runs_def)
  from download_retry_budget [OF run sample_jobs_inv(1,3) this] run show ?thesis
    by (auto simp: sample_runs_def new_download_def max_job_attempts_def)
qed

theorem promotion_retry_budget_witness:
  "\<exists>s'. failed_runs (\<lambda>t. claim_materializing t ''tf_1'') (\<lambda>t. fail_promotion t ''tf_1'')
        (sample_runs 1 @ [(2000000000, 2000000000, failure True ''transient'', ''e'')]) sample_promotions = Some s'
    \<and> snd (claim_materializing 2003600000 ''tf_1'' s') \<and> \<not> snd (claim_materializing 2000899999 ''tf_1'' s')"
proof -
  from sample_run_results(2) obtain s' where
    run: "failed_runs (\<lambda>t. claim_materializing t ''tf_1'') (\<lambda>t. fail_promotion t ''tf_1'')
        (sample_runs 1 @ [(2000000000, 2000000000, failure True ''transient'', ''e'')]) sample_promotions = Some s'"
      "snd (claim_materializing 2003600000 ''tf_1'' s')"
    by (auto split: option.splits)
  have g: "get_promotion sample_promotions ''tf_1'' = Some (hd sample_promotions)"
    by (simp add: get_promotion_def sample_promotions_def new_promotion_def)
  from promotion_retry_budget [OF run(1) sample_jobs_inv(2) g] run show ?thesis by fastforce
qed

section \<open>What success means\<close>

text \<open>What a run of the worker that ends in success has done to its row.\<close>

definition transfer_columns :: "download \<Rightarrow> nat \<times> handoff_state \<times> string option \<times> int option \<times> int option \<times> string option" where
  "transfer_columns r = (dn_handoff_version r, dn_handoff_state r, dn_handoff_id r, dn_cleanup_due_at r,
     dn_cleanup_done_at r, dn_cleanup_handoff_id r)"

lemma progress_keeps:
  assumes "\<And>r b. f (r\<lparr>dn_bytes_complete := b, dn_updated_at := now\<rparr>) = f r"
  shows "map_option f (get_download (note_all_progress now i bs x) i) = map_option f (get_download x i)"
proof (induction bs arbitrary: x)
  case (Cons b bs)
  let ?z = "case note_download_progress now i b x of Inl e \<Rightarrow> x | Inr z \<Rightarrow> z"
  have "map_option f (get_download ?z i) = map_option f (get_download x i)"
    by (cases "get_download x i")
       (auto simp: note_download_progress_def get_download_upd assms split: sum.splits if_splits)
  with Cons.IH [of ?z] show ?case by simp
qed simp

lemma claim_keeps: "map_option transfer_columns (get_download (fst (claim_resolving now i s)) i) =
    map_option transfer_columns (get_download s i)"
  by (cases "get_download s i") (auto simp: claim_resolving_def get_download_upd transfer_columns_def)

lemma staged_run:
  assumes "process_download known within_root now i resolution progress materializeError s = (s', WorkerStaged v)"
  obtains r t n path where "v = Some r" "get_download s' i = Some r" "resolution = Resolved t (Some n) (Inr path)"
    "dn_status r = DnStaged" "dn_torrent_file_id r = Some t" "dn_expected_size r = Some n" "dn_bytes_complete r = n"
    "0 < n" "dn_staged_path r = Some path" "within_root path" "materializeError = None" "snd (claim_resolving now i s)"
    "map_option transfer_columns (get_download s i) = Some (transfer_columns r)"
proof -
  obtain s1 claimed where c1: "claim_resolving now i s = (s1, claimed)" by (cases "claim_resolving now i s")
  have nf: "(case fail_download now i c e st of (st', out) \<Rightarrow> (st', WorkerFailed out)) \<noteq> (s', WorkerStaged v)" for c e st
    by (cases "fail_download now i c e st") simp
  from assms c1 have claimed by (auto simp: process_download_def Let_def split: if_splits)
  from assms c1 \<open>claimed\<close> nf obtain t sz path where res: "resolution = Resolved t sz (Inr path)" "within_root path"
    by (auto simp: process_download_def Let_def split: resolution.splits sum.splits if_splits)
  obtain s2 u where m: "mark_materializing known now i t sz (Some path) s1 = Inr (s2, u)"
    using assms c1 \<open>claimed\<close> res by (auto simp: process_download_def Let_def split: sum.splits)
  define s3 where p: "s3 = note_all_progress now i progress s2"
  have ok: "materializeError = None"
    using assms c1 \<open>claimed\<close> res m nf by (auto simp: process_download_def Let_def split: option.splits)
  have st: "mark_staged now i s3 = Inr (s', v)"
    using assms c1 \<open>claimed\<close> res m p ok by (auto simp: process_download_def Let_def split: sum.splits)
  from m obtain n where n: "sz = Some n" "0 < n" and s2: "s2 = upd_download i (\<lambda>r. r\<lparr>dn_status := DnMaterializing,
      dn_torrent_file_id := Some t, dn_expected_size := Some n, dn_staged_path := Some path, dn_updated_at := now\<rparr>) s1"
    by (auto simp: mark_materializing_def Let_def split: if_splits option.splits)
  define core where "core = (\<lambda>r. (dn_torrent_file_id r, dn_expected_size r, dn_staged_path r, transfer_columns r))"
  have core: "core (r\<lparr>dn_bytes_complete := b, dn_updated_at := now\<rparr>) = core r" for r b
    by (simp add: core_def transfer_columns_def)
  from st obtain row where row: "get_download s3 i = Some row" by (auto simp: mark_staged_def split: option.splits)
  with progress_keeps [of core, OF core, of i progress s2] p obtain r2 where r2: "get_download s2 i = Some r2" "core row = core r2"
    by (cases "get_download s2 i") auto
  from r2(1) obtain r1 where r1: "get_download s1 i = Some r1" "r2 = (if dn_id r1 = i then r1\<lparr>dn_status := DnMaterializing,
      dn_torrent_file_id := Some t, dn_expected_size := Some n, dn_staged_path := Some path, dn_updated_at := now\<rparr> else r1)"
    unfolding s2 upd_download_def by (auto simp: get_download_upd)
  from r1(2) get_downloadD [OF r1(1)] have r2': "core r2 = (Some t, Some n, Some path, transfer_columns r1)"
    by (simp add: core_def transfer_columns_def)
  from claim_keeps [of now i s] c1 r1(1)
  have cols: "map_option transfer_columns (get_download s i) = Some (transfer_columns r1)" by simp
  from r2(2) r2' have row': "dn_torrent_file_id row = Some t" "dn_expected_size row = Some n" "dn_staged_path row = Some path"
      "transfer_columns row = transfer_columns r1"
    by (simp_all add: core_def)
  from st row row' have s': "s' = upd_download i (\<lambda>r. r\<lparr>dn_status := DnStaged, dn_bytes_complete := n,
              dn_last_error := None, dn_updated_at := now\<rparr>) s3" and v: "v = get_download s' i"
    by (auto simp: mark_staged_def Let_def)
  let ?r = "row\<lparr>dn_status := DnStaged, dn_bytes_complete := n, dn_last_error := None, dn_updated_at := now\<rparr>"
  have r: "get_download s' i = Some ?r"
    unfolding s' upd_download_def using row get_downloadD [OF row] by (simp add: get_download_upd)
  have "transfer_columns ?r = transfer_columns r1" using row'(4) by (simp add: transfer_columns_def)
  with r v row' n res ok c1 \<open>claimed\<close> cols show thesis by (intro that [of ?r t n path]) simp_all
qed

text \<open>
  C24: When the worker reports a download as staged, its row is staged with the bytes complete at the
  positive size of the torrent file that was resolved, at a path inside the staging root, and the job
  was claimable when the worker took it.
\<close>

theorem staged_means_complete:
  assumes "process_download known within_root now i resolution progress materializeError s = (s', WorkerStaged v)"
    and "download_inv s"
  shows "\<exists>r t n path. v = Some r \<and> get_download s' i = Some r \<and> resolution = Resolved t (Some n) (Inr path)
    \<and> dn_status r = DnStaged \<and> dn_torrent_file_id r = Some t \<and> dn_expected_size r = Some n \<and> dn_bytes_complete r = n
    \<and> 0 < n \<and> dn_staged_path r = Some path \<and> within_root path \<and> materializeError = None \<and> download_ready now s i"
  using assms(1) by (rule staged_run) (use download_jobs.claim_result [OF assms(2), of now i] in auto)

definition sample_staging :: "downloads \<times> worker_outcome" where
  "sample_staging = process_download (\<lambda>t. t = ''tf_1'') (\<lambda>p. starts_with p ''/s/'') 50 ''u''
     (Resolved ''tf_1'' (Some 1000) (Inr ''/s/T.mkv'')) [10, 500] None sample_downloads"

definition staged_download :: download where
  "staged_download = (new_download 1 ''u'' sample_download_input Movie)\<lparr>dn_status := DnStaged,
     dn_torrent_file_id := Some ''tf_1'', dn_expected_size := Some 1000, dn_bytes_complete := 1000,
     dn_staged_path := Some ''/s/T.mkv'', dn_updated_at := 50\<rparr>"

lemma sample_staging_run: "sample_staging = ([staged_download], WorkerStaged (Some staged_download))"
  by code_simp

theorem staged_means_complete_witness:
  "\<exists>s' v. sample_staging = (s', WorkerStaged v) \<and> (\<exists>r. v = Some r \<and> dn_bytes_complete r = 1000)"
  using staged_means_complete [OF sample_staging_run [unfolded sample_staging_def] sample_jobs_inv(1)] sample_staging_run
  by auto

text \<open>
  A promotion that is permanent stays as it is when it is requested again, when it is claimed,
  when late progress is reported and when the process restarts, and none of its bytes is fetched again.
\<close>

theorem permanent_promotion_kept:
  assumes "promotion_inv s" "get_promotion s i = Some r" "pm_status r = PrPermanent"
  shows "(\<forall>known now x s' v out. request_promotion known now x s = Inr (s', v, out) \<longrightarrow> mx_torrentFileId x = i \<longrightarrow>
        s' = s \<and> v = Some r \<and> out = PromotionExisting)
    \<and> (\<forall>now. claim_materializing now i s = (s, False))
    \<and> (\<forall>now b s'. note_promotion_progress now i b s = Inr s' \<longrightarrow> s' = s)
    \<and> (\<forall>now. get_promotion (reset_stale_promotions now s) i = Some r)"
proof (intro conjI allI impI)
  have only: "x = r" if "x \<in> set s" "pm_torrent_file_id x = i" for x
  proof -
    from assms(2) have "r \<in> set s" "pm_torrent_file_id r = i" by (auto simp: get_promotion_def dest: find_SomeD)
    with unique_byD [of pm_torrent_file_id s x r] that assms(1) show ?thesis by (auto simp: promotion_inv_def)
  qed
  have nc: "\<not> (pm_torrent_file_id x = i \<and> claimable_promotion now x)" if "x \<in> set s" for x now
    using only [OF that] assms(3) by (auto simp: claimable_promotion_def)
  show "claim_materializing now i s = (s, False)" for now
  proof -
    have "filter (\<lambda>r. pm_torrent_file_id r = i \<and> claimable_promotion now r) s = []"
      using nc by (simp add: filter_empty_conv)
    then show ?thesis using nc by (auto simp: claim_materializing_def intro: upd_where_none)
  qed
  show "s' = s" if "note_promotion_progress now i b s = Inr s'" for now b s'
  proof -
    have "\<not> (pm_torrent_file_id x = i \<and> pm_status x = PrMaterializing)" if "x \<in> set s" for x
      using only [OF that] assms(3) by auto
    then have "upd_where (\<lambda>r. pm_torrent_file_id r = i \<and> pm_status r = PrMaterializing)
             (\<lambda>r. r\<lparr>pm_bytes_complete := b, pm_updated_at := now\<rparr>) s = s" by (intro upd_where_none)
    with that show ?thesis by (simp add: note_promotion_progress_def split: if_splits)
  qed
  show "get_promotion (reset_stale_promotions now s) i = Some r" for now
    using assms by (simp add: reset_stale_promotions_def get_promotion_upd transient_promotion_def)
  fix known now x s' v out
  assume run: "request_promotion known now x s = Inr (s', v, out)" and x: "mx_torrentFileId x = i"
  from run x assms(2,3) show "s' = s" "v = Some r" "out = PromotionExisting"
    by (auto simp: request_promotion_def split: if_splits option.splits)
qed

theorem permanent_promotion_kept_witness:
  "claim_materializing 9 ''tf_1'' [(hd sample_promotions)\<lparr>pm_status := PrPermanent\<rparr>]
     = ([(hd sample_promotions)\<lparr>pm_status := PrPermanent\<rparr>], False)"
proof -
  let ?s = "[(hd sample_promotions)\<lparr>pm_status := PrPermanent\<rparr>]"
  have "promotion_inv ?s" "get_promotion ?s ''tf_1'' = Some (hd ?s)"
    by (simp_all add: promotion_inv_def unique_by_def get_promotion_def sample_promotions_def new_promotion_def)
  from permanent_promotion_kept [OF this] show ?thesis by simp
qed

section \<open>Handoffs\<close>

text \<open>One event of the transfer protocol, for any download.\<close>

inductive transfer_step :: "downloads \<Rightarrow> downloads \<Rightarrow> bool" where
  begin_transfer: "create_handoff now i s = Inr (s', h, c) \<Longrightarrow> transfer_step s s'"
| transfer_event: "apply_handoff_event grace now i h st detail s = (s', out) \<Longrightarrow> transfer_step s s'"

definition transfer_done :: "download \<Rightarrow> bool" where
  "transfer_done r \<longleftrightarrow> dn_handoff_state r = HoCompleted \<or> dn_handoff_state r = HoFailed"

definition transfer_advance :: "download \<Rightarrow> download \<Rightarrow> bool" where
  "transfer_advance r r' \<longleftrightarrow> dn_handoff_version r \<le> dn_handoff_version r' \<and> dn_status r' = dn_status r
     \<and> (dn_handoff_version r' = dn_handoff_version r \<and> transfer_done r \<longrightarrow> r' = r)
     \<and> (dn_handoff_version r < dn_handoff_version r' \<longrightarrow> dn_status r = DnStaged)"

lemma transfer_advance_trans: "transfer_advance a b \<Longrightarrow> transfer_advance b c \<Longrightarrow> transfer_advance a c"
  unfolding transfer_advance_def by (smt (verit) le_antisym le_trans nat_less_le)

lemma transfer_step_advance:
  assumes "transfer_step s s'" "get_download s j = Some r"
  shows "\<exists>r'. get_download s' j = Some r' \<and> transfer_advance r r'"
  using assms(1)
proof cases
  case (begin_transfer now i h c)
  from begin_transfer obtain row where row: "get_download s i = Some row" "dn_status row = DnStaged"
      and "s' = s \<or> (\<exists>h. s' = upd_download i (begin_handoff now (dn_handoff_version row + 1) h) s)"
    by (auto simp: create_handoff_def Let_def split: option.splits if_splits)
  then consider "s' = s" | h where "s' = upd_where (\<lambda>r. dn_id r = i) (begin_handoff now (dn_handoff_version row + 1) h) s"
    by (auto simp: upd_download_def)
  then show ?thesis
  proof cases
    case 1
    with assms(2) show ?thesis by (auto simp: transfer_advance_def)
  next
    case 2
    have "get_download s' j = Some (if dn_id r = i then begin_handoff now (dn_handoff_version row + 1) h r else r)"
      unfolding 2 using assms(2) by (simp add: get_download_upd begin_handoff_def)
    moreover have "transfer_advance r (if dn_id r = i then begin_handoff now (dn_handoff_version row + 1) h r else r)"
      using row get_downloadD [OF assms(2)] assms(2) by (auto simp: transfer_advance_def begin_handoff_def)
    ultimately show ?thesis by blast
  qed
next
  case (transfer_event grace now i h st detail out)
  show ?thesis
  proof (cases "s' = s")
    case True
    with assms(2) show ?thesis by (auto simp: transfer_advance_def)
  next
    case False
    with transfer_event obtain row f where row: "get_download s i = Some row" "\<not> transfer_done row"
        and s': "s' = upd_where (\<lambda>r. dn_id r = i) f s"
        and f: "\<And>r. dn_id (f r) = dn_id r \<and> dn_handoff_version (f r) = dn_handoff_version r \<and> dn_status (f r) = dn_status r"
      unfolding apply_handoff_event_def
      by (auto simp: Let_def upd_download_def transfer_done_def move_handoff_def schedule_cleanup_def split: option.splits if_splits)
    have "get_download s' j = Some (if dn_id r = i then f r else r)"
      unfolding s' using assms(2) f by (simp add: get_download_upd)
    moreover have "transfer_advance r (if dn_id r = i then f r else r)"
      using row f get_downloadD [OF assms(2)] assms(2) by (auto simp: transfer_advance_def)
    ultimately show ?thesis by blast
  qed
qed

text \<open>
  C25: Along any transfer events and new handoffs, the version of a download's handoff never goes
  back, a transfer that completed or failed never moves again within its version, and a new version
  begins only for staged bytes.
\<close>

theorem handoff_protocol:
  assumes "transfer_step\<^sup>*\<^sup>* s s'" "get_download s i = Some r"
  shows "\<exists>r'. get_download s' i = Some r' \<and> dn_handoff_version r \<le> dn_handoff_version r'
    \<and> (dn_handoff_version r' = dn_handoff_version r \<and> dn_handoff_state r \<in> {HoCompleted, HoFailed} \<longrightarrow> r' = r)
    \<and> (dn_handoff_version r < dn_handoff_version r' \<longrightarrow> dn_status r = DnStaged)"
proof -
  from assms have "\<exists>r'. get_download s' i = Some r' \<and> transfer_advance r r'"
  proof (induction rule: rtranclp_induct)
    case base
    then show ?case by (auto simp: transfer_advance_def)
  next
    case (step x y)
    then obtain r1 where r1: "get_download x i = Some r1" "transfer_advance r r1" by blast
    from transfer_step_advance [OF step(2) r1(1)] transfer_advance_trans [OF r1(2)] show ?case by blast
  qed
  then show ?thesis by (auto simp: transfer_advance_def transfer_done_def)
qed

definition done_transfer :: downloads where
  "done_transfer = (case create_handoff 60 ''u'' [staged_download] of Inl _ \<Rightarrow> []
     | Inr (s1, _, _) \<Rightarrow> fst (apply_handoff_event 3600000 70 ''u'' ''dl-u-v1'' ''completed'' None s1))"

lemma done_transfer_run:
  "map (\<lambda>r. (dn_handoff_version r, dn_handoff_state r, dn_cleanup_due_at r)) done_transfer = [(1, HoCompleted, Some 3600070)]"
  "map dn_id done_transfer = [''u'']"
  by code_simp+

theorem handoff_protocol_witness:
  "\<exists>r. get_download done_transfer ''u'' = Some r \<and> dn_handoff_state r = HoCompleted \<and>
     get_download (fst (apply_handoff_event 3600000 80 ''u'' ''dl-u-v1'' ''failed'' (Some ''late'') done_transfer)) ''u'' = Some r"
proof -
  obtain r where dt: "done_transfer = [r]" "dn_id r = ''u''" using done_transfer_run(2) by auto
  have r: "get_download done_transfer ''u'' = Some r" "dn_handoff_version r = 1" "dn_handoff_state r = HoCompleted"
    using done_transfer_run(1) dt(2) unfolding dt(1) by (simp_all add: get_download_def)
  obtain s' out where ev: "apply_handoff_event 3600000 80 ''u'' ''dl-u-v1'' ''failed'' (Some ''late'') done_transfer = (s', out)"
    by fastforce
  then have step: "transfer_step\<^sup>*\<^sup>* done_transfer s'" by (blast intro: transfer_step.transfer_event)
  have same: "map_option dn_handoff_version (get_download
      (fst (apply_handoff_event 3600000 80 ''u'' ''dl-u-v1'' ''failed'' (Some ''late'') done_transfer)) ''u'') = Some 1"
    by code_simp
  from handoff_protocol [OF step r(1)] same r ev show ?thesis by auto
qed

text \<open>A row that the sweep finds due and whose file it can remove.\<close>

definition cleanup_pending :: "int \<Rightarrow> download \<Rightarrow> bool" where
  "cleanup_pending due r \<longleftrightarrow> dn_handoff_state r = HoCompleted \<and> dn_cleanup_due_at r = Some due
     \<and> dn_cleanup_done_at r = None \<and> dn_handoff_id r \<noteq> None \<and> dn_handoff_id r = dn_cleanup_handoff_id r"

lemma cleanup_pending_columns: "transfer_columns q = transfer_columns r \<Longrightarrow> cleanup_pending due q = cleanup_pending due r"
  by (simp add: cleanup_pending_def transfer_columns_def)

lemma sweep_row_unlinks:
  "set (sw_unlinked (snd st)) \<subseteq> set (sw_unlinked (snd (sweep_row now root kind err row st)))"
  "dn_staged_path row = Some p \<Longrightarrow> p \<noteq> [] \<Longrightarrow> root p \<Longrightarrow> kind p = KindFile \<Longrightarrow> err p = None \<Longrightarrow>
     p \<in> set (sw_unlinked (snd (sweep_row now root kind err row st)))"
  by (cases st; auto simp: sweep_row_def sweep_defer_def Let_def split: option.splits prod.splits bool.splits file_kind.splits)+

lemma sweep_unlinks:
  assumes "r \<in> set (list_cleanup_due now limit s)" "dn_staged_path r = Some p" "p \<noteq> []" "root p" "kind p = KindFile" "err p = None"
  shows "p \<in> set (sw_unlinked (snd (sweep_staged_cleanup now root kind err limit s)))"
proof -
  have keep: "set (sw_unlinked (snd st)) \<subseteq> set (sw_unlinked (snd (fold (sweep_row now root kind err) rows st)))" for rows st
  proof (induction rows arbitrary: st)
    case (Cons row rows)
    from subset_trans [OF sweep_row_unlinks(1) Cons.IH] show ?case by simp
  qed simp
  from assms(1) obtain before later where rows: "list_cleanup_due now limit s = before @ r # later" by (meson split_list)
  show ?thesis
    unfolding sweep_staged_cleanup_def rows fold_append fold.simps o_apply
    by (rule subsetD [OF keep sweep_row_unlinks(2) [where root = root and kind = kind and err = err, OF assms(2-)]])
qed

lemma request_reset:
  assumes "request_download staged_size now uuid x s = Inr (s1, Some r1, Reset)" "get_download s (dn_id r1) = Some r0"
  shows "get_download s1 (dn_id r1) = Some r1" "transfer_columns r1 = transfer_columns r0"
proof -
  from assms(1) obtain i where s1: "s1 = upd_download i (reset_download now x) s" "get_download s1 i = Some r1"
    by (auto simp: request_download_def Let_def split: if_splits option.splits)
  from get_downloadD [OF s1(2)] have i: "i = dn_id r1" by simp
  show "get_download s1 (dn_id r1) = Some r1" using s1(2) by (simp add: i)
  have "get_download s1 i = Some (reset_download now x r0)"
    using assms(2) get_downloadD [OF assms(2)] unfolding s1(1) upd_download_def i
    by (simp add: get_download_upd reset_download_def)
  with s1(2) have "r1 = reset_download now x r0" by simp
  then show "transfer_columns r1 = transfer_columns r0" by (simp add: transfer_columns_def reset_download_def)
qed

text \<open>
  C26: A download that is requested again while the cleanup of its completed handoff is still pending keeps
  that cleanup. When the worker then stages bytes anew, no handoff of which exists, the first sweep at or
  after the old due time that looks at all due rows removes them, if the file system lets it.
\<close>

theorem restaged_bytes_are_swept:
  assumes "request_download staged_size now uuid x s = Inr (s1, Some r1, Reset)"
    and "get_download s (dn_id r1) = Some r0" "cleanup_pending due r0"
    and "process_download known root later (dn_id r1) resolution progress e s1 = (s2, WorkerStaged v)"
    and "due \<le> t" "length (filter (cleanup_due t) s2) \<le> limit"
  shows "\<exists>r p. v = Some r \<and> dn_staged_path r = Some p \<and> dn_handoff_version r = dn_handoff_version r0
    \<and> (p \<noteq> [] \<and> kind p = KindFile \<and> err p = None \<longrightarrow>
        p \<in> set (sw_unlinked (snd (sweep_staged_cleanup t root kind err limit s2))))"
  using assms(4)
proof (rule staged_run)
  fix r n path
  assume r: "v = Some r" "get_download s2 (dn_id r1) = Some r" "dn_status r = DnStaged" "dn_staged_path r = Some path" "root path"
    and "map_option transfer_columns (get_download s1 (dn_id r1)) = Some (transfer_columns r)"
  with request_reset [OF assms(1,2)] have cols: "transfer_columns r = transfer_columns r0" by simp
  have "cleanup_pending due r" using cleanup_pending_columns [OF cols, of due] assms(3) by simp
  with assms(5) r(3) have "cleanup_due t r" by (simp add: cleanup_due_def cleanup_pending_def) metis
  moreover have "r \<in> set s2" using r(2) by (auto simp: get_download_def dest: find_SomeD)
  ultimately have "r \<in> set (list_cleanup_due t limit s2)" using assms(6) by (simp add: list_cleanup_due_def)
  from sweep_unlinks [where root = root and kind = kind and err = err, OF this r(4) _ r(5)] r(1,4) cols show ?thesis by (auto simp: transfer_columns_def)
qed

theorem restaged_bytes_are_swept_witness:
  "\<exists>s1 r1 s2 v. request_download (\<lambda>p. None) 100 ''x'' sample_download_input done_transfer = Inr (s1, Some r1, Reset)
    \<and> process_download (\<lambda>t. t = ''tf_1'') (\<lambda>p. starts_with p ''/s/'') 200 ''u''
        (Resolved ''tf_1'' (Some 1000) (Inr ''/s/T.mkv'')) [] None s1 = (s2, WorkerStaged v)
    \<and> ''/s/T.mkv'' \<in> set (sw_unlinked (snd (sweep_staged_cleanup 3600070 (\<lambda>p. starts_with p ''/s/'') (\<lambda>p. KindFile) (\<lambda>p. None) 10 s2)))"
proof -
  have "(case request_download (\<lambda>p. None) 100 ''x'' sample_download_input done_transfer of Inl _ \<Rightarrow> False
     | Inr (s1, r, out) \<Rightarrow> (case process_download (\<lambda>t. t = ''tf_1'') (\<lambda>p. starts_with p ''/s/'') 200 ''u''
        (Resolved ''tf_1'' (Some 1000) (Inr ''/s/T.mkv'')) [] None s1 of (s2, res) \<Rightarrow>
          map_option dn_id r = Some ''u'' \<and> out = Reset \<and> length s2 \<le> 10
          \<and> (case res of WorkerStaged v \<Rightarrow> map_option dn_staged_path v = Some (Some ''/s/T.mkv'') | _ \<Rightarrow> False)))"
    "map_option (cleanup_pending 3600070) (get_download done_transfer ''u'') = Some True"
    by code_simp+
  then obtain s1 r1 s2 v r0 where r: "request_download (\<lambda>p. None) 100 ''x'' sample_download_input done_transfer = Inr (s1, Some r1, Reset)"
      "dn_id r1 = ''u''" "length s2 \<le> 10" "map_option dn_staged_path v = Some (Some ''/s/T.mkv'')"
      "process_download (\<lambda>t. t = ''tf_1'') (\<lambda>p. starts_with p ''/s/'') 200 ''u''
        (Resolved ''tf_1'' (Some 1000) (Inr ''/s/T.mkv'')) [] None s1 = (s2, WorkerStaged v)"
      "get_download done_transfer ''u'' = Some r0" "cleanup_pending 3600070 r0"
    by (auto split: sum.splits prod.splits worker_outcome.splits)
  have "length (filter (cleanup_due 3600070) s2) \<le> 10" using r(3) le_trans length_filter_le by blast
  from restaged_bytes_are_swept [OF r(1), unfolded r(2), OF r(6,7,5) order_refl this, of "\<lambda>p. KindFile" "\<lambda>p. None"] r(1,4,5)
  show ?thesis by auto
qed

end
