(* ===== verification/Store_Lifecycle.thy ===== *)
theory Store_Lifecycle
  imports Store_Bindings "HOL-Library.Option_ord"
begin

text \<open>
  The lifecycle of a library item, \<open>control-plane/lifecycle.js\<close> with \<open>appendLifecycleEvent\<close> and
  \<open>getLifecycle\<close> of the store; the accepted torrent files of an item; the consumer observations (a
  table of their own: no other operation reads or writes it); the reconciliation snapshot of an item
  and a release.
\<close>

section \<open>Lifecycle events\<close>

definition lifecycle_milestones :: "string list" where
  "lifecycle_milestones = [''requested'', ''checked'', ''placed'', ''provider-ready'', ''exposed'',
     ''exact-file-mapped'', ''bound'', ''cataloged'', ''playable'']"

definition lifecycle_statuses :: "string list" where
  "lifecycle_statuses = [''pending'', ''satisfied'', ''degraded'', ''failed'', ''unknown'']"

record lifecycle_input =
  lx_libraryItemId :: string
  lx_milestone :: string
  lx_status :: string
  lx_occurredAt :: "int option"
  lx_failureCategory :: "string option"
  lx_retryable :: "bool option"
  lx_retryAfterMs :: "int option"
  lx_source :: "string option"
  lx_reason :: "string option"
  lx_evidence :: "string option"
  lx_correlationId :: "string option"

definition optional_string :: "string option \<Rightarrow> string \<Rightarrow> nat \<Rightarrow> string option res" where
  "optional_string value field mx = (case value of
      None \<Rightarrow> Inr None | Some s \<Rightarrow> res_bind (require_string (Some s) field mx) (\<lambda>t. Inr (Some t)))"

definition optional_integer :: "int option \<Rightarrow> string \<Rightarrow> int option res" where
  "optional_integer value field = (case value of
      None \<Rightarrow> Inr None
    | Some i \<Rightarrow> if \<not> is_safe_integer i \<or> i < 0 then Inl (TypeError field) else Inr (Some i))"

text \<open>The event with the columns \<open>id\<close> and \<open>recorded_at\<close> the store adds.\<close>

definition create_lifecycle_event :: "int \<Rightarrow> lifecycle_input \<Rightarrow> lifecycle_event res" where
  "create_lifecycle_event now input =
     res_bind (ensure (lx_milestone input \<in> set lifecycle_milestones)
        (TypeError ''Unsupported lifecycle milestone'')) (\<lambda>_.
     res_bind (ensure (lx_status input \<in> set lifecycle_statuses)
        (TypeError ''Unsupported lifecycle status'')) (\<lambda>_.
     let at = nullish (lx_occurredAt input) now in
     res_bind (ensure (is_safe_integer at \<and> 0 \<le> at)
        (TypeError ''occurredAt must be a non-negative millisecond timestamp'')) (\<lambda>_.
     res_bind (ensure (\<not> (lx_status input = ''failed'' \<and> nullish (lx_failureCategory input) [] = []))
        (TypeError ''Failed lifecycle events require failureCategory'')) (\<lambda>_.
     res_bind (require_string (Some (lx_libraryItemId input)) ''libraryItemId'' 256) (\<lambda>item.
     res_bind (optional_string (lx_failureCategory input) ''failureCategory'' 256) (\<lambda>failureCategory.
     res_bind (optional_integer (lx_retryAfterMs input) ''retryAfterMs'') (\<lambda>retryAfterMs.
     res_bind (require_string (lx_source input) ''source'' 256) (\<lambda>source.
     res_bind (optional_string (lx_reason input) ''reason'' 1000) (\<lambda>reason.
     res_bind (optional_string (lx_correlationId input) ''correlationId'' 256) (\<lambda>correlationId.
       Inr \<lparr>le_id = 0, le_library_item_id = item, le_milestone = lx_milestone input,
         le_status = lx_status input, le_occurred_at = at, le_failure_category = failureCategory,
         le_retryable = lx_retryable input, le_retry_after_ms = retryAfterMs, le_source = source,
         le_reason = reason, le_evidence = lx_evidence input, le_correlation_id = correlationId,
         le_recorded_at = now\<rparr>))))))))))"

definition append_lifecycle_event :: "int \<Rightarrow> lifecycle_input \<Rightarrow> db \<Rightarrow> (db \<times> lifecycle_event) res" where
  "append_lifecycle_event now input d =
     res_bind (require_library_item d (lx_libraryItemId input)) (\<lambda>_.
     res_bind (create_lifecycle_event now input) (\<lambda>event.
     if get_library_item d (le_library_item_id event) = None
     then Inl (SqlConstraint ''lifecycle_events.library_item_id'')
     else let row = event\<lparr>le_id := max_of (\<lambda>_. True) le_id (db_events d) + 1\<rparr>
          in Inr (d\<lparr>db_events := db_events d @ [row]\<rparr>, row)))"

text \<open>The latest event of each milestone: the later one, the larger id among equal times.\<close>

definition later_event :: "lifecycle_event \<Rightarrow> lifecycle_event \<Rightarrow> bool" where
  "later_event e c \<longleftrightarrow> le_occurred_at e > le_occurred_at c
     \<or> (le_occurred_at e = le_occurred_at c \<and> le_id e > le_id c)"

definition project_event ::
  "(string \<Rightarrow> lifecycle_event option) \<Rightarrow> lifecycle_event \<Rightarrow> (string \<Rightarrow> lifecycle_event option)" where
  "project_event projection e = (case projection (le_milestone e) of
      None \<Rightarrow> projection(le_milestone e \<mapsto> e)
    | Some c \<Rightarrow> if later_event e c then projection(le_milestone e \<mapsto> e) else projection)"

definition project_lifecycle :: "lifecycle_event list \<Rightarrow> (string \<Rightarrow> lifecycle_event option)" where
  "project_lifecycle events = foldl project_event Map.empty events"

record lifecycle_view =
  lv_events :: "lifecycle_event list"
  lv_milestones :: "string \<Rightarrow> lifecycle_event option"

definition get_lifecycle :: "string \<Rightarrow> db \<Rightarrow> lifecycle_view res" where
  "get_lifecycle itemId d =
     res_bind (require_library_item d itemId) (\<lambda>_.
       let events = sort_key (\<lambda>e. (le_occurred_at e, le_id e))
             (filter (\<lambda>e. le_library_item_id e = itemId) (db_events d))
       in Inr \<lparr>lv_events = events, lv_milestones = project_lifecycle events\<rparr>)"

section \<open>Accepted torrent files\<close>

definition get_accepted_torrent_file :: "string \<Rightarrow> string option \<Rightarrow> db \<Rightarrow> accepted_file option res" where
  "get_accepted_torrent_file itemId torrentFileId d =
     res_bind (require_library_item d itemId) (\<lambda>_.
       Inr (case torrentFileId of
         None \<Rightarrow> top_by (\<lambda>a. (af_observed_at a, af_id a))
                   (filter (\<lambda>a. af_library_item_id a = itemId) (db_accepted d))
       | Some t \<Rightarrow> find (\<lambda>a. af_library_item_id a = itemId \<and> af_torrent_file_id a = t) (db_accepted d)))"

definition record_accepted_torrent_file ::
  "int \<Rightarrow> string \<Rightarrow> string option \<Rightarrow> string option \<Rightarrow> string option \<Rightarrow> int option \<Rightarrow> string option \<Rightarrow> db
     \<Rightarrow> (db \<times> accepted_file option) res" where
  "record_accepted_torrent_file now itemId torrentFileId source reason observedAt evidence d =
     res_bind (require_library_item d itemId) (\<lambda>_.
     res_bind (get_torrent_file d torrentFileId) (\<lambda>found.
     res_bind (ensure (found \<noteq> None) (JsError ''Unknown TorrentFile for accepted representation'')) (\<lambda>_.
     res_bind (require_string (Some (nullish source ''playback'')) ''source'' 256) (\<lambda>src.
     res_bind (require_string (Some (nullish reason ''accepted-playback'')) ''reason'' 256) (\<lambda>rsn.
     let t = nullish torrentFileId []; at = nullish observedAt now;
         row = \<lparr>af_id = max_of (\<lambda>_. True) af_id (db_accepted d) + 1, af_library_item_id = itemId,
           af_torrent_file_id = t, af_source = src, af_reason = rsn, af_observed_at = at,
           af_evidence = evidence\<rparr>;
         d1 = d\<lparr>db_accepted := upsert (\<lambda>a. af_library_item_id a = itemId \<and> af_torrent_file_id a = t)
                (\<lambda>a. a\<lparr>af_source := src, af_reason := rsn, af_observed_at := at, af_evidence := evidence\<rparr>)
                row (db_accepted d)\<rparr>
     in if list_ex (\<lambda>tf. tf_id tf = t) (db_torrent_files d)
        then res_bind (get_accepted_torrent_file itemId (Some t) d1) (\<lambda>a. Inr (d1, a))
        else Inl (SqlConstraint ''accepted_torrent_files.torrent_file_id''))))))"

definition list_accepted_torrent_files :: "string \<Rightarrow> db \<Rightarrow> accepted_file list res" where
  "list_accepted_torrent_files itemId d =
     res_bind (require_library_item d itemId) (\<lambda>_.
       Inr (rev (sort_key (\<lambda>a. (af_observed_at a, af_id a))
         (filter (\<lambda>a. af_library_item_id a = itemId) (db_accepted d)))))"

section \<open>Consumer observations\<close>

record consumer_observation =
  co_consumer :: string
  co_instance_scope :: string
  co_media_type :: string
  co_media_id :: string
  co_season :: "int option"
  co_episode :: "int option"
  co_present :: "int option"
  co_consumer_item_id :: "string option"
  co_source :: "string option"
  co_first_checked_at :: int
  co_last_checked_at :: int
  co_last_seen_present_at :: "int option"

record consumer_input =
  cx_consumer :: "string option"
  cx_instanceScope :: "string option"
  cx_mediaType :: "string option"
  cx_mediaId :: "string option"
  cx_season :: "int option"
  cx_episode :: "int option"
  cx_present :: "int option"
  cx_consumerItemId :: "string option"
  cx_source :: "string option"
  cx_now :: int

definition consumer_key ::
  "consumer_observation \<Rightarrow> string \<times> string \<times> string \<times> string \<times> int option \<times> int option" where
  "consumer_key r = (co_consumer r, co_instance_scope r, co_media_type r, co_media_id r, co_season r, co_episode r)"

definition check_consumer :: "consumer_input \<Rightarrow> consumer_observation \<Rightarrow> consumer_observation" where
  "check_consumer input r = r\<lparr>co_present := cx_present input, co_consumer_item_id := cx_consumerItemId input,
     co_source := cx_source input, co_last_checked_at := cx_now input,
     co_last_seen_present_at := (if cx_present input = Some 1 then Some (cx_now input)
        else co_last_seen_present_at r)\<rparr>"

definition record_consumer_observation ::
  "consumer_input \<Rightarrow> consumer_observation list \<Rightarrow> (consumer_observation list \<times> unit) res" where
  "record_consumer_observation input t =
     (case cx_consumer input of
        None \<Rightarrow> Inl (TypeError ''consumer is required'')
      | Some consumer \<Rightarrow>
     res_bind (ensure (consumer \<noteq> []) (TypeError ''consumer is required'')) (\<lambda>_.
     res_bind (require_string (cx_mediaId input) ''mediaId'' 256) (\<lambda>mid.
     let mtype = (if cx_mediaType input = Some ''episode'' then ''episode'' else ''movie'');
         row = \<lparr>co_consumer = consumer, co_instance_scope = nullish (cx_instanceScope input) ''default'',
           co_media_type = mtype, co_media_id = mid, co_season = cx_season input,
           co_episode = cx_episode input, co_present = cx_present input,
           co_consumer_item_id = cx_consumerItemId input, co_source = cx_source input,
           co_first_checked_at = cx_now input, co_last_checked_at = cx_now input,
           co_last_seen_present_at = (if cx_present input = Some 1 then Some (cx_now input) else None)\<rparr>
     in if \<not> (cx_present input = None \<or> cx_present input = Some 0 \<or> cx_present input = Some 1)
        then Inl (SqlConstraint ''consumer_observations.present'')
        else Inr (upsert (\<lambda>r. consumer_key r = consumer_key row) (check_consumer input) row t, ()))))"

definition list_consumer_observations ::
  "string option \<Rightarrow> string option \<Rightarrow> consumer_observation list \<Rightarrow> consumer_observation list" where
  "list_consumer_observations mediaType mediaId t =
     sort_key (\<lambda>r. (co_consumer r, co_media_id r, co_season r, co_episode r))
       (filter (\<lambda>r. clause_holds mediaType (co_media_type r) \<and> clause_holds mediaId (co_media_id r)) t)"

section \<open>The reconciliation snapshot\<close>

record desired_release =
  ds_libraryItemId :: string
  ds_libraryPathId :: "string option"
  ds_desiredState :: "desired_state option"
  ds_release :: jv
  ds_providerFileId :: "string option"
  ds_providerPreferences :: "string list"
  ds_providerScope :: jv
  ds_exposureScope :: jv
  ds_placementIdempotencyKey :: "string option"

text \<open>A placement with its active bindings; the attempts are counted by the callers that retry.\<close>

record recon_placement =
  rp_row :: placement
  rp_dependentBindingCount :: nat
  rp_observationAttempts :: "nat option"
  rp_inventoryAttempts :: "nat option"

record recon_snapshot =
  rn_desired :: desired_release
  rn_placements :: "recon_placement list"
  rn_placementObservations :: "placement_observation list"
  rn_readinessObservations :: "readiness_observation list"
  rn_inventorySnapshots :: "inventory_snapshot list"
  rn_providerFiles :: "provider_file list"
  rn_mappings :: "file_mapping list"
  rn_exposures :: "exposure list"
  rn_zurgMetadata :: "zurg_observation list"
  rn_currentBinding :: "binding option"

definition rows_for_ids :: "('r \<Rightarrow> string) \<Rightarrow> string list \<Rightarrow> 'r list \<Rightarrow> 'r list" where
  "rows_for_ids key ids t = filter (\<lambda>r. key r \<in> set ids) t"

definition placement_with_dependents :: "db \<Rightarrow> placement \<Rightarrow> recon_placement" where
  "placement_with_dependents d p = \<lparr>rp_row = p,
     rp_dependentBindingCount =
       length (filter (\<lambda>b. bd_placement_id b = pl_id p \<and> bd_status b = BdActive) (db_bindings d)),
     rp_observationAttempts = None, rp_inventoryAttempts = None\<rparr>"

definition get_reconciliation_snapshot :: "string \<Rightarrow> jv \<Rightarrow> db \<Rightarrow> recon_snapshot res" where
  "get_reconciliation_snapshot itemId release d =
     res_bind (require_library_item d itemId) (\<lambda>item.
     res_bind (validate_release_identity release) (\<lambda>identity.
     let placements = sort_key (\<lambda>p. (pl_provider p, pl_account_scope p, pl_id p))
           (filter (\<lambda>p. pl_info_hash p = ri_infoHash identity) (db_placements d));
         ids = map pl_id placements
     in res_bind (list_zurg_metadata_observations (JStr (ri_infoHash identity))
            \<lparr>zs_provider = None, zs_accountScope = None, zs_instanceScope = None\<rparr> d) (\<lambda>zurg.
        Inr \<lparr>rn_desired = \<lparr>ds_libraryItemId = li_id item,
               ds_libraryPathId = map_option lp_id
                 (find (\<lambda>p. lp_library_item_id p = li_id item \<and> lp_active p) (db_paths d)),
               ds_desiredState = Some (li_desired_state item), ds_release = JObj (identity_entries identity),
               ds_providerFileId = None, ds_providerPreferences = [], ds_providerScope = JUndef,
               ds_exposureScope = JUndef, ds_placementIdempotencyKey = None\<rparr>,
             rn_placements = map (placement_with_dependents d) placements,
             rn_placementObservations = sort_key (\<lambda>o'. (po_provider o', po_account_scope o'))
               (filter (\<lambda>o'. po_info_hash o' = ri_infoHash identity) (db_placement_obs d)),
             rn_readinessObservations = rows_for_ids ro_placement_id ids (db_readiness d),
             rn_inventorySnapshots = rows_for_ids iv_placement_id ids (db_inventories d),
             rn_providerFiles = rows_for_ids pf_placement_id ids (filter pf_present (db_provider_files d)),
             rn_mappings = filter (\<lambda>m. fm_release_key m = ri_releaseKey identity)
               (rows_for_ids fm_placement_id ids (db_mappings d)),
             rn_exposures = rows_for_ids ex_placement_id ids (db_exposures d),
             rn_zurgMetadata = zurg,
             rn_currentBinding = newest_binding (li_id item) d\<rparr>)))"

section \<open>Lemmas\<close>

lemma optional_string_None [simp]: "optional_string None f m = Inr None"
  by (simp add: optional_string_def)

lemma append_lifecycle_event_frame:
  assumes "append_lifecycle_event now input d = Inr (d', e)"
  shows "d' = d\<lparr>db_events := db_events d @ [e]\<rparr>" "get_library_item d (le_library_item_id e) \<noteq> None"
  using assms by (auto simp: append_lifecycle_event_def guard_simps Let_def split: if_splits)

lemma record_accepted_frame:
  assumes "record_accepted_torrent_file now i t s r at ev d = Inr (d', a)"
  shows "\<exists>rows. d' = d\<lparr>db_accepted := rows\<rparr>"
  using assms by (auto simp: record_accepted_torrent_file_def guard_simps Let_def split: if_splits)

text \<open>The projection keeps the event that every other event of the milestone does not follow.\<close>

definition event_time :: "lifecycle_event \<Rightarrow> int \<times> nat" where
  "event_time e = (le_occurred_at e, le_id e)"

lemma later_event_time: "later_event e c = (event_time c < event_time e)"
  by (auto simp: later_event_def event_time_def)

lemma project_lifecycle_snoc:
  "project_lifecycle (es @ [e]) = project_event (project_lifecycle es) e"
  by (simp add: project_lifecycle_def)

lemma project_lifecycle_latest:
  "case project_lifecycle es m of
     None \<Rightarrow> (\<forall>e \<in> set es. le_milestone e \<noteq> m)
   | Some c \<Rightarrow> c \<in> set es \<and> le_milestone c = m
       \<and> (\<forall>e \<in> set es. le_milestone e = m \<longrightarrow> event_time e \<le> event_time c)"
proof (induction es rule: rev_induct)
  case Nil
  then show ?case by (simp add: project_lifecycle_def)
next
  case (snoc e es)
  show ?case
  proof (cases "le_milestone e = m")
    case False
    then have "project_event (project_lifecycle es) e m = project_lifecycle es m"
      by (simp add: project_event_def split: option.splits)
    with snoc False show ?thesis
      by (simp add: project_lifecycle_snoc split: option.splits)
  next
    case True
    show ?thesis
    proof (cases "project_lifecycle es m")
      case None
      with snoc True show ?thesis
        by (simp add: project_lifecycle_snoc project_event_def)
    next
      case (Some c)
      with snoc True have c: "c \<in> set es" "le_milestone c = m"
        "\<And>e. e \<in> set es \<Longrightarrow> le_milestone e = m \<Longrightarrow> event_time e \<le> event_time c" by auto
      show ?thesis
      proof (cases "later_event e c")
        case True
        with c Some \<open>le_milestone e = m\<close> show ?thesis
          by (fastforce simp: project_lifecycle_snoc project_event_def later_event_time)
      next
        case False
        with c Some \<open>le_milestone e = m\<close> show ?thesis
          by (auto simp: project_lifecycle_snoc project_event_def later_event_time not_less)
      qed
    qed
  qed
qed


end
