(* ===== verification/Json_Text.thy ===== *)
theory Json_Text
  imports Release_Identity "HOL-Library.List_Lexorder" "HOL-Library.Char_ord"
begin

text \<open>
  \<open>JSON.stringify(value)\<close>, \<open>JSON.stringify(value, keys)\<close> and the \<open>stableStringify\<close> of
  \<open>control-plane/repair-planner.js\<close>, on the JavaScript values of the development. Objects keep
  their properties in insertion order (no integer-like names occur). A number that is not an
  integer prints as \<open>null\<close>, which is right for \<open>NaN\<close> and the infinities; no other occurs in a plan.
\<close>

section \<open>Definitions\<close>

text \<open>The properties that \<open>JSON.stringify\<close> visits: with a list of keys those, in its order.\<close>

definition visited_props :: "string list option \<Rightarrow> (string \<times> jv) list \<Rightarrow> (string \<times> jv) list" where
  "visited_props keys ps = filter (\<lambda>p. snd p \<noteq> JUndef)
     (case keys of None \<Rightarrow> ps | Some ks \<Rightarrow> map (\<lambda>k. (k, prop_of ps k)) ks)"

lemma size_prop_of: "size (prop_of ps k) < size (JObj ps)"
proof (cases "map_of ps k")
  case None
  then show ?thesis by (simp add: prop_of_def)
next
  case (Some v)
  then have "(k, v) \<in> set ps" by (rule map_of_SomeD)
  then show ?thesis
    using Some size_list_estimation' [of "(k, v)" ps "size v" "size_prod (\<lambda>_. 0) size"]
    by (simp add: prop_of_def)
qed

lemma size_prop_of_le: "size (prop_of ps k) \<le> size_list (size_prod (\<lambda>_. 0) size) ps"
  using size_prop_of [of ps k] by simp

lemma size_visited: "p \<in> set (visited_props keys ps) \<Longrightarrow> size (snd p) < size (JObj ps)"
proof -
  assume p: "p \<in> set (visited_props keys ps)"
  show "size (snd p) < size (JObj ps)"
  proof (cases keys)
    case None
    obtain k v where kv: "p = (k, v)" by (cases p)
    from None p kv have "(k, v) \<in> set ps" by (simp add: visited_props_def)
    then show ?thesis
      using size_list_estimation' [of "(k, v)" ps "size v" "size_prod (\<lambda>_. 0) size"] kv
      by simp
  next
    case (Some ks)
    with p show ?thesis
      using size_prop_of by (auto simp: visited_props_def)
  qed
qed

function (sequential) json_with :: "string list option \<Rightarrow> jv \<Rightarrow> string" where
  "json_with keys (JBool b) = (if b then ''true'' else ''false'')"
| "json_with keys (JInt i) = show_int i"
| "json_with keys (JStr s) = json_string s"
| "json_with keys (JArr xs) = ''['' @ json_items (map (json_with keys) xs) @ '']''"
| "json_with keys (JObj ps) = ''{'' @ json_items
     (map (\<lambda>p. json_string (fst p) @ '':'' @ json_with keys (snd p)) (visited_props keys ps)) @ ''}''"
| "json_with keys _ = ''null''"
  by pat_completeness auto

termination
  by (relation "measure (\<lambda>(keys, v). size v)")
    (auto simp: size_list_estimation' dest: size_visited intro!: le_imp_less_Suc)

definition json_text :: "jv \<Rightarrow> string" where
  "json_text v = json_with None v"

text \<open>\<open>stableStringify\<close>: the keys of every object in code-unit order; undefined prints as such.\<close>

function (sequential) stable_stringify :: "jv \<Rightarrow> string" where
  "stable_stringify (JArr xs) = ''['' @ json_items (map stable_stringify xs) @ '']''"
| "stable_stringify (JObj ps) = ''{'' @ json_items
     (map (\<lambda>k. json_string k @ '':'' @ stable_stringify (prop_of ps k)) (sort (map fst ps))) @ ''}''"
| "stable_stringify JUndef = ''undefined''"
| "stable_stringify v = json_text v"
  by pat_completeness auto

termination
  by (relation "measure size") (auto simp: size_list_estimation' intro!: le_imp_less_Suc size_prop_of_le)

end
