(* ===== verification/Reconciler.thy ===== *)
theory Reconciler
  imports Store_Lifecycle Json_Text
begin

text \<open>
  The reconciler, \<open>control-plane/reconciler.js\<close>: \<open>planReconciliation\<close> chooses the next steps that
  bring the route of a library item to a usable state, \<open>executeReconciliation\<close> carries the binding
  steps out on the store. \<open>String.localeCompare\<close> compares collation keys, the parameter \<open>loc\<close>.
\<close>

section \<open>Plans\<close>

datatype recon_action =
    NoOpCurrent string string string
  | NoOpAbsent
  | RepresentationChangeRequired string string string
  | CreateOrReusePlacement string "string list" string string
  | ObserveAgain string string string "(nat \<times> int) option"
  | WaitProviderReadiness string string
  | MapExactFile string string string string jv
  | ObserveExposure string string string
  | BindRoute bool route_target
  | MarkDegraded string string "string option"
  | RemoveStaleOwnedResource string string
and route_target = RouteTarget (rg_reason: string) (rg_libraryItemId: string)
    (rg_libraryPathId: "string option") (rg_releaseKey: string) (rg_infoHash: string)
    (rg_fileIndex: "int option") (rg_torrentFileId: "string option") (rg_placementId: string)
    (rg_providerFileId: string) (rg_exposureId: string) (rg_expectedBindingVersion: nat)

record recon_failure =
  fl_category :: string
  fl_retryable :: bool
  fl_placementId :: "string option"
  fl_evidence :: jv

record recon_plan =
  rl_planKey :: string
  rl_libraryItemId :: string
  rl_releaseKey :: string
  rl_actions :: "recon_action list"
  rl_failures :: "recon_failure list"
  rl_destructiveActionCount :: nat

record recon_options =
  rq_now :: int
  rq_maxObservationAttempts :: nat
  rq_reobserveAfterMs :: int
  rq_destructive :: bool

definition jstr :: "string option \<Rightarrow> jv" where
  "jstr v = (case v of None \<Rightarrow> JNull | Some s \<Rightarrow> JStr s)"

text \<open>The action objects, their properties in the order the code writes them.\<close>

fun action_name :: "recon_action \<Rightarrow> string" where
  "action_name (NoOpCurrent _ _ _) = ''no-op''"
| "action_name NoOpAbsent = ''no-op''"
| "action_name (RepresentationChangeRequired _ _ _) = ''representation-change-required''"
| "action_name (CreateOrReusePlacement _ _ _ _) = ''create-or-reuse-placement''"
| "action_name (ObserveAgain _ _ _ _) = ''observe-again''"
| "action_name (WaitProviderReadiness _ _) = ''wait-provider-readiness''"
| "action_name (MapExactFile _ _ _ _ _) = ''map-exact-file''"
| "action_name (ObserveExposure _ _ _) = ''observe-exposure''"
| "action_name (BindRoute rebind _) = (if rebind then ''rebind'' else ''bind'')"
| "action_name (MarkDegraded _ _ _) = ''mark-degraded''"
| "action_name (RemoveStaleOwnedResource _ _) = ''remove-stale-owned-resource''"

fun action_fields :: "recon_action \<Rightarrow> (string \<times> jv) list" where
  "action_fields (NoOpCurrent item p b) = [(''reason'', JStr ''active-binding-is-current''),
     (''libraryItemId'', JStr item), (''placementId'', JStr p), (''bindingId'', JStr b)]"
| "action_fields NoOpAbsent = [(''reason'', JStr ''desired-absent-no-safe-action'')]"
| "action_fields (RepresentationChangeRequired item tf key) =
     [(''reason'', JStr ''active-binding-names-a-different-release''), (''libraryItemId'', JStr item),
      (''currentTorrentFileId'', JStr tf), (''requestedReleaseKey'', JStr key),
      (''owner'', JStr ''representation-policy'')]"
| "action_fields (CreateOrReusePlacement item prefs key idem) =
     [(''reason'', JStr ''no-placement-for-exact-release''), (''libraryItemId'', JStr item),
      (''providerPreferences'', JArr (map JStr prefs)), (''releaseKey'', JStr key),
      (''idempotencyKey'', JStr idem)]"
| "action_fields (ObserveAgain target reason p retry) =
     [(''target'', JStr target), (''reason'', JStr reason), (''placementId'', JStr p)] @
     (case retry of None \<Rightarrow> [] | Some (n, at) \<Rightarrow> [(''attempt'', JInt (int n)), (''notBefore'', JInt at)])"
| "action_fields (WaitProviderReadiness reason p) =
     [(''reason'', JStr reason), (''placementId'', JStr p), (''retryable'', JBool True)]"
| "action_fields (MapExactFile reason p f key ev) =
     [(''reason'', JStr reason), (''placementId'', JStr p), (''providerFileId'', JStr f),
      (''releaseKey'', JStr key), (''evidence'', ev)]"
| "action_fields (ObserveExposure reason p f) =
     [(''reason'', JStr reason), (''placementId'', JStr p), (''providerFileId'', JStr f)]"
| "action_fields (BindRoute _ t) =
     [(''reason'', JStr (rg_reason t)), (''libraryItemId'', JStr (rg_libraryItemId t)),
      (''libraryPathId'', jstr (rg_libraryPathId t)), (''releaseKey'', JStr (rg_releaseKey t)),
      (''infoHash'', JStr (rg_infoHash t)),
      (''fileIndex'', case rg_fileIndex t of None \<Rightarrow> JNull | Some i \<Rightarrow> JInt i),
      (''torrentFileId'', case rg_torrentFileId t of None \<Rightarrow> JUndef | Some s \<Rightarrow> JStr s),
      (''placementId'', JStr (rg_placementId t)), (''providerFileId'', JStr (rg_providerFileId t)),
      (''exposureId'', JStr (rg_exposureId t)),
      (''expectedBindingVersion'', JInt (int (rg_expectedBindingVersion t))),
      (''representationReason'', JNull)]"
| "action_fields (MarkDegraded reason item b) =
     [(''reason'', JStr reason), (''libraryItemId'', JStr item)] @
     (case b of None \<Rightarrow> [] | Some i \<Rightarrow> [(''bindingId'', JStr i)])"
| "action_fields (RemoveStaleOwnedResource p r) =
     [(''reason'', JStr ''desired-absent-proven-owned-unused-placement''), (''placementId'', JStr p),
      (''providerResourceId'', JStr r),
      (''safety'', JObj [(''ownershipProven'', JBool True), (''freshObservation'', JBool True),
         (''noDependents'', JBool True)])]"

definition action_object :: "recon_action \<Rightarrow> (string \<times> jv) list" where
  "action_object a = (''action'', JStr (action_name a)) # action_fields a"

definition action_key :: "recon_action \<Rightarrow> string" where
  "action_key a = json_with (Some (sort (map fst (action_object a)))) (JObj (action_object a))"

fun deduplicate_actions :: "string list \<Rightarrow> recon_action list \<Rightarrow> recon_action list" where
  "deduplicate_actions seen [] = []"
| "deduplicate_actions seen (a # as) =
     (if action_key a \<in> set seen then deduplicate_actions seen as
      else a # deduplicate_actions (action_key a # seen) as)"

text \<open>
  \<open>RECONCILIATION_ACTIONS\<close> and the position of an action in it. A change of representation is not in
  the list; a plan holds it alone.
\<close>

definition reconciliation_actions :: "string list" where
  "reconciliation_actions = [''no-op'', ''observe-again'', ''create-or-reuse-placement'',
     ''wait-provider-readiness'', ''map-exact-file'', ''observe-exposure'', ''bind'', ''rebind'',
     ''mark-degraded'', ''remove-stale-owned-resource'']"

fun position_of :: "'a \<Rightarrow> 'a list \<Rightarrow> nat" where
  "position_of x [] = 0"
| "position_of x (y # ys) = (if x = y then 0 else Suc (position_of x ys))"

definition compare_key :: "(string \<Rightarrow> nat list) \<Rightarrow> recon_action \<Rightarrow> nat \<times> nat list" where
  "compare_key loc a = (position_of (action_name a) reconciliation_actions,
     loc (json_text (JObj (action_object a))))"

section \<open>Desired state and evidence\<close>

fun normalize_scope_fields :: "(string \<times> jv) list \<Rightarrow> string list \<Rightarrow> (string \<times> string) list res" where
  "normalize_scope_fields value [] = Inr []"
| "normalize_scope_fields value (f # fs) = (case prop_of value f of
      JUndef \<Rightarrow> normalize_scope_fields value fs
    | JNull \<Rightarrow> normalize_scope_fields value fs
    | JStr s \<Rightarrow> if valid_identifier (js_trim s)
        then res_bind (normalize_scope_fields value fs) (\<lambda>r. Inr ((f, js_lower (js_trim s)) # r))
        else Inl (TypeError ''scope is invalid'')
    | _ \<Rightarrow> Inl (TypeError ''scope is invalid''))"

definition normalize_optional_scope :: "jv \<Rightarrow> string list \<Rightarrow> (string \<times> string) list option res" where
  "normalize_optional_scope value names = (case value of
      JUndef \<Rightarrow> Inr None
    | JNull \<Rightarrow> Inr None
    | JObj ps \<Rightarrow> res_bind (normalize_scope_fields ps names) (\<lambda>r. Inr (Some r))
    | _ \<Rightarrow> Inl (TypeError ''scope must be an object''))"

record desired_state_of_item =
  nd_input :: desired_release
  nd_identity :: release_identity
  nd_desiredState :: desired_state
  nd_providerScope :: "(string \<times> string) list option"
  nd_exposureScope :: "(string \<times> string) list option"
  nd_placementIdempotencyKey :: string

definition normalize_desired :: "desired_release \<Rightarrow> desired_state_of_item res" where
  "normalize_desired desired =
     res_bind (validate_release_identity (ds_release desired)) (\<lambda>identity.
     res_bind (normalize_optional_scope (ds_providerScope desired) [''provider'', ''accountScope'']) (\<lambda>ps.
     res_bind (normalize_optional_scope (ds_exposureScope desired) [''transport'', ''mountScope'']) (\<lambda>es.
       Inr \<lparr>nd_input = desired, nd_identity = identity,
         nd_desiredState = nullish (ds_desiredState desired) DesPresent,
         nd_providerScope = ps, nd_exposureScope = es,
         nd_placementIdempotencyKey = nullish (ds_placementIdempotencyKey desired)
           (''virtual:'' @ ds_libraryItemId desired @ '':'' @ ri_infoHash identity)\<rparr>)))"

text \<open>An absent or undefined scope field accepts every value; a normalized one is not empty.\<close>

definition scope_admits :: "(string \<times> string) list option \<Rightarrow> string \<Rightarrow> string \<Rightarrow> bool" where
  "scope_admits scope field v = (case scope of None \<Rightarrow> True
     | Some s \<Rightarrow> (case map_of s field of None \<Rightarrow> True | Some x \<Rightarrow> v = x))"

definition filter_placements_by_scope :: "recon_placement list \<Rightarrow> desired_state_of_item \<Rightarrow> recon_placement list" where
  "filter_placements_by_scope ps desired =
     filter (\<lambda>p. scope_admits (nd_providerScope desired) ''provider'' (pl_provider (rp_row p))
        \<and> scope_admits (nd_providerScope desired) ''accountScope'' (pl_account_scope (rp_row p))) ps"

definition placement_sort_text :: "recon_placement \<Rightarrow> string" where
  "placement_sort_text p = pl_provider (rp_row p) @ '':'' @ pl_id (rp_row p)"

text \<open>The rank of a provider: \<open>new Map\<close> keeps the last index of a repeated one.\<close>

fun preference_rank :: "string \<Rightarrow> string list \<Rightarrow> nat \<Rightarrow> nat option" where
  "preference_rank x [] i = None"
| "preference_rank x (y # ys) i = (case preference_rank x ys (Suc i) of
      Some j \<Rightarrow> Some j | None \<Rightarrow> if x = y then Some i else None)"

definition order_by_provider_preference ::
  "(string \<Rightarrow> nat list) \<Rightarrow> recon_placement list \<Rightarrow> string list \<Rightarrow> recon_placement list" where
  "order_by_provider_preference loc ps prefs =
     sort_key (\<lambda>p. (nullish (preference_rank (pl_provider (rp_row p)) prefs 0) (nat max_safe),
       loc (placement_sort_text p))) ps"

datatype freshness = FreshMissing | FreshUnbounded | Fresh | FreshStale

definition evaluate_expiry :: "int \<Rightarrow> int option \<Rightarrow> int \<Rightarrow> freshness" where
  "evaluate_expiry observedAt expiresAt now =
     (if \<not> is_safe_integer observedAt then FreshMissing
      else case expiresAt of None \<Rightarrow> FreshUnbounded
        | Some e \<Rightarrow> if \<not> is_safe_integer e then FreshUnbounded
            else if e > now then Fresh else FreshStale)"

definition safe_later :: "int option \<Rightarrow> int \<Rightarrow> bool" where
  "safe_later e now = (case e of None \<Rightarrow> False | Some t \<Rightarrow> is_safe_integer t \<and> t > now)"

datatype inventory_freshness = InvMissing | InvUntrusted | InvStale | InvFresh

definition evaluate_inventory_freshness ::
  "provider_file list \<Rightarrow> inventory_snapshot option \<Rightarrow> int \<Rightarrow> inventory_freshness" where
  "evaluate_inventory_freshness inventory snapshot now =
     (if inventory = [] then InvMissing
      else let rest = (if list_all (\<lambda>f. safe_later (pf_inventory_expires_at f) now) inventory
                       then InvFresh else InvStale)
      in case snapshot of None \<Rightarrow> rest
        | Some s \<Rightarrow> if \<not> (iv_authoritative s \<and> iv_complete s) then InvUntrusted
            else if evaluate_expiry (iv_observed_at s) (iv_expires_at s) now \<noteq> Fresh then InvStale
            else rest)"

definition inventory_for_placement ::
  "(string \<Rightarrow> nat list) \<Rightarrow> provider_file list \<Rightarrow> string \<Rightarrow> provider_file list" where
  "inventory_for_placement loc fs p =
     sort_key (\<lambda>f. loc (pf_provider_file_id f)) (filter (\<lambda>f. pf_placement_id f = p) fs)"

definition find_exposure_for_file ::
  "(string \<Rightarrow> nat list) \<Rightarrow> exposure list \<Rightarrow> string \<Rightarrow> string \<Rightarrow> desired_state_of_item \<Rightarrow> exposure option" where
  "find_exposure_for_file loc es p f desired =
     (case sort_key (\<lambda>e. loc (ex_transport e @ '':'' @ ex_mount_scope e @ '':'' @ ex_id e))
        (filter (\<lambda>e. ex_placement_id e = p \<and> ex_provider_file_id e = f
           \<and> scope_admits (nd_exposureScope desired) ''transport'' (ex_transport e)
           \<and> scope_admits (nd_exposureScope desired) ''mountScope'' (ex_mount_scope e)) es) of
        [] \<Rightarrow> None | e # _ \<Rightarrow> Some e)"

definition bounded_retry :: "nat \<Rightarrow> nat \<Rightarrow> int \<Rightarrow> bool \<times> nat \<times> int" where
  "bounded_retry attempts maxAttempts baseDelayMs =
     (attempts + 1 \<le> maxAttempts, attempts + 1, min (baseDelayMs * 2 ^ attempts) (15 * 60 * 1000))"

definition binding_satisfies :: "binding \<Rightarrow> desired_state_of_item \<Rightarrow> bool" where
  "binding_satisfies b desired \<longleftrightarrow> bd_status b = BdActive
     \<and> bd_library_item_id b = ds_libraryItemId (nd_input desired)
     \<and> Some (bd_library_path_id b) = ds_libraryPathId (nd_input desired)
     \<and> bd_release_key b = ri_releaseKey (nd_identity desired)"

definition is_fresh_ready_placement :: "recon_placement option \<Rightarrow> int \<Rightarrow> bool" where
  "is_fresh_ready_placement p now = (case p of None \<Rightarrow> False
     | Some r \<Rightarrow> pl_state (rp_row r) = PsReady
         \<and> evaluate_expiry (pl_observed_at (rp_row r)) (pl_expires_at (rp_row r)) now = Fresh)"

definition is_fresh_visible_exposure :: "exposure option \<Rightarrow> int \<Rightarrow> bool" where
  "is_fresh_visible_exposure e now = (case e of None \<Rightarrow> False
     | Some r \<Rightarrow> ex_state r = ExVisible \<and> ex_read_only r
         \<and> evaluate_expiry (ex_observed_at r) (ex_expires_at r) now = Fresh)"

section \<open>Choosing the provider file\<close>

datatype file_choice = FileMapped string provider_file jv | FileFailed string jv

definition choose_by_corpus_index :: "release_identity \<Rightarrow> provider_file list \<Rightarrow> file_choice" where
  "choose_by_corpus_index identity inventory =
     (let ms = filter (\<lambda>f. case pf_corpus_file_index f of None \<Rightarrow> False
            | Some i \<Rightarrow> is_safe_integer i \<and> Some i = ri_fileIndex identity) inventory;
          idx = (case ri_fileIndex identity of None \<Rightarrow> JNull | Some i \<Rightarrow> JInt i)
      in case ms of
           [f] \<Rightarrow> FileMapped ''provider-confirmed-corpus-index-evidence'' f
                   (JObj [(''corpusFileIndex'', idx), (''providerFileId'', JStr (pf_provider_file_id f))])
         | _ # _ # _ \<Rightarrow> FileFailed ''provider-file-ambiguous''
                   (JObj [(''corpusFileIndex'', idx),
                     (''matches'', JArr (map (\<lambda>f. JStr (pf_provider_file_id f)) ms))])
         | [] \<Rightarrow> FileFailed (if inventory = [] then ''provider-file-missing'' else ''provider-file-ambiguous'')
                   (JObj [(''inventoryCount'', JInt (int (length inventory))),
                     (''releaseKey'', JStr (ri_releaseKey identity))]))"

definition choose_exact_provider_file ::
  "string option \<Rightarrow> release_identity \<Rightarrow> provider_file list \<Rightarrow> file_mapping option \<Rightarrow> file_choice" where
  "choose_exact_provider_file explicit identity inventory existing =
     (let by = (\<lambda>i. filter (\<lambda>f. pf_provider_file_id f = i) inventory);
          ev = (\<lambda>i. JObj [(''providerFileId'', JStr i)]);
          rest = (if nullish explicit [] \<noteq> []
            then (case by (the explicit) of
                [f] \<Rightarrow> FileMapped ''desired-provider-file-id'' f (ev (pf_provider_file_id f))
              | _ \<Rightarrow> FileFailed ''provider-file-missing'' (ev (the explicit)))
            else choose_by_corpus_index identity inventory)
      in case existing of None \<Rightarrow> rest
         | Some m \<Rightarrow> if fm_provider_file_id m = [] then rest
             else (case by (fm_provider_file_id m) of
                 [f] \<Rightarrow> FileMapped ''existing-authoritative-provider-file-id'' f (ev (pf_provider_file_id f))
               | _ \<Rightarrow> rest))"

section \<open>Planning\<close>

definition desired_state_text :: "desired_state \<Rightarrow> string" where
  "desired_state_text s = (case s of DesPresent \<Rightarrow> ''present'' | DesAbsent \<Rightarrow> ''absent'')"

fun is_removal :: "recon_action \<Rightarrow> bool" where
  "is_removal (RemoveStaleOwnedResource _ _) = True"
| "is_removal _ = False"

definition finish_plan ::
  "(string \<Rightarrow> nat list) \<Rightarrow> desired_state_of_item \<Rightarrow> recon_action list \<Rightarrow> recon_failure list \<Rightarrow> recon_plan" where
  "finish_plan loc desired actions failures =
     (let as = sort_key (compare_key loc) (deduplicate_actions [] actions)
      in \<lparr>rl_planKey = ds_libraryItemId (nd_input desired) @ '':'' @ ri_releaseKey (nd_identity desired)
             @ '':'' @ desired_state_text (nd_desiredState desired),
          rl_libraryItemId = ds_libraryItemId (nd_input desired),
          rl_releaseKey = ri_releaseKey (nd_identity desired),
          rl_actions = as, rl_failures = failures,
          rl_destructiveActionCount = length (filter is_removal as)\<rparr>)"

definition plan_failure :: "string \<Rightarrow> bool \<Rightarrow> string option \<Rightarrow> jv \<Rightarrow> recon_failure" where
  "plan_failure category retryable p ev =
     \<lparr>fl_category = category, fl_retryable = retryable, fl_placementId = p, fl_evidence = ev\<rparr>"

definition absent_step ::
  "desired_state_of_item \<Rightarrow> recon_options \<Rightarrow> recon_placement \<Rightarrow> recon_action list \<times> recon_failure list" where
  "absent_step desired opts p =
     (let row = rp_row p;
          owned = (pl_ownership row = Owned
            \<and> pl_owner_key row = Some (ds_libraryItemId (nd_input desired))
            \<and> pl_info_hash row = ri_infoHash (nd_identity desired));
          fresh = (evaluate_expiry (pl_observed_at row) (pl_expires_at row) (rq_now opts) = Fresh);
          noDependents = (rp_dependentBindingCount p = 0)
      in if rq_destructive opts \<and> owned \<and> fresh \<and> noDependents
         then ([RemoveStaleOwnedResource (pl_id row) (pl_provider_resource_id row)], [])
         else if pl_state row \<noteq> PsRemoved
         then ([], [plan_failure (if rq_destructive opts then ''resource-removal-not-proven-safe''
                else ''destructive-actions-disabled'') False (Some (pl_id row))
                (JObj [(''owned'', JBool owned), (''fresh'', JBool fresh),
                  (''noDependents'', JBool noDependents)])])
         else ([], []))"

definition plan_absent ::
  "(string \<Rightarrow> nat list) \<Rightarrow> desired_state_of_item \<Rightarrow> recon_placement list \<Rightarrow> binding option
     \<Rightarrow> recon_options \<Rightarrow> recon_plan" where
  "plan_absent loc desired placements current opts =
     (let steps = map (absent_step desired opts) placements;
          actions = (case current of None \<Rightarrow> []
             | Some b \<Rightarrow> [MarkDegraded ''desired-absent-binding-removal-not-yet-active''
                 (ds_libraryItemId (nd_input desired)) (Some (bd_id b))]) @ concat (map fst steps)
      in finish_plan loc desired (if actions = [] then [NoOpAbsent] else actions)
           (concat (map snd steps)))"

record recon_scope =
  sc_releaseKey :: string
  sc_infoHash :: string
  sc_fileIndex :: "int option"
  sc_torrentFileId :: "string option"

definition recon_scope_of :: "desired_state_of_item \<Rightarrow> binding option \<Rightarrow> recon_scope" where
  "recon_scope_of desired current = (case current of
      Some b \<Rightarrow> \<lparr>sc_releaseKey = bd_release_key b, sc_infoHash = bd_info_hash b,
        sc_fileIndex = bd_file_index b, sc_torrentFileId = Some (bd_torrent_file_id b)\<rparr>
    | None \<Rightarrow> \<lparr>sc_releaseKey = ri_releaseKey (nd_identity desired),
        sc_infoHash = ri_infoHash (nd_identity desired), sc_fileIndex = ri_fileIndex (nd_identity desired),
        sc_torrentFileId = None\<rparr>)"

text \<open>What a placement contributes: steps and failures, or the route that ends the search.\<close>

datatype candidate_outcome = Continue "recon_action list" "recon_failure list" | Chosen recon_action

definition retry_observation ::
  "recon_options \<Rightarrow> string \<Rightarrow> string \<Rightarrow> string \<Rightarrow> string \<Rightarrow> nat option \<Rightarrow> candidate_outcome" where
  "retry_observation opts target reason exhausted p attempts =
     (case bounded_retry (nullish attempts 0) (rq_maxObservationAttempts opts) (rq_reobserveAfterMs opts) of
        (allowed, attempt, delay) \<Rightarrow>
          if allowed then Continue [ObserveAgain target reason p (Some (attempt, rq_now opts + delay))] []
          else Continue [] [plan_failure exhausted True (Some p) JNull])"

definition plan_exposure ::
  "(string \<Rightarrow> nat list) \<Rightarrow> desired_state_of_item \<Rightarrow> recon_options \<Rightarrow> recon_scope \<Rightarrow> recon_snapshot
     \<Rightarrow> string \<Rightarrow> provider_file \<Rightarrow> candidate_outcome" where
  "plan_exposure loc desired opts scope input p f =
     (case find_exposure_for_file loc (rn_exposures input) p (pf_provider_file_id f) desired of
        None \<Rightarrow> Continue [ObserveExposure ''exposure-not-observed'' p (pf_provider_file_id f)] []
      | Some e \<Rightarrow>
          if evaluate_expiry (ex_observed_at e) (ex_expires_at e) (rq_now opts) \<noteq> Fresh
          then Continue [ObserveExposure ''exposure-observation-stale'' p (pf_provider_file_id f)] []
          else if ex_state e \<noteq> ExVisible \<or> \<not> ex_read_only e
          then let why = (if \<not> ex_read_only e then ''exposure-not-read-only'' else ''exposure-not-visible'')
               in Continue [ObserveExposure why p (pf_provider_file_id f)]
                    [plan_failure why (ex_retryable e = Some True) (Some p) JNull]
          else let current = rn_currentBinding input;
                   recovery = (case current of None \<Rightarrow> False | Some b \<Rightarrow> bd_status b = BdDegraded);
                   rebind = (current \<noteq> None \<and> \<not> recovery)
               in Chosen (BindRoute rebind (RouteTarget
                    (if rebind then ''preferred-usable-placement-changed''
                     else if recovery then ''recovery-from-degraded'' else ''exact-file-is-usable'')
                    (ds_libraryItemId (nd_input desired)) (ds_libraryPathId (nd_input desired))
                    (sc_releaseKey scope) (sc_infoHash scope) (sc_fileIndex scope) (sc_torrentFileId scope)
                    p (pf_provider_file_id f) (ex_id e)
                    (case current of None \<Rightarrow> 0 | Some b \<Rightarrow> bd_version b))))"

definition plan_mapping ::
  "(string \<Rightarrow> nat list) \<Rightarrow> desired_state_of_item \<Rightarrow> recon_options \<Rightarrow> recon_scope \<Rightarrow> recon_snapshot
     \<Rightarrow> string \<Rightarrow> provider_file list \<Rightarrow> candidate_outcome" where
  "plan_mapping loc desired opts scope input p inventory =
     (let mapping = find (\<lambda>m. fm_release_key m = sc_releaseKey scope \<and> fm_placement_id m = p)
            (rn_mappings input);
          unmapped = (case choose_exact_provider_file (ds_providerFileId (nd_input desired))
              (nd_identity desired) inventory mapping of
            FileMapped reason f ev \<Rightarrow> Continue [MapExactFile reason p (pf_provider_file_id f)
              (ri_releaseKey (nd_identity desired)) ev] []
          | FileFailed category ev \<Rightarrow> Continue [ObserveAgain ''provider-file-mapping'' category p
              (Some (1, rq_now opts))] [plan_failure category False (Some p) ev])
      in case mapping of
           None \<Rightarrow> unmapped
         | Some m \<Rightarrow>
             if fm_state m \<noteq> CmMapped \<or> \<not> fm_authoritative m then unmapped
             else (case find (\<lambda>f. pf_provider_file_id f = fm_provider_file_id m) inventory of
                 None \<Rightarrow> Continue [ObserveAgain ''provider-file-inventory'' ''mapped-provider-file-missing'' p
                            (Some (1, rq_now opts))]
                          [plan_failure ''mapped-provider-file-missing'' False (Some p) JNull]
               | Some f \<Rightarrow> plan_exposure loc desired opts scope input p f))"

definition plan_readiness ::
  "(string \<Rightarrow> nat list) \<Rightarrow> desired_state_of_item \<Rightarrow> recon_options \<Rightarrow> recon_scope \<Rightarrow> recon_snapshot
     \<Rightarrow> recon_placement \<Rightarrow> candidate_outcome" where
  "plan_readiness loc desired opts scope input q =
     (let p = pl_id (rp_row q);
          readiness = find (\<lambda>r. ro_placement_id r = p) (rn_readinessObservations input);
          state = (case readiness of None \<Rightarrow> pl_state (rp_row q) | Some r \<Rightarrow> ro_state r);
          fresh = (case readiness of None \<Rightarrow> Fresh
            | Some r \<Rightarrow> evaluate_expiry (ro_observed_at r) (Some (ro_expires_at r)) (rq_now opts))
      in if fresh \<noteq> Fresh
         then Continue [ObserveAgain ''readiness''
                (if fresh = FreshStale then ''readiness-observation-stale'' else ''readiness-freshness-unbounded'')
                p None] []
         else if state \<noteq> PsReady
         then (case state of
                 PsPending \<Rightarrow> Continue [WaitProviderReadiness ''placement-pending'' p] []
               | PsUnknown \<Rightarrow> Continue [WaitProviderReadiness ''placement-unknown'' p] []
               | PsDegraded \<Rightarrow> Continue [WaitProviderReadiness ''placement-degraded'' p] []
               | _ \<Rightarrow> Continue [] [plan_failure ''placement-not-ready''
                   ((case readiness of None \<Rightarrow> None | Some r \<Rightarrow> ro_retryable r) = Some True) (Some p) JNull])
         else let inventory = inventory_for_placement loc (rn_providerFiles input) p;
                  fr = evaluate_inventory_freshness inventory
                    (find (\<lambda>s. iv_placement_id s = p) (rn_inventorySnapshots input)) (rq_now opts)
              in if fr \<noteq> InvFresh
                 then retry_observation opts ''provider-file-inventory''
                   (if inventory = [] then ''provider-inventory-missing''
                    else if fr = InvUntrusted then ''provider-inventory-not-authoritative-complete''
                    else ''provider-inventory-stale'')
                   ''provider-inventory-observation-exhausted'' p (rp_inventoryAttempts q)
                 else plan_mapping loc desired opts scope input p inventory)"

definition plan_placement ::
  "(string \<Rightarrow> nat list) \<Rightarrow> desired_state_of_item \<Rightarrow> recon_options \<Rightarrow> recon_scope \<Rightarrow> recon_snapshot
     \<Rightarrow> recon_placement \<Rightarrow> candidate_outcome" where
  "plan_placement loc desired opts scope input q =
     (let row = rp_row q; fresh = evaluate_expiry (pl_observed_at row) (pl_expires_at row) (rq_now opts)
      in if fresh = FreshStale \<or> fresh = FreshUnbounded
         then retry_observation opts ''placement''
           (if fresh = FreshStale then ''placement-observation-stale'' else ''placement-freshness-unbounded'')
           ''placement-observation-exhausted'' (pl_id row) (rp_observationAttempts q)
         else plan_readiness loc desired opts scope input q)"

fun plan_candidates ::
  "(string \<Rightarrow> nat list) \<Rightarrow> desired_state_of_item \<Rightarrow> recon_options \<Rightarrow> recon_scope \<Rightarrow> recon_snapshot
     \<Rightarrow> recon_placement list \<Rightarrow> recon_action list \<Rightarrow> recon_failure list
     \<Rightarrow> recon_action list \<times> recon_failure list" where
  "plan_candidates loc desired opts scope input [] actions failures =
     (if actions = [] \<and> failures \<noteq> []
      then ([MarkDegraded (fl_category (hd failures)) (ds_libraryItemId (nd_input desired)) None], failures)
      else (actions, failures))"
| "plan_candidates loc desired opts scope input (q # qs) actions failures =
     (case plan_placement loc desired opts scope input q of
        Continue as fs \<Rightarrow> plan_candidates loc desired opts scope input qs (actions @ as) (failures @ fs)
      | Chosen a \<Rightarrow> (actions @ [a], failures))"

definition current_is_satisfied ::
  "desired_state_of_item \<Rightarrow> recon_options \<Rightarrow> recon_placement list \<Rightarrow> recon_snapshot \<Rightarrow> recon_action option" where
  "current_is_satisfied desired opts placements input = (case rn_currentBinding input of
      None \<Rightarrow> None
    | Some b \<Rightarrow>
        let p = find (\<lambda>q. pl_id (rp_row q) = bd_placement_id b) placements in
        if binding_satisfies b desired \<and> is_fresh_ready_placement p (rq_now opts)
           \<and> is_fresh_visible_exposure (find (\<lambda>e. ex_id e = bd_exposure_id b) (rn_exposures input)) (rq_now opts)
        then Some (NoOpCurrent (ds_libraryItemId (nd_input desired)) (pl_id (rp_row (the p))) (bd_id b))
        else None)"

definition plan_reconciliation ::
  "(string \<Rightarrow> nat list) \<Rightarrow> recon_options \<Rightarrow> recon_snapshot \<Rightarrow> recon_plan res" where
  "plan_reconciliation loc opts input =
     res_bind (normalize_desired (rn_desired input)) (\<lambda>desired.
     let placements = sort_key (\<lambda>p. loc (placement_sort_text p))
           (filter_placements_by_scope (rn_placements input) desired);
         current = rn_currentBinding input;
         scope = recon_scope_of desired current;
         key = ri_releaseKey (nd_identity desired)
     in Inr (if nd_desiredState desired = DesAbsent then plan_absent loc desired placements current opts
        else case current_is_satisfied desired opts placements input of
          Some a \<Rightarrow> finish_plan loc desired [a] []
        | None \<Rightarrow>
          if (case current of None \<Rightarrow> False | Some b \<Rightarrow> bd_release_key b \<noteq> key)
          then finish_plan loc desired
            [RepresentationChangeRequired (ds_libraryItemId (nd_input desired))
              (bd_torrent_file_id (the current)) key]
            [plan_failure ''representation-change-requires-policy'' False None JNull]
          else let candidates = filter (\<lambda>p. pl_info_hash (rp_row p) = sc_infoHash scope) placements
            in if candidates = []
               then finish_plan loc desired
                 [CreateOrReusePlacement (ds_libraryItemId (nd_input desired))
                   (ds_providerPreferences (nd_input desired)) (sc_releaseKey scope)
                   (nd_placementIdempotencyKey desired)] []
               else (case plan_candidates loc desired opts scope input
                   (order_by_provider_preference loc candidates (ds_providerPreferences (nd_input desired)))
                   [] [] of (actions, failures) \<Rightarrow> finish_plan loc desired actions failures)))"

section \<open>Execution\<close>

definition route_input :: "bool \<Rightarrow> route_target \<Rightarrow> binding_input" where
  "route_input rebind t = \<lparr>
     bix_release = JObj [(''releaseKey'', JStr (rg_releaseKey t)), (''infoHash'', JStr (rg_infoHash t)),
       (''fileIndex'', case rg_fileIndex t of None \<Rightarrow> JNull | Some i \<Rightarrow> JInt i)],
     bix_libraryItemId = rg_libraryItemId t, bix_libraryPathId = nullish (rg_libraryPathId t) [],
     bix_placementId = rg_placementId t, bix_providerFileId = rg_providerFileId t,
     bix_exposureId = rg_exposureId t, bix_torrentFileId = rg_torrentFileId t,
     bix_expectedBindingVersion = (if rebind then Some (int (rg_expectedBindingVersion t)) else None),
     bix_representationReason = None, bix_reason = Some (rg_reason t), bix_failureCategory = None\<rparr>"

text \<open>
  One step: every store operation is a transaction of its own, so the steps before a failing one
  keep their effect. A null path id is no row's.
\<close>

fun execute_action :: "int \<Rightarrow> string \<Rightarrow> recon_action \<Rightarrow> db \<Rightarrow> db res" where
  "execute_action now uuid (BindRoute rebind t) d =
     res_bind (activate_binding now uuid (route_input rebind t) d) (\<lambda>(d1, b). Inr d1)"
| "execute_action now uuid (MarkDegraded reason item _) d =
     res_bind (mark_binding_degraded now item None (Some reason) d) (\<lambda>(d1, b). Inr d1)"
| "execute_action now uuid _ d = Inr d"

fun execute_actions :: "int \<Rightarrow> (nat \<Rightarrow> string) \<Rightarrow> recon_action list \<Rightarrow> db \<Rightarrow> db \<times> unit res" where
  "execute_actions now uuid [] d = (d, Inr ())"
| "execute_actions now uuid (a # as) d = (case execute_action now (uuid (length as)) a d of
      Inl e \<Rightarrow> (d, Inl e) | Inr d1 \<Rightarrow> execute_actions now uuid as d1)"

definition execute_reconciliation ::
  "int \<Rightarrow> (nat \<Rightarrow> string) \<Rightarrow> recon_plan \<Rightarrow> db \<Rightarrow> db \<times> binding option res" where
  "execute_reconciliation now uuid plan d =
     (case execute_actions now uuid (rl_actions plan) d of
        (d1, Inl e) \<Rightarrow> (d1, Inl e)
      | (d1, Inr _) \<Rightarrow>
          let bs = list_bindings (rl_libraryItemId plan) d1
          in (d1, Inr (case find (\<lambda>b. bd_status b = BdActive) bs of
               Some b \<Rightarrow> Some b | None \<Rightarrow> find (\<lambda>b. bd_status b = BdDegraded) bs)))"

end
