(* ===== verification/Store_References.thy ===== *)
theory Store_References
  imports Store_Lifecycle Repair_Machine Library_Properties
begin

text \<open>
  The references between the tables of the store: the \<open>FOREIGN KEY\<close> clauses of
  \<open>CONTROL_PLANE_SCHEMA\<close> and what the operations guarantee beyond them (a binding's torrent file and
  placement have its torrent hash, an exposure has the account of its placement, a placement with
  files has an inventory snapshot). \<open>references_ok\<close> collects them; the lemmas show that each operation
  keeps them.
\<close>

section \<open>References\<close>

definition item_ids :: "db \<Rightarrow> string set" where
  "item_ids d = li_id ` set (db_items d)"

definition path_keys :: "db \<Rightarrow> (string \<times> string) set" where
  "path_keys d = (\<lambda>p. (lp_id p, lp_library_item_id p)) ` set (db_paths d)"

definition placement_keys :: "db \<Rightarrow> (string \<times> string \<times> string) set" where
  "placement_keys d = (\<lambda>p. (pl_id p, pl_account_scope p, pl_info_hash p)) ` set (db_placements d)"

definition file_keys :: "db \<Rightarrow> (string \<times> string) set" where
  "file_keys d = provider_file_key ` set (db_provider_files d)"

definition exposure_keys :: "db \<Rightarrow> (string \<times> string \<times> string) set" where
  "exposure_keys d = (\<lambda>e. (ex_id e, ex_placement_id e, ex_provider_file_id e)) ` set (db_exposures d)"

definition torrent_keys :: "db \<Rightarrow> (string \<times> string) set" where
  "torrent_keys d = (\<lambda>t. (tf_id t, tf_info_hash t)) ` set (db_torrent_files d)"

definition snapshot_ids :: "db \<Rightarrow> string set" where
  "snapshot_ids d = iv_placement_id ` set (db_inventories d)"

definition placement_ids :: "db \<Rightarrow> string set" where
  "placement_ids d = fst ` placement_keys d"

text \<open>What the rows of the other tables refer to.\<close>

definition mapping_file :: "file_mapping \<Rightarrow> string \<times> string" where
  "mapping_file m = (fm_placement_id m, fm_provider_file_id m)"

definition exposure_file :: "exposure \<Rightarrow> string \<times> string" where
  "exposure_file e = (ex_placement_id e, ex_provider_file_id e)"

definition exposure_scope :: "exposure \<Rightarrow> string \<times> string" where
  "exposure_scope e = (ex_placement_id e, ex_account_scope e)"

definition binding_release :: "binding \<Rightarrow> release_identity" where
  "binding_release b = \<lparr>ri_infoHash = bd_info_hash b, ri_fileIndex = bd_file_index b,
     ri_releaseKey = bd_release_key b\<rparr>"

definition binding_ok :: "db \<Rightarrow> binding \<Rightarrow> bool" where
  "binding_ok d b \<longleftrightarrow> valid_identity (binding_release b)
     \<and> bd_library_item_id b \<in> item_ids d
     \<and> (bd_library_path_id b, bd_library_item_id b) \<in> path_keys d
     \<and> (bd_torrent_file_id b, bd_info_hash b) \<in> torrent_keys d
     \<and> (\<exists>a. (bd_placement_id b, a, bd_info_hash b) \<in> placement_keys d)
     \<and> (bd_exposure_id b, bd_placement_id b, bd_provider_file_id b) \<in> exposure_keys d"

definition observation_refs :: "db \<Rightarrow> bool" where
  "observation_refs d \<longleftrightarrow> ro_placement_id ` set (db_readiness d) \<subseteq> placement_ids d
     \<and> mapping_file ` set (db_mappings d) \<subseteq> file_keys d
     \<and> exposure_file ` set (db_exposures d) \<subseteq> file_keys d
     \<and> exposure_scope ` set (db_exposures d) \<subseteq> (\<lambda>(p, a, h). (p, a)) ` placement_keys d"

definition file_refs :: "db \<Rightarrow> bool" where
  "file_refs d \<longleftrightarrow> fst ` file_keys d \<subseteq> snapshot_ids d \<and> snapshot_ids d \<subseteq> placement_ids d"

definition item_refs :: "db \<Rightarrow> bool" where
  "item_refs d \<longleftrightarrow> snd ` path_keys d \<subseteq> item_ids d
     \<and> rt_library_item_id ` set (db_repairs d) \<subseteq> item_ids d
     \<and> le_library_item_id ` set (db_events d) \<subseteq> item_ids d
     \<and> af_library_item_id ` set (db_accepted d) \<subseteq> item_ids d
     \<and> af_torrent_file_id ` set (db_accepted d) \<subseteq> fst ` torrent_keys d"

text \<open>An id that \<open>requireString\<close> lets through unchanged.\<close>

definition id_ok :: "string \<Rightarrow> bool" where
  "id_ok s \<longleftrightarrow> js_trim s = s \<and> s \<noteq> [] \<and> length s \<le> 256"

definition row_keys_ok :: "db \<Rightarrow> bool" where
  "row_keys_ok d \<longleftrightarrow> unique_by ex_id (db_exposures d) \<and> unique_by iv_placement_id (db_inventories d)
     \<and> unique_by ro_placement_id (db_readiness d) \<and> unique_by mapping_key (db_mappings d)
     \<and> (\<forall>t \<in> set (db_torrent_files d). id_ok (tf_id t))"

definition references_ok :: "db \<Rightarrow> bool" where
  "references_ok d \<longleftrightarrow> item_refs d \<and> file_refs d \<and> observation_refs d
     \<and> (\<forall>b \<in> set (db_bindings d). binding_ok d b) \<and> row_keys_ok d"

lemmas key_sets = item_ids_def path_keys_def placement_keys_def file_keys_def exposure_keys_def
  torrent_keys_def snapshot_ids_def placement_ids_def
lemmas reference_defs = item_refs_def file_refs_def observation_refs_def row_keys_ok_def references_ok_def

text \<open>The rows that are referred to never go away.\<close>

definition keys_grow :: "db \<Rightarrow> db \<Rightarrow> bool" where
  "keys_grow d d' \<longleftrightarrow> item_ids d \<subseteq> item_ids d' \<and> path_keys d \<subseteq> path_keys d'
     \<and> placement_keys d \<subseteq> placement_keys d' \<and> file_keys d \<subseteq> file_keys d'
     \<and> exposure_keys d \<subseteq> exposure_keys d' \<and> torrent_keys d \<subseteq> torrent_keys d'
     \<and> snapshot_ids d \<subseteq> snapshot_ids d'"

lemma keys_grow_refl [simp]: "keys_grow d d"
  by (simp add: keys_grow_def)

lemma keys_grow_placement_ids: "keys_grow d d' \<Longrightarrow> placement_ids d \<subseteq> placement_ids d'"
  by (auto simp: keys_grow_def placement_ids_def)

lemma binding_ok_grow: "keys_grow d d' \<Longrightarrow> binding_ok d b \<Longrightarrow> binding_ok d' b"
  by (auto simp: keys_grow_def binding_ok_def)

lemma subset_step: "A \<subseteq> B \<Longrightarrow> A' \<subseteq> A \<union> B' \<Longrightarrow> B \<subseteq> B' \<Longrightarrow> A' \<subseteq> B'"
  by blast

text \<open>
  One lemma for every operation: the references hold afterwards if the keys have grown and every
  row either keeps its references or has good ones.
\<close>

lemma references_step:
  fixes d d' :: db
  assumes ok: "references_ok d" and g: "keys_grow d d'"
    and "snd ` path_keys d' \<subseteq> snd ` path_keys d \<union> item_ids d'"
    and "rt_library_item_id ` set (db_repairs d') \<subseteq> rt_library_item_id ` set (db_repairs d) \<union> item_ids d'"
    and "le_library_item_id ` set (db_events d') \<subseteq> le_library_item_id ` set (db_events d) \<union> item_ids d'"
    and "af_library_item_id ` set (db_accepted d') \<subseteq> af_library_item_id ` set (db_accepted d) \<union> item_ids d'"
    and "af_torrent_file_id ` set (db_accepted d') \<subseteq> af_torrent_file_id ` set (db_accepted d) \<union> fst ` torrent_keys d'"
    and "fst ` file_keys d' \<subseteq> fst ` file_keys d \<union> snapshot_ids d'"
    and "snapshot_ids d' \<subseteq> snapshot_ids d \<union> placement_ids d'"
    and "ro_placement_id ` set (db_readiness d') \<subseteq> ro_placement_id ` set (db_readiness d) \<union> placement_ids d'"
    and "mapping_file ` set (db_mappings d') \<subseteq> mapping_file ` set (db_mappings d) \<union> file_keys d'"
    and "exposure_file ` set (db_exposures d') \<subseteq> exposure_file ` set (db_exposures d) \<union> file_keys d'"
    and "exposure_scope ` set (db_exposures d') \<subseteq> exposure_scope ` set (db_exposures d)
           \<union> (\<lambda>(p, a, h). (p, a)) ` placement_keys d'"
    and "\<And>b. b \<in> set (db_bindings d') \<Longrightarrow> b \<in> set (db_bindings d) \<or> binding_ok d' b"
    and "row_keys_ok d'"
  shows "references_ok d'"
proof -
  have grow: "item_ids d \<subseteq> item_ids d'" "fst ` torrent_keys d \<subseteq> fst ` torrent_keys d'"
    "(\<lambda>(p, a, h). (p, a)) ` placement_keys d \<subseteq> (\<lambda>(p, a, h). (p, a)) ` placement_keys d'"
    "file_keys d \<subseteq> file_keys d'" "snapshot_ids d \<subseteq> snapshot_ids d'"
    using g by (simp_all add: keys_grow_def image_mono)
  note pgrow = keys_grow_placement_ids [OF g]
  have i: "snd ` path_keys d \<subseteq> item_ids d" "rt_library_item_id ` set (db_repairs d) \<subseteq> item_ids d"
      "le_library_item_id ` set (db_events d) \<subseteq> item_ids d" "af_library_item_id ` set (db_accepted d) \<subseteq> item_ids d"
      "af_torrent_file_id ` set (db_accepted d) \<subseteq> fst ` torrent_keys d"
    and f: "fst ` file_keys d \<subseteq> snapshot_ids d" "snapshot_ids d \<subseteq> placement_ids d"
    and o': "ro_placement_id ` set (db_readiness d) \<subseteq> placement_ids d"
      "mapping_file ` set (db_mappings d) \<subseteq> file_keys d" "exposure_file ` set (db_exposures d) \<subseteq> file_keys d"
      "exposure_scope ` set (db_exposures d) \<subseteq> (\<lambda>(p, a, h). (p, a)) ` placement_keys d"
    and b: "\<And>b. b \<in> set (db_bindings d) \<Longrightarrow> binding_ok d b"
    using ok by (simp_all add: references_ok_def item_refs_def file_refs_def observation_refs_def)
  have "item_refs d'"
    unfolding item_refs_def
    using subset_step [OF i(1) assms(3) grow(1)] subset_step [OF i(2) assms(4) grow(1)]
      subset_step [OF i(3) assms(5) grow(1)] subset_step [OF i(4) assms(6) grow(1)]
      subset_step [OF i(5) assms(7) grow(2)] by (intro conjI)
  moreover have "file_refs d'"
    unfolding file_refs_def
    using subset_step [OF f(1) assms(8) grow(5)] subset_step [OF f(2) assms(9) pgrow] by (intro conjI)
  moreover have "observation_refs d'"
    unfolding observation_refs_def
    using subset_step [OF o'(1) assms(10) pgrow] subset_step [OF o'(2) assms(11) grow(4)]
      subset_step [OF o'(3) assms(12) grow(4)] subset_step [OF o'(4) assms(13) grow(3)] by (intro conjI)
  moreover have "\<forall>b \<in> set (db_bindings d'). binding_ok d' b"
    using b assms(14) binding_ok_grow [OF g] by blast
  ultimately show ?thesis using assms(15) by (simp add: references_ok_def)
qed

section \<open>Tables\<close>

lemma image_upd_where:
  "(\<And>r. P r \<Longrightarrow> g (f r) = g r) \<Longrightarrow> g ` set (upd_where P f t) = g ` set t"
  by (metis list.set_map map_upd_where)

lemma image_upsert:
  assumes "\<And>r. P r \<Longrightarrow> g (f r) \<in> {g r, g new}"
  shows "g ` set (upsert P f new t) \<subseteq> insert (g new) (g ` set t)"
proof (rule image_subsetI)
  fix r assume "r \<in> set (upsert P f new t)"
  then consider "r = new" | "r \<in> set (upd_where P f t)" | "r \<in> set t"
    by (auto simp: upsert_def split: if_splits)
  then show "g r \<in> insert (g new) (g ` set t)"
  proof cases
    case 2
    then show ?thesis by (cases rule: in_upd_whereE) (use assms in auto)
  qed auto
qed

lemma image_upsert_grow:
  "(\<And>r. P r \<Longrightarrow> g (f r) = g r) \<Longrightarrow> g ` set t \<subseteq> g ` set (upsert P f new t)"
  by (auto simp: upsert_def image_upd_where)

lemma upsert_newer_image:
  assumes "upsert_newer key time clash merge row tab = Inr tab'"
    and "\<And>r. key r = key row \<Longrightarrow> g (merge row r) \<in> {g r, g row}"
  shows "g ` set tab' \<subseteq> insert (g row) (g ` set tab)"
proof (rule image_subsetI)
  fix r assume r: "r \<in> set tab'"
  from assms(1) consider "tab' = upd_where (\<lambda>r. key r = key row \<and> time r \<le> time row) (merge row) tab"
    | "tab' = tab @ [row]" by (auto simp: upsert_newer_def split: if_splits)
  then show "g r \<in> insert (g row) (g ` set tab)"
  proof cases
    case 1
    with r have "r \<in> set (upd_where (\<lambda>r. key r = key row \<and> time r \<le> time row) (merge row) tab)" by simp
    then show ?thesis by (cases rule: in_upd_whereE) (use assms(2) in auto)
  qed (use r in auto)
qed

lemma upsert_newer_grow:
  assumes "upsert_newer key time clash merge row tab = Inr tab'"
    and "\<And>r. g (merge row r) = g r"
  shows "g ` set tab \<subseteq> g ` set tab'"
  using assms by (auto simp: upsert_newer_def image_upd_where split: if_splits)

lemma upsert_newer_unique_id:
  assumes "upsert_newer key time clash merge row tab = Inr tab'" "unique_by i tab"
    and "\<And>r. clash r = (i r = i row)" "\<And>r. i (merge row r) = i r"
  shows "unique_by i tab'"
  using assms by (fastforce simp: upsert_newer_def unique_by_snoc list_ex_iff unique_by_upd_where split: if_splits)

lemma observe_row_frame:
  assumes "observe_row key time clash merge tab put k t row d = Inr (d', r)"
  obtains (same) "d' = d"
  | (written) new tab' where "row = Inr new"
      "upsert_newer key time (clash new) merge new (tab d) = Inr tab'" "d' = put tab' d"
proof (cases "d' = d")
  case True
  then show ?thesis by (rule same)
next
  case False
  with assms have "res_bind row (\<lambda>new. res_bind (upsert_newer key time (clash new) merge new (tab d)) (\<lambda>t.
              Inr (put t d, find (\<lambda>r. key r = k) t))) = Inr (d', r)"
    by (simp add: observe_row_def Let_def split: option.splits if_splits)
  then obtain new tab' where "row = Inr new" "upsert_newer key time (clash new) merge new (tab d) = Inr tab'"
      "put tab' d = d'" unfolding res_bind_Inr by blast
  then show ?thesis by (rule written [OF _ _ sym])
qed

end
