(* ===== verification/Store_Machine.thy ===== *)
theory Store_Machine
  imports Store_References
begin

text \<open>
  The store as one state machine: \<open>store_step\<close> is any operation of the control-plane store that
  returns, and \<open>store_inv\<close>, the conjunction of the invariants of all its tables with the references
  between them, holds along every sequence of them.
\<close>

section \<open>One table at a time\<close>

lemma references_items:
  fixes d d' :: db
  assumes "references_ok d" "d' = d\<lparr>db_items := rows\<rparr>" "item_ids d \<subseteq> li_id ` set rows"
  shows "references_ok d'"
  using assms(1)
  by (rule references_step)
     (use assms in \<open>simp_all add: keys_grow_def key_sets references_ok_def row_keys_ok_def image_image\<close>)

lemma references_paths:
  fixes d d' :: db
  assumes "references_ok d" "d' = d\<lparr>db_paths := rows\<rparr>" "path_keys d \<subseteq> (\<lambda>p. (lp_id p, lp_library_item_id p)) ` set rows"
    "lp_library_item_id ` set rows \<subseteq> lp_library_item_id ` set (db_paths d) \<union> item_ids d"
  shows "references_ok d'"
  using assms(1)
  by (rule references_step)
     (use assms in \<open>simp_all add: keys_grow_def key_sets references_ok_def row_keys_ok_def image_image\<close>)

lemma references_placements:
  fixes d d' :: db
  assumes "references_ok d" "d' = d\<lparr>db_placements := rows, db_mappings := maps\<rparr>"
    "placement_keys d \<subseteq> (\<lambda>p. (pl_id p, pl_account_scope p, pl_info_hash p)) ` set rows"
    "mapping_file ` set maps = mapping_file ` set (db_mappings d)" "unique_by mapping_key maps"
  shows "references_ok d'"
  by (rule references_step [OF assms(1)])
     (use assms in \<open>simp_all add: keys_grow_def key_sets references_ok_def row_keys_ok_def\<close>)

lemma references_readiness:
  fixes d d' :: db
  assumes "references_ok d" "d' = d\<lparr>db_readiness := rows\<rparr>"
    "ro_placement_id ` set rows \<subseteq> ro_placement_id ` set (db_readiness d) \<union> placement_ids d"
    "unique_by ro_placement_id rows"
  shows "references_ok d'"
  by (rule references_step [OF assms(1)])
     (use assms in \<open>simp_all add: keys_grow_def key_sets references_ok_def row_keys_ok_def\<close>)

lemma references_mappings:
  fixes d d' :: db
  assumes "references_ok d" "d' = d\<lparr>db_mappings := rows\<rparr>"
    "mapping_file ` set rows \<subseteq> mapping_file ` set (db_mappings d) \<union> file_keys d"
    "unique_by mapping_key rows"
  shows "references_ok d'"
  by (rule references_step [OF assms(1)])
     (use assms in \<open>simp_all add: keys_grow_def key_sets references_ok_def row_keys_ok_def\<close>)

lemma references_exposures:
  fixes d d' :: db
  assumes "references_ok d" "d' = d\<lparr>db_exposures := rows\<rparr>"
    "exposure_keys d \<subseteq> (\<lambda>e. (ex_id e, ex_placement_id e, ex_provider_file_id e)) ` set rows"
    "exposure_file ` set rows \<subseteq> exposure_file ` set (db_exposures d) \<union> file_keys d"
    "exposure_scope ` set rows \<subseteq> exposure_scope ` set (db_exposures d) \<union> (\<lambda>(p, a, h). (p, a)) ` placement_keys d"
    "unique_by ex_id rows"
  shows "references_ok d'"
  by (rule references_step [OF assms(1)])
     (use assms in \<open>simp_all add: keys_grow_def key_sets references_ok_def row_keys_ok_def\<close>)

lemma references_bindings:
  fixes d d' :: db
  assumes "references_ok d" "d' = d\<lparr>db_bindings := rows\<rparr>"
    "\<And>b. b \<in> set rows \<Longrightarrow> b \<in> set (db_bindings d) \<or> binding_ok d b"
  shows "references_ok d'"
  by (rule references_step [OF assms(1)])
     (use assms in \<open>simp_all add: keys_grow_def key_sets references_ok_def row_keys_ok_def binding_ok_def\<close>)

lemma references_repairs:
  fixes d d' :: db
  assumes "references_ok d" "d' = d\<lparr>db_repairs := rows, db_steps := ss\<rparr>"
    "rt_library_item_id ` set rows \<subseteq> rt_library_item_id ` set (db_repairs d) \<union> item_ids d"
  shows "references_ok d'"
  by (rule references_step [OF assms(1)])
     (use assms in \<open>simp_all add: keys_grow_def key_sets references_ok_def row_keys_ok_def\<close>)

lemma references_events:
  fixes d d' :: db
  assumes "references_ok d" "d' = d\<lparr>db_events := rows\<rparr>"
    "le_library_item_id ` set rows \<subseteq> le_library_item_id ` set (db_events d) \<union> item_ids d"
  shows "references_ok d'"
  by (rule references_step [OF assms(1)])
     (use assms in \<open>simp_all add: keys_grow_def key_sets references_ok_def row_keys_ok_def\<close>)

lemma references_accepted:
  fixes d d' :: db
  assumes "references_ok d" "d' = d\<lparr>db_accepted := rows\<rparr>"
    "af_library_item_id ` set rows \<subseteq> af_library_item_id ` set (db_accepted d) \<union> item_ids d"
    "af_torrent_file_id ` set rows \<subseteq> af_torrent_file_id ` set (db_accepted d) \<union> fst ` torrent_keys d"
  shows "references_ok d'"
  by (rule references_step [OF assms(1)])
     (use assms in \<open>simp_all add: keys_grow_def key_sets references_ok_def row_keys_ok_def\<close>)

lemma references_untouched:
  fixes d d' :: db
  assumes "references_ok d"
    "d'\<lparr>db_delivery := db_delivery d, db_zurg := db_zurg d, db_placement_obs := db_placement_obs d\<rparr> = d"
  shows "references_ok d'"
  using assms by (cases d; cases d') (simp add: reference_defs key_sets binding_ok_def)

lemma insert_step: "x \<in> B \<Longrightarrow> A' \<subseteq> insert x A \<Longrightarrow> A' \<subseteq> A \<union> B"
  by blast

section \<open>Library\<close>

lemma library_step_refs:
  assumes "library_step d d'" "references_ok d"
  shows "references_ok d'"
  using assms
proof (induction rule: library_step.induct)
  case (ls_item sha256 now input d d' r)
  from ls_item(1) show ?case
  proof (cases rule: ensure_library_item_cases)
    case 1
    then show ?thesis by (intro references_items [OF ls_item(2)]) (auto simp: image_upd_where item_ids_def)
  next
    case 2
    then show ?thesis by (intro references_items [OF ls_item(2)]) (auto simp: item_ids_def)
  qed
next
  case (ls_path nfkc sha256 now uuid i p e d d' r)
  have it: "get_library_item d i \<noteq> None"
    using ls_path(1) by (auto simp: ensure_canonical_path_def guard_simps)
  then have i: "i \<in> item_ids d" by (auto simp: item_ids_def dest: get_library_item_SomeD)
  from ls_path(1) show ?case
  proof (cases rule: ensure_canonical_path_cases)
    case 1
    with ls_path(2) show ?thesis by simp
  next
    case (2 q x)
    show ?thesis
      by (rule references_paths [OF ls_path(2) 2(3)])
         (simp_all add: path_keys_def image_upd_where rename_path_def)
  next
    case (3 row)
    show ?thesis
      by (rule references_paths [OF ls_path(2) 3(4)]) (use 3 i in \<open>auto simp: path_keys_def\<close>)
  qed
next
  case (ls_commit nfkc now i input d d' c r)
  then consider "d' = d" | a b p s at where
    "d' = d\<lparr>db_items := upd_where (\<lambda>r. li_id r = i \<and> li_presentation_committed_at r = None)
       (set_presentation a b p s at now) (db_items d)\<rparr>"
    by (auto simp: commit_presentation_identity_def guard_simps Let_def split: option.splits)
  then show ?case
  proof cases
    case 2
    then show ?thesis by (rule references_items [OF ls_commit(2)]) (simp add: image_upd_where item_ids_def)
  qed (use ls_commit in simp)
next
  case (ls_describe i t y d d' r)
  then consider "d' = d" | a b where
    "d' = d\<lparr>db_items := upd_where (\<lambda>r. li_id r = i) (describe_item a b) (db_items d)\<rparr>"
    by (auto simp: refresh_presentation_description_def guard_simps Let_def split: if_splits)
  then show ?case
  proof cases
    case 2
    then show ?thesis by (rule references_items [OF ls_describe(2)]) (simp add: image_upd_where item_ids_def)
  qed (use ls_describe in simp)
qed

section \<open>Placements and observations\<close>

lemma write_placement_refs:
  assumes w: "write_placement row d = Inr (d', r)" and ok: "references_ok d"
  shows "references_ok d'"
  using w
proof (rule write_placement_upsert)
  fix clash
  assume u: "upsert_newer placement_key pl_observed_at clash merge_placement row (db_placements d) = Inr (db_placements d')"
    and d': "d' = d\<lparr>db_placements := db_placements d'\<rparr>"
  have "placement_keys d \<subseteq> (\<lambda>p. (pl_id p, pl_account_scope p, pl_info_hash p)) ` set (db_placements d')"
    unfolding placement_keys_def using u by (rule upsert_newer_grow) (simp add: merge_placement_def)
  moreover have "d' = d\<lparr>db_placements := db_placements d', db_mappings := db_mappings d\<rparr>"
    using d' by (cases d; cases d'; simp)
  moreover have "unique_by mapping_key (db_mappings d)" using ok by (simp add: references_ok_def row_keys_ok_def)
  ultimately show ?thesis by (intro references_placements [OF ok _ _ refl])
qed

lemma record_placement_refs:
  assumes "record_placement now uuid input d = Inr (d', r)" "references_ok d"
  shows "references_ok d'"
  using assms(1)
proof (cases rule: record_placement_cases)
  case (old old)
  with assms(2) show ?thesis by simp
next
  case (new row)
  from new(1) assms(2) show ?thesis by (rule write_placement_refs)
qed

lemma mark_placement_removed_frame:
  assumes "mark_placement_removed now p reason at d = Inr (d', r)"
  obtains "d' = d" | P f Q g where "d' = d\<lparr>db_placements := upd_where P f (db_placements d),
      db_mappings := upd_where Q g (db_mappings d)\<rparr>"
    "\<And>r. placement_identity (f r) = placement_identity r \<and> pl_idempotency_key (f r) = pl_idempotency_key r"
    "\<And>m. fm_placement_id (g m) = fm_placement_id m \<and> fm_provider_file_id (g m) = fm_provider_file_id m
       \<and> fm_release_key (g m) = fm_release_key m"
proof (cases "d' = d")
  case True
  then show ?thesis by (rule that(1))
next
  case False
  with assms have "d' = d\<lparr>
      db_placements := upd_where (\<lambda>r. pl_id r = p \<and> pl_state r \<noteq> PsRemoved)
        (remove_placement (nullish reason ''stale-resource'') (nullish at now) now) (db_placements d),
      db_mappings := upd_where (\<lambda>r. fm_placement_id r = p \<and> fm_state r = CmMapped)
        (demote_mapping (nullish reason ''stale-resource'')) (db_mappings d)\<rparr>"
    by (auto simp: mark_placement_removed_def Let_def res_bind_Inr split: if_splits)
  then show ?thesis
    by (rule that(2)) (simp_all add: remove_placement_def demote_mapping_def placement_identity_def placement_key_def)
qed

lemma mark_placement_removed_refs:
  assumes "mark_placement_removed now p reason at d = Inr (d', r)" and ok: "references_ok d"
  shows "references_ok d'"
  using assms(1)
proof (cases rule: mark_placement_removed_frame)
  case 1
  with ok show ?thesis by simp
next
  case (2 P f Q g)
  show ?thesis
  proof (rule references_placements [OF ok 2(1)])
    show "placement_keys d \<subseteq> (\<lambda>p. (pl_id p, pl_account_scope p, pl_info_hash p)) ` set (upd_where P f (db_placements d))"
      using 2(2) by (subst image_upd_where) (auto simp: placement_keys_def placement_identity_def placement_key_def)
    show "mapping_file ` set (upd_where Q g (db_mappings d)) = mapping_file ` set (db_mappings d)"
      using 2(3) by (intro image_upd_where) (simp add: mapping_file_def)
    show "unique_by mapping_key (upd_where Q g (db_mappings d))"
      using ok 2(3) by (intro unique_by_upd_where) (simp_all add: references_ok_def row_keys_ok_def mapping_key_def)
  qed
qed

lemma record_delivery_evidence_frame:
  assumes "record_delivery_evidence now input d = Inr (d', r)"
  shows "\<exists>rows. d' = d\<lparr>db_delivery := rows\<rparr>"
  using assms unfolding record_delivery_evidence_def res_bind_Inr Let_def by blast

lemma prune_frame: "\<exists>rows. fst (prune_expired_delivery_evidence now asOf d) = d\<lparr>db_delivery := rows\<rparr>"
  by (auto simp: prune_expired_delivery_evidence_def Let_def)

lemma record_lookup_frame:
  assumes "record_placement_lookup_observation uuid input d = Inr (d', r)"
  shows "\<exists>rows. d' = d\<lparr>db_placement_obs := rows\<rparr>"
proof -
  from assms obtain k t row where
    "observe_row lookup_key po_observed_at (\<lambda>row r. po_id r = po_id row) merge_lookup
       db_placement_obs (\<lambda>t. db_placement_obs_update (\<lambda>_. t)) k t row d = Inr (d', r)"
    unfolding record_placement_lookup_observation_def res_bind_Inr ensure_Inr by blast
  then show ?thesis
  proof (cases rule: observe_row_frame)
    case same
    then have "d' = d\<lparr>db_placement_obs := db_placement_obs d\<rparr>" by simp
    then show ?thesis by blast
  qed blast
qed

lemma record_zurg_frame:
  assumes "record_zurg_metadata_observation uuid input d = Inr (d', r)"
  shows "\<exists>rows. d' = d\<lparr>db_zurg := rows\<rparr>"
proof -
  from assms obtain k t row where
    "observe_row zurg_row_key zm_observed_at (\<lambda>row r. zm_id r = zm_id row) merge_zurg
       db_zurg (\<lambda>t. db_zurg_update (\<lambda>_. t)) k t row d = Inr (d', r)"
    unfolding record_zurg_metadata_observation_def res_bind_Inr ensure_Inr by blast
  then show ?thesis
  proof (cases rule: observe_row_frame)
    case same
    then have "d' = d\<lparr>db_zurg := db_zurg d\<rparr>" by simp
    then show ?thesis by blast
  qed blast
qed

lemma placement_in_keys:
  "get_placement d p = Some r \<Longrightarrow> p \<in> placement_ids d \<and> (p, pl_account_scope r) \<in> (\<lambda>(p, a, h). (p, a)) ` placement_keys d"
  by (force simp: placement_ids_def placement_keys_def dest: get_placement_SomeD)

lemma record_readiness_frame:
  assumes "record_readiness_observation input d = Inr (d', r)"
  obtains (same) "d' = d"
  | (written) new rows where "new \<in> placement_ids d" "d' = d\<lparr>db_readiness := rows\<rparr>"
      "ro_placement_id ` set rows \<subseteq> insert new (ro_placement_id ` set (db_readiness d))"
      "unique_by ro_placement_id (db_readiness d) \<Longrightarrow> unique_by ro_placement_id rows"
proof -
  from assms obtain pl t e st where pl: "get_placement d (rdx_placementId input) = Some pl"
    and o': "observe_row ro_placement_id ro_observed_at (\<lambda>_ _. False) merge_readiness
         db_readiness (\<lambda>t. db_readiness_update (\<lambda>_. t)) (pl_id pl) t
         (res_bind (require_string (rdx_source input) ''source'' 256) (\<lambda>source.
            Inr \<lparr>ro_placement_id = pl_id pl, ro_state = st, ro_observed_at = t,
              ro_expires_at = e, ro_source = source,
              ro_failure_category = rdx_failureCategory input,
              ro_retryable = rdx_retryable input\<rparr>)) d = Inr (d', r)"
    unfolding record_readiness_observation_def res_bind_Inr [of "require_placement x y" for x y]
      res_bind_Inr [of "require_timestamp x y" for x y] res_bind_Inr [of "require_bounded_expiry x y z" for x y z]
      res_bind_Inr [of "require_enum x y z" for x y z] require_placement_Inr by blast
  note id = get_placement_SomeD [OF pl]
  from o' show thesis
  proof (cases rule: observe_row_frame)
    case same
    then show thesis by (rule that(1))
  next
    case (written new tab')
    have k: "\<And>r. ro_placement_id (merge_readiness new r) = ro_placement_id r" by (simp add: merge_readiness_def)
    have n: "ro_placement_id new = pl_id pl" using written(1) by (auto simp: res_bind_Inr)
    have sub: "ro_placement_id ` set tab' \<subseteq> insert (pl_id pl) (ro_placement_id ` set (db_readiness d))"
      using upsert_newer_image [OF written(2), of ro_placement_id] k n by simp
    show thesis
    proof (rule that(2) [OF _ written(3) sub])
      show "pl_id pl \<in> placement_ids d" using placement_in_keys [OF pl] id by simp
      show "unique_by ro_placement_id tab'" if "unique_by ro_placement_id (db_readiness d)"
        by (rule upsert_newer_unique [OF written(2) k that])
    qed
  qed
qed

lemma record_readiness_refs:
  assumes "record_readiness_observation input d = Inr (d', r)" and ok: "references_ok d"
  shows "references_ok d'"
  using assms(1)
proof (cases rule: record_readiness_frame)
  case same
  with ok show ?thesis by simp
next
  case (written new rows)
  then show ?thesis
    using ok by (intro references_readiness [OF ok written(2)]) (auto simp: references_ok_def row_keys_ok_def)
qed

lemma record_exposure_frame:
  assumes "record_exposure now uuid input d = Inr (d', r)"
  obtains (same) "d' = d"
  | (written) new rows where "exposure_file new \<in> file_keys d"
      "exposure_scope new \<in> (\<lambda>(p, a, h). (p, a)) ` placement_keys d" "d' = d\<lparr>db_exposures := rows\<rparr>"
      "exposure_file ` set rows \<subseteq> insert (exposure_file new) (exposure_file ` set (db_exposures d))"
      "exposure_scope ` set rows \<subseteq> insert (exposure_scope new) (exposure_scope ` set (db_exposures d))"
      "exposure_keys d \<subseteq> (\<lambda>e. (ex_id e, ex_placement_id e, ex_provider_file_id e)) ` set rows"
      "unique_by ex_id (db_exposures d) \<Longrightarrow> unique_by ex_id rows"
proof -
  from assms obtain pl f acc mount transport key where pl: "get_placement d (exx_placementId input) = Some pl"
    and f: "require_provider_file d (exx_placementId input) (exx_providerFileId input) = Inr f"
    and o': "observe_row exposure_row_key ex_observed_at (\<lambda>row r. ex_id r = ex_id row) merge_exposure
         db_exposures (\<lambda>t. db_exposures_update (\<lambda>_. t))
         (transport, key, exx_placementId input, exx_providerFileId input) (nullish (exx_observedAt input) now)
         (res_bind (check_enum parse_exposure_state (nullish (exx_state input) ''unknown'') ''state'') (\<lambda>st.
            Inr \<lparr>ex_id = nullish (exx_id input) (''ex_'' @ uuid),
              ex_placement_id = exx_placementId input,
              ex_provider_file_id = exx_providerFileId input, ex_account_scope = acc,
              ex_mount_scope = mount, ex_transport = transport,
              ex_exposure_key = key, ex_relative_path = exx_relativePath input,
              ex_state = st, ex_read_only = (exx_readOnly input = Some True),
              ex_observed_at = nullish (exx_observedAt input) now, ex_expires_at = exx_expiresAt input,
              ex_failure_category = exx_failureCategory input,
              ex_retryable = exx_retryable input\<rparr>)) d = Inr (d', r)"
    and acc: "acc = pl_account_scope pl"
    unfolding record_exposure_def res_bind_Inr [of "require_placement x y" for x y]
      res_bind_Inr [of "require_provider_file x y z" for x y z] res_bind_Inr [of "ensure x y" for x y]
      res_bind_Inr [of "normalize_identifier x" for x] res_bind_Inr [of "account_scope_or_default x" for x]
      res_bind_Inr [of "require_string x ''exposureKey'' n" for x n] require_placement_Inr ensure_Inr Let_def by blast
  from o' show thesis
  proof (cases rule: observe_row_frame)
    case same
    then show thesis by (rule that(1))
  next
    case (written new tab')
    have n: "ex_placement_id new = exx_placementId input" "ex_provider_file_id new = exx_providerFileId input"
      "ex_account_scope new = acc" using written(1) by (auto simp: res_bind_Inr)
    have m: "ex_id (merge_exposure new r) = ex_id r" "exposure_file (merge_exposure new r) = exposure_file r"
      "ex_placement_id (merge_exposure new r) = ex_placement_id r"
      "ex_provider_file_id (merge_exposure new r) = ex_provider_file_id r"
      "ex_account_scope (merge_exposure new r) = ex_account_scope new" for r
      by (simp_all add: merge_exposure_def exposure_file_def)
    show thesis
    proof (rule that(2) [OF _ _ written(3)])
      show "exposure_file new \<in> file_keys d"
        using require_provider_file_InrD [OF f] n by (force simp: exposure_file_def file_keys_def provider_file_key_def)
      show "exposure_scope new \<in> (\<lambda>(p, a, h). (p, a)) ` placement_keys d"
        using placement_in_keys [OF pl] n acc by (simp add: exposure_scope_def)
      show "exposure_file ` set tab' \<subseteq> insert (exposure_file new) (exposure_file ` set (db_exposures d))"
        by (rule upsert_newer_image [OF written(2)]) (simp add: m)
      show "exposure_scope ` set tab' \<subseteq> insert (exposure_scope new) (exposure_scope ` set (db_exposures d))"
        by (rule upsert_newer_image [OF written(2)]) (simp add: m exposure_scope_def exposure_row_key_def)
      show "exposure_keys d \<subseteq> (\<lambda>e. (ex_id e, ex_placement_id e, ex_provider_file_id e)) ` set tab'"
        unfolding exposure_keys_def by (rule upsert_newer_grow [OF written(2)]) (simp add: m)
      show "unique_by ex_id tab'" if "unique_by ex_id (db_exposures d)"
        by (rule upsert_newer_unique_id [OF written(2) that]) (simp_all add: m)
    qed
  qed
qed

lemma record_exposure_refs:
  assumes "record_exposure now uuid input d = Inr (d', r)" and ok: "references_ok d"
  shows "references_ok d'"
  using assms(1)
proof (cases rule: record_exposure_frame)
  case same
  with ok show ?thesis by simp
next
  case (written new rows)
  have "unique_by ex_id (db_exposures d)" using ok by (simp add: references_ok_def row_keys_ok_def)
  note unique = written(7) [OF this]
  from written(1,4) have "exposure_file ` set rows \<subseteq> exposure_file ` set (db_exposures d) \<union> file_keys d"
    by (rule insert_step)
  moreover from written(2,5)
  have "exposure_scope ` set rows \<subseteq> exposure_scope ` set (db_exposures d) \<union> (\<lambda>(p, a, h). (p, a)) ` placement_keys d"
    using insert_step [OF written(2,5)] by simp
  ultimately show ?thesis using references_exposures [OF ok written(3,6) _ _ unique] by simp
qed

lemma mapping_write_refs:
  assumes w: "(if c then Inl e else Inr (d\<lparr>db_mappings := upsert (\<lambda>r. mapping_key r = mapping_key new)
      (merge_file_mapping new) new (db_mappings d)\<rparr>, z)) = Inr (d', r)"
    and new: "mapping_file new \<in> file_keys d" and ok: "references_ok d"
  shows "references_ok d'"
proof -
  from w have d': "d' = d\<lparr>db_mappings := upsert (\<lambda>r. mapping_key r = mapping_key new)
      (merge_file_mapping new) new (db_mappings d)\<rparr>" by (simp split: if_splits)
  have sub: "mapping_file ` set (upsert (\<lambda>r. mapping_key r = mapping_key new) (merge_file_mapping new) new (db_mappings d))
      \<subseteq> insert (mapping_file new) (mapping_file ` set (db_mappings d))"
    by (rule image_upsert) (auto simp: mapping_file_def mapping_key_def merge_file_mapping_def)
  show ?thesis
  proof (rule references_mappings [OF ok d'])
    show "unique_by mapping_key (upsert (\<lambda>r. mapping_key r = mapping_key new) (merge_file_mapping new) new (db_mappings d))"
      by (rule unique_by_upsert)
         (use ok in \<open>simp_all add: references_ok_def row_keys_ok_def mapping_key_def merge_file_mapping_def\<close>)
    from new sub show "mapping_file ` set (upsert (\<lambda>r. mapping_key r = mapping_key new) (merge_file_mapping new) new (db_mappings d))
        \<subseteq> mapping_file ` set (db_mappings d) \<union> file_keys d" by (rule insert_step)
  qed
qed

lemma record_file_mapping_refs:
  assumes "record_file_mapping now uuid input d = Inr (d', r)" and ok: "references_ok d"
  shows "references_ok d'"
  by (insert assms(1), unfold record_file_mapping_def Let_def res_bind_Inr [of "validate_release_identity x" for x]
      res_bind_Inr [of "require_placement x y" for x y] res_bind_Inr [of "ensure x y" for x y]
      res_bind_Inr [of "require_provider_file x y z" for x y z] res_bind_Inr [of "require_string x y n" for x y n]
      res_bind_Inr [of "check_enum x y z" for x y z], elim exE conjE, drule require_provider_file_InrD,
      erule mapping_write_refs [OF _ _ ok], force simp: mapping_file_def file_keys_def provider_file_key_def)

section \<open>Bindings\<close>

lemma binding_ok_updates [simp]:
  "binding_ok d (supersede_binding now b) = binding_ok d b"
  "binding_ok d (degrade_binding now c b) = binding_ok d b"
  by (simp_all add: binding_ok_def supersede_binding_def degrade_binding_def binding_release_def)

lemma references_binding_updates:
  assumes ok: "references_ok d" and f: "\<And>b. binding_ok d b \<Longrightarrow> binding_ok d (f b)"
  shows "references_ok (d\<lparr>db_bindings := upd_where P f (db_bindings d)\<rparr>)"
proof (rule references_bindings [OF ok refl])
  fix b assume "b \<in> set (upd_where P f (db_bindings d))"
  then show "b \<in> set (db_bindings d) \<or> binding_ok d b"
    by (cases rule: in_upd_whereE) (use ok f in \<open>auto simp: references_ok_def\<close>)
qed

lemma binding_ok_bindings [simp]: "binding_ok (d\<lparr>db_bindings := rows\<rparr>) b = binding_ok d b"
  by (simp add: binding_ok_def key_sets)

text \<open>The row an activation writes has good references.\<close>

lemma activated_binding_ok:
  assumes a: "check_activation now input d = Inr a" and ok: "references_ok d"
    and b: "valid_identity (binding_release b)" "bd_library_item_id b = ac_item_id a"
      "bd_library_path_id b = ac_path_id a \<or> (bd_library_path_id b, ac_item_id a) \<in> path_keys d"
      "bd_torrent_file_id b = ac_torrent_file_id a" "bd_info_hash b = ri_infoHash (ac_identity a)"
      "bd_placement_id b = bix_placementId input" "bd_exposure_id b = bix_exposureId input"
      "bd_provider_file_id b = bix_providerFileId input"
    and fk: "\<exists>t \<in> set (db_torrent_files d). tf_id t = ac_torrent_file_id a"
  shows "binding_ok d b"
  using a
proof (rule check_activation_facts)
  fix pl f e path t
  assume w: "get_placement d (bix_placementId input) = Some pl" "pl_info_hash pl = ri_infoHash (ac_identity a)"
    "e \<in> set (db_exposures d)" "ex_id e = bix_exposureId input"
    "ex_placement_id e = bix_placementId input" "ex_provider_file_id e = bix_providerFileId input"
    "path \<in> set (db_paths d)" "lp_id path = ac_path_id a" "lp_library_item_id path = ac_item_id a"
    "t \<in> set (db_torrent_files d)" "tf_id t = js_trim (ac_torrent_file_id a)"
    "tf_info_hash t = ri_infoHash (ac_identity a)"
  from fk ok have "js_trim (ac_torrent_file_id a) = ac_torrent_file_id a"
    by (auto simp: references_ok_def row_keys_ok_def id_ok_def)
  with w have t: "(ac_torrent_file_id a, ri_infoHash (ac_identity a)) \<in> torrent_keys d"
    by (force simp: torrent_keys_def)
  have p: "(ac_path_id a, ac_item_id a) \<in> path_keys d" using w by (force simp: path_keys_def)
  then have "ac_item_id a \<in> snd ` path_keys d" by force
  moreover have "snd ` path_keys d \<subseteq> item_ids d" using ok by (simp add: references_ok_def item_refs_def)
  ultimately have "ac_item_id a \<in> item_ids d" by blast
  moreover have "\<exists>s. (bix_placementId input, s, ri_infoHash (ac_identity a)) \<in> placement_keys d"
    using w(2) get_placement_SomeD [OF w(1)] by (force simp: placement_keys_def)
  moreover have "(bix_exposureId input, bix_placementId input, bix_providerFileId input) \<in> exposure_keys d"
    using w by (force simp: exposure_keys_def)
  ultimately show ?thesis using b t p by (auto simp: binding_ok_def)
qed

lemma activate_binding_refs:
  assumes op: "activate_binding now uuid input d = Inr (d', b)" and ok: "references_ok d" and inv: "binding_inv d"
  shows "references_ok d'"
proof -
  from op obtain a where a: "check_activation now input d = Inr a"
    and c: "commit_binding now uuid input a d = Inr (d', b)" by (auto simp: activate_binding_Inr)
  from a have id: "valid_identity (ac_identity a)" by (rule check_activation_facts)
  from c show ?thesis
  proof (cases rule: commit_binding_cases)
    case (rebind b0 reason)
    note act = active_bindingD [OF rebind(1)]
    have b0: "binding_ok d b0" using ok act by (auto simp: references_ok_def)
    have new: "binding_ok d (rebind_route now reason input b0)"
      by (rule activated_binding_ok [OF a ok])
         (use b0 rebind(2) act in \<open>auto simp: rebind_route_def binding_ok_def
            binding_release_def same_representation_def torrent_keys_def\<close>)
    show ?thesis
    proof (rule references_bindings [OF ok rebind(3)])
      fix x assume "x \<in> set (upd_where (\<lambda>r. bd_id r = bd_id b0 \<and> bd_status r = BdActive)
          (rebind_route now reason input) (db_bindings d))"
      then show "x \<in> set (db_bindings d) \<or> binding_ok d x"
      proof (cases rule: in_upd_whereE)
        case (changed r)
        then have "r = b0"
          using act inv binding_table_invD(1) unique_byD unfolding binding_inv_def by metis
        with changed new show ?thesis by simp
      qed simp
    qed
  next
    case insert
    have "\<exists>P. supersede_previous now input a d = d\<lparr>db_bindings := upd_where P (supersede_binding now) (db_bindings d)\<rparr>"
      using supersede_previous_effect [OF inv refl] by metis
    then obtain P where sp: "supersede_previous now input a d = d\<lparr>db_bindings := upd_where P (supersede_binding now) (db_bindings d)\<rparr>" ..
    define d1 where "d1 = supersede_previous now input a d"
    have ok1: "references_ok d1"
      unfolding d1_def sp by (rule references_binding_updates [OF ok]) simp
    note ib = insert_binding_Inr [OF insert(1)]
    have fk: "\<exists>t \<in> set (db_torrent_files d). tf_id t = ac_torrent_file_id a"
      using ib(5,12) by (simp add: sp)
    have path: "bd_library_path_id b = ac_path_id a" "binding_release b = ac_identity a"
      using insert(1) by (auto simp: insert_binding_def Let_def res_bind_Inr binding_release_def split: if_splits)
    have "binding_ok d b"
      by (rule activated_binding_ok [OF a ok]) (use ib path id fk in simp_all)
    then have "binding_ok d1 b" by (simp add: d1_def sp)
    then show ?thesis
      by (intro references_bindings [OF ok1, of _ "db_bindings d1 @ [b]"]) (use ib(1) in \<open>auto simp: d1_def\<close>)
  qed
qed

lemma binding_step_refs:
  assumes "binding_step d d'" and ok: "references_ok d" and inv: "binding_inv d"
  shows "references_ok d'"
  using assms(1)
proof (cases rule: binding_step.cases)
  case (activate now uuid input b)
  from activate_binding_refs [OF this ok inv] show ?thesis .
next
  case (unpublish now key r)
  then consider "d' = d" | P Q where "d' = d\<lparr>
      db_items := upd_where P (\<lambda>i. i\<lparr>li_desired_state := DesAbsent, li_updated_at := now\<rparr>) (db_items d),
      db_bindings := upd_where Q (supersede_binding now) (db_bindings d)\<rparr>"
    unfolding unpublish_library_item_def res_bind_Inr Let_def by (auto split: option.splits)
  then show ?thesis
  proof cases
    case (2 P Q)
    let ?d1 = "d\<lparr>db_bindings := upd_where Q (supersede_binding now) (db_bindings d)\<rparr>"
    have "references_ok ?d1" by (rule references_binding_updates [OF ok]) simp
    moreover have "d' = ?d1\<lparr>db_items := upd_where P (\<lambda>i. i\<lparr>li_desired_state := DesAbsent, li_updated_at := now\<rparr>) (db_items d)\<rparr>"
      using 2 by simp
    ultimately show ?thesis by (rule references_items) (simp add: item_ids_def image_upd_where)
  qed (use ok in simp)
next
  case (degrade now item version category b)
  then obtain P c where "d\<lparr>db_bindings := upd_where P (degrade_binding now c) (db_bindings d)\<rparr> = d'"
    unfolding mark_binding_degraded_def res_bind_Inr find_case_Inr Let_def sum.inject prod.inject by blast
  moreover have "references_ok (d\<lparr>db_bindings := upd_where P (degrade_binding now c) (db_bindings d)\<rparr>)"
    by (rule references_binding_updates [OF ok]) simp
  ultimately show ?thesis by simp
qed

end
