(* ===== verification/Inventory_References.thy ===== *)
theory Inventory_References
  imports Store_Machine
begin

text \<open>
  The references between the tables under the remaining operations of the store: repair
  transactions, lifecycle events, accepted torrent files and the replacement of a provider file
  inventory, whose loop breaks \<open>file_refs\<close> until the snapshot is written.
\<close>

section \<open>Repairs\<close>

text \<open>An operation on repairs leaves the other tables alone, and its rows belong to library items.\<close>

definition repairs_frame :: "db \<Rightarrow> db \<Rightarrow> bool" where
  "repairs_frame d d' \<longleftrightarrow> d' = d\<lparr>db_repairs := db_repairs d', db_steps := db_steps d'\<rparr>
     \<and> rt_library_item_id ` set (db_repairs d') \<subseteq> rt_library_item_id ` set (db_repairs d) \<union> item_ids d"

lemma repairs_frame_refl [simp]: "repairs_frame d d"
  by (simp add: repairs_frame_def)

lemma repairs_frame_trans: "repairs_frame a b \<Longrightarrow> repairs_frame b c \<Longrightarrow> repairs_frame a c"
  unfolding repairs_frame_def item_ids_def by (cases a; cases b; cases c; simp; blast)

lemma repairs_frame_steps [simp]: "repairs_frame d (d\<lparr>db_steps := ss\<rparr>)"
  by (simp add: repairs_frame_def)

lemma repairs_frame_rows:
  "(\<And>r. rt_library_item_id (f r) = rt_library_item_id r) \<Longrightarrow> repairs_frame d (d\<lparr>db_repairs := upd_where P f (db_repairs d)\<rparr>)"
  by (simp add: repairs_frame_def image_upd_where)

lemma update_repair_frame:
  assumes "update_repair t P f d = Inr d'" "\<And>r. rt_library_item_id (f r) = rt_library_item_id r"
  shows "repairs_frame d d'"
  using assms by (auto simp: update_repair_Inr intro: repairs_frame_rows)

lemma row_updates_item:
  "rt_library_item_id (authorize_row now as who r) = rt_library_item_id r"
  "rt_library_item_id (executing_row now r) = rt_library_item_id r"
  "rt_library_item_id (touch_row now r) = rt_library_item_id r"
  "rt_library_item_id (fail_row now c r) = rt_library_item_id r"
  "rt_library_item_id (resume_row now r) = rt_library_item_id r"
  "rt_library_item_id (succeed_row now r) = rt_library_item_id r"
  by (simp_all add: row_updates)

lemma known_item: "get_library_item d i \<noteq> None \<Longrightarrow> i \<in> item_ids d"
  by (force simp: item_ids_def dest: get_library_item_SomeD)

lemma create_repair_frame:
  assumes "create_repair_transaction now uuid input d = Inr (d', v)"
  shows "repairs_frame d d'"
proof -
  from assms have "\<exists>item row. require_library_item d (rix_libraryItemId input) = Inr item
      \<and> insert_repair row d = Inr d' \<and> rt_library_item_id row = li_id item"
    unfolding create_repair_transaction_def
    by (auto simp: res_bind_Inr find_case_Inr Let_def split: option.splits prod.splits)
       (intro exI conjI, assumption+, simp)
  then obtain item and row :: repair_transaction where item: "require_library_item d (rix_libraryItemId input) = Inr item"
    and row: "insert_repair row d = Inr d'" "rt_library_item_id row = li_id item" by blast
  from item have "li_id item \<in> item_ids d"
    by (auto simp: item_ids_def require_library_item_Inr dest: get_library_item_SomeD)
  with row show ?thesis by (auto simp: insert_repair_def repairs_frame_def split: if_splits)
qed

inductive repair_op :: "db \<Rightarrow> db \<Rightarrow> bool" where
  ro_create: "create_repair_transaction now uuid input d = Inr (d', v) \<Longrightarrow> repair_op d d'"
| ro_authorize: "authorize_repair_transaction now i auth d = Inr (d', v) \<Longrightarrow> repair_op d d'"
| ro_start: "start_repair_step now i action request d = Inr (d', s) \<Longrightarrow> repair_op d d'"
| ro_complete_step: "complete_repair_step now k result d = Inr (d', s) \<Longrightarrow> repair_op d d'"
| ro_fail_step: "fail_repair_step now k err d = Inr (d', s) \<Longrightarrow> repair_op d d'"
| ro_fail: "fail_repair_transaction now i err d = Inr (d', v) \<Longrightarrow> repair_op d d'"
| ro_resume: "resume_repair_transaction now i d = Inr (d', v) \<Longrightarrow> repair_op d d'"
| ro_complete: "complete_repair_transaction now i d = Inr (d', v) \<Longrightarrow> repair_op d d'"

lemma repair_op_move: "repair_op d d' \<Longrightarrow> repair_move d d'"
  by (induction rule: repair_op.induct) (blast intro: repair_move.intros)+

lemma repair_op_frame: "repair_op d d' \<Longrightarrow> repairs_frame d d'"
proof (induction rule: repair_op.induct)
  case (ro_create now uuid input d d' v)
  then show ?case by (rule create_repair_frame)
next
  case (ro_authorize now i auth d d' v)
  then show ?case
    unfolding authorize_repair_transaction_def res_bind_Inr ensure_Inr Let_def
    by (blast dest!: read_repair_InrD intro: update_repair_frame row_updates_item)
next
  case (ro_start now i action request d d' s)
  then show ?case
  proof (cases rule: start_repair_step_cases)
    case (new t row)
    then have "repairs_frame d (d\<lparr>db_repairs := db_repairs d'\<rparr>)"
      by (simp add: repairs_frame_rows row_updates_item)
    moreover have "d' = d\<lparr>db_repairs := db_repairs d'\<rparr>\<lparr>db_steps := db_steps d'\<rparr>" using new(8) by simp
    ultimately show ?thesis using repairs_frame_trans repairs_frame_steps by metis
  qed simp
next
  case (ro_complete_step now k result d d' s)
  show ?case
  proof (cases "d' = d")
    case False
    with ro_complete_step obtain s0 :: repair_step where
      "update_repair (st_transaction_id s0) (\<lambda>r. rt_status r = RpExecuting) (touch_row now)
        (d\<lparr>db_steps := upd_where (\<lambda>x. st_id x = k \<and> st_status x = StRunning) (succeed_step now result) (db_steps d)\<rparr>) = Inr d'"
      unfolding complete_repair_step_def by (auto simp: res_bind_Inr split: option.splits if_splits)
    from repairs_frame_trans [OF repairs_frame_steps update_repair_frame [OF this row_updates_item(3)]]
    show ?thesis .
  qed simp
next
  case (ro_fail_step now k err d d' s)
  then obtain c and s0 :: repair_step where
    "update_repair (st_transaction_id s0) (\<lambda>r. rt_status r = RpExecuting) (fail_row now c)
        (d\<lparr>db_steps := upd_where (\<lambda>x. st_id x = k \<and> st_status x = StRunning) (Store_Repair.fail_step now c err) (db_steps d)\<rparr>) = Inr d'"
    unfolding fail_repair_step_def by (auto simp: res_bind_Inr split: option.splits if_splits)
  from repairs_frame_trans [OF repairs_frame_steps update_repair_frame [OF this row_updates_item(4)]]
  show ?case .
next
  case (ro_fail now i err d d' v)
  then show ?case
    unfolding fail_repair_transaction_def res_bind_Inr ensure_Inr
    by (blast dest!: read_repair_InrD intro: update_repair_frame row_updates_item)
next
  case (ro_resume now i d d' v)
  then show ?case
    unfolding resume_repair_transaction_def res_bind_Inr ensure_Inr
    by (blast dest!: read_repair_InrD intro: update_repair_frame row_updates_item)
next
  case (ro_complete now i d d' v)
  then show ?case
    by (cases rule: complete_transaction_cases) (simp_all add: repairs_frame_rows row_updates_item)
qed

lemma repair_op_refs:
  assumes "repair_op d d'" and ok: "references_ok d"
  shows "references_ok d'"
  using repair_op_frame [OF assms(1)] references_repairs [OF ok, where d' = d' and rows = "db_repairs d'" and ss = "db_steps d'"]
  by (simp add: repairs_frame_def)

section \<open>Lifecycle events and accepted files\<close>

lemma append_lifecycle_event_refs:
  assumes "append_lifecycle_event now input d = Inr (d', e)" and ok: "references_ok d"
  shows "references_ok d'"
proof (rule references_events [OF ok append_lifecycle_event_frame(1) [OF assms(1)]])
  have "le_library_item_id e \<in> item_ids d"
    by (rule known_item [OF append_lifecycle_event_frame(2) [OF assms(1)]])
  then show "le_library_item_id ` set (db_events d @ [e]) \<subseteq> le_library_item_id ` set (db_events d) \<union> item_ids d"
    by auto
qed

lemma record_accepted_rows:
  assumes "record_accepted_torrent_file now i t s r at ev d = Inr (d', a)"
  obtains rows tf where "d' = d\<lparr>db_accepted := rows\<rparr>" "i \<in> item_ids d" "tf \<in> fst ` torrent_keys d"
    "af_library_item_id ` set rows \<subseteq> insert i (af_library_item_id ` set (db_accepted d))"
    "af_torrent_file_id ` set rows \<subseteq> insert tf (af_torrent_file_id ` set (db_accepted d))"
proof -
  let ?upd = "\<lambda>src rsn a. a\<lparr>af_source := src, af_reason := rsn, af_observed_at := nullish at now, af_evidence := ev\<rparr>"
  let ?row = "\<lambda>src rsn. \<lparr>af_id = max_of (\<lambda>_. True) af_id (db_accepted d) + 1, af_library_item_id = i,
           af_torrent_file_id = nullish t [], af_source = src, af_reason = rsn, af_observed_at = nullish at now,
           af_evidence = ev\<rparr>"
  let ?rows = "\<lambda>src rsn. upsert (\<lambda>a. af_library_item_id a = i \<and> af_torrent_file_id a = nullish t [])
     (?upd src rsn) (?row src rsn) (db_accepted d)"
  from assms obtain src rsn where item: "get_library_item d i \<noteq> None"
    and tf: "list_ex (\<lambda>x. tf_id x = nullish t []) (db_torrent_files d)"
    and d': "d' = d\<lparr>db_accepted := ?rows src rsn\<rparr>"
    by (auto simp: record_accepted_torrent_file_def guard_simps Let_def split: if_splits)
  have "af_library_item_id ` set (?rows src rsn) \<subseteq> insert (af_library_item_id (?row src rsn)) (af_library_item_id ` set (db_accepted d))"
    by (rule image_upsert) simp
  moreover have "af_torrent_file_id ` set (?rows src rsn) \<subseteq> insert (af_torrent_file_id (?row src rsn)) (af_torrent_file_id ` set (db_accepted d))"
    by (rule image_upsert) simp
  moreover have "nullish t [] \<in> fst ` torrent_keys d"
    using tf by (force simp: torrent_keys_def list_ex_iff)
  moreover note known_item [OF item]
  ultimately show thesis by (intro that [OF d']) simp_all
qed

lemma record_accepted_refs:
  assumes "record_accepted_torrent_file now i t s r at ev d = Inr (d', a)" and ok: "references_ok d"
  shows "references_ok d'"
  using assms(1)
proof (rule record_accepted_rows)
  fix rows tf
  assume w: "d' = d\<lparr>db_accepted := rows\<rparr>" "i \<in> item_ids d" "tf \<in> fst ` torrent_keys d"
    "af_library_item_id ` set rows \<subseteq> insert i (af_library_item_id ` set (db_accepted d))"
    "af_torrent_file_id ` set rows \<subseteq> insert tf (af_torrent_file_id ` set (db_accepted d))"
  from references_accepted [OF ok w(1) insert_step [OF w(2,4)] insert_step [OF w(3,5)]] show ?thesis .
qed

section \<open>The inventory loop\<close>

text \<open>What a turn of the loop does to the tables that others refer to.\<close>

definition loop_frame :: "string \<Rightarrow> string set \<Rightarrow> db \<Rightarrow> db \<Rightarrow> bool" where
  "loop_frame p new d d' \<longleftrightarrow> file_tables_only d d' \<and> file_keys d \<subseteq> file_keys d'
     \<and> file_keys d' \<subseteq> file_keys d \<union> {p} \<times> UNIV
     \<and> set (db_torrent_files d) \<subseteq> set (db_torrent_files d')
     \<and> tf_id ` set (db_torrent_files d') \<subseteq> tf_id ` set (db_torrent_files d) \<union> new
     \<and> le_library_item_id ` set (db_events d') \<subseteq> le_library_item_id ` set (db_events d) \<union> item_ids d"

lemma loop_frame_refl [simp]: "loop_frame p new d d"
  by (simp add: loop_frame_def file_tables_only_def)

lemma file_tables_only_items: "file_tables_only a b \<Longrightarrow> item_ids b = item_ids a"
  unfolding file_tables_only_def item_ids_def by (cases a; cases b; simp)

lemma loop_frameD:
  assumes "loop_frame p new d d'"
  shows "file_tables_only d d'" "file_keys d \<subseteq> file_keys d'" "file_keys d' \<subseteq> file_keys d \<union> {p} \<times> UNIV"
    "set (db_torrent_files d) \<subseteq> set (db_torrent_files d')"
    "tf_id ` set (db_torrent_files d') \<subseteq> tf_id ` set (db_torrent_files d) \<union> new"
    "le_library_item_id ` set (db_events d') \<subseteq> le_library_item_id ` set (db_events d) \<union> item_ids d"
  using assms by (simp_all add: loop_frame_def)

lemma loop_frame_trans:
  assumes 1: "loop_frame p new a b" and 2: "loop_frame p new b c"
  shows "loop_frame p new a c"
proof -
  have same: "item_ids b = item_ids a" by (rule file_tables_only_items [OF loop_frameD(1) [OF 1]])
  have keep: "C \<subseteq> A \<union> N" if "B \<subseteq> A \<union> N" "C \<subseteq> B \<union> N" for A B C N :: "'x set"
    using that by blast
  show ?thesis
    unfolding loop_frame_def
    using file_tables_only_trans [OF loop_frameD(1) [OF 1] loop_frameD(1) [OF 2]]
      subset_trans [OF loop_frameD(2) [OF 1] loop_frameD(2) [OF 2]] keep [OF loop_frameD(3) [OF 1] loop_frameD(3) [OF 2]]
      subset_trans [OF loop_frameD(4) [OF 1] loop_frameD(4) [OF 2]] keep [OF loop_frameD(5) [OF 1] loop_frameD(5) [OF 2]]
      keep [OF loop_frameD(6) [OF 1] loop_frameD(6) [OF 2, unfolded same]]
    by (intro conjI)
qed

lemma loop_frame_files:
  assumes "provider_file_key ` set fs = file_keys d"
  shows "loop_frame p new d (d\<lparr>db_provider_files := fs\<rparr>)"
  using assms by (simp add: loop_frame_def file_tables_only_def file_keys_def)

lemma loop_frame_upd: "keeps_keys f \<Longrightarrow> loop_frame p new d (d\<lparr>db_provider_files := upd_where P f (db_provider_files d)\<rparr>)"
  by (rule loop_frame_files) (simp add: file_keys_def image_upd_where keeps_keys_def)

lemma find_item_by_hash: "find_library_item_by_info_hash h d = Some item \<Longrightarrow> li_id item \<in> item_ids d"
  by (auto simp: find_library_item_by_info_hash_def item_ids_def dest: find_SomeD)

lemma loop_frame_event:
  "le_library_item_id e \<in> item_ids d \<Longrightarrow> loop_frame p new d (d\<lparr>db_events := db_events d @ [e]\<rparr>)"
  by (auto simp: loop_frame_def file_tables_only_def file_keys_def)

lemma apply_mapping_conflict_frame: "loop_frame p new d (apply_mapping_conflict now rowId err at d)"
proof -
  let ?d1 = "d\<lparr>db_provider_files := upd_where (\<lambda>r. pf_id r = rowId) (set_conflict err) (db_provider_files d)\<rparr>"
  have 1: "loop_frame p new d ?d1" by (simp add: loop_frame_upd)
  have 2: "loop_frame p new d (?d1\<lparr>db_events := db_events d @ [e]\<rparr>)"
    if "find_library_item_by_info_hash h ?d1 = Some item" "le_library_item_id e = li_id item" for h item e
    using loop_frame_trans [OF 1 loop_frame_event [of e ?d1]] find_item_by_hash [OF that(1)] that(2) by simp
  define ev where "ev item = \<lparr>le_id = max_of (\<lambda>_. True) le_id (db_events d) + 1,
     le_library_item_id = li_id item, le_milestone = ''torrent-file-mapping-conflict'',
     le_status = ''degraded'', le_occurred_at = at,
     le_failure_category = Some (conflict_reason err), le_retryable = Some False,
     le_retry_after_ms = None, le_source = ''control-plane-store'',
     le_reason = Some (conflict_reason err),
     le_evidence = Some (conflict_event_json err rowId), le_correlation_id = None,
     le_recorded_at = now\<rparr>" for item :: library_item
  have ap: "apply_mapping_conflict now rowId err at d =
     (case find (\<lambda>r. pf_id r = rowId) (db_provider_files ?d1) of None \<Rightarrow> ?d1
      | Some row \<Rightarrow> (case get_placement ?d1 (pf_placement_id row) of None \<Rightarrow> ?d1
      | Some placement \<Rightarrow> (case find_library_item_by_info_hash (pl_info_hash placement) ?d1 of None \<Rightarrow> ?d1
      | Some item \<Rightarrow> ?d1\<lparr>db_events := db_events d @ [ev item]\<rparr>)))"
    unfolding apply_mapping_conflict_def Let_def ev_def by (simp cong: option.case_cong)
  have item: "le_library_item_id (ev item) = li_id item" for item by (simp add: ev_def)
  show ?thesis
  proof (cases "apply_mapping_conflict now rowId err at d = ?d1")
    case False
    then obtain h i where "find_library_item_by_info_hash h ?d1 = Some i"
        "apply_mapping_conflict now rowId err at d = ?d1\<lparr>db_events := db_events d @ [ev i]\<rparr>"
      unfolding ap by (auto split: option.splits)
    with 2 [OF _ item] show ?thesis by metis
  qed (simp only: 1)
qed

lemma upsert_provider_file_frame:
  assumes "upsert_provider_file row d = Inr (d1, rowId)" "pf_placement_id row = p"
  shows "loop_frame p new d d1"
proof -
  from assms(1) consider
      P where "d1 = d\<lparr>db_provider_files := upd_where P (merge_provider_file row) (db_provider_files d)\<rparr>"
    | "d1 = d\<lparr>db_provider_files := db_provider_files d @ [row]\<rparr>"
    by (auto simp: upsert_provider_file_def Let_def split: option.splits if_splits)
  then show ?thesis
  proof cases
    case 1
    have "provider_file_key ` set (upd_where P (merge_provider_file row) (db_provider_files d)) = file_keys d"
      unfolding file_keys_def by (rule image_upd_where) (simp add: merge_provider_file_def provider_file_key_def)
    with 1 show ?thesis by (simp add: loop_frame_files)
  next
    case 2
    with assms(2) show ?thesis
      by (auto simp: loop_frame_def file_tables_only_def file_keys_def provider_file_key_def)
  qed
qed

lemma map_torrent_file_frame:
  assumes "map_torrent_file ctx tfId c sz fileId rowId d = Inr d'" "tfId \<in> new"
  shows "loop_frame p new d d'"
proof (cases "find (\<lambda>t. tf_info_hash t = pl_info_hash (ic_placement ctx) \<and> tf_internal_path t = c) (db_torrent_files d)")
  case None
  define tf where "tf = \<lparr>tf_id = tfId, tf_info_hash = pl_info_hash (ic_placement ctx), tf_internal_path = c,
     tf_size = sz, tf_created_at = ic_at ctx\<rparr>"
  from None assms(1) have "d' = d\<lparr>db_torrent_files := db_torrent_files d @ [tf]\<rparr>
      \<lparr>db_provider_files := upd_where (\<lambda>r. pf_id r = rowId) (set_mapping (Some tfId) Mapped None) (db_provider_files d)\<rparr>"
    by (auto simp: map_torrent_file_def Let_def tf_def split: if_splits)
  moreover have "loop_frame p new d (d\<lparr>db_torrent_files := db_torrent_files d @ [tf]\<rparr>)"
    using assms(2) by (auto simp: loop_frame_def file_tables_only_def file_keys_def tf_def)
  moreover note loop_frame_upd [OF keeps_keys_simps(1), of p new "d\<lparr>db_torrent_files := db_torrent_files d @ [tf]\<rparr>"]
  ultimately show ?thesis using loop_frame_trans by fastforce
next
  case (Some old)
  show ?thesis
  proof (cases "tf_size old = sz")
    case True
    define Q where "Q = (\<lambda>r :: provider_file. pf_placement_id r = pl_id (ic_placement ctx)
        \<and> pf_torrent_file_id r = Some (tf_id old) \<and> pf_present r \<and> pf_provider_file_id r \<noteq> fileId)"
    define d1 where "d1 = d\<lparr>db_provider_files := upd_where Q
        (mark_missing (ic_at ctx) (io_expiresAt (ic_options ctx))) (db_provider_files d)\<rparr>"
    from Some True assms(1) have "d' = d1\<lparr>db_provider_files := upd_where (\<lambda>r. pf_id r = rowId)
        (set_mapping (Some (tf_id old)) Mapped None) (db_provider_files d1)\<rparr>"
      by (simp add: map_torrent_file_def Let_def Q_def d1_def)
    moreover have "loop_frame p new d d1" unfolding d1_def by (rule loop_frame_upd) simp
    ultimately show ?thesis by (simp add: loop_frame_trans loop_frame_upd)
  next
    case False
    define err where "err = SizeConflict c (tf_id old) (tf_size old) sz (ic_at ctx)"
    from Some False assms(1) have "d' = apply_mapping_conflict (ic_now ctx) rowId err (ic_at ctx)
        (d\<lparr>db_provider_files := upd_where (\<lambda>r. pf_id r = rowId) (set_conflict err) (db_provider_files d)\<rparr>)"
      by (simp add: map_torrent_file_def Let_def err_def)
    then show ?thesis
      using loop_frame_trans [OF loop_frame_upd apply_mapping_conflict_frame] by simp
  qed
qed

lemma process_file_frame:
  assumes "process_file ctx k f seen d = Inr (d', seen')" "\<And>n. ''tf_'' @ ic_uuid ctx n \<in> new"
  shows "loop_frame (pl_id (ic_placement ctx)) new d d'"
  using assms(1)
proof (rule process_file_upsert)
  fix fileId c row0 d1 rowId
  assume up: "upsert_provider_file row0 d = Inr (d1, rowId)"
    and key: "provider_file_key row0 = (pl_id (ic_placement ctx), fileId)"
    and tail: "(if \<not> is_valid_torrent_file_size (if_size f) then Inr d1
      else if fileId \<in> set (ic_conflicts ctx)
      then Inr (apply_mapping_conflict (ic_now ctx) rowId
             (DuplicateCanonicalPath c (ic_conflicts ctx) (ic_at ctx)) (ic_at ctx) d1)
      else map_torrent_file ctx (''tf_'' @ ic_uuid ctx (2 * k + 1)) c
             (the (if_size f)) fileId rowId d1) = Inr d'"
  have 1: "loop_frame (pl_id (ic_placement ctx)) new d d1"
    using key by (intro upsert_provider_file_frame [OF up]) (simp add: provider_file_key_def)
  have "loop_frame (pl_id (ic_placement ctx)) new d1 d'"
    using tail map_torrent_file_frame [OF _ assms(2)] apply_mapping_conflict_frame by (auto split: if_splits)
  with 1 show ?thesis by (rule loop_frame_trans)
qed

lemma process_files_frame:
  assumes "process_files ctx k files seen d = Inr (d', seen')" "\<And>n. ''tf_'' @ ic_uuid ctx n \<in> new"
  shows "loop_frame (pl_id (ic_placement ctx)) new d d'"
  using assms(1)
proof (induction files arbitrary: k seen d)
  case (Cons f files)
  then obtain d1 seen1 where "process_file ctx k f seen d = Inr (d1, seen1)"
      "process_files ctx (Suc k) files seen1 d1 = Inr (d', seen')"
    by (auto simp: res_bind_Inr)
  then show ?case by (rule loop_frame_trans [OF process_file_frame [OF _ assms(2)] Cons.IH])
qed simp

section \<open>The whole replacement\<close>

lemma write_snapshot_frame:
  obtains rows where "write_snapshot ctx n d = d\<lparr>db_inventories := rows\<rparr>"
    "iv_placement_id ` set rows \<subseteq> insert (pl_id (ic_placement ctx)) (snapshot_ids d)"
    "insert (pl_id (ic_placement ctx)) (snapshot_ids d) \<subseteq> iv_placement_id ` set rows"
    "unique_by iv_placement_id (db_inventories d) \<Longrightarrow> unique_by iv_placement_id rows"
proof -
  let ?P = "\<lambda>r. iv_placement_id r = pl_id (ic_placement ctx)"
  obtain row where row: "write_snapshot ctx n d = d\<lparr>db_inventories := upsert ?P (\<lambda>_. row) row (db_inventories d)\<rparr>"
      "iv_placement_id row = pl_id (ic_placement ctx)"
    by (simp add: write_snapshot_def Let_def)
  show thesis
  proof (rule that [OF row(1)])
    show "iv_placement_id ` set (upsert ?P (\<lambda>_. row) row (db_inventories d)) \<subseteq> insert (pl_id (ic_placement ctx)) (snapshot_ids d)"
      using image_upsert [of ?P iv_placement_id "\<lambda>_. row" row] row(2) by (simp add: snapshot_ids_def)
    have "iv_placement_id ` set (db_inventories d) \<subseteq> iv_placement_id ` set (upsert ?P (\<lambda>_. row) row (db_inventories d))"
      by (rule image_upsert_grow) (simp add: row(2))
    moreover have "row \<in> set (upsert ?P (\<lambda>_. row) row (db_inventories d))"
      by (auto simp: upsert_def list_ex_iff intro: in_upd_where_changed)
    ultimately show "insert (pl_id (ic_placement ctx)) (snapshot_ids d) \<subseteq> iv_placement_id ` set (upsert ?P (\<lambda>_. row) row (db_inventories d))"
      using row(2) by (metis image_eqI insert_subset snapshot_ids_def)
    show "unique_by iv_placement_id (upsert ?P (\<lambda>_. row) row (db_inventories d))" if "unique_by iv_placement_id (db_inventories d)"
      using unique_by_upsert [of iv_placement_id "db_inventories d"] that row(2) by simp
  qed
qed

lemma supersede_frame: "\<exists>rows. supersede_terminal_route_evidence now pl ids at d = d\<lparr>db_delivery := rows\<rparr>"
  by (auto simp: supersede_terminal_route_evidence_def Let_def)

text \<open>
  The ids of new torrent files are \<open>tf_\<close> and a UUID: they carry no white space and are short,
  which is what \<open>getTorrentFile\<close> relies on.
\<close>

lemma replaced_frame:
  assumes r: "replaced ctx files seen d d1 d'"
  obtains rows ev where "d' = d\<lparr>db_provider_files := db_provider_files d', db_torrent_files := db_torrent_files d',
      db_events := db_events d', db_inventories := rows, db_delivery := ev\<rparr>"
proof -
  let ?d2 = "retire_unlisted ctx seen d1"
  from r have "loop_frame (pl_id (ic_placement ctx)) UNIV d d1"
    unfolding replaced_def by (auto intro: process_files_frame)
  from loop_frameD(1) [OF this] have f: "d1\<lparr>db_provider_files := db_provider_files d,
     db_torrent_files := db_torrent_files d, db_events := db_events d\<rparr> = d" by (simp add: file_tables_only_def)
  obtain rows where s: "write_snapshot ctx (length files) ?d2 = ?d2\<lparr>db_inventories := rows\<rparr>"
    by (rule write_snapshot_frame [of ctx "length files" ?d2]) blast
  obtain ev where "d' = ?d2\<lparr>db_inventories := rows\<rparr>\<lparr>db_delivery := ev\<rparr>"
    using r s(1) supersede_frame unfolding replaced_def by metis
  then have "d' = d\<lparr>db_provider_files := db_provider_files d', db_torrent_files := db_torrent_files d',
      db_events := db_events d', db_inventories := rows, db_delivery := ev\<rparr>"
    using f unfolding retire_unlisted_def by (cases d; cases d1; cases d'; simp)
  then show thesis by (rule that)
qed

lemma replaced_refs:
  assumes r: "replaced ctx files seen d d1 d'" and ok: "references_ok d"
    and pl: "pl_id (ic_placement ctx) \<in> placement_ids d"
    and ids: "\<And>n. id_ok (''tf_'' @ ic_uuid ctx n)"
  shows "references_ok d'"
proof -
  let ?p = "pl_id (ic_placement ctx)" and ?new = "{t. id_ok t}"
  let ?d2 = "retire_unlisted ctx seen d1"
  from r have "loop_frame ?p ?new d d1"
    unfolding replaced_def by (auto intro: process_files_frame ids)
  then have f: "loop_frame ?p ?new d ?d2"
    unfolding retire_unlisted_def by (rule loop_frame_trans [OF _ loop_frame_upd]) simp
  obtain rows where s: "write_snapshot ctx (length files) ?d2 = ?d2\<lparr>db_inventories := rows\<rparr>"
      "iv_placement_id ` set rows \<subseteq> insert ?p (snapshot_ids ?d2)"
      "insert ?p (snapshot_ids ?d2) \<subseteq> iv_placement_id ` set rows"
      "unique_by iv_placement_id (db_inventories ?d2) \<Longrightarrow> unique_by iv_placement_id rows"
    by (rule write_snapshot_frame [of ctx "length files" ?d2]) blast
  obtain ev where "d' = ?d2\<lparr>db_inventories := rows\<rparr>\<lparr>db_delivery := ev\<rparr>"
    using r s(1) supersede_frame unfolding replaced_def by metis
  then have d': "d' = d\<lparr>db_provider_files := db_provider_files ?d2, db_torrent_files := db_torrent_files ?d2,
      db_events := db_events ?d2, db_inventories := rows, db_delivery := ev\<rparr>"
    using f unfolding loop_frame_def file_tables_only_def by (cases d; cases ?d2; cases d'; simp)
  have inv2: "db_inventories ?d2 = db_inventories d"
    using f unfolding loop_frame_def file_tables_only_def by (cases d; cases ?d2; simp)
  have keys: "file_keys d' = file_keys ?d2" "snapshot_ids d' = iv_placement_id ` set rows"
      "torrent_keys d' = torrent_keys ?d2" "item_ids d' = item_ids d" "path_keys d' = path_keys d"
      "placement_keys d' = placement_keys d" "exposure_keys d' = exposure_keys d" "placement_ids d' = placement_ids d"
      "snapshot_ids ?d2 = snapshot_ids d"
    by (simp_all add: d' key_sets inv2)
  have grow: "keys_grow d d'"
    using loop_frameD(2) [OF f] s(3) image_mono [OF loop_frameD(4) [OF f], of "\<lambda>t. (tf_id t, tf_info_hash t)"]
    unfolding keys_grow_def keys by (simp add: torrent_keys_def)
  have row_keys: "row_keys_ok d'"
    using ok f s(4) inv2 by (auto simp: references_ok_def row_keys_ok_def loop_frame_def d')
  show ?thesis
  proof (rule references_step [OF ok grow _ _ _ _ _ _ _ _ _ _ _ _ row_keys])
    show "fst ` file_keys d' \<subseteq> fst ` file_keys d \<union> snapshot_ids d'"
      using f s(3) unfolding keys loop_frame_def by auto
    show "snapshot_ids d' \<subseteq> snapshot_ids d \<union> placement_ids d'"
      using s(2) pl unfolding keys by auto
    show "le_library_item_id ` set (db_events d') \<subseteq> le_library_item_id ` set (db_events d) \<union> item_ids d'"
      using f unfolding keys loop_frame_def by (simp add: d')
  qed (simp_all add: keys, simp_all add: d')
qed

lemma replace_inventory_refs:
  assumes "replace_provider_file_inventory now uuid p files opts d = Inr (d', l)"
    and ok: "references_ok d" and ids: "\<And>n. id_ok (''tf_'' @ uuid n)"
  shows "references_ok d'"
  using assms(1)
proof (cases rule: replace_inventory_cases)
  case stale
  with ok show ?thesis by simp
next
  case (fresh ctx d1 seen)
  from get_placement_SomeD [OF fresh(2)] have "pl_id (ic_placement ctx) \<in> placement_ids d"
    by (force simp: placement_ids_def placement_keys_def)
  moreover have "id_ok (''tf_'' @ ic_uuid ctx n)" for n
    using ids [of n] fresh(8) by simp
  ultimately show ?thesis by (rule replaced_refs [OF fresh(6) ok])
qed

end
