(* ===== verification/Store_Invariant.thy ===== *)
theory Store_Invariant
  imports Inventory_References
begin

text \<open>
  The store as one state machine: \<open>store_step\<close> is any operation of the control-plane store that
  returns, and \<open>store_inv\<close>, the conjunction of the invariants of all its tables with the references
  between them, holds in every state that is reached from the empty store.
\<close>

section \<open>The invariant\<close>

definition store_inv :: "db \<Rightarrow> bool" where
  "store_inv d \<longleftrightarrow> library_inv d \<and> placement_inv d \<and> inventory_inv d \<and> binding_inv d \<and> repair_inv d
     \<and> references_ok d"

lemma store_invD:
  assumes "store_inv d"
  shows "library_inv d" "placement_inv d" "inventory_inv d" "binding_inv d" "repair_inv d" "references_ok d"
  using assms by (simp_all add: store_inv_def)

lemma store_inv_empty: "store_inv empty_db"
proof -
  have "references_ok empty_db"
    by (simp add: reference_defs key_sets empty_db_def unique_by_def)
  moreover have "library_inv empty_db" "placement_inv empty_db" "inventory_inv empty_db" "binding_inv empty_db"
    by (simp_all add: library_inv_def placement_inv_def inventory_inv_def binding_inv_def binding_table_inv_def
        empty_db_def unique_by_def unique_where_def)
  ultimately show ?thesis using repair_inv_empty by (simp add: store_inv_def)
qed

text \<open>The tables that the invariants other than the references read.\<close>

definition core_tables where
  "core_tables d = (db_items d, db_paths d, db_placements d, db_provider_files d, db_torrent_files d,
     db_bindings d, db_repairs d, db_steps d)"

lemma core_same:
  assumes inv: "store_inv d" and ok: "references_ok d'" and same: "core_tables d' = core_tables d"
  shows "store_inv d'"
  using inv ok same
  by (simp add: store_inv_def core_tables_def library_inv_def placement_inv_def inventory_inv_def
      mapping_sound_def binding_inv_def repair_inv_def cong: option.case_cong)

lemma binding_inv_torrents:
  assumes "binding_inv d" "db_bindings d' = db_bindings d" "set (db_torrent_files d) \<subseteq> set (db_torrent_files d')"
  shows "binding_inv d'"
  using assms by (fastforce simp: binding_inv_def binding_table_inv_def)

lemma inventory_inv_placements:
  assumes inv: "inventory_inv d" and u: "unique_by pl_id (db_placements d')"
    and g: "placement_keys d \<subseteq> placement_keys d'"
    and same: "db_provider_files d' = db_provider_files d" "db_torrent_files d' = db_torrent_files d"
  shows "inventory_inv d'"
proof -
  have "mapping_sound d' r" if "mapping_sound d r" for r
  proof (cases "pf_torrent_file_id r")
    case None
    with that show ?thesis by (simp add: mapping_sound_def)
  next
    case (Some t)
    with that obtain tf pl where tf: "tf \<in> set (db_torrent_files d)" "tf_id tf = t" "pf_size r = Some (tf_size tf)"
      and st: "pf_mapping_state r = Mapped"
      and pl: "pl \<in> set (db_placements d)" "pl_id pl = pf_placement_id r" "pl_info_hash pl = tf_info_hash tf"
      by (auto simp: mapping_sound_def)
    have "(pl_id pl, pl_account_scope pl, pl_info_hash pl) \<in> placement_keys d'"
      using pl(1) g by (auto simp: placement_keys_def)
    then obtain pl' where "pl' \<in> set (db_placements d')" "pl_id pl' = pl_id pl" "pl_info_hash pl' = pl_info_hash pl"
      by (auto simp: placement_keys_def)
    with Some tf st pl same show ?thesis by (auto simp: mapping_sound_def)
  qed
  with inv u same show ?thesis by (simp add: inventory_inv_def)
qed

section \<open>What each operation writes\<close>

lemma library_step_frame:
  assumes "library_step d d'"
  shows "d' = d\<lparr>db_items := db_items d', db_paths := db_paths d'\<rparr>"
  using assms
proof (induction rule: library_step.induct)
  case (ls_item sha256 now input d d' r)
  then show ?case by (cases rule: ensure_library_item_cases) (cases d; cases d'; simp)+
next
  case (ls_path nfkc sha256 now uuid i p e d d' r)
  then show ?case by (cases rule: ensure_canonical_path_cases) (cases d; cases d'; simp)+
next
  case (ls_commit nfkc now i input d d' c r)
  then consider "d' = d" | rows where "d' = d\<lparr>db_items := rows\<rparr>"
    by (auto simp: commit_presentation_identity_def guard_simps Let_def split: option.splits)
  then show ?case by cases (cases d; cases d'; simp)+
next
  case (ls_describe i t y d d' r)
  then consider "d' = d" | rows where "d' = d\<lparr>db_items := rows\<rparr>"
    by (auto simp: refresh_presentation_description_def guard_simps Let_def split: if_splits)
  then show ?case by cases (cases d; cases d'; simp)+
qed

lemma write_placement_frame:
  assumes "write_placement row d = Inr (d', r)"
  shows "d' = d\<lparr>db_placements := db_placements d'\<rparr>" "placement_keys d \<subseteq> placement_keys d'"
proof -
  from assms obtain clash where
    u: "upsert_newer placement_key pl_observed_at clash merge_placement row (db_placements d) = Inr (db_placements d')"
    and "d' = d\<lparr>db_placements := db_placements d'\<rparr>" by (rule write_placement_upsert)
  then show "d' = d\<lparr>db_placements := db_placements d'\<rparr>" by simp
  show "placement_keys d \<subseteq> placement_keys d'"
    unfolding placement_keys_def using u by (rule upsert_newer_grow) (simp add: merge_placement_def)
qed

lemma record_placement_frame:
  assumes "record_placement now uuid input d = Inr (d', r)"
  shows "d' = d\<lparr>db_placements := db_placements d'\<rparr>" "placement_keys d \<subseteq> placement_keys d'"
proof -
  have "d' = d\<lparr>db_placements := db_placements d'\<rparr> \<and> placement_keys d \<subseteq> placement_keys d'"
    using assms by (cases rule: record_placement_cases) (simp_all add: write_placement_frame)
  then show "d' = d\<lparr>db_placements := db_placements d'\<rparr>" "placement_keys d \<subseteq> placement_keys d'" by blast+
qed

text \<open>Placements and mappings are the only tables a placement operation writes.\<close>

lemma placements_written:
  assumes inv: "store_inv d" and d': "d' = d\<lparr>db_placements := db_placements d', db_mappings := db_mappings d'\<rparr>"
    and p: "placement_inv d'" and g: "placement_keys d \<subseteq> placement_keys d'" and ok: "references_ok d'"
  shows "store_inv d'"
proof -
  have same: "db_items d' = db_items d" "db_paths d' = db_paths d" "db_provider_files d' = db_provider_files d"
    "db_torrent_files d' = db_torrent_files d" "db_bindings d' = db_bindings d" "db_repairs d' = db_repairs d"
    "db_steps d' = db_steps d" by (subst d', simp)+
  have "inventory_inv d'"
    using p by (intro inventory_inv_placements [OF store_invD(3) [OF inv] _ g same(3,4)]) (simp add: placement_inv_def)
  with inv p ok show ?thesis
    by (simp add: store_inv_def library_inv_def binding_inv_def repair_inv_def same)
qed

lemma unique_where_upd_where:
  "unique_where P key t \<Longrightarrow> (\<And>r. P (f r) = P r) \<Longrightarrow> (\<And>r. key (f r) = key r) \<Longrightarrow> unique_where P key (upd_where Q f t)"
proof -
  assume P: "\<And>r. P (f r) = P r" and key: "\<And>r. key (f r) = key r"
  have "map key (filter P (upd_where Q f t)) = map key (filter P t)"
    by (induction t) (simp_all add: upd_where_def P key)
  then show "unique_where P key t \<Longrightarrow> unique_where P key (upd_where Q f t)" by (simp add: unique_where_def)
qed

lemma mark_placement_removed_inv:
  assumes "mark_placement_removed now p reason at d = Inr (d', r)" and inv: "store_inv d"
  shows "store_inv d'"
  using assms(1)
proof (cases rule: mark_placement_removed_frame)
  case 1
  with inv show ?thesis by simp
next
  case (2 P f Q g)
  have f: "pl_id (f x) = pl_id x" "placement_key (f x) = placement_key x" "pl_info_hash (f x) = pl_info_hash x"
      "pl_idempotency_key (f x) = pl_idempotency_key x" for x
    using 2(2) [of x] by (simp_all add: placement_identity_def)
  then have f': "pl_provider (f x) = pl_provider x" "pl_account_scope (f x) = pl_account_scope x" for x
    using f(2) [of x] by (simp_all add: placement_key_def)
  have p: "placement_inv d'"
    using store_invD(2) [OF inv] f f' 2(1)
    by (simp add: placement_inv_def unique_by_upd_where unique_where_upd_where)
  have "placement_keys d' = placement_keys d"
    using f f' 2(1) by (simp add: placement_keys_def image_upd_where)
  moreover have "references_ok d'" by (rule mark_placement_removed_refs [OF assms(1) store_invD(6) [OF inv]])
  ultimately show ?thesis by (intro placements_written [OF inv _ p]) (simp_all add: 2(1))
qed

lemma record_file_mapping_frame:
  assumes "record_file_mapping now uuid input d = Inr (d', r)"
  shows "\<exists>rows. d' = d\<lparr>db_mappings := rows\<rparr>"
  using assms unfolding record_file_mapping_def Let_def by (auto simp: res_bind_Inr split: if_splits)

lemma replace_inventory_inv:
  assumes r: "replace_provider_file_inventory now uuid p files opts d = Inr (d', l)" and inv: "store_inv d"
    and ids: "\<And>n. id_ok (''tf_'' @ uuid n)"
  shows "store_inv d'"
proof -
  note inv' = inventory_replacement_facts [OF r store_invD(3) [OF inv]]
  have ok: "references_ok d'" by (rule replace_inventory_refs [OF r store_invD(6) [OF inv] ids])
  have "d' = d \<or> (\<exists>rows ev. d' = d\<lparr>db_provider_files := db_provider_files d', db_torrent_files := db_torrent_files d',
      db_events := db_events d', db_inventories := rows, db_delivery := ev\<rparr>)"
    using r by (cases rule: replace_inventory_cases) (blast elim: replaced_frame)+
  then have same: "db_items d' = db_items d \<and> db_paths d' = db_paths d \<and> db_placements d' = db_placements d \<and>
    db_bindings d' = db_bindings d \<and> db_repairs d' = db_repairs d \<and> db_steps d' = db_steps d"
  proof (elim disjE exE)
    fix rows ev
    assume e: "d' = d\<lparr>db_provider_files := db_provider_files d', db_torrent_files := db_torrent_files d',
      db_events := db_events d', db_inventories := rows, db_delivery := ev\<rparr>"
    show ?thesis by (intro conjI; subst e; simp)
  qed simp
  have "binding_inv d'"
    using inv' same by (intro binding_inv_torrents [OF store_invD(4) [OF inv]]) auto
  with inv ok inv' same show ?thesis
    by (simp add: store_inv_def library_inv_def placement_inv_def repair_inv_def)
qed

lemma library_step_store:
  assumes s: "library_step d d'" and inv: "store_inv d"
  shows "store_inv d'"
proof -
  have same: "db_placements d' = db_placements d" "db_provider_files d' = db_provider_files d"
    "db_torrent_files d' = db_torrent_files d" "db_bindings d' = db_bindings d" "db_repairs d' = db_repairs d"
    "db_steps d' = db_steps d" by (subst library_step_frame [OF s], simp)+
  from library_step_inv [OF s] library_step_refs [OF s] store_invD [OF inv] show ?thesis
    by (simp add: store_inv_def placement_inv_def inventory_inv_def mapping_sound_def binding_inv_def repair_inv_def
        same cong: option.case_cong)
qed

lemma binding_step_frame:
  assumes s: "binding_step d d'" and inv: "binding_inv d"
  shows "d' = d\<lparr>db_items := db_items d', db_bindings := db_bindings d'\<rparr>"
    "map li_id (db_items d') = map li_id (db_items d)"
    "map li_identity_key (db_items d') = map li_identity_key (db_items d)"
proof -
  have "d' = d\<lparr>db_items := db_items d', db_bindings := db_bindings d'\<rparr> \<and>
    map li_id (db_items d') = map li_id (db_items d) \<and>
    map li_identity_key (db_items d') = map li_identity_key (db_items d)"
    using s
  proof (cases rule: binding_step.cases)
    case (activate now uuid input b)
    then obtain a where "commit_binding now uuid input a d = Inr (d', b)" "ac_torrent_file_id a \<noteq> []"
      using inv by (rule activate_binding_effect)
    from commit_binding_effect(3) [OF this(1) inv this(2)] show ?thesis by (cases d; cases d'; simp)
  next
    case (unpublish now key r)
    then consider "d' = d" | P Q where "d' = d\<lparr>
        db_items := upd_where P (\<lambda>i. i\<lparr>li_desired_state := DesAbsent, li_updated_at := now\<rparr>) (db_items d),
        db_bindings := upd_where Q (supersede_binding now) (db_bindings d)\<rparr>"
      unfolding unpublish_library_item_def res_bind_Inr Let_def by (auto split: option.splits)
    then show ?thesis by cases (simp_all add: map_upd_where)
  next
    case (degrade now item version category b)
    then have "\<exists>rows. d\<lparr>db_bindings := rows\<rparr> = d'"
      unfolding mark_binding_degraded_def res_bind_Inr find_case_Inr Let_def sum.inject prod.inject by blast
    then show ?thesis by auto
  qed
  then show "d' = d\<lparr>db_items := db_items d', db_bindings := db_bindings d'\<rparr>"
    "map li_id (db_items d') = map li_id (db_items d)"
    "map li_identity_key (db_items d') = map li_identity_key (db_items d)" by blast+
qed

lemma unique_by_map: "map f ys = map f xs \<Longrightarrow> unique_by f ys = unique_by f xs"
  by (simp add: unique_by_def)

lemma binding_step_store:
  assumes s: "binding_step d d'" and inv: "store_inv d"
  shows "store_inv d'"
proof -
  note f = binding_step_frame [OF s store_invD(4) [OF inv]]
  have same: "db_placements d' = db_placements d" "db_provider_files d' = db_provider_files d" "db_paths d' = db_paths d"
    "db_torrent_files d' = db_torrent_files d" "db_repairs d' = db_repairs d" "db_steps d' = db_steps d"
    by (subst f(1), simp)+
  from binding_step_effect(1) [OF s] binding_step_refs [OF s] store_invD [OF inv] unique_by_map [OF f(2)] unique_by_map [OF f(3)]
  show ?thesis
    by (simp add: store_inv_def library_inv_def placement_inv_def inventory_inv_def mapping_sound_def repair_inv_def
        same cong: option.case_cong)
qed

lemma repair_op_store:
  assumes s: "repair_op d d'" and inv: "store_inv d"
  shows "store_inv d'"
proof -
  from repair_op_frame [OF s] have d': "d' = d\<lparr>db_repairs := db_repairs d', db_steps := db_steps d'\<rparr>"
    by (simp add: repairs_frame_def)
  have same: "db_placements d' = db_placements d" "db_provider_files d' = db_provider_files d" "db_paths d' = db_paths d"
    "db_torrent_files d' = db_torrent_files d" "db_items d' = db_items d" "db_bindings d' = db_bindings d"
    by (subst d', simp)+
  from repair_move_inv [OF repair_op_move [OF s]] repair_op_refs [OF s] store_invD [OF inv] show ?thesis
    by (simp add: store_inv_def library_inv_def placement_inv_def inventory_inv_def mapping_sound_def binding_inv_def
        same cong: option.case_cong)
qed

section \<open>The store as a step relation\<close>

text \<open>Any operation of the store, with any arguments, that returns; one that throws is rolled back.\<close>

inductive store_step :: "db \<Rightarrow> db \<Rightarrow> bool" where
  ss_library: "library_step d d' \<Longrightarrow> store_step d d'"
| ss_placement: "record_placement now uuid input d = Inr (d', r) \<Longrightarrow> store_step d d'"
| ss_removal: "mark_placement_removed now p reason at d = Inr (d', r) \<Longrightarrow> store_step d d'"
| ss_delivery: "record_delivery_evidence now input d = Inr (d', r) \<Longrightarrow> store_step d d'"
| ss_prune: "prune_expired_delivery_evidence now asOf d = (d', n) \<Longrightarrow> store_step d d'"
| ss_lookup: "record_placement_lookup_observation uuid input d = Inr (d', r) \<Longrightarrow> store_step d d'"
| ss_zurg: "record_zurg_metadata_observation uuid input d = Inr (d', r) \<Longrightarrow> store_step d d'"
| ss_readiness: "record_readiness_observation input d = Inr (d', r) \<Longrightarrow> store_step d d'"
| ss_inventory: "replace_provider_file_inventory now uuids p files opts d = Inr (d', l) \<Longrightarrow>
    (\<And>n. id_ok (''tf_'' @ uuids n)) \<Longrightarrow> store_step d d'"
| ss_exposure: "record_exposure now uuid input d = Inr (d', r) \<Longrightarrow> store_step d d'"
| ss_mapping: "record_file_mapping now uuid input d = Inr (d', r) \<Longrightarrow> store_step d d'"
| ss_binding: "binding_step d d' \<Longrightarrow> store_step d d'"
| ss_repair: "repair_op d d' \<Longrightarrow> store_step d d'"
| ss_event: "append_lifecycle_event now input d = Inr (d', e) \<Longrightarrow> store_step d d'"
| ss_accepted: "record_accepted_torrent_file now i t s r at ev d = Inr (d', a) \<Longrightarrow> store_step d d'"

lemma untouched_inv:
  assumes "store_inv d" "\<exists>rows. d' = d\<lparr>db_delivery := rows\<rparr>"
  shows "store_inv d'"
  using assms(2)
  by (auto intro!: core_same [OF assms(1)] references_untouched [OF store_invD(6) [OF assms(1)]] simp: core_tables_def)

lemma store_step_inv: "store_step d d' \<Longrightarrow> store_inv d \<Longrightarrow> store_inv d'"
proof (induction rule: store_step.induct)
  case (ss_library d d')
  then show ?case by (rule library_step_store)
next
  case (ss_placement now uuid input d d' r)
  note f = record_placement_frame [OF ss_placement(1)]
  have "d' = d\<lparr>db_placements := db_placements d', db_mappings := db_mappings d'\<rparr>"
    using f(1) by (cases d; cases d'; simp)
  from placements_written [OF ss_placement(2) this record_placement_inv [OF ss_placement(1) store_invD(2) [OF ss_placement(2)]]
      f(2) record_placement_refs [OF ss_placement(1) store_invD(6) [OF ss_placement(2)]]]
  show ?case .
next
  case (ss_removal now p reason at d d' r)
  then show ?case by (rule mark_placement_removed_inv)
next
  case (ss_delivery now input d d' r)
  from record_delivery_evidence_frame [OF ss_delivery(1)] show ?case
    by (rule untouched_inv [OF ss_delivery(2)])
next
  case (ss_prune now asOf d d' n)
  from ss_prune show ?case
    using prune_frame [of now asOf d] untouched_inv [of d d'] by (metis fst_conv)
next
  case (ss_lookup uuid input d d' r)
  from record_lookup_frame [OF ss_lookup(1)] show ?case
    by (auto intro!: core_same [OF ss_lookup(2)] references_untouched [OF store_invD(6) [OF ss_lookup(2)]] simp: core_tables_def)
next
  case (ss_zurg uuid input d d' r)
  from record_zurg_frame [OF ss_zurg(1)] show ?case
    by (auto intro!: core_same [OF ss_zurg(2)] references_untouched [OF store_invD(6) [OF ss_zurg(2)]] simp: core_tables_def)
next
  case (ss_readiness input d d' r)
  from ss_readiness(1) have "core_tables d' = core_tables d"
    by (cases rule: record_readiness_frame) (simp_all add: core_tables_def)
  with core_same [OF ss_readiness(2) record_readiness_refs [OF ss_readiness(1) store_invD(6) [OF ss_readiness(2)]]]
  show ?case by blast
next
  case (ss_inventory now uuids p files opts d d' l)
  show ?case by (rule replace_inventory_inv [OF ss_inventory(1,3,2)])
next
  case (ss_exposure now uuid input d d' r)
  from ss_exposure(1) have "core_tables d' = core_tables d"
    by (cases rule: record_exposure_frame) (simp_all add: core_tables_def)
  with core_same [OF ss_exposure(2) record_exposure_refs [OF ss_exposure(1) store_invD(6) [OF ss_exposure(2)]]]
  show ?case by blast
next
  case (ss_mapping now uuid input d d' r)
  from record_file_mapping_frame [OF ss_mapping(1)] have "core_tables d' = core_tables d"
    by (auto simp: core_tables_def)
  with core_same [OF ss_mapping(2) record_file_mapping_refs [OF ss_mapping(1) store_invD(6) [OF ss_mapping(2)]]]
  show ?case by blast
next
  case (ss_binding d d')
  then show ?case by (rule binding_step_store)
next
  case (ss_repair d d')
  then show ?case by (rule repair_op_store)
next
  case (ss_event now input d d' e)
  have "core_tables d' = core_tables d"
    by (simp add: append_lifecycle_event_frame(1) [OF ss_event(1)] core_tables_def)
  with core_same [OF ss_event(2) append_lifecycle_event_refs [OF ss_event(1) store_invD(6) [OF ss_event(2)]]]
  show ?case by blast
next
  case (ss_accepted now i t s r at ev d d' a)
  from record_accepted_frame [OF ss_accepted(1)] have "core_tables d' = core_tables d"
    by (auto simp: core_tables_def)
  with core_same [OF ss_accepted(2) record_accepted_refs [OF ss_accepted(1) store_invD(6) [OF ss_accepted(2)]]]
  show ?case by blast
qed

lemma store_steps_inv: "store_step\<^sup>*\<^sup>* d d' \<Longrightarrow> store_inv d \<Longrightarrow> store_inv d'"
  by (induction rule: rtranclp_induct) (auto intro: store_step_inv)

end
