(* ===== verification/Reconciler_Properties.thy ===== *)
theory Reconciler_Properties
  imports Reconciler Store_Invariant Binding_Properties
begin

text \<open>
  What the reconciler promises: a plan is at most one store operation, which never changes the
  torrent file of an item; and a route planned from a snapshot of the store is accepted by
  \<open>activateBinding\<close> exactly when the provider file agrees with the binding's torrent file.
\<close>

section \<open>The store operations of a plan\<close>

fun effective :: "recon_action \<Rightarrow> bool" where
  "effective (BindRoute _ _) = True"
| "effective (MarkDegraded _ _ _) = True"
| "effective _ = False"

lemma deduplicate_subset: "a \<in> set (deduplicate_actions seen as) \<Longrightarrow> a \<in> set as \<and> action_key a \<notin> set seen"
  by (induction as arbitrary: seen) (fastforce split: if_splits)+

lemma deduplicate_distinct: "distinct (deduplicate_actions seen as)"
proof (induction as arbitrary: seen)
  case (Cons a as)
  then show ?case using deduplicate_subset [of a "action_key a # seen" as] by auto
qed simp

lemma finish_plan_actions:
  "set (rl_actions (finish_plan loc desired as fs)) \<subseteq> set as" "distinct (rl_actions (finish_plan loc desired as fs))"
  using deduplicate_subset by (auto simp: finish_plan_def Let_def deduplicate_distinct)

text \<open>The route that \<open>planReconciliation\<close> proposes for a provider file and its exposure.\<close>

definition route_step ::
  "desired_state_of_item \<Rightarrow> recon_scope \<Rightarrow> binding option \<Rightarrow> string \<Rightarrow> provider_file \<Rightarrow> exposure \<Rightarrow> recon_action" where
  "route_step desired scope current p f e =
     (let recovery = (case current of None \<Rightarrow> False | Some b \<Rightarrow> bd_status b = BdDegraded);
          rebind = (current \<noteq> None \<and> \<not> recovery)
      in BindRoute rebind (RouteTarget
           (if rebind then ''preferred-usable-placement-changed''
            else if recovery then ''recovery-from-degraded'' else ''exact-file-is-usable'')
           (ds_libraryItemId (nd_input desired)) (ds_libraryPathId (nd_input desired))
           (sc_releaseKey scope) (sc_infoHash scope) (sc_fileIndex scope) (sc_torrentFileId scope)
           p (pf_provider_file_id f) (ex_id e)
           (case current of None \<Rightarrow> 0 | Some b \<Rightarrow> bd_version b)))"

fun outcome_ok :: "(recon_action \<Rightarrow> bool) \<Rightarrow> candidate_outcome \<Rightarrow> bool" where
  "outcome_ok P (Continue as fs) = (\<forall>a \<in> set as. \<not> effective a)"
| "outcome_ok P (Chosen a) = P a"

lemma outcome_ok_mono: "outcome_ok P r \<Longrightarrow> (\<And>a. P a \<Longrightarrow> Q a) \<Longrightarrow> outcome_ok Q r"
  by (cases r) auto

definition exposure_fits ::
  "(string \<Rightarrow> nat list) \<Rightarrow> desired_state_of_item \<Rightarrow> recon_options \<Rightarrow> recon_snapshot \<Rightarrow> string \<Rightarrow> provider_file \<Rightarrow> exposure \<Rightarrow> bool" where
  "exposure_fits loc desired opts input p f e \<longleftrightarrow>
     find_exposure_for_file loc (rn_exposures input) p (pf_provider_file_id f) desired = Some e
     \<and> evaluate_expiry (ex_observed_at e) (ex_expires_at e) (rq_now opts) = Fresh
     \<and> ex_state e = ExVisible \<and> ex_read_only e"

lemma plan_exposure_ok:
  "outcome_ok (\<lambda>a. \<exists>e. exposure_fits loc desired opts input p f e \<and> a = route_step desired scope (rn_currentBinding input) p f e)
     (plan_exposure loc desired opts scope input p f)"
  by (auto simp: plan_exposure_def exposure_fits_def route_step_def Let_def split: option.split)

definition mapping_fits ::
  "recon_scope \<Rightarrow> recon_snapshot \<Rightarrow> string \<Rightarrow> provider_file list \<Rightarrow> file_mapping \<Rightarrow> provider_file \<Rightarrow> bool" where
  "mapping_fits scope input p inventory m f \<longleftrightarrow>
     find (\<lambda>m. fm_release_key m = sc_releaseKey scope \<and> fm_placement_id m = p) (rn_mappings input) = Some m
     \<and> fm_state m = CmMapped \<and> fm_authoritative m
     \<and> find (\<lambda>f. pf_provider_file_id f = fm_provider_file_id m) inventory = Some f"

lemma plan_mapping_ok:
  "outcome_ok (\<lambda>a. \<exists>m f e. mapping_fits scope input p inventory m f \<and> exposure_fits loc desired opts input p f e
       \<and> a = route_step desired scope (rn_currentBinding input) p f e)
     (plan_mapping loc desired opts scope input p inventory)"
proof (cases "find (\<lambda>m. fm_release_key m = sc_releaseKey scope \<and> fm_placement_id m = p) (rn_mappings input)")
  case None
  then show ?thesis by (simp add: plan_mapping_def split: file_choice.split)
next
  case (Some m)
  show ?thesis
  proof (cases "fm_state m = CmMapped \<and> fm_authoritative m")
    case False
    with Some show ?thesis by (auto simp: plan_mapping_def split: file_choice.split)
  next
    case True
    show ?thesis
    proof (cases "find (\<lambda>f. pf_provider_file_id f = fm_provider_file_id m) inventory")
      case None
      with Some True show ?thesis by (simp add: plan_mapping_def)
    next
      case (Some f)
      with True \<open>find _ (rn_mappings input) = Some m\<close>
      have fits: "mapping_fits scope input p inventory m f"
        and "plan_mapping loc desired opts scope input p inventory = plan_exposure loc desired opts scope input p f"
        by (simp_all add: plan_mapping_def mapping_fits_def)
      with plan_exposure_ok [of loc desired opts input p f scope] show ?thesis
        by (simp, elim outcome_ok_mono) blast
    qed
  qed
qed

definition readiness_fits :: "recon_options \<Rightarrow> recon_snapshot \<Rightarrow> placement \<Rightarrow> bool" where
  "readiness_fits opts input row \<longleftrightarrow>
     (case find (\<lambda>r. ro_placement_id r = pl_id row) (rn_readinessObservations input) of
        None \<Rightarrow> pl_state row = PsReady
      | Some r \<Rightarrow> ro_state r = PsReady
          \<and> evaluate_expiry (ro_observed_at r) (Some (ro_expires_at r)) (rq_now opts) = Fresh)"

definition inventory_fits :: "(string \<Rightarrow> nat list) \<Rightarrow> recon_options \<Rightarrow> recon_snapshot \<Rightarrow> string \<Rightarrow> bool" where
  "inventory_fits loc opts input p \<longleftrightarrow>
     evaluate_inventory_freshness (inventory_for_placement loc (rn_providerFiles input) p)
       (find (\<lambda>s. iv_placement_id s = p) (rn_inventorySnapshots input)) (rq_now opts) = InvFresh"

lemma retry_observation_ok: "outcome_ok P (retry_observation opts target reason exhausted p attempts)"
  by (simp add: retry_observation_def split: prod.split)

lemma plan_readiness_ok:
  "outcome_ok (\<lambda>a. readiness_fits opts input (rp_row q) \<and> inventory_fits loc opts input (pl_id (rp_row q)) \<and>
       (\<exists>m f e. mapping_fits scope input (pl_id (rp_row q))
            (inventory_for_placement loc (rn_providerFiles input) (pl_id (rp_row q))) m f
          \<and> exposure_fits loc desired opts input (pl_id (rp_row q)) f e
          \<and> a = route_step desired scope (rn_currentBinding input) (pl_id (rp_row q)) f e))
     (plan_readiness loc desired opts scope input q)"
proof -
  let ?p = "pl_id (rp_row q)"
  let ?i = "inventory_for_placement loc (rn_providerFiles input) ?p"
  let ?r = "find (\<lambda>r. ro_placement_id r = ?p) (rn_readinessObservations input)"
  let ?state = "case ?r of None \<Rightarrow> pl_state (rp_row q) | Some r \<Rightarrow> ro_state r"
  let ?fresh = "case ?r of None \<Rightarrow> Fresh
    | Some r \<Rightarrow> evaluate_expiry (ro_observed_at r) (Some (ro_expires_at r)) (rq_now opts)"
  have fits: "readiness_fits opts input (rp_row q) = (?fresh = Fresh \<and> ?state = PsReady)"
    by (auto simp: readiness_fits_def split: option.split)
  show ?thesis
  proof (cases "readiness_fits opts input (rp_row q) \<and> inventory_fits loc opts input ?p")
    case True
    then have "?fresh = Fresh" "?state = PsReady" "inventory_fits loc opts input ?p"
      by (simp_all only: fits)
    then have "plan_readiness loc desired opts scope input q = plan_mapping loc desired opts scope input ?p ?i"
      by (simp add: plan_readiness_def inventory_fits_def Let_def)
    with True plan_mapping_ok [of scope input ?p ?i loc desired opts] show ?thesis
      by (auto elim: outcome_ok_mono)
  next
    case False
    consider "?fresh \<noteq> Fresh" | "?fresh = Fresh" "?state \<noteq> PsReady"
      | "?fresh = Fresh" "?state = PsReady" "\<not> inventory_fits loc opts input ?p"
      using False by (auto simp only: fits)
    then show ?thesis
    proof cases
      case 1
      then show ?thesis by (simp only: plan_readiness_def Let_def if_True simp_thms) simp
    next
      case 2
      then show ?thesis
        by (simp only: plan_readiness_def Let_def if_True if_False simp_thms) (simp split: placement_state.split)
    next
      case 3
      then show ?thesis
        by (simp only: plan_readiness_def Let_def if_True if_False simp_thms inventory_fits_def retry_observation_ok)
    qed
  qed
qed

definition fresh_placement :: "recon_options \<Rightarrow> placement \<Rightarrow> bool" where
  "fresh_placement opts row \<longleftrightarrow>
     evaluate_expiry (pl_observed_at row) (pl_expires_at row) (rq_now opts) \<in> {Fresh, FreshMissing}"

text \<open>Everything \<open>planReconciliation\<close> has checked of the route that it proposes.\<close>

definition route_fits ::
  "(string \<Rightarrow> nat list) \<Rightarrow> desired_state_of_item \<Rightarrow> recon_options \<Rightarrow> recon_scope \<Rightarrow> recon_snapshot \<Rightarrow> placement
     \<Rightarrow> file_mapping \<Rightarrow> provider_file \<Rightarrow> exposure \<Rightarrow> bool" where
  "route_fits loc desired opts scope input row m f e \<longleftrightarrow>
     fresh_placement opts row \<and> readiness_fits opts input row \<and> inventory_fits loc opts input (pl_id row)
     \<and> mapping_fits scope input (pl_id row) (inventory_for_placement loc (rn_providerFiles input) (pl_id row)) m f
     \<and> exposure_fits loc desired opts input (pl_id row) f e"

lemma plan_placement_ok:
  "outcome_ok (\<lambda>a. \<exists>m f e. route_fits loc desired opts scope input (rp_row q) m f e
       \<and> a = route_step desired scope (rn_currentBinding input) (pl_id (rp_row q)) f e)
     (plan_placement loc desired opts scope input q)"
proof (cases "fresh_placement opts (rp_row q)")
  case True
  then have "plan_placement loc desired opts scope input q = plan_readiness loc desired opts scope input q"
    by (auto simp: plan_placement_def Let_def fresh_placement_def)
  with plan_readiness_ok [of opts input q loc scope desired] True show ?thesis
    by (auto simp: route_fits_def elim!: outcome_ok_mono)
next
  case False
  then have "evaluate_expiry (pl_observed_at (rp_row q)) (pl_expires_at (rp_row q)) (rq_now opts) = FreshStale
      \<or> evaluate_expiry (pl_observed_at (rp_row q)) (pl_expires_at (rp_row q)) (rq_now opts) = FreshUnbounded"
    by (cases "evaluate_expiry (pl_observed_at (rp_row q)) (pl_expires_at (rp_row q)) (rq_now opts)")
       (simp_all add: fresh_placement_def)
  then show ?thesis by (simp only: plan_placement_def Let_def if_True retry_observation_ok)
qed

text \<open>The only store operation among the steps of the candidates.\<close>

lemma plan_candidates_effective:
  assumes "a \<in> set (fst (plan_candidates loc desired opts scope input qs as fs))" "effective a"
    and "\<forall>x \<in> set as. \<not> effective x"
  shows "(\<forall>x \<in> set (fst (plan_candidates loc desired opts scope input qs as fs)). effective x \<longrightarrow> x = a) \<and>
    ((\<exists>why. a = MarkDegraded why (ds_libraryItemId (nd_input desired)) None) \<or>
     (\<exists>q \<in> set qs. \<exists>m f e. route_fits loc desired opts scope input (rp_row q) m f e
        \<and> a = route_step desired scope (rn_currentBinding input) (pl_id (rp_row q)) f e))"
  using assms
proof (induction qs arbitrary: as fs)
  case Nil
  then show ?case by (auto split: if_splits)
next
  case (Cons q qs)
  note ok = plan_placement_ok [of loc desired opts scope input q]
  show ?case
  proof (cases "plan_placement loc desired opts scope input q")
    case (Continue as' fs')
    with ok Cons.prems(3) have "\<forall>x \<in> set (as @ as'). \<not> effective x" by auto
    from Cons.IH [OF _ Cons.prems(2) this] Cons.prems(1) Continue show ?thesis by auto
  next
    case (Chosen c)
    with Cons.prems have "a = c" by auto
    with Chosen ok Cons.prems(3) show ?thesis by auto
  qed
qed

definition planned_route ::
  "(string \<Rightarrow> nat list) \<Rightarrow> recon_options \<Rightarrow> recon_snapshot \<Rightarrow> desired_state_of_item \<Rightarrow> placement
     \<Rightarrow> file_mapping \<Rightarrow> provider_file \<Rightarrow> exposure \<Rightarrow> bool" where
  "planned_route loc opts input desired row m f e \<longleftrightarrow>
     normalize_desired (rn_desired input) = Inr desired \<and> row \<in> rp_row ` set (rn_placements input)
     \<and> pl_info_hash row = sc_infoHash (recon_scope_of desired (rn_currentBinding input))
     \<and> (\<forall>b. rn_currentBinding input = Some b \<longrightarrow> bd_release_key b = ri_releaseKey (nd_identity desired))
     \<and> route_fits loc desired opts (recon_scope_of desired (rn_currentBinding input)) input row m f e"

lemma plan_effective:
  assumes plan: "plan_reconciliation loc opts input = Inr plan" and a: "a \<in> set (rl_actions plan)" "effective a"
  shows "(\<forall>x \<in> set (rl_actions plan). effective x \<longrightarrow> x = a) \<and> distinct (rl_actions plan) \<and>
    ((\<exists>why item b. a = MarkDegraded why item b) \<or>
     (\<exists>desired row m f e. planned_route loc opts input desired row m f e
        \<and> a = route_step desired (recon_scope_of desired (rn_currentBinding input)) (rn_currentBinding input)
              (pl_id row) f e))"
proof -
  let ?cur = "rn_currentBinding input"
  from plan obtain desired where d: "normalize_desired (rn_desired input) = Inr desired"
    by (auto simp: plan_reconciliation_def res_bind_Inr)
  define placements where "placements = sort_key (\<lambda>p. loc (placement_sort_text p))
           (filter_placements_by_scope (rn_placements input) desired)"
  define scope where "scope = recon_scope_of desired ?cur"
  define candidates where "candidates = filter (\<lambda>p. pl_info_hash (rp_row p) = sc_infoHash scope) placements"
  have one: ?thesis if "plan = finish_plan loc desired as fs" "\<forall>x \<in> set as. effective x \<longrightarrow> x = a"
      "\<exists>why item b. a = MarkDegraded why item b" for as fs
    using that finish_plan_actions [of loc desired as fs] by blast
  have none: False if "plan = finish_plan loc desired as fs" "\<forall>x \<in> set as. \<not> effective x" for as fs
    using that a finish_plan_actions(1) [of loc desired as fs] by blast
  consider (absent) "plan = plan_absent loc desired placements ?cur opts"
    | (idle) as fs where "plan = finish_plan loc desired as fs" "\<forall>x \<in> set as. \<not> effective x"
    | (route) qs where "set qs = set candidates" "\<forall>b. ?cur = Some b \<longrightarrow> bd_release_key b = ri_releaseKey (nd_identity desired)"
        "plan = (case plan_candidates loc desired opts scope input qs [] [] of
           (actions, failures) \<Rightarrow> finish_plan loc desired actions failures)"
  proof (cases "nd_desiredState desired = DesAbsent")
    case True
    with plan d show ?thesis
      by (intro absent) (simp add: plan_reconciliation_def placements_def)
  next
    case False
    show ?thesis
    proof (cases "current_is_satisfied desired opts placements input")
      case (Some c)
      then have "\<not> effective c" by (auto simp: current_is_satisfied_def Let_def split: option.splits if_splits)
      with plan d False Some show ?thesis
        by (intro idle [of "[c]" "[]"]) (simp_all add: plan_reconciliation_def placements_def)
    next
      case satisfied: None
      show ?thesis
      proof (cases "case ?cur of None \<Rightarrow> False | Some b \<Rightarrow> bd_release_key b \<noteq> ri_releaseKey (nd_identity desired)")
        case True
        with plan d False satisfied show ?thesis
          by (intro idle) (auto simp: plan_reconciliation_def placements_def Let_def)
      next
        case same: False
        show ?thesis
        proof (cases "candidates = []")
          case True
          with plan d False satisfied same show ?thesis
            by (intro idle) (auto simp: plan_reconciliation_def placements_def scope_def candidates_def Let_def)
        next
          case cands: False
          define qs where "qs = order_by_provider_preference loc candidates (ds_providerPreferences (nd_input desired))"
          have "set qs = set candidates" by (simp add: qs_def order_by_provider_preference_def)
          moreover have "plan = (case plan_candidates loc desired opts scope input qs [] [] of
              (actions, failures) \<Rightarrow> finish_plan loc desired actions failures)"
            using plan d False satisfied same cands
            by (simp add: plan_reconciliation_def placements_def scope_def candidates_def qs_def Let_def)
          ultimately show ?thesis using same by (intro route) (auto split: option.splits)
        qed
      qed
    qed
  qed
  then show ?thesis
  proof cases
    case absent
    have steps: "\<not> effective x" if "x \<in> set (concat (map fst (map (absent_step desired opts) placements)))" for x
      using that by (auto simp: absent_step_def Let_def split: if_splits)
    show ?thesis
    proof (cases ?cur)
      case None
      let ?as = "concat (map fst (map (absent_step desired opts) placements))"
      from absent None have "plan = finish_plan loc desired (if ?as = [] then [NoOpAbsent] else ?as)
          (concat (map snd (map (absent_step desired opts) placements)))"
        by (simp only: plan_absent_def Let_def option.case append_Nil)
      moreover have "\<forall>x \<in> set (if ?as = [] then [NoOpAbsent] else ?as). \<not> effective x"
        using steps by (simp del: set_concat)
      ultimately show ?thesis using none by blast
    next
      case (Some b)
      let ?m = "MarkDegraded ''desired-absent-binding-removal-not-yet-active'' (ds_libraryItemId (nd_input desired)) (Some (bd_id b))"
      from absent Some have p: "plan = finish_plan loc desired (?m # concat (map fst (map (absent_step desired opts) placements)))
          (concat (map snd (map (absent_step desired opts) placements)))"
        by (simp add: plan_absent_def Let_def)
      with a finish_plan_actions(1) steps have "a = ?m" by fastforce
      with steps show ?thesis by (intro one [OF p]) auto
    qed
  next
    case idle
    with none show ?thesis by blast
  next
    case route
    obtain as fs where pc: "plan_candidates loc desired opts scope input qs [] [] = (as, fs)" by fastforce
    with route(3) have p: "plan = finish_plan loc desired as fs" by simp
    note fin = finish_plan_actions [of loc desired as fs]
    from a fin(1) p pc have "a \<in> set (fst (plan_candidates loc desired opts scope input qs [] []))" by auto
    from plan_candidates_effective [OF this a(2)] pc have only: "\<forall>x \<in> set as. effective x \<longrightarrow> x = a"
      and how: "(\<exists>why. a = MarkDegraded why (ds_libraryItemId (nd_input desired)) None) \<or>
        (\<exists>q \<in> set qs. \<exists>m f e. route_fits loc desired opts scope input (rp_row q) m f e
          \<and> a = route_step desired scope ?cur (pl_id (rp_row q)) f e)" by auto
    from how have "(\<exists>why item b. a = MarkDegraded why item b) \<or>
     (\<exists>desired row m f e. planned_route loc opts input desired row m f e
        \<and> a = route_step desired (recon_scope_of desired ?cur) ?cur (pl_id row) f e)"
    proof (elim disjE)
      assume "\<exists>q \<in> set qs. \<exists>m f e. route_fits loc desired opts scope input (rp_row q) m f e
          \<and> a = route_step desired scope ?cur (pl_id (rp_row q)) f e"
      then obtain q m f e where q: "q \<in> set qs" "route_fits loc desired opts scope input (rp_row q) m f e"
        "a = route_step desired scope ?cur (pl_id (rp_row q)) f e" by blast
      have "q \<in> set (rn_placements input)" "pl_info_hash (rp_row q) = sc_infoHash scope"
        using q(1) route(1) by (auto simp: candidates_def placements_def filter_placements_by_scope_def)
      with q d route(2) have "planned_route loc opts input desired (rp_row q) m f e"
        by (simp add: planned_route_def scope_def)
      with q(3) show ?thesis unfolding scope_def by blast
    qed blast
    with only fin p show ?thesis by blast
  qed
qed

text \<open>Plans with one candidate.\<close>

lemma finish_single: "rl_actions (finish_plan loc desired [a] fs) = [a]"
  by (simp add: finish_plan_def)

lemma plan_single:
  assumes "normalize_desired (rn_desired input) = Inr desired"
    and "plan_placement loc desired opts (recon_scope_of desired (rn_currentBinding input)) input q = Chosen a"
    and "rn_placements input = [q]"
    and "nd_desiredState desired = DesPresent" "nd_providerScope desired = None"
    and "pl_info_hash (rp_row q) = sc_infoHash (recon_scope_of desired (rn_currentBinding input))"
    and "current_is_satisfied desired opts [q] input = None"
    and "case rn_currentBinding input of None \<Rightarrow> True | Some b \<Rightarrow> bd_release_key b = ri_releaseKey (nd_identity desired)"
  shows "plan_reconciliation loc opts input = Inr (finish_plan loc desired [a] [])"
  using assms
  by (simp add: plan_reconciliation_def filter_placements_by_scope_def scope_admits_def
      order_by_provider_preference_def Let_def split: option.splits)

section \<open>Execution\<close>

lemma execute_action_idle: "\<not> effective a \<Longrightarrow> execute_action now uuid a d = Inr d"
  by (cases a) simp_all

lemma execute_actions_idle: "\<forall>a \<in> set as. \<not> effective a \<Longrightarrow> fst (execute_actions now uuid as d) = d"
  by (induction as) (simp_all add: execute_action_idle)

lemma execute_actions_one:
  assumes "distinct as" "\<forall>x \<in> set as. \<forall>y \<in> set as. effective x \<longrightarrow> effective y \<longrightarrow> x = y"
  shows "fst (execute_actions now uuid as d) = d \<or>
    (\<exists>a \<in> set as. \<exists>i. effective a \<and> execute_action now i a d = Inr (fst (execute_actions now uuid as d)))"
  using assms
proof (induction as)
  case (Cons a as)
  show ?case
  proof (cases "effective a")
    case False
    with Cons show ?thesis by (auto simp: execute_action_idle)
  next
    case True
    with Cons.prems have idle: "\<forall>x \<in> set as. \<not> effective x" by auto
    show ?thesis
    proof (cases "execute_action now (uuid (length as)) a d")
      case (Inr d1)
      with idle have "fst (execute_actions now uuid (a # as) d) = d1" by (simp add: execute_actions_idle)
      with True Inr show ?thesis by auto
    qed simp
  qed
qed simp

lemma execute_actions_stops:
  assumes "a \<in> set as" "\<forall>x \<in> set as. effective x \<longrightarrow> x = a" "\<And>i. execute_action now i a d = Inl e"
  shows "execute_actions now uuid as d = (d, Inl e)"
  using assms(1,2)
proof (induction as)
  case (Cons x xs)
  show ?case
  proof (cases "x = a")
    case True
    with assms(3) show ?thesis by simp
  next
    case False
    with Cons.prems(2) have "\<not> effective x" by auto
    then have "execute_action now i x d = Inr d" for i by (cases x) simp_all
    with Cons False show ?thesis by simp
  qed
qed simp

lemma execute_reconciliation_store:
  "fst (execute_reconciliation now uuid plan d) = fst (execute_actions now uuid (rl_actions plan) d)"
  by (simp add: execute_reconciliation_def Let_def split: prod.split sum.split)

lemma execute_plan:
  assumes "plan_reconciliation loc opts input = Inr plan" "d' = fst (execute_reconciliation now uuid plan d)"
  obtains "d' = d"
  | i rebind t b where "activate_binding now i (route_input rebind t) d = Inr (d', b)"
  | item why b where "mark_binding_degraded now item None (Some why) d = Inr (d', b)"
proof -
  have one: "\<forall>x \<in> set (rl_actions plan). \<forall>y \<in> set (rl_actions plan). effective x \<longrightarrow> effective y \<longrightarrow> x = y"
    using plan_effective [OF assms(1)] by blast
  show thesis
  proof (cases "\<exists>a \<in> set (rl_actions plan). effective a")
    case False
    then show thesis
      using that(1) assms(2) by (simp add: execute_reconciliation_store execute_actions_idle)
  next
    case True
    then have "distinct (rl_actions plan)" using plan_effective [OF assms(1)] by blast
    from execute_actions_one [OF this one, of now uuid d] show thesis
    proof (elim disjE bexE exE conjE)
      assume "fst (execute_actions now uuid (rl_actions plan) d) = d"
      then show thesis using that(1) assms(2) by (simp add: execute_reconciliation_store)
    next
      fix a i assume "effective a" "execute_action now i a d = Inr (fst (execute_actions now uuid (rl_actions plan) d))"
      then have "effective a" "execute_action now i a d = Inr d'"
        by (simp_all add: assms(2) execute_reconciliation_store)
      then show thesis by (cases a) (auto simp: res_bind_Inr intro: that(2,3))
    qed
  qed
qed

lemma activation_without_reason:
  assumes run: "activate_binding now i input d = Inr (d', n)" and reason: "bix_representationReason input = None"
    and inv: "binding_inv d" and b: "active_binding item d = Some b" and b': "active_binding item d' = Some b'"
  shows "bd_torrent_file_id b' = bd_torrent_file_id b"
proof (rule ccontr)
  assume changed: "bd_torrent_file_id b' \<noteq> bd_torrent_file_id b"
  note bD = active_bindingD [OF b] and bD' = active_bindingD [OF b']
  note D = binding_table_invD [OF inv [unfolded binding_inv_def]]
  from representation_boundary_step [OF binding_step.activate [OF run] inv b b' changed]
  have legal: "legal_reason (bd_representation_reason b')" .
  have same: "b' = b" if "b' \<in> set (db_bindings d)"
    using unique_whereD [OF D(3) that, of b] bD bD' by simp
  from run inv obtain a where a: "commit_binding now i input a d = Inr (d', n)" by (rule activate_binding_effect)
  then show False
  proof (cases rule: commit_binding_cases)
    case (rebind b0 why)
    have "b' \<in> set (upd_where (\<lambda>r. bd_id r = bd_id b0 \<and> bd_status r = BdActive)
        (rebind_route now why input) (db_bindings d))" using bD' rebind(3) by simp
    then show False
    proof (cases rule: in_upd_whereE)
      case (changed r)
      then have "r = b"
        using unique_whereD [OF D(3) changed(1), of b] bD bD' by (simp add: rebind_route_def is_active_def)
      with changed \<open>bd_torrent_file_id b' \<noteq> bd_torrent_file_id b\<close> show False by (simp add: rebind_route_def)
    qed (use same changed in blast)
  next
    case insert
    obtain P where sp: "supersede_previous now input a d =
        d\<lparr>db_bindings := upd_where P (supersede_binding now) (db_bindings d)\<rparr>"
      using supersede_previous_effect [OF inv refl] by metis
    note ib = insert_binding_Inr [OF insert(1)]
    have "b' \<noteq> n" using legal ib(6) reason by (auto simp: legal_reason_def)
    with bD' ib(1) have "b' \<in> set (upd_where P (supersede_binding now) (db_bindings d))" by (auto simp: sp)
    then show False
    proof (cases rule: in_upd_whereE)
      case (changed s)
      with bD' show False by (simp add: supersede_binding_def is_active_def)
    qed (use same changed in blast)
  qed
qed

lemma executed_plan_keeps_representation:
  assumes "plan_reconciliation loc opts input = Inr plan" "binding_inv d"
    and "d' = fst (execute_reconciliation now uuid plan d)"
  shows "binding_inv d' \<and> (\<forall>item b b'. active_binding item d = Some b \<longrightarrow> active_binding item d' = Some b' \<longrightarrow>
    bd_torrent_file_id b' = bd_torrent_file_id b)"
  using assms(1,3)
proof (cases rule: execute_plan)
  case 1
  with assms(2) show ?thesis by simp
next
  case (2 i rebind t n)
  have "bix_representationReason (route_input rebind t) = None" by (simp add: route_input_def)
  with activation_without_reason [OF 2 _ assms(2)] binding_step_effect(1) [OF binding_step.activate [OF 2] assms(2)]
  show ?thesis by blast
next
  case (3 i why n)
  have "b' = b" if "active_binding item d = Some b" "active_binding item d' = Some b'" for item b b'
  proof -
    note bD = active_bindingD [OF that(1)] and bD' = active_bindingD [OF that(2)]
    from degrade_effect(3) [OF 3 assms(2)] bD' have "b' \<in> set (db_bindings d)" by blast
    with unique_whereD [OF binding_table_invD(3) [OF assms(2) [unfolded binding_inv_def]], of b' b] bD bD'
    show ?thesis by simp
  qed
  with binding_step_effect(1) [OF binding_step.degrade [OF 3] assms(2)] show ?thesis by blast
qed

end
