(* ===== verification/Route_Acceptance.thy ===== *)
theory Route_Acceptance
  imports Reconciler_Properties
begin

text \<open>
  Planning and activation agree: a route that \<open>planReconciliation\<close> proposes from a snapshot of the
  store passes every guard of \<open>activateBinding\<close> but two, the active path of the item and the torrent
  file of the provider file. The proof rests on the invariant of the whole store.
\<close>

section \<open>The snapshot\<close>

lemma find_rows_for_ids:
  "p \<in> set ids \<Longrightarrow> find (\<lambda>r. key r = p) (rows_for_ids key ids t) = find (\<lambda>r. key r = p) t"
  by (induction t) (auto simp: rows_for_ids_def)

lemma snapshot_facts:
  assumes "get_reconciliation_snapshot item release d = Inr snap"
  obtains i identity ids where "get_library_item d item = Some i" "validate_release_identity release = Inr identity"
    "rp_row ` set (rn_placements snap) = {p \<in> set (db_placements d). pl_info_hash p = ri_infoHash identity}"
    "set ids = pl_id ` (rp_row ` set (rn_placements snap))"
    "rn_readinessObservations snap = rows_for_ids ro_placement_id ids (db_readiness d)"
    "rn_inventorySnapshots snap = rows_for_ids iv_placement_id ids (db_inventories d)"
    "rn_providerFiles snap = rows_for_ids pf_placement_id ids (filter pf_present (db_provider_files d))"
    "rn_mappings snap = filter (\<lambda>m. fm_release_key m = ri_releaseKey identity) (rows_for_ids fm_placement_id ids (db_mappings d))"
    "rn_exposures snap = rows_for_ids ex_placement_id ids (db_exposures d)"
    "rn_currentBinding snap = newest_binding item d"
    "ds_libraryItemId (rn_desired snap) = item" "ds_release (rn_desired snap) = JObj (identity_entries identity)"
    "ds_libraryPathId (rn_desired snap) = map_option lp_id (active_path d item)"
    "ds_providerScope (rn_desired snap) = JUndef" "ds_exposureScope (rn_desired snap) = JUndef"
proof -
  define pls where "pls h = sort_key (\<lambda>p. (pl_provider p, pl_account_scope p, pl_id p))
           (filter (\<lambda>p. pl_info_hash p = h) (db_placements d))" for h
  from assms obtain i identity zurg where i: "get_library_item d item = Some i"
    and id: "validate_release_identity release = Inr identity"
    and snap: "snap = \<lparr>rn_desired = \<lparr>ds_libraryItemId = li_id i,
               ds_libraryPathId = map_option lp_id
                 (find (\<lambda>p. lp_library_item_id p = li_id i \<and> lp_active p) (db_paths d)),
               ds_desiredState = Some (li_desired_state i), ds_release = JObj (identity_entries identity),
               ds_providerFileId = None, ds_providerPreferences = [], ds_providerScope = JUndef,
               ds_exposureScope = JUndef, ds_placementIdempotencyKey = None\<rparr>,
             rn_placements = map (placement_with_dependents d) (pls (ri_infoHash identity)),
             rn_placementObservations = sort_key (\<lambda>o'. (po_provider o', po_account_scope o'))
               (filter (\<lambda>o'. po_info_hash o' = ri_infoHash identity) (db_placement_obs d)),
             rn_readinessObservations = rows_for_ids ro_placement_id (map pl_id (pls (ri_infoHash identity))) (db_readiness d),
             rn_inventorySnapshots = rows_for_ids iv_placement_id (map pl_id (pls (ri_infoHash identity))) (db_inventories d),
             rn_providerFiles = rows_for_ids pf_placement_id (map pl_id (pls (ri_infoHash identity))) (filter pf_present (db_provider_files d)),
             rn_mappings = filter (\<lambda>m. fm_release_key m = ri_releaseKey identity)
               (rows_for_ids fm_placement_id (map pl_id (pls (ri_infoHash identity))) (db_mappings d)),
             rn_exposures = rows_for_ids ex_placement_id (map pl_id (pls (ri_infoHash identity))) (db_exposures d),
             rn_zurgMetadata = zurg,
             rn_currentBinding = newest_binding (li_id i) d\<rparr>"
    unfolding get_reconciliation_snapshot_def Let_def res_bind_Inr require_library_item_Inr pls_def sum.inject by blast
  have li: "li_id i = item" using get_library_item_SomeD [OF i] by simp
  have rows: "rp_row (placement_with_dependents d p) = p" for p by (simp add: placement_with_dependents_def)
  show thesis
    by (rule that [OF i id, of "map pl_id (pls (ri_infoHash identity))"])
       (auto simp: snap li rows active_path_def pls_def image_image)
qed

lemma normalized_snapshot:
  assumes "ds_release (rn_desired snap) = JObj (identity_entries identity)" "valid_identity identity"
    and "ds_providerScope (rn_desired snap) = JUndef" "ds_exposureScope (rn_desired snap) = JUndef"
    and "normalize_desired (rn_desired snap) = Inr desired"
  shows "nd_identity desired = identity" "nd_input desired = rn_desired snap" "nd_exposureScope desired = None"
  using assms by (auto simp: normalize_desired_def res_bind_Inr identity_round_trip normalize_optional_scope_def)

section \<open>One guard at a time\<close>

lemma fresh_not_expired: "evaluate_expiry observed e now = Fresh \<Longrightarrow> \<not> expired e now"
  by (auto simp: evaluate_expiry_def expired_def split: option.splits if_splits)

lemma readiness_passes:
  assumes "readiness_fits opts snap row" "rn_readinessObservations snap = rows_for_ids ro_placement_id ids (db_readiness d)"
    "pl_id row \<in> set ids"
  shows "check_readiness (rq_now opts) row d = Inr ()"
  using assms
  by (auto simp: readiness_fits_def check_readiness_def find_rows_for_ids expired_def ensure_def
      dest!: fresh_not_expired split: option.splits)

lemma inventory_passes:
  assumes fits: "inventory_fits loc opts snap (pl_id row)" and f: "f \<in> set (inventory_for_placement loc (rn_providerFiles snap) (pl_id row))"
    and snap: "rn_inventorySnapshots snap = rows_for_ids iv_placement_id ids (db_inventories d)" "pl_id row \<in> set ids"
    and ex: "get_provider_inventory_snapshot (pl_id row) d \<noteq> None"
  shows "check_inventory (rq_now opts) row f d = Inr ()"
proof -
  from ex obtain iv where iv: "get_provider_inventory_snapshot (pl_id row) d = Some iv" by auto
  then have "find (\<lambda>s. iv_placement_id s = pl_id row) (rn_inventorySnapshots snap) = Some iv"
    using snap by (simp add: find_rows_for_ids get_provider_inventory_snapshot_def)
  with fits have ok: "evaluate_inventory_freshness (inventory_for_placement loc (rn_providerFiles snap) (pl_id row))
      (Some iv) (rq_now opts) = InvFresh" by (simp add: inventory_fits_def)
  then have "iv_authoritative iv" "iv_complete iv" "evaluate_expiry (iv_observed_at iv) (iv_expires_at iv) (rq_now opts) = Fresh"
      "list_all (\<lambda>f. safe_later (pf_inventory_expires_at f) (rq_now opts)) (inventory_for_placement loc (rn_providerFiles snap) (pl_id row))"
    by (auto simp: evaluate_inventory_freshness_def Let_def split: if_splits)
  moreover from this f have "\<not> expired (pf_inventory_expires_at f) (rq_now opts)"
    by (auto simp: list_all_iff safe_later_def expired_def split: option.splits)
  ultimately show ?thesis
    using iv fresh_not_expired by (simp add: check_inventory_def ensure_def)
qed

lemma in_inventory:
  "f \<in> set (inventory_for_placement loc fs p) \<longleftrightarrow> f \<in> set fs \<and> pf_placement_id f = p"
  by (auto simp: inventory_for_placement_def)

lemma find_exposure_in:
  assumes "find_exposure_for_file loc es p fid desired = Some e"
  shows "e \<in> set es" "ex_placement_id e = p" "ex_provider_file_id e = fid"
proof -
  from assms obtain rest where "sort_key (\<lambda>e. loc (ex_transport e @ '':'' @ ex_mount_scope e @ '':'' @ ex_id e))
        (filter (\<lambda>e. ex_placement_id e = p \<and> ex_provider_file_id e = fid
           \<and> scope_admits (nd_exposureScope desired) ''transport'' (ex_transport e)
           \<and> scope_admits (nd_exposureScope desired) ''mountScope'' (ex_mount_scope e)) es) = e # rest"
    by (auto simp: find_exposure_for_file_def split: list.splits)
  then have "e \<in> set (sort_key (\<lambda>e. loc (ex_transport e @ '':'' @ ex_mount_scope e @ '':'' @ ex_id e))
        (filter (\<lambda>e. ex_placement_id e = p \<and> ex_provider_file_id e = fid
           \<and> scope_admits (nd_exposureScope desired) ''transport'' (ex_transport e)
           \<and> scope_admits (nd_exposureScope desired) ''mountScope'' (ex_mount_scope e)) es))" by simp
  then show "e \<in> set es" "ex_placement_id e = p" "ex_provider_file_id e = fid" by auto
qed

lemma find_unique_where:
  "unique_by key t \<Longrightarrow> r \<in> set t \<Longrightarrow> P r \<Longrightarrow> (\<And>x. P x \<Longrightarrow> key x = key r) \<Longrightarrow> find P t = Some r"
  by (metis find_SomeD find_None_iff not_None_eq unique_byD)

lemma exposure_account:
  assumes inv: "store_inv d" and e: "e \<in> set (db_exposures d)" and row: "row \<in> set (db_placements d)" "pl_id row = ex_placement_id e"
  shows "ex_account_scope e = pl_account_scope row"
proof -
  have "exposure_scope e \<in> (\<lambda>(p, a, h). (p, a)) ` placement_keys d"
    using store_invD(6) [OF inv] e by (auto simp: references_ok_def observation_refs_def)
  then obtain r where "r \<in> set (db_placements d)" "pl_id r = ex_placement_id e" "pl_account_scope r = ex_account_scope e"
    by (auto simp: exposure_scope_def placement_keys_def)
  moreover have "unique_by pl_id (db_placements d)" using store_invD(2) [OF inv] by (simp add: placement_inv_def)
  ultimately show ?thesis using unique_byD [of pl_id "db_placements d" r row] row by auto
qed

lemma route_identity:
  assumes "valid_identity r"
  shows "validate_release_identity (JObj [(''releaseKey'', JStr (ri_releaseKey r)), (''infoHash'', JStr (ri_infoHash r)),
       (''fileIndex'', case ri_fileIndex r of None \<Rightarrow> JNull | Some i \<Rightarrow> JInt i)]) = Inr r"
proof -
  have c: "create_release_identity (JStr (ri_infoHash r))
      (case ri_fileIndex r of None \<Rightarrow> JNull | Some i \<Rightarrow> JInt i) = Inr r"
    using assms
    by (cases r; cases "ri_fileIndex r")
       (auto simp: create_release_identity_def normalize_info_hash_def validate_file_index_def
         valid_identity_def js_lower_hex)
  show ?thesis by (simp add: validate_release_identity_def has_own_def prop_of_def c)
qed

section \<open>The guards together\<close>

lemma release_of_key:
  assumes "valid_identity (binding_release b)" "valid_identity identity" "bd_release_key b = ri_releaseKey identity"
  shows "binding_release b = identity"
proof -
  have len: "length (bd_info_hash b) = length (ri_infoHash identity)"
    using assms(1,2) by (simp add: valid_identity_def info_hash_pattern_def binding_release_def)
  have "release_key (bd_info_hash b) (bd_file_index b) = release_key (ri_infoHash identity) (ri_fileIndex identity)"
    using assms by (simp add: valid_identity_def binding_release_def)
  then have "bd_info_hash b = ri_infoHash identity \<and> bd_file_index b = ri_fileIndex identity"
    using assms(1,2) by (subst (asm) release_key_inj_gen [OF len]) (auto simp: valid_identity_def binding_release_def)
  with assms show ?thesis by (intro valid_identity_eqI) (simp_all add: binding_release_def)
qed

lemma known_torrent:
  assumes "store_inv d" "t \<in> set (db_torrent_files d)"
  shows "get_torrent_file d (Some (tf_id t)) = Inr (Some t)" "truthy_id (Some (tf_id t))"
proof -
  have id: "id_ok (tf_id t)" using store_invD(6) [OF assms(1)] assms(2) by (auto simp: references_ok_def row_keys_ok_def)
  have "find (\<lambda>r. tf_id r = tf_id t) (db_torrent_files d) = Some t"
    by (rule find_unique_where [of tf_id]) (use assms store_invD(3) [OF assms(1)] in \<open>auto simp: inventory_inv_def\<close>)
  with id show "get_torrent_file d (Some (tf_id t)) = Inr (Some t)"
    by (simp add: get_torrent_file_def require_string_def id_ok_def)
  from id show "truthy_id (Some (tf_id t))" by (simp add: truthy_id_def id_ok_def)
qed

lemma file_torrent:
  assumes inv: "store_inv d" and f: "f \<in> set (db_provider_files d)" "pf_torrent_file_id f = Some z"
    and row: "row \<in> set (db_placements d)" "pl_id row = pf_placement_id f"
  obtains t where "t \<in> set (db_torrent_files d)" "tf_id t = z" "tf_info_hash t = pl_info_hash row"
proof -
  from store_invD(3) [OF inv] f(1) have "mapping_sound d f" by (simp add: inventory_inv_def)
  with f(2) obtain t pl where t: "t \<in> set (db_torrent_files d)" "tf_id t = z"
    and pl: "pl \<in> set (db_placements d)" "pl_id pl = pf_placement_id f" "pl_info_hash pl = tf_info_hash t"
    by (auto simp: mapping_sound_def)
  have "pl = row"
    using store_invD(2) [OF inv] pl(1,2) row unique_byD [of pl_id "db_placements d" pl row] by (simp add: placement_inv_def)
  with t pl show thesis by (intro that) simp_all
qed

lemma binding_torrent:
  assumes inv: "store_inv d" and b: "b \<in> set (db_bindings d)"
  obtains t where "t \<in> set (db_torrent_files d)" "tf_id t = bd_torrent_file_id b" "tf_info_hash t = bd_info_hash b"
proof -
  have "binding_ok d b" using store_invD(6) [OF inv] b by (simp add: references_ok_def)
  then show thesis using that by (auto simp: binding_ok_def torrent_keys_def)
qed

lemma newest_bindingD:
  "newest_binding item d = Some b \<Longrightarrow> b \<in> set (db_bindings d) \<and> bd_library_item_id b = item"
  by (auto simp: newest_binding_def bindings_of_def dest: top_by_Some)

lemma active_is_newest:
  assumes inv: "binding_inv d" and b: "active_binding item d = Some b"
  shows "newest_binding item d = Some b"
proof -
  note D = binding_table_invD [OF inv [unfolded binding_inv_def]] and bD = active_bindingD [OF b]
  have ne: "bindings_of item d \<noteq> []" using bD by (auto simp: bindings_of_def filter_empty_conv)
  then obtain n where n: "newest_binding item d = Some n" by (cases "newest_binding item d") (simp_all add: newest_binding_def)
  from top_by_Some [OF n [unfolded newest_binding_def]] have n': "n \<in> set (db_bindings d)" "bd_library_item_id n = item"
      "bd_version b \<le> bd_version n" using bD by (auto simp: bindings_of_def)
  have "bd_version n \<le> bd_version b" using D(6) [of b n] bD n' by simp
  with n' bD have "n = b" using unique_byD [OF D(2), of n b] by (simp add: item_version_def)
  with n show ?thesis by simp
qed

lemma active_path_found:
  assumes inv: "library_inv d" and p: "active_path d item = Some path"
  shows "find (\<lambda>p. lp_id p = lp_id path \<and> lp_library_item_id p = item \<and> lp_active p) (db_paths d) = Some path"
  by (rule find_unique_where [of lp_id]) (use inv active_path_SomeD [OF p] in \<open>auto simp: library_inv_def\<close>)

text \<open>The torrent file of the binding, if there is one, is that of the provider file, if it has one.\<close>

definition torrent_agrees :: "string option \<Rightarrow> provider_file \<Rightarrow> bool" where
  "torrent_agrees tf f \<longleftrightarrow> (case tf of None \<Rightarrow> pf_torrent_file_id f \<noteq> None
     | Some x \<Rightarrow> pf_torrent_file_id f = None \<or> pf_torrent_file_id f = Some x)"

text \<open>What the plan and the invariant say of the route.\<close>

lemma planned_route_rows:
  assumes inv: "store_inv d" and snap: "get_reconciliation_snapshot item release d = Inr snap"
    and r: "planned_route loc opts snap desired row m f e"
  obtains i identity where
    "get_library_item d item = Some i" "valid_identity identity" "nd_identity desired = identity"
    "nd_input desired = rn_desired snap" "rn_currentBinding snap = newest_binding item d"
    "ds_libraryItemId (rn_desired snap) = item" "ds_libraryPathId (rn_desired snap) = map_option lp_id (active_path d item)"
    "recon_scope_of desired (newest_binding item d) = \<lparr>sc_releaseKey = ri_releaseKey identity,
       sc_infoHash = ri_infoHash identity, sc_fileIndex = ri_fileIndex identity,
       sc_torrentFileId = map_option bd_torrent_file_id (newest_binding item d)\<rparr>"
    "\<And>b. newest_binding item d = Some b \<Longrightarrow> binding_release b = identity"
    "row \<in> set (db_placements d)" "get_placement d (pl_id row) = Some row" "pl_info_hash row = ri_infoHash identity"
    "m \<in> set (db_mappings d)" "fm_release_key m = ri_releaseKey identity" "fm_placement_id m = pl_id row"
    "fm_provider_file_id m = pf_provider_file_id f" "fm_state m = CmMapped" "fm_authoritative m"
    "f \<in> set (db_provider_files d)" "pf_placement_id f = pl_id row" "pf_present f"
    "e \<in> set (db_exposures d)" "ex_placement_id e = pl_id row" "ex_provider_file_id e = pf_provider_file_id f"
    "ex_state e = ExVisible" "ex_read_only e" "\<not> expired (ex_expires_at e) (rq_now opts)"
    "check_readiness (rq_now opts) row d = Inr ()" "check_inventory (rq_now opts) row f d = Inr ()"
  using snap
proof (rule snapshot_facts)
  fix i identity ids
  assume i: "get_library_item d item = Some i" and id: "validate_release_identity release = Inr identity"
    and pls: "rp_row ` set (rn_placements snap) = {p \<in> set (db_placements d). pl_info_hash p = ri_infoHash identity}"
    and ids: "set ids = pl_id ` (rp_row ` set (rn_placements snap))"
    and ro: "rn_readinessObservations snap = rows_for_ids ro_placement_id ids (db_readiness d)"
    and iv: "rn_inventorySnapshots snap = rows_for_ids iv_placement_id ids (db_inventories d)"
    and pf: "rn_providerFiles snap = rows_for_ids pf_placement_id ids (filter pf_present (db_provider_files d))"
    and fm: "rn_mappings snap = filter (\<lambda>m. fm_release_key m = ri_releaseKey identity) (rows_for_ids fm_placement_id ids (db_mappings d))"
    and ex: "rn_exposures snap = rows_for_ids ex_placement_id ids (db_exposures d)"
    and cur: "rn_currentBinding snap = newest_binding item d"
    and ds: "ds_libraryItemId (rn_desired snap) = item" "ds_release (rn_desired snap) = JObj (identity_entries identity)"
      "ds_libraryPathId (rn_desired snap) = map_option lp_id (active_path d item)"
      "ds_providerScope (rn_desired snap) = JUndef" "ds_exposureScope (rn_desired snap) = JUndef"
  have valid: "valid_identity identity" by (rule validate_release_identity_valid [OF id])
  from r have nd: "normalize_desired (rn_desired snap) = Inr desired" by (simp add: planned_route_def)
  note n = normalized_snapshot [OF ds(2) valid ds(4,5) nd]
  let ?scope = "recon_scope_of desired (newest_binding item d)"
  have same: "binding_release b = identity" if b: "newest_binding item d = Some b" for b
  proof (rule release_of_key [OF _ valid])
    show "valid_identity (binding_release b)"
      using store_invD(6) [OF inv] newest_bindingD [OF b] by (auto simp: references_ok_def binding_ok_def)
    show "bd_release_key b = ri_releaseKey identity" using r b cur n(1) by (simp add: planned_route_def)
  qed
  then have scope: "?scope = \<lparr>sc_releaseKey = ri_releaseKey identity, sc_infoHash = ri_infoHash identity,
      sc_fileIndex = ri_fileIndex identity, sc_torrentFileId = map_option bd_torrent_file_id (newest_binding item d)\<rparr>"
    by (cases "newest_binding item d") (auto simp: recon_scope_of_def n(1) binding_release_def)
  from r have row_in: "row \<in> rp_row ` set (rn_placements snap)" by (simp add: planned_route_def)
  then have row: "row \<in> set (db_placements d)" "pl_info_hash row = ri_infoHash identity" "pl_id row \<in> set ids"
    using pls ids by auto
  have get: "get_placement d (pl_id row) = Some row"
    unfolding get_placement_def by (rule find_unique_where [of pl_id])
      (use store_invD(2) [OF inv] row in \<open>auto simp: placement_inv_def\<close>)
  from r have fits: "readiness_fits opts snap row" "inventory_fits loc opts snap (pl_id row)"
      "mapping_fits ?scope snap (pl_id row) (inventory_for_placement loc (rn_providerFiles snap) (pl_id row)) m f"
      "exposure_fits loc desired opts snap (pl_id row) f e"
    by (simp_all add: planned_route_def route_fits_def cur)
  from fits(3) have m: "m \<in> set (rn_mappings snap)" "fm_placement_id m = pl_id row" "fm_state m = CmMapped" "fm_authoritative m"
      "f \<in> set (inventory_for_placement loc (rn_providerFiles snap) (pl_id row))" "pf_provider_file_id f = fm_provider_file_id m"
    by (auto simp: mapping_fits_def dest: find_SomeD)
  have f: "f \<in> set (db_provider_files d)" "pf_placement_id f = pl_id row" "pf_present f"
    using m(5) by (auto simp: in_inventory pf rows_for_ids_def)
  have m': "m \<in> set (db_mappings d)" "fm_release_key m = ri_releaseKey identity"
    using m(1) by (auto simp: fm rows_for_ids_def)
  from fits(4) have e: "find_exposure_for_file loc (rn_exposures snap) (pl_id row) (pf_provider_file_id f) desired = Some e"
      "evaluate_expiry (ex_observed_at e) (ex_expires_at e) (rq_now opts) = Fresh" "ex_state e = ExVisible" "ex_read_only e"
    by (simp_all add: exposure_fits_def)
  have "e \<in> set (db_exposures d)" using find_exposure_in(1) [OF e(1)] by (simp add: ex rows_for_ids_def)
  moreover have "get_provider_inventory_snapshot (pl_id row) d \<noteq> None"
  proof -
    have "pl_id row \<in> fst ` file_keys d" using f by (force simp: file_keys_def provider_file_key_def)
    then have "pl_id row \<in> snapshot_ids d" using store_invD(6) [OF inv] by (auto simp: references_ok_def file_refs_def)
    then show ?thesis by (auto simp: get_provider_inventory_snapshot_def snapshot_ids_def find_None_iff)
  qed
  then have "check_inventory (rq_now opts) row f d = Inr ()" by (rule inventory_passes [OF fits(2) m(5) iv row(3)])
  moreover have "check_readiness (rq_now opts) row d = Inr ()" by (rule readiness_passes [OF fits(1) ro row(3)])
  ultimately show thesis
    using that [OF i valid n(1,2) cur ds(1,3) scope same row(1) get row(2) m'(1,2) m(2) m(6) [symmetric] m(3,4) f _
        find_exposure_in(2,3) [OF e(1)] e(3,4) fresh_not_expired [OF e(2)]] by blast
qed

lemma planned_check:
  assumes inv: "store_inv d" and snap: "get_reconciliation_snapshot item release d = Inr snap"
    and r: "planned_route loc opts snap desired row m f e"
    and t: "BindRoute rebind t = route_step desired (recon_scope_of desired (rn_currentBinding snap)) (rn_currentBinding snap) (pl_id row) f e"
  obtains identity where "valid_identity identity"
    "rg_torrentFileId t = map_option bd_torrent_file_id (newest_binding item d)"
    "\<And>b. newest_binding item d = Some b \<Longrightarrow> binding_release b = identity"
    "f \<in> set (db_provider_files d)" "pf_placement_id f = rg_placementId t" "pf_provider_file_id f = rg_providerFileId t"
    "check_activation (rq_now opts) (route_input rebind t) d = (case active_path d item of
        None \<Rightarrow> Inl (JsError ''Active canonical path does not belong to library item'')
      | Some path \<Rightarrow> if torrent_agrees (rg_torrentFileId t) f
          then Inr \<lparr>ac_identity = identity, ac_item_id = item, ac_path_id = lp_id path,
            ac_torrent_file_id = nullish (coalesce (rg_torrentFileId t) (pf_torrent_file_id f)) []\<rparr>
          else Inl (if rg_torrentFileId t = None then JsError ''Binding requires an exact TorrentFile identity''
            else JsError ''Binding TorrentFile identity disagrees with provider-file mapping''))"
  using inv snap r
proof (rule planned_route_rows)
  fix i identity
  let ?now = "rq_now opts" and ?cur = "newest_binding item d"
  let ?input = "route_input rebind t"
  assume i: "get_library_item d item = Some i" and valid: "valid_identity identity"
    and n: "nd_identity desired = identity" "nd_input desired = rn_desired snap" and cur: "rn_currentBinding snap = ?cur"
    and ds: "ds_libraryItemId (rn_desired snap) = item" "ds_libraryPathId (rn_desired snap) = map_option lp_id (active_path d item)"
    and scope: "recon_scope_of desired ?cur = \<lparr>sc_releaseKey = ri_releaseKey identity,
       sc_infoHash = ri_infoHash identity, sc_fileIndex = ri_fileIndex identity,
       sc_torrentFileId = map_option bd_torrent_file_id ?cur\<rparr>"
    and same: "\<And>b. ?cur = Some b \<Longrightarrow> binding_release b = identity"
    and row: "row \<in> set (db_placements d)" "get_placement d (pl_id row) = Some row" "pl_info_hash row = ri_infoHash identity"
    and m: "m \<in> set (db_mappings d)" "fm_release_key m = ri_releaseKey identity" "fm_placement_id m = pl_id row"
    "fm_provider_file_id m = pf_provider_file_id f" "fm_state m = CmMapped" "fm_authoritative m"
    and f: "f \<in> set (db_provider_files d)" "pf_placement_id f = pl_id row" "pf_present f"
    and e: "e \<in> set (db_exposures d)" "ex_placement_id e = pl_id row" "ex_provider_file_id e = pf_provider_file_id f"
    "ex_state e = ExVisible" "ex_read_only e" "\<not> expired (ex_expires_at e) ?now"
    and ready: "check_readiness ?now row d = Inr ()" and invy: "check_inventory ?now row f d = Inr ()"
  have tf: "rg_libraryItemId t = item" "rg_libraryPathId t = map_option lp_id (active_path d item)"
    "rg_releaseKey t = ri_releaseKey identity" "rg_infoHash t = ri_infoHash identity" "rg_fileIndex t = ri_fileIndex identity"
    "rg_torrentFileId t = map_option bd_torrent_file_id ?cur" "rg_placementId t = pl_id row"
    "rg_providerFileId t = pf_provider_file_id f" "rg_exposureId t = ex_id e"
    using t by (simp_all add: route_step_def Let_def cur scope n ds)
  have li: "li_id i = item" using get_library_item_SomeD [OF i] by simp
  have input: "validate_release_identity (bix_release ?input) = Inr identity" "bix_libraryItemId ?input = item"
    "bix_libraryPathId ?input = nullish (map_option lp_id (active_path d item)) []" "bix_placementId ?input = pl_id row"
    "bix_providerFileId ?input = pf_provider_file_id f" "bix_exposureId ?input = ex_id e"
    "bix_torrentFileId ?input = rg_torrentFileId t"
    using route_identity [OF valid] by (simp_all add: route_input_def tf)
  have pfile: "require_provider_file d (pl_id row) (pf_provider_file_id f) = Inr f"
  proof -
    have "find (\<lambda>r. pf_placement_id r = pl_id row \<and> pf_provider_file_id r = pf_provider_file_id f \<and> pf_present r)
        (db_provider_files d) = Some f"
      by (rule find_unique_where [of provider_file_key])
        (use store_invD(3) [OF inv] f in \<open>auto simp: inventory_inv_def provider_file_key_def\<close>)
    then show ?thesis by (simp add: require_provider_file_def)
  qed
  have expo: "find (\<lambda>x. ex_id x = ex_id e \<and> ex_placement_id x = pl_id row \<and> ex_provider_file_id x = pf_provider_file_id f)
      (db_exposures d) = Some e"
    by (rule find_unique_where [of ex_id]) (use store_invD(6) [OF inv] e in \<open>auto simp: references_ok_def row_keys_ok_def\<close>)
  have mapped: "list_ex (\<lambda>m. fm_release_key m = ri_releaseKey identity \<and> fm_placement_id m = pl_id row
      \<and> fm_provider_file_id m = pf_provider_file_id f \<and> fm_state m = CmMapped \<and> fm_authoritative m) (db_mappings d)"
    using m by (auto simp: list_ex_iff)
  have check: "check_exposure row e = Inr ()"
    using e exposure_account [OF inv e(1) row(1)] by (simp add: check_exposure_def ensure_def)
  have place: "require_placement d (pl_id row) = Inr row" "require_library_item d item = Inr i"
    using row(2) i by (simp_all add: require_placement_Inr require_library_item_Inr)
  show thesis
  proof (rule that [OF valid tf(6) same f(1) _ tf(8) [symmetric]])
    show "pf_placement_id f = rg_placementId t" by (simp add: f tf)
    show "check_activation ?now ?input d = (case active_path d item of
        None \<Rightarrow> Inl (JsError ''Active canonical path does not belong to library item'')
      | Some path \<Rightarrow> if torrent_agrees (rg_torrentFileId t) f
          then Inr \<lparr>ac_identity = identity, ac_item_id = item, ac_path_id = lp_id path,
            ac_torrent_file_id = nullish (coalesce (rg_torrentFileId t) (pf_torrent_file_id f)) []\<rparr>
          else Inl (if rg_torrentFileId t = None then JsError ''Binding requires an exact TorrentFile identity''
            else JsError ''Binding TorrentFile identity disagrees with provider-file mapping''))"
    proof (cases "active_path d item")
      case None
      then have "find (\<lambda>p. lp_id p = [] \<and> lp_library_item_id p = item \<and> lp_active p) (db_paths d) = None"
        by (auto simp: active_path_def find_None_iff)
      with None show ?thesis by (simp add: check_activation_def input place li)
    next
      case (Some path)
      note path = active_path_found [OF store_invD(1) [OF inv] Some]
      have base: "check_activation ?now ?input d =
        (let tfid = coalesce (rg_torrentFileId t) (pf_torrent_file_id f) in
         res_bind (if truthy_id tfid then get_torrent_file d tfid else Inr None) (\<lambda>torrentFile.
         res_bind (ensure (\<not> (truthy_id (rg_torrentFileId t) \<and> truthy_id (pf_torrent_file_id f)
            \<and> rg_torrentFileId t \<noteq> pf_torrent_file_id f))
          (JsError ''Binding TorrentFile identity disagrees with provider-file mapping'')) (\<lambda>_.
         res_bind (ensure (case torrentFile of None \<Rightarrow> False | Some t \<Rightarrow> tf_info_hash t = ri_infoHash identity)
          (JsError ''Binding requires an exact TorrentFile identity'')) (\<lambda>_.
           Inr \<lparr>ac_identity = identity, ac_item_id = item, ac_path_id = lp_id path,
            ac_torrent_file_id = nullish tfid []\<rparr>))))"
        unfolding check_activation_def input
        by (simp add: place li Some path row pfile expo check mapped ready invy e ensure_def Let_def)
      show ?thesis
      proof (cases "rg_torrentFileId t")
        case None
        show ?thesis
        proof (cases "pf_torrent_file_id f")
          case None
          with \<open>rg_torrentFileId t = None\<close> Some show ?thesis
            unfolding base by (simp add: torrent_agrees_def truthy_id_def ensure_def)
        next
          case pf: (Some z)
          from file_torrent [OF inv f(1) pf row(1) f(2) [symmetric]] obtain tr where
            tr: "tr \<in> set (db_torrent_files d)" "tf_id tr = z" "tf_info_hash tr = pl_info_hash row" by blast
          from known_torrent [OF inv tr(1)] tr None pf Some row(3) show ?thesis
            unfolding base by (simp add: torrent_agrees_def ensure_def, simp add: truthy_id_def)
        qed
      next
        case tfx: (Some x)
        with tf(6) obtain b where b: "?cur = Some b" "bd_torrent_file_id b = x" by (cases ?cur) auto
        from binding_torrent [OF inv conjunct1 [OF newest_bindingD [OF b(1)]]] b(2) obtain tr where
          tr: "tr \<in> set (db_torrent_files d)" "tf_id tr = x" "tf_info_hash tr = bd_info_hash b" by metis
        have hash: "tf_info_hash tr = ri_infoHash identity"
          using tr(3) same [OF b(1)] by (auto simp: binding_release_def)
        note k = known_torrent [OF inv tr(1), unfolded tr(2)]
        show ?thesis
        proof (cases "pf_torrent_file_id f")
          case None
          with k hash tfx Some show ?thesis
            unfolding base by (simp add: torrent_agrees_def ensure_def, simp add: truthy_id_def)
        next
          case pf: (Some z)
          from file_torrent [OF inv f(1) pf row(1) f(2) [symmetric]] obtain tr' where
            tr': "tr' \<in> set (db_torrent_files d)" "tf_id tr' = z" by blast
          from known_torrent(2) [OF inv tr'(1)] tr'(2) k hash tfx pf Some show ?thesis
            unfolding base by (auto simp: torrent_agrees_def ensure_def)
        qed
      qed
    qed
  qed
qed

section \<open>The transaction\<close>

lemma commit_passes:
  assumes inv: "binding_inv d" and z: "\<exists>tr \<in> set (db_torrent_files d). tf_id tr = ac_torrent_file_id a"
    and cur: "\<And>b. newest_binding (ac_item_id a) d = Some b \<Longrightarrow> bd_torrent_file_id b = ac_torrent_file_id a
        \<and> binding_release b = ac_identity a"
    and version: "bix_expectedBindingVersion input = None \<or>
        (\<exists>b. newest_binding (ac_item_id a) d = Some b \<and> bix_expectedBindingVersion input = Some (int (bd_version b)))"
    and reason: "require_string (bix_reason input) ''reason'' 1000 = Inr reason"
    and fresh: "\<forall>b \<in> set (db_bindings d). bd_id b \<noteq> ''bd_'' @ uuid"
  shows "is_ok (commit_binding now uuid input a d)"
proof -
  let ?active = "active_binding (ac_item_id a) d"
  have ver: "ensure (case bix_expectedBindingVersion input of None \<Rightarrow> True
          | Some v \<Rightarrow> v = (case newest_binding (ac_item_id a) d of None \<Rightarrow> 0 | Some b \<Rightarrow> int (bd_version b)))
        (JsError ''Active binding version changed during reconciliation'') = Inr ()"
    using version by (auto simp: ensure_def)
  have allowed: "assert_representation_change_allowed (map_option bd_torrent_file_id ?active)
          (Some (ac_torrent_file_id a)) (bix_representationReason input) = Inr (False, bix_representationReason input)"
  proof (cases ?active)
    case None
    then show ?thesis by (simp add: assert_representation_change_allowed_def representation_changes_def truthy_id_def)
  next
    case (Some b)
    with cur [OF active_is_newest [OF inv Some]] show ?thesis
      by (simp add: assert_representation_change_allowed_def representation_changes_def)
  qed
  show ?thesis
  proof (cases ?active)
    case (Some b)
    have "same_representation a b"
      using cur [OF active_is_newest [OF inv Some], THEN conjunct1]
        cur [OF active_is_newest [OF inv Some], THEN conjunct2, symmetric]
      by (simp add: same_representation_def binding_release_def)
    with Some show ?thesis
      unfolding commit_binding_def Let_def allowed ver by (simp add: reason)
  next
    case None
    obtain P where sp: "supersede_previous now input a d =
        d\<lparr>db_bindings := upd_where P (supersede_binding now) (db_bindings d)\<rparr>"
      using supersede_previous_effect [OF inv refl] by metis
    have "\<not> list_ex (\<lambda>b. bd_id b = ''bd_'' @ uuid) (upd_where P (supersede_binding now) (db_bindings d))"
    proof
      assume "list_ex (\<lambda>b. bd_id b = ''bd_'' @ uuid) (upd_where P (supersede_binding now) (db_bindings d))"
      then obtain b where b: "b \<in> set (upd_where P (supersede_binding now) (db_bindings d))" "bd_id b = ''bd_'' @ uuid"
        by (auto simp: list_ex_iff)
      from b(1) show False by (cases rule: in_upd_whereE) (use fresh b(2) in \<open>auto simp: supersede_binding_def\<close>)
    qed
    moreover have "list_ex (\<lambda>t. tf_id t = ac_torrent_file_id a) (db_torrent_files d)"
      using z by (auto simp: list_ex_iff)
    ultimately have "is_ok (insert_binding now uuid input a (supersede_previous now input a d))"
      by (simp add: insert_binding_def sp reason Let_def)
    with None show ?thesis unfolding commit_binding_def Let_def allowed ver by simp
  qed
qed

lemma route_reasons:
  "require_string (Some ''preferred-usable-placement-changed'') ''reason'' 1000 = Inr ''preferred-usable-placement-changed''"
  "require_string (Some ''recovery-from-degraded'') ''reason'' 1000 = Inr ''recovery-from-degraded''"
  "require_string (Some ''exact-file-is-usable'') ''reason'' 1000 = Inr ''exact-file-is-usable''"
  by code_simp+

lemma route_step_input:
  assumes "BindRoute rebind t = route_step desired scope cur p f e"
  shows "\<exists>r. require_string (bix_reason (route_input rebind t)) ''reason'' 1000 = Inr r"
    "bix_expectedBindingVersion (route_input rebind t) = None \<or>
      (\<exists>b. cur = Some b \<and> bix_expectedBindingVersion (route_input rebind t) = Some (int (bd_version b)))"
  using assms by (auto simp: route_step_def Let_def route_input_def route_reasons)

lemma planned_route_accepted:
  assumes inv: "store_inv d" and snap: "get_reconciliation_snapshot item release d = Inr snap"
    and plan: "plan_reconciliation loc opts snap = Inr plan" "BindRoute rebind t \<in> set (rl_actions plan)"
    and fresh: "\<forall>b \<in> set (db_bindings d). bd_id b \<noteq> ''bd_'' @ uuid"
  shows "is_ok (activate_binding (rq_now opts) uuid (route_input rebind t) d) \<longleftrightarrow>
    active_path d item \<noteq> None \<and>
    (\<exists>f \<in> set (db_provider_files d). pf_placement_id f = rg_placementId t
       \<and> pf_provider_file_id f = rg_providerFileId t \<and> torrent_agrees (rg_torrentFileId t) f)"
proof -
  from plan_effective [OF plan] obtain desired row m f e where r: "planned_route loc opts snap desired row m f e"
    and t: "BindRoute rebind t = route_step desired (recon_scope_of desired (rn_currentBinding snap)) (rn_currentBinding snap)
        (pl_id row) f e" by auto
  from snap have cur: "rn_currentBinding snap = newest_binding item d" by (rule snapshot_facts)
  from inv snap r t show ?thesis
  proof (rule planned_check)
    fix identity
    let ?input = "route_input rebind t"
    assume tf: "rg_torrentFileId t = map_option bd_torrent_file_id (newest_binding item d)"
      and same: "\<And>b. newest_binding item d = Some b \<Longrightarrow> binding_release b = identity"
      and f: "f \<in> set (db_provider_files d)" "pf_placement_id f = rg_placementId t" "pf_provider_file_id f = rg_providerFileId t"
      and check: "check_activation (rq_now opts) ?input d = (case active_path d item of
        None \<Rightarrow> Inl (JsError ''Active canonical path does not belong to library item'')
      | Some path \<Rightarrow> if torrent_agrees (rg_torrentFileId t) f
          then Inr \<lparr>ac_identity = identity, ac_item_id = item, ac_path_id = lp_id path,
            ac_torrent_file_id = nullish (coalesce (rg_torrentFileId t) (pf_torrent_file_id f)) []\<rparr>
          else Inl (if rg_torrentFileId t = None then JsError ''Binding requires an exact TorrentFile identity''
            else JsError ''Binding TorrentFile identity disagrees with provider-file mapping''))"
    have only: "g = f" if "g \<in> set (db_provider_files d)" "pf_placement_id g = rg_placementId t" "pf_provider_file_id g = rg_providerFileId t" for g
      using that f unique_byD [OF inventory_invD(3) [OF store_invD(3) [OF inv]], of g f] by (simp add: provider_file_key_def)
    have rhs: "(active_path d item \<noteq> None \<and> (\<exists>g \<in> set (db_provider_files d). pf_placement_id g = rg_placementId t
       \<and> pf_provider_file_id g = rg_providerFileId t \<and> torrent_agrees (rg_torrentFileId t) g)) =
       (active_path d item \<noteq> None \<and> torrent_agrees (rg_torrentFileId t) f)"
      using f only by blast
    show ?thesis
      unfolding rhs
    proof (cases "active_path d item \<noteq> None \<and> torrent_agrees (rg_torrentFileId t) f")
      case False
      then show "is_ok (activate_binding (rq_now opts) uuid ?input d) =
          (active_path d item \<noteq> None \<and> torrent_agrees (rg_torrentFileId t) f)"
        by (auto simp: activate_binding_def check split: option.splits)
    next
      case True
      then obtain path where path: "active_path d item = Some path" by blast
      define a where "a = \<lparr>ac_identity = identity, ac_item_id = item, ac_path_id = lp_id path,
            ac_torrent_file_id = nullish (coalesce (rg_torrentFileId t) (pf_torrent_file_id f)) []\<rparr>"
      have z: "\<exists>tr \<in> set (db_torrent_files d). tf_id tr = ac_torrent_file_id a"
      proof (cases "newest_binding item d")
        case (Some b)
        from binding_torrent [OF inv conjunct1 [OF newest_bindingD [OF Some]]] Some tf show ?thesis
          by (auto simp: a_def)
      next
        case None
        with True tf obtain y where y: "pf_torrent_file_id f = Some y" by (auto simp: torrent_agrees_def)
        with inventory_invD(7) [OF store_invD(3) [OF inv] f(1)] None tf show ?thesis
          by (auto simp: a_def mapping_sound_def)
      qed
      have b: "bd_torrent_file_id b = ac_torrent_file_id a \<and> binding_release b = ac_identity a"
        if "newest_binding (ac_item_id a) d = Some b" for b
        using that same tf by (simp add: a_def)
      from route_step_input(1) [OF t] obtain why where why: "require_string (bix_reason ?input) ''reason'' 1000 = Inr why" ..
      have "bix_expectedBindingVersion ?input = None \<or> (\<exists>b. newest_binding (ac_item_id a) d = Some b
          \<and> bix_expectedBindingVersion ?input = Some (int (bd_version b)))"
        using route_step_input(2) [OF t] cur by (simp add: a_def)
      from commit_passes [OF store_invD(4) [OF inv] z b this why fresh]
      have "is_ok (commit_binding (rq_now opts) uuid ?input a d)" by blast
      with True path show "is_ok (activate_binding (rq_now opts) uuid ?input d) =
          (active_path d item \<noteq> None \<and> torrent_agrees (rg_torrentFileId t) f)"
        by (simp add: activate_binding_def check a_def)
    qed
  qed
qed

end
