(* ===== verification/Control_Plane_Run.thy ===== *)
theory Control_Plane_Run
  imports Route_Acceptance
begin

text \<open>
  The control plane from the empty store to an active binding, as one concrete run: item, path,
  placement, inventory, mapping and exposure, then a snapshot, its plan and the execution of it.
\<close>

section \<open>The run\<close>

definition run_placement :: placement_input where
  "run_placement = sample_placement_input 10 ''ready''\<lparr>plx_expiresAt := Some 1000\<rparr>"

definition run_options :: inventory_options where
  "run_options = \<lparr>io_observedAt = Some 30, io_expiresAt = Some 1000, io_enforceObservationOrder = True,
     io_authoritative = True, io_complete = True, io_evidence = None\<rparr>"

definition run_mapping :: mapping_input where
  "run_mapping = \<lparr>fmx_release = sample_release, fmx_placementId = ''pl_u1'', fmx_providerFileId = ''5'',
     fmx_id = None, fmx_state = None, fmx_method = Some ''exact'', fmx_authoritative = Some True, fmx_evidence = None,
     fmx_mappedAt = None, fmx_failureCategory = None\<rparr>"

definition run_exposure :: exposure_input where
  "run_exposure = \<lparr>exx_placementId = ''pl_u1'', exx_providerFileId = ''5'', exx_accountScope = None,
     exx_mountScope = None, exx_transport = Some ''webdav'', exx_exposureKey = Some ''k'', exx_relativePath = None,
     exx_state = Some ''visible'', exx_readOnly = Some True, exx_observedAt = Some 40, exx_expiresAt = Some 1000,
     exx_id = None, exx_failureCategory = None, exx_retryable = None\<rparr>"

definition control_plane_run :: "db res" where
  "control_plane_run =
     res_bind (ensure_library_item sample_digest 5 sample_item_input empty_db) (\<lambda>(d1, _).
     res_bind (ensure_canonical_path id sample_digest 6 ''p'' sample_item_id (Some ''Movies/T/T.mkv'') None d1) (\<lambda>(d2, _).
     res_bind (record_placement 20 ''u1'' run_placement d2) (\<lambda>(d3, _).
     res_bind (replace_provider_file_inventory 30 (\<lambda>_. ''u1'') ''pl_u1'' [sample_inventory_file ''5'' ''a/b.mkv'' 1000]
         run_options d3) (\<lambda>(d4, _).
     res_bind (record_file_mapping 35 ''u1'' run_mapping d4) (\<lambda>(d5, _).
     res_bind (record_exposure 40 ''u1'' run_exposure d5) (\<lambda>(d6, _). Inr d6))))))"

text \<open>The store that the run leaves.\<close>

definition run_item :: library_item where
  "run_item = \<lparr>li_id = sample_item_id, li_identity_key = ''movie:tt1:default'', li_media_type = Movie,
     li_media_id = ''tt1'', li_edition_key = ''default'', li_title = ''T'', li_year = Some 1999, li_season = None,
     li_episode = None, li_desired_state = DesPresent, li_created_at = 5, li_updated_at = 5,
     li_publication_mode = ''permanent'', li_retire_at = None, li_first_played_at = None, li_last_played_at = None,
     li_max_progress = None, li_profile = ''balanced'', li_intent = ''library'', li_upgrade_policy = ''auto'',
     li_presentation_title = None, li_presentation_year = None, li_presentation_path = None,
     li_presentation_strm_path = None, li_presentation_committed_at = None\<rparr>"

definition run_file :: provider_file where
  "run_file = \<lparr>pf_id = ''pf_u1'', pf_placement_id = ''pl_u1'', pf_provider_file_id = ''5'', pf_path = ''a/b.mkv'',
     pf_name = ''n'', pf_size = Some 1000, pf_selected = None, pf_media_hint = None, pf_corpus_file_index = None,
     pf_present = True, pf_inventory_observed_at = 30, pf_inventory_expires_at = Some 1000,
     pf_missing_since = None, pf_evidence = None, pf_torrent_file_id = Some ''tf_u1'', pf_mapping_state = Mapped,
     pf_mapping_error = None\<rparr>"

definition run_db :: db where
  "run_db = empty_db\<lparr>db_items := [run_item],
     db_paths := [\<lparr>lp_id = ''lp_p'', lp_library_item_id = sample_item_id, lp_canonical_path = ''Movies/T/T.mkv'',
       lp_preferred_path = ''Movies/T/T.mkv'', lp_collision_key = ''movie:tt1:default'', lp_active = True,
       lp_created_at = 6, lp_retired_at = None\<rparr>],
     db_placements := [sample_placement\<lparr>pl_expires_at := Some 1000, pl_created_at := 20, pl_updated_at := 20\<rparr>],
     db_torrent_files := [sample_torrent_file\<lparr>tf_id := ''tf_u1'', tf_created_at := 30\<rparr>],
     db_provider_files := [run_file],
     db_inventories := [\<lparr>iv_placement_id = ''pl_u1'', iv_authoritative = True, iv_complete = True,
       iv_observed_at = 30, iv_expires_at = Some 1000, iv_file_count = 1, iv_evidence = None\<rparr>],
     db_mappings := [\<lparr>fm_id = ''fm_u1'', fm_info_hash = sample_hash, fm_file_index = None,
       fm_release_key = sample_hash @ '':torrent'', fm_placement_id = ''pl_u1'', fm_provider_file_id = ''5'',
       fm_state = CmMapped, fm_method = ''exact'', fm_authoritative = True, fm_evidence = None, fm_mapped_at = 35,
       fm_failure_category = None\<rparr>],
     db_exposures := [\<lparr>ex_id = ''ex_u1'', ex_placement_id = ''pl_u1'', ex_provider_file_id = ''5'',
       ex_account_scope = ''default'', ex_mount_scope = ''default'', ex_transport = ''webdav'', ex_exposure_key = ''k'',
       ex_relative_path = None, ex_state = ExVisible, ex_read_only = True, ex_observed_at = 40,
       ex_expires_at = Some 1000, ex_failure_category = None, ex_retryable = None\<rparr>]\<rparr>"

lemma control_plane_run_ok: "control_plane_run = Inr run_db"
  by code_simp

lemma control_plane_run_steps: "control_plane_run = Inr d \<Longrightarrow> store_step\<^sup>*\<^sup>* empty_db d"
proof -
  assume "control_plane_run = Inr d"
  then obtain d1 d2 d3 d4 d5 r1 r2 r3 r4 r5 r6 where
    s: "ensure_library_item sample_digest 5 sample_item_input empty_db = Inr (d1, r1)"
      "ensure_canonical_path id sample_digest 6 ''p'' sample_item_id (Some ''Movies/T/T.mkv'') None d1 = Inr (d2, r2)"
      "record_placement 20 ''u1'' run_placement d2 = Inr (d3, r3)"
      "replace_provider_file_inventory 30 (\<lambda>_. ''u1'') ''pl_u1'' [sample_inventory_file ''5'' ''a/b.mkv'' 1000]
         run_options d3 = Inr (d4, r4)"
      "record_file_mapping 35 ''u1'' run_mapping d4 = Inr (d5, r5)"
      "record_exposure 40 ''u1'' run_exposure d5 = Inr (d, r6)"
    unfolding control_plane_run_def by (auto simp: res_bind_Inr simp del: append.simps split: prod.splits)
  have id: "id_ok (''tf_'' @ ''u1'')" by code_simp
  have "store_step empty_db d1" "store_step d1 d2" "store_step d2 d3" "store_step d3 d4" "store_step d4 d5" "store_step d5 d"
    using store_step.intros(1) [OF library_step.ls_item [OF s(1)]] store_step.intros(1) [OF library_step.ls_path [OF s(2)]]
      ss_placement [OF s(3)] ss_inventory [OF s(4) id] ss_mapping [OF s(5)] ss_exposure [OF s(6)] by blast+
  then show "store_step\<^sup>*\<^sup>* empty_db d" by (meson rtranclp.rtrancl_refl rtranclp.rtrancl_into_rtrancl)
qed

text \<open>
  C40: Every store that any sequence of operations reaches from the empty one satisfies the whole
  invariant: the keys of all tables are unique, the status tables are consistent, and every row's
  references to other tables, the hash of a binding's torrent file and placement and the account of
  an exposure included, are good. (The ids of new torrent files are short and without white space.)
\<close>

theorem store_reachable_invariant:
  assumes "store_step\<^sup>*\<^sup>* empty_db d"
  shows "library_inv d \<and> placement_inv d \<and> inventory_inv d \<and> binding_inv d \<and> repair_inv d \<and> references_ok d"
  using store_steps_inv [OF assms store_inv_empty] by (simp add: store_inv_def)

theorem store_reachable_invariant_witness:
  "inventory_inv run_db \<and> references_ok run_db"
  using store_reachable_invariant [OF control_plane_run_steps [OF control_plane_run_ok]] by blast

lemma run_db_inv: "store_inv run_db"
  using store_steps_inv [OF control_plane_run_steps [OF control_plane_run_ok] store_inv_empty] .

section \<open>Planning and executing\<close>

definition run_recon :: recon_options where
  "run_recon = \<lparr>rq_now = 100, rq_maxObservationAttempts = 3, rq_reobserveAfterMs = 30000, rq_destructive = False\<rparr>"

definition run_loc :: "string \<Rightarrow> nat list" where
  "run_loc s = [length s]"

definition run_target :: route_target where
  "run_target = RouteTarget ''exact-file-is-usable'' sample_item_id (Some ''lp_p'') (sample_hash @ '':torrent'')
     sample_hash None None ''pl_u1'' ''5'' ''ex_u1'' 0"

definition run_desired_release :: desired_release where
  "run_desired_release = \<lparr>ds_libraryItemId = sample_item_id, ds_libraryPathId = Some ''lp_p'',
     ds_desiredState = Some DesPresent, ds_release = JObj [(''infoHash'', JStr sample_hash), (''fileIndex'', JNull),
       (''releaseKey'', JStr (sample_hash @ '':torrent''))],
     ds_providerFileId = None, ds_providerPreferences = [], ds_providerScope = JUndef,
     ds_exposureScope = JUndef, ds_placementIdempotencyKey = None\<rparr>"

definition run_snapshot :: recon_snapshot where
  "run_snapshot = \<lparr>rn_desired = run_desired_release,
     rn_placements = map (placement_with_dependents run_db) (db_placements run_db), rn_placementObservations = [],
     rn_readinessObservations = [], rn_inventorySnapshots = db_inventories run_db, rn_providerFiles = [run_file],
     rn_mappings = db_mappings run_db, rn_exposures = db_exposures run_db, rn_zurgMetadata = [],
     rn_currentBinding = None\<rparr>"

lemma run_snapshot_ok: "get_reconciliation_snapshot sample_item_id sample_release run_db = Inr run_snapshot"
  by code_simp

definition run_desired :: desired_state_of_item where
  "run_desired = \<lparr>nd_input = run_desired_release,
     nd_identity = \<lparr>ri_infoHash = sample_hash, ri_fileIndex = None, ri_releaseKey = sample_hash @ '':torrent''\<rparr>,
     nd_desiredState = DesPresent, nd_providerScope = None, nd_exposureScope = None,
     nd_placementIdempotencyKey = ''virtual:'' @ sample_item_id @ '':'' @ sample_hash\<rparr>"

lemma run_desired_ok: "normalize_desired run_desired_release = Inr run_desired"
  by code_simp

lemma run_candidate:
  "plan_placement run_loc run_desired run_recon (recon_scope_of run_desired None) run_snapshot
     (placement_with_dependents run_db (hd (db_placements run_db))) = Chosen (BindRoute False run_target)"
  by code_simp

lemma run_plan:
  "plan_reconciliation run_loc run_recon run_snapshot = Inr (finish_plan run_loc run_desired [BindRoute False run_target] [])"
proof (rule plan_single)
  show "normalize_desired (rn_desired run_snapshot) = Inr run_desired" by (simp add: run_snapshot_def run_desired_ok)
  show "plan_placement run_loc run_desired run_recon (recon_scope_of run_desired (rn_currentBinding run_snapshot)) run_snapshot
     (placement_with_dependents run_db (hd (db_placements run_db))) = Chosen (BindRoute False run_target)"
    using run_candidate by (simp add: run_snapshot_def)
  show "rn_placements run_snapshot = [placement_with_dependents run_db (hd (db_placements run_db))]"
    by (simp add: run_snapshot_def run_db_def)
qed code_simp+

lemma run_activation: "is_ok (activate_binding 100 ''z'' (route_input False run_target) run_db)"
  by code_simp

text \<open>
  Later, the bound exposure has expired. The release is mapped to the provider file \<open>i\<close>: to the bound
  one, or to another file of the same placement, with its own torrent file.
\<close>

definition later_binding :: binding where
  "later_binding = sample_binding\<lparr>bd_library_item_id := sample_item_id, bd_library_path_id := ''lp_p'',
     bd_torrent_file_id := ''tf_u1'', bd_exposure_id := ''ex_u1''\<rparr>"

definition later_db :: "string \<Rightarrow> db" where
  "later_db i = run_db\<lparr>db_bindings := [later_binding],
     db_torrent_files := [sample_torrent_file\<lparr>tf_id := ''tf_u1''\<rparr>,
       sample_torrent_file\<lparr>tf_id := ''tf_u2'', tf_internal_path := ''c.mkv''\<rparr>],
     db_provider_files := [run_file, run_file\<lparr>pf_id := ''pf_u2'', pf_provider_file_id := ''6'',
       pf_path := ''c.mkv'', pf_torrent_file_id := Some ''tf_u2''\<rparr>],
     db_mappings := map (\<lambda>m. m\<lparr>fm_provider_file_id := i\<rparr>) (db_mappings run_db),
     db_exposures := map (\<lambda>e. e\<lparr>ex_id := ''ex_u2'', ex_provider_file_id := i\<rparr>) (db_exposures run_db)
       @ map (\<lambda>e. e\<lparr>ex_expires_at := Some 50\<rparr>) (db_exposures run_db)\<rparr>"

definition later_snapshot :: "string \<Rightarrow> recon_snapshot" where
  "later_snapshot i = run_snapshot\<lparr>rn_placements := map (placement_with_dependents (later_db i)) (db_placements run_db),
     rn_providerFiles := db_provider_files (later_db i), rn_mappings := db_mappings (later_db i),
     rn_exposures := db_exposures (later_db i), rn_currentBinding := Some later_binding\<rparr>"

definition later_target :: "string \<Rightarrow> route_target" where
  "later_target i = RouteTarget ''preferred-usable-placement-changed'' sample_item_id (Some ''lp_p'')
     (sample_hash @ '':torrent'') sample_hash None (Some ''tf_u1'') ''pl_u1'' i ''ex_u2'' 1"

lemma valid_identity_code [code]:
  "valid_identity r \<longleftrightarrow> info_hash_pattern (ri_infoHash r)
     \<and> (case ri_fileIndex r of None \<Rightarrow> True | Some i \<Rightarrow> is_safe_integer i \<and> 0 \<le> i)
     \<and> ri_releaseKey r = release_key (ri_infoHash r) (ri_fileIndex r)"
  by (auto simp: valid_identity_def split: option.splits)

lemma binding_ok_code [code]:
  "binding_ok d b \<longleftrightarrow> valid_identity (binding_release b)
     \<and> bd_library_item_id b \<in> item_ids d
     \<and> (bd_library_path_id b, bd_library_item_id b) \<in> path_keys d
     \<and> (bd_torrent_file_id b, bd_info_hash b) \<in> torrent_keys d
     \<and> (\<exists>p \<in> set (db_placements d). pl_id p = bd_placement_id b \<and> pl_info_hash p = bd_info_hash b)
     \<and> (bd_exposure_id b, bd_placement_id b, bd_provider_file_id b) \<in> exposure_keys d"
proof -
  have "(\<exists>a. (i, a, h) \<in> placement_keys d) = (\<exists>p \<in> set (db_placements d). pl_id p = i \<and> pl_info_hash p = h)" for i h
    by (force simp: placement_keys_def)
  then show ?thesis by (simp add: binding_ok_def)
qed

lemma later_inv: "store_inv (later_db ''5'')" "store_inv (later_db ''6'')"
  by code_simp+

lemma later_snapshot_ok:
  "get_reconciliation_snapshot sample_item_id sample_release (later_db ''5'') = Inr (later_snapshot ''5'')"
  "get_reconciliation_snapshot sample_item_id sample_release (later_db ''6'') = Inr (later_snapshot ''6'')"
  by code_simp+

lemma later_candidate:
  "plan_placement run_loc run_desired run_recon (recon_scope_of run_desired (Some later_binding)) (later_snapshot ''5'')
     (placement_with_dependents (later_db ''5'') (hd (db_placements run_db))) = Chosen (BindRoute True (later_target ''5''))"
  "plan_placement run_loc run_desired run_recon (recon_scope_of run_desired (Some later_binding)) (later_snapshot ''6'')
     (placement_with_dependents (later_db ''6'') (hd (db_placements run_db))) = Chosen (BindRoute True (later_target ''6''))"
  by code_simp+

lemma later_satisfied:
  "current_is_satisfied run_desired run_recon [placement_with_dependents (later_db ''5'') (hd (db_placements run_db))]
     (later_snapshot ''5'') = None"
  "current_is_satisfied run_desired run_recon [placement_with_dependents (later_db ''6'') (hd (db_placements run_db))]
     (later_snapshot ''6'') = None"
  by code_simp+

lemma later_plan:
  assumes "plan_placement run_loc run_desired run_recon (recon_scope_of run_desired (Some later_binding)) (later_snapshot i)
     (placement_with_dependents (later_db i) (hd (db_placements run_db))) = Chosen (BindRoute True (later_target i))"
    "current_is_satisfied run_desired run_recon [placement_with_dependents (later_db i) (hd (db_placements run_db))]
       (later_snapshot i) = None"
  shows "plan_reconciliation run_loc run_recon (later_snapshot i) =
    Inr (finish_plan run_loc run_desired [BindRoute True (later_target i)] [])"
proof (rule plan_single [OF _ _ _ _ _ _ assms(2)])
  have fields: "rn_desired (later_snapshot i) = run_desired_release" "rn_currentBinding (later_snapshot i) = Some later_binding"
    by (simp_all add: later_snapshot_def run_snapshot_def)
  show "normalize_desired (rn_desired (later_snapshot i)) = Inr run_desired" by (simp add: fields run_desired_ok)
  show "plan_placement run_loc run_desired run_recon (recon_scope_of run_desired (rn_currentBinding (later_snapshot i)))
      (later_snapshot i) (placement_with_dependents (later_db i) (hd (db_placements run_db))) = Chosen (BindRoute True (later_target i))"
    using assms(1) by (simp add: fields)
  show "rn_placements (later_snapshot i) = [placement_with_dependents (later_db i) (hd (db_placements run_db))]"
    by (simp add: later_snapshot_def run_db_def)
  show "pl_info_hash (rp_row (placement_with_dependents (later_db i) (hd (db_placements run_db)))) =
      sc_infoHash (recon_scope_of run_desired (rn_currentBinding (later_snapshot i)))"
    by (simp add: fields placement_with_dependents_def run_db_def recon_scope_of_def later_binding_def sample_binding_def
        sample_placement_def)
  show "case rn_currentBinding (later_snapshot i) of None \<Rightarrow> True
      | Some b \<Rightarrow> bd_release_key b = ri_releaseKey (nd_identity run_desired)"
    by (simp add: fields run_desired_def later_binding_def sample_binding_def)
qed (simp_all add: run_desired_def)

lemma later_activation:
  "is_ok (activate_binding 100 ''z'' (route_input True (later_target ''5'')) (later_db ''5''))"
  "activate_binding 100 ''z'' (route_input True (later_target ''6'')) (later_db ''6'') =
     Inl (JsError ''Binding TorrentFile identity disagrees with provider-file mapping'')"
  by code_simp+

text \<open>
  C39: The planner never compares torrent files. Let it plan a route for an item with an active path whose
  newest binding names another torrent file than the provider file of the route. Executing the plan on the
  store of its snapshot at the planned time throws and leaves the store as it was, whatever other actions
  the plan has; so the next plan, as long as the evidence stays, is refused just so.
\<close>

theorem planned_rebind_refused:
  assumes inv: "store_inv d" and snap: "get_reconciliation_snapshot item release d = Inr snap"
    and plan: "plan_reconciliation loc opts snap = Inr plan" "BindRoute rebind t \<in> set (rl_actions plan)"
    and path: "active_path d item \<noteq> None" and bound: "newest_binding item d = Some b"
    and f: "f \<in> set (db_provider_files d)" "pf_placement_id f = rg_placementId t" "pf_provider_file_id f = rg_providerFileId t"
    and other: "pf_torrent_file_id f = Some x" "x \<noteq> bd_torrent_file_id b"
  shows "execute_reconciliation (rq_now opts) uuid plan d =
    (d, Inl (JsError ''Binding TorrentFile identity disagrees with provider-file mapping''))"
proof -
  let ?e = "JsError ''Binding TorrentFile identity disagrees with provider-file mapping''"
  from plan_effective [OF plan] obtain desired row m g e where r: "planned_route loc opts snap desired row m g e"
    and t: "BindRoute rebind t = route_step desired (recon_scope_of desired (rn_currentBinding snap)) (rn_currentBinding snap)
        (pl_id row) g e" and one: "\<forall>x \<in> set (rl_actions plan). effective x \<longrightarrow> x = BindRoute rebind t" by auto
  from inv snap r t have "check_activation (rq_now opts) (route_input rebind t) d = Inl ?e"
  proof (rule planned_check)
    fix identity
    assume tf: "rg_torrentFileId t = map_option bd_torrent_file_id (newest_binding item d)"
      and g: "g \<in> set (db_provider_files d)" "pf_placement_id g = rg_placementId t" "pf_provider_file_id g = rg_providerFileId t"
      and check: "check_activation (rq_now opts) (route_input rebind t) d = (case active_path d item of
        None \<Rightarrow> Inl (JsError ''Active canonical path does not belong to library item'')
      | Some path \<Rightarrow> if torrent_agrees (rg_torrentFileId t) g
          then Inr \<lparr>ac_identity = identity, ac_item_id = item, ac_path_id = lp_id path,
            ac_torrent_file_id = nullish (coalesce (rg_torrentFileId t) (pf_torrent_file_id g)) []\<rparr>
          else Inl (if rg_torrentFileId t = None then JsError ''Binding requires an exact TorrentFile identity''
            else JsError ''Binding TorrentFile identity disagrees with provider-file mapping''))"
    have "g = f"
      using f g unique_byD [OF inventory_invD(3) [OF store_invD(3) [OF inv]], of g f] by (simp add: provider_file_key_def)
    with other tf bound have "\<not> torrent_agrees (rg_torrentFileId t) g" "rg_torrentFileId t \<noteq> None"
      by (simp_all add: torrent_agrees_def)
    with check path show ?thesis by auto
  qed
  then have "execute_action (rq_now opts) i (BindRoute rebind t) d = Inl ?e" for i by (simp add: activate_binding_def)
  from execute_actions_stops [OF plan(2) one this] show ?thesis by (simp add: execute_reconciliation_def)
qed

theorem planned_rebind_refused_witness:
  "\<exists>plan. plan_reconciliation run_loc run_recon (later_snapshot ''6'') = Inr plan \<and>
     execute_reconciliation 100 (\<lambda>_. ''z'') plan (later_db ''6'') =
       (later_db ''6'', Inl (JsError ''Binding TorrentFile identity disagrees with provider-file mapping''))"
proof -
  let ?plan = "finish_plan run_loc run_desired [BindRoute True (later_target ''6'')] []"
  let ?f = "run_file\<lparr>pf_id := ''pf_u2'', pf_provider_file_id := ''6'', pf_path := ''c.mkv'', pf_torrent_file_id := Some ''tf_u2''\<rparr>"
  note plan = later_plan [OF later_candidate(2) later_satisfied(2)]
  have a: "BindRoute True (later_target ''6'') \<in> set (rl_actions ?plan)" by (simp add: finish_single)
  have f: "?f \<in> set (db_provider_files (later_db ''6''))" "pf_placement_id ?f = rg_placementId (later_target ''6'')"
    "pf_provider_file_id ?f = rg_providerFileId (later_target ''6'')" "pf_torrent_file_id ?f = Some ''tf_u2''"
    by (simp_all add: later_db_def run_file_def later_target_def)
  have b: "newest_binding sample_item_id (later_db ''6'') = Some later_binding"
    "active_path (later_db ''6'') sample_item_id \<noteq> None" "''tf_u2'' \<noteq> bd_torrent_file_id later_binding" "rq_now run_recon = 100"
    by code_simp+
  from planned_rebind_refused [OF later_inv(2) later_snapshot_ok(2) plan a b(2,1) f b(3), of "\<lambda>_. ''z''"] plan b(4)
  show ?thesis by simp
qed

text \<open>
  C37: Executing a plan of the reconciler, made from any snapshot however old, on any store whose
  binding table is in order, keeps the torrent file of every item that has an active binding before
  and after; and the binding table stays in order.
\<close>

theorem reconciliation_keeps_representation:
  assumes "plan_reconciliation loc opts input = Inr plan" "binding_inv d"
    and "d' = fst (execute_reconciliation now uuid plan d)"
  shows "binding_inv d' \<and> (\<forall>item b b'. active_binding item d = Some b \<longrightarrow> active_binding item d' = Some b' \<longrightarrow>
    bd_torrent_file_id b' = bd_torrent_file_id b)"
  using executed_plan_keeps_representation [OF assms] .

text \<open>
  C38: A route that the reconciler plans from a snapshot of the store, carried out at the planned time
  with a fresh id, is accepted by \<open>activateBinding\<close> if and only if the item has an active path and
  the provider file of the route agrees with the torrent file of the item's newest binding (with no
  binding, has a torrent file at all); every other guard is known to hold.
\<close>

theorem planned_route_accepted_iff:
  assumes inv: "store_inv d" and snap: "get_reconciliation_snapshot item release d = Inr snap"
    and plan: "plan_reconciliation loc opts snap = Inr plan" "BindRoute rebind t \<in> set (rl_actions plan)"
    and fresh: "\<forall>b \<in> set (db_bindings d). bd_id b \<noteq> ''bd_'' @ uuid"
  shows "is_ok (activate_binding (rq_now opts) uuid (route_input rebind t) d) \<longleftrightarrow>
    active_path d item \<noteq> None \<and>
    (\<exists>f \<in> set (db_provider_files d). pf_placement_id f = rg_placementId t
       \<and> pf_provider_file_id f = rg_providerFileId t \<and> torrent_agrees (rg_torrentFileId t) f)"
  using planned_route_accepted [OF assms] .

theorem planned_route_accepted_iff_witness:
  "active_path (later_db ''5'') sample_item_id \<noteq> None
    \<and> \<not> (\<exists>f \<in> set (db_provider_files (later_db ''6'')). pf_placement_id f = ''pl_u1''
       \<and> pf_provider_file_id f = ''6'' \<and> torrent_agrees (Some ''tf_u1'') f)"
proof -
  have fresh: "\<forall>b \<in> set (db_bindings (later_db i)). bd_id b \<noteq> ''bd_'' @ ''z''" for i
    by (simp add: later_db_def later_binding_def sample_binding_def)
  have t: "rg_placementId (later_target i) = ''pl_u1''" "rg_providerFileId (later_target i) = i"
      "rg_torrentFileId (later_target i) = Some ''tf_u1''" "rq_now run_recon = 100" for i
    by (simp_all add: later_target_def run_recon_def)
  have "BindRoute True (later_target i) \<in> set (rl_actions (finish_plan run_loc run_desired [BindRoute True (later_target i)] []))" for i
    by (simp add: finish_single)
  note iff5 = planned_route_accepted_iff [OF later_inv(1) later_snapshot_ok(1) later_plan [OF later_candidate(1) later_satisfied(1)] this fresh]
    and iff6 = planned_route_accepted_iff [OF later_inv(2) later_snapshot_ok(2) later_plan [OF later_candidate(2) later_satisfied(2)] this fresh]
  have "active_path (later_db ''6'') sample_item_id \<noteq> None" by code_simp
  with iff5 iff6 later_activation show ?thesis by (simp add: t)
qed

theorem reconciliation_keeps_representation_witness:
  "\<exists>d' b'. activate_binding 100 ''z'' (route_input True (later_target ''5'')) (later_db ''5'') = Inr (d', b')
     \<and> map_option bd_torrent_file_id (active_binding sample_item_id d') = Some ''tf_u1''"
proof -
  have act: "case activate_binding 100 ''z'' (route_input True (later_target ''5'')) (later_db ''5'') of
      Inl _ \<Rightarrow> False | Inr (d', b') \<Rightarrow> active_binding sample_item_id d' \<noteq> None" by code_simp
  then obtain d' b' b'' where r: "activate_binding 100 ''z'' (route_input True (later_target ''5'')) (later_db ''5'') = Inr (d', b')"
      "active_binding sample_item_id d' = Some b''" by (auto split: sum.splits)
  have before: "active_binding sample_item_id (later_db ''5'') = Some later_binding" by code_simp
  have tf: "bd_torrent_file_id later_binding = ''tf_u1''" by (simp add: later_binding_def)
  let ?plan = "finish_plan run_loc run_desired [BindRoute True (later_target ''5'')] []"
  have "d' = fst (execute_reconciliation 100 (\<lambda>_. ''z'') ?plan (later_db ''5''))"
    using r(1) by (simp add: execute_reconciliation_def finish_single Let_def)
  from reconciliation_keeps_representation [OF later_plan [OF later_candidate(1) later_satisfied(1)]
      store_invD(4) [OF later_inv(1)] this] before r tf
  show ?thesis by auto
qed

end
