(* ===== verification/Store_Run.thy ===== *)
theory Store_Run
  imports Store_Repair
begin

text \<open>
  Code that calls the store several times. Each store operation is a transaction of its own, so
  when a later call throws the earlier ones keep their effect: a run returns the database in every
  case, next to its value or the error it throws.
\<close>

type_synonym 'a run = "db \<Rightarrow> db \<times> 'a res"

definition give :: "'a res \<Rightarrow> 'a run" where
  "give r d = (d, r)"

text \<open>A query, and a transaction: when it throws it is rolled back.\<close>

definition look :: "(db \<Rightarrow> 'a res) \<Rightarrow> 'a run" where
  "look q d = (d, q d)"

definition transact :: "(db \<Rightarrow> (db \<times> 'a) res) \<Rightarrow> 'a run" where
  "transact f d = (case f d of Inl e \<Rightarrow> (d, Inl e) | Inr (d', x) \<Rightarrow> (d', Inr x))"

definition run_bind :: "'a run \<Rightarrow> ('a \<Rightarrow> 'b run) \<Rightarrow> 'b run" where
  "run_bind m f d = (case m d of (d', Inl e) \<Rightarrow> (d', Inl e) | (d', Inr x) \<Rightarrow> f x d')"

text \<open>\<open>try ... catch\<close>: the handler sees the database as the failed block left it.\<close>

definition run_catch :: "'a run \<Rightarrow> (js_error \<Rightarrow> 'a run) \<Rightarrow> 'a run" where
  "run_catch m h d = (case m d of (d', Inl e) \<Rightarrow> h e d' | (d', Inr x) \<Rightarrow> (d', Inr x))"

lemma give_run [simp]: "give r d = (d, r)"
  by (simp add: give_def)

lemma look_run [simp]: "look q d = (d, q d)"
  by (simp add: look_def)

lemma run_bind_give [simp]:
  "run_bind (give (Inr x)) f = f x" "run_bind (give (Inl e)) f = give (Inl e)"
  by (auto simp: run_bind_def give_def)

lemma run_bind_Inr:
  "(run_bind m f d = (d', Inr y)) = (\<exists>d1 x. m d = (d1, Inr x) \<and> f x d1 = (d', Inr y))"
  by (auto simp: run_bind_def split: prod.splits sum.splits)

lemma run_bind_Inl:
  "(run_bind m f d = (d', Inl e)) = (m d = (d', Inl e) \<or> (\<exists>d1 x. m d = (d1, Inr x) \<and> f x d1 = (d', Inl e)))"
  by (auto simp: run_bind_def split: prod.splits sum.splits)

lemma transact_Inr: "(transact f d = (d', Inr x)) = (f d = Inr (d', x))"
  by (auto simp: transact_def split: sum.splits)

lemma transact_Inl: "(transact f d = (d', Inl e)) = (f d = Inl e \<and> d' = d)"
  by (auto simp: transact_def split: sum.splits)

lemma run_catch_Inr:
  "(run_catch m h d = (d', Inr x)) = (m d = (d', Inr x) \<or> (\<exists>d1 e. m d = (d1, Inl e) \<and> h e d1 = (d', Inr x)))"
  by (auto simp: run_catch_def split: prod.splits sum.splits)

lemmas run_Inr = run_bind_Inr transact_Inr run_catch_Inr give_run look_run

section \<open>Relations that runs keep\<close>

text \<open>
  A relation between the database before and after that holds of doing nothing and composes. A run
  whose store operations are in it is in it, on success and on failure.
\<close>

locale run_relation =
  fixes R :: "db \<Rightarrow> db \<Rightarrow> bool"
  assumes stay: "R d d"
    and compose: "R a b \<Longrightarrow> R b c \<Longrightarrow> R a c"
begin

lemma keep_give: "R d (fst (give r d))"
  by (simp add: stay)

lemma keep_look: "R d (fst (look q d))"
  by (simp add: stay)

lemma keep_transact: "(\<And>d' x. f d = Inr (d', x) \<Longrightarrow> R d d') \<Longrightarrow> R d (fst (transact f d))"
  by (auto simp: transact_def stay split: sum.splits)

lemma keep_bind:
  "R d (fst (m d)) \<Longrightarrow> (\<And>x d1. m d = (d1, Inr x) \<Longrightarrow> R d1 (fst (f x d1))) \<Longrightarrow> R d (fst (run_bind m f d))"
  by (cases "m d"; cases "snd (m d)") (auto simp: run_bind_def intro: compose)

lemma keep_catch:
  "R d (fst (m d)) \<Longrightarrow> (\<And>e d1. m d = (d1, Inl e) \<Longrightarrow> R d1 (fst (h e d1))) \<Longrightarrow> R d (fst (run_catch m h d))"
  by (cases "m d"; cases "snd (m d)") (auto simp: run_catch_def intro: compose)

lemma keep_option:
  "(x = None \<Longrightarrow> R d (fst (a d))) \<Longrightarrow> (\<And>y. x = Some y \<Longrightarrow> R d (fst (b y d)))
    \<Longrightarrow> R d (fst ((case x of None \<Rightarrow> a | Some y \<Rightarrow> b y) d))"
  by (cases x) auto

lemma keep_if: "(c \<Longrightarrow> R d (fst (a d))) \<Longrightarrow> (\<not> c \<Longrightarrow> R d (fst (b d))) \<Longrightarrow> R d (fst ((if c then a else b) d))"
  by simp

lemma keep_single:
  "(\<And>x. xs = [x] \<Longrightarrow> R d (fst (a x d))) \<Longrightarrow> R d (fst (b d)) \<Longrightarrow> R d (fst ((case xs of [x] \<Rightarrow> a x | _ \<Rightarrow> b) d))"
  by (auto split: list.splits)

end

end
