(* ===== verification/Rd_Zurg_Slice.thy ===== *)
theory Rd_Zurg_Slice
  imports Store_Run Reconciler
begin

text \<open>
  The Real-Debrid and Zurg slice of the control plane, \<open>control-plane/rd-zurg-slice.js\<close>: operations
  that ask an adapter and record what it reports, and the projection of a snapshot onto the facts of
  one account, Zurg instance and mount. The provider adapter, the metadata observer and the exposure
  adapter are injected, a \<open>gateway\<close> here: functions from a request to the report or the error, with
  the clock and the ids that the store uses meanwhile. Of a context the adapters see nothing else.
\<close>

section \<open>Adapters\<close>

record inventory_report =
  ir_provider :: string
  ir_accountScope :: string
  ir_providerResourceId :: string
  ir_authoritative :: bool
  ir_complete :: bool
  ir_files :: "inventory_file list"
  ir_observedAt :: "int option"
  ir_expiresAt :: "int option"
  ir_evidence :: "string option"

record exposure_report =
  er_provider :: string
  er_accountScope :: string
  er_providerResourceId :: string
  er_observation :: exposure_input

type_synonym mutation_result = "(string \<times> jv) list option"

text \<open>
  A capability that the adapter lacks is \<open>None\<close>. The exposure adapter and the metadata observer may
  also be missing. The mutations get the idempotency key of the attempt.
\<close>

record gateway =
  gw_lookup :: "(release_identity \<Rightarrow> placement_input option res) option"
  gw_readiness :: "(release_identity \<Rightarrow> string \<Rightarrow> ownership \<Rightarrow> string option \<Rightarrow> placement_input res) option"
  gw_inventory :: "(string \<Rightarrow> inventory_report res) option"
  gw_select :: "(release_identity \<Rightarrow> string \<Rightarrow> string list \<Rightarrow> string \<Rightarrow> mutation_result res) option"
  gw_repair :: "(release_identity \<Rightarrow> string \<Rightarrow> string \<Rightarrow> string \<Rightarrow> mutation_result res) option"
  gw_metadata :: "(string \<Rightarrow> string \<Rightarrow> zurg_input res) option"
  gw_exposure :: "(string \<Rightarrow> string \<Rightarrow> string \<Rightarrow> exposure_report res) option option"
  gw_now :: int
  gw_uuid :: "nat \<Rightarrow> string"

definition require_capability :: "'a option \<Rightarrow> 'a res" where
  "require_capability c = (case c of
      None \<Rightarrow> Inl (CategoryError ''UnsupportedProviderCapabilityError''
        ''realdebrid does not implement provider capability'' ''unsupported'' False)
    | Some f \<Rightarrow> Inr f)"

record slice_context =
  cn_now :: "int option"
  cn_observedAt :: "int option"
  cn_expiresAt :: "int option"
  cn_metadataPath :: "string option"
  cn_relativePath :: "string option"
  cn_resume :: bool

section \<open>Resources\<close>

record slice_resource =
  sr_infoHash :: "string option"
  sr_provider :: "string option"
  sr_accountScope :: "string option"
  sr_providerResourceId :: "string option"

definition resource_of :: "placement \<Rightarrow> slice_resource" where
  "resource_of p = \<lparr>sr_infoHash = Some (pl_info_hash p), sr_provider = Some (pl_provider p),
     sr_accountScope = Some (pl_account_scope p), sr_providerResourceId = Some (pl_provider_resource_id p)\<rparr>"

definition assert_resource_identity :: "slice_resource \<Rightarrow> release_identity \<Rightarrow> unit res" where
  "assert_resource_identity resource identity =
     ensure (case sr_infoHash resource of None \<Rightarrow> True | Some h \<Rightarrow> js_lower h = ri_infoHash identity)
       (JsError ''Real-Debrid resource hash does not match canonical release hash'')"

definition assert_resource_scope :: "slice_resource \<Rightarrow> string \<Rightarrow> unit res" where
  "assert_resource_scope resource account =
     res_bind (ensure (nullish (sr_provider resource) ''realdebrid'' = ''realdebrid'')
        (JsError ''Provider resource belongs to a different provider'')) (\<lambda>_.
     res_bind (ensure (nullish (sr_accountScope resource) account = account)
        (JsError ''Provider resource belongs to a different account scope'')) (\<lambda>_.
     res_bind (require_string (sr_providerResourceId resource) ''providerResourceId'' 1000) (\<lambda>_. Inr ())))"

definition require_observed_at :: "slice_context \<Rightarrow> int res" where
  "require_observed_at context = (case cn_observedAt context of
      None \<Rightarrow> Inl (TypeError ''Missing placement observation requires context.observedAt'')
    | Some t \<Rightarrow> if is_safe_integer t \<and> 0 \<le> t then Inr t
        else Inl (TypeError ''Missing placement observation requires context.observedAt''))"

definition require_expires_at :: "slice_context \<Rightarrow> int \<Rightarrow> int res" where
  "require_expires_at context observedAt = (case cn_expiresAt context of
      None \<Rightarrow> Inl (TypeError ''Missing placement observation requires a future context.expiresAt'')
    | Some t \<Rightarrow> if is_safe_integer t \<and> observedAt < t then Inr t
        else Inl (TypeError ''Missing placement observation requires a future context.expiresAt''))"

definition require_stored_placement :: "string \<Rightarrow> slice_resource \<Rightarrow> db \<Rightarrow> placement res" where
  "require_stored_placement account resource d =
     res_bind (find_placement (Some ''realdebrid'') (Some account) (sr_providerResourceId resource) d) (\<lambda>found.
     case found of None \<Rightarrow> Inl (JsError ''Real-Debrid placement has not been ingested'') | Some p \<Rightarrow> Inr p)"

definition require_stored_provider_file :: "string \<Rightarrow> string \<Rightarrow> db \<Rightarrow> provider_file res" where
  "require_stored_provider_file placementId providerFileId d =
     (case find (\<lambda>f. pf_provider_file_id f = providerFileId) (list_provider_files placementId False d) of
        None \<Rightarrow> Inl (JsError ''Provider file is not present in authoritative placement inventory'')
      | Some f \<Rightarrow> Inr f)"

definition assert_placement_observation_scope :: "placement_input \<Rightarrow> placement \<Rightarrow> unit res" where
  "assert_placement_observation_scope observation placement =
     ensure (plx_provider observation = Some (pl_provider placement)
        \<and> plx_accountScope observation = Some (pl_account_scope placement)
        \<and> plx_infoHash observation = JStr (pl_info_hash placement)
        \<and> plx_resourceId observation = Some (pl_provider_resource_id placement))
       (JsError ''Readiness observation scope does not match its placement'')"

definition assert_inventory_scope :: "inventory_report \<Rightarrow> placement \<Rightarrow> unit res" where
  "assert_inventory_scope inventory placement =
     ensure (ir_provider inventory = pl_provider placement
        \<and> ir_accountScope inventory = pl_account_scope placement
        \<and> ir_providerResourceId inventory = pl_provider_resource_id placement)
       (JsError ''Provider inventory scope does not match its placement'')"

definition assert_exposure_scope :: "exposure_report \<Rightarrow> placement \<Rightarrow> unit res" where
  "assert_exposure_scope observation placement =
     ensure (er_provider observation = pl_provider placement
        \<and> er_accountScope observation = pl_account_scope placement
        \<and> er_providerResourceId observation = pl_provider_resource_id placement)
       (JsError ''Exposure scope does not match its provider placement'')"

section \<open>Observations\<close>

definition observe_placement :: "string \<Rightarrow> gateway \<Rightarrow> slice_context \<Rightarrow> jv \<Rightarrow> placement option run" where
  "observe_placement account gw context release =
     run_bind (give (validate_release_identity release)) (\<lambda>identity.
     run_bind (give (require_capability (gw_lookup gw))) (\<lambda>lookupPlacement.
     run_bind (give (lookupPlacement identity)) (\<lambda>observation.
     run_bind (give (case Option.bind observation plx_observedAt of
         None \<Rightarrow> require_observed_at context | Some t \<Rightarrow> Inr t)) (\<lambda>observedAt.
     run_bind (give (case Option.bind observation plx_expiresAt of
         None \<Rightarrow> require_expires_at context observedAt | Some t \<Rightarrow> Inr t)) (\<lambda>expiresAt.
     case observation of
       None \<Rightarrow> run_bind (transact (record_placement_lookup_observation (gw_uuid gw 0)
           \<lparr>lkx_infoHash = JStr (ri_infoHash identity), lkx_provider = Some ''realdebrid'',
            lkx_accountScope = Some account, lkx_state = ''missing'', lkx_observedAt = Some observedAt,
            lkx_expiresAt = Some expiresAt, lkx_placementId = None, lkx_id = None,
            lkx_source = Some ''realdebrid-gateway:lookup-placement'', lkx_failureCategory = None,
            lkx_retryable = None\<rparr>)) (\<lambda>_. give (Inr None))
     | Some seen \<Rightarrow>
         run_bind (transact (record_placement (gw_now gw) (gw_uuid gw 0) seen)) (\<lambda>stored.
         case stored of None \<Rightarrow> give (Inl (TypeError ''placement'')) | Some placement \<Rightarrow>
         run_bind (transact (record_placement_lookup_observation (gw_uuid gw 0)
           \<lparr>lkx_infoHash = JStr (pl_info_hash placement), lkx_provider = Some (pl_provider placement),
            lkx_accountScope = Some (pl_account_scope placement), lkx_state = ''present'',
            lkx_observedAt = Some observedAt, lkx_expiresAt = Some expiresAt,
            lkx_placementId = Some (pl_id placement), lkx_id = None, lkx_source = plx_provenance seen,
            lkx_failureCategory = plx_failureCategory seen, lkx_retryable = plx_retryable seen\<rparr>)) (\<lambda>_.
         give (Inr (Some placement)))))))))"

definition observe_readiness :: "string \<Rightarrow> gateway \<Rightarrow> jv \<Rightarrow> slice_resource \<Rightarrow> placement run" where
  "observe_readiness account gw release resource =
     run_bind (give (validate_release_identity release)) (\<lambda>identity.
     run_bind (give (assert_resource_identity resource identity)) (\<lambda>_.
     run_bind (give (assert_resource_scope resource account)) (\<lambda>_.
     run_bind (look (require_stored_placement account resource)) (\<lambda>stored.
     run_bind (give (require_capability (gw_readiness gw))) (\<lambda>observeReadiness.
     run_bind (give (observeReadiness identity (nullish (sr_providerResourceId resource) [])
        (pl_ownership stored) (pl_owner_key stored))) (\<lambda>observation.
     run_bind (give (assert_placement_observation_scope observation stored)) (\<lambda>_.
     run_bind (transact (record_readiness_observation
        \<lparr>rdx_placementId = pl_id stored, rdx_observedAt = plx_observedAt observation,
         rdx_expiresAt = plx_expiresAt observation, rdx_state = nullish (plx_state observation) [],
         rdx_source = plx_provenance observation, rdx_failureCategory = plx_failureCategory observation,
         rdx_retryable = plx_retryable observation\<rparr>)) (\<lambda>_.
       give (Inr stored)))))))))"

definition observe_inventory :: "string \<Rightarrow> gateway \<Rightarrow> slice_resource \<Rightarrow> inventory_snapshot option run" where
  "observe_inventory account gw resource =
     run_bind (give (assert_resource_scope resource account)) (\<lambda>_.
     run_bind (look (require_stored_placement account resource)) (\<lambda>placement.
     run_bind (give (require_capability (gw_inventory gw))) (\<lambda>getFileInventory.
     run_bind (give (getFileInventory (pl_provider_resource_id placement))) (\<lambda>observation.
     run_bind (give (assert_inventory_scope observation placement)) (\<lambda>_.
     run_bind (give (ensure (ir_authoritative observation \<and> ir_complete observation)
        (JsError ''Control-plane inventory ingestion requires an authoritative complete snapshot''))) (\<lambda>_.
     run_bind (transact (replace_provider_file_inventory (gw_now gw) (gw_uuid gw) (pl_id placement) (ir_files observation)
        \<lparr>io_observedAt = ir_observedAt observation, io_expiresAt = ir_expiresAt observation,
         io_enforceObservationOrder = True, io_authoritative = ir_authoritative observation,
         io_complete = ir_complete observation, io_evidence = ir_evidence observation\<rparr>)) (\<lambda>_.
     look (\<lambda>d. Inr (get_provider_inventory_snapshot (pl_id placement) d)))))))))"

definition observe_zurg_metadata :: "string \<Rightarrow> gateway \<Rightarrow> jv \<Rightarrow> string \<Rightarrow> zurg_observation option run" where
  "observe_zurg_metadata account gw release metadataPath =
     (case gw_metadata gw of
        None \<Rightarrow> give (Inl (TypeError ''Zurg metadata observer is not configured''))
      | Some observeMetadata \<Rightarrow>
     run_bind (give (validate_release_identity release)) (\<lambda>identity.
     run_bind (give (observeMetadata (ri_infoHash identity) metadataPath)) (\<lambda>observation.
     run_bind (give (ensure (zmx_provider observation = Some ''realdebrid''
          \<and> zmx_accountScope observation = Some account \<and> zmx_infoHash observation = JStr (ri_infoHash identity))
        (JsError ''Zurg metadata scope does not match the canonical RD release''))) (\<lambda>_.
     transact (record_zurg_metadata_observation (gw_uuid gw 0) observation)))))"

definition observe_exposure ::
  "string \<Rightarrow> gateway \<Rightarrow> jv \<Rightarrow> slice_resource \<Rightarrow> string \<Rightarrow> string \<Rightarrow> exposure option run" where
  "observe_exposure account gw release resource fileId relativePath =
     (case gw_exposure gw of
        None \<Rightarrow> give (Inl (TypeError ''Zurg filesystem exposure observer is not configured''))
      | Some capability \<Rightarrow>
     run_bind (give (validate_release_identity release)) (\<lambda>identity.
     run_bind (give (assert_resource_identity resource identity)) (\<lambda>_.
     run_bind (give (assert_resource_scope resource account)) (\<lambda>_.
     run_bind (look (require_stored_placement account resource)) (\<lambda>placement.
     run_bind (look (require_stored_provider_file (pl_id placement) fileId)) (\<lambda>providerFile.
     run_bind (give (require_capability capability)) (\<lambda>observeExposure.
     run_bind (give (observeExposure (pl_provider_resource_id placement) (pf_provider_file_id providerFile)
        relativePath)) (\<lambda>observation.
     run_bind (give (assert_exposure_scope observation placement)) (\<lambda>_.
     transact (record_exposure (gw_now gw) (gw_uuid gw 0)
       ((er_observation observation)\<lparr>exx_placementId := pl_id placement\<rparr>)))))))))))"

text \<open>\<open>freshness\<close> of an observation with the expiry \<open>e\<close>, and \<open>isFresh\<close>.\<close>

definition freshness_of :: "int option \<Rightarrow> int \<Rightarrow> string" where
  "freshness_of e now = (case e of None \<Rightarrow> ''unbounded''
     | Some t \<Rightarrow> if \<not> is_safe_integer t then ''unbounded'' else if t > now then ''fresh'' else ''stale'')"

definition map_exact_file ::
  "string \<Rightarrow> gateway \<Rightarrow> jv \<Rightarrow> slice_resource \<Rightarrow> string \<Rightarrow> int option \<Rightarrow> int option \<Rightarrow> file_mapping option run" where
  "map_exact_file account gw release resource providerFileId now mappedAt =
     run_bind (give (validate_release_identity release)) (\<lambda>identity.
     run_bind (give (assert_resource_identity resource identity)) (\<lambda>_.
     run_bind (give (assert_resource_scope resource account)) (\<lambda>_.
     run_bind (look (require_stored_placement account resource)) (\<lambda>placement.
     run_bind (look (\<lambda>d. case get_provider_inventory_snapshot (pl_id placement) d of
         None \<Rightarrow> Inl (JsError ''Exact file mapping requires an authoritative complete inventory snapshot'')
       | Some s \<Rightarrow> if iv_authoritative s \<and> iv_complete s then Inr s
           else Inl (JsError ''Exact file mapping requires an authoritative complete inventory snapshot''))) (\<lambda>snapshot.
     run_bind (give (ensure (freshness_of (iv_expires_at snapshot) (nullish now (gw_now gw)) = ''fresh'')
        (JsError ''Exact file mapping requires a fresh bounded inventory snapshot''))) (\<lambda>_.
     run_bind (look (\<lambda>d. Inr (list_provider_files (pl_id placement) False d))) (\<lambda>inventory.
     run_bind (give (case choose_exact_provider_file None identity inventory None of
         FileMapped reason f ev \<Rightarrow> if pf_provider_file_id f = providerFileId then Inr ev
           else Inl (JsError ''Provider file does not uniquely match canonical fileIndex'')
       | FileFailed c ev \<Rightarrow> Inl (JsError ''Provider file does not uniquely match canonical fileIndex''))) (\<lambda>evidence.
     transact (record_file_mapping (gw_now gw) (gw_uuid gw 0)
        \<lparr>fmx_release = JObj (identity_entries identity), fmx_placementId = pl_id placement,
         fmx_providerFileId = providerFileId, fmx_id = None, fmx_state = Some ''mapped'',
         fmx_method = Some ''provider-confirmed-corpus-index'', fmx_authoritative = Some True,
         fmx_evidence = Some (json_text evidence), fmx_mappedAt = mappedAt,
         fmx_failureCategory = None\<rparr>)))))))))"

record slice_binding_input =
  sb_libraryItemId :: string
  sb_libraryPathId :: "string option"
  sb_release :: jv
  sb_resource :: slice_resource
  sb_providerFileId :: string
  sb_exposureId :: string
  sb_expectedBindingVersion :: "int option"
  sb_reason :: "string option"

definition slice_activate_binding :: "string \<Rightarrow> gateway \<Rightarrow> slice_binding_input \<Rightarrow> binding run" where
  "slice_activate_binding account gw input =
     run_bind (give (validate_release_identity (sb_release input))) (\<lambda>identity.
     run_bind (give (assert_resource_identity (sb_resource input) identity)) (\<lambda>_.
     run_bind (give (assert_resource_scope (sb_resource input) account)) (\<lambda>_.
     run_bind (look (require_stored_placement account (sb_resource input))) (\<lambda>placement.
     run_bind (look (require_stored_provider_file (pl_id placement) (sb_providerFileId input))) (\<lambda>_.
     run_bind (give (require_string (sb_reason input) ''reason'' 1000)) (\<lambda>reason.
     transact (activate_binding (gw_now gw) (gw_uuid gw 0)
        \<lparr>bix_release = JObj (identity_entries identity), bix_libraryItemId = sb_libraryItemId input,
         bix_libraryPathId = nullish (sb_libraryPathId input) [], bix_placementId = pl_id placement,
         bix_providerFileId = sb_providerFileId input, bix_exposureId = sb_exposureId input,
         bix_torrentFileId = None, bix_expectedBindingVersion = sb_expectedBindingVersion input,
         bix_representationReason = None, bix_reason = Some reason, bix_failureCategory = None\<rparr>)))))))"

definition slice_state :: "string \<Rightarrow> jv \<Rightarrow> db \<Rightarrow> recon_snapshot res" where
  "slice_state libraryItemId release d =
     res_bind (validate_release_identity release) (\<lambda>identity.
       get_reconciliation_snapshot libraryItemId (JObj (identity_entries identity)) d)"

end
