(* ===== verification/Rd_Zurg_Projection.thy ===== *)
theory Rd_Zurg_Projection
  imports Rd_Zurg_Slice
begin

text \<open>
  \<open>projectRdZurgLifecycle\<close> of \<open>control-plane/rd-zurg-slice.js\<close>: the facts that a snapshot and the
  lifecycle of an item give for one account, Zurg instance and mount. A fact is a JavaScript object,
  because the repair planner filters its properties by name and digests the result.
\<close>

section \<open>Enumerations as text\<close>

definition observation_state_text :: "observation_state \<Rightarrow> string" where
  "observation_state_text s = (case s of ObPresent \<Rightarrow> ''present'' | ObMissing \<Rightarrow> ''missing'' | ObError \<Rightarrow> ''error'')"

definition placement_state_text :: "placement_state \<Rightarrow> string" where
  "placement_state_text s = (case s of PsPending \<Rightarrow> ''pending'' | PsReady \<Rightarrow> ''ready''
     | PsDegraded \<Rightarrow> ''degraded'' | PsError \<Rightarrow> ''error'' | PsRemoved \<Rightarrow> ''removed'' | PsUnknown \<Rightarrow> ''unknown'')"

definition exposure_state_text :: "exposure_state \<Rightarrow> string" where
  "exposure_state_text s = (case s of ExPending \<Rightarrow> ''pending'' | ExVisible \<Rightarrow> ''visible''
     | ExMissing \<Rightarrow> ''missing'' | ExDegraded \<Rightarrow> ''degraded'' | ExError \<Rightarrow> ''error'' | ExUnknown \<Rightarrow> ''unknown'')"

definition candidate_state_text :: "candidate_state \<Rightarrow> string" where
  "candidate_state_text s = (case s of CmMapped \<Rightarrow> ''mapped'' | CmAmbiguous \<Rightarrow> ''ambiguous''
     | CmMissing \<Rightarrow> ''missing'' | CmStale \<Rightarrow> ''stale'')"

definition binding_status_text :: "binding_status \<Rightarrow> string" where
  "binding_status_text s = (case s of BdActive \<Rightarrow> ''active'' | BdSuperseded \<Rightarrow> ''superseded''
     | BdDegraded \<Rightarrow> ''degraded'' | BdFailed \<Rightarrow> ''failed'')"

lemma state_texts:
  "parse_observation_state (observation_state_text o') = Some o'"
  "parse_placement_state (placement_state_text p) = Some p"
  "parse_exposure_state (exposure_state_text e) = Some e"
  "parse_candidate_state (candidate_state_text c) = Some c"
  by (cases o', simp_all add: parse_observation_state_def observation_state_text_def)
    (cases p, simp_all add: parse_placement_state_def placement_state_text_def,
     cases e, simp_all add: parse_exposure_state_def exposure_state_text_def,
     cases c, simp_all add: parse_candidate_state_def candidate_state_text_def)

section \<open>Scopes\<close>

record slice_scope =
  ss_provider :: "string option"
  ss_accountScope :: "string option"
  ss_instanceScope :: "string option"
  ss_mountScope :: "string option"

record normalized_scope =
  ns_provider :: string
  ns_accountScope :: string
  ns_instanceScope :: "string option"
  ns_mountScope :: "string option"

definition normalize_scope :: "slice_scope \<Rightarrow> normalized_scope res" where
  "normalize_scope scope =
     res_bind (normalize_identifier (Some (nullish (ss_provider scope) ''realdebrid''))) (\<lambda>provider.
     res_bind (normalize_identifier (Some (nullish (ss_accountScope scope) ''default''))) (\<lambda>account.
     res_bind (scope_clause (ss_instanceScope scope)) (\<lambda>instance.
     res_bind (scope_clause (ss_mountScope scope)) (\<lambda>mount.
       Inr \<lparr>ns_provider = provider, ns_accountScope = account, ns_instanceScope = instance,
         ns_mountScope = mount\<rparr>))))"

record filtered_snapshot =
  fs_placements :: "recon_placement list"
  fs_placementObservations :: "placement_observation list"
  fs_readinessObservations :: "readiness_observation list"
  fs_inventorySnapshots :: "inventory_snapshot list"
  fs_mappings :: "file_mapping list"
  fs_exposures :: "exposure list"
  fs_zurgMetadata :: "zurg_observation list"

definition filter_snapshot :: "recon_snapshot \<Rightarrow> normalized_scope \<Rightarrow> filtered_snapshot" where
  "filter_snapshot snapshot scope =
     (let placements = filter (\<lambda>p. pl_provider (rp_row p) = ns_provider scope
            \<and> pl_account_scope (rp_row p) = ns_accountScope scope) (rn_placements snapshot);
          ids = map (\<lambda>p. pl_id (rp_row p)) placements
      in \<lparr>fs_placements = placements,
          fs_placementObservations = filter (\<lambda>x. po_provider x = ns_provider scope
            \<and> po_account_scope x = ns_accountScope scope) (rn_placementObservations snapshot),
          fs_readinessObservations = rows_for_ids ro_placement_id ids (rn_readinessObservations snapshot),
          fs_inventorySnapshots = rows_for_ids iv_placement_id ids (rn_inventorySnapshots snapshot),
          fs_mappings = rows_for_ids fm_placement_id ids (rn_mappings snapshot),
          fs_exposures = filter (\<lambda>e. ex_account_scope e = ns_accountScope scope
            \<and> clause_holds (ns_mountScope scope) (ex_mount_scope e))
            (rows_for_ids ex_placement_id ids (rn_exposures snapshot)),
          fs_zurgMetadata = filter (\<lambda>z. zm_provider z = ns_provider scope
            \<and> zm_account_scope z = ns_accountScope scope
            \<and> clause_holds (ns_instanceScope scope) (zm_instance_scope z)) (rn_zurgMetadata snapshot)\<rparr>)"

section \<open>Facts\<close>

type_synonym fact = "(string \<times> jv) list"

definition jint :: "int option \<Rightarrow> jv" where
  "jint v = (case v of None \<Rightarrow> JNull | Some i \<Rightarrow> JInt i)"

definition jbool :: "bool option \<Rightarrow> jv" where
  "jbool v = (case v of None \<Rightarrow> JNull | Some b \<Rightarrow> JBool b)"

definition make_fact :: "string \<Rightarrow> jv \<Rightarrow> (string \<times> jv) list \<Rightarrow> fact" where
  "make_fact state source details = (''state'', JStr state) # details @ [(''sourceId'', source)]"

definition effective_state :: "string \<Rightarrow> int option \<Rightarrow> int \<Rightarrow> string" where
  "effective_state state e now = (if freshness_of e now = ''fresh'' then state else ''unknown'')"

text \<open>The newest of the items, the last id in collation order among the newest.\<close>

definition newest_item :: "(string \<Rightarrow> nat list) \<Rightarrow> ('a \<Rightarrow> int) \<Rightarrow> ('a \<Rightarrow> string) \<Rightarrow> 'a list \<Rightarrow> 'a option" where
  "newest_item loc at ident xs = top_by (\<lambda>x. (at x, loc (ident x))) xs"

definition project_placement :: "(string \<Rightarrow> nat list) \<Rightarrow> int \<Rightarrow> placement_observation list \<Rightarrow> fact" where
  "project_placement loc now xs = (case newest_item loc po_observed_at po_id xs of
      None \<Rightarrow> make_fact ''unknown'' JNull []
    | Some x \<Rightarrow> let observed = observation_state_text (po_observation_state x); e = Some (po_expires_at x)
        in make_fact (effective_state observed e now) (JStr (po_id x))
          [(''observedState'', JStr observed), (''freshness'', JStr (freshness_of e now)),
           (''observedAt'', JInt (po_observed_at x)), (''expiresAt'', jint e),
           (''failureCategory'', jstr (po_failure_category x)), (''retryable'', jbool (po_retryable x))])"

text \<open>A readiness observation and an inventory have no id of their own.\<close>

definition project_readiness :: "(string \<Rightarrow> nat list) \<Rightarrow> int \<Rightarrow> readiness_observation list \<Rightarrow> fact" where
  "project_readiness loc now xs = (case newest_item loc ro_observed_at (\<lambda>_. []) xs of
      None \<Rightarrow> make_fact ''unknown'' JNull []
    | Some x \<Rightarrow> let observed = placement_state_text (ro_state x); e = Some (ro_expires_at x)
        in make_fact (effective_state observed e now) JNull
          [(''observedState'', JStr observed), (''freshness'', JStr (freshness_of e now)),
           (''observedAt'', JInt (ro_observed_at x)), (''expiresAt'', jint e),
           (''failureCategory'', jstr (ro_failure_category x)), (''retryable'', jbool (ro_retryable x))])"

definition project_inventory :: "(string \<Rightarrow> nat list) \<Rightarrow> int \<Rightarrow> inventory_snapshot list \<Rightarrow> fact" where
  "project_inventory loc now xs = (case newest_item loc iv_observed_at (\<lambda>_. []) xs of
      None \<Rightarrow> make_fact ''unknown'' JNull []
    | Some x \<Rightarrow> let observed = (if iv_authoritative x \<and> iv_complete x then ''present'' else ''unknown'')
        in make_fact (effective_state observed (iv_expires_at x) now) JNull
          [(''observedState'', JStr observed), (''freshness'', JStr (freshness_of (iv_expires_at x) now)),
           (''authoritative'', JBool (iv_authoritative x)), (''complete'', JBool (iv_complete x)),
           (''fileCount'', JInt (int (iv_file_count x))), (''observedAt'', JInt (iv_observed_at x)),
           (''expiresAt'', jint (iv_expires_at x))])"

definition project_zurg_metadata :: "(string \<Rightarrow> nat list) \<Rightarrow> int \<Rightarrow> zurg_observation list \<Rightarrow> fact" where
  "project_zurg_metadata loc now xs = (case newest_item loc zm_observed_at zm_id xs of
      None \<Rightarrow> make_fact ''unobserved'' JNull []
    | Some x \<Rightarrow> let observed = observation_state_text (zm_observation_state x)
        in make_fact (effective_state observed (zm_expires_at x) now) (JStr (zm_id x))
          [(''observedState'', JStr observed), (''freshness'', JStr (freshness_of (zm_expires_at x) now)),
           (''instanceScope'', JStr (zm_instance_scope x)), (''metadataPath'', JStr (zm_metadata_path x)),
           (''zurgState'', jstr (zm_zurg_state x)), (''zurgStateWhen'', jint (zm_zurg_state_when x)),
           (''observedAt'', JInt (zm_observed_at x)), (''expiresAt'', jint (zm_expires_at x)),
           (''failureCategory'', jstr (zm_failure_category x)), (''retryable'', jbool (zm_retryable x))])"

definition project_exposure :: "(string \<Rightarrow> nat list) \<Rightarrow> int \<Rightarrow> exposure list \<Rightarrow> fact" where
  "project_exposure loc now xs = (case newest_item loc ex_observed_at ex_id xs of
      None \<Rightarrow> make_fact ''unobserved'' JNull []
    | Some x \<Rightarrow> let observed = exposure_state_text (ex_state x)
        in make_fact (effective_state observed (ex_expires_at x) now) (JStr (ex_id x))
          [(''observedState'', JStr observed), (''freshness'', JStr (freshness_of (ex_expires_at x) now)),
           (''accountScope'', JStr (ex_account_scope x)), (''mountScope'', JStr (ex_mount_scope x)),
           (''transport'', JStr (ex_transport x)), (''readOnly'', JBool (ex_read_only x)),
           (''observedAt'', JInt (ex_observed_at x)), (''expiresAt'', jint (ex_expires_at x)),
           (''failureCategory'', jstr (ex_failure_category x)), (''retryable'', jbool (ex_retryable x))])"

definition project_exact_mapping :: "(string \<Rightarrow> nat list) \<Rightarrow> file_mapping list \<Rightarrow> fact" where
  "project_exact_mapping loc xs = (case newest_item loc fm_mapped_at fm_id xs of
      None \<Rightarrow> make_fact ''unmapped'' JNull []
    | Some x \<Rightarrow> make_fact (candidate_state_text (fm_state x)) (JStr (fm_id x))
          [(''authoritative'', JBool (fm_authoritative x)), (''mappedAt'', JInt (fm_mapped_at x)),
           (''failureCategory'', jstr (fm_failure_category x))])"

definition binding_fact :: "string \<Rightarrow> string option \<Rightarrow> binding \<Rightarrow> fact" where
  "binding_fact state category b = make_fact state (JStr (bd_id b))
     [(''version'', JInt (int (bd_version b))), (''validFrom'', JInt (bd_valid_from b)),
      (''reconciledAt'', JInt (bd_reconciled_at b)), (''failureCategory'', jstr category)]"

definition project_binding ::
  "(string \<Rightarrow> nat list) \<Rightarrow> binding option \<Rightarrow> release_identity \<Rightarrow> filtered_snapshot \<Rightarrow> fact" where
  "project_binding loc binding identity filtered = (case binding of
      None \<Rightarrow> make_fact ''unbound'' JNull []
    | Some b \<Rightarrow>
      if bd_release_key b \<noteq> ri_releaseKey identity then make_fact ''unbound'' JNull []
      else (case (find (\<lambda>p. pl_id (rp_row p) = bd_placement_id b) (fs_placements filtered),
                  find (\<lambda>e. ex_id e = bd_exposure_id b) (fs_exposures filtered)) of
          (Some p, Some e) \<Rightarrow>
            if ex_provider_file_id e \<noteq> bd_provider_file_id b then make_fact ''unbound'' JNull []
            else if list_ex (\<lambda>c. ex_id c \<noteq> ex_id e \<and> ex_transport c = ex_transport e
                \<and> ex_exposure_key c = ex_exposure_key e \<and> ex_observed_at c > ex_observed_at e)
                (fs_exposures filtered)
            then binding_fact ''degraded'' (Some ''exposure-target-changed'') b
            else if (case newest_item loc po_observed_at po_id (fs_placementObservations filtered) of
                None \<Rightarrow> False
              | Some x \<Rightarrow> po_observation_state x = ObPresent \<and> po_placement_id x \<noteq> Some (bd_placement_id b))
            then binding_fact ''degraded'' (Some ''provider-placement-target-changed'') b
            else binding_fact (binding_status_text (bd_status b)) (bd_failure_category b) b
        | _ \<Rightarrow> make_fact ''unbound'' JNull []))"

definition project_item_milestone :: "lifecycle_view \<Rightarrow> string \<Rightarrow> fact" where
  "project_item_milestone lifecycle milestone = (case lv_milestones lifecycle milestone of
      None \<Rightarrow> [(''state'', JStr ''unknown''), (''scope'', JStr ''library-item'')]
    | Some e \<Rightarrow> [(''state'', JStr (le_status e)), (''scope'', JStr ''library-item''),
        (''occurredAt'', JInt (le_occurred_at e)), (''failureCategory'', jstr (le_failure_category e)),
        (''retryable'', jbool (le_retryable e)), (''reason'', jstr (le_reason e))])"

record slice_facts =
  ft_placement :: fact
  ft_readiness :: fact
  ft_inventory :: fact
  ft_zurgMetadata :: fact
  ft_exposure :: fact
  ft_exactFileMapping :: fact
  ft_binding :: fact
  ft_cataloging :: fact
  ft_playback :: fact

record slice_projection =
  pj_release :: release_identity
  pj_scope :: normalized_scope
  pj_facts :: slice_facts

definition project_rd_zurg_lifecycle ::
  "(string \<Rightarrow> nat list) \<Rightarrow> recon_snapshot \<Rightarrow> lifecycle_view \<Rightarrow> slice_scope \<Rightarrow> int \<Rightarrow> slice_projection res" where
  "project_rd_zurg_lifecycle loc snapshot lifecycle scope now =
     res_bind (ensure (is_safe_integer now \<and> 0 \<le> now)
        (TypeError ''Stage 6 projection requires a valid now timestamp'')) (\<lambda>_.
     res_bind (normalize_scope scope) (\<lambda>normalized.
     res_bind (ensure (ns_instanceScope normalized \<noteq> None \<and> ns_mountScope normalized \<noteq> None)
        (TypeError ''Stage 6 projection requires accountScope, instanceScope, and mountScope'')) (\<lambda>_.
     res_bind (validate_release_identity (ds_release (rn_desired snapshot))) (\<lambda>identity.
     let filtered = filter_snapshot snapshot normalized
     in Inr \<lparr>pj_release = identity, pj_scope = normalized, pj_facts = \<lparr>
          ft_placement = project_placement loc now (fs_placementObservations filtered),
          ft_readiness = project_readiness loc now (fs_readinessObservations filtered),
          ft_inventory = project_inventory loc now (fs_inventorySnapshots filtered),
          ft_zurgMetadata = project_zurg_metadata loc now (fs_zurgMetadata filtered),
          ft_exposure = project_exposure loc now (fs_exposures filtered),
          ft_exactFileMapping = project_exact_mapping loc (fs_mappings filtered),
          ft_binding = project_binding loc (rn_currentBinding snapshot) identity filtered,
          ft_cataloging = project_item_milestone lifecycle ''cataloged'',
          ft_playback = project_item_milestone lifecycle ''playable''\<rparr>\<rparr>))))"

text \<open>The slice's own \<open>projectLifecycle\<close>.\<close>

definition slice_project_lifecycle ::
  "(string \<Rightarrow> nat list) \<Rightarrow> string \<Rightarrow> string \<Rightarrow> jv \<Rightarrow> slice_scope \<Rightarrow> int \<Rightarrow> db \<Rightarrow> slice_projection res" where
  "slice_project_lifecycle loc account libraryItemId release scope now d =
     res_bind (validate_release_identity release) (\<lambda>identity.
     res_bind (slice_state libraryItemId (JObj (identity_entries identity)) d) (\<lambda>snapshot.
     res_bind (get_lifecycle libraryItemId d) (\<lambda>lifecycle.
       project_rd_zurg_lifecycle loc snapshot lifecycle
         (scope\<lparr>ss_provider := Some ''realdebrid'', ss_accountScope := Some account\<rparr>) now)))"

end
