(* ===== verification/Repair_Planner.thy ===== *)
theory Repair_Planner
  imports Rd_Zurg_Projection
begin

text \<open>
  The repair planner, \<open>control-plane/repair-planner.js\<close>: from the facts of one release it derives the
  triggers, the permitted actions and their order, and a fingerprint of all of it. SHA-256 is the
  parameter \<open>digest\<close>, the collation of strings the parameter \<open>loc\<close>.
\<close>

section \<open>Actions and evidence\<close>

definition reobserve_provider :: string where "reobserve_provider = ''reobserve-provider-state''"
definition replace_observation :: string where "replace_observation = ''replace-placement-observation''"
definition reselect_files :: string where "reselect_files = ''reselect-known-files''"
definition request_repair :: string where "request_repair = ''request-provider-repair''"
definition reobserve_zurg :: string where "reobserve_zurg = ''reobserve-zurg-metadata''"
definition reobserve_exposure :: string where "reobserve_exposure = ''reobserve-filesystem-exposure''"
definition reconcile_binding :: string where "reconcile_binding = ''reconcile-exact-binding''"

lemmas repair_action_names = reobserve_provider_def replace_observation_def reselect_files_def
  request_repair_def reobserve_zurg_def reobserve_exposure_def reconcile_binding_def

definition broken_zurg_states :: "string list" where
  "broken_zurg_states = [''broken_torrent'', ''under_repair_torrent'']"

definition summary_fields :: "string list" where
  "summary_fields = [''state'', ''observedState'', ''freshness'', ''observedAt'', ''expiresAt'',
     ''failureCategory'', ''retryable'', ''sourceId'', ''zurgState'', ''zurgStateWhen'',
     ''authoritative'', ''complete'', ''fileCount'', ''readOnly'', ''version'', ''validFrom'',
     ''reconciledAt'', ''occurredAt'', ''reason'']"

definition summarize_fact :: "fact \<Rightarrow> jv" where
  "summarize_fact f = JObj (map (\<lambda>k. (k, prop_of f k)) (filter (\<lambda>k. prop_of f k \<noteq> JUndef) summary_fields))"

definition summarize_observations :: "slice_facts \<Rightarrow> jv" where
  "summarize_observations facts = JObj [(''placement'', summarize_fact (ft_placement facts)),
     (''readiness'', summarize_fact (ft_readiness facts)), (''inventory'', summarize_fact (ft_inventory facts)),
     (''zurgMetadata'', summarize_fact (ft_zurgMetadata facts)), (''exposure'', summarize_fact (ft_exposure facts)),
     (''exactFileMapping'', summarize_fact (ft_exactFileMapping facts)),
     (''binding'', summarize_fact (ft_binding facts)), (''cataloging'', summarize_fact (ft_cataloging facts)),
     (''playback'', summarize_fact (ft_playback facts))]"

text \<open>\<open>sanitize\<close>: paths and provider ids are removed at every depth.\<close>

definition blocked_fields :: "string list" where
  "blocked_fields = [''metadataPath'', ''relativePath'', ''providerResourceId'', ''providerFileId'']"

fun sanitize :: "jv \<Rightarrow> jv" where
  "sanitize (JArr xs) = JArr (map sanitize xs)"
| "sanitize (JObj ps) = JObj (filter (\<lambda>p. fst p \<notin> set blocked_fields) (map (\<lambda>(k, v). (k, sanitize v)) ps))"
| "sanitize v = v"

record repair_trigger =
  tr_category :: string
  tr_evidence :: jv

definition trigger :: "string \<Rightarrow> jv \<Rightarrow> repair_trigger" where
  "trigger category evidence = \<lparr>tr_category = category, tr_evidence = sanitize evidence\<rparr>"

section \<open>Triggers\<close>

definition fact_state :: "fact \<Rightarrow> jv" where
  "fact_state f = prop_of f ''state''"

definition placement_triggers :: "slice_facts \<Rightarrow> repair_trigger list" where
  "placement_triggers facts =
     (if fact_state (ft_placement facts) = JStr ''missing''
      then [trigger ''missing-provider-placement'' (JObj (ft_placement facts))]
      else if fact_state (ft_placement facts) \<noteq> JStr ''present'' \<or> fact_state (ft_readiness facts) \<noteq> JStr ''ready''
      then [trigger ''broken-provider-observation'' (JObj [(''placement'', JObj (ft_placement facts)),
             (''readiness'', JObj (ft_readiness facts))])]
      else [])"

definition bound_file_in :: "recon_snapshot \<Rightarrow> binding \<Rightarrow> provider_file option" where
  "bound_file_in snapshot b = find (\<lambda>f. pf_placement_id f = bd_placement_id b
     \<and> pf_provider_file_id f = bd_provider_file_id b) (rn_providerFiles snapshot)"

definition bound_inventory_healthy :: "recon_snapshot \<Rightarrow> binding \<Rightarrow> int \<Rightarrow> bool" where
  "bound_inventory_healthy snapshot b now =
     (case find (\<lambda>s. iv_placement_id s = bd_placement_id b) (rn_inventorySnapshots snapshot) of
        None \<Rightarrow> False
      | Some s \<Rightarrow> iv_authoritative s \<and> iv_complete s \<and> safe_later (iv_expires_at s) now)"

definition inventory_triggers :: "slice_facts \<Rightarrow> recon_snapshot \<Rightarrow> binding \<Rightarrow> int \<Rightarrow> repair_trigger list" where
  "inventory_triggers facts snapshot b now =
     (if bound_file_in snapshot b = None \<or> \<not> bound_inventory_healthy snapshot b now
      then [trigger ''provider-inventory-degraded'' (JObj (ft_inventory facts))]
      else if Option.bind (bound_file_in snapshot b) pf_selected = Some False
      then [trigger ''known-file-selection-lost'' (JObj [(''placementId'', JStr (bd_placement_id b)),
             (''providerFileId'', JStr (bd_provider_file_id b))])]
      else [])"

definition bound_mapping_healthy :: "recon_snapshot \<Rightarrow> binding \<Rightarrow> bool" where
  "bound_mapping_healthy snapshot b =
     (case find (\<lambda>m. fm_release_key m = bd_release_key b \<and> fm_placement_id m = bd_placement_id b
          \<and> fm_provider_file_id m = bd_provider_file_id b) (rn_mappings snapshot) of
        None \<Rightarrow> False | Some m \<Rightarrow> fm_state m = CmMapped \<and> fm_authoritative m)"

definition bound_exposure_healthy :: "recon_snapshot \<Rightarrow> binding \<Rightarrow> int \<Rightarrow> bool" where
  "bound_exposure_healthy snapshot b now =
     (case find (\<lambda>e. ex_id e = bd_exposure_id b) (rn_exposures snapshot) of
        None \<Rightarrow> False
      | Some e \<Rightarrow> ex_state e = ExVisible \<and> ex_read_only e \<and> safe_later (ex_expires_at e) now)"

definition zurg_healthy :: "slice_facts \<Rightarrow> bool" where
  "zurg_healthy facts \<longleftrightarrow> fact_state (ft_zurgMetadata facts) = JStr ''present''
     \<and> prop_of (ft_zurgMetadata facts) ''freshness'' \<noteq> JStr ''stale''
     \<and> prop_of (ft_zurgMetadata facts) ''zurgState'' \<notin> JStr ` set broken_zurg_states"

definition unless :: "bool \<Rightarrow> repair_trigger \<Rightarrow> repair_trigger list" where
  "unless healthy t = (if healthy then [] else [t])"

definition detect_triggers ::
  "(string \<Rightarrow> nat list) \<Rightarrow> slice_facts \<Rightarrow> recon_snapshot \<Rightarrow> binding \<Rightarrow> int \<Rightarrow> repair_trigger list" where
  "detect_triggers loc facts snapshot b now = sort_key (\<lambda>t. loc (tr_category t))
     (placement_triggers facts @ inventory_triggers facts snapshot b now
      @ unless (bound_mapping_healthy snapshot b)
          (trigger ''exact-file-mapping-degraded'' (JObj (ft_exactFileMapping facts)))
      @ unless (bound_exposure_healthy snapshot b now)
          (trigger ''missing-filesystem-exposure'' (JObj (ft_exposure facts)))
      @ unless (zurg_healthy facts) (trigger ''stale-zurg-metadata-state'' (JObj (ft_zurgMetadata facts)))
      @ unless (fact_state (ft_binding facts) = JStr ''active'')
          (trigger ''canonical-binding-degraded'' (JObj (ft_binding facts))))"

section \<open>Actions\<close>

definition add_action :: "string \<Rightarrow> string list \<Rightarrow> string list" where
  "add_action a as = (if a \<in> set as then as else as @ [a])"

definition add_actions :: "bool \<Rightarrow> string list \<Rightarrow> string list \<Rightarrow> string list" where
  "add_actions c new as = (if c then fold add_action new as else as)"

text \<open>The categories that ask for a reconciliation of the binding.\<close>

definition reconciled_categories :: "string list" where
  "reconciled_categories = [''missing-provider-placement'', ''broken-provider-observation'',
     ''provider-inventory-degraded'', ''known-file-selection-lost'', ''exact-file-mapping-degraded'',
     ''canonical-binding-degraded'']"

definition permitted_actions_for :: "repair_trigger list \<Rightarrow> recon_snapshot \<Rightarrow> binding \<Rightarrow> string list" where
  "permitted_actions_for triggers snapshot b =
     (let has = (\<lambda>c. c \<in> set (map tr_category triggers))
      in add_actions (list_ex has reconciled_categories) [reconcile_binding]
         (add_actions (has ''stale-zurg-metadata-state'') [reobserve_zurg]
         (add_actions (has ''missing-filesystem-exposure'') [reobserve_exposure]
         (add_actions (has ''provider-inventory-degraded'') [reobserve_provider]
         (add_actions (has ''known-file-selection-lost'' \<and> bound_file_in snapshot b \<noteq> None)
            [reselect_files, reobserve_provider]
         (add_actions (has ''missing-provider-placement'' \<or> has ''broken-provider-observation'')
            [reobserve_provider, replace_observation, request_repair] []))))))"

definition action_order :: "string list" where
  "action_order = [replace_observation, request_repair, reselect_files, reobserve_provider,
     reobserve_zurg, reobserve_exposure, reconcile_binding]"

definition ordered_actions :: "string list \<Rightarrow> string list" where
  "ordered_actions as = filter (\<lambda>a. a \<in> set as) action_order"

section \<open>The plan\<close>

record repair_proposal =
  py_status :: string
  py_reason :: string
  py_planKey :: "string option"
  py_evaluatedAt :: int
  py_desiredIdentity :: release_identity
  py_scope :: normalized_scope
  py_binding :: "plan_binding option"
  py_triggers :: "repair_trigger list"
  py_permittedActions :: "string list"
  py_actionSequence :: "string list"
  py_currentObservations :: jv
  py_expectedPostconditions :: jv

definition expected_postconditions :: "release_identity \<Rightarrow> jv" where
  "expected_postconditions identity = JObj [(''canonicalIdentity'', JObj (identity_entries identity)),
     (''placement'', JStr ''present''), (''readiness'', JStr ''ready''),
     (''inventory'', JStr ''present-fresh-authoritative-complete''),
     (''zurgMetadata'', JStr ''present-fresh-not-broken''),
     (''exposure'', JStr ''visible-fresh-read-only''), (''exactFileMapping'', JStr ''mapped-authoritative''),
     (''binding'', JStr ''active-for-canonical-identity''),
     (''catalogAndPlaybackMutationPermitted'', JBool False)]"

definition scope_object :: "normalized_scope \<Rightarrow> jv" where
  "scope_object s = JObj [(''provider'', JStr (ns_provider s)), (''accountScope'', JStr (ns_accountScope s)),
     (''instanceScope'', jstr (ns_instanceScope s)), (''mountScope'', jstr (ns_mountScope s))]"

definition repair_fingerprint ::
  "(string \<Rightarrow> string) \<Rightarrow> release_identity \<Rightarrow> normalized_scope \<Rightarrow> nat \<Rightarrow> repair_trigger list \<Rightarrow> string list
     \<Rightarrow> string list \<Rightarrow> jv \<Rightarrow> string" where
  "repair_fingerprint digest identity scope version triggers permitted sequence observations =
     digest (stable_stringify (JObj [(''desiredIdentity'', JObj (identity_entries identity)),
       (''scope'', scope_object scope), (''bindingVersion'', JInt (int version)),
       (''triggers'', JArr (map (\<lambda>t. JObj [(''category'', JStr (tr_category t)), (''evidence'', tr_evidence t)]) triggers)),
       (''permittedActions'', JArr (map JStr permitted)), (''actionSequence'', JArr (map JStr sequence)),
       (''currentObservations'', observations)]))"

definition quiet_plan ::
  "string \<Rightarrow> string \<Rightarrow> release_identity \<Rightarrow> normalized_scope \<Rightarrow> slice_facts \<Rightarrow> int \<Rightarrow> repair_proposal" where
  "quiet_plan status reason identity scope facts now = \<lparr>py_status = status, py_reason = reason,
     py_planKey = None, py_evaluatedAt = now, py_desiredIdentity = identity, py_scope = scope,
     py_binding = None, py_triggers = [], py_permittedActions = [], py_actionSequence = [],
     py_currentObservations = summarize_observations facts,
     py_expectedPostconditions = expected_postconditions identity\<rparr>"

definition binding_of_plan :: "binding \<Rightarrow> plan_binding" where
  "binding_of_plan b = \<lparr>pb_id = bd_id b, pb_version = bd_version b, pb_placement_id = bd_placement_id b,
     pb_provider_file_id = bd_provider_file_id b, pb_exposure_id = bd_exposure_id b\<rparr>"

definition plan_rd_zurg_repair ::
  "(string \<Rightarrow> nat list) \<Rightarrow> (string \<Rightarrow> string) \<Rightarrow> recon_snapshot \<Rightarrow> lifecycle_view \<Rightarrow> slice_scope \<Rightarrow> int
     \<Rightarrow> repair_proposal res" where
  "plan_rd_zurg_repair loc digest snapshot lifecycle scope now =
     res_bind (validate_release_identity (ds_release (rn_desired snapshot))) (\<lambda>identity.
     res_bind (project_rd_zurg_lifecycle loc snapshot lifecycle scope now) (\<lambda>projection.
     let facts = pj_facts projection; sc = pj_scope projection
     in case rn_currentBinding snapshot of
          None \<Rightarrow> Inr (quiet_plan ''not-applicable'' ''no-active-canonical-binding'' identity sc facts now)
        | Some b \<Rightarrow>
          if bd_release_key b \<noteq> ri_releaseKey identity
          then Inr (quiet_plan ''not-applicable'' ''no-active-canonical-binding'' identity sc facts now)
          else (case detect_triggers loc facts snapshot b now of
              [] \<Rightarrow> Inr (quiet_plan ''healthy'' ''binding-evidence-is-current'' identity sc facts now)
            | t # ts \<Rightarrow>
              let permitted = permitted_actions_for (t # ts) snapshot b;
                  sequence = ordered_actions permitted; observations = summarize_observations facts
              in Inr \<lparr>py_status = ''repair-required'', py_reason = tr_category t,
                 py_planKey = Some (''repair:'' @ ri_releaseKey identity @ '':''
                   @ repair_fingerprint digest identity sc (bd_version b) (t # ts) permitted sequence observations),
                 py_evaluatedAt = now, py_desiredIdentity = identity, py_scope = sc,
                 py_binding = Some (binding_of_plan b), py_triggers = t # ts, py_permittedActions = permitted,
                 py_actionSequence = sequence, py_currentObservations = observations,
                 py_expectedPostconditions = expected_postconditions identity\<rparr>)))"

text \<open>What the store and the executor read of a plan.\<close>

definition stored_plan :: "repair_proposal \<Rightarrow> repair_plan" where
  "stored_plan p = \<lparr>pn_status = py_status p, pn_planKey = nullish (py_planKey p) [],
     pn_desiredIdentity = JObj (identity_entries (py_desiredIdentity p)),
     pn_scope = (case (ns_instanceScope (py_scope p), ns_mountScope (py_scope p)) of
         (Some i, Some m) \<Rightarrow> Some \<lparr>rs_account = ns_accountScope (py_scope p), rs_instance = i, rs_mount = m\<rparr>
       | _ \<Rightarrow> None),
     pn_binding = py_binding p, pn_permittedActions = py_permittedActions p,
     pn_actionSequence = py_actionSequence p, pn_reason = py_reason p, pn_evaluatedAt = py_evaluatedAt p\<rparr>"

end
