(* ===== verification/Repair_Executor.thy ===== *)
theory Repair_Executor
  imports Repair_Planner
begin

text \<open>
  The repair executor, \<open>control-plane/repair-executor.js\<close>: it persists a plan as a transaction,
  authorizes actions of it and executes them in order over the slice and the injected adapter, each
  action audited as a step before it runs. A world gives the account, the collation, the digest, the
  clock of the store and the gateway that answers while an action runs; within one execution an
  action runs at most once, so the gateway is a function of the action.
\<close>

record repair_world =
  rw_account :: string
  rw_loc :: "string \<Rightarrow> nat list"
  rw_digest :: "string \<Rightarrow> string"
  rw_gateway :: "string \<Rightarrow> gateway"
  rw_now :: int
  rw_uuid :: string

definition repair_error :: "string \<Rightarrow> string \<Rightarrow> js_error" where
  "repair_error message category = CategoryError ''Error'' message category False"

definition error_category :: "js_error \<Rightarrow> string option" where
  "error_category e = (case e of CategoryError _ _ c _ \<Rightarrow> Some c | _ \<Rightarrow> None)"

definition error_name :: "js_error \<Rightarrow> string" where
  "error_name e = (case e of TypeError _ \<Rightarrow> ''TypeError'' | CategoryError n _ _ _ \<Rightarrow> n | _ \<Rightarrow> ''Error'')"

definition error_retryable :: "js_error \<Rightarrow> bool" where
  "error_retryable e = (case e of CategoryError _ _ _ r \<Rightarrow> r | _ \<Rightarrow> False)"

definition safe_category :: "string option \<Rightarrow> string" where
  "safe_category c = (case c of None \<Rightarrow> ''repair-operation-failed''
     | Some s \<Rightarrow> if valid_identifier s then s else ''repair-operation-failed'')"

definition safe_error_name :: "string \<Rightarrow> string" where
  "safe_error_name n = (if n \<noteq> [] \<and> is_letter (hd n) \<and> list_all (\<lambda>c. is_letter c \<or> is_digit c) n \<and> length n \<le> 64
     then n else ''Error'')"

definition safe_failure :: "js_error \<Rightarrow> repair_failure" where
  "safe_failure e = \<lparr>rf_failureCategory = Some (safe_category (error_category e)),
     rf_result = Some (json_text (JObj [(''name'', JStr (safe_error_name (error_name e)))])),
     rf_retryable = Some (error_retryable e)\<rparr>"

definition request_audit :: "string \<Rightarrow> slice_context \<Rightarrow> string" where
  "request_audit action context = json_text (JObj [(''action'', JStr action),
     (''metadataPathSupplied'', JBool (cn_metadataPath context \<noteq> None)),
     (''relativePathSupplied'', JBool (cn_relativePath context \<noteq> None))])"

definition jv_nullish :: "jv \<Rightarrow> jv \<Rightarrow> jv" where
  "jv_nullish a b = (if a = JUndef \<or> a = JNull then b else a)"

text \<open>A result is the object's audited properties, or null.\<close>

definition audit_result :: "mutation_result \<Rightarrow> string" where
  "audit_result result = json_text (JObj (case result of
      None \<Rightarrow> [(''observed'', JStr ''missing'')]
    | Some r \<Rightarrow> [(''accepted'', prop_of r ''accepted''), (''idempotencyGuaranteed'', prop_of r ''idempotencyGuaranteed''),
        (''state'', jv_nullish (prop_of r ''state'') (prop_of r ''observationState'')),
        (''placementId'', jv_nullish (prop_of r ''id'') (prop_of r ''placementId'')),
        (''bindingVersion'', prop_of r ''version''), (''operationId'', prop_of r ''operationId'')]))"

definition placement_result :: "placement \<Rightarrow> (string \<times> jv) list" where
  "placement_result p = [(''id'', JStr (pl_id p)), (''state'', JStr (placement_state_text (pl_state p)))]"

definition exposure_result :: "exposure \<Rightarrow> (string \<times> jv) list" where
  "exposure_result e = [(''id'', JStr (ex_id e)), (''placementId'', JStr (ex_placement_id e)),
     (''state'', JStr (exposure_state_text (ex_state e)))]"

definition zurg_result :: "zurg_observation \<Rightarrow> (string \<times> jv) list" where
  "zurg_result z = [(''id'', JStr (zm_id z)),
     (''observationState'', JStr (observation_state_text (zm_observation_state z)))]"

definition binding_result :: "binding \<Rightarrow> (string \<times> jv) list" where
  "binding_result b = [(''id'', JStr (bd_id b)), (''placementId'', JStr (bd_placement_id b)),
     (''version'', JInt (int (bd_version b)))]"

definition is_provider_mutation :: "string \<Rightarrow> bool" where
  "is_provider_mutation action \<longleftrightarrow> action = reselect_files \<or> action = request_repair"

definition known_failures :: "string list" where
  "known_failures = [''temporarily-unavailable'', ''rate-limit'', ''authentication'', ''authorization'',
     ''invalid-request'', ''unsupported'', ''unsafe-operation'']"

definition observation_context :: "slice_context \<Rightarrow> slice_context" where
  "observation_context context = context\<lparr>cn_observedAt := coalesce (cn_observedAt context) (cn_now context)\<rparr>"

section \<open>Transactions and their target\<close>

definition transaction_identity :: "repair_transaction \<Rightarrow> release_identity" where
  "transaction_identity r = \<lparr>ri_infoHash = rt_info_hash r, ri_fileIndex = rt_file_index r, ri_releaseKey = rt_release_key r\<rparr>"

definition scope_of_repair :: "repair_scope \<Rightarrow> slice_scope" where
  "scope_of_repair s = \<lparr>ss_provider = None, ss_accountScope = Some (rs_account s),
     ss_instanceScope = Some (rs_instance s), ss_mountScope = Some (rs_mount s)\<rparr>"

definition repair_state :: "repair_transaction \<Rightarrow> release_identity \<Rightarrow> db \<Rightarrow> recon_snapshot res" where
  "repair_state r identity d = slice_state (rt_library_item_id r) (JObj (identity_entries identity)) d"

record bound_route =
  bt_binding :: binding
  bt_placement :: placement
  bt_providerFile :: provider_file

definition bound_target :: "repair_transaction \<Rightarrow> release_identity \<Rightarrow> db \<Rightarrow> bound_route res" where
  "bound_target r identity d =
     res_bind (repair_state r identity d) (\<lambda>snapshot.
     case rn_currentBinding snapshot of
       None \<Rightarrow> Inl (JsError ''Repair binding version is no longer current'')
     | Some b \<Rightarrow>
       if bd_version b \<noteq> rt_expected_binding_version r \<or> bd_release_key b \<noteq> ri_releaseKey identity
       then Inl (JsError ''Repair binding version is no longer current'')
       else (case (find (\<lambda>p. pl_id (rp_row p) = bd_placement_id b) (rn_placements snapshot), bound_file_in snapshot b) of
           (Some p, Some f) \<Rightarrow> Inr \<lparr>bt_binding = b, bt_placement = rp_row p, bt_providerFile = f\<rparr>
         | _ \<Rightarrow> Inl (JsError ''Bound provider target is no longer observed'')))"

text \<open>The plan that the current evidence gives; without a scope the planner throws.\<close>

definition trusted_plan :: "repair_world \<Rightarrow> string \<Rightarrow> jv \<Rightarrow> slice_scope option \<Rightarrow> int \<Rightarrow> db \<Rightarrow> repair_proposal res" where
  "trusted_plan w item release scope now d =
     res_bind (slice_state item release d) (\<lambda>snapshot.
     res_bind (get_lifecycle item d) (\<lambda>lifecycle.
     case scope of
       None \<Rightarrow> Inl (TypeError ''Repair planning requires snapshot, lifecycle, and explicit scope'')
     | Some s \<Rightarrow> plan_rd_zurg_repair (rw_loc w) (rw_digest w) snapshot lifecycle s now))"

definition persist_plan :: "repair_world \<Rightarrow> string \<Rightarrow> repair_plan \<Rightarrow> repair_view run" where
  "persist_plan w item plan =
     run_bind (give (ensure (pn_status plan = ''repair-required'')
        (TypeError ''Only repair-required plans can become transactions''))) (\<lambda>_.
     run_bind (look (trusted_plan w item (pn_desiredIdentity plan) (map_option scope_of_repair (pn_scope plan))
        (pn_evaluatedAt plan))) (\<lambda>trusted.
     run_bind (give (ensure (py_planKey trusted = Some (pn_planKey plan))
        (JsError ''Repair plan does not match trusted control-plane evidence''))) (\<lambda>_.
     case pn_binding plan of
       None \<Rightarrow> give (Inl (TypeError ''plan.binding''))
     | Some b \<Rightarrow>
     transact (create_repair_transaction (rw_now w) (rw_uuid w)
       \<lparr>rix_libraryItemId = item, rix_desiredIdentity = pn_desiredIdentity plan, rix_plan = Some plan,
        rix_planKey = Some (pn_planKey plan), rix_expectedBindingVersion = pb_version b,
        rix_scope = pn_scope plan, rix_id = None\<rparr>))))"

definition require_action_dependencies :: "string option list \<Rightarrow> unit res" where
  "require_action_dependencies actions =
     res_bind (ensure (Some request_repair \<in> set actions \<longrightarrow> Some reobserve_provider \<in> set actions)
        (JsError ''Provider repair authorization requires provider re-observation'')) (\<lambda>_.
     ensure (Some reselect_files \<in> set actions \<longrightarrow> Some reobserve_provider \<in> set actions)
        (JsError ''Known-file selection authorization requires provider re-observation''))"

definition load_repair :: "string option \<Rightarrow> db \<Rightarrow> repair_view res" where
  "load_repair i d = res_bind (get_repair_transaction i d) (\<lambda>found.
     case found of None \<Rightarrow> Inl (JsError ''Unknown repair transaction'') | Some v \<Rightarrow> Inr v)"

definition authorize_repair :: "repair_world \<Rightarrow> string option \<Rightarrow> authorization \<Rightarrow> repair_view run" where
  "authorize_repair w i input =
     run_bind (look (load_repair i)) (\<lambda>(r, steps).
     run_bind (look (trusted_plan w (rt_library_item_id r) (JObj (identity_entries (transaction_identity r)))
        (Some (scope_of_repair (rt_scope r))) (pn_evaluatedAt (rt_plan r)))) (\<lambda>trusted.
     run_bind (give (ensure (py_planKey trusted = Some (rt_plan_key r))
        (repair_error ''Persisted repair plan does not match trusted control-plane evidence'' ''repair-plan-invalid''))) (\<lambda>_.
     run_bind (give (require_action_dependencies (au_actions input))) (\<lambda>_.
     transact (authorize_repair_transaction (rw_now w) i input)))))"

section \<open>Actions\<close>

definition idempotency_key :: "repair_transaction \<Rightarrow> repair_step \<Rightarrow> string" where
  "idempotency_key r s = rt_id r @ '':'' @ st_action s @ '':'' @ show_nat (st_attempt s)"

definition run_reobserve_provider :: "string \<Rightarrow> gateway \<Rightarrow> release_identity \<Rightarrow> slice_context \<Rightarrow> mutation_result run" where
  "run_reobserve_provider account gw identity context =
     run_bind (observe_placement account gw (observation_context context) (JObj (identity_entries identity))) (\<lambda>found.
     case found of None \<Rightarrow> give (Inr None) | Some p \<Rightarrow>
     run_bind (observe_readiness account gw (JObj (identity_entries identity)) (resource_of p)) (\<lambda>_.
     run_bind (observe_inventory account gw (resource_of p)) (\<lambda>_.
       give (Inr (Some [(''placementId'', JStr (pl_id p)),
         (''observed'', JArr (map JStr [''placement'', ''readiness'', ''inventory'']))])))))"

definition selected_ids :: "recon_snapshot \<Rightarrow> string \<Rightarrow> string list \<Rightarrow> string list" where
  "selected_ids snapshot placementId required = sort (map pf_provider_file_id
     (filter (\<lambda>f. pf_placement_id f = placementId
        \<and> (pf_selected f = Some True \<or> pf_provider_file_id f \<in> set required)) (rn_providerFiles snapshot)))"

definition run_reselect :: "gateway \<Rightarrow> repair_transaction \<Rightarrow> release_identity \<Rightarrow> repair_step \<Rightarrow> mutation_result run" where
  "run_reselect gw r identity s =
     run_bind (look (bound_target r identity)) (\<lambda>t.
     run_bind (look (repair_state r identity)) (\<lambda>snapshot.
     run_bind (look (list_active_bindings_for_placement (pl_id (bt_placement t)))) (\<lambda>active.
     let required = map bd_provider_file_id active @ [pf_provider_file_id (bt_providerFile t)];
         selected = selected_ids snapshot (pl_id (bt_placement t)) required
     in run_bind (give (ensure (list_all (\<lambda>i. i \<in> set selected) required)
          (repair_error ''Shared placement selection would omit an active exact binding'' ''unsafe-operation''))) (\<lambda>_.
        run_bind (give (require_capability (gw_select gw))) (\<lambda>selectKnownFiles.
        give (selectKnownFiles identity (pl_provider_resource_id (bt_placement t)) selected (idempotency_key r s)))))))"

definition run_request_repair :: "gateway \<Rightarrow> repair_transaction \<Rightarrow> release_identity \<Rightarrow> repair_step \<Rightarrow> mutation_result run" where
  "run_request_repair gw r identity s =
     run_bind (look (bound_target r identity)) (\<lambda>t.
     run_bind (give (require_capability (gw_repair gw))) (\<lambda>requestRepair.
     give (requestRepair identity (pl_provider_resource_id (bt_placement t)) (idempotency_key r s)
       (pn_reason (rt_plan r)))))"

definition run_reobserve_exposure ::
  "string \<Rightarrow> gateway \<Rightarrow> repair_transaction \<Rightarrow> release_identity \<Rightarrow> slice_context \<Rightarrow> mutation_result run" where
  "run_reobserve_exposure account gw r identity context =
     run_bind (look (bound_target r identity)) (\<lambda>t.
     run_bind (give (require_string (cn_relativePath context) ''relativePath'' 1000)) (\<lambda>path.
     run_bind (observe_exposure account gw (JObj (identity_entries identity)) (resource_of (bt_placement t))
        (pf_provider_file_id (bt_providerFile t)) path) (\<lambda>e. give (Inr (map_option exposure_result e)))))"

definition usable_placement :: "recon_snapshot \<Rightarrow> placement_observation \<Rightarrow> placement option" where
  "usable_placement snapshot seen =
     (case find (\<lambda>p. Some (pl_id (rp_row p)) = po_placement_id seen) (rn_placements snapshot) of
        None \<Rightarrow> None
      | Some p \<Rightarrow>
          (case (find (\<lambda>x. ro_placement_id x = pl_id (rp_row p)) (rn_readinessObservations snapshot),
                 find (\<lambda>x. iv_placement_id x = pl_id (rp_row p)) (rn_inventorySnapshots snapshot)) of
             (Some x, Some s) \<Rightarrow> if ro_state x = PsReady \<and> iv_authoritative s \<and> iv_complete s
                then Some (rp_row p) else None
           | _ \<Rightarrow> None))"

definition newest_usable_placement :: "recon_snapshot \<Rightarrow> string \<Rightarrow> placement option" where
  "newest_usable_placement snapshot account =
     (case List.map_filter (usable_placement snapshot)
        (sort_key (\<lambda>x. - po_observed_at x) (filter (\<lambda>x. po_provider x = ''realdebrid''
           \<and> po_account_scope x = account \<and> po_observation_state x = ObPresent) (rn_placementObservations snapshot))) of
        [] \<Rightarrow> None | p # _ \<Rightarrow> Some p)"

definition run_reconcile ::
  "string \<Rightarrow> gateway \<Rightarrow> repair_transaction \<Rightarrow> release_identity \<Rightarrow> slice_context \<Rightarrow> mutation_result run" where
  "run_reconcile account gw r identity context =
     run_bind (look (repair_state r identity)) (\<lambda>snapshot.
     case newest_usable_placement snapshot (rs_account (rt_scope r)) of
       None \<Rightarrow> give (Inl (JsError ''Reconciliation requires a freshly observed provider placement''))
     | Some p \<Rightarrow>
     (case filter (\<lambda>f. pf_placement_id f = pl_id p \<and> pf_corpus_file_index f = ri_fileIndex identity)
          (rn_providerFiles snapshot) of
       [f] \<Rightarrow>
         run_bind (map_exact_file account gw (JObj (identity_entries identity)) (resource_of p)
           (pf_provider_file_id f) (cn_now context) None) (\<lambda>_.
         run_bind (give (require_string (cn_relativePath context) ''relativePath'' 1000)) (\<lambda>path.
         run_bind (observe_exposure account gw (JObj (identity_entries identity)) (resource_of p)
           (pf_provider_file_id f) path) (\<lambda>found.
         case found of None \<Rightarrow> give (Inl (TypeError ''exposure'')) | Some e \<Rightarrow>
         run_bind (slice_activate_binding account gw
           \<lparr>sb_libraryItemId = rt_library_item_id r, sb_libraryPathId = ds_libraryPathId (rn_desired snapshot),
            sb_release = JObj (identity_entries identity), sb_resource = resource_of p,
            sb_providerFileId = pf_provider_file_id f, sb_exposureId = ex_id e,
            sb_expectedBindingVersion = Some (int (rt_expected_binding_version r)),
            sb_reason = Some (''repair-transaction:'' @ rt_id r)\<rparr>) (\<lambda>b.
         give (Inr (Some (binding_result b)))))))
     | _ \<Rightarrow> give (Inl (JsError ''Reconciliation requires one exact canonical provider file''))))"

definition run_action ::
  "repair_world \<Rightarrow> string \<Rightarrow> repair_transaction \<Rightarrow> release_identity \<Rightarrow> slice_context \<Rightarrow> repair_step \<Rightarrow> mutation_result run" where
  "run_action w action r identity context s =
     (let gw = rw_gateway w action; account = rw_account w; release = JObj (identity_entries identity) in
      if action = replace_observation
      then run_bind (observe_placement account gw (observation_context context) release)
             (\<lambda>p. give (Inr (map_option placement_result p)))
      else if action = reobserve_provider then run_reobserve_provider account gw identity context
      else if action = reselect_files then run_reselect gw r identity s
      else if action = request_repair then run_request_repair gw r identity s
      else if action = reobserve_zurg
      then run_bind (give (require_string (cn_metadataPath context) ''metadataPath'' 1000)) (\<lambda>path.
           run_bind (observe_zurg_metadata account gw release path) (\<lambda>z. give (Inr (map_option zurg_result z))))
      else if action = reobserve_exposure then run_reobserve_exposure account gw r identity context
      else if action = reconcile_binding then run_reconcile account gw r identity context
      else give (Inl (TypeError ''Unsupported repair action'')))"

section \<open>Execution\<close>

definition ambiguous_outcome :: "string \<Rightarrow> js_error" where
  "ambiguous_outcome message = repair_error message ''repair-operation-outcome-unknown''"

definition failed_with :: "string \<Rightarrow> repair_failure" where
  "failed_with category = \<lparr>rf_failureCategory = Some category, rf_result = None, rf_retryable = None\<rparr>"

text \<open>The \<open>catch\<close> of an action: an unknown outcome of a mutation leaves the step running.\<close>

definition action_failed :: "repair_world \<Rightarrow> string \<Rightarrow> repair_transaction \<Rightarrow> repair_step \<Rightarrow> js_error \<Rightarrow> unit run" where
  "action_failed w action r s e =
     (if is_provider_mutation action \<and> error_category e \<notin> Some ` set known_failures
      then run_bind (transact (fail_repair_transaction (rw_now w) (Some (rt_id r))
             (failed_with ''repair-operation-outcome-unknown''))) (\<lambda>_.
           give (Inl (ambiguous_outcome ''Provider mutation outcome is unknown; manual resolution is required'')))
      else run_bind (transact (fail_repair_step (rw_now w) (st_id s) (safe_failure e))) (\<lambda>_. give (Inl e)))"

fun run_actions ::
  "repair_world \<Rightarrow> repair_view \<Rightarrow> release_identity \<Rightarrow> slice_context \<Rightarrow> string list \<Rightarrow> unit run" where
  "run_actions w (r, steps) identity context [] = give (Inr ())"
| "run_actions w (r, steps) identity context (a # as) =
     (if a \<in> set (map st_action (filter (\<lambda>s. st_status s = StSucceeded) steps))
      then run_actions w (r, steps) identity context as
      else run_bind (look (bound_target r identity)) (\<lambda>_.
           run_bind (transact (start_repair_step (rw_now w) (Some (rt_id r)) a (Some (request_audit a context)))) (\<lambda>s.
           if st_status s = StSucceeded then run_actions w (r, steps) identity context as
           else if st_status s = StRunning \<and> st_id s \<in> set (map st_id steps)
           then give (Inl (ambiguous_outcome ''Repair step has an ambiguous running operation requiring manual resolution''))
           else run_bind (run_catch
               (run_bind (run_action w a r identity context s) (\<lambda>result.
                run_bind (transact (complete_repair_step (rw_now w) (st_id s) (Some (audit_result result)))) (\<lambda>_. give (Inr ()))))
               (action_failed w a r s)) (\<lambda>_.
             run_actions w (r, steps) identity context as))))"

definition exact_target :: "release_identity \<Rightarrow> recon_snapshot \<Rightarrow> bool" where
  "exact_target identity snapshot = (case rn_currentBinding snapshot of None \<Rightarrow> False | Some b \<Rightarrow>
     bd_release_key b = ri_releaseKey identity
     \<and> list_ex (\<lambda>m. fm_release_key m = ri_releaseKey identity \<and> fm_placement_id m = bd_placement_id b
          \<and> fm_provider_file_id m = bd_provider_file_id b \<and> fm_state m = CmMapped \<and> fm_authoritative m) (rn_mappings snapshot)
     \<and> list_ex (\<lambda>e. ex_id e = bd_exposure_id b \<and> ex_placement_id e = bd_placement_id b
          \<and> ex_provider_file_id e = bd_provider_file_id b \<and> ex_state e = ExVisible \<and> ex_read_only e) (rn_exposures snapshot))"

definition assert_postconditions :: "repair_world \<Rightarrow> repair_transaction \<Rightarrow> release_identity \<Rightarrow> slice_context \<Rightarrow> db \<Rightarrow> unit res" where
  "assert_postconditions w r identity context d =
     res_bind (repair_state r identity d) (\<lambda>snapshot.
     res_bind (get_lifecycle (rt_library_item_id r) d) (\<lambda>lifecycle.
     res_bind (plan_rd_zurg_repair (rw_loc w) (rw_digest w) snapshot lifecycle (scope_of_repair (rt_scope r))
        (nullish (cn_now context) (rw_now w))) (\<lambda>plan.
     res_bind (ensure (py_status plan = ''healthy'')
        (repair_error ''Repair postconditions not met'' ''repair-postcondition-failed'')) (\<lambda>_.
     ensure (exact_target identity snapshot)
        (repair_error ''Repair postconditions do not prove an exact active binding target'' ''repair-postcondition-failed'')))))"

text \<open>The transaction that is executed: a failed one is resumed first when the context says so.\<close>

definition open_repair :: "repair_world \<Rightarrow> string option \<Rightarrow> slice_context \<Rightarrow> repair_view run" where
  "open_repair w i context =
     run_bind (look (load_repair i)) (\<lambda>found.
     run_bind (if rt_status (fst found) = RpFailed \<and> cn_resume context
        then transact (resume_repair_transaction (rw_now w) (Some (rt_id (fst found)))) else give (Inr found)) (\<lambda>repair.
     run_bind (give (ensure (rt_status (fst repair) = RpAuthorized \<or> rt_status (fst repair) = RpExecuting)
        (JsError ''Repair transaction cannot execute''))) (\<lambda>_.
       give (Inr repair))))"

definition execute_repair :: "repair_world \<Rightarrow> string option \<Rightarrow> slice_context \<Rightarrow> repair_view run" where
  "execute_repair w i context =
     run_bind (open_repair w i context) (\<lambda>(r, steps).
     run_bind (give (validate_release_identity (JObj (identity_entries (transaction_identity r))))) (\<lambda>identity.
     run_bind (look (bound_target r identity)) (\<lambda>_.
     run_bind (give (ensure (\<not> list_ex (\<lambda>s. st_status s = StRunning) steps)
        (ambiguous_outcome ''Repair step has an ambiguous running operation requiring manual resolution''))) (\<lambda>_.
     let actions = filter (\<lambda>a. a \<in> set (rt_authorized_actions r)) (pn_actionSequence (rt_plan r)) in
     run_bind (give (ensure (length actions = length (rt_authorized_actions r))
        (repair_error ''Persisted repair authorization does not match the plan sequence'' ''repair-plan-invalid''))) (\<lambda>_.
     run_bind (run_actions w (r, steps) identity context actions) (\<lambda>_.
     run_bind (run_catch (look (assert_postconditions w r identity context)) (\<lambda>e.
        run_bind (transact (fail_repair_transaction (rw_now w) (Some (rt_id r))
            (failed_with (nullish (error_category e) ''repair-postcondition-failed'')))) (\<lambda>_. give (Inl e)))) (\<lambda>_.
     transact (complete_repair_transaction (rw_now w) (Some (rt_id r))))))))))"

end
