(* ===== verification/Slice_Invariant.thy ===== *)
theory Slice_Invariant
  imports Store_Invariant Repair_Executor
begin

text \<open>
  What the operations of the slice and the executor do to the store, whatever the adapters answer:
  they are sequences of store operations, so the invariant of the store is kept, also when they
  throw; and the slice writes neither repair transactions nor repair steps.
\<close>

section \<open>The slice\<close>

definition slice_kept :: "db \<Rightarrow> db \<Rightarrow> bool" where
  "slice_kept d d' \<longleftrightarrow> (store_inv d \<longrightarrow> store_step\<^sup>*\<^sup>* d d' \<and> store_inv d'
     \<and> db_repairs d' = db_repairs d \<and> db_steps d' = db_steps d)"

interpretation slice: run_relation slice_kept
  by unfold_locales (auto simp: slice_kept_def)

definition good_ids :: "gateway \<Rightarrow> bool" where
  "good_ids gw \<longleftrightarrow> (\<forall>n. id_ok (''tf_'' @ gw_uuid gw n))"

lemma slice_keptI:
  assumes "store_step d d'" "store_inv d \<Longrightarrow> db_repairs d' = db_repairs d \<and> db_steps d' = db_steps d"
  shows "slice_kept d d'"
  using assms store_step_inv [OF assms(1)] by (auto simp: slice_kept_def)

lemma placement_kept: "record_placement now u input d = Inr (d', r) \<Longrightarrow> slice_kept d d'"
proof (rule slice_keptI)
  assume r: "record_placement now u input d = Inr (d', r)"
  then show "store_step d d'" by (rule ss_placement)
  from record_placement_frame(1) [OF r] show "db_repairs d' = db_repairs d \<and> db_steps d' = db_steps d"
    by (cases d; cases d'; simp)
qed

lemma lookup_kept: "record_placement_lookup_observation u input d = Inr (d', r) \<Longrightarrow> slice_kept d d'"
  by (rule slice_keptI) (auto intro: ss_lookup dest: record_lookup_frame)

lemma zurg_kept: "record_zurg_metadata_observation u input d = Inr (d', r) \<Longrightarrow> slice_kept d d'"
  by (rule slice_keptI) (auto intro: ss_zurg dest: record_zurg_frame)

lemma readiness_kept: "record_readiness_observation input d = Inr (d', r) \<Longrightarrow> slice_kept d d'"
  by (rule slice_keptI) (auto intro: ss_readiness elim: record_readiness_frame)

lemma exposure_kept: "record_exposure now u input d = Inr (d', r) \<Longrightarrow> slice_kept d d'"
  by (rule slice_keptI) (auto intro: ss_exposure elim: record_exposure_frame)

lemma mapping_kept: "record_file_mapping now u input d = Inr (d', r) \<Longrightarrow> slice_kept d d'"
  by (rule slice_keptI) (auto intro: ss_mapping dest: record_file_mapping_frame)

lemma inventory_kept:
  assumes "replace_provider_file_inventory now us p files opts d = Inr (d', l)" "\<forall>n. id_ok (''tf_'' @ us n)"
  shows "slice_kept d d'"
proof (rule slice_keptI)
  show "store_step d d'" using assms by (auto intro: ss_inventory)
  have "d' = d \<or> (\<exists>rows ev. d' = d\<lparr>db_provider_files := db_provider_files d', db_torrent_files := db_torrent_files d',
      db_events := db_events d', db_inventories := rows, db_delivery := ev\<rparr>)"
    using assms(1) by (cases rule: replace_inventory_cases) (blast elim: replaced_frame)+
  then show "db_repairs d' = db_repairs d \<and> db_steps d' = db_steps d" by (elim disjE exE; cases d; cases d'; simp)
qed

lemma binding_kept: "activate_binding now u input d = Inr (d', b) \<Longrightarrow> slice_kept d d'"
proof (rule slice_keptI)
  assume r: "activate_binding now u input d = Inr (d', b)"
  then show "store_step d d'" by (intro ss_binding binding_step.activate)
  assume "store_inv d"
  from binding_step_frame(1) [OF binding_step.activate [OF r] store_invD(4) [OF this]]
  show "db_repairs d' = db_repairs d \<and> db_steps d' = db_steps d" by (cases d; cases d'; simp)
qed

lemmas slice_keep = slice.keep_give slice.keep_look slice.keep_transact slice.keep_bind slice.keep_option
  slice.keep_if slice.keep_single

lemma observe_placement_kept: "slice_kept d (fst (observe_placement account gw cx release d))"
  unfolding observe_placement_def Let_def by (intro slice_keep; erule lookup_kept placement_kept)

lemma observe_readiness_kept: "slice_kept d (fst (observe_readiness account gw release resource d))"
  unfolding observe_readiness_def by (intro slice_keep; erule readiness_kept)

lemma observe_inventory_kept: "good_ids gw \<Longrightarrow> slice_kept d (fst (observe_inventory account gw resource d))"
  unfolding observe_inventory_def good_ids_def by (intro slice_keep; erule (1) inventory_kept)

lemma observe_zurg_kept: "slice_kept d (fst (observe_zurg_metadata account gw release path d))"
  unfolding observe_zurg_metadata_def by (intro slice_keep; erule zurg_kept)

lemma observe_exposure_kept: "slice_kept d (fst (observe_exposure account gw release resource f path d))"
  unfolding observe_exposure_def by (intro slice_keep; erule exposure_kept)

lemma map_exact_file_kept: "slice_kept d (fst (map_exact_file account gw release resource f now at d))"
  unfolding map_exact_file_def by (intro slice_keep; erule mapping_kept)

lemma slice_activate_kept: "slice_kept d (fst (slice_activate_binding account gw input d))"
  unfolding slice_activate_binding_def by (intro slice_keep; erule binding_kept)

lemmas slice_ops_kept = observe_placement_kept observe_readiness_kept observe_inventory_kept observe_zurg_kept
  observe_exposure_kept map_exact_file_kept slice_activate_kept

section \<open>The actions of a repair\<close>

lemma run_action_kept:
  assumes "good_ids (rw_gateway w action)"
  shows "slice_kept d (fst (run_action w action r identity cx s d))"
  unfolding run_action_def Let_def run_reobserve_provider_def run_reselect_def run_request_repair_def
    run_reobserve_exposure_def run_reconcile_def
  by (intro slice_keep slice_ops_kept assms)

section \<open>The executor\<close>

definition run_sound :: "db \<Rightarrow> db \<Rightarrow> bool" where
  "run_sound d d' \<longleftrightarrow> (store_inv d \<longrightarrow> store_step\<^sup>*\<^sup>* d d' \<and> store_inv d' \<and> repair_moves d d')"

interpretation sound: run_relation run_sound
  by unfold_locales (auto simp: run_sound_def)

lemma kept_sound: "slice_kept d d' \<Longrightarrow> run_sound d d'"
  by (auto simp: slice_kept_def run_sound_def intro: repair_move.other)

lemma repair_op_sound: "repair_op d d' \<Longrightarrow> run_sound d d'"
  using store_step_inv [OF ss_repair] by (auto simp: run_sound_def intro: ss_repair repair_op_move)

lemmas sound_keep = sound.keep_give sound.keep_look sound.keep_transact sound.keep_bind sound.keep_catch
  sound.keep_option sound.keep_if

lemma action_failed_sound: "run_sound d (fst (action_failed w a r s e d))"
  unfolding action_failed_def by (intro sound_keep repair_op_sound; erule ro_fail ro_fail_step)

lemma run_actions_sound:
  assumes "\<And>a. good_ids (rw_gateway w a)"
  shows "run_sound d (fst (run_actions w (r, steps) identity cx as d))"
proof (induction as arbitrary: d)
  case Nil
  then show ?case by (simp add: sound.stay)
next
  case (Cons a as)
  show ?case
    unfolding run_actions.simps
    by (intro sound_keep Cons.IH action_failed_sound kept_sound [OF run_action_kept] assms repair_op_sound;
        erule ro_start ro_complete_step)
qed

lemma open_repair_sound: "run_sound d (fst (open_repair w i cx d))"
  unfolding open_repair_def by (intro sound_keep repair_op_sound; erule ro_resume)

lemma execute_repair_sound:
  assumes "\<And>a. good_ids (rw_gateway w a)"
  shows "run_sound d (fst (execute_repair w i cx d))"
  unfolding execute_repair_def Let_def case_prod_unfold
  by (intro sound_keep open_repair_sound repair_op_sound run_actions_sound assms; erule ro_fail ro_complete)

lemma persist_plan_sound: "run_sound d (fst (persist_plan w item plan d))"
  unfolding persist_plan_def by (intro sound_keep repair_op_sound; erule ro_create)

lemma authorize_repair_sound: "run_sound d (fst (authorize_repair w i input d))"
  unfolding authorize_repair_def case_prod_unfold by (intro sound_keep repair_op_sound; erule ro_authorize)

end
