(* ===== verification/Planner_Properties.thy ===== *)
theory Planner_Properties
  imports Repair_Planner
begin

text \<open>
  What the repair planner proposes: when it finds nothing to do, every piece of evidence of the bound
  route is good; a mutation at the provider is permitted only on evidence about the provider.
\<close>

section \<open>Triggers and actions\<close>

lemma unless_set: "(t \<in> set (unless c u)) = (\<not> c \<and> t = u)"
  by (simp add: unless_def)

lemma trigger_category [simp]: "tr_category (trigger k ev) = k"
  by (simp add: trigger_def)

lemma category_unless [simp]: "tr_category ` set (unless c (trigger k ev)) = (if c then {} else {k})"
  by (simp add: unless_def)

lemma unless_Nil [simp]: "(unless c u = []) = c"
  by (simp add: unless_def)

lemma sort_key_Nil [simp]: "(sort_key f xs = []) = (xs = [])"
  by (metis length_0_conv length_sort)

definition provider_ready :: "slice_facts \<Rightarrow> bool" where
  "provider_ready facts \<longleftrightarrow> fact_state (ft_placement facts) = JStr ''present'' \<and> fact_state (ft_readiness facts) = JStr ''ready''"

definition inventory_ready :: "recon_snapshot \<Rightarrow> binding \<Rightarrow> int \<Rightarrow> bool" where
  "inventory_ready snapshot b now \<longleftrightarrow> bound_file_in snapshot b \<noteq> None \<and> bound_inventory_healthy snapshot b now"

definition selection_lost :: "recon_snapshot \<Rightarrow> binding \<Rightarrow> bool" where
  "selection_lost snapshot b \<longleftrightarrow> Option.bind (bound_file_in snapshot b) pf_selected = Some False"

lemma placement_triggers_Nil [simp]: "(placement_triggers facts = []) = provider_ready facts"
  by (auto simp: placement_triggers_def provider_ready_def)

lemma inventory_triggers_Nil [simp]:
  "(inventory_triggers facts snapshot b now = []) = (inventory_ready snapshot b now \<and> \<not> selection_lost snapshot b)"
  by (auto simp: inventory_triggers_def inventory_ready_def selection_lost_def)

lemma placement_categories:
  "tr_category ` set (placement_triggers facts) \<subseteq> {''missing-provider-placement'', ''broken-provider-observation''}"
  by (auto simp: placement_triggers_def)

lemma inventory_categories:
  "tr_category ` set (inventory_triggers facts snapshot b now) =
     (if \<not> inventory_ready snapshot b now then {''provider-inventory-degraded''}
      else if selection_lost snapshot b then {''known-file-selection-lost''} else {})"
  by (auto simp: inventory_triggers_def inventory_ready_def selection_lost_def)

lemma detect_triggers_Nil:
  "(detect_triggers loc facts snapshot b now = []) = (provider_ready facts \<and> inventory_ready snapshot b now
     \<and> \<not> selection_lost snapshot b \<and> bound_mapping_healthy snapshot b \<and> bound_exposure_healthy snapshot b now
     \<and> zurg_healthy facts \<and> fact_state (ft_binding facts) = JStr ''active'')"
  by (auto simp: detect_triggers_def)

lemma detect_categories:
  "tr_category ` set (detect_triggers loc facts snapshot b now) =
     tr_category ` set (placement_triggers facts) \<union> tr_category ` set (inventory_triggers facts snapshot b now)
     \<union> (if bound_mapping_healthy snapshot b then {} else {''exact-file-mapping-degraded''})
     \<union> (if bound_exposure_healthy snapshot b now then {} else {''missing-filesystem-exposure''})
     \<union> (if zurg_healthy facts then {} else {''stale-zurg-metadata-state''})
     \<union> (if fact_state (ft_binding facts) = JStr ''active'' then {} else {''canonical-binding-degraded''})"
  unfolding detect_triggers_def set_sort set_append image_Un category_unless by blast

lemma add_action_set [simp]: "set (add_action a as) = insert a (set as)"
  by (auto simp: add_action_def)

lemma add_action_distinct: "distinct as \<Longrightarrow> distinct (add_action a as)"
  by (simp add: add_action_def)

lemma fold_add_action: "set (fold add_action new as) = set new \<union> set as"
  "distinct as \<Longrightarrow> distinct (fold add_action new as)"
  by (induction new arbitrary: as) (auto simp: add_action_distinct)

lemma add_actions_set [simp]: "set (add_actions c new as) = (if c then set new else {}) \<union> set as"
  by (simp add: add_actions_def fold_add_action)

lemma add_actions_distinct: "distinct as \<Longrightarrow> distinct (add_actions c new as)"
  by (simp add: add_actions_def fold_add_action)

lemma permitted_distinct: "distinct (permitted_actions_for ts snapshot b)"
  unfolding permitted_actions_for_def Let_def by (intro add_actions_distinct) simp

lemma permitted_known: "set (permitted_actions_for ts snapshot b) \<subseteq> set action_order"
  unfolding permitted_actions_for_def Let_def by (simp add: action_order_def)

lemma ordered_actions_set: "set as \<subseteq> set action_order \<Longrightarrow> set (ordered_actions as) = set as"
  by (auto simp: ordered_actions_def)

lemma ordered_actions_distinct: "distinct (ordered_actions as)"
  unfolding ordered_actions_def by (rule distinct_filter) (simp add: action_order_def repair_action_names)

lemma ordered_trimmed: "a \<in> set action_order \<Longrightarrow> js_trim a = a \<and> length a \<le> 256"
  by (auto simp: action_order_def repair_action_names js_trim_def js_space_def code_of_def Let_def)

section \<open>Plans\<close>

text \<open>The plan of a snapshot, by what its triggers are.\<close>

lemma plan_repair_cases [consumes 1, case_names unbound healthy broken]:
  assumes "plan_rd_zurg_repair loc digest snapshot lifecycle scope now = Inr plan"
  obtains
    (unbound) "py_status plan = ''not-applicable''" "py_permittedActions plan = []" "py_planKey plan = None"
  | (healthy) identity pj b where "validate_release_identity (ds_release (rn_desired snapshot)) = Inr identity"
      "project_rd_zurg_lifecycle loc snapshot lifecycle scope now = Inr pj" "rn_currentBinding snapshot = Some b"
      "bd_release_key b = ri_releaseKey identity" "detect_triggers loc (pj_facts pj) snapshot b now = []"
      "py_status plan = ''healthy''" "py_permittedActions plan = []" "py_planKey plan = None"
  | (broken) identity pj b ts where "validate_release_identity (ds_release (rn_desired snapshot)) = Inr identity"
      "project_rd_zurg_lifecycle loc snapshot lifecycle scope now = Inr pj" "rn_currentBinding snapshot = Some b"
      "bd_release_key b = ri_releaseKey identity" "detect_triggers loc (pj_facts pj) snapshot b now = ts" "ts \<noteq> []"
      "py_status plan = ''repair-required''" "py_permittedActions plan = permitted_actions_for ts snapshot b"
      "py_actionSequence plan = ordered_actions (py_permittedActions plan)" "py_desiredIdentity plan = identity"
      "py_binding plan = Some (binding_of_plan b)" "py_scope plan = pj_scope pj" "py_evaluatedAt plan = now"
      "py_triggers plan = ts"
      "py_planKey plan = Some (''repair:'' @ ri_releaseKey identity @ '':'' @ repair_fingerprint digest identity
         (pj_scope pj) (bd_version b) ts (py_permittedActions plan) (py_actionSequence plan)
         (summarize_observations (pj_facts pj)))"
proof -
  from assms obtain identity pj where i: "validate_release_identity (ds_release (rn_desired snapshot)) = Inr identity"
    and p: "project_rd_zurg_lifecycle loc snapshot lifecycle scope now = Inr pj"
    unfolding plan_rd_zurg_repair_def res_bind_Inr by blast
  note plan = assms [unfolded plan_rd_zurg_repair_def i p res_bind_simps Let_def]
  show thesis
  proof (cases "rn_currentBinding snapshot")
    case None
    with plan show thesis by (intro unbound) (auto simp: quiet_plan_def)
  next
    case (Some b)
    show thesis
    proof (cases "bd_release_key b = ri_releaseKey identity")
      case False
      with plan Some show thesis by (intro unbound) (auto simp: quiet_plan_def)
    next
      case True
      show thesis
      proof (cases "detect_triggers loc (pj_facts pj) snapshot b now")
        case Nil
        with plan Some True i p show thesis by (intro healthy) (auto simp: quiet_plan_def)
      next
        case (Cons t ts)
        with plan Some True i p show thesis by (intro broken [of identity pj b "t # ts"]) auto
      qed
    qed
  qed
qed

section \<open>What a healthy plan shows\<close>

lemma fact_state_make [simp]: "fact_state (make_fact st source details) = JStr st"
  by (simp add: fact_state_def make_fact_def prop_of_def)

lemma fact_state_binding [simp]: "fact_state (binding_fact st c b) = JStr st"
  by (simp add: binding_fact_def)

lemma effective_state_known: "st \<noteq> ''unknown'' \<Longrightarrow> (effective_state s e now = st) = (s = st \<and> safe_later e now)"
  by (auto simp: effective_state_def freshness_of_def safe_later_def split: option.splits)

lemma newest_item_in: "newest_item loc at ident xs = Some x \<Longrightarrow> x \<in> set xs \<and> (\<forall>y \<in> set xs. at y \<le> at x)"
  unfolding newest_item_def by (drule top_by_Some) (auto simp: less_eq_prod_def)

lemma placement_fact_present:
  "fact_state (project_placement loc now xs) = JStr ''present'' \<longleftrightarrow>
    (\<exists>x. newest_item loc po_observed_at po_id xs = Some x \<and> po_observation_state x = ObPresent
       \<and> safe_later (Some (po_expires_at x)) now)"
  by (auto simp: project_placement_def Let_def effective_state_known observation_state_text_def
      split: option.splits observation_state.splits)

lemma readiness_fact_ready:
  "fact_state (project_readiness loc now xs) = JStr ''ready'' \<longleftrightarrow>
    (\<exists>x. newest_item loc ro_observed_at (\<lambda>_. []) xs = Some x \<and> ro_state x = PsReady
       \<and> safe_later (Some (ro_expires_at x)) now)"
  by (auto simp: project_readiness_def Let_def effective_state_known placement_state_text_def
      split: option.splits placement_state.splits)

lemma binding_fact_active:
  assumes "fact_state (project_binding loc current identity filtered) = JStr ''active''"
  obtains b p e where "current = Some b" "bd_release_key b = ri_releaseKey identity" "bd_status b = BdActive"
    "find (\<lambda>p. pl_id (rp_row p) = bd_placement_id b) (fs_placements filtered) = Some p"
    "find (\<lambda>e. ex_id e = bd_exposure_id b) (fs_exposures filtered) = Some e"
    "ex_provider_file_id e = bd_provider_file_id b"
    "\<And>x. newest_item loc po_observed_at po_id (fs_placementObservations filtered) = Some x \<Longrightarrow>
      po_observation_state x = ObPresent \<Longrightarrow> po_placement_id x = Some (bd_placement_id b)"
  using assms
  by (auto simp: project_binding_def binding_status_text_def split: option.splits if_splits binding_status.splits)

text \<open>The evidence that a healthy plan found, row by row.\<close>

lemma healthy_plan_rows:
  assumes plan: "plan_rd_zurg_repair loc digest snapshot lifecycle scope now = Inr plan" "py_status plan = ''healthy''"
  obtains identity b f s m e where
    "validate_release_identity (ds_release (rn_desired snapshot)) = Inr identity"
    "rn_currentBinding snapshot = Some b" "bd_status b = BdActive" "bd_release_key b = ri_releaseKey identity"
    "f \<in> set (rn_providerFiles snapshot)" "pf_placement_id f = bd_placement_id b"
      "pf_provider_file_id f = bd_provider_file_id b" "pf_selected f \<noteq> Some False"
    "s \<in> set (rn_inventorySnapshots snapshot)" "iv_placement_id s = bd_placement_id b" "iv_authoritative s"
      "iv_complete s" "safe_later (iv_expires_at s) now"
    "m \<in> set (rn_mappings snapshot)" "fm_release_key m = bd_release_key b" "fm_placement_id m = bd_placement_id b"
      "fm_provider_file_id m = bd_provider_file_id b" "fm_state m = CmMapped" "fm_authoritative m"
    "e \<in> set (rn_exposures snapshot)" "ex_id e = bd_exposure_id b" "ex_state e = ExVisible" "ex_read_only e"
      "safe_later (ex_expires_at e) now"
  using plan(1)
proof (cases rule: plan_repair_cases)
  case (healthy identity pj b)
  from healthy(2) obtain filtered where "ft_binding (pj_facts pj) = project_binding loc (rn_currentBinding snapshot) identity filtered"
    unfolding project_rd_zurg_lifecycle_def res_bind_Inr healthy(1) Let_def by auto
  with healthy(5) have "fact_state (project_binding loc (rn_currentBinding snapshot) identity filtered) = JStr ''active''"
    by (simp add: detect_triggers_Nil)
  then have active: "bd_status b = BdActive" using healthy(3) by (auto elim: binding_fact_active)
  from healthy(5) have good: "inventory_ready snapshot b now" "\<not> selection_lost snapshot b" "bound_mapping_healthy snapshot b"
      "bound_exposure_healthy snapshot b now" by (simp_all add: detect_triggers_Nil)
  from good(1) obtain f where f: "bound_file_in snapshot b = Some f" by (auto simp: inventory_ready_def)
  with good(2) have sel: "pf_selected f \<noteq> Some False" by (simp add: selection_lost_def)
  from good(1) obtain s where s: "find (\<lambda>s. iv_placement_id s = bd_placement_id b) (rn_inventorySnapshots snapshot) = Some s"
      "iv_authoritative s" "iv_complete s" "safe_later (iv_expires_at s) now"
    by (auto simp: inventory_ready_def bound_inventory_healthy_def split: option.splits)
  from good(3) obtain m where m: "find (\<lambda>m. fm_release_key m = bd_release_key b \<and> fm_placement_id m = bd_placement_id b
      \<and> fm_provider_file_id m = bd_provider_file_id b) (rn_mappings snapshot) = Some m" "fm_state m = CmMapped" "fm_authoritative m"
    by (auto simp: bound_mapping_healthy_def split: option.splits)
  from good(4) obtain e where e: "find (\<lambda>e. ex_id e = bd_exposure_id b) (rn_exposures snapshot) = Some e" "ex_state e = ExVisible"
      "ex_read_only e" "safe_later (ex_expires_at e) now"
    by (auto simp: bound_exposure_healthy_def split: option.splits)
  from find_SomeD [OF f [unfolded bound_file_in_def]] find_SomeD [OF s(1)] find_SomeD [OF m(1)] find_SomeD [OF e(1)]
  show thesis
    by (intro that [OF healthy(1) healthy(3) active healthy(4), of f s m e]) (use sel s m e in auto)
qed (use plan(2) in simp_all)

text \<open>When a plan permits a mutation, and what a lost mount permits.\<close>

lemma in_add_actions: "(a \<in> set (add_actions c new as)) = (c \<and> a \<in> set new \<or> a \<in> set as)"
  by simp

lemmas permitted_iff = permitted_actions_for_def [unfolded Let_def] in_add_actions

lemma in_unless: "(c \<in> (if good then {} else {k})) = (\<not> good \<and> c = k)"
  by simp

lemma in_choice: "(c \<in> (if p then {k} else if q then {l} else {})) = (p \<and> c = k \<or> \<not> p \<and> q \<and> c = l)"
  by simp

lemmas detected_iff = detect_categories inventory_categories Un_iff in_unless in_choice

text \<open>The actions that a plan permits, by what its evidence shows.\<close>

lemma placement_broken:
  "''missing-provider-placement'' \<in> tr_category ` set (placement_triggers facts)
     \<or> ''broken-provider-observation'' \<in> tr_category ` set (placement_triggers facts) \<longleftrightarrow> \<not> provider_ready facts"
  by (auto simp: placement_triggers_def provider_ready_def)

lemma detected_categories:
  fixes facts loc snapshot b now
  defines "C \<equiv> tr_category ` set (detect_triggers loc facts snapshot b now)"
  shows "''missing-provider-placement'' \<in> C \<or> ''broken-provider-observation'' \<in> C \<longleftrightarrow> \<not> provider_ready facts"
    "''provider-inventory-degraded'' \<in> C \<longleftrightarrow> \<not> inventory_ready snapshot b now"
    "''known-file-selection-lost'' \<in> C \<longleftrightarrow> inventory_ready snapshot b now \<and> selection_lost snapshot b"
    "''exact-file-mapping-degraded'' \<in> C \<longleftrightarrow> \<not> bound_mapping_healthy snapshot b"
    "''missing-filesystem-exposure'' \<in> C \<longleftrightarrow> \<not> bound_exposure_healthy snapshot b now"
    "''stale-zurg-metadata-state'' \<in> C \<longleftrightarrow> \<not> zurg_healthy facts"
    "''canonical-binding-degraded'' \<in> C \<longleftrightarrow> fact_state (ft_binding facts) \<noteq> JStr ''active''"
proof -
  have out: "c \<notin> tr_category ` set (placement_triggers facts)"
    if "c \<noteq> ''missing-provider-placement''" "c \<noteq> ''broken-provider-observation''" for c
    using placement_categories [of facts] that by blast
  show "''missing-provider-placement'' \<in> C \<or> ''broken-provider-observation'' \<in> C \<longleftrightarrow> \<not> provider_ready facts"
    unfolding C_def detected_iff placement_broken [symmetric] by simp
  show "''provider-inventory-degraded'' \<in> C \<longleftrightarrow> \<not> inventory_ready snapshot b now"
    "''known-file-selection-lost'' \<in> C \<longleftrightarrow> inventory_ready snapshot b now \<and> selection_lost snapshot b"
    "''exact-file-mapping-degraded'' \<in> C \<longleftrightarrow> \<not> bound_mapping_healthy snapshot b"
    "''missing-filesystem-exposure'' \<in> C \<longleftrightarrow> \<not> bound_exposure_healthy snapshot b now"
    "''stale-zurg-metadata-state'' \<in> C \<longleftrightarrow> \<not> zurg_healthy facts"
    "''canonical-binding-degraded'' \<in> C \<longleftrightarrow> fact_state (ft_binding facts) \<noteq> JStr ''active''"
    unfolding C_def detected_iff by (simp_all add: out)
qed

lemma permitted_categories:
  fixes ts
  defines "C \<equiv> tr_category ` set ts"
  shows "request_repair \<in> set (permitted_actions_for ts snapshot b) \<longleftrightarrow>
      ''missing-provider-placement'' \<in> C \<or> ''broken-provider-observation'' \<in> C"
    "replace_observation \<in> set (permitted_actions_for ts snapshot b) \<longleftrightarrow>
      ''missing-provider-placement'' \<in> C \<or> ''broken-provider-observation'' \<in> C"
    "reselect_files \<in> set (permitted_actions_for ts snapshot b) \<longleftrightarrow>
      ''known-file-selection-lost'' \<in> C \<and> bound_file_in snapshot b \<noteq> None"
    "reobserve_provider \<in> set (permitted_actions_for ts snapshot b) \<longleftrightarrow>
      ''missing-provider-placement'' \<in> C \<or> ''broken-provider-observation'' \<in> C
      \<or> ''known-file-selection-lost'' \<in> C \<and> bound_file_in snapshot b \<noteq> None \<or> ''provider-inventory-degraded'' \<in> C"
    "reobserve_exposure \<in> set (permitted_actions_for ts snapshot b) \<longleftrightarrow> ''missing-filesystem-exposure'' \<in> C"
    "reobserve_zurg \<in> set (permitted_actions_for ts snapshot b) \<longleftrightarrow> ''stale-zurg-metadata-state'' \<in> C"
    "reconcile_binding \<in> set (permitted_actions_for ts snapshot b) \<longleftrightarrow>
      (''missing-provider-placement'' \<in> C \<or> ''broken-provider-observation'' \<in> C) \<or> ''provider-inventory-degraded'' \<in> C
      \<or> ''known-file-selection-lost'' \<in> C \<or> ''exact-file-mapping-degraded'' \<in> C \<or> ''canonical-binding-degraded'' \<in> C"
  unfolding permitted_iff set_map C_def by (auto simp: repair_action_names reconciled_categories_def)

lemma permitted_exact:
  assumes "plan_rd_zurg_repair loc digest snapshot lifecycle scope now = Inr plan" "py_status plan = ''repair-required''"
    and pj: "project_rd_zurg_lifecycle loc snapshot lifecycle scope now = Inr pj"
    and b: "rn_currentBinding snapshot = Some b"
  defines "A \<equiv> set (py_permittedActions plan)" and "lost \<equiv> inventory_ready snapshot b now \<and> selection_lost snapshot b"
  shows "request_repair \<in> A \<longleftrightarrow> \<not> provider_ready (pj_facts pj)" "replace_observation \<in> A \<longleftrightarrow> \<not> provider_ready (pj_facts pj)"
    "reselect_files \<in> A \<longleftrightarrow> lost"
    "reobserve_provider \<in> A \<longleftrightarrow> \<not> provider_ready (pj_facts pj) \<or> \<not> inventory_ready snapshot b now \<or> lost"
    "reobserve_exposure \<in> A \<longleftrightarrow> \<not> bound_exposure_healthy snapshot b now"
    "reobserve_zurg \<in> A \<longleftrightarrow> \<not> zurg_healthy (pj_facts pj)"
    "reconcile_binding \<in> A \<longleftrightarrow> \<not> provider_ready (pj_facts pj) \<or> \<not> inventory_ready snapshot b now \<or> lost
      \<or> \<not> bound_mapping_healthy snapshot b \<or> fact_state (ft_binding (pj_facts pj)) \<noteq> JStr ''active''"
    "A \<subseteq> set action_order"
proof -
  obtain ts where ts: "A = set (permitted_actions_for ts snapshot b)" "detect_triggers loc (pj_facts pj) snapshot b now = ts"
    using assms(1)
  proof (cases rule: plan_repair_cases)
    case (broken identity pj' b' ts)
    with pj b show ?thesis by (intro that [of ts]) (simp_all add: A_def)
  qed (use assms(2) in simp_all)
  note d = detected_categories [of loc "pj_facts pj" snapshot b now, unfolded ts(2)]
  have found: "inventory_ready snapshot b now \<Longrightarrow> bound_file_in snapshot b \<noteq> None" by (simp add: inventory_ready_def)
  show "request_repair \<in> A \<longleftrightarrow> \<not> provider_ready (pj_facts pj)" "replace_observation \<in> A \<longleftrightarrow> \<not> provider_ready (pj_facts pj)"
    "reselect_files \<in> A \<longleftrightarrow> lost"
    "reobserve_provider \<in> A \<longleftrightarrow> \<not> provider_ready (pj_facts pj) \<or> \<not> inventory_ready snapshot b now \<or> lost"
    "reobserve_exposure \<in> A \<longleftrightarrow> \<not> bound_exposure_healthy snapshot b now"
    "reobserve_zurg \<in> A \<longleftrightarrow> \<not> zurg_healthy (pj_facts pj)"
    "reconcile_binding \<in> A \<longleftrightarrow> \<not> provider_ready (pj_facts pj) \<or> \<not> inventory_ready snapshot b now \<or> lost
      \<or> \<not> bound_mapping_healthy snapshot b \<or> fact_state (ft_binding (pj_facts pj)) \<noteq> JStr ''active''"
    unfolding ts(1) permitted_categories lost_def using d found by blast+
  show "A \<subseteq> set action_order" unfolding ts(1) by (rule permitted_known)
qed

definition newest_ready :: "(string \<Rightarrow> nat list) \<Rightarrow> filtered_snapshot \<Rightarrow> int \<Rightarrow> bool" where
  "newest_ready loc filtered now \<longleftrightarrow>
     (\<exists>x. newest_item loc po_observed_at po_id (fs_placementObservations filtered) = Some x
        \<and> po_observation_state x = ObPresent \<and> safe_later (Some (po_expires_at x)) now)
     \<and> (\<exists>x. newest_item loc ro_observed_at (\<lambda>_. []) (fs_readinessObservations filtered) = Some x
        \<and> ro_state x = PsReady \<and> safe_later (Some (ro_expires_at x)) now)"

lemma provider_ready_newest:
  assumes "project_rd_zurg_lifecycle loc snapshot lifecycle scope now = Inr pj"
  shows "provider_ready (pj_facts pj) = newest_ready loc (filter_snapshot snapshot (pj_scope pj)) now"
proof -
  from assms have "ft_placement (pj_facts pj) = project_placement loc now (fs_placementObservations (filter_snapshot snapshot (pj_scope pj)))"
    "ft_readiness (pj_facts pj) = project_readiness loc now (fs_readinessObservations (filter_snapshot snapshot (pj_scope pj)))"
    unfolding project_rd_zurg_lifecycle_def res_bind_Inr Let_def by auto
  then show ?thesis
    unfolding provider_ready_def newest_ready_def by (simp only: placement_fact_present readiness_fact_ready)
qed

lemma selection_lost_file: "selection_lost snapshot b \<longleftrightarrow> (\<exists>f. bound_file_in snapshot b = Some f \<and> pf_selected f = Some False)"
  by (auto simp: selection_lost_def bind_eq_Some_conv)

end
