(* ===== verification/Executor_Properties.thy ===== *)
theory Executor_Properties
  imports Slice_Invariant Planner_Properties Route_Acceptance Repair_Safety
begin

text \<open>
  The repair executor over the store: every step it starts is settled before it returns, unless the
  outcome of a provider mutation is unknown, and then no later execution gets past that step; an
  execution that reports success has found the bound route good.
\<close>

section \<open>Opening a transaction\<close>

lemma load_repair_Inr:
  assumes "load_repair i d = Inr (r, steps)"
  obtains s where "i = Some s" "find_repair (js_trim s) d = Some r" "rt_id r = js_trim s"
    "steps = sort_key st_id (steps_of (rt_id r) d)" "require_string (Some (rt_id r)) ''repairTransactionId'' 256 = Inr (rt_id r)"
proof -
  from assms obtain t where t: "require_string i ''repairTransactionId'' 256 = Inr t"
    and f: "find_repair t d = Some r" "steps = sort_key st_id (steps_of (rt_id r) d)"
    by (auto simp: load_repair_def get_repair_transaction_def res_bind_Inr repair_transaction_with_steps_def
        split: option.splits)
  from t obtain s where s: "i = Some s" "t = js_trim s" "js_trim s \<noteq> []" "length s \<le> 256" by (auto simp: require_string_Inr)
  have id: "rt_id r = t" using find_repairD [OF f(1)] by simp
  have "length (js_trim s) \<le> length s"
    unfolding js_trim_def by (metis length_dropWhile_le length_rev order_trans)
  with s have "require_string (Some t) ''repairTransactionId'' 256 = Inr t" by (simp add: require_string_Inr)
  with s f id show thesis by (intro that [of s]) simp_all
qed

lemma steps_ids: "st_id ` set (sort_key st_id (steps_of t d)) \<subseteq> st_id ` set (db_steps d)"
  by (auto simp: steps_of_def)

lemma steps_running: "list_ex (\<lambda>s. st_status s = StRunning) (sort_key st_id (steps_of t d)) = has_running_step t d"
  by (auto simp: steps_of_def has_running_step_def list_ex_iff)

lemma resume_refused:
  assumes "has_running_step (rt_id r) d" "find_repair (rt_id r) d = Some r"
    "require_string (Some (rt_id r)) ''repairTransactionId'' 256 = Inr (rt_id r)" "rt_status r = RpFailed"
  shows "resume_repair_transaction now (Some (rt_id r)) d =
    Inl (JsError ''Repair transaction has an ambiguous running operation requiring manual resolution'')"
  using assms by (simp add: resume_repair_transaction_def require_repair_def)

text \<open>A transaction with a running step is refused, whatever any adapter would answer.\<close>

lemma running_step_refused:
  assumes run: "has_running_step (js_trim i) d"
  shows "\<exists>e. \<forall>g. execute_repair (w\<lparr>rw_gateway := g\<rparr>) (Some i) context d = (d, Inl e)"
proof (cases "load_repair (Some i) d")
  case (Inl e)
  then show ?thesis by (simp add: execute_repair_def open_repair_def run_bind_def)
next
  case (Inr v)
  obtain r steps where v: "v = (r, steps)" by (cases v)
  from Inr v have l: "load_repair (Some i) d = Inr (r, steps)" by simp
  then show ?thesis
  proof (cases rule: load_repair_Inr)
    case (1 s)
    have busy: "list_ex (\<lambda>s. st_status s = StRunning) steps" using run 1 by (simp add: steps_running)
    show ?thesis
    proof (cases "rt_status r = RpFailed \<and> cn_resume context")
      case True
      have "resume_repair_transaction (rw_now w) (Some (rt_id r)) d = Inl (JsError
          ''Repair transaction has an ambiguous running operation requiring manual resolution'')"
        by (rule resume_refused) (use True run 1 in simp_all)
      with l True show ?thesis by (simp add: execute_repair_def open_repair_def run_bind_def transact_def)
    next
      case False
      let ?i = "validate_release_identity (JObj (identity_entries (transaction_identity r)))"
      show ?thesis
      proof (cases "rt_status r = RpAuthorized \<or> rt_status r = RpExecuting")
        case True
        have op: "open_repair w' (Some i) context d = (d, Inr (r, steps))" for w'
          unfolding open_repair_def run_bind_def look_run l using True by (auto simp: ensure_def)
        from busy show ?thesis
          by (cases ?i; cases "bound_target r (projr ?i) d") (simp_all add: execute_repair_def run_bind_def op)
      next
        case False
        with \<open>\<not> (rt_status r = RpFailed \<and> cn_resume context)\<close> l show ?thesis
          by (auto simp: execute_repair_def open_repair_def run_bind_def ensure_def)
      qed
    qed
  qed
qed

section \<open>Settling steps\<close>

definition tx_status :: "string \<Rightarrow> db \<Rightarrow> repair_status option" where
  "tx_status t d = map_option rt_status (find_repair t d)"

text \<open>The step \<open>s\<close> is the only running one of the executing transaction \<open>t\<close>.\<close>

definition pending :: "string \<Rightarrow> repair_step \<Rightarrow> db \<Rightarrow> bool" where
  "pending t s d \<longleftrightarrow> running s \<and> s \<in> set (db_steps d) \<and> st_transaction_id s = t \<and> tx_status t d = Some RpExecuting
     \<and> (\<forall>x \<in> set (db_steps d). running x \<longrightarrow> st_transaction_id x = t \<longrightarrow> x = s) \<and> unique_by st_id (db_steps d)"

lemma has_running_iff: "has_running_step t d \<longleftrightarrow> (\<exists>x \<in> set (db_steps d). running x \<and> st_transaction_id x = t)"
  by (auto simp: has_running_step_def running_def list_ex_iff)

lemma tx_status_upd:
  assumes "\<And>r. rt_id (f r) = rt_id r"
  shows "tx_status t (d\<lparr>db_repairs := upd_where (\<lambda>r. rt_id r = u \<and> P r) f (db_repairs d)\<rparr>) =
    map_option (\<lambda>r. rt_status (if rt_id r = u \<and> P r then f r else r)) (find_repair t d)"
  unfolding tx_status_def find_repair_def using assms
  by (simp add: find_upd_where option.map_comp o_def)

lemma tx_status_steps [simp]: "tx_status t (d\<lparr>db_steps := ss\<rparr>) = tx_status t d"
  by (simp add: tx_status_def find_repair_def)

lemma start_pending:
  assumes inv: "repair_inv d" and idle: "\<not> has_running_step t d"
    and id: "require_string (Some t) ''repairTransactionId'' 256 = Inr t"
    and run: "start_repair_step now (Some t) a req d = Inr (d', s)"
  obtains (settled) "d' = d" "st_status s = StSucceeded"
  | (started) "pending t s d'" "st_action s = js_trim a" "\<forall>x \<in> set (db_steps d). st_id x < st_id s"
      "st_id ` set (db_steps d) \<subseteq> st_id ` set (db_steps d')" "st_status s = StRunning"
  using run
proof (cases rule: start_repair_step_cases)
  case (again t')
  with id idle have "succeeded s" by (auto simp: has_running_iff step_key_def)
  with again show thesis by (intro settled) (simp_all add: succeeded_def)
next
  case (new t' row)
  from new(9) id have t': "t' = t" by simp
  note row = find_repairD [OF new(1)]
  have "repair_inv d'" by (rule start_repair_inv [OF run inv])
  then have u: "unique_by st_id (db_steps d')" by (auto simp: repair_inv_def dest: repair_table_invD(2))
  have ss: "db_steps d' = db_steps d @ [s]" using new(8) by simp
  have st: "tx_status t d' = Some RpExecuting"
    unfolding new(8) t' using new(1,2) row
    by (subst tx_status_steps [symmetric, where ss = "db_steps d"])
       (simp add: tx_status_def find_repair_def find_upd_where executing_row_def t')
  have key: "st_transaction_id s = t" "st_action s = js_trim a" using new(6) by (simp_all add: step_key_def t')
  have only: "\<forall>x \<in> set (db_steps d'). running x \<longrightarrow> st_transaction_id x = t \<longrightarrow> x = s"
    using idle by (auto simp: ss has_running_iff)
  show thesis
  proof (rule started)
    have "s \<in> set (db_steps d')" by (simp add: ss)
    with new(5) key(1) st only u show "pending t s d'" unfolding pending_def by blast
    show "\<forall>x \<in> set (db_steps d). st_id x < st_id s" using new(7) by blast
    show "st_id ` set (db_steps d) \<subseteq> st_id ` set (db_steps d')" by (auto simp: ss)
    show "st_status s = StRunning" using new(5) by (simp add: running_def)
  qed (rule key(2))
qed

lemma pending_found: "pending t s d \<Longrightarrow> find_step (st_id s) d = Some s"
  unfolding pending_def find_step_def using find_unique [of st_id "db_steps d" s] by blast

lemma pending_row: "pending t s d \<Longrightarrow> \<exists>row. find_repair t d = Some row \<and> row \<in> set (db_repairs d) \<and> rt_id row = t \<and> rt_status row = RpExecuting"
  unfolding pending_def tx_status_def using find_repairD [of t d] by auto

text \<open>The row of a pending step can be updated, and finishing the step leaves none running.\<close>

lemma pending_update:
  assumes "pending t s d" "\<And>r. rt_id (f r) = rt_id r"
  shows "update_repair t (\<lambda>r. rt_status r = RpExecuting) f (d\<lparr>db_steps := ss\<rparr>) =
      Inr (d\<lparr>db_steps := ss, db_repairs := upd_where (\<lambda>r. rt_id r = t \<and> rt_status r = RpExecuting) f (db_repairs d)\<rparr>)"
    "tx_status t (d\<lparr>db_steps := ss, db_repairs := upd_where (\<lambda>r. rt_id r = t \<and> rt_status r = RpExecuting) f (db_repairs d)\<rparr>) =
      Some (rt_status (f (the (find_repair t d))))"
proof -
  from pending_row [OF assms(1)] obtain row where row: "find_repair t d = Some row" "row \<in> set (db_repairs d)" "rt_id row = t"
    "rt_status row = RpExecuting" by blast
  show "update_repair t (\<lambda>r. rt_status r = RpExecuting) f (d\<lparr>db_steps := ss\<rparr>) =
      Inr (d\<lparr>db_steps := ss, db_repairs := upd_where (\<lambda>r. rt_id r = t \<and> rt_status r = RpExecuting) f (db_repairs d)\<rparr>)"
    using row by (auto simp: update_repair_def list_ex_iff)
  show "tx_status t (d\<lparr>db_steps := ss, db_repairs := upd_where (\<lambda>r. rt_id r = t \<and> rt_status r = RpExecuting) f (db_repairs d)\<rparr>) =
      Some (rt_status (f (the (find_repair t d))))"
    using row assms(2) by (simp add: tx_status_def find_repair_def find_upd_where)
qed

lemma finished_idle:
  assumes p: "pending t s d" and g: "\<And>x. \<not> running (g x)" "\<And>x. st_id (g x) = st_id x"
  shows "\<not> has_running_step t (d\<lparr>db_steps := upd_where (\<lambda>x. st_id x = st_id s \<and> st_status x = StRunning) g (db_steps d), db_repairs := rs\<rparr>)"
    "st_id ` set (upd_where (\<lambda>x. st_id x = st_id s \<and> st_status x = StRunning) g (db_steps d)) = st_id ` set (db_steps d)"
proof -
  show "\<not> has_running_step t (d\<lparr>db_steps := upd_where (\<lambda>x. st_id x = st_id s \<and> st_status x = StRunning) g (db_steps d), db_repairs := rs\<rparr>)"
    using p g(1) by (auto simp: has_running_iff pending_def running_def elim!: in_upd_whereE)
  show "st_id ` set (upd_where (\<lambda>x. st_id x = st_id s \<and> st_status x = StRunning) g (db_steps d)) = st_id ` set (db_steps d)"
    using map_upd_where [of "\<lambda>x. st_id x = st_id s \<and> st_status x = StRunning" st_id g "db_steps d"] g(2)
    by (metis set_map)
qed

lemma complete_pending:
  assumes p: "pending t s d"
  obtains d' s' where "complete_repair_step now (st_id s) result d = Inr (d', s')" "\<not> has_running_step t d'"
    "tx_status t d' = Some RpExecuting" "st_id ` set (db_steps d') = st_id ` set (db_steps d)"
proof -
  have s: "st_status s = StRunning" "st_transaction_id s = t" using p by (auto simp: pending_def running_def)
  have f: "rt_id (touch_row now r) = rt_id r" "rt_status (touch_row now r) = rt_status r" for r by (simp_all add: touch_row_def)
  have g: "\<not> running (succeed_step now result x)" "st_id (succeed_step now result x) = st_id x" for x
    by (simp_all add: succeed_step_def running_def)
  from pending_row [OF p] obtain row where row: "find_repair t d = Some row" "rt_status row = RpExecuting" by blast
  note upd = pending_update [OF p, of "touch_row now" "upd_where (\<lambda>x. st_id x = st_id s \<and> st_status x = StRunning)
      (succeed_step now result) (db_steps d)"]
  show thesis
  proof (rule that)
    show "complete_repair_step now (st_id s) result d = Inr (d\<lparr>db_steps := upd_where (\<lambda>x. st_id x = st_id s \<and> st_status x = StRunning)
        (succeed_step now result) (db_steps d), db_repairs := upd_where (\<lambda>r. rt_id r = t \<and> rt_status r = RpExecuting)
        (touch_row now) (db_repairs d)\<rparr>, succeed_step now result s)"
      using upd(1) f by (simp add: complete_repair_step_def pending_found [OF p] s)
  qed (use upd(2) f row finished_idle [OF p g] in simp_all)
qed

lemma safe_failure_category: "\<exists>c. failure_category_of (safe_failure e) = Inr c"
proof -
  have trim: "js_trim s \<noteq> []" if "c \<in> set s" "\<not> js_space c" for s c
    using that by (auto simp: js_trim_def dropWhile_eq_Nil_conv)
      (metis UnE dropWhile_eq_Nil_conv set_append set_takeWhileD takeWhile_dropWhile_id)
  have "valid_identifier s \<Longrightarrow> js_trim s \<noteq> [] \<and> length s \<le> 256" for s
    using trim [of "hd s" s]
    by (auto simp: valid_identifier_def ident_head_def js_space_def is_digit_def is_letter_def Let_def)
  moreover have "js_trim ''repair-operation-failed'' \<noteq> []" by code_simp
  ultimately have "js_trim (safe_category c) \<noteq> [] \<and> length (safe_category c) \<le> 256" for c
    by (auto simp: safe_category_def split: option.splits)
  then show ?thesis by (simp add: failure_category_of_def safe_failure_def require_string_Inr)
qed

lemma fail_step_pending:
  assumes p: "pending t s d"
  obtains d' s' where "fail_repair_step now (st_id s) (safe_failure e) d = Inr (d', s')" "\<not> has_running_step t d'"
proof -
  have s: "st_status s = StRunning" "st_transaction_id s = t" using p by (auto simp: pending_def running_def)
  obtain c where c: "failure_category_of (safe_failure e) = Inr c" using safe_failure_category by blast
  have f: "rt_id (fail_row now c r) = rt_id r" for r by (simp add: fail_row_def)
  have g: "\<not> running (fail_step now c (safe_failure e) x)" "st_id (fail_step now c (safe_failure e) x) = st_id x" for x
    by (simp_all add: fail_step_def running_def)
  note upd = pending_update(1) [OF p f, where ss = "upd_where (\<lambda>x. st_id x = st_id s \<and> st_status x = StRunning)
      (fail_step now c (safe_failure e)) (db_steps d)"]
  show thesis
  proof (rule that)
    show "fail_repair_step now (st_id s) (safe_failure e) d = Inr (d\<lparr>db_steps := upd_where (\<lambda>x. st_id x = st_id s \<and> st_status x = StRunning)
        (fail_step now c (safe_failure e)) (db_steps d), db_repairs := upd_where (\<lambda>r. rt_id r = t \<and> rt_status r = RpExecuting)
        (fail_row now c) (db_repairs d)\<rparr>, fail_step now c (safe_failure e) s)"
      using upd by (simp add: fail_repair_step_def pending_found [OF p] s c)
  qed (rule finished_idle(1) [OF p g])
qed

lemma fail_transaction_pending:
  assumes p: "pending t s d" and id: "require_string (Some t) ''repairTransactionId'' 256 = Inr t"
    and c: "failure_category_of (failed_with c) = Inr c"
  obtains d' v where "fail_repair_transaction now (Some t) (failed_with c) d = Inr (d', v)" "db_steps d' = db_steps d"
    "tx_status t d' = Some RpFailed"
proof -
  from pending_row [OF p] obtain row where row: "find_repair t d = Some row" "rt_status row = RpExecuting" by blast
  have f: "rt_id (fail_row now c r) = rt_id r" "rt_status (fail_row now c r) = RpFailed" for r by (simp_all add: fail_row_def)
  let ?d = "d\<lparr>db_repairs := upd_where (\<lambda>r. rt_id r = t \<and> rt_status r = RpExecuting) (fail_row now c) (db_repairs d)\<rparr>"
  have u: "update_repair t (\<lambda>r. rt_status r = RpExecuting) (fail_row now c) d = Inr ?d" "tx_status t ?d = Some RpFailed"
    using pending_update [OF p, of "fail_row now c" "db_steps d"] f by simp_all
  then obtain row' where row': "find_repair t ?d = Some row'" by (auto simp: tx_status_def)
  show thesis
  proof (rule that)
    show "fail_repair_transaction now (Some t) (failed_with c) d = Inr (?d, repair_transaction_with_steps row' ?d)"
      using u row row' id c by (simp add: fail_repair_transaction_def require_repair_def read_repair_def)
  qed (use u in simp_all)
qed

text \<open>The slice leaves a pending step alone.\<close>

lemma pending_kept: "slice_kept d d' \<Longrightarrow> store_inv d \<Longrightarrow> pending t s d \<Longrightarrow> pending t s d'"
  by (simp add: slice_kept_def pending_def tx_status_def find_repair_def)

definition unknown_outcome :: js_error where
  "unknown_outcome = ambiguous_outcome ''Provider mutation outcome is unknown; manual resolution is required''"

text \<open>What an execution leaves of the steps of its transaction.\<close>

definition settled :: "string \<Rightarrow> 'a res \<Rightarrow> db \<Rightarrow> bool" where
  "settled t res d \<longleftrightarrow> has_running_step t d \<longrightarrow> (\<exists>e. res = Inl e \<and> e = unknown_outcome) \<and> tx_status t d = Some RpFailed
     \<and> (\<exists>s \<in> set (db_steps d). running s \<and> st_transaction_id s = t \<and> is_provider_mutation (st_action s))"

lemma settled_idle: "\<not> has_running_step t d \<Longrightarrow> settled t res d"
  by (simp add: settled_def)

lemma mutation_trimmed: "is_provider_mutation a \<Longrightarrow> js_trim a = a"
  using ordered_trimmed [of a] by (auto simp: is_provider_mutation_def action_order_def)

lemma action_settled:
  assumes p: "pending t s d" and act: "st_action s = js_trim a" and r: "rt_id r = t"
    and id: "require_string (Some t) ''repairTransactionId'' 256 = Inr t"
    and run: "action_failed w a r s e d = (d', res)"
  shows "settled t res d' \<and> (\<exists>e. res = Inl e)"
proof (cases "is_provider_mutation a \<and> error_category e \<notin> Some ` set known_failures")
  case True
  have c: "failure_category_of (failed_with ''repair-operation-outcome-unknown'') = Inr ''repair-operation-outcome-unknown''"
    by code_simp
  obtain d1 v where f: "fail_repair_transaction (rw_now w) (Some t) (failed_with ''repair-operation-outcome-unknown'') d = Inr (d1, v)"
    "db_steps d1 = db_steps d" "tx_status t d1 = Some RpFailed"
    by (rule fail_transaction_pending [OF p id c])
  from run True f(1) r have "d' = d1" "res = Inl unknown_outcome"
    by (simp_all add: action_failed_def run_bind_def transact_def unknown_outcome_def)
  with f p act True mutation_trimmed [of a] show ?thesis by (auto simp: settled_def pending_def)
next
  case False
  obtain d1 s' where f: "fail_repair_step (rw_now w) (st_id s) (safe_failure e) d = Inr (d1, s')" "\<not> has_running_step t d1"
    by (rule fail_step_pending [OF p])
  from False run f(1) have "d' = d1 \<and> res = Inl e"
    unfolding action_failed_def if_not_P [OF False] by (simp add: run_bind_def transact_def)
  with f(2) show ?thesis by (simp add: settled_idle)
qed

lemma run_actions_settle:
  assumes ids: "\<And>a. good_ids (rw_gateway w a)" and r: "rt_id r = t"
    and id: "require_string (Some t) ''repairTransactionId'' 256 = Inr t"
  shows "store_inv d \<Longrightarrow> \<not> has_running_step t d \<Longrightarrow> st_id ` set steps \<subseteq> st_id ` set (db_steps d)
    \<Longrightarrow> run_actions w (r, steps) identity cx as d = (d', res) \<Longrightarrow> settled t res d'"
proof (induction as arbitrary: d)
  case Nil
  then show ?case by (simp add: settled_idle)
next
  case (Cons a as)
  note run = Cons.prems(4) [unfolded run_actions.simps]
  show ?case
  proof (cases "a \<in> set (map st_action (filter (\<lambda>s. st_status s = StSucceeded) steps))")
    case True
    with run have "run_actions w (r, steps) identity cx as d = (d', res)" by simp
    with Cons show ?thesis by blast
  next
    case False
    note run = run [unfolded if_not_P [OF False]]
    show ?thesis
    proof (cases "bound_target r identity d")
      case (Inl e)
      with run Cons.prems(2) show ?thesis by (simp add: run_bind_def settled_idle)
    next
      case (Inr b)
      note run = run [unfolded run_bind_def [of "look (bound_target r identity)"] look_run Inr prod.case sum.case]
      show ?thesis
      proof (cases "start_repair_step (rw_now w) (Some (rt_id r)) a (Some (request_audit a cx)) d")
        case (Inl e)
        with run Cons.prems(2) show ?thesis by (simp add: run_bind_def transact_def settled_idle)
      next
        case (Inr v)
        obtain d1 s where v: "v = (d1, s)" by (cases v)
        from Inr v r have st: "start_repair_step (rw_now w) (Some t) a (Some (request_audit a cx)) d = Inr (d1, s)" by simp
        have inv1: "store_inv d1" by (rule store_step_inv [OF ss_repair [OF ro_start [OF st]] Cons.prems(1)])
        consider (same) "d1 = d" "st_status s = StSucceeded"
          | (started) "pending t s d1" "st_action s = js_trim a" "\<forall>x\<in>set (db_steps d). st_id x < st_id s"
              "st_id ` set (db_steps d) \<subseteq> st_id ` set (db_steps d1)" "st_status s = StRunning"
          by (rule start_pending [OF store_invD(5) [OF Cons.prems(1)] Cons.prems(2) id st])
        then show ?thesis
        proof cases
          case same
          with run Inr v have "run_actions w (r, steps) identity cx as d = (d', res)"
            by (simp add: run_bind_def transact_def)
          with Cons show ?thesis by blast
        next
          case started
          have fresh: "st_id s \<notin> set (map st_id steps)"
          proof
            assume "st_id s \<in> set (map st_id steps)"
            with Cons.prems(3) obtain x where "x \<in> set (db_steps d)" "st_id x = st_id s" by force
            with started(3) show False by force
          qed
          let ?body = "run_bind (run_action w a r identity cx s) (\<lambda>result.
                run_bind (transact (complete_repair_step (rw_now w) (st_id s) (Some (audit_result result)))) (\<lambda>_. give (Inr ())))"
          from run Inr v fresh started(5)
          have run: "run_bind (run_catch ?body (action_failed w a r s)) (\<lambda>_. run_actions w (r, steps) identity cx as) d1 = (d', res)"
            by (simp add: run_bind_def [of "transact f" for f] transact_def)
          obtain d2 ares where act: "run_action w a r identity cx s d1 = (d2, ares)" by (cases "run_action w a r identity cx s d1")
          have kept: "slice_kept d1 d2" using run_action_kept [where d = d1 and r = r and identity = identity and cx = cx and s = s, OF ids] act by (metis fst_conv)
          have p2: "pending t s d2" by (rule pending_kept [OF kept inv1 started(1)])
          have inv2: "store_inv d2" and steps2: "db_steps d2 = db_steps d1" using kept inv1 by (simp_all add: slice_kept_def)
          show ?thesis
          proof (cases ares)
            case (Inr result)
            obtain d3 s' where c: "complete_repair_step (rw_now w) (st_id s) (Some (audit_result result)) d2 = Inr (d3, s')"
              "\<not> has_running_step t d3" "st_id ` set (db_steps d3) = st_id ` set (db_steps d2)"
              by (rule complete_pending [OF p2, of "rw_now w" "Some (audit_result result)"])
            have "?body d1 = (d3, Inr ())" using act Inr c(1) by (simp add: run_bind_def transact_def)
            with run have "run_actions w (r, steps) identity cx as d3 = (d', res)" by (simp add: run_bind_def run_catch_def)
            moreover have "store_inv d3" by (rule store_step_inv [OF ss_repair [OF ro_complete_step [OF c(1)]] inv2])
            moreover have "st_id ` set steps \<subseteq> st_id ` set (db_steps d3)" using Cons.prems(3) started(4) c(3) steps2 by auto
            ultimately show ?thesis using Cons.IH c(2) by blast
          next
            case (Inl e)
            have "?body d1 = (d2, Inl e)" using act Inl by (simp add: run_bind_def)
            moreover obtain d3 r3 where f: "action_failed w a r s e d2 = (d3, r3)" by (cases "action_failed w a r s e d2")
            ultimately have "(case r3 of Inl e \<Rightarrow> (d3, Inl e) | Inr x \<Rightarrow> run_actions w (r, steps) identity cx as d3) = (d', res)"
              using run by (simp add: run_bind_def run_catch_def)
            with action_settled [OF p2 started(2) r id f] show ?thesis by (auto simp: settled_def)
          qed
        qed
      qed
    qed
  qed
qed

end
