(* ===== verification/Execution_Properties.thy ===== *)
theory Execution_Properties
  imports Executor_Properties
begin

text \<open>
  What an execution of the repair executor as a whole leaves behind: no running step, unless the
  outcome of a provider mutation is unknown; and on success a route proven by the evidence.
\<close>

section \<open>The transaction that is executed\<close>

lemma read_repair_Inr:
  "(read_repair i d = Inr (d', v)) = (d' = d \<and> (\<exists>r. find_repair i d = Some r \<and> v = repair_transaction_with_steps r d))"
  by (auto simp: read_repair_def require_repair_def guard_simps split: option.splits)

lemma resume_Inr:
  assumes "resume_repair_transaction now (Some t) d = Inr (d', r, steps)"
    "require_string (Some t) ''repairTransactionId'' 256 = Inr t"
  shows "db_steps d' = db_steps d \<and> find_repair t d' = Some r \<and> rt_id r = t
    \<and> steps = sort_key st_id (steps_of (rt_id r) d')"
proof -
  from assms obtain row where "row \<in> set (db_repairs d')" "db_steps d' = db_steps d" "find_repair t d' = Some r"
      "steps = sort_key st_id (steps_of (rt_id r) d')"
    by (auto simp: resume_repair_transaction_def require_repair_def guard_simps update_repair_Inr read_repair_Inr
        repair_transaction_with_steps_def split: option.splits dest: find_repairD)
  then show ?thesis using find_repairD [of t d' r] by simp
qed

text \<open>An opened transaction is the row of its id, with its steps.\<close>

lemma open_repair_Inr:
  assumes "open_repair w i context d = (d', Inr (r, steps))"
  obtains s where "i = Some s" "rt_id r = js_trim s" "find_repair (js_trim s) d' = Some r" "db_steps d' = db_steps d"
    "steps = sort_key st_id (steps_of (js_trim s) d')"
    "require_string (Some (js_trim s)) ''repairTransactionId'' 256 = Inr (js_trim s)"
    "rt_status r = RpAuthorized \<or> rt_status r = RpExecuting"
proof -
  from assms obtain found where f: "load_repair i d = Inr found"
    and st: "rt_status r = RpAuthorized \<or> rt_status r = RpExecuting"
    and o': "(if rt_status (fst found) = RpFailed \<and> cn_resume context
        then transact (resume_repair_transaction (rw_now w) (Some (rt_id (fst found)))) else give (Inr found)) d = (d', Inr (r, steps))"
    unfolding open_repair_def run_bind_Inr look_run by (auto simp: ensure_Inr)
  obtain r0 steps0 where found: "found = (r0, steps0)" by (cases found)
  note l = f [unfolded found] and o' = o' [unfolded found fst_conv]
  from l show thesis
  proof (cases rule: load_repair_Inr)
    case (1 s)
    show thesis
    proof (cases "rt_status r0 = RpFailed \<and> cn_resume context")
      case True
      with o' have re: "resume_repair_transaction (rw_now w) (Some (js_trim s)) d = Inr (d', r, steps)"
        using 1 by (simp add: transact_Inr)
      from resume_Inr [OF re] 1 st show thesis by (intro that [of s]) simp_all
    next
      case False
      with o' have "d' = d" "r = r0" "steps = steps0" by (simp_all add: if_not_P [OF False])
      with 1 st show thesis by (intro that [of s]) simp_all
    qed
  qed
qed

lemma open_repair_inv: "open_repair w i context d = (d', v) \<Longrightarrow> store_inv d \<Longrightarrow> store_inv d'"
  using open_repair_sound [of d w i "context"] by (simp add: run_sound_def)

text \<open>Opening writes no step.\<close>

lemma resume_steps: "resume_repair_transaction now i d = Inr (d', v) \<Longrightarrow> db_steps d' = db_steps d"
  by (auto simp: resume_repair_transaction_def guard_simps read_repair_Inr)

definition same_steps :: "db \<Rightarrow> db \<Rightarrow> bool" where
  "same_steps d d' \<longleftrightarrow> db_steps d' = db_steps d"

interpretation calm: run_relation same_steps
  by unfold_locales (simp_all add: same_steps_def)

lemmas calm_keep = calm.keep_give calm.keep_look calm.keep_transact calm.keep_bind calm.keep_catch calm.keep_if

lemma open_repair_steps: "same_steps d (fst (open_repair w i cx d))"
  unfolding open_repair_def by (intro calm_keep) (simp add: same_steps_def resume_steps)

lemma has_running_cong: "db_steps d' = db_steps d \<Longrightarrow> has_running_step t d' = has_running_step t d"
  by (simp add: has_running_step_def)

lemma finish_steps:
  "fail_repair_transaction now i err d = Inr (d', v) \<Longrightarrow> db_steps d' = db_steps d"
  "complete_repair_transaction now i d = Inr (d', v) \<Longrightarrow> db_steps d' = db_steps d"
proof -
  assume "fail_repair_transaction now i err d = Inr (d', v)"
  then show "db_steps d' = db_steps d"
    unfolding fail_repair_transaction_def by (auto simp: guard_simps read_repair_Inr)
next
  assume "complete_repair_transaction now i d = Inr (d', v)"
  then show "db_steps d' = db_steps d" by (cases rule: complete_transaction_cases) simp_all
qed

lemma finish_calm:
  "same_steps d (fst (run_bind (transact (fail_repair_transaction now i err)) (\<lambda>_. give r) d))"
  "same_steps d (fst (transact (complete_repair_transaction now i) d))"
  by (intro calm_keep; simp add: same_steps_def finish_steps)+

section \<open>Running steps after an execution\<close>

text \<open>The end of an execution: the postconditions, then the completion.\<close>

definition finish_execution :: "repair_world \<Rightarrow> repair_transaction \<Rightarrow> release_identity \<Rightarrow> slice_context \<Rightarrow> repair_view run" where
  "finish_execution w r identity cx =
     run_bind (run_catch (look (assert_postconditions w r identity cx)) (\<lambda>e.
        run_bind (transact (fail_repair_transaction (rw_now w) (Some (rt_id r))
            (failed_with (nullish (error_category e) ''repair-postcondition-failed'')))) (\<lambda>_. give (Inl e)))) (\<lambda>_.
     transact (complete_repair_transaction (rw_now w) (Some (rt_id r))))"

lemma finish_execution_steps: "same_steps d (fst (finish_execution w r identity cx d))"
  unfolding finish_execution_def by (intro calm_keep finish_calm; simp add: same_steps_def finish_steps)

text \<open>An execution runs the authorized actions on an opened transaction, or writes no step.\<close>

lemma execute_repair_cases:
  assumes "execute_repair w i cx d = (d', res)"
  obtains (refused) e where "same_steps d d'" "res = Inl e"
  | (ran) r steps identity d1 d2 as ares where "open_repair w i cx d = (d1, Inr (r, steps))"
      "validate_release_identity (JObj (identity_entries (transaction_identity r))) = Inr identity"
      "\<exists>b. bound_target r identity d1 = Inr b" "\<not> list_ex (\<lambda>s. st_status s = StRunning) steps"
      "as = filter (\<lambda>a. a \<in> set (rt_authorized_actions r)) (pn_actionSequence (rt_plan r))"
      "length as = length (rt_authorized_actions r)"
      "run_actions w (r, steps) identity cx as d1 = (d2, ares)"
      "(case ares of Inl e \<Rightarrow> (d2, Inl e) | Inr _ \<Rightarrow> finish_execution w r identity cx d2) = (d', res)"
proof -
  obtain d1 ores where o1: "open_repair w i cx d = (d1, ores)" by (cases "open_repair w i cx d")
  have calm: "same_steps d d1" using open_repair_steps [of d w i cx] o1 by simp
  note ex = assms [unfolded execute_repair_def, folded finish_execution_def, unfolded run_bind_def [of "open_repair w i cx"] o1 prod.case]
  show thesis
  proof (cases ores)
    case (Inl e)
    with ex have "d' = d1" "res = Inl e" by simp_all
    with calm show thesis by (intro refused) simp_all
  next
    case (Inr v)
    obtain r steps where v: "v = (r, steps)" by (cases v)
    let ?as = "filter (\<lambda>a. a \<in> set (rt_authorized_actions r)) (pn_actionSequence (rt_plan r))"
    note ex = ex [unfolded Inr v sum.case prod.case]
    show thesis
    proof (cases "validate_release_identity (JObj (identity_entries (transaction_identity r)))")
      case (Inl e)
      with ex have "d' = d1" "res = Inl e" by simp_all
      with calm show thesis by (intro refused) simp_all
    next
      case (Inr identity)
      note ident = Inr
      note ex = ex [unfolded ident run_bind_give run_bind_def [of "look (bound_target r identity)"] look_run prod.case]
      show thesis
      proof (cases "bound_target r identity d1")
        case (Inl e)
        with ex have "d' = d1" "res = Inl e" by simp_all
        with calm show thesis by (intro refused) simp_all
      next
        case (Inr b)
        note ex = ex [unfolded Inr sum.case Let_def]
        show thesis
        proof (cases "list_ex (\<lambda>s. st_status s = StRunning) steps \<or> length ?as \<noteq> length (rt_authorized_actions r)")
          case True
          with ex obtain e where "d' = d1" "res = Inl e" by (auto simp: ensure_def split: if_splits)
          with calm show thesis by (intro refused) simp_all
        next
          case False
          obtain d2 ares where ra: "run_actions w (r, steps) identity cx ?as d1 = (d2, ares)"
            by (cases "run_actions w (r, steps) identity cx ?as d1")
          from False ex have "run_bind (run_actions w (r, steps) identity cx ?as) (\<lambda>_. finish_execution w r identity cx) d1 = (d', res)"
            by (simp add: ensure_def)
          then have "(case ares of Inl e \<Rightarrow> (d2, Inl e) | Inr _ \<Rightarrow> finish_execution w r identity cx d2) = (d', res)"
            by (simp add: run_bind_def ra)
          with o1 v Inr ident False ra \<open>ores = Inr v\<close> show thesis
            by (intro ran [of d1 r steps identity ?as d2 ares]) simp_all
        qed
      qed
    qed
  qed
qed

lemma execute_repair_settles:
  assumes inv: "store_inv d" and ids: "\<And>a. good_ids (rw_gateway w a)"
    and idle: "\<not> has_running_step (js_trim i) d" and ex: "execute_repair w (Some i) cx d = (d', res)"
  shows "settled (js_trim i) res d'"
  using ex
proof (cases rule: execute_repair_cases)
  case (refused e)
  then show ?thesis using idle has_running_cong settled_idle unfolding same_steps_def by metis
next
  case (ran r steps identity d1 d2 as ares)
  from ran(1) show ?thesis
  proof (cases rule: open_repair_Inr)
    case (1 s)
    then have t: "rt_id r = js_trim i" by simp
    have sub: "st_id ` set steps \<subseteq> st_id ` set (db_steps d1)" unfolding 1(5) by (rule steps_ids)
    have calm: "\<not> has_running_step (js_trim i) d1" using idle has_running_cong [OF 1(4)] by blast
    have id: "require_string (Some (js_trim i)) ''repairTransactionId'' 256 = Inr (js_trim i)" using 1(1,6) by simp
    note settled = run_actions_settle [OF ids t id open_repair_inv [OF ran(1) inv] calm sub ran(7)]
    show ?thesis
    proof (cases ares)
      case (Inl e)
      from ran(8) Inl have eq: "d' = d2" "res = Inl e" by simp_all
      show ?thesis using settled unfolding Inl eq settled_def by simp
    next
      case (Inr u)
      have "\<not> has_running_step (js_trim i) d2" using settled unfolding Inr settled_def by simp
      moreover have "finish_execution w r identity cx d2 = (d', res)" using ran(8) unfolding Inr by simp
      then have "db_steps d' = db_steps d2" using finish_execution_steps [of d2 w r identity cx] by (simp add: same_steps_def)
      ultimately show ?thesis using has_running_cong settled_idle by metis
    qed
  qed
qed

section \<open>A successful execution\<close>

lemma repair_moves_row:
  "repair_moves d d' \<Longrightarrow> r \<in> set (db_repairs d) \<Longrightarrow> \<exists>r' \<in> set (db_repairs d'). same_transaction r r'"
proof (induction rule: rtranclp_induct)
  case base
  then show ?case by (auto simp: same_transaction_def)
next
  case (step d1 d2)
  then obtain r1 where r1: "r1 \<in> set (db_repairs d1)" "same_transaction r r1" by blast
  from repair_move_row [OF step(2) r1(1)] r1(2) show ?case by (auto simp: tx_step_def same_transaction_def)
qed

lemma complete_Inr:
  assumes "complete_repair_transaction now (Some t) d = Inr (d', r, steps)"
    and "require_string (Some t) ''repairTransactionId'' 256 = Inr t"
  shows "find_repair t d' = Some r \<and> steps = sort_key st_id (steps_of t d') \<and> (\<exists>rs. d' = d\<lparr>db_repairs := rs\<rparr>)
    \<and> (\<exists>row. find_repair t d = Some row \<and> same_transaction row r) \<and> rt_status r = RpSucceeded"
proof -
  from assms obtain row where row: "find_repair t d = Some row"
    and body: "(if rt_status row = RpSucceeded then read_repair t d
     else res_bind (ensure (rt_status row = RpExecuting) (JsError ''Repair transaction cannot succeed'')) (\<lambda>_.
     res_bind (ensure (\<not> has_running_step t d) (JsError ''Repair transaction has incomplete steps'')) (\<lambda>_.
     res_bind (ensure (list_all (action_succeeded t d) (rt_authorized_actions row))
        (JsError ''Repair transaction has actions without successful attempts'')) (\<lambda>_.
     res_bind (update_repair t (\<lambda>r. rt_status r = RpExecuting) (succeed_row now) d) (\<lambda>d1.
       read_repair t d1))))) = Inr (d', r, steps)"
    unfolding complete_repair_transaction_def res_bind_Inr require_repair_Inr by auto
  note id = conjunct2 [OF find_repairD [OF row]]
  show ?thesis
  proof (cases "rt_status row = RpSucceeded")
    case True
    with body row id have "d' = d" "r = row" "steps = sort_key st_id (steps_of t d)"
      by (simp_all add: read_repair_Inr repair_transaction_with_steps_def)
    moreover have "\<exists>rs. d = d\<lparr>db_repairs := rs\<rparr>" by (rule exI [of _ "db_repairs d"]) simp
    ultimately show ?thesis using row True by (simp add: same_transaction_def)
  next
    case False
    let ?rs = "upd_where (\<lambda>r. rt_id r = t \<and> rt_status r = RpExecuting) (succeed_row now) (db_repairs d)"
    have f: "rt_id (succeed_row now r) = rt_id r" for r by (simp add: succeed_row_def)
    from body False have st: "rt_status row = RpExecuting" and d': "d' = d\<lparr>db_repairs := ?rs\<rparr>"
      and r: "find_repair t d' = Some r" "steps = sort_key st_id (steps_of (rt_id r) d')"
      by (auto simp: guard_simps read_repair_Inr repair_transaction_with_steps_def)
    from r(1) have "r = succeed_row now row"
      unfolding d' find_repair_def using row st id f by (simp add: find_upd_where find_repair_def)
    then show ?thesis using row st d' r id by (auto simp: same_transaction_def succeed_row_def)
  qed
qed

lemma active_from_newest:
  assumes "binding_inv d" "newest_binding item d = Some b" "bd_status b = BdActive"
  shows "active_binding item d = Some b"
proof -
  note b = newest_bindingD [OF assms(2)]
  then have "active_binding item d \<noteq> None" using assms(3) by (auto simp: active_binding_def find_None_iff)
  then obtain a where a: "active_binding item d = Some a" by blast
  from active_is_newest [OF assms(1) this] assms(2) a show ?thesis by simp
qed

text \<open>
  What a repair promises of an item at a time: its active binding is of the release, and the provider
  file, the inventory, the mapping and the exposure that it names are present and unexpired evidence.
\<close>

definition proven_route :: "db \<Rightarrow> int \<Rightarrow> string \<Rightarrow> string \<Rightarrow> bool" where
  "proven_route d now item key \<longleftrightarrow> (\<exists>b. active_binding item d = Some b \<and> bd_release_key b = key
     \<and> (\<exists>f \<in> set (db_provider_files d). pf_present f \<and> pf_placement_id f = bd_placement_id b
          \<and> pf_provider_file_id f = bd_provider_file_id b \<and> pf_selected f \<noteq> Some False)
     \<and> (\<exists>s \<in> set (db_inventories d). iv_placement_id s = bd_placement_id b \<and> iv_authoritative s
          \<and> iv_complete s \<and> safe_later (iv_expires_at s) now)
     \<and> (\<exists>m \<in> set (db_mappings d). fm_release_key m = key \<and> fm_placement_id m = bd_placement_id b
          \<and> fm_provider_file_id m = bd_provider_file_id b \<and> fm_state m = CmMapped \<and> fm_authoritative m)
     \<and> (\<exists>e \<in> set (db_exposures d). ex_id e = bd_exposure_id b \<and> ex_state e = ExVisible \<and> ex_read_only e
          \<and> safe_later (ex_expires_at e) now))"

lemma proven_route_cong: "proven_route (d\<lparr>db_repairs := rs\<rparr>) = proven_route d"
  by (simp add: proven_route_def active_binding_def fun_eq_iff)

lemma rows_for_ids_in: "x \<in> set (rows_for_ids key ids t) \<Longrightarrow> x \<in> set t"
  by (simp add: rows_for_ids_def)

lemma postconditions_prove:
  assumes inv: "store_inv d" and post: "assert_postconditions w r identity cx d = Inr ()"
  shows "proven_route d (nullish (cn_now cx) (rw_now w)) (rt_library_item_id r) (ri_releaseKey identity)"
proof -
  let ?now = "nullish (cn_now cx) (rw_now w)"
  from post obtain snap lifecycle plan where snap: "repair_state r identity d = Inr snap"
    and plan: "plan_rd_zurg_repair (rw_loc w) (rw_digest w) snap lifecycle (scope_of_repair (rt_scope r)) ?now = Inr plan"
      "py_status plan = ''healthy''" and exact: "exact_target identity snap"
    unfolding assert_postconditions_def res_bind_Inr ensure_Inr by blast
  from snap obtain identity' where "get_reconciliation_snapshot (rt_library_item_id r) (JObj (identity_entries identity')) d = Inr snap"
    unfolding repair_state_def slice_state_def res_bind_Inr by blast
  then show ?thesis
  proof (rule snapshot_facts)
    fix i identity'' ids
    assume pf: "rn_providerFiles snap = rows_for_ids pf_placement_id ids (filter pf_present (db_provider_files d))"
      and iv: "rn_inventorySnapshots snap = rows_for_ids iv_placement_id ids (db_inventories d)"
      and fm: "rn_mappings snap = filter (\<lambda>m. fm_release_key m = ri_releaseKey identity'')
        (rows_for_ids fm_placement_id ids (db_mappings d))"
      and ex: "rn_exposures snap = rows_for_ids ex_placement_id ids (db_exposures d)"
      and cur: "rn_currentBinding snap = newest_binding (rt_library_item_id r) d"
    from plan show ?thesis
    proof (rule healthy_plan_rows)
      fix b f s m e
      assume b: "rn_currentBinding snap = Some b" "bd_status b = BdActive"
        and f: "f \<in> set (rn_providerFiles snap)" "pf_placement_id f = bd_placement_id b"
          "pf_provider_file_id f = bd_provider_file_id b" "pf_selected f \<noteq> Some False"
        and s: "s \<in> set (rn_inventorySnapshots snap)" "iv_placement_id s = bd_placement_id b" "iv_authoritative s"
          "iv_complete s" "safe_later (iv_expires_at s) ?now"
        and m: "m \<in> set (rn_mappings snap)" "fm_release_key m = bd_release_key b" "fm_placement_id m = bd_placement_id b"
          "fm_provider_file_id m = bd_provider_file_id b" "fm_state m = CmMapped" "fm_authoritative m"
        and e: "e \<in> set (rn_exposures snap)" "ex_id e = bd_exposure_id b" "ex_state e = ExVisible" "ex_read_only e"
          "safe_later (ex_expires_at e) ?now"
      have active: "active_binding (rt_library_item_id r) d = Some b"
        using active_from_newest [OF store_invD(4) [OF inv]] b cur by simp
      have key: "bd_release_key b = ri_releaseKey identity" using exact b(1) by (simp add: exact_target_def)
      have "f \<in> set (db_provider_files d) \<and> pf_present f" using rows_for_ids_in f(1) unfolding pf by fastforce
      moreover have "s \<in> set (db_inventories d)" using rows_for_ids_in s(1) unfolding iv by fastforce
      moreover have "m \<in> set (db_mappings d)" using rows_for_ids_in m(1) unfolding fm by fastforce
      moreover have "e \<in> set (db_exposures d)" using rows_for_ids_in e(1) unfolding ex by fastforce
      ultimately show ?thesis unfolding proven_route_def using active key f s m e by auto
    qed
  qed
qed

lemma identity_key: "validate_release_identity (JObj (identity_entries x)) = Inr y \<Longrightarrow> ri_releaseKey y = ri_releaseKey x"
  by (auto simp: validate_release_identity_def guard_simps identity_entries_def prop_of_def)

lemma execute_repair_succeeds:
  assumes inv: "store_inv d" and ids: "\<And>a. good_ids (rw_gateway w a)"
    and ex: "execute_repair w (Some i) cx d = (d', Inr (r, steps))"
  shows "rt_id r = js_trim i \<and> r \<in> set (db_repairs d') \<and> rt_status r = RpSucceeded"
    "\<forall>a \<in> set (rt_authorized_actions r). \<exists>s \<in> set steps. st_action s = a \<and> st_status s = StSucceeded"
    "proven_route d' (nullish (cn_now cx) (rw_now w)) (rt_library_item_id r) (rt_release_key r)"
proof -
  from ex obtain r0 steps0 identity d1 d2 as where o1: "open_repair w (Some i) cx d = (d1, Inr (r0, steps0))"
    and ident: "validate_release_identity (JObj (identity_entries (transaction_identity r0))) = Inr identity"
    and ra: "run_actions w (r0, steps0) identity cx as d1 = (d2, Inr ())"
    and fin: "finish_execution w r0 identity cx d2 = (d', Inr (r, steps))"
    by (cases rule: execute_repair_cases) (auto split: sum.splits)
  from o1 have r0: "find_repair (js_trim i) d1 = Some r0" "rt_id r0 = js_trim i"
    "require_string (Some (js_trim i)) ''repairTransactionId'' 256 = Inr (js_trim i)"
    by (cases rule: open_repair_Inr; simp)+
  have inv1: "store_inv d1" by (rule open_repair_inv [OF o1 inv])
  have moves: "repair_moves d1 d2" and inv2: "store_inv d2"
    using run_actions_sound [OF ids, of d1 r0 steps0 identity cx as] inv1 unfolding ra run_sound_def by simp_all
  from fin have post: "assert_postconditions w r0 identity cx d2 = Inr ()"
    and comp: "complete_repair_transaction (rw_now w) (Some (rt_id r0)) d2 = Inr (d', r, steps)"
    unfolding finish_execution_def by (auto simp: run_Inr)
  from complete_Inr [OF comp] r0 obtain row rs where c: "find_repair (js_trim i) d' = Some r"
    "steps = sort_key st_id (steps_of (js_trim i) d')" "d' = d2\<lparr>db_repairs := rs\<rparr>"
    "find_repair (js_trim i) d2 = Some row" "same_transaction row r" "rt_status r = RpSucceeded" by auto
  note rD = find_repairD [OF c(1)]
  show "rt_id r = js_trim i \<and> r \<in> set (db_repairs d') \<and> rt_status r = RpSucceeded" using rD c(6) by simp
  have inv': "store_inv d'" by (rule store_step_inv [OF ss_repair [OF ro_complete [OF comp]] inv2])
  note tab = store_invD(5) [OF inv', unfolded repair_inv_def]
  show "\<forall>a \<in> set (rt_authorized_actions r). \<exists>s \<in> set steps. st_action s = a \<and> st_status s = StSucceeded"
  proof
    fix a
    assume "a \<in> set (rt_authorized_actions r)"
    with repair_table_invD(7) [OF tab conjunct1 [OF rD]] c(6) obtain s
      where "s \<in> set (db_steps d')" "succeeded s" "step_key s = (rt_id r, a)" unfolding row_ok_def by blast
    then show "\<exists>s \<in> set steps. st_action s = a \<and> st_status s = StSucceeded"
      unfolding c(2) using rD by (auto simp: steps_of_def succeeded_def step_key_def)
  qed
  from repair_moves_row [OF moves, of r0] find_repairD [OF r0(1)] obtain r2 where r2: "r2 \<in> set (db_repairs d2)"
    "same_transaction r0 r2" by blast
  have "r2 = row"
    using unique_byD [OF repair_table_invD(1) [OF store_invD(5) [OF inv2, unfolded repair_inv_def]] r2(1)]
      find_repairD [OF c(4)] r2(2) r0(2) by (auto simp: same_transaction_def)
  with r2(2) c(5) have same: "rt_library_item_id r = rt_library_item_id r0" "rt_release_key r = rt_release_key r0"
    by (simp_all add: same_transaction_def)
  have "ri_releaseKey identity = rt_release_key r0" using identity_key [OF ident] by (simp add: transaction_identity_def)
  with postconditions_prove [OF inv2 post]
  show "proven_route d' (nullish (cn_now cx) (rw_now w)) (rt_library_item_id r) (rt_release_key r)"
    unfolding c(3) proven_route_cong by (simp add: same)
qed

section \<open>An execution whose target is gone\<close>

definition only_repairs :: "db \<Rightarrow> db \<Rightarrow> bool" where
  "only_repairs d d' \<longleftrightarrow> (\<exists>rs. d' = d\<lparr>db_repairs := rs\<rparr>)"

interpretation repairs_only: run_relation only_repairs
proof
  show "only_repairs d d" for d unfolding only_repairs_def by (rule exI [of _ "db_repairs d"]) simp
qed (auto simp: only_repairs_def)

lemmas repairs_only_keep = repairs_only.keep_give repairs_only.keep_look repairs_only.keep_transact repairs_only.keep_bind repairs_only.keep_if

lemma resume_only_repairs: "resume_repair_transaction now i d = Inr (d', v) \<Longrightarrow> only_repairs d d'"
  by (auto simp: resume_repair_transaction_def guard_simps read_repair_Inr only_repairs_def)

lemma open_repair_frame: "only_repairs d (fst (open_repair w i cx d))"
  unfolding open_repair_def by (intro repairs_only_keep) (simp add: resume_only_repairs)

text \<open>The opened row is the loaded transaction.\<close>

lemma opened_same:
  assumes inv: "store_inv d" and l: "load_repair (Some i) d = Inr (r0, steps0)"
    and o1: "open_repair w (Some i) cx d = (d1, Inr (r, steps))"
  shows "rt_library_item_id r = rt_library_item_id r0"
proof -
  have moves: "repair_moves d d1" and inv1: "store_inv d1"
    using open_repair_sound [of d w "Some i" cx] inv unfolding o1 run_sound_def by simp_all
  from l have r0: "r0 \<in> set (db_repairs d)" "rt_id r0 = js_trim i"
    by (cases rule: load_repair_Inr; auto dest: find_repairD)+
  from o1 have r: "r \<in> set (db_repairs d1)" "rt_id r = js_trim i"
    by (cases rule: open_repair_Inr; auto dest: find_repairD)+
  from repair_moves_row [OF moves r0(1)] obtain r' where r': "r' \<in> set (db_repairs d1)" "same_transaction r0 r'" by blast
  have "r' = r"
    using unique_byD [OF repair_table_invD(1) [OF store_invD(5) [OF inv1, unfolded repair_inv_def]] r'(1) r(1)] r' r0 r
    by (simp add: same_transaction_def)
  with r' show ?thesis by (simp add: same_transaction_def)
qed

lemma execute_without_target:
  assumes inv: "store_inv d" and l: "load_repair (Some i) d = Inr (r0, steps0)"
    and gone: "\<And>r rs identity. rt_library_item_id r = rt_library_item_id r0 \<Longrightarrow>
      \<exists>e. bound_target r identity (d\<lparr>db_repairs := rs\<rparr>) = Inl e"
  shows "\<exists>d' e. execute_repair w (Some i) cx d = (d', Inl e) \<and> same_steps d d'"
proof -
  obtain d' res where ex: "execute_repair w (Some i) cx d = (d', res)" by (cases "execute_repair w (Some i) cx d")
  then show ?thesis
  proof (cases rule: execute_repair_cases)
    case (refused e)
    with ex show ?thesis by auto
  next
    case (ran r steps identity d1 d2 as ares)
    from open_repair_frame [of d w "Some i" cx] ran(1) obtain rs where "d1 = d\<lparr>db_repairs := rs\<rparr>" by (auto simp: only_repairs_def)
    with gone [OF opened_same [OF inv l ran(1)], of identity rs] ran(3) show ?thesis by auto
  qed
qed

end
