(* ===== verification/Persist_Properties.thy ===== *)
theory Persist_Properties
  imports Executor_Properties
begin

text \<open>
  How a plan becomes a transaction: the plan of the current evidence is accepted, and of the stored
  plan only the key is compared with it. What the executor does when the bound file is gone.
\<close>

section \<open>The plan of the current evidence\<close>

definition scope_normal :: "repair_scope \<Rightarrow> bool" where
  "scope_normal s \<longleftrightarrow> normalize_repair_scope s = Inr s"

lemma scope_normalD:
  assumes "scope_normal s"
  shows "normalize_identifier (Some (rs_account s)) = Inr (rs_account s)"
    "normalize_identifier (Some (rs_instance s)) = Inr (rs_instance s)"
    "normalize_identifier (Some (rs_mount s)) = Inr (rs_mount s)"
  using assms by (auto simp: scope_normal_def normalize_repair_scope_def res_bind_Inr)

lemma normalize_realdebrid: "normalize_identifier (Some ''realdebrid'') = Inr ''realdebrid''"
  by code_simp

lemma normalize_scope_normal:
  "scope_normal s \<Longrightarrow> normalize_scope (scope_of_repair s) = Inr \<lparr>ns_provider = ''realdebrid'',
     ns_accountScope = rs_account s, ns_instanceScope = Some (rs_instance s), ns_mountScope = Some (rs_mount s)\<rparr>"
  using scope_normalD [of s]
  by (simp add: normalize_scope_def scope_of_repair_def scope_clause_def normalize_realdebrid)

text \<open>A plan that asks for a repair: whose release, scope and binding it is about.\<close>

lemma trusted_plan_repair:
  assumes plan: "trusted_plan w item release (Some (scope_of_repair s)) now d = Inr p" "py_status p = ''repair-required''"
    and s: "scope_normal s"
  obtains snap b key i where
    "validate_release_identity release = Inr (py_desiredIdentity p)"
    "slice_state item release d = Inr snap"
    "newest_binding item d = Some b" "bd_release_key b = ri_releaseKey (py_desiredIdentity p)"
    "py_binding p = Some (binding_of_plan b)" "py_evaluatedAt p = now" "py_planKey p = Some key"
    "pn_scope (stored_plan p) = Some s" "get_library_item d item = Some i"
proof -
  from plan(1) obtain snap lifecycle where snap: "slice_state item release d = Inr snap"
    and p: "plan_rd_zurg_repair (rw_loc w) (rw_digest w) snap lifecycle (scope_of_repair s) now = Inr p"
    unfolding trusted_plan_def by (auto simp: res_bind_Inr)
  from snap obtain identity where id0: "validate_release_identity release = Inr identity"
    and get: "get_reconciliation_snapshot item (JObj (identity_entries identity)) d = Inr snap"
    unfolding slice_state_def res_bind_Inr by blast
  note trip = identity_round_trip [OF validate_release_identity_valid [OF id0]]
  from get obtain i where i: "get_library_item d item = Some i"
    and ds: "ds_release (rn_desired snap) = JObj (identity_entries identity)"
    and cur: "rn_currentBinding snap = newest_binding item d"
    by (rule snapshot_facts) (auto simp: trip)
  from p show thesis
  proof (cases rule: plan_repair_cases)
    case (broken identity' pj b ts)
    have id: "identity' = identity" using broken(1) by (simp add: ds trip)
    from broken(2) have "pj_scope pj = \<lparr>ns_provider = ''realdebrid'',
       ns_accountScope = rs_account s, ns_instanceScope = Some (rs_instance s), ns_mountScope = Some (rs_mount s)\<rparr>"
      unfolding project_rd_zurg_lifecycle_def res_bind_Inr normalize_scope_normal [OF s] Let_def by auto
    then have scope: "pn_scope (stored_plan p) = Some s" by (simp add: stored_plan_def broken(12))
    show thesis
      by (rule that [OF _ snap _ _ _ _ _ scope i]) (use broken id id0 cur in simp_all)
  qed (use plan(2) in simp_all)
qed

lemma trusted_plan_again:
  assumes "trusted_plan w item release scope now d = Inr p" "validate_release_identity release = Inr identity"
  shows "trusted_plan w item (JObj (identity_entries identity)) scope now d = Inr p"
proof -
  have "slice_state item (JObj (identity_entries identity)) d = slice_state item release d"
    using assms(2) identity_round_trip [OF validate_release_identity_valid [OF assms(2)]]
    by (simp add: slice_state_def)
  with assms(1) show ?thesis by (simp add: trusted_plan_def)
qed

section \<open>Persisting a plan\<close>

definition planned_row :: "string \<Rightarrow> int \<Rightarrow> string \<Rightarrow> repair_scope \<Rightarrow> repair_proposal \<Rightarrow> repair_plan \<Rightarrow> repair_transaction" where
  "planned_row uuid now item s p plan = \<lparr>rt_id = ''rp_'' @ uuid, rt_plan_key = pn_planKey plan, rt_library_item_id = item,
     rt_info_hash = ri_infoHash (py_desiredIdentity p), rt_file_index = ri_fileIndex (py_desiredIdentity p),
     rt_release_key = ri_releaseKey (py_desiredIdentity p), rt_scope = s,
     rt_expected_binding_version = (case pn_binding plan of None \<Rightarrow> 0 | Some b \<Rightarrow> pb_version b), rt_status = RpPlanned,
     rt_plan = plan, rt_authorized_actions = [], rt_authorized_by = None, rt_created_at = now, rt_authorized_at = None,
     rt_started_at = None, rt_completed_at = None, rt_updated_at = now, rt_failure_category = None\<rparr>"

text \<open>Only the key of the plan is compared: any lists with the same actions are stored.\<close>

lemma persist_plan_accepts:
  assumes inv: "store_inv d" and s: "scope_normal s"
    and p: "trusted_plan w item release (Some (scope_of_repair s)) now d = Inr p" "py_status p = ''repair-required''"
    and key: "require_string (py_planKey p) ''planKey'' 1000 = Inr (the (py_planKey p))"
    and fresh: "\<forall>r \<in> set (db_repairs d). rt_id r \<noteq> ''rp_'' @ rw_uuid w \<and> Some (rt_plan_key r) \<noteq> py_planKey p"
    and acts: "same_string_set as bs"
    and plan: "plan = (stored_plan p)\<lparr>pn_permittedActions := as, pn_actionSequence := bs\<rparr>"
  shows "\<exists>steps. persist_plan w item plan d =
    (d\<lparr>db_repairs := db_repairs d @ [planned_row (rw_uuid w) (rw_now w) item s p plan]\<rparr>,
     Inr (planned_row (rw_uuid w) (rw_now w) item s p plan, steps))"
  using p s
proof (rule trusted_plan_repair)
  fix snap b key i
  assume id: "validate_release_identity release = Inr (py_desiredIdentity p)"
    and b: "newest_binding item d = Some b" "bd_release_key b = ri_releaseKey (py_desiredIdentity p)"
      "py_binding p = Some (binding_of_plan b)"
    and now: "py_evaluatedAt p = now" and k: "py_planKey p = Some key"
    and scope: "pn_scope (stored_plan p) = Some s" and i: "get_library_item d item = Some i"
  have li: "li_id i = item" using get_library_item_SomeD [OF i] by simp
  have lib: "require_library_item d item = Inr i" using i by (simp add: require_library_item_Inr)
  have trip: "validate_release_identity (JObj (identity_entries (py_desiredIdentity p))) = Inr (py_desiredIdentity p)"
    by (rule identity_round_trip [OF validate_release_identity_valid [OF id]])
  have fields: "pn_status plan = ''repair-required''" "pn_planKey plan = key"
    "pn_desiredIdentity plan = JObj (identity_entries (py_desiredIdentity p))" "pn_scope plan = Some s"
    "pn_binding plan = Some (binding_of_plan b)" "pn_permittedActions plan = as" "pn_actionSequence plan = bs"
    "pn_evaluatedAt plan = now"
    using p(2) k b(3) now scope by (simp_all add: plan) (simp_all add: stored_plan_def)
  have trusted: "trusted_plan w item (pn_desiredIdentity plan) (map_option scope_of_repair (pn_scope plan)) (pn_evaluatedAt plan) d = Inr p"
    using trusted_plan_again [OF p(1) id] by (simp add: fields)
  let ?input = "\<lparr>rix_libraryItemId = item, rix_desiredIdentity = pn_desiredIdentity plan, rix_plan = Some plan,
        rix_planKey = Some (pn_planKey plan), rix_expectedBindingVersion = pb_version (binding_of_plan b),
        rix_scope = pn_scope plan, rix_id = None\<rparr>"
  let ?row = "planned_row (rw_uuid w) (rw_now w) item s p plan"
  let ?d = "d\<lparr>db_repairs := db_repairs d @ [?row]\<rparr>"
  have version: "pb_version (binding_of_plan b) = bd_version b" "0 < bd_version b"
    using binding_table_invD [OF store_invD(4) [OF inv, unfolded binding_inv_def]] newest_bindingD [OF b(1)]
    by (auto simp: binding_of_plan_def)
  have cons: "plan_is_consistent ?input plan (py_desiredIdentity p) (py_desiredIdentity p)"
    "plan_matches_binding (pb_version (binding_of_plan b)) (py_desiredIdentity p) (binding_of_plan b) b"
    using acts b(2) by (simp_all add: plan_is_consistent_def plan_matches_binding_def fields same_repair_scope_def binding_of_plan_def)
  have row: "rt_plan_key ?row = key" "rt_expected_binding_version ?row = bd_version b" "rt_id ?row = ''rp_'' @ rw_uuid w"
    by (simp_all add: planned_row_def fields version)
  have ins: "insert_repair ?row d = Inr ?d"
    using fresh version by (auto simp: insert_repair_def same_plan_def row k list_ex_iff)
  have found: "find (\<lambda>r. Some (rt_plan_key r) = Some key \<and> rt_expected_binding_version r = bd_version b) (db_repairs ?d) = Some ?row"
    using fresh by (auto simp: find_append row k find_None_iff split: option.splits dest: find_SomeD)
  have "create_repair_transaction (rw_now w) (rw_uuid w) ?input d = Inr (?d, repair_transaction_with_steps ?row ?d)"
    using found ins
    by (simp add: create_repair_transaction_def lib fields trip cons [unfolded fields version(1)] li b(1)
        key [unfolded k option.sel] s [unfolded scope_normal_def] ensure_def version planned_row_def)
  then show ?thesis
    by (simp add: persist_plan_def run_bind_def ensure_def fields trusted [unfolded fields option.map] k transact_def
        repair_transaction_with_steps_def)
qed

text \<open>The planner's own lists are lists with the same actions, and never empty.\<close>

lemma detected_known:
  "tr_category ` set (detect_triggers loc facts snapshot b now) \<subseteq>
     set reconciled_categories \<union> {''missing-filesystem-exposure'', ''stale-zurg-metadata-state''}"
proof -
  have "tr_category ` set (placement_triggers facts) \<subseteq> set reconciled_categories"
    using placement_categories [of facts] by (auto simp: reconciled_categories_def)
  moreover have "tr_category ` set (inventory_triggers facts snapshot b now) \<subseteq> set reconciled_categories"
    unfolding inventory_categories by (simp add: reconciled_categories_def)
  moreover have "''exact-file-mapping-degraded'' \<in> set reconciled_categories"
      "''canonical-binding-degraded'' \<in> set reconciled_categories" by (simp_all add: reconciled_categories_def)
  ultimately show ?thesis unfolding detect_categories by (simp add: le_supI1 le_supI2) blast
qed

lemma permitted_nonempty:
  assumes "c \<in> tr_category ` set ts" "c \<in> set reconciled_categories \<union> {''missing-filesystem-exposure'', ''stale-zurg-metadata-state''}"
  shows "permitted_actions_for ts snapshot b \<noteq> []"
proof -
  consider "list_ex (\<lambda>k. k \<in> tr_category ` set ts) reconciled_categories" | "c = ''missing-filesystem-exposure''"
    | "c = ''stale-zurg-metadata-state''" using assms by (auto simp: list_ex_iff)
  then have "\<exists>a. a \<in> set (permitted_actions_for ts snapshot b)"
  proof cases
    case 1
    then have "reconcile_binding \<in> set (permitted_actions_for ts snapshot b)" unfolding permitted_iff set_map by simp
    then show ?thesis by blast
  next
    case 2
    with assms(1) have "reobserve_exposure \<in> set (permitted_actions_for ts snapshot b)" unfolding permitted_iff set_map by simp
    then show ?thesis by blast
  next
    case 3
    with assms(1) have "reobserve_zurg \<in> set (permitted_actions_for ts snapshot b)" unfolding permitted_iff set_map by simp
    then show ?thesis by blast
  qed
  then show ?thesis by (metis empty_iff empty_set)
qed

lemma planned_actions_match:
  assumes "plan_rd_zurg_repair loc digest snapshot lifecycle scope now = Inr p" "py_status p = ''repair-required''"
  shows "same_string_set (py_permittedActions p) (py_actionSequence p)"
  using assms(1)
proof (cases rule: plan_repair_cases)
  case (broken identity pj b ts)
  from broken(5,6) detected_known [of loc "pj_facts pj" snapshot b now] obtain c where
    "c \<in> tr_category ` set ts" "c \<in> set reconciled_categories \<union> {''missing-filesystem-exposure'', ''stale-zurg-metadata-state''}"
    by (cases ts) auto
  then have "permitted_actions_for ts snapshot b \<noteq> []" by (rule permitted_nonempty)
  moreover note same = ordered_actions_set [OF permitted_known [of ts snapshot b]] permitted_distinct [of ts snapshot b]
    ordered_actions_distinct [of "permitted_actions_for ts snapshot b"]
  have "length (ordered_actions (permitted_actions_for ts snapshot b)) = length (permitted_actions_for ts snapshot b)"
    using same distinct_card by metis
  ultimately show ?thesis using same by (simp add: same_string_set_def broken(8,9) list_all_iff)
qed (use assms(2) in simp_all)

section \<open>When the bound file is gone\<close>

definition file_listed :: "db \<Rightarrow> binding \<Rightarrow> bool" where
  "file_listed d b \<longleftrightarrow> (\<exists>f \<in> set (db_provider_files d). pf_present f \<and> pf_placement_id f = bd_placement_id b
     \<and> pf_provider_file_id f = bd_provider_file_id b)"

lemma unlisted_snapshot:
  assumes "slice_state item release d = Inr snap" "newest_binding item d = Some b" "\<not> file_listed d b"
  shows "rn_currentBinding snap = Some b" "bound_file_in snap b = None"
proof -
  from assms(1) obtain identity where "get_reconciliation_snapshot item (JObj (identity_entries identity)) d = Inr snap"
    unfolding slice_state_def res_bind_Inr by blast
  then have "rn_currentBinding snap = newest_binding item d
    \<and> (\<exists>ids. rn_providerFiles snap = rows_for_ids pf_placement_id ids (filter pf_present (db_provider_files d)))"
    by (rule snapshot_facts) blast
  with assms(2,3) show "rn_currentBinding snap = Some b" "bound_file_in snap b = None"
    by (auto simp: bound_file_in_def find_None_iff rows_for_ids_def file_listed_def)
qed

lemma unlisted_target:
  assumes "newest_binding (rt_library_item_id r) d = Some b" "\<not> file_listed d b"
  shows "\<exists>e. bound_target r identity d = Inl e"
proof (cases "repair_state r identity d")
  case (Inl e)
  then show ?thesis by (simp add: bound_target_def)
next
  case (Inr snap)
  from unlisted_snapshot [OF Inr [unfolded repair_state_def] assms] Inr show ?thesis
    by (auto simp: bound_target_def split: option.splits)
qed

text \<open>The planner asks for a new observation of the provider.\<close>

lemma unlisted_plan:
  assumes b: "newest_binding item d = Some b" "\<not> file_listed d b"
    and plan: "trusted_plan w item release scope now d = Inr p"
    and release: "validate_release_identity release = Inr identity" "bd_release_key b = ri_releaseKey identity"
  shows "py_status p = ''repair-required'' \<and> {reobserve_provider, reconcile_binding} \<subseteq> set (py_actionSequence p)"
proof -
  from plan obtain snap lifecycle sc where snap: "slice_state item release d = Inr snap"
    and p: "plan_rd_zurg_repair (rw_loc w) (rw_digest w) snap lifecycle sc now = Inr p"
    unfolding trusted_plan_def by (auto simp: res_bind_Inr split: option.splits)
  note un = unlisted_snapshot [OF snap b]
  from snap have get: "get_reconciliation_snapshot item (JObj (identity_entries identity)) d = Inr snap"
    unfolding slice_state_def res_bind_Inr using release(1) by auto
  note trip = identity_round_trip [OF validate_release_identity_valid [OF release(1)]]
  from get have ds: "ds_release (rn_desired snap) = JObj (identity_entries identity)"
    by (rule snapshot_facts) (simp add: trip)
  have cat: "''provider-inventory-degraded'' \<in> tr_category ` set (detect_triggers loc facts snap b now)" for loc facts
    unfolding detect_categories inventory_categories by (simp add: inventory_ready_def un)
  then have some: "detect_triggers loc facts snap b now \<noteq> []" for loc facts by (metis empty_iff image_empty empty_set)
  from p show ?thesis
  proof (cases rule: plan_repair_cases)
    case unbound
    from p obtain pj where pj: "project_rd_zurg_lifecycle (rw_loc w) snap lifecycle sc now = Inr pj"
      unfolding plan_rd_zurg_repair_def res_bind_Inr by blast
    note p = p [unfolded plan_rd_zurg_repair_def ds trip pj res_bind_simps Let_def un(1) option.case]
    show ?thesis
    proof (cases "detect_triggers (rw_loc w) (pj_facts pj) snap b now")
      case (Cons t ts)
      with p release(2) unbound(1) show ?thesis by auto
    qed (use some in simp)
  next
    case (healthy identity' pj b')
    then show ?thesis using some un by simp
  next
    case (broken identity' pj b' ts)
    then have ts: "ts = detect_triggers (rw_loc w) (pj_facts pj) snap b now" using un by simp
    have "''provider-inventory-degraded'' \<in> set reconciled_categories" by (simp add: reconciled_categories_def)
    with cat have "list_ex (\<lambda>k. k \<in> tr_category ` set ts) reconciled_categories" unfolding ts list_ex_iff by blast
    then have "{reobserve_provider, reconcile_binding} \<subseteq> set (permitted_actions_for ts snap b')"
      unfolding permitted_actions_for_def Let_def set_map using cat ts by simp
    then show ?thesis using broken(7-9) ordered_actions_set [OF permitted_known] by simp
  qed
qed

end
