(* ===== verification/Repair_Run.thy ===== *)
theory Repair_Run
  imports Control_Plane_Run Execution_Properties Persist_Properties
begin

text \<open>
  Repairs as concrete runs of the executor: a bound route at Real-Debrid whose exposure has expired,
  or whose file is no longer selected, with an authorized transaction for it; and the properties of
  the repair executor.
\<close>

section \<open>Stores and worlds\<close>

definition repair_scope_run :: repair_scope where
  "repair_scope_run = \<lparr>rs_account = ''default'', rs_instance = ''default'', rs_mount = ''default''\<rparr>"

text \<open>The store: whether the bound file is selected, when its exposure expires, the transactions and steps.\<close>

definition repair_db :: "bool option \<Rightarrow> int \<Rightarrow> repair_transaction list \<Rightarrow> repair_step list \<Rightarrow> db" where
  "repair_db selected e rs ss = run_db\<lparr>
     db_placements := [sample_placement\<lparr>pl_provider := ''realdebrid'', pl_expires_at := Some 1000\<rparr>],
     db_placement_obs := [\<lparr>po_id = ''po_1'', po_provider = ''realdebrid'', po_account_scope = ''default'',
       po_info_hash = sample_hash, po_observation_state = ObPresent, po_placement_id = Some ''pl_u1'',
       po_observed_at = 60, po_expires_at = 1000, po_source = ''s'', po_failure_category = None, po_retryable = None\<rparr>],
     db_readiness := [\<lparr>ro_placement_id = ''pl_u1'', ro_state = PsReady, ro_observed_at = 60, ro_expires_at = 1000,
       ro_source = ''s'', ro_failure_category = None, ro_retryable = None\<rparr>],
     db_zurg := [\<lparr>zm_id = ''zm_1'', zm_provider = ''realdebrid'', zm_account_scope = ''default'',
       zm_instance_scope = ''default'', zm_info_hash = sample_hash, zm_metadata_path = ''m'',
       zm_observation_state = ObPresent, zm_zurg_state = None, zm_zurg_state_when = None, zm_observed_at = 60,
       zm_expires_at = Some 1000, zm_source = ''s'', zm_failure_category = None, zm_retryable = None, zm_evidence = None\<rparr>],
     db_provider_files := [run_file\<lparr>pf_selected := selected\<rparr>],
     db_exposures := map (\<lambda>x. x\<lparr>ex_expires_at := Some e\<rparr>) (db_exposures run_db),
     db_bindings := [later_binding], db_repairs := rs, db_steps := ss\<rparr>"

definition repair_tx :: "string list \<Rightarrow> repair_transaction" where
  "repair_tx as = \<lparr>rt_id = ''rp_u'', rt_plan_key = ''k'', rt_library_item_id = sample_item_id, rt_info_hash = sample_hash,
     rt_file_index = None, rt_release_key = sample_hash @ '':torrent'', rt_scope = repair_scope_run,
     rt_expected_binding_version = 1, rt_status = RpAuthorized,
     rt_plan = \<lparr>pn_status = ''repair-required'', pn_planKey = ''k'', pn_desiredIdentity = sample_release,
       pn_scope = Some repair_scope_run, pn_binding = Some (binding_of_plan later_binding), pn_permittedActions = as,
       pn_actionSequence = as, pn_reason = ''r'', pn_evaluatedAt = 90\<rparr>,
     rt_authorized_actions = as, rt_authorized_by = Some ''op'', rt_created_at = 91, rt_authorized_at = Some 92,
     rt_started_at = None, rt_completed_at = None, rt_updated_at = 92, rt_failure_category = None\<rparr>"

text \<open>An adapter that sees the exposure again, and whose file selection answers nothing in time.\<close>

definition run_gateway :: gateway where
  "run_gateway = \<lparr>gw_lookup = None, gw_readiness = None, gw_inventory = None,
     gw_select = Some (\<lambda>_ _ _ _. Inl (JsError ''socket hang up'')), gw_repair = None, gw_metadata = None,
     gw_exposure = Some (Some (\<lambda>resource _ _. Inr \<lparr>er_provider = ''realdebrid'', er_accountScope = ''default'',
       er_providerResourceId = resource, er_observation = run_exposure\<lparr>exx_observedAt := Some 95\<rparr>\<rparr>)),
     gw_now = 100, gw_uuid = (\<lambda>_. ''u9'')\<rparr>"

definition run_world :: repair_world where
  "run_world = \<lparr>rw_account = ''default'', rw_loc = run_loc, rw_digest = (\<lambda>_. ''0''), rw_gateway = (\<lambda>_. run_gateway),
     rw_now = 100, rw_uuid = ''u''\<rparr>"

definition run_context :: slice_context where
  "run_context = \<lparr>cn_now = Some 100, cn_observedAt = None, cn_expiresAt = None, cn_metadataPath = None,
     cn_relativePath = Some ''Movies/T'', cn_resume = False\<rparr>"

lemma run_good: "good_ids (rw_gateway run_world a)"
proof -
  have "id_ok (''tf_'' @ ''u9'')" by code_simp
  then show ?thesis by (simp add: good_ids_def run_world_def run_gateway_def)
qed

definition lost_mount_db :: db where
  "lost_mount_db = repair_db None 50 [repair_tx [reobserve_exposure]] []"

definition lost_selection_db :: db where
  "lost_selection_db = repair_db (Some False) 1000 [repair_tx [reselect_files, reobserve_provider]] []"

lemma lost_mount_inv: "store_inv lost_mount_db"
  by code_simp

lemma lost_selection_inv: "store_inv lost_selection_db"
  by code_simp

section \<open>A repair that succeeds\<close>

definition run_identity :: release_identity where
  "run_identity = \<lparr>ri_infoHash = sample_hash, ri_fileIndex = None, ri_releaseKey = sample_hash @ '':torrent''\<rparr>"

definition run_step :: "string \<Rightarrow> repair_step" where
  "run_step a = \<lparr>st_id = 1, st_transaction_id = ''rp_u'', st_action = a, st_status = StRunning, st_attempt = 1,
     st_request = Some (request_audit a run_context), st_result = None, st_failure_category = None,
     st_retryable = None, st_started_at = 100, st_completed_at = None\<rparr>"

definition mount_tx :: repair_transaction where
  "mount_tx = repair_tx [reobserve_exposure]"

definition mount_db1 :: db where
  "mount_db1 = lost_mount_db\<lparr>db_repairs := [executing_row 100 mount_tx], db_steps := [run_step reobserve_exposure]\<rparr>"

text \<open>The exposure is seen again; the step has succeeded; the transaction has.\<close>

definition seen_exposures :: "exposure list" where
  "seen_exposures = map (\<lambda>x. x\<lparr>ex_expires_at := Some 1000, ex_observed_at := 95\<rparr>) (db_exposures run_db)"

definition mount_db2 :: db where
  "mount_db2 = mount_db1\<lparr>db_exposures := seen_exposures\<rparr>"

definition mount_result :: mutation_result where
  "mount_result = map_option exposure_result (Some (hd seen_exposures))"

definition mount_db3 :: db where
  "mount_db3 = mount_db2\<lparr>db_steps := [succeed_step 100 (Some (audit_result mount_result)) (run_step reobserve_exposure)]\<rparr>"

lemma mount_open: "open_repair run_world (Some ''rp_u'') run_context lost_mount_db = (lost_mount_db, Inr (mount_tx, []))"
  by code_simp

lemma mount_valid: "validate_release_identity (JObj (identity_entries (transaction_identity mount_tx))) = Inr run_identity"
  by code_simp

lemma mount_target: "is_ok (bound_target mount_tx run_identity lost_mount_db)"
  by code_simp

lemma mount_start:
  "start_repair_step 100 (Some ''rp_u'') reobserve_exposure (Some (request_audit reobserve_exposure run_context)) lost_mount_db
     = Inr (mount_db1, run_step reobserve_exposure)"
  by code_simp

lemma mount_action:
  "run_action run_world reobserve_exposure mount_tx run_identity run_context (run_step reobserve_exposure) mount_db1
     = (mount_db2, Inr mount_result)"
  by code_simp

lemma mount_step_done:

  "complete_repair_step 100 1 (Some (audit_result mount_result)) mount_db2 = Inr (mount_db3, hd (db_steps mount_db3))"
  by code_simp

lemma plan_healthyI:
  assumes "validate_release_identity (ds_release (rn_desired snapshot)) = Inr identity"
    "project_rd_zurg_lifecycle loc snapshot lifecycle scope now = Inr pj" "rn_currentBinding snapshot = Some b"
    "bd_release_key b = ri_releaseKey identity" "detect_triggers loc (pj_facts pj) snapshot b now = []"
  shows "plan_rd_zurg_repair loc digest snapshot lifecycle scope now =
    Inr (quiet_plan ''healthy'' ''binding-evidence-is-current'' identity (pj_scope pj) (pj_facts pj) now)"
  using assms by (simp add: plan_rd_zurg_repair_def)

lemma plan_brokenI:
  assumes "validate_release_identity (ds_release (rn_desired snapshot)) = Inr identity"
    "project_rd_zurg_lifecycle loc snapshot lifecycle scope now = Inr pj" "rn_currentBinding snapshot = Some b"
    "bd_release_key b = ri_releaseKey identity" "detect_triggers loc (pj_facts pj) snapshot b now \<noteq> []"
  shows "\<exists>p. plan_rd_zurg_repair loc digest snapshot lifecycle scope now = Inr p \<and> py_status p = ''repair-required''
    \<and> py_triggers p = detect_triggers loc (pj_facts pj) snapshot b now \<and> py_planKey p = Some (''repair:'' @ ri_releaseKey identity @ '':''
       @ repair_fingerprint digest identity (pj_scope pj) (bd_version b) (py_triggers p) (py_permittedActions p) (py_actionSequence p)
           (summarize_observations (pj_facts pj)))"
  using assms by (cases "detect_triggers loc (pj_facts pj) snapshot b now") (simp_all add: plan_rd_zurg_repair_def Let_def)

text \<open>The evidence of a store of these runs, as the planner sees it at time 100.\<close>

definition evidence :: "db \<Rightarrow> (recon_snapshot \<times> lifecycle_view \<times> slice_projection) res" where
  "evidence d = res_bind (repair_state mount_tx run_identity d) (\<lambda>snap. res_bind (get_lifecycle sample_item_id d) (\<lambda>lifecycle.
     res_bind (project_rd_zurg_lifecycle run_loc snap lifecycle (scope_of_repair repair_scope_run) 100) (\<lambda>pj.
       Inr (snap, lifecycle, pj))))"

text \<open>The categories of the triggers that it gives for the binding, and whether the target is exact.\<close>

definition found_triggers :: "db \<Rightarrow> (string list \<times> bool) res" where
  "found_triggers d = res_bind (evidence d) (\<lambda>(snap, lifecycle, pj).
     Inr (map tr_category (detect_triggers run_loc (pj_facts pj) snap later_binding 100), exact_target run_identity snap))"

lemma healthy_triggers: "found_triggers mount_db3 = Inr ([], True)"
  by code_simp

lemma lost_mount_triggers: "found_triggers lost_mount_db = Inr ([''missing-filesystem-exposure''], True)"
  by code_simp

lemma newest_in_runs:
  "newest_binding sample_item_id lost_mount_db = Some later_binding" "newest_binding sample_item_id mount_db3 = Some later_binding"
  "newest_binding sample_item_id lost_selection_db = Some later_binding"
  by code_simp+

lemma evidence_snapshot:
  assumes "found_triggers d = Inr (cs, exact)" "newest_binding sample_item_id d = Some later_binding"
  obtains snap lifecycle pj where "repair_state mount_tx run_identity d = Inr snap" "get_lifecycle sample_item_id d = Inr lifecycle"
    "project_rd_zurg_lifecycle run_loc snap lifecycle (scope_of_repair repair_scope_run) 100 = Inr pj"
    "cs = map tr_category (detect_triggers run_loc (pj_facts pj) snap later_binding 100)" "exact = exact_target run_identity snap"
    "validate_release_identity (ds_release (rn_desired snap)) = Inr run_identity"
    "rn_currentBinding snap = Some later_binding" "bd_release_key later_binding = ri_releaseKey run_identity"
proof -
  from assms(1) obtain snap lifecycle pj where ev: "repair_state mount_tx run_identity d = Inr snap"
    "get_lifecycle sample_item_id d = Inr lifecycle"
    "project_rd_zurg_lifecycle run_loc snap lifecycle (scope_of_repair repair_scope_run) 100 = Inr pj"
    "cs = map tr_category (detect_triggers run_loc (pj_facts pj) snap later_binding 100)" "exact = exact_target run_identity snap"
    unfolding found_triggers_def evidence_def by (auto simp: res_bind_Inr)
  have item: "rt_library_item_id mount_tx = sample_item_id" by (simp add: mount_tx_def repair_tx_def)
  have trip: "validate_release_identity (JObj (identity_entries run_identity)) = Inr run_identity" by code_simp
  from ev(1) have "get_reconciliation_snapshot sample_item_id (JObj (identity_entries run_identity)) d = Inr snap"
    by (simp add: repair_state_def slice_state_def trip item)
  then have "ds_release (rn_desired snap) = JObj (identity_entries run_identity) \<and> rn_currentBinding snap = newest_binding sample_item_id d"
    by (rule snapshot_facts) (simp add: trip)
  moreover have "bd_release_key later_binding = ri_releaseKey run_identity"
    by (simp add: later_binding_def sample_binding_def run_identity_def)
  ultimately show thesis by (intro that [OF ev]) (simp_all add: assms(2) trip)
qed

lemma mount_post: "assert_postconditions run_world mount_tx run_identity run_context mount_db3 = Inr ()"
  using healthy_triggers newest_in_runs(2)
proof (rule evidence_snapshot)
  fix snap lifecycle pj
  assume ev: "repair_state mount_tx run_identity mount_db3 = Inr snap" "get_lifecycle sample_item_id mount_db3 = Inr lifecycle"
    and pj: "project_rd_zurg_lifecycle run_loc snap lifecycle (scope_of_repair repair_scope_run) 100 = Inr pj"
    and "[] = map tr_category (detect_triggers run_loc (pj_facts pj) snap later_binding 100)" "True = exact_target run_identity snap"
    and "validate_release_identity (ds_release (rn_desired snap)) = Inr run_identity"
      "rn_currentBinding snap = Some later_binding" "bd_release_key later_binding = ri_releaseKey run_identity"
  then have "plan_rd_zurg_repair run_loc (rw_digest run_world) snap lifecycle (scope_of_repair repair_scope_run) 100 =
      Inr (quiet_plan ''healthy'' ''binding-evidence-is-current'' run_identity (pj_scope pj) (pj_facts pj) 100)" "exact_target run_identity snap"
    by (auto intro!: plan_healthyI)
  moreover have "rt_library_item_id mount_tx = sample_item_id" "rt_scope mount_tx = repair_scope_run"
      "rw_loc run_world = run_loc" "cn_now run_context = Some 100"
    by (simp_all add: mount_tx_def repair_tx_def run_world_def run_context_def)
  ultimately show ?thesis by (simp add: assert_postconditions_def ev quiet_plan_def ensure_def)
qed

lemma mount_complete: "is_ok (complete_repair_transaction 100 (Some ''rp_u'') mount_db3)"
  by code_simp

lemma mount_run: "\<exists>d' r steps. execute_repair run_world (Some ''rp_u'') run_context lost_mount_db = (d', Inr (r, steps))
  \<and> rt_library_item_id r = sample_item_id"
proof -
  from mount_target obtain b where b: "bound_target mount_tx run_identity lost_mount_db = Inr b"
    by (auto simp: is_ok_def split: sum.splits)
  from mount_complete obtain d' r steps where c: "complete_repair_transaction 100 (Some ''rp_u'') mount_db3 = Inr (d', r, steps)"
    by (auto simp: is_ok_def split: sum.splits prod.splits)
  have f: "rt_id mount_tx = ''rp_u''" "rt_authorized_actions mount_tx = [reobserve_exposure]"
    "pn_actionSequence (rt_plan mount_tx) = [reobserve_exposure]" "rw_now run_world = 100"
    "st_status (run_step reobserve_exposure) = StRunning" "st_id (run_step reobserve_exposure) = 1"
    by (simp_all add: mount_tx_def repair_tx_def run_world_def run_step_def)
  have "run_actions run_world (mount_tx, []) run_identity run_context [reobserve_exposure] lost_mount_db = (mount_db3, Inr ())"
    by (simp add: run_bind_def run_catch_def transact_def b f mount_start mount_action mount_step_done [unfolded One_nat_def])
  moreover have "finish_execution run_world mount_tx run_identity run_context mount_db3 = (d', Inr (r, steps))"
    unfolding finish_execution_def f
    by (simp add: run_bind_def run_catch_def mount_post transact_def c)
  ultimately have "execute_repair run_world (Some ''rp_u'') run_context lost_mount_db = (d', Inr (r, steps))"
    unfolding execute_repair_def finish_execution_def [symmetric]
    by (simp add: run_bind_def mount_open mount_valid b f ensure_def)
  moreover have "require_string (Some ''rp_u'') ''repairTransactionId'' 256 = Inr ''rp_u''" by code_simp
  from complete_Inr [OF c this] have "\<exists>row. find_repair ''rp_u'' mount_db3 = Some row \<and> same_transaction row r" by blast
  then have "rt_library_item_id r = sample_item_id"
    by (auto simp: same_transaction_def mount_db3_def mount_db2_def mount_db1_def find_repair_def executing_row_def mount_tx_def repair_tx_def)
  ultimately show ?thesis by blast
qed

section \<open>A mutation without an answer\<close>

definition selection_tx :: repair_transaction where
  "selection_tx = repair_tx [reselect_files, reobserve_provider]"

definition selection_db1 :: db where
  "selection_db1 = lost_selection_db\<lparr>db_repairs := [executing_row 100 selection_tx], db_steps := [run_step reselect_files]\<rparr>"

definition selection_db2 :: db where
  "selection_db2 = selection_db1\<lparr>db_repairs := [fail_row 100 ''repair-operation-outcome-unknown'' (executing_row 100 selection_tx)]\<rparr>"

lemma selection_open:
  "open_repair run_world (Some ''rp_u'') run_context lost_selection_db = (lost_selection_db, Inr (selection_tx, []))"
  by code_simp

lemma selection_valid: "validate_release_identity (JObj (identity_entries (transaction_identity selection_tx))) = Inr run_identity"
  by code_simp

lemma selection_target: "is_ok (bound_target selection_tx run_identity lost_selection_db)"
  by code_simp

lemma selection_start:
  "start_repair_step 100 (Some ''rp_u'') reselect_files (Some (request_audit reselect_files run_context)) lost_selection_db
     = Inr (selection_db1, run_step reselect_files)"
  by code_simp

lemma selection_action:
  "run_action run_world reselect_files selection_tx run_identity run_context (run_step reselect_files) selection_db1
     = (selection_db1, Inl (JsError ''socket hang up''))"
  by code_simp

lemma selection_failed:
  "action_failed run_world reselect_files selection_tx (run_step reselect_files) (JsError ''socket hang up'') selection_db1
     = (selection_db2, Inl unknown_outcome)"
  by code_simp

lemma selection_run:
  "execute_repair run_world (Some ''rp_u'') run_context lost_selection_db = (selection_db2, Inl unknown_outcome)"
proof -
  from selection_target obtain b where b: "bound_target selection_tx run_identity lost_selection_db = Inr b"
    by (auto simp: is_ok_def split: sum.splits)
  have f: "rt_id selection_tx = ''rp_u''" "rt_authorized_actions selection_tx = [reselect_files, reobserve_provider]"
    "pn_actionSequence (rt_plan selection_tx) = [reselect_files, reobserve_provider]" "rw_now run_world = 100"
    "st_status (run_step reselect_files) = StRunning"
    by (simp_all add: selection_tx_def repair_tx_def run_world_def run_step_def)
  have "run_actions run_world (selection_tx, []) run_identity run_context [reselect_files, reobserve_provider] lost_selection_db =
      (selection_db2, Inl unknown_outcome)"
    by (simp add: run_bind_def run_catch_def transact_def b f selection_start selection_action selection_failed)
  then show ?thesis
    unfolding execute_repair_def by (simp add: run_bind_def selection_open selection_valid b f ensure_def)
qed

section \<open>Properties of the executor\<close>

text \<open>
  C13: Persisting a plan, authorizing actions and executing a transaction, with any answers, errors and
  missing capabilities of the provider adapter, the Zurg observer and the mount, are sequences of
  operations of the store, also when they throw in the middle: the whole invariant of the store holds
  after them. (The ids the store gives to new torrent files are short and without white space.)
\<close>

theorem repair_execution_keeps_store:
  assumes "store_inv d" "\<And>a. good_ids (rw_gateway w a)"
    and "d' \<in> {fst (persist_plan w item plan d), fst (authorize_repair w i input d), fst (execute_repair w i cx d)}"
  shows "store_step\<^sup>*\<^sup>* d d' \<and> store_inv d' \<and> repair_moves d d'"
  using assms persist_plan_sound [of d w item plan] authorize_repair_sound [of d w i input]
    execute_repair_sound [OF assms(2), of d i cx] by (auto simp: run_sound_def)

theorem repair_execution_keeps_store_witness: "store_inv selection_db2 \<and> repair_moves lost_selection_db selection_db2"
proof -
  have "selection_db2 \<in> {fst (persist_plan run_world item plan lost_selection_db), fst (authorize_repair run_world i input lost_selection_db),
      fst (execute_repair run_world (Some ''rp_u'') run_context lost_selection_db)}" for item plan i input
    by (simp add: selection_run)
  from repair_execution_keeps_store [OF lost_selection_inv run_good this] show ?thesis by blast
qed

text \<open>
  C12: When an execution leaves a running step of its transaction behind, it has thrown the error of an
  unknown outcome, the transaction has failed, the step is a mutation at the provider, and from then on
  every execution of the transaction, with any context, is refused, without changing the store and
  without asking any adapter (its answer does not depend on them): a mutation whose outcome is unknown
  is never sent again.
\<close>

theorem ambiguous_mutation_blocks_repair:
  assumes "store_inv d" "\<And>a. good_ids (rw_gateway w a)" "\<not> has_running_step (js_trim i) d"
    and "execute_repair w (Some i) cx d = (d', res)" "has_running_step (js_trim i) d'"
  shows "res = Inl unknown_outcome \<and> tx_status (js_trim i) d' = Some RpFailed
    \<and> (\<exists>s \<in> set (db_steps d'). st_transaction_id s = js_trim i \<and> st_status s = StRunning \<and> is_provider_mutation (st_action s))
    \<and> (\<exists>e. \<forall>g. execute_repair (w'\<lparr>rw_gateway := g\<rparr>) (Some i) cx' d' = (d', Inl e))"
  using execute_repair_settles [OF assms(1-4)] assms(5) running_step_refused [OF assms(5), of w' cx']
  by (auto simp: settled_def running_def)

theorem ambiguous_mutation_blocks_repair_witness:
  "tx_status ''rp_u'' selection_db2 = Some RpFailed
     \<and> (\<exists>e. \<forall>g. execute_repair (run_world\<lparr>rw_gateway := g\<rparr>) (Some ''rp_u'') (run_context\<lparr>cn_resume := True\<rparr>) selection_db2
          = (selection_db2, Inl e))"
proof -
  have t: "js_trim ''rp_u'' = ''rp_u''" "has_running_step ''rp_u'' selection_db2" "\<not> has_running_step ''rp_u'' lost_selection_db"
    by code_simp+
  show ?thesis
    using ambiguous_mutation_blocks_repair [OF lost_selection_inv run_good _ selection_run, of run_world "run_context\<lparr>cn_resume := True\<rparr>"]
    by (simp add: t)
qed

text \<open>
  C11: An execution that returns normally has a succeeded transaction with a succeeded step for every
  authorized action, and the item has at that moment an active binding of the transaction's release
  whose provider file is present and selected, with an authoritative complete inventory, an
  authoritative mapping of the release to the file and a visible read-only exposure, none expired:
  success is never reported on the word of an adapter alone.
\<close>

theorem succeeded_repair_is_proven:
  assumes "store_inv d" "\<And>a. good_ids (rw_gateway w a)"
    and "execute_repair w (Some i) cx d = (d', Inr (r, steps))"
  shows "rt_id r = js_trim i \<and> r \<in> set (db_repairs d') \<and> rt_status r = RpSucceeded
    \<and> (\<forall>a \<in> set (rt_authorized_actions r). \<exists>s \<in> set steps. st_action s = a \<and> st_status s = StSucceeded)
    \<and> proven_route d' (nullish (cn_now cx) (rw_now w)) (rt_library_item_id r) (rt_release_key r)"
  using execute_repair_succeeds [OF assms] by blast

theorem succeeded_repair_is_proven_witness:
  "\<exists>d' r steps. execute_repair run_world (Some ''rp_u'') run_context lost_mount_db = (d', Inr (r, steps))
     \<and> rt_status r = RpSucceeded \<and> proven_route d' 100 sample_item_id (rt_release_key r)"
proof -
  obtain d' r steps where run: "execute_repair run_world (Some ''rp_u'') run_context lost_mount_db = (d', Inr (r, steps))"
    "rt_library_item_id r = sample_item_id" using mount_run by blast
  have "cn_now run_context = Some 100" by (simp add: run_context_def)
  with succeeded_repair_is_proven [OF lost_mount_inv run_good run(1)] run show ?thesis by auto
qed

section \<open>Properties of plans\<close>

text \<open>
  C14: A plan that asks for a repair permits exactly the actions that its evidence calls for. A request to
  repair at the provider, and the replacement of the observation, are permitted exactly when the newest
  observations of placement and readiness in the scope do not show a present and ready placement, unexpired:
  so also when nothing was ever observed. A new selection is permitted exactly when a fresh authoritative
  inventory shows the bound file as no longer selected. A look at the mount, at the Zurg metadata and at the
  provider, and the reconciliation of the binding, are permitted exactly when what they look at is not in
  order: so a miss of the mount alone permits only another look at the mount.
\<close>

theorem permitted_repair_actions:
  assumes "plan_rd_zurg_repair loc digest snapshot lifecycle scope now = Inr plan" "py_status plan = ''repair-required''"
    and "project_rd_zurg_lifecycle loc snapshot lifecycle scope now = Inr pj" and "rn_currentBinding snapshot = Some b"
    and A: "A = set (py_permittedActions plan)" and ready: "ready = newest_ready loc (filter_snapshot snapshot (pj_scope pj)) now"
    and listed: "listed \<longleftrightarrow> bound_file_in snapshot b \<noteq> None \<and> bound_inventory_healthy snapshot b now"
    and unselected: "unselected \<longleftrightarrow> (\<exists>f. bound_file_in snapshot b = Some f \<and> pf_selected f = Some False)"
  shows "A \<subseteq> set action_order \<and> (request_repair \<in> A \<longleftrightarrow> \<not> ready) \<and> (replace_observation \<in> A \<longleftrightarrow> \<not> ready)
    \<and> (reselect_files \<in> A \<longleftrightarrow> listed \<and> unselected)
    \<and> (reobserve_provider \<in> A \<longleftrightarrow> \<not> ready \<or> \<not> listed \<or> unselected)
    \<and> (reobserve_exposure \<in> A \<longleftrightarrow> \<not> bound_exposure_healthy snapshot b now)
    \<and> (reobserve_zurg \<in> A \<longleftrightarrow> \<not> zurg_healthy (pj_facts pj))
    \<and> (reconcile_binding \<in> A \<longleftrightarrow> \<not> ready \<or> \<not> listed \<or> unselected \<or> \<not> bound_mapping_healthy snapshot b
        \<or> fact_state (ft_binding (pj_facts pj)) \<noteq> JStr ''active'')"
proof -
  note p = permitted_exact [OF assms(1-4), folded A]
  have "ready = provider_ready (pj_facts pj)" "listed = inventory_ready snapshot b now" "unselected = selection_lost snapshot b"
    by (simp_all add: ready provider_ready_newest [OF assms(3)] listed inventory_ready_def unselected selection_lost_file)
  then show ?thesis using p by blast
qed

text \<open>The plans of these stores.\<close>

lemma run_trusted:
  assumes "found_triggers d = Inr (cs, exact)" "newest_binding sample_item_id d = Some later_binding" "cs \<noteq> []"
  obtains p where "trusted_plan run_world sample_item_id (JObj (identity_entries run_identity)) (Some (scope_of_repair repair_scope_run)) 100 d = Inr p"
    "py_status p = ''repair-required''" "map tr_category (py_triggers p) = cs"
    "py_planKey p = Some (''repair:'' @ (sample_hash @ '':torrent'') @ '':0'')"
  using assms(1,2)
proof (rule evidence_snapshot)
  fix snap lifecycle pj
  assume ev: "repair_state mount_tx run_identity d = Inr snap" "get_lifecycle sample_item_id d = Inr lifecycle"
    and pj: "project_rd_zurg_lifecycle run_loc snap lifecycle (scope_of_repair repair_scope_run) 100 = Inr pj"
    and cs: "cs = map tr_category (detect_triggers run_loc (pj_facts pj) snap later_binding 100)"
    and b: "validate_release_identity (ds_release (rn_desired snap)) = Inr run_identity"
      "rn_currentBinding snap = Some later_binding" "bd_release_key later_binding = ri_releaseKey run_identity"
  have w: "rw_loc run_world = run_loc" "rw_digest run_world = (\<lambda>_. ''0'')" "rt_library_item_id mount_tx = sample_item_id"
    by (simp_all add: run_world_def mount_tx_def repair_tx_def)
  from cs assms(3) have "detect_triggers run_loc (pj_facts pj) snap later_binding 100 \<noteq> []" by auto
  from plan_brokenI [OF b(1) pj b(2,3) this, of "rw_digest run_world"] obtain p where
    p: "plan_rd_zurg_repair run_loc (rw_digest run_world) snap lifecycle (scope_of_repair repair_scope_run) 100 = Inr p"
      "py_status p = ''repair-required''" "py_triggers p = detect_triggers run_loc (pj_facts pj) snap later_binding 100"
      "py_planKey p = Some (''repair:'' @ ri_releaseKey run_identity @ '':'' @ ''0'')"
    by (auto simp: repair_fingerprint_def w(2))
  from ev(1) have "slice_state sample_item_id (JObj (identity_entries run_identity)) d = Inr snap"
    by (simp add: repair_state_def w)
  with ev(2) p(1) have "trusted_plan run_world sample_item_id (JObj (identity_entries run_identity))
      (Some (scope_of_repair repair_scope_run)) 100 d = Inr p"
    by (simp add: trusted_plan_def w(1))
  with p cs show thesis by (intro that) (simp_all add: run_identity_def)
qed

lemma lost_mount_rest_good:
  "(case evidence lost_mount_db of Inl _ \<Rightarrow> False | Inr (snap, lifecycle, pj) \<Rightarrow>
     provider_ready (pj_facts pj) \<and> inventory_ready snap later_binding 100 \<and> \<not> selection_lost snap later_binding
     \<and> bound_mapping_healthy snap later_binding \<and> zurg_healthy (pj_facts pj) \<and> fact_state (ft_binding (pj_facts pj)) = JStr ''active'')"
  by code_simp

theorem permitted_repair_actions_witness:
  "\<exists>p. trusted_plan run_world sample_item_id (JObj (identity_entries run_identity)) (Some (scope_of_repair repair_scope_run)) 100
       lost_mount_db = Inr p \<and> py_status p = ''repair-required'' \<and> set (py_permittedActions p) \<subseteq> {reobserve_exposure}"
proof -
  obtain p where p: "trusted_plan run_world sample_item_id (JObj (identity_entries run_identity))
      (Some (scope_of_repair repair_scope_run)) 100 lost_mount_db = Inr p" "py_status p = ''repair-required''"
    by (rule run_trusted [OF lost_mount_triggers newest_in_runs(1)]) auto
  from lost_mount_triggers newest_in_runs(1) show ?thesis
  proof (rule evidence_snapshot)
    fix snap lifecycle pj
    assume ev: "repair_state mount_tx run_identity lost_mount_db = Inr snap" "get_lifecycle sample_item_id lost_mount_db = Inr lifecycle"
      and pj: "project_rd_zurg_lifecycle run_loc snap lifecycle (scope_of_repair repair_scope_run) 100 = Inr pj"
      and b: "rn_currentBinding snap = Some later_binding"
    have w: "rw_loc run_world = run_loc" "rt_library_item_id mount_tx = sample_item_id"
      by (simp_all add: run_world_def mount_tx_def repair_tx_def)
    from p(1) ev have plan: "plan_rd_zurg_repair run_loc (rw_digest run_world) snap lifecycle (scope_of_repair repair_scope_run) 100 = Inr p"
      by (simp add: trusted_plan_def repair_state_def w)
    have good: "provider_ready (pj_facts pj)" "inventory_ready snap later_binding 100" "\<not> selection_lost snap later_binding"
      "bound_mapping_healthy snap later_binding" "zurg_healthy (pj_facts pj)" "fact_state (ft_binding (pj_facts pj)) = JStr ''active''"
      using lost_mount_rest_good by (simp_all add: evidence_def ev pj)
    from permitted_repair_actions [OF plan p(2) pj b refl refl refl refl]
    have "set (py_permittedActions p) \<subseteq> {reobserve_exposure}"
      using good by (auto simp: provider_ready_newest [OF pj, symmetric] inventory_ready_def selection_lost_file action_order_def)
    with p show ?thesis by blast
  qed
qed

text \<open>
  C16: The plan of the current evidence has an action sequence that lists exactly its permitted actions,
  and it is stored as a new planned transaction. But of a plan only its key is compared with the
  evidence: a plan with that key and any other lists of actions, that the evidence does not permit, is
  stored just so, with these actions to be authorized.
\<close>

theorem persisted_actions_unchecked:
  assumes "store_inv d" "scope_normal s"
    and plan: "trusted_plan w item release (Some (scope_of_repair s)) now d = Inr p" "py_status p = ''repair-required''"
    and "require_string (py_planKey p) ''planKey'' 1000 = Inr (the (py_planKey p))"
    and "\<forall>r \<in> set (db_repairs d). rt_id r \<noteq> ''rp_'' @ rw_uuid w \<and> Some (rt_plan_key r) \<noteq> py_planKey p"
  shows "same_string_set (py_permittedActions p) (py_actionSequence p) \<and>
    (\<forall>as bs. same_string_set as bs \<longrightarrow> (\<exists>r steps.
      persist_plan w item ((stored_plan p)\<lparr>pn_permittedActions := as, pn_actionSequence := bs\<rparr>) d
        = (d\<lparr>db_repairs := db_repairs d @ [r]\<rparr>, Inr (r, steps))
      \<and> rt_status r = RpPlanned \<and> pn_permittedActions (rt_plan r) = as \<and> pn_actionSequence (rt_plan r) = bs))"
proof -
  from plan(1) obtain snap lifecycle where
    "plan_rd_zurg_repair (rw_loc w) (rw_digest w) snap lifecycle (scope_of_repair s) now = Inr p"
    unfolding trusted_plan_def by (auto simp: res_bind_Inr)
  moreover have "\<exists>r steps. persist_plan w item ((stored_plan p)\<lparr>pn_permittedActions := as, pn_actionSequence := bs\<rparr>) d
        = (d\<lparr>db_repairs := db_repairs d @ [r]\<rparr>, Inr (r, steps))
      \<and> rt_status r = RpPlanned \<and> pn_permittedActions (rt_plan r) = as \<and> pn_actionSequence (rt_plan r) = bs"
    if "same_string_set as bs" for as bs
  proof -
    let ?plan = "(stored_plan p)\<lparr>pn_permittedActions := as, pn_actionSequence := bs\<rparr>"
    let ?r = "planned_row (rw_uuid w) (rw_now w) item s p ?plan"
    have "rt_status ?r = RpPlanned" "pn_permittedActions (rt_plan ?r) = as" "pn_actionSequence (rt_plan ?r) = bs"
      by (simp_all add: planned_row_def)
    with persist_plan_accepts [OF assms that refl] show ?thesis by blast
  qed
  ultimately show ?thesis using planned_actions_match plan(2) by blast
qed

definition unplanned_db :: db where
  "unplanned_db = repair_db None 50 [] []"

lemma unplanned_inv: "store_inv unplanned_db"
  by code_simp

lemma unplanned_triggers:
  "found_triggers unplanned_db = Inr ([''missing-filesystem-exposure''], True)"
  "newest_binding sample_item_id unplanned_db = Some later_binding"
  by code_simp+

theorem persisted_actions_unchecked_witness:
  "\<exists>p r steps. trusted_plan run_world sample_item_id (JObj (identity_entries run_identity)) (Some (scope_of_repair repair_scope_run)) 100
       unplanned_db = Inr p \<and> map tr_category (py_triggers p) = [''missing-filesystem-exposure'']
     \<and> persist_plan run_world sample_item_id ((stored_plan p)\<lparr>pn_permittedActions := [request_repair, reobserve_provider],
          pn_actionSequence := [request_repair, reobserve_provider]\<rparr>) unplanned_db
        = (unplanned_db\<lparr>db_repairs := [r]\<rparr>, Inr (r, steps))
     \<and> pn_permittedActions (rt_plan r) = [request_repair, reobserve_provider]"
proof -
  obtain p where p: "trusted_plan run_world sample_item_id (JObj (identity_entries run_identity))
      (Some (scope_of_repair repair_scope_run)) 100 unplanned_db = Inr p" "py_status p = ''repair-required''"
      "map tr_category (py_triggers p) = [''missing-filesystem-exposure'']"
      "py_planKey p = Some (''repair:'' @ (sample_hash @ '':torrent'') @ '':0'')"
    by (rule run_trusted [OF unplanned_triggers]) auto
  have normal: "scope_normal repair_scope_run" by code_simp
  have "require_string (Some (''repair:'' @ (sample_hash @ '':torrent'') @ '':0'')) ''planKey'' 1000
      = Inr (''repair:'' @ (sample_hash @ '':torrent'') @ '':0'')" by code_simp
  then have key: "require_string (py_planKey p) ''planKey'' 1000 = Inr (the (py_planKey p))" by (simp only: p(4) option.sel)
  have none: "db_repairs unplanned_db = []" by (simp add: unplanned_db_def repair_db_def)
  have acts: "same_string_set [request_repair, reobserve_provider] [request_repair, reobserve_provider]" by code_simp
  from persisted_actions_unchecked [OF unplanned_inv normal p(1,2) key] acts p(1,3) show ?thesis
    unfolding none by (simp del: Product_Type.split_paired_Ex) blast
qed

text \<open>
  C15: When the provider file of the newest binding is no longer listed, the planner asks for a repair
  whose sequence has a new observation of the provider and a reconciliation of the binding; but any
  execution of a transaction of the item throws before it starts an action, with any context and any
  adapters: the plan made for a vanished file can never be carried out.
\<close>

theorem vanished_file_repair_blocked:
  assumes "store_inv d" and b: "newest_binding item d = Some b" "\<not> file_listed d b"
    and plan: "trusted_plan w item release scope now d = Inr p"
    and release: "validate_release_identity release = Inr identity" "bd_release_key b = ri_releaseKey identity"
    and tx: "load_repair (Some i) d = Inr (r, steps)" "rt_library_item_id r = item"
  shows "py_status p = ''repair-required'' \<and> {reobserve_provider, reconcile_binding} \<subseteq> set (py_actionSequence p)
    \<and> (\<exists>d' e. execute_repair w' (Some i) cx d = (d', Inl e) \<and> db_steps d' = db_steps d)"
proof -
  have "newest_binding item (d\<lparr>db_repairs := rs\<rparr>) = Some b \<and> \<not> file_listed (d\<lparr>db_repairs := rs\<rparr>) b" for rs
    using b by (simp add: newest_binding_def bindings_of_def file_listed_def)
  then have "\<exists>e. bound_target r' id' (d\<lparr>db_repairs := rs\<rparr>) = Inl e" if "rt_library_item_id r' = rt_library_item_id r" for r' rs id'
    using unlisted_target [of r' "d\<lparr>db_repairs := rs\<rparr>" b id'] that tx(2) by simp
  from execute_without_target [OF assms(1) tx(1) this, of w' cx] unlisted_plan [OF b plan release]
  show ?thesis by (auto simp: same_steps_def)
qed

definition vanished_db :: db where
  "vanished_db = (repair_db None 1000 [repair_tx [reobserve_provider, reconcile_binding]] [])
     \<lparr>db_provider_files := [run_file\<lparr>pf_present := False, pf_missing_since := Some 70\<rparr>]\<rparr>"

lemma vanished_facts:
  "store_inv vanished_db" "\<not> file_listed vanished_db later_binding"
  "newest_binding sample_item_id vanished_db = Some later_binding"
  "found_triggers vanished_db = Inr ([''provider-inventory-degraded''], True)"
  by code_simp+

lemma vanished_load: "load_repair (Some ''rp_u'') vanished_db = Inr (repair_tx [reobserve_provider, reconcile_binding], [])"
  by code_simp

theorem vanished_file_repair_blocked_witness:
  "\<exists>p d' e. trusted_plan run_world sample_item_id (JObj (identity_entries run_identity)) (Some (scope_of_repair repair_scope_run)) 100
       vanished_db = Inr p \<and> py_status p = ''repair-required''
     \<and> execute_repair run_world (Some ''rp_u'') run_context vanished_db = (d', Inl e) \<and> db_steps d' = []"
proof -
  obtain p where p: "trusted_plan run_world sample_item_id (JObj (identity_entries run_identity))
      (Some (scope_of_repair repair_scope_run)) 100 vanished_db = Inr p"
    by (rule run_trusted [OF vanished_facts(4,3)]) auto
  have trip: "validate_release_identity (JObj (identity_entries run_identity)) = Inr run_identity" by code_simp
  have f: "bd_release_key later_binding = ri_releaseKey run_identity" "db_steps vanished_db = []"
    "rt_library_item_id (repair_tx [reobserve_provider, reconcile_binding]) = sample_item_id"
    by (simp_all add: later_binding_def sample_binding_def run_identity_def vanished_db_def repair_db_def repair_tx_def)
  from vanished_file_repair_blocked [OF vanished_facts(1,3,2) p trip f(1) vanished_load f(3), of run_world run_context] p f(2)
  show ?thesis by auto
qed

end
