(* ===== verification/Future_Intents.thy ===== *)
theory Future_Intents
  imports Job_Retry Canonical_Path "HOL-Library.List_Lexorder" "HOL-Library.Char_ord" "HOL-Library.Product_Lexorder"
begin

text \<open>
  Future intents, \<open>anticipation/future-intents.js\<close> and \<open>anticipation/season-reconciliation.js\<close>: a table
  of media that are expected to be wanted, at most one row per media, season and episode, with the
  owners (requested seasons) that keep an episode alive, and the queries that drive the scheduler. The
  text column \<open>season_owners\<close> is the owners joined with commas.
\<close>

section \<open>Rows\<close>

datatype intent_state = InAnticipated | InPreparing | InPrepared | InPublishedPreparing | InPlayable | InFailed | InWithdrawn

definition intent_state_text :: "intent_state \<Rightarrow> string" where
  "intent_state_text s = (case s of InAnticipated \<Rightarrow> ''anticipated'' | InPreparing \<Rightarrow> ''preparing''
     | InPrepared \<Rightarrow> ''prepared'' | InPublishedPreparing \<Rightarrow> ''published_preparing'' | InPlayable \<Rightarrow> ''playable''
     | InFailed \<Rightarrow> ''failed'' | InWithdrawn \<Rightarrow> ''withdrawn'')"

definition intent_states :: "intent_state list" where
  "intent_states = [InAnticipated, InPreparing, InPrepared, InPublishedPreparing, InPlayable, InFailed, InWithdrawn]"

definition parse_intent_state :: "string \<Rightarrow> intent_state option" where
  "parse_intent_state v = find (\<lambda>s. intent_state_text s = v) intent_states"

record intent =
  in_id :: nat
  in_media_type :: string
  in_media_id :: string
  in_season :: "int option"
  in_episode :: "int option"
  in_source :: string
  in_expected_at :: "int option"
  in_next_check_at :: int
  in_state :: intent_state
  in_torrent_file_id :: "string option"
  in_attempts :: nat
  in_last_error :: "string option"
  in_created_at :: int
  in_updated_at :: int
  in_arr_satisfied :: bool
  in_defer_reason :: "string option"
  in_season_owners :: string

record requested_season =
  rq_id :: nat
  rq_media_id :: string
  rq_tmdb_id :: int
  rq_season :: int
  rq_owner :: string
  rq_source :: string
  rq_active :: bool
  rq_next_check_at :: int
  rq_updated_at :: int

record intents =
  it_rows :: "intent list"
  it_seasons :: "requested_season list"

text \<open>The key of \<open>idx_future_intents_identity\<close>.\<close>

definition media_key :: "string \<Rightarrow> int option \<Rightarrow> int option \<Rightarrow> string \<times> int \<times> int" where
  "media_key mediaId season episode = (mediaId, nullish season (-1), nullish episode (-1))"

definition intent_key :: "intent \<Rightarrow> string \<times> int \<times> int" where
  "intent_key r = media_key (in_media_id r) (in_season r) (in_episode r)"

definition future_not_released :: string where
  "future_not_released = ''future-not-released''"

definition released_no_candidate :: string where
  "released_no_candidate = ''released-no-candidate''"

section \<open>Owners\<close>

definition owners_of :: "string \<Rightarrow> string list" where
  "owners_of text = remdups (filter (\<lambda>s. s \<noteq> []) (split_on CHR '','' text))"

definition owners_text :: "string list \<Rightarrow> string" where
  "owners_text owners = join_with CHR '','' (sort owners)"

definition season_owner :: "string \<Rightarrow> int \<Rightarrow> string" where
  "season_owner mediaId season = ''season:'' @ mediaId @ '':s''
     @ replicate (2 - length (show_int season)) CHR ''0'' @ show_int season"

section \<open>Seeding and look-up\<close>

record seed_input =
  sd_mediaType :: string
  sd_mediaId :: string
  sd_season :: "int option"
  sd_episode :: "int option"
  sd_source :: string
  sd_expectedAt :: "int option"
  sd_checkInMs :: int
  sd_deferReason :: "string option"

definition new_intent :: "int \<Rightarrow> seed_input \<Rightarrow> intent list \<Rightarrow> intent" where
  "new_intent now x rows = \<lparr>in_id = max_of (\<lambda>_. True) in_id rows + 1, in_media_type = sd_mediaType x,
     in_media_id = sd_mediaId x, in_season = sd_season x, in_episode = sd_episode x, in_source = sd_source x,
     in_expected_at = sd_expectedAt x, in_next_check_at = now + sd_checkInMs x, in_state = InAnticipated,
     in_torrent_file_id = None, in_attempts = 0, in_last_error = None, in_created_at = now, in_updated_at = now,
     in_arr_satisfied = False, in_defer_reason = sd_deferReason x, in_season_owners = []\<rparr>"

definition find_intent :: "string \<Rightarrow> int option \<Rightarrow> int option \<Rightarrow> intents \<Rightarrow> intent option" where
  "find_intent mediaId season episode s =
     (if mediaId = [] then None else find (\<lambda>r. intent_key r = media_key mediaId season episode) (it_rows s))"

definition upd_intents :: "(intent \<Rightarrow> bool) \<Rightarrow> (intent \<Rightarrow> intent) \<Rightarrow> intents \<Rightarrow> intents" where
  "upd_intents P f s = s\<lparr>it_rows := upd_where P f (it_rows s)\<rparr>"

text \<open>A duplicate seed fills the missing columns of the row. The returned row has the given values, and not
  the new \<open>updated_at\<close>.\<close>

definition converge_intent :: "int \<Rightarrow> seed_input \<Rightarrow> intent \<Rightarrow> intents \<Rightarrow> intents \<times> intent" where
  "converge_intent now x row s =
     (let fill_e = (in_expected_at row = None \<and> sd_expectedAt x \<noteq> None);
          fill_d = (in_defer_reason row = None \<and> sd_deferReason x \<noteq> None)
      in if fill_e \<or> fill_d
         then (upd_intents (\<lambda>r. in_id r = in_id row)
                (\<lambda>r. r\<lparr>in_expected_at := if fill_e then sd_expectedAt x else in_expected_at r,
                       in_defer_reason := if fill_d then sd_deferReason x else in_defer_reason r, in_updated_at := now\<rparr>) s,
               row\<lparr>in_expected_at := coalesce (sd_expectedAt x) (in_expected_at row),
                   in_defer_reason := coalesce (sd_deferReason x) (in_defer_reason row)\<rparr>)
         else (s, row))"

definition seed_intent :: "int \<Rightarrow> seed_input \<Rightarrow> intents \<Rightarrow> (intents \<times> intent \<times> bool) res" where
  "seed_intent now x s =
     (if sd_mediaId x = [] \<or> sd_mediaType x = [] then Inl (JsError ''mediaId and mediaType required'')
      else case find (\<lambda>r. intent_key r = media_key (sd_mediaId x) (sd_season x) (sd_episode x)) (it_rows s) of
        None \<Rightarrow> let row = new_intent now x (it_rows s) in Inr (s\<lparr>it_rows := it_rows s @ [row]\<rparr>, row, True)
      | Some row \<Rightarrow> let (s', r) = converge_intent now x row s in Inr (s', r, False))"

definition has_pending_for_media :: "string \<Rightarrow> intents \<Rightarrow> bool" where
  "has_pending_for_media mediaId s \<longleftrightarrow> mediaId \<noteq> []
     \<and> list_ex (\<lambda>r. in_media_id r = mediaId \<and> in_state r \<in> {InAnticipated, InFailed}) (it_rows s)"

section \<open>Transitions\<close>

text \<open>An \<open>UPDATE\<close> of the row \<open>i\<close>, and whether it changed exactly one row.\<close>

definition move_intent :: "nat \<Rightarrow> (intent \<Rightarrow> bool) \<Rightarrow> (intent \<Rightarrow> intent) \<Rightarrow> intents \<Rightarrow> intents \<times> bool" where
  "move_intent i P f s = (upd_intents (\<lambda>r. in_id r = i \<and> P r) f s,
     length (filter (\<lambda>r. in_id r = i \<and> P r) (it_rows s)) = 1)"

definition revive_intent :: "int \<Rightarrow> nat \<Rightarrow> int option \<Rightarrow> string option \<Rightarrow> intents \<Rightarrow> intents \<times> bool" where
  "revive_intent now i expectedAt deferReason = move_intent i (\<lambda>r. in_state r \<in> {InWithdrawn, InFailed})
     (\<lambda>r. r\<lparr>in_state := InAnticipated, in_attempts := 0, in_last_error := None, in_next_check_at := now,
        in_expected_at := coalesce expectedAt (in_expected_at r),
        in_defer_reason := coalesce deferReason (in_defer_reason r), in_updated_at := now\<rparr>)"

definition claim_intent :: "int \<Rightarrow> nat \<Rightarrow> intents \<Rightarrow> intents \<times> bool" where
  "claim_intent now i = move_intent i (\<lambda>r. in_state r = InAnticipated)
     (\<lambda>r. r\<lparr>in_state := InPreparing, in_attempts := in_attempts r + 1, in_updated_at := now\<rparr>)"

definition retry_intent :: "int \<Rightarrow> nat \<Rightarrow> int \<Rightarrow> string option \<Rightarrow> intents \<Rightarrow> intents \<times> bool" where
  "retry_intent now i nextCheckAt deferReason = move_intent i (\<lambda>r. in_state r = InFailed)
     (\<lambda>r. r\<lparr>in_state := InAnticipated, in_attempts := in_attempts r + 1, in_last_error := None,
        in_next_check_at := nextCheckAt, in_defer_reason := coalesce deferReason (in_defer_reason r), in_updated_at := now\<rparr>)"

text \<open>The patch of \<open>transition\<close>: a column that it names is \<open>Some\<close>.\<close>

record intent_patch =
  ph_torrent_file_id :: "string option option"
  ph_next_check_at :: "int option"
  ph_last_error :: "string option option"
  ph_defer_reason :: "string option option"

definition transition_intent :: "int \<Rightarrow> nat \<Rightarrow> string \<Rightarrow> intent_patch \<Rightarrow> intents \<Rightarrow> intents res" where
  "transition_intent now i state patch s = (case parse_intent_state state of
      None \<Rightarrow> Inl (JsError ''bad intent state'')
    | Some st \<Rightarrow>
        let defer = (if st = InPlayable \<and> ph_defer_reason patch = None then Some None else ph_defer_reason patch)
        in Inr (upd_intents (\<lambda>r. in_id r = i) (\<lambda>r. r\<lparr>in_state := st,
             in_torrent_file_id := nullish (ph_torrent_file_id patch) (in_torrent_file_id r),
             in_next_check_at := nullish (ph_next_check_at patch) (in_next_check_at r),
             in_last_error := nullish (ph_last_error patch) (in_last_error r),
             in_defer_reason := nullish defer (in_defer_reason r), in_updated_at := now\<rparr>) s))"

definition ensure_released_follow_up :: "int \<Rightarrow> seed_input \<Rightarrow> intents \<Rightarrow> (intents \<times> intent option) res" where
  "ensure_released_follow_up now x s = (case find_intent (sd_mediaId x) (sd_season x) (sd_episode x) s of
      Some r \<Rightarrow>
        let s' = (if in_state r \<in> {InWithdrawn, InFailed}
             then fst (revive_intent now (in_id r) (sd_expectedAt x) (sd_deferReason x) s) else s)
        in Inr (s', find_intent (sd_mediaId x) (sd_season x) (sd_episode x) s')
    | None \<Rightarrow>
        let mt = (if sd_season x \<noteq> None \<or> sd_episode x \<noteq> None then ''series'' else ''movie'')
        in res_bind (seed_intent now (x\<lparr>sd_mediaType := mt\<rparr>) s) (\<lambda>(s', r, _). Inr (s', Some r)))"

section \<open>What the scheduler reads\<close>

definition list_intents :: "intent_state option \<Rightarrow> nat \<Rightarrow> intents \<Rightarrow> intent list" where
  "list_intents state limit s = take limit (sort_key in_next_check_at
     (filter (\<lambda>r. case state of None \<Rightarrow> True | Some st \<Rightarrow> in_state r = st) (it_rows s)))"

definition released :: "int \<Rightarrow> intent \<Rightarrow> bool" where
  "released now r \<longleftrightarrow> in_defer_reason r = Some future_not_released
     \<and> (case in_expected_at r of None \<Rightarrow> False | Some t \<Rightarrow> t \<le> now)"

definition live_states :: "intent_state set" where
  "live_states = {InAnticipated, InFailed, InPrepared, InPublishedPreparing, InPreparing}"

definition reopen_playable :: "int \<Rightarrow> intents \<Rightarrow> intents" where
  "reopen_playable now = upd_intents (\<lambda>r. in_state r = InPlayable \<and> in_defer_reason r = Some future_not_released)
     (\<lambda>r. r\<lparr>in_state := InPrepared, in_next_check_at := now,
        in_last_error := Some ''consumer-publication-reconciliation'', in_updated_at := now\<rparr>)"

definition is_due :: "int \<Rightarrow> intent \<Rightarrow> bool" where
  "is_due now r \<longleftrightarrow> in_state r \<in> live_states \<and> (in_next_check_at r \<le> now \<or> released now r)"

definition due_rank :: "int \<Rightarrow> intent \<Rightarrow> int \<times> int" where
  "due_rank now r = (if released now r then (0, nullish (in_expected_at r) 0) else (1, in_next_check_at r))"

definition due_intents :: "int \<Rightarrow> nat \<Rightarrow> intents \<Rightarrow> intents \<times> intent list" where
  "due_intents now limit s = (let s' = reopen_playable now s
     in (s', take limit (sort_key (due_rank now) (filter (is_due now) (it_rows s')))))"

definition least :: "int list \<Rightarrow> int option" where
  "least xs = (if xs = [] then None else Some (Min (set xs)))"

definition next_check :: "intents \<Rightarrow> int option" where
  "next_check s = least (map in_next_check_at (filter (\<lambda>r. in_state r
     \<in> {InAnticipated, InFailed, InPrepared, InPublishedPreparing}) (it_rows s)))"

definition next_wake_at :: "intents \<Rightarrow> int option" where
  "next_wake_at s = (case least (List.map_filter in_expected_at
        (filter (\<lambda>r. in_defer_reason r = Some future_not_released) (it_rows s))) of
      None \<Rightarrow> next_check s
    | Some t \<Rightarrow> (case next_check s of None \<Rightarrow> Some t | Some w \<Rightarrow> Some (if t < w then t else w)))"

section \<open>Requested seasons\<close>

definition new_season :: "int \<Rightarrow> string \<Rightarrow> int \<Rightarrow> int \<Rightarrow> string \<Rightarrow> int option \<Rightarrow> requested_season list \<Rightarrow> requested_season" where
  "new_season now mediaId tmdbId season source nextCheckAt rows = \<lparr>rq_id = max_of (\<lambda>_. True) rq_id rows + 1,
     rq_media_id = mediaId, rq_tmdb_id = tmdbId, rq_season = season, rq_owner = season_owner mediaId season,
     rq_source = source, rq_active = True, rq_next_check_at = nullish nextCheckAt now, rq_updated_at = now\<rparr>"

definition ensure_requested_season ::
  "int \<Rightarrow> string \<Rightarrow> int \<Rightarrow> int \<Rightarrow> string \<Rightarrow> int option \<Rightarrow> intents \<Rightarrow> intents \<times> requested_season option" where
  "ensure_requested_season now mediaId tmdbId season source nextCheckAt s =
     (let at = (\<lambda>q. rq_media_id q = mediaId \<and> rq_season q = season);
          s' = s\<lparr>it_seasons := upsert at
            (\<lambda>q. q\<lparr>rq_tmdb_id := tmdbId, rq_active := True, rq_next_check_at := nullish nextCheckAt now, rq_updated_at := now\<rparr>)
            (new_season now mediaId tmdbId season source nextCheckAt (it_seasons s)) (it_seasons s)\<rparr>
      in (s', find at (it_seasons s')))"

definition list_due_requested_seasons :: "int \<Rightarrow> nat \<Rightarrow> intents \<Rightarrow> requested_season list" where
  "list_due_requested_seasons now limit s = take limit (sort_key rq_next_check_at
     (filter (\<lambda>q. rq_active q \<and> rq_next_check_at q \<le> now) (it_seasons s)))"

definition schedule_requested_season :: "int \<Rightarrow> nat \<Rightarrow> int \<Rightarrow> intents \<Rightarrow> intents" where
  "schedule_requested_season now i nextCheckAt s = s\<lparr>it_seasons := upd_where (\<lambda>q. rq_id q = i)
     (\<lambda>q. q\<lparr>rq_next_check_at := nextCheckAt, rq_updated_at := now\<rparr>) (it_seasons s)\<rparr>"

record season_episode =
  se_mediaId :: string
  se_season :: int
  se_episode :: int
  se_owner :: string
  se_source :: string
  se_expectedAt :: "int option"

definition own_episode :: "int \<Rightarrow> season_episode \<Rightarrow> intent \<Rightarrow> intent \<Rightarrow> intent" where
  "own_episode now x existing r =
     (let owners = owners_of (in_season_owners existing); isNew = se_owner x \<notin> set owners;
          expected = coalesce (se_expectedAt x) (in_expected_at existing);
          nextCheck = (case expected of
              Some t \<Rightarrow> if t > now then t else if isNew then min (in_next_check_at existing) now else in_next_check_at existing
            | None \<Rightarrow> if isNew then min (in_next_check_at existing) now else in_next_check_at existing)
      in r\<lparr>in_season_owners := owners_text (if isNew then owners @ [se_owner x] else owners),
           in_expected_at := expected, in_next_check_at := nextCheck,
           in_defer_reason := if in_state r \<in> {InPlayable, InWithdrawn} then in_defer_reason r
             else if nullish expected 0 > now then Some future_not_released else in_defer_reason r,
           in_updated_at := now\<rparr>)"

definition ensure_season_episode :: "int \<Rightarrow> season_episode \<Rightarrow> intents \<Rightarrow> intents res" where
  "ensure_season_episode now x s =
     (case find_intent (se_mediaId x) (Some (se_season x)) (Some (se_episode x)) s of
        None \<Rightarrow> res_bind (seed_intent now \<lparr>sd_mediaType = ''series'', sd_mediaId = se_mediaId x,
              sd_season = Some (se_season x), sd_episode = Some (se_episode x), sd_source = se_source x,
              sd_expectedAt = se_expectedAt x, sd_checkInMs = 0,
              sd_deferReason = Some (case se_expectedAt x of
                  Some t \<Rightarrow> if t > now then future_not_released else released_no_candidate
                | None \<Rightarrow> released_no_candidate)\<rparr> s)
            (\<lambda>(s', row, _). Inr (upd_intents (\<lambda>r. in_id r = in_id row) (\<lambda>r. r\<lparr>in_season_owners := se_owner x\<rparr>) s'))
      | Some existing \<Rightarrow> Inr (upd_intents (\<lambda>r. in_id r = in_id existing) (own_episode now x existing) s))"

text \<open>The owner leaves the episodes of the season that are not kept.\<close>

definition leaves_owner :: "string \<Rightarrow> int \<Rightarrow> string \<Rightarrow> int list \<Rightarrow> intent \<Rightarrow> bool" where
  "leaves_owner mediaId season owner keep r \<longleftrightarrow> in_media_id r = mediaId \<and> in_season r = Some season
     \<and> (case in_episode r of None \<Rightarrow> False | Some e \<Rightarrow> e \<notin> set keep) \<and> owner \<in> set (owners_of (in_season_owners r))"

definition leave_owner :: "int \<Rightarrow> string \<Rightarrow> intent \<Rightarrow> intent" where
  "leave_owner now owner r =
     (let rest = filter (\<lambda>o'. o' \<noteq> owner) (owners_of (in_season_owners r))
      in if rest \<noteq> [] then r\<lparr>in_season_owners := owners_text rest, in_updated_at := now\<rparr>
         else if in_state r \<in> {InAnticipated, InFailed}
         then r\<lparr>in_state := InWithdrawn, in_last_error := Some ''season-owner-withdrawn'', in_season_owners := [],
                in_updated_at := now\<rparr>
         else r)"

definition withdraw_season_episodes ::
  "int \<Rightarrow> string \<Rightarrow> int \<Rightarrow> string \<Rightarrow> int list \<Rightarrow> intents \<Rightarrow> intents \<times> nat" where
  "withdraw_season_episodes now mediaId season owner keep s =
     (upd_intents (leaves_owner mediaId season owner keep) (leave_owner now owner) s,
      length (filter (leaves_owner mediaId season owner keep) (it_rows s)))"

text \<open>
  \<open>reconcileSeason\<close>: the episodes that the resolver lists, their numbers and air times (\<open>None\<close> for a
  missing or unreadable date), become rows of the owner, the others lose it. The identity is checked first.
\<close>

definition known_episodes :: "(int \<times> int option) list \<Rightarrow> (int \<times> int option) list" where
  "known_episodes listed = filter (\<lambda>(n, _). is_safe_integer n \<and> 1 \<le> n) listed"

definition reconcile_season ::
  "int \<Rightarrow> string \<Rightarrow> int \<Rightarrow> int \<Rightarrow> string option \<Rightarrow> (int \<times> int option) list \<Rightarrow> intents \<Rightarrow> (intents \<times> nat) res" where
  "reconcile_season now mediaId tmdbId season source listed s =
     (if mediaId = [] \<or> \<not> is_safe_integer season \<or> season < 1 then Inl (JsError ''season identity is invalid'')
      else let owner = season_owner mediaId season; src = (case source of None \<Rightarrow> owner | Some t \<Rightarrow> if t = [] then owner else t);
               s1 = fst (ensure_requested_season now mediaId tmdbId season src None s)
        in res_bind (fold_res (\<lambda>(n, at) d. res_bind (ensure_season_episode now \<lparr>se_mediaId = mediaId, se_season = season,
               se_episode = n, se_owner = owner, se_source = src, se_expectedAt = at\<rparr> d) (\<lambda>d'. Inr (d', ())))
             (known_episodes listed) s1) (\<lambda>(s2, _).
           Inr (withdraw_season_episodes now mediaId season owner (map fst (known_episodes listed)) s2)))"

section \<open>Arr and Seerr sources\<close>

text \<open>\<open>LIKE 'prefix%'\<close>, which ignores the case of letters.\<close>

definition like_prefix :: "string \<Rightarrow> string \<Rightarrow> bool" where
  "like_prefix p v \<longleftrightarrow> js_lower (take (length p) v) = js_lower p"

definition arr_source :: "intent \<Rightarrow> bool" where
  "arr_source r \<longleftrightarrow> like_prefix ''radarr:'' (in_source r) \<or> like_prefix ''sonarr:'' (in_source r)"

definition list_arr_sources :: "intents \<Rightarrow> intent list" where
  "list_arr_sources s = filter arr_source (it_rows s)"

definition refresh_arr :: "int \<Rightarrow> nat \<Rightarrow> int option \<Rightarrow> bool \<Rightarrow> int option \<Rightarrow> intents \<Rightarrow> intents" where
  "refresh_arr now i expectedAt satisfied nextCheckAt = upd_intents (\<lambda>r. in_id r = i)
     (\<lambda>r. r\<lparr>in_expected_at := coalesce expectedAt (in_expected_at r), in_arr_satisfied := satisfied,
        in_next_check_at := nullish nextCheckAt (in_next_check_at r), in_updated_at := now\<rparr>)"

definition of_seerr_request :: "string \<Rightarrow> intent \<Rightarrow> bool" where
  "of_seerr_request requestId r \<longleftrightarrow> in_source r = ''seerr:'' @ requestId
     \<or> like_prefix (''seerr:'' @ requestId @ '':'') (in_source r)"

definition waiting_states :: "intent_state set" where
  "waiting_states = {InAnticipated, InFailed}"

definition change_intents :: "(intent \<Rightarrow> bool) \<Rightarrow> (intent \<Rightarrow> intent) \<Rightarrow> intents \<Rightarrow> intents \<times> nat" where
  "change_intents P f s = (upd_intents P f s, length (filter P (it_rows s)))"

definition wake_seerr_request :: "int \<Rightarrow> string \<Rightarrow> intents \<Rightarrow> intents \<times> nat" where
  "wake_seerr_request t requestId s = (if requestId = [] then (s, 0)
     else change_intents (\<lambda>r. of_seerr_request requestId r \<and> in_state r \<in> waiting_states)
       (\<lambda>r. r\<lparr>in_next_check_at := t, in_updated_at := t\<rparr>) s)"

definition wake_media :: "int \<Rightarrow> string list \<Rightarrow> intents \<Rightarrow> intents \<times> nat" where
  "wake_media t mediaIds s = change_intents (\<lambda>r. in_media_id r \<in> set (filter (\<lambda>m. m \<noteq> []) mediaIds)
       \<and> in_state r \<in> waiting_states) (\<lambda>r. r\<lparr>in_next_check_at := t, in_updated_at := t\<rparr>) s"

definition withdraw_seerr_request :: "int \<Rightarrow> string \<Rightarrow> string option \<Rightarrow> intents \<Rightarrow> intents \<times> nat" where
  "withdraw_seerr_request now requestId reason s = (if requestId = [] then (s, 0)
     else change_intents (\<lambda>r. of_seerr_request requestId r \<and> in_state r \<in> waiting_states)
       (\<lambda>r. r\<lparr>in_state := InWithdrawn, in_last_error := reason, in_updated_at := now\<rparr>) s)"

definition withdraw_unmonitored :: "int \<Rightarrow> string \<Rightarrow> intents \<Rightarrow> intents \<times> nat" where
  "withdraw_unmonitored now source = change_intents (\<lambda>r. in_source r = source \<and> in_state r = InAnticipated)
     (\<lambda>r. r\<lparr>in_state := InWithdrawn, in_last_error := Some ''arr-unmonitored'', in_updated_at := now\<rparr>)"

definition is_wanted_by_arr :: "string \<Rightarrow> int option \<Rightarrow> int option \<Rightarrow> intents \<Rightarrow> bool" where
  "is_wanted_by_arr mediaId season episode s \<longleftrightarrow> mediaId \<noteq> [] \<and> list_ex (\<lambda>r. intent_key r = media_key mediaId season episode
     \<and> arr_source r \<and> in_state r \<in> {InAnticipated, InPreparing, InPrepared, InPublishedPreparing, InPlayable}) (it_rows s)"

section \<open>Explaining a row\<close>

record intent_explanation =
  xp_cause :: string
  xp_nextAction :: string
  xp_nextAt :: "int option"
  xp_attempts :: nat
  xp_retryClass :: string

definition market_miss :: "intent \<Rightarrow> bool" where
  "market_miss r \<longleftrightarrow> in_defer_reason r \<in> Some ` {released_no_candidate, ''released-unfulfilled'', ''candidate-not-fulfillable''}"

definition explain_intent :: "intent option \<Rightarrow> int \<Rightarrow> nat \<Rightarrow> intent_explanation" where
  "explain_intent intent now maxAttempts = (case intent of
      None \<Rightarrow> \<lparr>xp_cause = ''no-obligation'', xp_nextAction = ''request-or-seed'', xp_nextAt = None, xp_attempts = 0,
        xp_retryClass = ''none''\<rparr>
    | Some r \<Rightarrow>
      let made = (\<lambda>cause action at. \<lparr>xp_cause = cause, xp_nextAction = action, xp_nextAt = at, xp_attempts = in_attempts r,
            xp_retryClass = if in_attempts r \<ge> maxAttempts then ''cold-park'' else ''hot-budget''\<rparr>);
          poll = Some (in_next_check_at r)
      in if in_state r = InPlayable then made ''playable'' ''none'' None
         else if in_state r = InWithdrawn then made ''withdrawn'' ''re-request-to-revive'' None
         else if in_defer_reason r = Some future_not_released
           \<and> (case in_expected_at r of None \<Rightarrow> False | Some t \<Rightarrow> t > now) then made ''future'' ''wait-for-release'' (in_expected_at r)
         else if in_state r = InPrepared
         then (if starts_with (nullish (in_last_error r) []) ''waiting-for-acceptable-quality''
           then made ''prepared-waiting-quality'' ''scheduler-retry'' poll
           else made ''prepared-publication-pending'' ''scheduler-publish'' poll)
         else if in_state r = InPublishedPreparing then made ''publication-unconfirmed'' ''consumer-confirm-retry'' poll
         else if in_state r = InFailed \<and> in_attempts r \<ge> maxAttempts \<and> \<not> market_miss r
         then made ''exhausted-terminal'' ''operator-or-rerequest'' None
         else if in_state r = InFailed
         then made (if market_miss r then ''no-cached-route-cold-park'' else ''failed-retry-pending'') ''scheduler-retry'' poll
         else if in_defer_reason r = Some released_no_candidate then made ''no-cached-route'' ''scheduler-retry'' poll
         else if in_defer_reason r = Some ''candidate-not-fulfillable''
         then made ''candidate-not-fulfillable'' ''scheduler-retry'' poll
         else made (''state-'' @ intent_state_text (in_state r)) ''scheduler-retry'' poll)"

end
