(* ===== verification/Intent_Properties.thy ===== *)
theory Intent_Properties
  imports Future_Intents
begin

text \<open>
  Properties of future intents: the keys of the table, who owns an episode after the reconciliation of
  a season, and what a withdrawn row does to the scheduler.
\<close>

section \<open>Owners as text\<close>

lemma split_on_free: "p \<in> set (split_on c s) \<Longrightarrow> c \<notin> set p"
  by (induction s arbitrary: p) (auto split: if_splits list.splits)

lemma split_on_single: "c \<notin> set s \<Longrightarrow> split_on c s = [s]"
  by (induction s) auto

lemma owners_of_clean: "o' \<in> set (owners_of text) \<Longrightarrow> o' \<noteq> [] \<and> CHR '','' \<notin> set o'"
  by (auto simp: owners_of_def dest: split_on_free)

lemma owners_of_Nil [simp]: "owners_of [] = []"
  by (simp add: owners_of_def)

text \<open>The text keeps the set of clean owners.\<close>

lemma owners_round_trip:
  assumes "\<forall>o' \<in> set os. o' \<noteq> [] \<and> CHR '','' \<notin> set o'"
  shows "set (owners_of (owners_text os)) = set os"
proof (cases "os = []")
  case True
  then show ?thesis by (simp add: owners_text_def)
next
  case False
  then have "sort os \<noteq> []" by (metis length_0_conv length_sort)
  then have "split_on CHR '','' (owners_text os) = sort os"
    unfolding owners_text_def using assms by (intro split_on_join) auto
  then show ?thesis using assms by (auto simp: owners_of_def)
qed

definition clean_owner :: "string \<Rightarrow> bool" where
  "clean_owner o' \<longleftrightarrow> o' \<noteq> [] \<and> CHR '','' \<notin> set o'"

lemma clean_single: "clean_owner o' \<Longrightarrow> owners_of o' = [o']"
  by (simp add: owners_of_def clean_owner_def split_on_single)

lemma show_int_no_comma: "CHR '','' \<notin> set (show_int n)"
proof
  assume "CHR '','' \<in> set (show_int n)"
  then have "CHR '','' \<in> set (show_nat (nat \<bar>n\<bar>))" by (auto simp: show_int_def split: if_splits)
  then have "is_digit (CHR '','')" by (rule show_nat_digits)
  then show False by (simp add: is_digit_def code_of_def)
qed

lemma season_owner_clean: "CHR '','' \<notin> set mediaId \<Longrightarrow> clean_owner (season_owner mediaId season)"
  using show_int_no_comma [of season] by (auto simp: clean_owner_def season_owner_def)

section \<open>Keys\<close>

definition intents_inv :: "intents \<Rightarrow> bool" where
  "intents_inv s \<longleftrightarrow> unique_by in_id (it_rows s) \<and> unique_by intent_key (it_rows s)"

lemma upd_intents_inv:
  "intents_inv s \<Longrightarrow> (\<And>r. in_id (f r) = in_id r \<and> intent_key (f r) = intent_key r) \<Longrightarrow> intents_inv (upd_intents P f s)"
  by (simp add: intents_inv_def upd_intents_def unique_by_upd_where)

lemma fresh_id: "r \<in> set rows \<Longrightarrow> in_id r \<noteq> in_id (new_intent now x rows)"
proof
  assume "r \<in> set rows" "in_id r = in_id (new_intent now x rows)"
  moreover from this(1) have "in_id r \<le> max_of (\<lambda>_. True) in_id rows" by (simp add: max_of_ge)
  ultimately show False by (simp add: new_intent_def)
qed

lemma new_intent_inv:
  assumes "intents_inv s" "\<forall>r \<in> set (it_rows s). intent_key r \<noteq> media_key (sd_mediaId x) (sd_season x) (sd_episode x)"
  shows "intents_inv (s\<lparr>it_rows := it_rows s @ [new_intent now x (it_rows s)]\<rparr>)"
proof -
  have "intent_key (new_intent now x (it_rows s)) = media_key (sd_mediaId x) (sd_season x) (sd_episode x)"
    by (simp add: new_intent_def intent_key_def)
  then have "intent_key (new_intent now x (it_rows s)) \<notin> intent_key ` set (it_rows s)" using assms(2) by (metis imageE)
  moreover have "in_id (new_intent now x (it_rows s)) \<notin> in_id ` set (it_rows s)" using fresh_id by (metis imageE)
  ultimately show ?thesis using assms(1) by (simp add: intents_inv_def unique_by_snoc)
qed

text \<open>What seeding does.\<close>

lemma seed_intent_cases:
  assumes "seed_intent now x s = Inr (s', row, created)"
  obtains (created) "\<forall>r \<in> set (it_rows s). intent_key r \<noteq> media_key (sd_mediaId x) (sd_season x) (sd_episode x)"
      "s' = s\<lparr>it_rows := it_rows s @ [row]\<rparr>" "row = new_intent now x (it_rows s)" "created"
  | (found) old where "old \<in> set (it_rows s)" "intent_key old = media_key (sd_mediaId x) (sd_season x) (sd_episode x)"
      "s' = fst (converge_intent now x old s)" "\<not> created"
proof (cases "find (\<lambda>r. intent_key r = media_key (sd_mediaId x) (sd_season x) (sd_episode x)) (it_rows s)")
  case None
  have "s' = s\<lparr>it_rows := it_rows s @ [row]\<rparr> \<and> row = new_intent now x (it_rows s) \<and> created"
    using assms by (auto simp: seed_intent_def None Let_def split: if_splits)
  moreover have "\<forall>r \<in> set (it_rows s). intent_key r \<noteq> media_key (sd_mediaId x) (sd_season x) (sd_episode x)"
    using None by (auto simp: find_None_iff)
  ultimately show thesis by (intro created) blast+
next
  case (Some old)
  have "s' = fst (converge_intent now x old s) \<and> \<not> created"
    using assms by (auto simp: seed_intent_def Some split: if_splits prod.splits)
  with find_SomeD [OF Some] show thesis by (intro found) simp_all
qed

lemma converge_inv: "intents_inv s \<Longrightarrow> intents_inv (fst (converge_intent now x row s))"
  by (simp add: converge_intent_def Let_def upd_intents_inv intent_key_def)

lemma seed_inv:
  assumes "seed_intent now x s = Inr (s', row, created)" "intents_inv s"
  shows "intents_inv s'"
  using assms(1) by (cases rule: seed_intent_cases) (use assms(2) in \<open>auto simp: new_intent_inv converge_inv\<close>)

section \<open>Owning an episode\<close>

definition same_row :: "intent \<Rightarrow> intent \<Rightarrow> bool" where
  "same_row r r' \<longleftrightarrow> in_id r' = in_id r \<and> in_media_id r' = in_media_id r \<and> in_season r' = in_season r
     \<and> in_episode r' = in_episode r \<and> in_state r' = in_state r"

definition of_season :: "string \<Rightarrow> int \<Rightarrow> intent \<Rightarrow> bool" where
  "of_season mediaId season r \<longleftrightarrow> in_media_id r = mediaId \<and> in_season r = Some season"

text \<open>The rows of the episodes \<open>E\<close> gain the owner at most; all other rows stay as they are.\<close>

definition episode_row :: "string \<Rightarrow> int \<Rightarrow> int set \<Rightarrow> intent \<Rightarrow> bool" where
  "episode_row mediaId season E r \<longleftrightarrow> of_season mediaId season r \<and> in_episode r \<in> Some ` E"

definition season_grows :: "string \<Rightarrow> string \<Rightarrow> int \<Rightarrow> int set \<Rightarrow> intents \<Rightarrow> intents \<Rightarrow> bool" where
  "season_grows owner mediaId season E s s' \<longleftrightarrow>
     (\<forall>r \<in> set (it_rows s). \<exists>r' \<in> set (it_rows s'). same_row r r'
        \<and> set (owners_of (in_season_owners r)) \<subseteq> set (owners_of (in_season_owners r'))
        \<and> set (owners_of (in_season_owners r')) \<subseteq> insert owner (set (owners_of (in_season_owners r))))
     \<and> (\<forall>r. \<not> episode_row mediaId season E r \<longrightarrow> (r \<in> set (it_rows s') \<longleftrightarrow> r \<in> set (it_rows s)))"

lemma season_growsI:
  assumes "\<And>r. r \<in> set (it_rows s) \<Longrightarrow> \<exists>r' \<in> set (it_rows s'). same_row r r'
        \<and> set (owners_of (in_season_owners r)) \<subseteq> set (owners_of (in_season_owners r'))
        \<and> set (owners_of (in_season_owners r')) \<subseteq> insert owner (set (owners_of (in_season_owners r)))"
    and "\<And>r. \<not> episode_row mediaId season E r \<Longrightarrow> r \<in> set (it_rows s') \<longleftrightarrow> r \<in> set (it_rows s)"
  shows "season_grows owner mediaId season E s s'"
  using assms by (simp add: season_grows_def)

lemma season_growsD:
  assumes "season_grows owner mediaId season E s s'"
  shows "\<not> episode_row mediaId season E r \<Longrightarrow> r \<in> set (it_rows s') \<longleftrightarrow> r \<in> set (it_rows s)"
    "r \<in> set (it_rows s) \<Longrightarrow> \<exists>r' \<in> set (it_rows s'). same_row r r'
        \<and> set (owners_of (in_season_owners r)) \<subseteq> set (owners_of (in_season_owners r'))
        \<and> set (owners_of (in_season_owners r')) \<subseteq> insert owner (set (owners_of (in_season_owners r)))"
  using assms by (simp_all add: season_grows_def)

lemma season_grows_refl: "season_grows owner mediaId season E s s"
  by (auto simp: season_grows_def same_row_def)

lemma season_grows_trans:
  assumes ab: "season_grows owner mediaId season E a b" and bc: "season_grows owner mediaId season F b c"
  shows "season_grows owner mediaId season (E \<union> F) a c"
proof (rule season_growsI)
  fix r
  assume "\<not> episode_row mediaId season (E \<union> F) r"
  then have "\<not> episode_row mediaId season E r" "\<not> episode_row mediaId season F r" by (auto simp: episode_row_def)
  with season_growsD(1) [OF ab] season_growsD(1) [OF bc] show "r \<in> set (it_rows c) \<longleftrightarrow> r \<in> set (it_rows a)" by simp
next
  fix r
  assume "r \<in> set (it_rows a)"
  from season_growsD(2) [OF ab this] obtain r' where r': "r' \<in> set (it_rows b)" "same_row r r'"
    "set (owners_of (in_season_owners r)) \<subseteq> set (owners_of (in_season_owners r'))"
    "set (owners_of (in_season_owners r')) \<subseteq> insert owner (set (owners_of (in_season_owners r)))" by blast
  from season_growsD(2) [OF bc r'(1)] obtain r'' where "r'' \<in> set (it_rows c)" "same_row r' r''"
    "set (owners_of (in_season_owners r')) \<subseteq> set (owners_of (in_season_owners r''))"
    "set (owners_of (in_season_owners r'')) \<subseteq> insert owner (set (owners_of (in_season_owners r')))" by blast
  with r' show "\<exists>r' \<in> set (it_rows c). same_row r r'
        \<and> set (owners_of (in_season_owners r)) \<subseteq> set (owners_of (in_season_owners r'))
        \<and> set (owners_of (in_season_owners r')) \<subseteq> insert owner (set (owners_of (in_season_owners r)))"
    by (intro bexI [of _ r'']) (auto simp: same_row_def)
qed

definition owned_episode :: "string \<Rightarrow> int \<Rightarrow> string \<Rightarrow> intents \<Rightarrow> int \<Rightarrow> bool" where
  "owned_episode mediaId season owner s e \<longleftrightarrow> (\<exists>r \<in> set (it_rows s). of_season mediaId season r \<and> in_episode r = Some e
     \<and> owner \<in> set (owners_of (in_season_owners r)))"

lemma owned_episode_grows:
  "season_grows owner mediaId season E s s' \<Longrightarrow> owned_episode mediaId season owner s e \<Longrightarrow> owned_episode mediaId season owner s' e"
  unfolding season_grows_def owned_episode_def by (fastforce simp: of_season_def same_row_def)

lemma key_of_episode:
  assumes "intent_key r = media_key m (Some s) (Some e)" "0 \<le> s" "0 \<le> e"
  shows "of_season m s r \<and> in_episode r = Some e"
  using assms by (cases "in_season r"; cases "in_episode r") (auto simp: intent_key_def media_key_def of_season_def nullish_def)

lemma own_episode_same: "same_row r (own_episode now x r' r)" "intent_key (own_episode now x r' r) = intent_key r"
  by (simp_all add: own_episode_def Let_def same_row_def intent_key_def)

lemma own_episode_owners:
  assumes "clean_owner (se_owner x)"
  shows "set (owners_of (in_season_owners (own_episode now x r r))) = insert (se_owner x) (set (owners_of (in_season_owners r)))"
proof -
  let ?os = "if se_owner x \<notin> set (owners_of (in_season_owners r)) then owners_of (in_season_owners r) @ [se_owner x]
    else owners_of (in_season_owners r)"
  have "set (owners_of (owners_text ?os)) = set ?os"
    by (rule owners_round_trip) (use assms owners_of_clean in \<open>auto simp: clean_owner_def\<close>)
  then show ?thesis by (auto simp: own_episode_def Let_def)
qed

lemma upd_single:
  assumes "unique_by in_id rows" "old \<in> set rows" "in_id old = i"
  shows "upd_where (\<lambda>r. in_id r = i) f rows = upd_where (\<lambda>r. in_id r = i) (\<lambda>_. f old) rows"
    "r \<in> set rows \<Longrightarrow> in_id r = i \<Longrightarrow> r = old"
  using assms unique_byD [of in_id rows] by (auto intro: upd_where_cong)

lemma ensure_season_episode_effect:
  assumes run: "ensure_season_episode now x s = Inr s'" and inv: "intents_inv s"
    and clean: "clean_owner (se_owner x)" and pos: "0 \<le> se_season x" "0 \<le> se_episode x" and media: "se_mediaId x \<noteq> []"
  shows "intents_inv s'" "season_grows (se_owner x) (se_mediaId x) (se_season x) {se_episode x} s s'"
    "owned_episode (se_mediaId x) (se_season x) (se_owner x) s' (se_episode x)"
proof -
  let ?key = "media_key (se_mediaId x) (Some (se_season x)) (Some (se_episode x))"
  have "intents_inv s' \<and> season_grows (se_owner x) (se_mediaId x) (se_season x) {se_episode x} s s'
    \<and> owned_episode (se_mediaId x) (se_season x) (se_owner x) s' (se_episode x)"
  proof (cases "find_intent (se_mediaId x) (Some (se_season x)) (Some (se_episode x)) s")
    case None
    then have none: "\<forall>r \<in> set (it_rows s). intent_key r \<noteq> ?key" using media by (auto simp: find_intent_def find_None_iff)
    from run None obtain s1 row created dr where
      seed: "seed_intent now \<lparr>sd_mediaType = ''series'', sd_mediaId = se_mediaId x,
              sd_season = Some (se_season x), sd_episode = Some (se_episode x), sd_source = se_source x,
              sd_expectedAt = se_expectedAt x, sd_checkInMs = 0, sd_deferReason = dr\<rparr> s = Inr (s1, row, created)"
      and s': "s' = upd_intents (\<lambda>r. in_id r = in_id row) (\<lambda>r. r\<lparr>in_season_owners := se_owner x\<rparr>) s1"
      by (auto simp: ensure_season_episode_def res_bind_Inr)
    have inv1: "intents_inv s1" by (rule seed_inv [OF seed inv])
    have inv': "intents_inv s'" unfolding s' by (rule upd_intents_inv [OF inv1]) (simp add: intent_key_def)
    from seed show ?thesis
    proof (cases rule: seed_intent_cases)
      case created
      let ?row = "row\<lparr>in_season_owners := se_owner x\<rparr>"
      have ids: "in_id r \<noteq> in_id row" if "r \<in> set (it_rows s)" for r using fresh_id [OF that] created(3) by simp
      have rows: "it_rows s' = it_rows s @ [?row]"
        unfolding s' upd_intents_def created(2) using ids by (simp add: table_simps upd_where_none)
      have row: "of_season (se_mediaId x) (se_season x) ?row" "in_episode ?row = Some (se_episode x)"
        by (simp_all add: created(3) new_intent_def of_season_def)
      show ?thesis
        using inv' row clean_single [OF clean]
        by (auto simp: season_grows_def owned_episode_def rows same_row_def episode_row_def)
    next
      case (found old)
      with none show ?thesis by simp
    qed
  next
    case (Some old)
    have old: "old \<in> set (it_rows s)" "intent_key old = ?key" using Some find_SomeD by (fastforce simp: find_intent_def split: if_splits)+
    from run Some have s': "s' = upd_intents (\<lambda>r. in_id r = in_id old) (own_episode now x old) s"
      by (simp add: ensure_season_episode_def)
    have inv': "intents_inv s'"
      unfolding s' by (rule upd_intents_inv [OF inv]) (simp add: own_episode_same(2) own_episode_same(1) [unfolded same_row_def])
    note one = upd_single [OF conjunct1 [OF inv [unfolded intents_inv_def]] old(1) refl]
    have rows: "it_rows s' = upd_where (\<lambda>r. in_id r = in_id old) (\<lambda>_. own_episode now x old old) (it_rows s)"
      using one(1) [of "own_episode now x old"] by (simp add: s' upd_intents_def)
    note ep = key_of_episode [OF old(2) pos]
    have new: "own_episode now x old old \<in> set (it_rows s')" unfolding rows using old(1) by (intro in_upd_where_changed) simp_all
    have season: "of_season (se_mediaId x) (se_season x) (own_episode now x old old)" "in_episode (own_episode now x old old) = Some (se_episode x)"
      using ep own_episode_same(1) [of old now x old] by (simp_all add: of_season_def same_row_def)
    have other: "r \<in> set (it_rows s') \<longleftrightarrow> r \<in> set (it_rows s)" if no: "\<not> episode_row (se_mediaId x) (se_season x) {se_episode x} r" for r
    proof
      assume "r \<in> set (it_rows s')"
      then show "r \<in> set (it_rows s)" unfolding rows by (cases rule: in_upd_whereE) (use season no in \<open>auto simp: episode_row_def\<close>)
    next
      assume r: "r \<in> set (it_rows s)"
      with one(2) [OF r] ep no have "in_id r \<noteq> in_id old" by (auto simp: episode_row_def)
      with r show "r \<in> set (it_rows s')" unfolding rows by (intro in_upd_where_kept)
    qed
    have kept: "\<exists>r' \<in> set (it_rows s'). same_row r r' \<and> set (owners_of (in_season_owners r)) \<subseteq> set (owners_of (in_season_owners r'))
        \<and> set (owners_of (in_season_owners r')) \<subseteq> insert (se_owner x) (set (owners_of (in_season_owners r)))"
      if r: "r \<in> set (it_rows s)" for r
    proof (cases "in_id r = in_id old")
      case True
      with one(2) [OF r] new own_episode_same(1) [of old now x old] own_episode_owners [OF clean, of now old] show ?thesis by auto
    next
      case False
      with r have "r \<in> set (it_rows s')" unfolding rows by (intro in_upd_where_kept)
      then show ?thesis by (auto simp: same_row_def)
    qed
    show ?thesis
      using inv' other kept new season own_episode_owners [OF clean, of now old]
      by (auto simp: season_grows_def owned_episode_def)
  qed
  then show "intents_inv s'" "season_grows (se_owner x) (se_mediaId x) (se_season x) {se_episode x} s s'"
    "owned_episode (se_mediaId x) (se_season x) (se_owner x) s' (se_episode x)" by blast+
qed

section \<open>Reconciling a season\<close>

lemma upd_intents_rows: "it_rows (upd_intents P f s) = upd_where P f (it_rows s)"
  by (simp add: upd_intents_def)

lemma known_episode_pos: "(e, t) \<in> set (known_episodes listed) \<Longrightarrow> 0 \<le> e"
  by (auto simp: known_episodes_def)

lemma episodes_effect:
  assumes "fold_res (\<lambda>(n, at) d. res_bind (ensure_season_episode now \<lparr>se_mediaId = mediaId, se_season = season,
      se_episode = n, se_owner = owner, se_source = src, se_expectedAt = at\<rparr> d) (\<lambda>d'. Inr (d', ()))) es s = Inr (s', us)"
    and "intents_inv s" "clean_owner owner" "0 \<le> season" "mediaId \<noteq> []" "\<forall>(e, t) \<in> set es. 0 \<le> e"
  shows "intents_inv s' \<and> season_grows owner mediaId season (fst ` set es) s s' \<and> (\<forall>(e, t) \<in> set es. owned_episode mediaId season owner s' e)"
  using assms(1,2,6)
proof (induction es arbitrary: s us)
  case Nil
  then show ?case by (simp add: season_grows_refl)
next
  case (Cons a es)
  obtain e t where a: "a = (e, t)" by (cases a)
  let ?x = "\<lparr>se_mediaId = mediaId, se_season = season, se_episode = e, se_owner = owner, se_source = src, se_expectedAt = t\<rparr>"
  from Cons.prems(1) obtain s1 us1 where one: "ensure_season_episode now ?x s = Inr s1"
    and rest: "fold_res (\<lambda>(n, at) d. res_bind (ensure_season_episode now \<lparr>se_mediaId = mediaId, se_season = season,
      se_episode = n, se_owner = owner, se_source = src, se_expectedAt = at\<rparr> d) (\<lambda>d'. Inr (d', ()))) es s1 = Inr (s', us1)"
    by (auto simp: a res_bind_Inr elim!: fold_res_ConsE)
  have eff: "intents_inv s1" "season_grows owner mediaId season {e} s s1" "owned_episode mediaId season owner s1 e"
    using ensure_season_episode_effect [OF one Cons.prems(2)] Cons.prems(3) assms(3-5) by (simp_all add: a)
  from Cons.IH [OF rest eff(1)] Cons.prems(3)
  have "intents_inv s'" "season_grows owner mediaId season (fst ` set es) s1 s'" "\<forall>(e, t) \<in> set es. owned_episode mediaId season owner s' e" by simp_all
  then show ?case
    using season_grows_trans [OF eff(2), of "fst ` set es" s'] owned_episode_grows [OF _ eff(3)] by (auto simp: a)
qed

text \<open>An owner that leaves a row.\<close>

lemma leave_owner_same: "in_id (leave_owner now owner r) = in_id r" "in_media_id (leave_owner now owner r) = in_media_id r"
    "in_season (leave_owner now owner r) = in_season r" "in_episode (leave_owner now owner r) = in_episode r"
    "intent_key (leave_owner now owner r) = intent_key r"
  by (simp_all add: leave_owner_def Let_def intent_key_def)

text \<open>What becomes of a row that its owner leaves: \<open>left_row owner r r'\<close>.\<close>

definition left_row :: "string \<Rightarrow> intent \<Rightarrow> intent \<Rightarrow> bool" where
  "left_row owner r r' \<longleftrightarrow> (let rest = set (owners_of (in_season_owners r)) - {owner} in
     if owner \<notin> set (owners_of (in_season_owners r)) then r' = r
     else if rest \<noteq> {} then same_row r r' \<and> set (owners_of (in_season_owners r')) = rest
     else if in_state r \<in> {InAnticipated, InFailed}
     then in_id r' = in_id r \<and> in_state r' = InWithdrawn \<and> owners_of (in_season_owners r') = []
     else r' = r)"

lemma leave_owner_left:
  assumes "owner \<in> set (owners_of (in_season_owners r))"
  shows "left_row owner r (leave_owner now owner r)"
proof -
  let ?rest = "filter (\<lambda>o'. o' \<noteq> owner) (owners_of (in_season_owners r))"
  have joined: "set (owners_of (owners_text ?rest)) = set ?rest"
    by (rule owners_round_trip) (use owners_of_clean in auto)
  have rest: "set ?rest = set (owners_of (in_season_owners r)) - {owner}" by auto
  show ?thesis
  proof (cases "?rest = []")
    case True
    then have "set (owners_of (in_season_owners r)) - {owner} = {}" unfolding rest [symmetric] by simp
    with True assms show ?thesis by (simp add: left_row_def leave_owner_def Let_def)
  next
    case False
    then have "set ?rest \<noteq> {}" unfolding set_empty .
    then have "set (owners_of (in_season_owners r)) - {owner} \<noteq> {}" unfolding rest .
    with False assms joined rest show ?thesis by (simp add: left_row_def leave_owner_def Let_def same_row_def)
  qed
qed

lemma leaves_owner_season: "leaves_owner mediaId season owner keep r \<Longrightarrow> of_season mediaId season r"
  by (simp add: leaves_owner_def of_season_def)

lemma withdraw_effect:
  assumes run: "withdraw_season_episodes now mediaId season owner keep s = (s', n)" and inv: "intents_inv s"
  shows "intents_inv s'"
    and "r \<in> set (it_rows s) \<Longrightarrow> \<not> leaves_owner mediaId season owner keep r \<Longrightarrow> r \<in> set (it_rows s')"
    and "r \<in> set (it_rows s) \<Longrightarrow> leaves_owner mediaId season owner keep r \<Longrightarrow> leave_owner now owner r \<in> set (it_rows s')"
    and "r' \<in> set (it_rows s') \<Longrightarrow> \<exists>r \<in> set (it_rows s).
      r' = (if leaves_owner mediaId season owner keep r then leave_owner now owner r else r)"
proof -
  let ?P = "leaves_owner mediaId season owner keep" and ?L = "leave_owner now owner"
  have s': "s' = upd_intents ?P ?L s" using run by (simp add: withdraw_season_episodes_def)
  note rows = upd_intents_rows [of ?P ?L s, folded s']
  show "intents_inv s'" unfolding s' by (rule upd_intents_inv [OF inv]) (simp add: leave_owner_same)
  show "r \<in> set (it_rows s) \<Longrightarrow> \<not> ?P r \<Longrightarrow> r \<in> set (it_rows s')" by (simp add: rows in_upd_where_kept)
  show "r \<in> set (it_rows s) \<Longrightarrow> ?P r \<Longrightarrow> ?L r \<in> set (it_rows s')" by (simp add: rows in_upd_where_changed)
  show "r' \<in> set (it_rows s') \<Longrightarrow> \<exists>r \<in> set (it_rows s). r' = (if ?P r then ?L r else r)"
    by (auto simp: rows in_upd_where)
qed

lemma reconcile_season_steps:
  assumes run: "reconcile_season now mediaId tmdbId season source listed s = Inr (s', n)"
    and inv: "intents_inv s" and clean: "CHR '','' \<notin> set mediaId"
  obtains s2 where "intents_inv s2" "season_grows (season_owner mediaId season) mediaId season (fst ` set (known_episodes listed)) s s2"
    "\<forall>(e, t) \<in> set (known_episodes listed). owned_episode mediaId season (season_owner mediaId season) s2 e"
    "withdraw_season_episodes now mediaId season (season_owner mediaId season) (map fst (known_episodes listed)) s2 = (s', n)"
proof -
  let ?owner = "season_owner mediaId season"
  let ?src = "case source of None \<Rightarrow> ?owner | Some t \<Rightarrow> if t = [] then ?owner else t"
  let ?s1 = "fst (ensure_requested_season now mediaId tmdbId season ?src None s)"
  have ok: "mediaId \<noteq> []" "0 \<le> season" using run by (auto simp: reconcile_season_def split: if_splits)
  from run obtain s2 us where fold: "fold_res (\<lambda>(n, at) d. res_bind (ensure_season_episode now \<lparr>se_mediaId = mediaId,
        se_season = season, se_episode = n, se_owner = ?owner, se_source = ?src, se_expectedAt = at\<rparr> d) (\<lambda>d'. Inr (d', ())))
        (known_episodes listed) ?s1 = Inr (s2, us)"
    and last: "withdraw_season_episodes now mediaId season ?owner (map fst (known_episodes listed)) s2 = (s', n)"
    by (auto simp: reconcile_season_def Let_def res_bind_Inr split: if_splits)
  have same: "it_rows ?s1 = it_rows s" by (simp add: ensure_requested_season_def Let_def)
  have "intents_inv ?s1" using inv by (simp add: intents_inv_def same)
  then have "intents_inv s2 \<and> season_grows ?owner mediaId season (fst ` set (known_episodes listed)) ?s1 s2
    \<and> (\<forall>(e, t) \<in> set (known_episodes listed). owned_episode mediaId season ?owner s2 e)"
    using fold known_episode_pos ok season_owner_clean [OF clean] by (intro episodes_effect) auto
  with last show thesis by (intro that [of s2]) (simp_all add: season_grows_def same)
qed

text \<open>The effect of the reconciliation, piece by piece.\<close>

lemma reconciled_season:
  assumes run: "reconcile_season now mediaId tmdbId season source listed s = Inr (s', n)"
    and inv: "intents_inv s" and clean: "CHR '','' \<notin> set mediaId"
  defines "owner \<equiv> season_owner mediaId season" and "E \<equiv> fst ` set (known_episodes listed)"
  shows "intents_inv s'"
    and "e \<in> E \<Longrightarrow> owned_episode mediaId season owner s' e"
    and "r \<in> set (it_rows s) \<Longrightarrow> episode_row mediaId season E r \<Longrightarrow> \<exists>r' \<in> set (it_rows s'). same_row r r'
      \<and> set (owners_of (in_season_owners r')) = insert owner (set (owners_of (in_season_owners r)))"
    and "r \<in> set (it_rows s) \<Longrightarrow> of_season mediaId season r \<Longrightarrow> in_episode r = Some e \<Longrightarrow> e \<notin> E \<Longrightarrow>
      \<exists>r' \<in> set (it_rows s'). left_row owner r r'"
    and "\<not> of_season mediaId season r \<or> in_episode r = None \<Longrightarrow> r \<in> set (it_rows s') \<longleftrightarrow> r \<in> set (it_rows s)"
    and "r' \<in> set (it_rows s') \<Longrightarrow> episode_row mediaId season E r' \<or> in_id r' \<in> in_id ` set (it_rows s)"
proof -
  from run inv clean obtain s2 where s2: "intents_inv s2" "season_grows owner mediaId season E s s2"
      "\<forall>(e, t) \<in> set (known_episodes listed). owned_episode mediaId season owner s2 e"
      "withdraw_season_episodes now mediaId season owner (map fst (known_episodes listed)) s2 = (s', n)"
    unfolding owner_def E_def by (rule reconcile_season_steps)
  note w = withdraw_effect [OF s2(4) s2(1)] and g = season_growsD [OF s2(2)]
  have leaves: "leaves_owner mediaId season owner (map fst (known_episodes listed)) r \<longleftrightarrow>
      of_season mediaId season r \<and> in_episode r \<notin> insert None (Some ` E) \<and> owner \<in> set (owners_of (in_season_owners r))" for r
    by (auto simp: leaves_owner_def of_season_def E_def split: option.splits)
  show "intents_inv s'" by (rule w(1))
  have owned2: "owned_episode mediaId season owner s2 e" if "e \<in> E" for e using s2(3) that by (auto simp: E_def)
  show "owned_episode mediaId season owner s' e" if "e \<in> E"
    using owned2 [OF that] w(2) leaves that unfolding owned_episode_def by (metis imageI insertI2)
  show "\<exists>r' \<in> set (it_rows s'). same_row r r'
      \<and> set (owners_of (in_season_owners r')) = insert owner (set (owners_of (in_season_owners r)))"
    if r: "r \<in> set (it_rows s)" "episode_row mediaId season E r"
  proof -
    from g(2) [OF r(1)] obtain r2 where r2: "r2 \<in> set (it_rows s2)" "same_row r r2"
      "set (owners_of (in_season_owners r)) \<subseteq> set (owners_of (in_season_owners r2))"
      "set (owners_of (in_season_owners r2)) \<subseteq> insert owner (set (owners_of (in_season_owners r)))" by blast
    from r(2) obtain e where e: "e \<in> E" "in_episode r = Some e" "of_season mediaId season r" by (auto simp: episode_row_def)
    from owned2 [OF e(1)] obtain q where q: "q \<in> set (it_rows s2)" "of_season mediaId season q" "in_episode q = Some e"
      "owner \<in> set (owners_of (in_season_owners q))" by (auto simp: owned_episode_def)
    have "intent_key q = intent_key r2" using q(2,3) r2(2) e(2,3) by (simp add: intent_key_def of_season_def same_row_def)
    with s2(1) q(1) r2(1) have "q = r2" by (auto simp: intents_inv_def dest: unique_byD [of intent_key])
    moreover have "r2 \<in> set (it_rows s')" by (rule w(2) [OF r2(1)]) (use r2(2) e in \<open>simp add: leaves same_row_def\<close>)
    ultimately show ?thesis using r2 q(4) by blast
  qed
  show "\<exists>r' \<in> set (it_rows s'). left_row owner r r'"
    if r: "r \<in> set (it_rows s)" "of_season mediaId season r" "in_episode r = Some e" "e \<notin> E"
  proof -
    from r have r2: "r \<in> set (it_rows s2)" using g(1) [of r] by (auto simp: episode_row_def)
    show ?thesis
    proof (cases "owner \<in> set (owners_of (in_season_owners r))")
      case True
      with r have "leave_owner now owner r \<in> set (it_rows s')" by (intro w(3) [OF r2]) (auto simp: leaves)
      with leave_owner_left [OF True] show ?thesis by blast
    next
      case False
      then have "r \<in> set (it_rows s')" by (intro w(2) [OF r2]) (simp add: leaves)
      with False show ?thesis by (intro bexI [of _ r]) (simp_all add: left_row_def)
    qed
  qed
  show "r \<in> set (it_rows s') \<longleftrightarrow> r \<in> set (it_rows s)" if out: "\<not> of_season mediaId season r \<or> in_episode r = None"
  proof -
    from out have "r \<in> set (it_rows s2) \<longleftrightarrow> r \<in> set (it_rows s)" by (intro g(1)) (auto simp: episode_row_def)
    moreover have "r \<in> set (it_rows s') \<longleftrightarrow> r \<in> set (it_rows s2)"
    proof
      assume "r \<in> set (it_rows s')"
      from w(4) [OF this] obtain q where q: "q \<in> set (it_rows s2)"
        "r = (if leaves_owner mediaId season owner (map fst (known_episodes listed)) q then leave_owner now owner q else q)" by blast
      with out show "r \<in> set (it_rows s2)" by (auto simp: leaves of_season_def leave_owner_same split: if_splits)
    qed (rule w(2), use out in \<open>auto simp: leaves\<close>)
    ultimately show ?thesis by simp
  qed
  show "episode_row mediaId season E r' \<or> in_id r' \<in> in_id ` set (it_rows s)" if "r' \<in> set (it_rows s')"
  proof -
    from w(4) [OF that] obtain q where q: "q \<in> set (it_rows s2)" "in_id r' = in_id q" "episode_row mediaId season E r' = episode_row mediaId season E q"
      by (auto simp: leave_owner_same episode_row_def of_season_def split: if_splits)
    then show ?thesis using g(1) [of q] by auto
  qed
qed

text \<open>
  C27: The reconciliation of a season against the listing of its episodes. A listed episode that has a row
  keeps it with its state, and the season becomes one of its owners; one without a row gets a row that the
  season owns, and no other row is new. The season leaves the episodes that are not listed: one with other
  owners keeps these and its state, one that waits or has failed for the season alone is withdrawn and has
  no owner any more, any other stays as it is, even with the season as its owner. Rows of other media, of
  other seasons and of the season as a whole stay as they are, and the keys of the table stay unique.
\<close>

theorem season_reconciliation_owns:
  assumes "reconcile_season now mediaId tmdbId season source listed s = Inr (s', n)"
    and "intents_inv s" and "CHR '','' \<notin> set mediaId"
    and owner: "owner = season_owner mediaId season" and E: "E = fst ` set (known_episodes listed)"
  shows "intents_inv s' \<and> (\<forall>e \<in> E. owned_episode mediaId season owner s' e)
    \<and> (\<forall>r \<in> set (it_rows s). \<exists>r' \<in> set (it_rows s').
        if \<not> of_season mediaId season r \<or> in_episode r = None then r' = r
        else if in_episode r \<in> Some ` E then same_row r r'
          \<and> set (owners_of (in_season_owners r')) = insert owner (set (owners_of (in_season_owners r)))
        else left_row owner r r')
    \<and> (\<forall>r' \<in> set (it_rows s'). in_id r' \<in> in_id ` set (it_rows s) \<or> episode_row mediaId season E r')"
proof -
  note r = reconciled_season [OF assms(1-3), folded owner, folded E]
  have "\<exists>r' \<in> set (it_rows s'). if \<not> of_season mediaId season q \<or> in_episode q = None then r' = q
        else if in_episode q \<in> Some ` E then same_row q r'
          \<and> set (owners_of (in_season_owners r')) = insert owner (set (owners_of (in_season_owners q)))
        else left_row owner q r'" if q: "q \<in> set (it_rows s)" for q
  proof -
    consider "\<not> of_season mediaId season q \<or> in_episode q = None"
      | e where "of_season mediaId season q" "in_episode q = Some e" "e \<in> E"
      | e where "of_season mediaId season q" "in_episode q = Some e" "e \<notin> E" by blast
    then show ?thesis
    proof cases
      case 1
      with r(5) [of q] q have "q \<in> set (it_rows s')" by blast
      with 1 show ?thesis by (intro bexI [of _ q]) auto
    next
      case 2
      with r(3) [OF q] show ?thesis by (simp add: episode_row_def)
    next
      case 3
      with r(4) [OF q 3] show ?thesis by auto
    qed
  qed
  with r(1,2,6) show ?thesis by blast
qed

text \<open>A table for the witnesses: a withdrawn, a waiting and a shared episode, and a film.\<close>

definition sample_intent :: "nat \<Rightarrow> string \<Rightarrow> int option \<Rightarrow> intent_state \<Rightarrow> string \<Rightarrow> intent" where
  "sample_intent i mediaId episode st owners = \<lparr>in_id = i, in_media_type = ''series'', in_media_id = mediaId,
     in_season = Some 1, in_episode = episode, in_source = ''sonarr:1'', in_expected_at = Some 50, in_next_check_at = 60,
     in_state = st, in_torrent_file_id = None, in_attempts = 1, in_last_error = None, in_created_at = 1,
     in_updated_at = 2, in_arr_satisfied = False, in_defer_reason = Some future_not_released, in_season_owners = owners\<rparr>"

definition sample_intents :: intents where
  "sample_intents = \<lparr>it_rows = [sample_intent 1 ''tt1'' (Some 1) InWithdrawn [],
     sample_intent 2 ''tt1'' (Some 2) InAnticipated (season_owner ''tt1'' 1),
     sample_intent 3 ''tt1'' (Some 3) InFailed (''other,'' @ season_owner ''tt1'' 1),
     sample_intent 4 ''tt2'' None InPrepared []], it_seasons = []\<rparr>"

definition sample_listing :: "(int \<times> int option) list" where
  "sample_listing = [(1, None), (4, Some 900), (0, None)]"

definition sample_reconciled :: "intents \<times> nat" where
  "sample_reconciled = projr (reconcile_season 100 ''tt1'' 7 1 None sample_listing sample_intents)"

lemma sample_intents_run:
  "reconcile_season 100 ''tt1'' 7 1 None sample_listing sample_intents = Inr (fst sample_reconciled, snd sample_reconciled)"
  by code_simp

lemma sample_intents_inv: "intents_inv sample_intents"
  by (simp add: intents_inv_def sample_intents_def sample_intent_def intent_key_def media_key_def unique_by_def nullish_def)

lemma season_reconciliation_owns_witness:
  "owned_episode ''tt1'' 1 (season_owner ''tt1'' 1) (fst sample_reconciled) 4
     \<and> (\<exists>r' \<in> set (it_rows (fst sample_reconciled)). in_id r' = 2 \<and> in_state r' = InWithdrawn)"
proof -
  let ?E = "fst ` set (known_episodes sample_listing)" and ?o = "season_owner ''tt1'' 1"
  let ?r = "sample_intent 2 ''tt1'' (Some 2) InAnticipated ?o"
  have E: "?E = {1, 4}" by (auto simp: sample_listing_def known_episodes_def is_safe_integer_def max_safe_def)
  note p = season_reconciliation_owns [OF sample_intents_run sample_intents_inv _ refl refl]
  have r: "?r \<in> set (it_rows sample_intents)" by (simp add: sample_intents_def)
  have owners: "owners_of ?o = [?o]" by code_simp
  have s: "of_season ''tt1'' 1 ?r" "in_episode ?r = Some 2" "in_state ?r = InAnticipated" "in_id ?r = 2" "in_season_owners ?r = ?o"
    by (simp_all add: sample_intent_def of_season_def)
  have "\<exists>r' \<in> set (it_rows (fst sample_reconciled)). left_row ?o ?r r'"
    using p [THEN conjunct2, THEN conjunct2, THEN conjunct1, THEN bspec, OF _ r] s by (auto simp: E)
  then obtain r' where "r' \<in> set (it_rows (fst sample_reconciled))" "left_row ?o ?r r'" by blast
  moreover from this(2) have "in_id r' = 2 \<and> in_state r' = InWithdrawn" by (simp add: left_row_def s owners)
  moreover have "owned_episode ''tt1'' 1 ?o (fst sample_reconciled) 4" using p by (simp add: E)
  ultimately show ?thesis by blast
qed

text \<open>
  C28: An episode that the season gave up and that is listed again stays withdrawn: the season becomes an
  owner of its row again, but the reconciliation never changes the state of a row, so the scheduler does
  not pick the episode up at any time.
\<close>

theorem relisted_episode_stays_withdrawn:
  assumes run: "reconcile_season now mediaId tmdbId season source listed s = Inr (s', n)"
    and inv: "intents_inv s" and clean: "CHR '','' \<notin> set mediaId"
    and old: "r \<in> set (it_rows s)" "of_season mediaId season r" "in_episode r = Some e" "in_state r = InWithdrawn"
    and known: "(e, t) \<in> set (known_episodes listed)"
  shows "\<exists>r' \<in> set (it_rows s'). in_id r' = in_id r \<and> in_state r' = InWithdrawn
    \<and> season_owner mediaId season \<in> set (owners_of (in_season_owners r'))
    \<and> (\<forall>later limit. r' \<notin> set (snd (due_intents later limit s')))"
proof -
  let ?owner = "season_owner mediaId season"
  from run inv clean obtain s2 where s2: "intents_inv s2" "season_grows (season_owner mediaId season) mediaId season (fst ` set (known_episodes listed)) s s2"
      "\<forall>(e, t) \<in> set (known_episodes listed). owned_episode mediaId season ?owner s2 e"
      "withdraw_season_episodes now mediaId season ?owner (map fst (known_episodes listed)) s2 = (s', n)"
    by (rule reconcile_season_steps)
  from season_growsD(2) [OF s2(2) old(1)] obtain r2 where r2: "r2 \<in> set (it_rows s2)" "same_row r r2" by blast
  from s2(3) known have "owned_episode mediaId season ?owner s2 e" by blast
  then obtain q where q: "q \<in> set (it_rows s2)" "of_season mediaId season q" "in_episode q = Some e"
    "?owner \<in> set (owners_of (in_season_owners q))" by (auto simp: owned_episode_def)
  have "intent_key q = intent_key r2" using q(2,3) r2(2) old(2,3) by (simp add: intent_key_def of_season_def same_row_def)
  with s2(1) q(1) r2(1) have "q = r2" by (auto simp: intents_inv_def dest: unique_byD [of intent_key])
  have "\<not> leaves_owner mediaId season ?owner (map fst (known_episodes listed)) q"
    using known q(3) by (force simp: leaves_owner_def)
  from withdraw_effect(2) [OF s2(4) s2(1) q(1) this] have "q \<in> set (it_rows s')" by blast
  moreover have "in_id q = in_id r" "in_state q = InWithdrawn" using r2(2) old(4) by (simp_all add: \<open>q = r2\<close> same_row_def)
  moreover from this(2) have "\<forall>later limit. q \<notin> set (snd (due_intents later limit s'))"
    by (auto simp: due_intents_def Let_def is_due_def live_states_def dest!: in_set_takeD)
  ultimately show ?thesis using q(4) by blast
qed

lemma relisted_episode_stays_withdrawn_witness:
  "\<exists>r' \<in> set (it_rows (fst sample_reconciled)). in_id r' = 1 \<and> in_state r' = InWithdrawn
    \<and> season_owner ''tt1'' 1 \<in> set (owners_of (in_season_owners r'))
    \<and> (\<forall>later limit. r' \<notin> set (snd (due_intents later limit (fst sample_reconciled))))"
  using relisted_episode_stays_withdrawn [OF sample_intents_run sample_intents_inv,
    of "sample_intent 1 ''tt1'' (Some 1) InWithdrawn []" 1 None]
  by (simp add: sample_intents_def sample_intent_def of_season_def sample_listing_def known_episodes_def is_safe_integer_def max_safe_def)

section \<open>The next wake-up\<close>

lemma least_le: "x \<in> set xs \<Longrightarrow> \<exists>m \<le> x. least xs = Some m"
  by (cases "xs = []") (auto simp: least_def)

lemma wake_before_check: "next_check s = Some w \<Longrightarrow> \<exists>v \<le> w. next_wake_at s = Some v"
  by (auto simp: next_wake_at_def split: option.splits)

lemma wake_before_release:
  assumes "r \<in> set (it_rows s)" "released now r"
  shows "\<exists>w \<le> now. next_wake_at s = Some w"
proof -
  from assms(2) obtain x where x: "in_expected_at r = Some x" "x \<le> now" "in_defer_reason r = Some future_not_released"
    by (auto simp: released_def split: option.splits)
  have "x \<in> set (List.map_filter in_expected_at (filter (\<lambda>r. in_defer_reason r = Some future_not_released) (it_rows s)))"
    using assms(1) x by (auto simp: map_filter_def image_iff intro!: exI [of _ r])
  from least_le [OF this] obtain m where "m \<le> x"
    "least (List.map_filter in_expected_at (filter (\<lambda>r. in_defer_reason r = Some future_not_released) (it_rows s))) = Some m" by blast
  then show ?thesis using x(2) by (auto simp: next_wake_at_def split: option.splits)
qed

text \<open>
  The scheduler does not sleep past work: when the scheduler's query would return a row, the
  wake-up time that it is armed with has been reached. (A row that is being prepared is only returned to
  recover it after a crash, and does not wake the scheduler by its poll time.)
\<close>

theorem wake_covers_due_rows:
  assumes "r \<in> set (it_rows s)" "is_due now r" "in_state r \<noteq> InPreparing \<or> released now r"
  shows "\<exists>w \<le> now. next_wake_at s = Some w"
proof (cases "released now r")
  case True
  with assms(1) show ?thesis by (rule wake_before_release)
next
  case False
  with assms(2,3) have "in_next_check_at r \<le> now" and live: "in_state r \<in> {InAnticipated, InFailed, InPrepared, InPublishedPreparing}"
    by (auto simp: is_due_def live_states_def)
  moreover obtain m where "m \<le> in_next_check_at r" "next_check s = Some m"
    using least_le [of "in_next_check_at r" "map in_next_check_at (filter (\<lambda>r. in_state r
      \<in> {InAnticipated, InFailed, InPrepared, InPublishedPreparing}) (it_rows s))"] assms(1) live
    unfolding next_check_def by auto
  ultimately show ?thesis using wake_before_check [of s m] by (meson order_trans)
qed

lemma wake_covers_due_rows_witness: "\<exists>w \<le> 70. next_wake_at sample_intents = Some w"
  by (rule wake_covers_due_rows [of "sample_intent 2 ''tt1'' (Some 2) InAnticipated (season_owner ''tt1'' 1)"])
    (simp_all add: sample_intents_def sample_intent_def is_due_def live_states_def)

text \<open>
  A withdrawn row keeps waking the scheduler: once the release date of a withdrawn row that waits
  for its release has passed, the wake-up time is in the past at every later time, although the query of
  the scheduler never returns the row and leaves it as it is.
\<close>

theorem withdrawn_release_keeps_waking:
  assumes "r \<in> set (it_rows s)" "in_state r = InWithdrawn" "released now r" "now \<le> later"
  shows "(\<exists>w \<le> later. next_wake_at (fst (due_intents later limit s)) = Some w)
    \<and> r \<in> set (it_rows (fst (due_intents later limit s))) \<and> r \<notin> set (snd (due_intents later limit s))"
proof -
  have kept: "r \<in> set (it_rows (fst (due_intents later limit s)))"
    using assms(1,2) by (simp add: due_intents_def Let_def reopen_playable_def upd_intents_rows in_upd_where_kept)
  moreover have "released later r" using assms(3,4) by (auto simp: released_def split: option.splits)
  moreover have "r \<notin> set (snd (due_intents later limit s))"
    using assms(2) by (auto simp: due_intents_def Let_def is_due_def live_states_def dest!: in_set_takeD)
  ultimately show ?thesis using wake_before_release by blast
qed

lemma withdrawn_release_keeps_waking_witness:
  "(\<exists>w \<le> 9000. next_wake_at (fst (due_intents 9000 5 sample_intents)) = Some w)
    \<and> sample_intent 1 ''tt1'' (Some 1) InWithdrawn [] \<notin> set (snd (due_intents 9000 5 sample_intents))"
  using withdrawn_release_keeps_waking [of "sample_intent 1 ''tt1'' (Some 1) InWithdrawn []" sample_intents 100 9000 5]
  by (simp add: sample_intents_def sample_intent_def released_def)

end
