(* ===== verification/Preparation_Store.thy ===== *)
theory Preparation_Store
  imports Release_Identity "HOL-Library.Product_Lexorder"
begin

text \<open>
  Preparations, \<open>prepare/contract.js\<close> and \<open>prepare/store.js\<close>: the provider-neutral outcomes and states,
  and the table of attempts to acquire a release at a provider. At most one row per release and provider
  is active. The JSON columns are the records that the driver writes and reads.
\<close>

section \<open>The contract\<close>

datatype prepare_outcome = PoReady | PoAccepted | PoAlreadyPresent | PoContentBlocked | PoAccountIneligible
  | PoRateLimited | PoTemporaryFailure | PoUnsupported | PoFailed

datatype prepare_state = PpQueued | PpAcquiring | PpWaiting | PpReady | PpFailedTemporary | PpFailedPolicy
  | PpFailedTerminal | PpCancelled | PpExpired

definition outcome_text :: "prepare_outcome \<Rightarrow> string" where
  "outcome_text p = (case p of PoReady \<Rightarrow> ''ready'' | PoAccepted \<Rightarrow> ''accepted'' | PoAlreadyPresent \<Rightarrow> ''already_present''
     | PoContentBlocked \<Rightarrow> ''content_blocked'' | PoAccountIneligible \<Rightarrow> ''account_ineligible''
     | PoRateLimited \<Rightarrow> ''rate_limited'' | PoTemporaryFailure \<Rightarrow> ''temporary_failure'' | PoUnsupported \<Rightarrow> ''unsupported''
     | PoFailed \<Rightarrow> ''failed'')"

definition prepare_state_text :: "prepare_state \<Rightarrow> string" where
  "prepare_state_text s = (case s of PpQueued \<Rightarrow> ''queued'' | PpAcquiring \<Rightarrow> ''acquiring'' | PpWaiting \<Rightarrow> ''waiting''
     | PpReady \<Rightarrow> ''ready'' | PpFailedTemporary \<Rightarrow> ''failed_temporary'' | PpFailedPolicy \<Rightarrow> ''failed_policy''
     | PpFailedTerminal \<Rightarrow> ''failed_terminal'' | PpCancelled \<Rightarrow> ''cancelled'' | PpExpired \<Rightarrow> ''expired'')"

definition is_preparation_active :: "prepare_state \<Rightarrow> bool" where
  "is_preparation_active s \<longleftrightarrow> s \<in> {PpQueued, PpAcquiring, PpWaiting, PpFailedTemporary}"

definition is_preparation_terminal :: "prepare_state \<Rightarrow> bool" where
  "is_preparation_terminal s \<longleftrightarrow> s \<in> {PpReady, PpFailedPolicy, PpFailedTerminal, PpCancelled, PpExpired}"

text \<open>What an adapter answers; \<open>px_present\<close> is \<open>present\<close> or \<open>alreadyPresent\<close>. A missing id is \<open>None\<close>.\<close>

record mapped_file =
  mp_providerFileId :: "string option"
  mp_path :: string
  mp_size :: int

record prepared_file =
  pv_providerFileId :: string
  pv_path :: string
  pv_name :: "string option"
  pv_size :: int

record prep_result =
  px_present :: bool
  px_blocked :: bool
  px_accountIneligible :: bool
  px_rateLimited :: bool
  px_retryAfterMs :: "int option"
  px_unsupported :: bool
  px_accepted :: bool
  px_ready :: bool
  px_retryable :: bool
  px_providerResourceId :: "string option"
  px_mapped :: "mapped_file option"
  px_inventoryFiles :: "prepared_file list option"
  px_status :: "string option"

definition no_result :: prep_result where
  "no_result = \<lparr>px_present = False, px_blocked = False, px_accountIneligible = False, px_rateLimited = False,
     px_retryAfterMs = None, px_unsupported = False, px_accepted = False, px_ready = False, px_retryable = False,
     px_providerResourceId = None, px_mapped = None, px_inventoryFiles = None, px_status = None\<rparr>"

definition to_prepare_outcome :: "prep_result \<Rightarrow> prepare_outcome" where
  "to_prepare_outcome r =
     (if px_present r then PoAlreadyPresent
      else if px_blocked r then PoContentBlocked
      else if px_accountIneligible r then PoAccountIneligible
      else if px_rateLimited r \<or> px_retryAfterMs r \<noteq> None then PoRateLimited
      else if px_unsupported r then PoUnsupported
      else if px_accepted r then (if px_ready r then PoReady else PoAccepted)
      else if px_retryable r then PoTemporaryFailure
      else PoFailed)"

definition next_preparation_state :: "prepare_state \<Rightarrow> prepare_outcome \<Rightarrow> prepare_state" where
  "next_preparation_state s p = (case p of
      PoReady \<Rightarrow> PpReady
    | PoAccepted \<Rightarrow> if s = PpQueued then PpAcquiring else PpWaiting
    | PoAlreadyPresent \<Rightarrow> if s = PpQueued then PpAcquiring else PpWaiting
    | PoContentBlocked \<Rightarrow> PpFailedPolicy
    | PoAccountIneligible \<Rightarrow> PpFailedTerminal
    | PoUnsupported \<Rightarrow> PpFailedTerminal
    | PoFailed \<Rightarrow> PpFailedTerminal
    | PoRateLimited \<Rightarrow> PpFailedTemporary
    | PoTemporaryFailure \<Rightarrow> PpFailedTemporary)"

definition order_prepare_providers :: "string list \<Rightarrow> string set \<Rightarrow> string set \<Rightarrow> string list" where
  "order_prepare_providers eligible blocked ineligible =
     filter (\<lambda>p. p \<notin> blocked \<and> p \<notin> ineligible) eligible"

section \<open>Rows\<close>

text \<open>
  The \<open>size\<close> of a candidate: absent (\<open>undefined\<close>, also after the way through JSON), \<open>null\<close>, or an integer.
  \<open>Number\<close> makes NaN of the first, which is \<open>None\<close> here, and 0 of the second.
\<close>

datatype candidate_size = SizeAbsent | SizeNull | SizeIs int

fun size_number :: "candidate_size \<Rightarrow> int option" where
  "size_number SizeAbsent = None"
| "size_number SizeNull = Some 0"
| "size_number (SizeIs n) = Some n"

record prep_candidate =
  cd_filename :: "string option"
  cd_name :: "string option"
  cd_size :: candidate_size
  cd_magnet :: "string option"
  cd_plan :: "string list"

text \<open>What \<open>outcome_json\<close> holds.\<close>

datatype prep_note = NoteEmpty | NoteLimited string | NoteResult prep_result | NoteReady prep_result string string

record preparation =
  prn_id :: nat
  prn_info_hash :: string
  prn_provider :: string
  prn_media_type :: string
  prn_media_id :: string
  prn_season :: "int option"
  prn_episode :: "int option"
  prn_title :: "string option"
  prn_candidate :: prep_candidate
  prn_state :: prepare_state
  prn_attempts :: nat
  prn_resource_id :: "string option"
  prn_next_poll_at :: "int option"
  prn_last_error :: "string option"
  prn_outcome :: prep_note
  prn_source :: string
  prn_session_id :: "string option"
  prn_notified_at :: "int option"
  prn_created_at :: int
  prn_updated_at :: int
  prn_expires_at :: "int option"

text \<open>The rows, and the last id given out: rows are deleted, and ids are not used again.\<close>

record preparations =
  pt_rows :: "preparation list"
  pt_seq :: nat

definition prep_key :: "preparation \<Rightarrow> string \<times> string" where
  "prep_key r = (prn_info_hash r, prn_provider r)"

definition active_row :: "preparation \<Rightarrow> bool" where
  "active_row r \<longleftrightarrow> prn_state r \<in> {PpQueued, PpAcquiring, PpWaiting, PpFailedTemporary}"

definition working :: "prepare_state set" where
  "working = {PpQueued, PpAcquiring, PpWaiting}"

definition normalize_hash :: "string \<Rightarrow> string res" where
  "normalize_hash v = (let s = js_lower (js_trim v) in
     if info_hash_pattern s then Inr s else Inl (JsError ''preparations require a 40-hex infoHash''))"

section \<open>Look-ups\<close>

definition get_preparation :: "nat \<Rightarrow> preparations \<Rightarrow> preparation option" where
  "get_preparation i s = find (\<lambda>r. prn_id r = i) (pt_rows s)"

definition find_active :: "string \<Rightarrow> string \<Rightarrow> preparations \<Rightarrow> preparation option" where
  "find_active hash provider s = find (\<lambda>r. prep_key r = (hash, provider) \<and> active_row r) (pt_rows s)"

definition find_active_any :: "string \<Rightarrow> preparations \<Rightarrow> preparation option" where
  "find_active_any hash s = top_by prn_updated_at (filter (\<lambda>r. prn_info_hash r = hash \<and> active_row r) (pt_rows s))"

definition find_active_preparation :: "string \<Rightarrow> string option \<Rightarrow> preparations \<Rightarrow> preparation option res" where
  "find_active_preparation infoHash provider s = res_bind (normalize_hash infoHash) (\<lambda>hash. Inr (case provider of
      None \<Rightarrow> find_active_any hash s
    | Some p \<Rightarrow> if p = [] then find_active_any hash s else find_active hash p s))"

definition find_latest_preparation :: "string \<Rightarrow> preparations \<Rightarrow> preparation option res" where
  "find_latest_preparation infoHash s = res_bind (normalize_hash infoHash) (\<lambda>hash.
     Inr (top_by prn_id (filter (\<lambda>r. prn_info_hash r = hash) (pt_rows s))))"

definition find_preparations_by_media :: "string \<Rightarrow> int option \<Rightarrow> int option \<Rightarrow> preparations \<Rightarrow> preparation list" where
  "find_preparations_by_media mediaId season episode s = (if mediaId = [] then [] else
     take 5 (rev (sort_key prn_id (filter (\<lambda>r. prn_media_id r = mediaId
       \<and> nullish (prn_season r) (-1) = nullish season (-1) \<and> nullish (prn_episode r) (-1) = nullish episode (-1)) (pt_rows s)))))"

definition count_active :: "preparations \<Rightarrow> nat" where
  "count_active s = length (filter active_row (pt_rows s))"

definition count_active_for_provider :: "string \<Rightarrow> preparations \<Rightarrow> nat" where
  "count_active_for_provider provider s = length (filter (\<lambda>r. prn_provider r = provider \<and> active_row r) (pt_rows s))"

section \<open>Operations\<close>

record prep_input =
  ppx_infoHash :: string
  ppx_provider :: string
  ppx_mediaType :: string
  ppx_mediaId :: string
  ppx_season :: "int option"
  ppx_episode :: "int option"
  ppx_title :: "string option"
  ppx_candidate :: prep_candidate
  ppx_source :: string
  ppx_sessionId :: "string option"

definition new_preparation :: "int \<Rightarrow> int \<Rightarrow> string \<Rightarrow> prep_input \<Rightarrow> nat \<Rightarrow> preparation" where
  "new_preparation now timeout hash x i = \<lparr>prn_id = i, prn_info_hash = hash, prn_provider = ppx_provider x,
     prn_media_type = ppx_mediaType x, prn_media_id = ppx_mediaId x, prn_season = ppx_season x, prn_episode = ppx_episode x,
     prn_title = ppx_title x, prn_candidate = ppx_candidate x, prn_state = PpQueued, prn_attempts = 0, prn_resource_id = None,
     prn_next_poll_at = Some now, prn_last_error = None, prn_outcome = NoteEmpty, prn_source = ppx_source x,
     prn_session_id = ppx_sessionId x, prn_notified_at = None, prn_created_at = now, prn_updated_at = now,
     prn_expires_at = Some (now + timeout)\<rparr>"

definition start_or_join :: "int \<Rightarrow> int \<Rightarrow> prep_input \<Rightarrow> preparations \<Rightarrow> (preparations \<times> preparation \<times> bool) res" where
  "start_or_join now timeout x s = res_bind (normalize_hash (ppx_infoHash x)) (\<lambda>hash.
     if ppx_provider x = [] \<or> ppx_mediaType x = [] \<or> ppx_mediaId x = []
     then Inl (JsError ''preparations require provider, mediaType and mediaId'')
     else case find_active hash (ppx_provider x) s of
       Some r \<Rightarrow> Inr (s, r, False)
     | None \<Rightarrow> let r = new_preparation now timeout hash x (pt_seq s + 1)
         in Inr (s\<lparr>pt_rows := pt_rows s @ [r], pt_seq := pt_seq s + 1\<rparr>, r, True))"

definition upd_prep :: "(preparation \<Rightarrow> bool) \<Rightarrow> (preparation \<Rightarrow> preparation) \<Rightarrow> preparations \<Rightarrow> preparations" where
  "upd_prep P f s = s\<lparr>pt_rows := upd_where P f (pt_rows s)\<rparr>"

definition poll_due :: "int \<Rightarrow> preparation \<Rightarrow> bool" where
  "poll_due now r \<longleftrightarrow> (case prn_next_poll_at r of None \<Rightarrow> True | Some t \<Rightarrow> t \<le> now)"

definition claim_due :: "int \<Rightarrow> nat \<Rightarrow> prepare_state \<Rightarrow> preparations \<Rightarrow> preparations \<times> preparation option" where
  "claim_due now i toState s =
     (let P = (\<lambda>r. prn_id r = i \<and> prn_state r \<in> {PpQueued, PpWaiting} \<and> poll_due now r);
          s' = upd_prep P (\<lambda>r. r\<lparr>prn_state := toState, prn_attempts := prn_attempts r + 1, prn_updated_at := now\<rparr>) s
      in if length (filter P (pt_rows s)) = 1 then (s', get_preparation i s') else (s', None))"

definition due_order :: "preparation \<Rightarrow> nat \<times> int \<times> nat" where
  "due_order r = (case prn_next_poll_at r of None \<Rightarrow> (0, 0, prn_id r) | Some t \<Rightarrow> (1, t, prn_id r))"

definition unexpired :: "int \<Rightarrow> preparation \<Rightarrow> bool" where
  "unexpired now r \<longleftrightarrow> (case prn_expires_at r of None \<Rightarrow> True | Some t \<Rightarrow> now < t)"

definition list_due_preparations :: "int \<Rightarrow> nat \<Rightarrow> prepare_state list \<Rightarrow> preparations \<Rightarrow> preparation list" where
  "list_due_preparations now limit states s = take limit (sort_key due_order
     (filter (\<lambda>r. prn_state r \<in> set states \<and> poll_due now r \<and> unexpired now r) (pt_rows s)))"

definition mark_waiting :: "int \<Rightarrow> nat \<Rightarrow> string option \<Rightarrow> int option \<Rightarrow> prep_note option \<Rightarrow> preparations \<Rightarrow> preparations" where
  "mark_waiting now i resourceId nextPollAt outcome = upd_prep (\<lambda>r. prn_id r = i \<and> prn_state r \<in> working)
     (\<lambda>r. r\<lparr>prn_state := PpWaiting, prn_resource_id := coalesce resourceId (prn_resource_id r),
        prn_next_poll_at := Some (nullish nextPollAt now), prn_outcome := nullish outcome (prn_outcome r), prn_updated_at := now\<rparr>)"

definition mark_ready :: "int \<Rightarrow> nat \<Rightarrow> string option \<Rightarrow> prep_note option \<Rightarrow> preparations \<Rightarrow> preparations" where
  "mark_ready now i resourceId outcome = upd_prep (\<lambda>r. prn_id r = i \<and> prn_state r \<in> working)
     (\<lambda>r. r\<lparr>prn_state := PpReady, prn_resource_id := coalesce resourceId (prn_resource_id r),
        prn_outcome := nullish outcome (prn_outcome r), prn_next_poll_at := None, prn_updated_at := now\<rparr>)"

text \<open>The update may make a finished row active again; the unique index then decides.\<close>

definition single_flight :: "preparations \<Rightarrow> bool" where
  "single_flight s \<longleftrightarrow> unique_where active_row prep_key (pt_rows s)"

definition mark_prep_failed ::
  "int \<Rightarrow> nat \<Rightarrow> prepare_state \<Rightarrow> string option \<Rightarrow> int option \<Rightarrow> prep_note option \<Rightarrow> preparations \<Rightarrow> preparations res" where
  "mark_prep_failed now i state lastError nextPollAt outcome s =
     (if state \<notin> {PpFailedTemporary, PpFailedPolicy, PpFailedTerminal} then Inl (JsError ''bad preparation failure state'')
      else let s' = upd_prep (\<lambda>r. prn_id r = i) (\<lambda>r. r\<lparr>prn_state := state, prn_last_error := lastError,
                 prn_next_poll_at := nextPollAt, prn_outcome := nullish outcome (prn_outcome r), prn_updated_at := now\<rparr>) s
        in if single_flight s' then Inr s' else Inl (SqlConstraint ''UNIQUE''))"

definition requeue :: "int \<Rightarrow> nat \<Rightarrow> int option \<Rightarrow> preparations \<Rightarrow> preparations" where
  "requeue now i nextPollAt = upd_prep (\<lambda>r. prn_id r = i \<and> prn_state r = PpFailedTemporary)
     (\<lambda>r. r\<lparr>prn_state := PpQueued, prn_next_poll_at := Some (nullish nextPollAt now), prn_updated_at := now\<rparr>)"

definition mark_prep_cancelled :: "int \<Rightarrow> nat \<Rightarrow> string \<Rightarrow> preparations \<Rightarrow> preparations" where
  "mark_prep_cancelled now i reason = upd_prep (\<lambda>r. prn_id r = i \<and> prn_state r \<in> working)
     (\<lambda>r. r\<lparr>prn_state := PpCancelled, prn_last_error := Some reason, prn_updated_at := now\<rparr>)"

definition mark_notified :: "int \<Rightarrow> nat \<Rightarrow> preparations \<Rightarrow> preparations" where
  "mark_notified now i = upd_prep (\<lambda>r. prn_id r = i) (\<lambda>r. r\<lparr>prn_notified_at := Some now, prn_updated_at := now\<rparr>)"

text \<open>\<open>UPDATE ... LIMIT n\<close>: the first \<open>n\<close> rows that match.\<close>

fun upd_first :: "nat \<Rightarrow> ('r \<Rightarrow> bool) \<Rightarrow> ('r \<Rightarrow> 'r) \<Rightarrow> 'r list \<Rightarrow> 'r list" where
  "upd_first n P f [] = []"
| "upd_first n P f (r # rs) = (if P r \<and> 0 < n then f r # upd_first (n - 1) P f rs else r # upd_first n P f rs)"

definition overdue :: "int \<Rightarrow> preparation \<Rightarrow> bool" where
  "overdue now r \<longleftrightarrow> prn_state r \<in> working \<and> (case prn_expires_at r of None \<Rightarrow> False | Some t \<Rightarrow> t \<le> now)"

definition expire_overdue :: "int \<Rightarrow> nat \<Rightarrow> preparations \<Rightarrow> preparations \<times> nat" where
  "expire_overdue now limit s = (s\<lparr>pt_rows := upd_first limit (overdue now)
       (\<lambda>r. r\<lparr>prn_state := PpExpired, prn_updated_at := now\<rparr>) (pt_rows s)\<rparr>,
     min limit (length (filter (overdue now) (pt_rows s))))"

definition prunable :: "int \<Rightarrow> preparation \<Rightarrow> bool" where
  "prunable before r \<longleftrightarrow> prn_state r \<in> {PpReady, PpFailedTemporary, PpFailedPolicy, PpFailedTerminal, PpCancelled, PpExpired}
     \<and> prn_updated_at r < before"

definition prune_terminal :: "int \<Rightarrow> int \<Rightarrow> preparations \<Rightarrow> preparations \<times> nat" where
  "prune_terminal now olderThanMs s =
     (s\<lparr>pt_rows := filter (\<lambda>r. \<not> prunable (now - olderThanMs) r) (pt_rows s)\<rparr>,
      length (filter (prunable (now - olderThanMs)) (pt_rows s)))"

end
