(* ===== verification/Preparation_Driver.thy ===== *)
theory Preparation_Driver
  imports Preparation_Store Store_Run Store_Inventory Canonical_Path
begin

text \<open>
  The preparation driver, \<open>prepare/driver.js\<close>, and the file mapping and polling of its adapters,
  \<open>prepare/torbox-acquire.js\<close> and \<open>prepare/rd-acquire.js\<close>. The state is the table of preparations, the
  memory of refusals and the control-plane database. The providers are arguments: what they answer.
\<close>

section \<open>Adapters\<close>

record prep_coord =
  pc_filename :: "string option"
  pc_size :: "int option"
  pc_season :: "int option"
  pc_episode :: "int option"

text \<open>
  What the driver calls: the account gate (\<open>None\<close> when the adapter has none; eligible or not, and the
  reason), \<open>acquire\<close> of a hash and magnet, \<open>poll\<close> of a resource.
\<close>

record prep_adapter =
  ad_account :: "(bool \<times> string option) res option"
  ad_acquire :: "string \<Rightarrow> string option \<Rightarrow> prep_coord \<Rightarrow> prep_result res"
  ad_poll :: "string \<Rightarrow> prep_coord \<Rightarrow> prep_result res"

definition is_valid_size :: "int \<Rightarrow> bool" where
  "is_valid_size n \<longleftrightarrow> is_safe_integer n \<and> 0 < n"

definition is_tv_coord :: "int option \<Rightarrow> int option \<Rightarrow> bool" where
  "is_tv_coord season episode = (case (season, episode) of
      (Some s, Some e) \<Rightarrow> is_safe_integer s \<and> 0 \<le> s \<and> is_safe_integer e \<and> 1 \<le> e | _ \<Rightarrow> False)"

subsection \<open>TorBox\<close>

text \<open>The tag \<open>S..E..\<close> in a path whose separators are single spaces.\<close>

definition separator :: "char \<Rightarrow> bool" where
  "separator c \<longleftrightarrow> js_space c \<or> c \<in> set ''._-''"

fun squeeze :: "string \<Rightarrow> string" where
  "squeeze [] = []"
| "squeeze [c] = [if separator c then CHR '' '' else c]"
| "squeeze (c # d # cs) = (if separator c then (if separator d then squeeze (d # cs) else CHR '' '' # squeeze (d # cs))
     else c # squeeze (d # cs))"

definition digits_of :: "string \<Rightarrow> string" where
  "digits_of cs = takeWhile is_digit cs"

definition episode_tag :: "int \<Rightarrow> int \<Rightarrow> string \<Rightarrow> bool" where
  "episode_tag s e cs =
     (let ds = digits_of (drop 1 cs); rest = dropWhile js_space (drop (1 + length ds) cs); es = digits_of (drop 1 rest)
      in js_lower (take 1 cs) = ''s'' \<and> 1 \<le> length ds \<and> length ds \<le> 2
        \<and> js_lower (take 1 rest) = ''e'' \<and> 1 \<le> length es \<and> length es \<le> 3
        \<and> int (parse_nat ds) = s \<and> int (parse_nat es) = e)"

fun tag_somewhere :: "int \<Rightarrow> int \<Rightarrow> bool \<Rightarrow> string \<Rightarrow> bool" where
  "tag_somewhere s e prev [] = False"
| "tag_somewhere s e prev (c # cs) = (\<not> prev \<and> episode_tag s e (c # cs)
     \<or> tag_somewhere s e (is_digit c \<or> is_letter c \<or> c = CHR ''_'') cs)"

definition tb_episode_tokens_present :: "string \<Rightarrow> int \<Rightarrow> int \<Rightarrow> bool" where
  "tb_episode_tokens_present path season episode = tag_somewhere season episode False (squeeze path)"

record tb_file =
  tb_id :: string
  tb_path :: string
  tb_size :: "int option"

definition base_name :: "string \<Rightarrow> string option" where
  "base_name p = (let parts = filter (\<lambda>s. s \<noteq> []) (split_on CHR ''/'' p) in if parts = [] then None else Some (last parts))"

text \<open>The only candidate with the wanted base name and size. A path of slashes only makes the mapping throw.\<close>

definition mapped_of :: "tb_file \<Rightarrow> mapped_file" where
  "mapped_of f = \<lparr>mp_providerFileId = Some (tb_id f), mp_path = tb_path f, mp_size = nullish (tb_size f) 0\<rparr>"

definition tb_mappable :: "tb_file list \<Rightarrow> tb_file list" where
  "tb_mappable files = filter (\<lambda>f. tb_id f \<noteq> [] \<and> tb_path f \<noteq> []
     \<and> (case tb_size f of None \<Rightarrow> False | Some n \<Rightarrow> is_valid_size n)) files"

definition tb_pick :: "tb_file list \<Rightarrow> prep_coord \<Rightarrow> (string + tb_file) res" where
  "tb_pick named x = (case named of
      [f] \<Rightarrow> (case pc_size x of
          Some n \<Rightarrow> if is_safe_integer n \<and> tb_size f \<noteq> Some n then Inr (Inl ''tb-exact-file-size-mismatch'') else Inr (Inr f)
        | None \<Rightarrow> Inr (Inr f))
    | _ \<Rightarrow>
      let wants = (case pc_filename x of None \<Rightarrow> False | Some v \<Rightarrow> v \<noteq> []);
          wantBase = (case pc_filename x of None \<Rightarrow> None | Some v \<Rightarrow> base_name v)
      in if wants \<and> (wantBase = None \<or> list_ex (\<lambda>f. base_name (tb_path f) = None) named)
         then Inl (TypeError ''Cannot read properties of undefined'')
         else let byName = (if wants then filter (\<lambda>f. map_option js_lower (base_name (tb_path f))
                    = map_option js_lower wantBase) named else []);
                  pool = (if byName \<noteq> [] then byName else named);
                  bySize = (case pc_size x of None \<Rightarrow> [] | Some n \<Rightarrow> filter (\<lambda>f. tb_size f = Some n) pool);
                  winners = (if bySize \<noteq> [] then bySize else if wants \<and> length byName = 1 then byName else [])
              in (case winners of [f] \<Rightarrow> Inr (Inr f) | _ \<Rightarrow> Inr (Inl ''tb-mapping-ambiguous'')))"

definition tb_map_target_file :: "tb_file list \<Rightarrow> prep_coord \<Rightarrow> (string + mapped_file) res" where
  "tb_map_target_file files x =
     (if files = [] then Inr (Inl ''tb-no-files'')
      else if tb_mappable files = [] then Inr (Inl ''tb-no-mappable-files'')
      else res_bind (tb_pick (tb_mappable files) x) (\<lambda>p. case p of
        Inl e \<Rightarrow> Inr (Inl e)
      | Inr f \<Rightarrow> if is_tv_coord (pc_season x) (pc_episode x)
            \<and> \<not> tb_episode_tokens_present (tb_path f) (nullish (pc_season x) 0) (nullish (pc_episode x) 0)
          then Inr (Inl ''tb-episode-unverifiable'') else Inr (Inr (mapped_of f))))"

definition build_inventory :: "tb_file list \<Rightarrow> prepared_file list" where
  "build_inventory files = map (\<lambda>f. \<lparr>pv_providerFileId = tb_id f, pv_path = tb_path f,
       pv_name = Some (nullish (base_name (tb_path f)) ''file''), pv_size = nullish (tb_size f) 0\<rparr>)
     (filter (\<lambda>f. tb_id f \<noteq> [] \<and> (case tb_size f of None \<Rightarrow> False | Some n \<Rightarrow> is_valid_size n)) files)"

definition tb_ready_state :: "string \<Rightarrow> string" where
  "tb_ready_state raw = (let s = map (\<lambda>c. if c = CHR '' '' then CHR ''_'' else c) (js_lower raw) in
     if s \<in> {''cached'', ''completed'', ''downloaded'', ''ready'', ''seeding'', ''uploading''} then ''ready''
     else if s \<in> {''queued'', ''checking_resume_data'', ''downloading'', ''meta_downloading'', ''pending'', ''checking''} then ''pending''
     else if s \<in> {''error'', ''failed''} then ''error'' else ''unknown'')"

text \<open>What TorBox answers to a request for a torrent: an error (of authentication or another), nothing, or
  its state and files.\<close>

datatype tb_answer = TbFailure bool | TbGone | TbTorrent string "tb_file list"

definition tb_poll :: "tb_answer \<Rightarrow> prep_coord \<Rightarrow> prep_result" where
  "tb_poll answer x = (case answer of
      TbFailure auth \<Rightarrow> if auth then no_result\<lparr>px_accountIneligible := True\<rparr> else no_result\<lparr>px_retryable := True\<rparr>
    | TbGone \<Rightarrow> no_result
    | TbTorrent raw files \<Rightarrow> let state = tb_ready_state raw in
        if state = ''ready'' then (case tb_map_target_file files x of
            Inl e \<Rightarrow> no_result\<lparr>px_retryable := True\<rparr>
          | Inr (Inl e) \<Rightarrow> no_result
          | Inr (Inr m) \<Rightarrow> no_result\<lparr>px_ready := True, px_accepted := True, px_status := Some state, px_mapped := Some m,
              px_inventoryFiles := Some (build_inventory files)\<rparr>)
        else if state = ''error'' then no_result
        else (case tb_map_target_file files x of
            Inl e \<Rightarrow> no_result\<lparr>px_retryable := True\<rparr>
          | Inr (Inl e) \<Rightarrow> no_result\<lparr>px_accepted := True, px_status := Some state\<rparr>
          | Inr (Inr m) \<Rightarrow> no_result\<lparr>px_accepted := True, px_status := Some state, px_mapped := Some m\<rparr>))"

subsection \<open>Real-Debrid\<close>

record rd_file =
  rd_id :: string
  rd_path :: string
  rd_bytes :: "int option"

text \<open>
  The classification of the files, the full path of a file and the episode test of this adapter are
  arguments.
\<close>

definition rd_map_target_file ::
  "(rd_file list \<Rightarrow> string option \<Rightarrow> int option \<Rightarrow> string option) \<Rightarrow> (string \<Rightarrow> string option)
     \<Rightarrow> (string \<Rightarrow> int \<Rightarrow> int \<Rightarrow> bool) \<Rightarrow> rd_file list \<Rightarrow> prep_coord \<Rightarrow> string + mapped_file" where
  "rd_map_target_file classify fullPath tokens files x =
     (if files = [] then Inl ''rd-no-files''
      else case classify files (pc_filename x) (pc_size x) of
        None \<Rightarrow> Inl ''rd-mapping-failed''
      | Some i \<Rightarrow> (case find (\<lambda>f. rd_id f = i) files of
          None \<Rightarrow> Inl ''rd-mapping-invalid-size''
        | Some f \<Rightarrow> (case rd_bytes f of
            None \<Rightarrow> Inl ''rd-mapping-invalid-size''
          | Some n \<Rightarrow>
            if \<not> is_valid_size n then Inl ''rd-mapping-invalid-size''
            else if (case pc_size x of None \<Rightarrow> False | Some m \<Rightarrow> is_safe_integer m \<and> n \<noteq> m)
            then Inl ''rd-exact-file-size-mismatch''
            else (case fullPath (rd_path f) of
                None \<Rightarrow> Inl ''rd-mapping-empty-path''
              | Some p \<Rightarrow> if is_tv_coord (pc_season x) (pc_episode x)
                    \<and> \<not> tokens p (nullish (pc_season x) 0) (nullish (pc_episode x) 0)
                  then Inl ''rd-episode-unverifiable''
                  else Inr \<lparr>mp_providerFileId = None, mp_path = p, mp_size = n\<rparr>))))"

text \<open>An error of the client, and what \<open>classifyAddError\<close> makes of it.\<close>

record rd_error =
  re_cooldown :: bool
  re_status :: "int option"
  re_code :: "string option"
  re_message :: string
  re_rdErrorCode :: "int option"
  re_category :: "string option"
  re_retryAfterMs :: "int option"

definition classify_add_error :: "rd_error \<Rightarrow> prep_result" where
  "classify_add_error e =
     (if re_cooldown e then no_result\<lparr>px_rateLimited := True\<rparr>
      else if re_status e = Some 401 \<or> re_status e = Some 403 \<or> re_code e = Some ''AUTH_ERROR''
      then no_result\<lparr>px_accountIneligible := True\<rparr>
      else if re_code e = Some ''infringing'' \<or> re_rdErrorCode e = Some 35 \<or> includes_str (js_lower (re_message e)) ''infringing''
      then no_result\<lparr>px_blocked := True\<rparr>
      else if re_category e = Some ''rate-limit'' \<or> re_status e = Some 429
      then no_result\<lparr>px_rateLimited := True, px_retryAfterMs := re_retryAfterMs e\<rparr>
      else if re_code e = Some ''invalid-input'' \<or> re_code e = Some ''hash-mismatch'' then no_result
      else no_result\<lparr>px_retryable := True\<rparr>)"

datatype rd_answer = RdFailure rd_error | RdTorrent string "rd_file list"

definition rd_poll :: "(rd_file list \<Rightarrow> prep_coord \<Rightarrow> string + mapped_file) \<Rightarrow> rd_answer \<Rightarrow> prep_coord \<Rightarrow> prep_result" where
  "rd_poll map_target answer x = (case answer of
      RdFailure e \<Rightarrow> if re_status e = Some 404 then no_result else classify_add_error e
    | RdTorrent status files \<Rightarrow>
        if status = ''downloaded'' then (case map_target files x of
            Inl e \<Rightarrow> no_result
          | Inr m \<Rightarrow> no_result\<lparr>px_ready := True, px_accepted := True, px_status := Some status, px_mapped := Some m\<rparr>)
        else if status \<in> {''magnet_error'', ''error'', ''virus'', ''dead''} then no_result
        else no_result\<lparr>px_accepted := True, px_status := Some status,
            px_mapped := (case map_target files x of Inl e \<Rightarrow> None | Inr m \<Rightarrow> Some m)\<rparr>)"

section \<open>The state of the driver\<close>

record prep_config =
  fg_maxConcurrentTotal :: nat
  fg_maxConcurrentPerProvider :: nat
  fg_maxSizeBytes :: int
  fg_maxAttempts :: nat
  fg_pollIntervalMs :: int
  fg_pollIntervalByProvider :: "string \<Rightarrow> int option"
  fg_backoffMs :: "int list"
  fg_contentBlockedTtlMs :: int
  fg_accountIneligibleTtlMs :: int
  fg_preparationTimeoutMs :: int

definition default_prep_config :: prep_config where
  "default_prep_config = \<lparr>fg_maxConcurrentTotal = 2, fg_maxConcurrentPerProvider = 2,
     fg_maxSizeBytes = 100 * 1024 * 1024 * 1024, fg_maxAttempts = 20, fg_pollIntervalMs = 60000,
     fg_pollIntervalByProvider = (\<lambda>p. if p = ''realdebrid'' then Some 30000 else if p = ''torbox'' then Some 60000 else None),
     fg_backoffMs = [30000, 60000, 5 * 60000, 15 * 60000], fg_contentBlockedTtlMs = 24 * 60 * 60 * 1000,
     fg_accountIneligibleTtlMs = 5 * 60 * 1000, fg_preparationTimeoutMs = 2 * 60 * 60 * 1000\<rparr>"

text \<open>The refusals map a text to the time at which they expire.\<close>

record prep_world =
  pw_table :: preparations
  pw_blocked :: "(string \<times> int) list"
  pw_ineligible :: "(string \<times> int) list"
  pw_db :: db

type_synonym 'a prep_run = "prep_world \<Rightarrow> prep_world \<times> 'a res"

definition backoff_for :: "nat \<Rightarrow> int list \<Rightarrow> int" where
  "backoff_for attempts steps = (if steps = [] then 60000 else steps ! min attempts (length steps - 1))"

definition prune_memory :: "int \<Rightarrow> prep_world \<Rightarrow> prep_world" where
  "prune_memory now w = w\<lparr>pw_blocked := filter (\<lambda>(k, v). \<not> v \<le> now) (pw_blocked w),
     pw_ineligible := filter (\<lambda>(k, v). \<not> v \<le> now) (pw_ineligible w)\<rparr>"

text \<open>The blocked providers: the part of the key before the first colon.\<close>

definition blocked_providers :: "prep_world \<Rightarrow> string set" where
  "blocked_providers w = set (map (\<lambda>(k, v). hd (split_on CHR '':'' k)) (pw_blocked w))"

definition ineligible_providers :: "prep_world \<Rightarrow> string set" where
  "ineligible_providers w = set (map fst (pw_ineligible w))"

definition remember_content_blocked :: "prep_config \<Rightarrow> int \<Rightarrow> string \<Rightarrow> string \<Rightarrow> prep_world \<Rightarrow> prep_world" where
  "remember_content_blocked cfg now provider hash w = (let k = provider @ '':'' @ js_lower hash in
     w\<lparr>pw_blocked := (k, now + fg_contentBlockedTtlMs cfg) # filter (\<lambda>e. fst e \<noteq> k) (pw_blocked w)\<rparr>)"

definition remember_account_ineligible :: "prep_config \<Rightarrow> int \<Rightarrow> string \<Rightarrow> prep_world \<Rightarrow> prep_world" where
  "remember_account_ineligible cfg now provider w =
     w\<lparr>pw_ineligible := (provider, now + fg_accountIneligibleTtlMs cfg) # filter (\<lambda>e. fst e \<noteq> provider) (pw_ineligible w)\<rparr>"

definition poll_interval_for :: "prep_config \<Rightarrow> string \<Rightarrow> int" where
  "poll_interval_for cfg provider = nullish (fg_pollIntervalByProvider cfg provider) (fg_pollIntervalMs cfg)"

definition check_limits :: "prep_config \<Rightarrow> string \<Rightarrow> preparations \<Rightarrow> string option" where
  "check_limits cfg provider s =
     (if fg_maxConcurrentTotal cfg \<le> count_active s then Some ''concurrency-total''
      else if fg_maxConcurrentPerProvider cfg \<le> count_active_for_provider provider s then Some ''concurrency-provider''
      else None)"

section \<open>Starting and chaining\<close>

datatype prep_started = Started preparation bool | NotStarted string

definition start_preparation :: "prep_config \<Rightarrow> int \<Rightarrow> prep_input \<Rightarrow> string list \<Rightarrow> prep_started prep_run" where
  "start_preparation cfg now x providers w =
     (let w1 = prune_memory now w;
          ordered = order_prepare_providers providers (blocked_providers w1) (ineligible_providers w1)
      in if ordered = [] then (w1, Inr (NotStarted ''no-eligible-provider''))
         else if (case size_number (cd_size (ppx_candidate x)) of None \<Rightarrow> False | Some n \<Rightarrow> is_safe_integer n \<and> n > fg_maxSizeBytes cfg)
         then (w1, Inr (NotStarted ''over-size-limit''))
         else case start_or_join now (fg_preparationTimeoutMs cfg) (x\<lparr>ppx_provider := hd ordered,
               ppx_candidate := (ppx_candidate x)\<lparr>cd_plan := ordered\<rparr>\<rparr>) (pw_table w1) of
           Inl e \<Rightarrow> (w1, Inl e)
         | Inr (s, r, created) \<Rightarrow> (w1\<lparr>pw_table := s\<rparr>, Inr (Started r created)))"

definition advance_to_next_provider ::
  "prep_config \<Rightarrow> int \<Rightarrow> preparation \<Rightarrow> string \<Rightarrow> preparations \<Rightarrow> (preparations \<times> preparation option) res" where
  "advance_to_next_provider cfg now r failed s =
     (let remaining = filter (\<lambda>p. p \<noteq> failed) (cd_plan (prn_candidate r))
      in if remaining = [] then Inr (s, None)
         else res_bind (start_or_join now (fg_preparationTimeoutMs cfg) \<lparr>ppx_infoHash = prn_info_hash r,
               ppx_provider = hd remaining, ppx_mediaType = prn_media_type r, ppx_mediaId = prn_media_id r,
               ppx_season = prn_season r, ppx_episode = prn_episode r, ppx_title = prn_title r,
               ppx_candidate = (prn_candidate r)\<lparr>cd_plan := remaining\<rparr>, ppx_source = prn_source r,
               ppx_sessionId = prn_session_id r\<rparr> s) (\<lambda>(s', r', _). Inr (s', Some r')))"

section \<open>Closing a ready resource\<close>

text \<open>\<open>String(value)\<close> of a missing value.\<close>

definition text_of :: "string option \<Rightarrow> string" where
  "text_of v = nullish v ''undefined''"

definition inventory_of :: "mapped_file \<Rightarrow> prepared_file list \<Rightarrow> inventory_file list" where
  "inventory_of m files = map (\<lambda>f. \<lparr>if_providerFileId = Some (pv_providerFileId f), if_path = Some (pv_path f),
     if_name = Some (nullish (pv_name f) (nullish (base_name (pv_path f)) ''file'')), if_size = Some (pv_size f),
     if_selected = Some (pv_providerFileId f = text_of (mp_providerFileId m)), if_mediaHint = None,
     if_corpusFileIndex = None, if_evidence = None\<rparr>) files"

definition prepared_placement :: "preparation \<Rightarrow> prep_result \<Rightarrow> placement_input" where
  "prepared_placement r result = \<lparr>plx_infoHash = JStr (js_lower (prn_info_hash r)), plx_provider = Some (prn_provider r),
     plx_accountScope = Some ''default'', plx_resourceId = Some (text_of (px_providerResourceId result)),
     plx_ownership = Some ''owned'', plx_observedAt = None, plx_id = None, plx_state = Some ''ready'', plx_ownerKey = None,
     plx_provenance = Some (''prepare-'' @ prn_provider r), plx_idempotencyKey = None, plx_expiresAt = None,
     plx_failureCategory = None, plx_retryable = None\<rparr>"

definition persist_prepared_placement ::
  "int \<Rightarrow> (nat \<Rightarrow> string) \<Rightarrow> preparation \<Rightarrow> prep_result \<Rightarrow> (string \<times> string) run" where
  "persist_prepared_placement now uuid r result =
     (case px_mapped result of
        None \<Rightarrow> give (Inl (JsError ''prepare close requires exact mapped path+size''))
      | Some m \<Rightarrow>
        if mp_path m = [] \<or> \<not> is_valid_size (mp_size m)
        then give (Inl (JsError ''prepare close requires exact mapped path+size''))
        else if nullish (px_inventoryFiles result) [] = []
        then give (Inl (JsError ''prepare close: provider inventory missing''))
        else run_bind (transact (record_placement now (uuid 0) (prepared_placement r result))) (\<lambda>stored.
          case stored of None \<Rightarrow> give (Inl (TypeError ''placement'')) | Some p \<Rightarrow>
          run_bind (transact (replace_provider_file_inventory now (\<lambda>n. uuid (n + 1)) (pl_id p)
             (inventory_of m (nullish (px_inventoryFiles result) []))
             \<lparr>io_observedAt = Some now, io_expiresAt = Some (now + 60000), io_enforceObservationOrder = False,
              io_authoritative = True, io_complete = True, io_evidence = None\<rparr>)) (\<lambda>_.
          run_bind (look (find_torrent_file (js_lower (prn_info_hash r)) (Some (mp_path m)))) (\<lambda>tf.
          case tf of
            None \<Rightarrow> give (Inl (JsError ''prepare close: TorrentFile missing after inventory persist''))
          | Some t \<Rightarrow> give (Inr (pl_id p, tf_id t))))))"

section \<open>Advancing a row\<close>

definition err_text :: "js_error \<Rightarrow> string" where
  "err_text e = (case e of TypeError m \<Rightarrow> m | JsError m \<Rightarrow> m | SqlConstraint k \<Rightarrow> k @ '' constraint failed''
     | CategoryError _ m _ _ \<Rightarrow> m)"

definition map_table :: "(preparations \<Rightarrow> preparations) \<Rightarrow> prep_world \<Rightarrow> prep_world" where
  "map_table f w = w\<lparr>pw_table := f (pw_table w)\<rparr>"

text \<open>\<open>markFailed\<close>, and the transition that is reported after it.\<close>

definition fail_preparation ::
  "int \<Rightarrow> nat \<Rightarrow> prepare_state \<Rightarrow> string \<Rightarrow> prep_note option \<Rightarrow> string \<Rightarrow> string prep_run" where
  "fail_preparation now i state msg note transition w =
     (case mark_prep_failed now i state (Some msg) None note (pw_table w) of
        Inl e \<Rightarrow> (w, Inl e) | Inr s \<Rightarrow> (w\<lparr>pw_table := s\<rparr>, Inr transition))"

text \<open>A bounded retry: the row is parked for the back-off, or ends when its attempts are used up.\<close>

definition attempts_now :: "preparation \<Rightarrow> prep_world \<Rightarrow> nat" where
  "attempts_now r w = (case get_preparation (prn_id r) (pw_table w) of None \<Rightarrow> prn_attempts r | Some f \<Rightarrow> prn_attempts f)"

definition park_row :: "prep_config \<Rightarrow> int \<Rightarrow> preparation \<Rightarrow> string \<times> string \<Rightarrow> string \<times> string \<Rightarrow> string prep_run" where
  "park_row cfg now r ended parked w =
     (let attempts = attempts_now r w in
      if fg_maxAttempts cfg \<le> attempts then fail_preparation now (prn_id r) PpFailedTerminal (fst ended) None (snd ended) w
      else case fail_preparation now (prn_id r) PpFailedTemporary (fst parked) None (snd parked) w of
        (w1, Inl e) \<Rightarrow> (w1, Inl e)
      | (w1, Inr tr) \<Rightarrow> (map_table (requeue now (prn_id r) (Some (now + backoff_for attempts (fg_backoffMs cfg)))) w1, Inr tr))"

definition remember_refusal :: "prep_config \<Rightarrow> int \<Rightarrow> preparation \<Rightarrow> prepare_outcome \<Rightarrow> prep_world \<Rightarrow> prep_world" where
  "remember_refusal cfg now r outcome w =
     (if outcome = PoContentBlocked then remember_content_blocked cfg now (prn_provider r) (prn_info_hash r) w
      else if outcome = PoAccountIneligible then remember_account_ineligible cfg now (prn_provider r) w else w)"

definition close_row :: "int \<Rightarrow> (nat \<Rightarrow> string) \<Rightarrow> preparation \<Rightarrow> prep_result \<Rightarrow> string prep_run" where
  "close_row now uuid r result w = (case persist_prepared_placement now uuid r result (pw_db w) of
      (d, Inl e) \<Rightarrow> (w\<lparr>pw_db := d\<rparr>, Inl e)
    | (d, Inr (p, t)) \<Rightarrow> (map_table (\<lambda>s. mark_notified now (prn_id r) (mark_ready now (prn_id r)
          (coalesce (px_providerResourceId result) (prn_resource_id r)) (Some (NoteReady result p t)) s)) (w\<lparr>pw_db := d\<rparr>),
        Inr ''ready''))"

definition refused_row :: "prep_config \<Rightarrow> int \<Rightarrow> preparation \<Rightarrow> prep_result \<Rightarrow> prepare_state \<Rightarrow> string prep_run" where
  "refused_row cfg now r result next w =
     (let outcome = to_prepare_outcome result;
          chain = outcome \<in> {PoContentBlocked, PoAccountIneligible} \<and> prn_provider r \<noteq> []
      in case (if chain then advance_to_next_provider cfg now r (prn_provider r) (pw_table w) else Inr (pw_table w, None)) of
        Inl e \<Rightarrow> (w, Inl e)
      | Inr (s, chained) \<Rightarrow> fail_preparation now (prn_id r) next (outcome_text outcome) (Some (NoteResult result))
          (prepare_state_text next @ (if chained = None then [] else ''-chained'')) (w\<lparr>pw_table := s\<rparr>))"

definition handle_result ::
  "prep_config \<Rightarrow> int \<Rightarrow> (nat \<Rightarrow> string) \<Rightarrow> preparation \<Rightarrow> prep_result \<Rightarrow> string prep_run" where
  "handle_result cfg now uuid r result w0 =
     (let outcome = to_prepare_outcome result;
          next = next_preparation_state (if prn_state r = PpQueued then PpQueued else PpWaiting) outcome;
          w = remember_refusal cfg now r outcome w0
      in if next = PpReady then close_row now uuid r result w
         else if next = PpAcquiring \<or> next = PpWaiting
         then (map_table (mark_waiting now (prn_id r) (coalesce (px_providerResourceId result) (prn_resource_id r))
             (Some (now + poll_interval_for cfg (prn_provider r))) (Some (NoteResult result))) w, Inr (prepare_state_text next))
         else if next = PpFailedPolicy \<or> next = PpFailedTerminal then refused_row cfg now r result next w
         else park_row cfg now r (''attempts-exhausted'', ''exhausted'') (outcome_text outcome, ''retry-parked'') w)"

text \<open>The size is the number of the candidate's value where that is a safe integer; the number of \<open>null\<close> is 0.\<close>

definition coord_of :: "preparation \<Rightarrow> prep_coord" where
  "coord_of r = (let c = prn_candidate r in
     \<lparr>pc_filename = coalesce (cd_filename c) (cd_name c),
      pc_size = (case size_number (cd_size c) of None \<Rightarrow> None | Some n \<Rightarrow> if is_safe_integer n then Some n else None),
      pc_season = prn_season r, pc_episode = prn_episode r\<rparr>)"

definition gate_refuses :: "prep_adapter \<Rightarrow> bool res" where
  "gate_refuses a = (case ad_account a of None \<Rightarrow> Inr False | Some (Inl e) \<Rightarrow> Inl e | Some (Inr (ok, _)) \<Rightarrow> Inr (\<not> ok))"

definition has_resource :: "preparation \<Rightarrow> bool" where
  "has_resource r \<longleftrightarrow> nullish (prn_resource_id r) [] \<noteq> []"

text \<open>The \<open>try\<close> block: the limits and the gate before the first provider write, then one step.\<close>

definition step_row ::
  "prep_config \<Rightarrow> int \<Rightarrow> (nat \<Rightarrow> string) \<Rightarrow> prep_adapter \<Rightarrow> preparation \<Rightarrow> string prep_run" where
  "step_row cfg now uuid a r w =
     (if has_resource r
      then (case ad_poll a (nullish (prn_resource_id r) []) (coord_of r) of
          Inl e \<Rightarrow> (w, Inl e) | Inr result \<Rightarrow> handle_result cfg now uuid r result w)
      else case check_limits cfg (prn_provider r) (pw_table w) of
        Some l \<Rightarrow> (map_table (mark_waiting now (prn_id r) None (Some (now + 60000)) (Some (NoteLimited l))) w, Inr ''limited'')
      | None \<Rightarrow> (case gate_refuses a of
          Inl e \<Rightarrow> (w, Inl e)
        | Inr True \<Rightarrow> fail_preparation now (prn_id r) PpFailedTerminal ''account-ineligible'' None ''account-ineligible''
            (remember_account_ineligible cfg now (prn_provider r) w)
        | Inr False \<Rightarrow> (case ad_acquire a (prn_info_hash r) (cd_magnet (prn_candidate r)) (coord_of r) of
            Inl e \<Rightarrow> (w, Inl e) | Inr result \<Rightarrow> handle_result cfg now uuid r result w)))"

definition advance_row ::
  "prep_config \<Rightarrow> int \<Rightarrow> (nat \<Rightarrow> string) \<Rightarrow> (string \<Rightarrow> prep_adapter option) \<Rightarrow> preparation \<Rightarrow> string prep_run" where
  "advance_row cfg now uuid adapters r w = (case adapters (prn_provider r) of
      None \<Rightarrow> fail_preparation now (prn_id r) PpFailedTerminal ''no-adapter'' None ''no-adapter'' w
    | Some a \<Rightarrow> (case step_row cfg now uuid a r w of
        (w1, Inr tr) \<Rightarrow> (w1, Inr tr)
      | (w1, Inl e) \<Rightarrow> park_row cfg now r (''error-exhausted:'' @ take 120 (err_text e), ''error-exhausted'')
          (take 160 (err_text e), ''error-parked'') w1))"

section \<open>One tick\<close>

definition advance_due ::
  "prep_config \<Rightarrow> int \<Rightarrow> (nat \<Rightarrow> nat \<Rightarrow> string) \<Rightarrow> (string \<Rightarrow> prep_adapter option) \<Rightarrow> preparation \<Rightarrow> prep_world
     \<Rightarrow> prep_world \<times> (nat \<times> string) list" where
  "advance_due cfg now uuid adapters r w = (case check_limits cfg (prn_provider r) (pw_table w) of
      Some l \<Rightarrow> (map_table (mark_waiting now (prn_id r) None (Some (now + 60000)) (Some (NoteLimited l))) w,
        [(prn_id r, ''limited'')])
    | None \<Rightarrow> (case claim_due now (prn_id r) PpAcquiring (pw_table w) of
        (s, None) \<Rightarrow> (w\<lparr>pw_table := s\<rparr>, [])
      | (s, Some claimed) \<Rightarrow> (case advance_row cfg now (uuid (prn_id r)) adapters claimed (w\<lparr>pw_table := s\<rparr>) of
          (w1, Inr tr) \<Rightarrow> (w1, [(prn_id r, tr)])
        | (w1, Inl e) \<Rightarrow> (w1, [(prn_id r, ''driver-error'')]))))"

fun advance_all ::
  "prep_config \<Rightarrow> int \<Rightarrow> (nat \<Rightarrow> nat \<Rightarrow> string) \<Rightarrow> (string \<Rightarrow> prep_adapter option) \<Rightarrow> preparation list \<Rightarrow> prep_world
     \<Rightarrow> prep_world \<times> (nat \<times> string) list" where
  "advance_all cfg now uuid adapters [] w = (w, [])"
| "advance_all cfg now uuid adapters (r # rs) w =
     (let (w1, xs) = advance_due cfg now uuid adapters r w; (w2, ys) = advance_all cfg now uuid adapters rs w1
      in (w2, xs @ ys))"

definition advance_once ::
  "prep_config \<Rightarrow> int \<Rightarrow> (nat \<Rightarrow> nat \<Rightarrow> string) \<Rightarrow> (string \<Rightarrow> prep_adapter option) \<Rightarrow> nat \<Rightarrow> prep_world
     \<Rightarrow> prep_world \<times> (nat \<times> string) list" where
  "advance_once cfg now uuid adapters limit w =
     (let s = fst (expire_overdue now 50 (pw_table w))
      in advance_all cfg now uuid adapters (list_due_preparations now limit [PpQueued, PpWaiting] s) (w\<lparr>pw_table := s\<rparr>))"

end
