(* ===== verification/Preparation_Properties.thy ===== *)
theory Preparation_Properties
  imports Preparation_Driver Store_Invariant
begin

text \<open>
  Properties of preparations: one active row per release and provider, what a full queue does, what the
  refusal memory and a candidate without a size lead to, and what happens to a resource that is polled.
\<close>

section \<open>The invariant of the table\<close>

text \<open>Updates that never change a key and never make a finished row active.\<close>

definition calmer :: "preparation \<Rightarrow> preparation \<Rightarrow> bool" where
  "calmer r r' \<longleftrightarrow> prn_id r' = prn_id r \<and> prep_key r' = prep_key r \<and> (active_row r' \<longrightarrow> active_row r)"

definition prep_inv :: "preparations \<Rightarrow> bool" where
  "prep_inv s \<longleftrightarrow> single_flight s \<and> unique_by prn_id (pt_rows s) \<and> (\<forall>r \<in> set (pt_rows s). prn_id r \<le> pt_seq s)"

lemma calmer_refl [simp]: "calmer r r"
  by (simp add: calmer_def)

lemma calmer_rows:
  assumes "list_all2 calmer rows rows'"
  shows "map prn_id rows' = map prn_id rows"
    and "prep_key ` set (filter active_row rows') \<subseteq> prep_key ` set (filter active_row rows)"
    and "unique_where active_row prep_key rows \<Longrightarrow> unique_where active_row prep_key rows'"
  using assms
  by (induction rule: list_all2_induct) (auto simp: calmer_def unique_where_def split: if_splits)

lemma ids_bounded:
  assumes "map prn_id rows' = map prn_id rows" "\<forall>r \<in> set rows. prn_id r \<le> n"
  shows "\<forall>r \<in> set rows'. prn_id r \<le> n"
proof -
  have "\<forall>k \<in> set (map prn_id rows'). k \<le> n" unfolding assms(1) using assms(2) by simp
  then show ?thesis by simp
qed

lemma calmer_inv:
  assumes "prep_inv s" "list_all2 calmer (pt_rows s) (pt_rows s')" "pt_seq s' = pt_seq s"
  shows "prep_inv s'"
proof -
  note rows = calmer_rows [OF assms(2)]
  have "\<forall>r \<in> set (pt_rows s'). prn_id r \<le> pt_seq s'"
    using assms(1,3) by (intro ids_bounded [OF rows(1)]) (simp add: prep_inv_def)
  with rows assms(1) show ?thesis by (simp add: prep_inv_def single_flight_def unique_by_def)
qed

lemma calmer_upd: "(\<And>r. P r \<Longrightarrow> calmer r (f r)) \<Longrightarrow> list_all2 calmer (pt_rows s) (pt_rows (upd_prep P f s))"
  by (simp add: upd_prep_def upd_where_def list_all2_map2 list.rel_refl)

lemma upd_prep_seq [simp]: "pt_seq (upd_prep P f s) = pt_seq s"
  by (simp add: upd_prep_def)

lemma upd_prep_inv: "prep_inv s \<Longrightarrow> (\<And>r. P r \<Longrightarrow> calmer r (f r)) \<Longrightarrow> prep_inv (upd_prep P f s)"
  by (rule calmer_inv [OF _ calmer_upd upd_prep_seq])

lemma calmer_upd_first: "(\<And>r. P r \<Longrightarrow> calmer r (f r)) \<Longrightarrow> list_all2 calmer rows (upd_first n P f rows)"
  by (induction rows arbitrary: n) auto

lemma mark_waiting_inv: "prep_inv s \<Longrightarrow> prep_inv (mark_waiting now i res next out s)"
  unfolding mark_waiting_def
  by (rule upd_prep_inv) (auto simp: calmer_def prep_key_def active_row_def working_def)

lemma mark_ready_inv: "prep_inv s \<Longrightarrow> prep_inv (mark_ready now i res out s)"
  unfolding mark_ready_def by (rule upd_prep_inv) (auto simp: calmer_def prep_key_def active_row_def)

lemma mark_notified_inv: "prep_inv s \<Longrightarrow> prep_inv (mark_notified now i s)"
  unfolding mark_notified_def by (rule upd_prep_inv) (auto simp: calmer_def prep_key_def active_row_def)

lemma requeue_inv: "prep_inv s \<Longrightarrow> prep_inv (requeue now i next s)"
  unfolding requeue_def by (rule upd_prep_inv) (auto simp: calmer_def prep_key_def active_row_def)

lemma claim_inv: "prep_inv s \<Longrightarrow> prep_inv (fst (claim_due now i st s))"
  unfolding claim_due_def Let_def
  by (auto intro!: upd_prep_inv simp: calmer_def prep_key_def active_row_def)

lemma expire_inv: "prep_inv s \<Longrightarrow> prep_inv (fst (expire_overdue now limit s))"
  by (erule calmer_inv)
    (auto intro!: calmer_upd_first simp: expire_overdue_def calmer_def prep_key_def active_row_def)

lemma mark_failed_inv:
  assumes "mark_prep_failed now i st msg next out s = Inr s'" "prep_inv s"
  shows "prep_inv s'"
proof -
  let ?f = "\<lambda>r. r\<lparr>prn_state := st, prn_last_error := msg, prn_next_poll_at := next,
      prn_outcome := nullish out (prn_outcome r), prn_updated_at := now\<rparr>"
  have s': "s' = upd_prep (\<lambda>r. prn_id r = i) ?f s" "single_flight s'"
    using assms(1) by (auto simp: mark_prep_failed_def Let_def split: if_splits)
  have ids: "map prn_id (pt_rows s') = map prn_id (pt_rows s)"
    unfolding s'(1) upd_prep_def by (simp add: map_upd_where)
  have "\<forall>r \<in> set (pt_rows s'). prn_id r \<le> pt_seq s'"
    using assms(2) by (intro ids_bounded [OF ids]) (simp add: prep_inv_def s'(1))
  with ids s'(2) assms(2) show ?thesis by (simp add: prep_inv_def unique_by_def)
qed

lemma start_or_join_inv:
  assumes "start_or_join now timeout x s = Inr (s', r, created)" "prep_inv s"
  shows "prep_inv s'"
proof -
  from assms(1) obtain hash where body: "(case find_active hash (ppx_provider x) s of
       Some r \<Rightarrow> Inr (s, r, False)
     | None \<Rightarrow> let r = new_preparation now timeout hash x (pt_seq s + 1)
         in Inr (s\<lparr>pt_rows := pt_rows s @ [r], pt_seq := pt_seq s + 1\<rparr>, r, True)) = (Inr (s', r, created) :: (preparations \<times> preparation \<times> bool) res)"
    by (auto simp: start_or_join_def res_bind_Inr split: if_splits)
  show ?thesis
  proof (cases "find_active hash (ppx_provider x) s")
    case None
    then have none: "\<forall>q \<in> set (pt_rows s). active_row q \<longrightarrow> prep_key q \<noteq> (hash, ppx_provider x)"
      by (auto simp: find_active_def find_None_iff)
    let ?r = "new_preparation now timeout hash x (Suc (pt_seq s))"
    have r: "prep_key ?r = (hash, ppx_provider x)" "prn_id ?r = Suc (pt_seq s)"
      by (simp_all add: new_preparation_def prep_key_def)
    have s': "s' = s\<lparr>pt_rows := pt_rows s @ [?r], pt_seq := pt_seq s + 1\<rparr>" using body None by (auto simp: Let_def)
    from assms(2) have old: "single_flight s" "unique_by prn_id (pt_rows s)" "\<forall>q \<in> set (pt_rows s). prn_id q \<le> pt_seq s"
      by (simp_all add: prep_inv_def)
    have "single_flight s'" using old(1) none by (auto simp: s' single_flight_def unique_where_snoc r)
    moreover have "unique_by prn_id (pt_rows s')" using old(2,3) by (force simp: s' unique_by_snoc r)
    moreover have "\<forall>q \<in> set (pt_rows s'). prn_id q \<le> pt_seq s'" using old(3) by (auto simp: s' r)
    ultimately show ?thesis by (simp add: prep_inv_def)
  next
    case (Some q)
    with body assms(2) show ?thesis by simp
  qed
qed

section \<open>A full queue\<close>

text \<open>A row whose preparation makes no progress.\<close>

definition stalled :: "preparation \<Rightarrow> preparation \<Rightarrow> bool" where
  "stalled r r' \<longleftrightarrow> prn_id r' = prn_id r \<and> prep_key r' = prep_key r \<and> prn_attempts r' = prn_attempts r
     \<and> prn_resource_id r' = prn_resource_id r \<and> prn_expires_at r' = prn_expires_at r
     \<and> active_row r' = active_row r \<and> (prn_state r' = prn_state r \<or> prn_state r' = PpWaiting)"

definition all_stalled :: "prep_world \<Rightarrow> prep_world \<Rightarrow> bool" where
  "all_stalled w w' \<longleftrightarrow> pw_db w' = pw_db w \<and> pw_blocked w' = pw_blocked w \<and> pw_ineligible w' = pw_ineligible w
     \<and> list_all2 stalled (pt_rows (pw_table w)) (pt_rows (pw_table w'))"

lemma stalled_refl: "stalled r r"
  by (simp add: stalled_def)

lemma stalled_trans: "stalled a b \<Longrightarrow> stalled b c \<Longrightarrow> stalled a c"
  by (auto simp: stalled_def)

lemma all_stalled_refl: "all_stalled w w"
  by (simp add: all_stalled_def list.rel_refl stalled_refl)

lemma all_stalled_trans: "all_stalled a b \<Longrightarrow> all_stalled b c \<Longrightarrow> all_stalled a c"
  by (auto simp: all_stalled_def elim: list_all2_trans [where ?P1.0 = stalled and ?P2.0 = stalled and ?P3.0 = stalled, rotated]
      intro: stalled_trans)

lemma stalled_count: "list_all2 stalled rows rows' \<Longrightarrow> length (filter active_row rows') = length (filter active_row rows)"
  by (induction rule: list_all2_induct) (auto simp: stalled_def)

lemma all_stalled_count: "all_stalled w w' \<Longrightarrow> count_active (pw_table w') = count_active (pw_table w)"
  by (simp add: all_stalled_def count_active_def stalled_count)

lemma mark_waiting_stalled: "all_stalled w (map_table (mark_waiting now i None next out) w)"
  by (auto simp: all_stalled_def map_table_def mark_waiting_def upd_prep_def upd_where_def list_all2_map2 stalled_def
      prep_key_def active_row_def working_def intro!: list.rel_refl_strong)

lemma full_queue_limits: "fg_maxConcurrentTotal cfg \<le> count_active s \<Longrightarrow> check_limits cfg p s = Some ''concurrency-total''"
  by (simp add: check_limits_def)

lemma advance_all_stalls:
  assumes "fg_maxConcurrentTotal cfg \<le> count_active (pw_table w)"
  shows "all_stalled w (fst (advance_all cfg now uuid adapters rs w))
    \<and> (\<forall>(i, tr) \<in> set (snd (advance_all cfg now uuid adapters rs w)). tr = ''limited'')"
  using assms
proof (induction rs arbitrary: w)
  case Nil
  then show ?case by (simp add: all_stalled_refl)
next
  case (Cons r rs)
  let ?w = "map_table (mark_waiting now (prn_id r) None (Some (now + 60000)) (Some (NoteLimited ''concurrency-total''))) w"
  have one: "advance_due cfg now uuid adapters r w = (?w, [(prn_id r, ''limited'')])"
    by (simp add: advance_due_def full_queue_limits [OF Cons.prems])
  have st: "all_stalled w ?w" by (rule mark_waiting_stalled)
  from Cons.IH [of ?w] Cons.prems all_stalled_count [OF st] all_stalled_trans [OF st]
  show ?case by (auto simp: one Let_def split: prod.splits)
qed

section \<open>The driver keeps the invariant\<close>

definition table_ok :: "prep_world \<Rightarrow> bool" where
  "table_ok w \<longleftrightarrow> prep_inv (pw_table w)"

lemma table_ok_same [simp]:
  "table_ok (w\<lparr>pw_db := d\<rparr>) = table_ok w" "table_ok (prune_memory now w) = table_ok w"
  "table_ok (remember_content_blocked cfg now p h w) = table_ok w"
  "table_ok (remember_account_ineligible cfg now p w) = table_ok w"
  "table_ok (remember_refusal cfg now r c w) = table_ok w"
  by (simp_all add: table_ok_def prune_memory_def remember_content_blocked_def remember_account_ineligible_def
      remember_refusal_def Let_def)

lemma map_table_ok: "table_ok w \<Longrightarrow> (\<And>s. prep_inv s \<Longrightarrow> prep_inv (f s)) \<Longrightarrow> table_ok (map_table f w)"
  by (simp add: table_ok_def map_table_def)

lemma fail_preparation_ok: "table_ok w \<Longrightarrow> table_ok (fst (fail_preparation now i st msg note tr w))"
  by (auto simp: fail_preparation_def table_ok_def split: sum.splits intro: mark_failed_inv)

lemma park_row_ok: "table_ok w \<Longrightarrow> table_ok (fst (park_row cfg now r ended parked w))"
  unfolding park_row_def Let_def
  using fail_preparation_ok [of w now "prn_id r" PpFailedTerminal "fst ended" None "snd ended"]
    fail_preparation_ok [of w now "prn_id r" PpFailedTemporary "fst parked" None "snd parked"]
  by (auto split: prod.splits sum.splits intro!: map_table_ok requeue_inv)

lemma close_row_ok: "table_ok w \<Longrightarrow> table_ok (fst (close_row now uuid r result w))"
  by (auto simp: close_row_def split: prod.splits sum.splits intro!: map_table_ok mark_notified_inv mark_ready_inv)

lemma advance_to_next_inv:
  "advance_to_next_provider cfg now r p s = Inr (s', c) \<Longrightarrow> prep_inv s \<Longrightarrow> prep_inv s'"
  by (auto simp: advance_to_next_provider_def Let_def res_bind_Inr split: if_splits prod.splits intro: start_or_join_inv)

lemma refused_row_ok: "table_ok w \<Longrightarrow> table_ok (fst (refused_row cfg now r result next w))"
proof -
  assume ok: "table_ok w"
  have "table_ok (w\<lparr>pw_table := s\<rparr>)" if "(if to_prepare_outcome result \<in> {PoContentBlocked, PoAccountIneligible} \<and> prn_provider r \<noteq> []
      then advance_to_next_provider cfg now r (prn_provider r) (pw_table w) else Inr (pw_table w, None)) = Inr (s, c)" for s c
    using that ok by (auto simp: table_ok_def split: if_splits intro: advance_to_next_inv)
  with ok show ?thesis
    unfolding refused_row_def Let_def
    by (split sum.split) (auto split: prod.splits intro!: fail_preparation_ok)
qed

lemma handle_result_ok: "table_ok w \<Longrightarrow> table_ok (fst (handle_result cfg now uuid r result w))"
  unfolding handle_result_def Let_def
  by (auto intro!: close_row_ok refused_row_ok park_row_ok map_table_ok mark_waiting_inv)

lemma step_row_ok: "table_ok w \<Longrightarrow> table_ok (fst (step_row cfg now uuid a r w))"
  unfolding step_row_def
  by (auto split: sum.splits option.splits bool.splits intro!: handle_result_ok fail_preparation_ok map_table_ok mark_waiting_inv)

lemma advance_row_ok: "table_ok w \<Longrightarrow> table_ok (fst (advance_row cfg now uuid adapters r w))"
proof (cases "adapters (prn_provider r)")
  case (Some a)
  assume "table_ok w"
  then have "table_ok (fst (step_row cfg now uuid a r w))" by (rule step_row_ok)
  with Some show ?thesis by (auto simp: advance_row_def split: prod.splits sum.splits intro!: park_row_ok)
qed (simp add: advance_row_def fail_preparation_ok)

lemma advance_due_ok: "table_ok w \<Longrightarrow> table_ok (fst (advance_due cfg now uuid adapters r w))"
proof -
  assume ok: "table_ok w"
  have claimed: "table_ok (w\<lparr>pw_table := fst (claim_due now (prn_id r) PpAcquiring (pw_table w))\<rparr>)"
    using ok by (simp add: table_ok_def claim_inv)
  obtain s c where cl: "claim_due now (prn_id r) PpAcquiring (pw_table w) = (s, c)" by fastforce
  show ?thesis
  proof (cases "check_limits cfg (prn_provider r) (pw_table w)")
    case None
    show ?thesis
    proof (cases c)
      case none: None
      with None cl claimed show ?thesis by (simp add: advance_due_def)
    next
      case (Some q)
      have "table_ok (fst (advance_row cfg now (uuid (prn_id r)) adapters q (w\<lparr>pw_table := s\<rparr>)))"
        using claimed cl by (intro advance_row_ok) simp
      then show ?thesis by (auto simp: advance_due_def None cl Some split: prod.splits sum.splits)
    qed
  next
    case (Some l)
    with ok show ?thesis by (auto simp: advance_due_def intro!: map_table_ok mark_waiting_inv)
  qed
qed

lemma advance_all_ok: "table_ok w \<Longrightarrow> table_ok (fst (advance_all cfg now uuid adapters rs w))"
proof (induction rs arbitrary: w)
  case (Cons r rs)
  from Cons.IH [OF advance_due_ok [OF Cons.prems]] show ?case by (simp add: Let_def split_beta)
qed simp

lemma advance_once_ok: "table_ok w \<Longrightarrow> table_ok (fst (advance_once cfg now uuid adapters limit w))"
  unfolding advance_once_def Let_def by (intro advance_all_ok) (simp add: table_ok_def expire_inv)

lemma start_preparation_ok: "table_ok w \<Longrightarrow> table_ok (fst (start_preparation cfg now x providers w))"
proof -
  assume "table_ok w"
  then have "prep_inv (pw_table (prune_memory now w))" using table_ok_same(2) [of now w] by (simp add: table_ok_def)
  then show ?thesis
    unfolding start_preparation_def Let_def
    by (auto simp: table_ok_def split: sum.splits prod.splits intro: start_or_join_inv)
qed

text \<open>What happens to the table: plays start preparations, the ticker runs, rows are cancelled and pruned.\<close>

datatype prep_event =
    PlayStarts int prep_input "string list"
  | Tick int "nat \<Rightarrow> nat \<Rightarrow> string" "string \<Rightarrow> prep_adapter option" nat
  | CancelRow int nat string
  | PruneRows int int

fun prep_event_step :: "prep_config \<Rightarrow> prep_world \<Rightarrow> prep_event \<Rightarrow> prep_world" where
  "prep_event_step cfg w (PlayStarts now x providers) = fst (start_preparation cfg now x providers w)"
| "prep_event_step cfg w (Tick now uuid adapters limit) = fst (advance_once cfg now uuid adapters limit w)"
| "prep_event_step cfg w (CancelRow now i reason) = map_table (mark_prep_cancelled now i reason) w"
| "prep_event_step cfg w (PruneRows now age) = map_table (\<lambda>s. fst (prune_terminal now age s)) w"

lemma cancel_inv: "prep_inv s \<Longrightarrow> prep_inv (mark_prep_cancelled now i reason s)"
  unfolding mark_prep_cancelled_def by (rule upd_prep_inv) (auto simp: calmer_def prep_key_def active_row_def)

lemma prune_inv: "prep_inv s \<Longrightarrow> prep_inv (fst (prune_terminal now age s))"
  by (auto simp: prep_inv_def prune_terminal_def single_flight_def unique_where_def unique_by_def distinct_map
      intro: inj_on_subset)

lemma event_ok: "table_ok w \<Longrightarrow> table_ok (prep_event_step cfg w e)"
  by (cases e) (simp_all add: start_preparation_ok advance_once_ok map_table_ok cancel_inv prune_inv)

text \<open>
  C29: At most one preparation of a release is active at a provider. The invariant of the table (this, and
  that ids are unique and were given out) is kept by any sequence of started plays, ticks of the driver,
  cancellations and prunings, whatever the providers answer.
\<close>

theorem preparation_single_flight:
  assumes "prep_inv (pw_table w)"
  shows "prep_inv (pw_table (foldl (prep_event_step cfg) w events))"
proof -
  have "table_ok (foldl (prep_event_step cfg) w events)"
    using assms by (induction events arbitrary: w) (auto simp: table_ok_def event_ok [unfolded table_ok_def])
  then show ?thesis by (simp add: table_ok_def)
qed

section \<open>A full queue stands still\<close>

lemma expire_none: "(\<And>r. r \<in> set rows \<Longrightarrow> \<not> P r) \<Longrightarrow> upd_first n P f rows = rows"
  by (induction rows) auto

lemma advance_once_stalls:
  assumes "fg_maxConcurrentTotal cfg \<le> count_active (pw_table w)" "\<forall>r \<in> set (pt_rows (pw_table w)). unexpired now r"
  shows "all_stalled w (fst (advance_once cfg now uuid adapters limit w))
    \<and> (\<forall>(i, tr) \<in> set (snd (advance_once cfg now uuid adapters limit w)). tr = ''limited'')"
proof -
  have "\<not> overdue now r" if "r \<in> set (pt_rows (pw_table w))" for r
    using assms(2) that by (auto simp: overdue_def unexpired_def split: option.splits)
  then have "fst (expire_overdue now 50 (pw_table w)) = pw_table w"
    by (simp add: expire_overdue_def expire_none)
  with advance_all_stalls [OF assms(1)] show ?thesis by (simp add: advance_once_def)
qed

fun is_tick :: "int list \<Rightarrow> prep_event \<Rightarrow> bool" where
  "is_tick clock (Tick now uuid adapters limit) = (now \<in> set clock)"
| "is_tick clock _ = False"

lemma stalled_expiry: "list_all2 stalled rows rows' \<Longrightarrow> \<forall>r \<in> set rows. unexpired t r \<Longrightarrow> \<forall>r \<in> set rows'. unexpired t r"
  by (induction rule: list_all2_induct) (auto simp: stalled_def unexpired_def)

text \<open>
  C30: When as many preparations are active as may run at the same time (by default two), none of them
  makes progress until one expires: every tick parks each row that is due, without asking a provider and
  without using an attempt, because a row counts itself and every waiting row against the limit. The
  database and the memory of refusals stay the same, and as many rows stay active.
\<close>

theorem full_queue_stands_still:
  assumes "fg_maxConcurrentTotal cfg \<le> count_active (pw_table w)"
    and "list_all (is_tick clock) ticks" "\<forall>t \<in> set clock. \<forall>r \<in> set (pt_rows (pw_table w)). unexpired t r"
  shows "all_stalled w (foldl (prep_event_step cfg) w ticks)
    \<and> count_active (pw_table (foldl (prep_event_step cfg) w ticks)) = count_active (pw_table w)"
proof -
  have "all_stalled w (foldl (prep_event_step cfg) w ticks)"
    using assms
  proof (induction ticks arbitrary: w)
    case Nil
    then show ?case by (simp add: all_stalled_refl)
  next
    case (Cons e ticks)
    from Cons.prems(2) obtain now uuid adapters limit where e: "e = Tick now uuid adapters limit" "now \<in> set clock"
      by (cases e) auto
    let ?w = "fst (advance_once cfg now uuid adapters limit w)"
    have one: "all_stalled w ?w" using advance_once_stalls [OF Cons.prems(1)] Cons.prems(3) e(2) by blast
    have later: "\<forall>t \<in> set clock. \<forall>r \<in> set (pt_rows (pw_table ?w)). unexpired t r"
      using one Cons.prems(3) stalled_expiry unfolding all_stalled_def by blast
    have "all_stalled ?w (foldl (prep_event_step cfg) ?w ticks)"
      using Cons.prems(1,2) later all_stalled_count [OF one] by (intro Cons.IH) auto
    with one show ?case by (auto simp: e intro: all_stalled_trans)
  qed
  then show ?thesis by (simp add: all_stalled_count)
qed

section \<open>The memory of refusals\<close>

lemma hd_split_on: "c \<notin> set p \<Longrightarrow> hd (split_on c (p @ c # t)) = p"
proof -
  assume "c \<notin> set p"
  then have "split_on c (p @ c # t) = p # split_on c t" by (induction p) auto
  then show ?thesis by simp
qed

lemma start_or_join_provider:
  "start_or_join now timeout x s = Inr (s', r, created) \<Longrightarrow> prn_provider r = ppx_provider x"
  by (auto simp: start_or_join_def res_bind_Inr Let_def new_preparation_def find_active_def prep_key_def
      split: if_splits option.splits dest!: find_SomeD)

lemma started_provider:
  assumes "snd (start_preparation cfg now x providers w) = Inr (Started r created)"
  shows "prn_provider r \<in> set (order_prepare_providers providers (blocked_providers (prune_memory now w))
    (ineligible_providers (prune_memory now w)))"
proof -
  let ?o = "order_prepare_providers providers (blocked_providers (prune_memory now w)) (ineligible_providers (prune_memory now w))"
  have ne: "?o \<noteq> []" using assms by (auto simp: start_preparation_def Let_def)
  from assms ne obtain s where "start_or_join now (fg_preparationTimeoutMs cfg) (x\<lparr>ppx_provider := hd ?o,
      ppx_candidate := (ppx_candidate x)\<lparr>cd_plan := ?o\<rparr>\<rparr>) (pw_table (prune_memory now w)) = Inr (s, r, created)"
    by (auto simp: start_preparation_def Let_def split: if_splits sum.splits prod.splits)
  from start_or_join_provider [OF this] ne show ?thesis by simp
qed

text \<open>
  C34: One release that a provider refuses on grounds of content shuts the provider out for every release:
  until the refusal expires no preparation of any release is started at the provider, and none at all when
  it is the only one.
\<close>

theorem content_block_hides_provider:
  assumes "CHR '':'' \<notin> set (prn_provider q)" "later < now + fg_contentBlockedTtlMs cfg"
  shows "(snd (start_preparation cfg later x providers (remember_refusal cfg now q PoContentBlocked w)) = Inr (Started r created)
      \<longrightarrow> prn_provider r \<noteq> prn_provider q)
    \<and> (set providers \<subseteq> {prn_provider q} \<longrightarrow>
      snd (start_preparation cfg later x providers (remember_refusal cfg now q PoContentBlocked w)) = Inr (NotStarted ''no-eligible-provider''))"
proof (rule conjI)
  let ?w = "prune_memory later (remember_refusal cfg now q PoContentBlocked w)"
  have "(prn_provider q @ '':'' @ js_lower (prn_info_hash q), now + fg_contentBlockedTtlMs cfg) \<in> set (pw_blocked ?w)"
    using assms(2) by (simp add: prune_memory_def remember_refusal_def remember_content_blocked_def Let_def)
  then have "hd (split_on CHR '':'' (prn_provider q @ '':'' @ js_lower (prn_info_hash q))) \<in> blocked_providers ?w"
    unfolding blocked_providers_def by force
  then have blocked: "prn_provider q \<in> blocked_providers ?w" using hd_split_on [OF assms(1)] by simp
  show "snd (start_preparation cfg later x providers (remember_refusal cfg now q PoContentBlocked w)) = Inr (Started r created)
      \<longrightarrow> prn_provider r \<noteq> prn_provider q"
    using blocked by (auto simp: order_prepare_providers_def dest: started_provider)
  show "set providers \<subseteq> {prn_provider q} \<longrightarrow>
      snd (start_preparation cfg later x providers (remember_refusal cfg now q PoContentBlocked w)) = Inr (NotStarted ''no-eligible-provider'')"
  proof
    assume "set providers \<subseteq> {prn_provider q}"
    then have "order_prepare_providers providers (blocked_providers ?w) (ineligible_providers ?w) = []"
      using blocked by (auto simp: order_prepare_providers_def filter_empty_conv)
    then show "snd (start_preparation cfg later x providers (remember_refusal cfg now q PoContentBlocked w)) = Inr (NotStarted ''no-eligible-provider'')"
      by (simp add: start_preparation_def)
  qed
qed

section \<open>A candidate whose size is null\<close>

lemma coord_size_null: "cd_size (prn_candidate r) = SizeNull \<Longrightarrow> pc_size (coord_of r) = Some 0"
  by (simp add: coord_of_def Let_def is_safe_integer_def max_safe_def)

lemma rd_size_zero: "pc_size x = Some 0 \<Longrightarrow> \<exists>e. rd_map_target_file classify fullPath tokens files x = Inl e"
  by (auto simp: rd_map_target_file_def is_valid_size_def is_safe_integer_def max_safe_def split: option.splits)

lemma tb_mappable_positive: "f \<in> set (tb_mappable files) \<Longrightarrow> tb_size f \<noteq> Some 0"
  by (auto simp: tb_mappable_def is_valid_size_def)

text \<open>The files that have the base name of the candidate, when every file has one.\<close>

definition named_alike :: "tb_file list \<Rightarrow> string \<Rightarrow> tb_file list" where
  "named_alike files v = filter (\<lambda>f. map_option js_lower (base_name (tb_path f)) = map_option js_lower (base_name v)) files"

lemma tb_pick_zero:
  assumes "pc_size x = Some 0" "\<And>f. f \<in> set named \<Longrightarrow> tb_size f \<noteq> Some 0"
  shows "tb_pick named x = Inr (Inr f) \<longleftrightarrow> length named \<noteq> 1 \<and> (\<exists>v. pc_filename x = Some v \<and> v \<noteq> [] \<and> base_name v \<noteq> None
      \<and> (\<forall>g \<in> set named. base_name (tb_path g) \<noteq> None) \<and> named_alike named v = [f])"
proof -
  have none: "filter (\<lambda>f. tb_size f = Some 0) pool = []" if "set pool \<subseteq> set named" for pool
    using assms(2) that by (auto simp: filter_empty_conv)
  consider (one) g where "named = [g]" | (many) "length named \<noteq> 1" by (cases named rule: list.exhaust; cases "tl named") auto
  then show ?thesis
  proof cases
    case one
    then show ?thesis using assms by (simp add: tb_pick_def is_safe_integer_def max_safe_def)
  next
    case many
    then have split: "(case named of [f] \<Rightarrow> a f | _ \<Rightarrow> b) = b" for a and b :: "(string + tb_file) res"
      by (auto split: list.splits)
    have alike: "set (named_alike named v) \<subseteq> set named" for v by (auto simp: named_alike_def)
    show ?thesis
    proof (cases "\<exists>v. pc_filename x = Some v \<and> v \<noteq> []")
      case True
      then obtain v where v: "pc_filename x = Some v" "v \<noteq> []" by blast
      let ?bad = "base_name v = None \<or> list_ex (\<lambda>f. base_name (tb_path f) = None) named"
      note no = none [OF alike [of v]] none [OF subset_refl]
      have "tb_pick named x = (if ?bad then Inl (TypeError ''Cannot read properties of undefined'')
          else (case (if length (named_alike named v) = 1 then named_alike named v else []) of
            [f] \<Rightarrow> Inr (Inr f) | _ \<Rightarrow> Inr (Inl ''tb-mapping-ambiguous'')))"
        unfolding tb_pick_def split Let_def v(1) assms(1) option.case named_alike_def [of named v, symmetric]
        using v(2) no by (cases "named_alike named v = []") simp_all
      then show ?thesis using many v by (auto simp: list_ex_iff length_Suc_conv split: list.splits)
    next
      case False
      then have "tb_pick named x = Inr (Inl ''tb-mapping-ambiguous'')"
        unfolding tb_pick_def split Let_def using none [of named] by (auto simp: assms(1) split: option.splits)
      with False show ?thesis by auto
    qed
  qed
qed

text \<open>
  C33: A candidate whose size is \<open>null\<close>, that is not known, is prepared as if it had 0 bytes. Real-Debrid then
  maps no file to it, whatever the files and their classification, and a downloaded torrent is answered as
  a failure. TorBox refuses the only mappable file of a torrent, which it would take if the size were absent,
  and of several files it picks one exactly if the name decides: if it is the only one with the base name of
  the candidate.
\<close>

theorem null_size_is_zero_bytes:
  assumes "cd_size (prn_candidate r) = SizeNull"
    and unsized: "r0 = r\<lparr>prn_candidate := (prn_candidate r)\<lparr>cd_size := SizeAbsent\<rparr>\<rparr>"
  shows "(\<exists>e. rd_map_target_file classify fullPath tokens files (coord_of r) = Inl e)
    \<and> rd_poll (rd_map_target_file classify fullPath tokens) (RdTorrent ''downloaded'' files) (coord_of r) = no_result
    \<and> (\<forall>tfiles f. tb_mappable tfiles = [f] \<longrightarrow> tb_pick [f] (coord_of r0) = Inr (Inr f)
        \<and> tb_map_target_file tfiles (coord_of r) = Inr (Inl ''tb-exact-file-size-mismatch'')
        \<and> tb_poll (TbTorrent ''completed'' tfiles) (coord_of r) = no_result)
    \<and> (\<forall>tfiles f. tb_pick (tb_mappable tfiles) (coord_of r) = Inr (Inr f) \<longleftrightarrow> length (tb_mappable tfiles) \<noteq> 1
        \<and> (\<exists>v. pc_filename (coord_of r) = Some v \<and> v \<noteq> [] \<and> base_name v \<noteq> None
            \<and> (\<forall>g \<in> set (tb_mappable tfiles). base_name (tb_path g) \<noteq> None) \<and> named_alike (tb_mappable tfiles) v = [f]))"
proof -
  note zero = coord_size_null [OF assms(1)]
  obtain e where e: "rd_map_target_file classify fullPath tokens files (coord_of r) = Inl e"
    using rd_size_zero [OF zero] by blast
  have absent: "tb_pick [f] (coord_of r0) = Inr (Inr f)" for f
    by (simp add: unsized coord_of_def Let_def tb_pick_def)
  have single: "tb_map_target_file tfiles (coord_of r) = Inr (Inl ''tb-exact-file-size-mismatch'')"
    if "tb_mappable tfiles = [f]" for tfiles f
  proof -
    have "tb_size f \<noteq> Some 0" "tfiles \<noteq> []" using that tb_mappable_positive [of f tfiles] by (auto simp: tb_mappable_def)
    then show ?thesis using that zero by (simp add: tb_map_target_file_def tb_pick_def is_safe_integer_def max_safe_def)
  qed
  have "tb_ready_state ''completed'' = ''ready''" by code_simp
  then have "tb_poll (TbTorrent ''completed'' tfiles) (coord_of r) = no_result" if "tb_mappable tfiles = [f]" for tfiles f
    using single [OF that] by (simp add: tb_poll_def)
  moreover note tb_pick_zero [OF zero tb_mappable_positive]
  ultimately show ?thesis using e absent single by (simp add: rd_poll_def)
qed

section \<open>Resources that are polled\<close>

lemma fail_preparation_frame: "pw_db (fst (fail_preparation now i st msg note tr w)) = pw_db w"
    "snd (fail_preparation now i st msg note tr w) = Inr x \<Longrightarrow> x = tr"
  by (auto simp: fail_preparation_def split: sum.splits)

lemma fail_preparation_pair:
  "fail_preparation now i st msg note tr w = (w1, out) \<Longrightarrow> pw_db w1 = pw_db w \<and> (\<forall>x. out = Inr x \<longrightarrow> x = tr)"
  by (auto simp: fail_preparation_def split: sum.splits)

lemma park_row_frame: "pw_db (fst (park_row cfg now r ended parked w)) = pw_db w"
    "snd (park_row cfg now r ended parked w) = Inr x \<Longrightarrow> x = snd ended \<or> x = snd parked"
  by (auto simp: park_row_def Let_def map_table_def fail_preparation_frame split: if_splits prod.splits sum.splits
      dest: fail_preparation_pair fail_preparation_frame(2))

lemma refused_row_frame: "pw_db (fst (refused_row cfg now r result next w)) = pw_db w"
    "snd (refused_row cfg now r result next w) = Inr x \<Longrightarrow>
      x = prepare_state_text next \<or> x = prepare_state_text next @ ''-chained''"
  by (auto simp: refused_row_def Let_def fail_preparation_frame split: sum.splits prod.splits if_splits dest: fail_preparation_frame(2))

lemma refusal_db [simp]: "pw_db (remember_refusal cfg now r c w) = pw_db w"
  by (simp add: remember_refusal_def remember_content_blocked_def remember_account_ineligible_def Let_def)

text \<open>A row is reported ready only when its placement was persisted.\<close>

lemma ready_result:
  assumes "handle_result cfg now uuid r result w = (w', Inr ''ready'')"
  obtains p t where "persist_prepared_placement now uuid r result (pw_db w) = (pw_db w', Inr (p, t))"
proof -
  let ?next = "next_preparation_state (if prn_state r = PpQueued then PpQueued else PpWaiting) (to_prepare_outcome result)"
  let ?w = "remember_refusal cfg now r (to_prepare_outcome result) w"
  have "?next = PpReady"
  proof (rule ccontr)
    assume no: "?next \<noteq> PpReady"
    have texts: "prepare_state_text st \<noteq> ''ready'' \<and> prepare_state_text st @ ''-chained'' \<noteq> ''ready''" if "st \<noteq> PpReady" for st
      using that by (cases st) (simp_all add: prepare_state_text_def)
    show False
    proof (cases "?next = PpFailedPolicy \<or> ?next = PpFailedTerminal")
      case True
      with assms no have "refused_row cfg now r result ?next ?w = (w', Inr ''ready'')"
        by (auto simp: handle_result_def Let_def)
      with refused_row_frame(2) [of cfg now r result ?next ?w "''ready''"] texts [OF no] show False by auto
    next
      case refused: False
      show False
      proof (cases "?next = PpAcquiring \<or> ?next = PpWaiting")
        case True
        with assms no texts [OF no] show False by (auto simp: handle_result_def Let_def split: if_splits)
      next
        case False
        with assms no refused have "park_row cfg now r (''attempts-exhausted'', ''exhausted'')
            (outcome_text (to_prepare_outcome result), ''retry-parked'') ?w = (w', Inr ''ready'')"
          by (auto simp: handle_result_def Let_def)
        with park_row_frame(2) [of cfg now r "(''attempts-exhausted'', ''exhausted'')"
            "(outcome_text (to_prepare_outcome result), ''retry-parked'')" ?w "''ready''"] show False by auto
      qed
    qed
  qed
  with assms have "close_row now uuid r result ?w = (w', Inr ''ready'')" by (simp add: handle_result_def Let_def)
  then show thesis
    by (auto simp: close_row_def map_table_def split: prod.splits sum.splits intro: that)
qed

lemma polled_row:
  assumes "adapters (prn_provider r) = Some a" "has_resource r"
    and "ad_poll a (nullish (prn_resource_id r) []) (coord_of r) = Inr result"
    and "advance_row cfg now uuid adapters r w = (w', Inr ''ready'')"
  obtains p t where "persist_prepared_placement now uuid r result (pw_db w) = (pw_db w', Inr (p, t))"
proof (cases "handle_result cfg now uuid r result w")
  case (Pair w1 out)
  show thesis
  proof (cases out)
    case (Inl e)
    with assms Pair have "park_row cfg now r (''error-exhausted:'' @ take 120 (err_text e), ''error-exhausted'')
          (take 160 (err_text e), ''error-parked'') w1 = (w', Inr ''ready'')"
      by (simp add: advance_row_def step_row_def)
    with park_row_frame(2) [of cfg now r "(''error-exhausted:'' @ take 120 (err_text e), ''error-exhausted'')"
        "(take 160 (err_text e), ''error-parked'')" w1 "''ready''"] show thesis by auto
  next
    case (Inr tr)
    with assms Pair have "handle_result cfg now uuid r result w = (w', Inr ''ready'')"
      by (simp add: advance_row_def step_row_def)
    then show thesis by (rule ready_result) (rule that)
  qed
qed

text \<open>What a stored placement observation gives back.\<close>

lemma write_placement_found:
  assumes "write_placement row d = Inr (d', Some p)"
    and same: "\<And>old. find (\<lambda>x. placement_key x = placement_key row) (db_placements d) = Some old \<Longrightarrow> pl_info_hash old = pl_info_hash row"
  shows "p \<in> set (db_placements d') \<and> placement_key p = placement_key row \<and> pl_info_hash p = pl_info_hash row"
proof (cases "find (\<lambda>x. placement_key x = placement_key row) (db_placements d)")
  case None
  with assms(1) show ?thesis by (auto simp: write_placement_def Let_def split: if_splits)
next
  case (Some old)
  let ?P = "\<lambda>x. placement_key x = placement_key row"
  let ?tab = "upd_where (\<lambda>x. ?P x \<and> pl_observed_at x \<le> pl_observed_at row) (merge_placement row) (db_placements d)"
  from Some assms(1) have d': "db_placements d' = ?tab" "find ?P ?tab = Some p"
    by (auto simp: write_placement_def Let_def split: if_splits)
  have keys: "placement_key (merge_placement row x) = placement_key x" "pl_info_hash (merge_placement row x) = pl_info_hash x" for x
    by (simp_all add: placement_key_def merge_placement_def)
  have "find ?P ?tab = map_option (\<lambda>x. if ?P x \<and> pl_observed_at x \<le> pl_observed_at row then merge_placement row x else x)
      (find ?P (db_placements d))"
    by (rule find_upd_where) (simp add: keys)
  with Some d'(2) have "pl_info_hash p = pl_info_hash old" by (auto simp: keys split: if_splits)
  with find_SomeD [OF d'(2)] same [OF Some] d'(1) show ?thesis by simp
qed

lemma record_placement_found:
  assumes "record_placement now u x d = Inr (d', Some p)"
    and "normalize_identifier (plx_provider x) = Inr prov" "account_scope_or_default (plx_accountScope x) = Inr acc"
    and "require_string (plx_resourceId x) ''providerResourceId'' 256 = Inr res"
    and "create_release_identity (plx_infoHash x) JNull = Inr idn"
  shows "p \<in> set (db_placements d') \<and> placement_key p = (prov, acc, res) \<and> pl_info_hash p = ri_infoHash idn"
proof -
  let ?find = "find (\<lambda>r. placement_key r = (prov, acc, res)) (db_placements d)"
  let ?put = "res_bind (placement_row now u x (ri_infoHash idn) prov acc res) (\<lambda>row. write_placement row d)"
  from assms have body: "(case ?find of
       Some old \<Rightarrow> if pl_info_hash old \<noteq> ri_infoHash idn
         then Inl (JsError ''Provider resource observation cannot change its torrent hash'')
         else if nullish (plx_observedAt x) now < pl_observed_at old then Inr (d, Some old) else ?put
     | None \<Rightarrow> ?put) = Inr (d', Some p)"
    by (simp add: record_placement_def Let_def)
  have written: ?thesis if w: "?put = Inr (d', Some p)"
    and h: "\<And>old. ?find = Some old \<Longrightarrow> pl_info_hash old = ri_infoHash idn"
  proof -
    from w obtain row where row: "placement_row now u x (ri_infoHash idn) prov acc res = Inr row" "write_placement row d = Inr (d', Some p)"
      by (auto simp: res_bind_Inr)
    from placement_row_Inr [OF row(1)] write_placement_found [OF row(2)] h show ?thesis by simp
  qed
  show ?thesis
  proof (cases ?find)
    case None
    with body written show ?thesis by simp
  next
    case (Some old)
    with body written find_SomeD [OF Some] show ?thesis by (auto split: if_splits)
  qed
qed

lemma record_placement_other_hash:
  assumes "p \<in> set (db_placements d)" "placement_key p = (prov, acc, res)" "placement_inv d"
    and "normalize_identifier (plx_provider x) = Inr prov" "account_scope_or_default (plx_accountScope x) = Inr acc"
    and "require_string (plx_resourceId x) ''providerResourceId'' 256 = Inr res"
    and "create_release_identity (plx_infoHash x) JNull = Inr idn" "pl_info_hash p \<noteq> ri_infoHash idn"
  shows "record_placement now u x d = Inl (JsError ''Provider resource observation cannot change its torrent hash'')"
proof -
  have "find (\<lambda>r. placement_key r = (prov, acc, res)) (db_placements d) = Some p"
    using find_unique [of placement_key "db_placements d" p] assms(1-3) by (simp add: placement_inv_def)
  with assms(4-) show ?thesis by (simp add: record_placement_def Let_def)
qed

lemma inventory_placements:
  assumes "replace_provider_file_inventory now uuid p files opts d = Inr (d', l)"
  shows "db_placements d' = db_placements d"
proof -
  have "d' = d \<or> (\<exists>rows ev. d' = d\<lparr>db_provider_files := db_provider_files d', db_torrent_files := db_torrent_files d',
      db_events := db_events d', db_inventories := rows, db_delivery := ev\<rparr>)"
    using assms by (cases rule: replace_inventory_cases) (blast elim: replaced_frame)+
  then show ?thesis by (elim disjE exE; cases d; cases d'; simp)
qed

text \<open>The placement of a result without a resource id.\<close>

lemma unnamed_placement_input:
  assumes "px_providerResourceId result = None" "prn_provider r = ''torbox''" "info_hash_pattern (prn_info_hash r)"
  shows "normalize_identifier (plx_provider (prepared_placement r result)) = Inr ''torbox''"
    "account_scope_or_default (plx_accountScope (prepared_placement r result)) = Inr ''default''"
    "require_string (plx_resourceId (prepared_placement r result)) ''providerResourceId'' 256 = Inr ''undefined''"
    "\<exists>i. create_release_identity (plx_infoHash (prepared_placement r result)) JNull = Inr i \<and> ri_infoHash i = prn_info_hash r"
proof -
  show "normalize_identifier (plx_provider (prepared_placement r result)) = Inr ''torbox''"
    unfolding prepared_placement_def using assms(2) by simp code_simp
  show "account_scope_or_default (plx_accountScope (prepared_placement r result)) = Inr ''default''"
    unfolding prepared_placement_def by simp code_simp
  show "require_string (plx_resourceId (prepared_placement r result)) ''providerResourceId'' 256 = Inr ''undefined''"
    unfolding prepared_placement_def using assms(1) by (simp add: text_of_def) code_simp
  show "\<exists>i. create_release_identity (plx_infoHash (prepared_placement r result)) JNull = Inr i \<and> ri_infoHash i = prn_info_hash r"
    using assms(3) by (simp add: prepared_placement_def create_release_identity_def normalize_info_hash_def
        validate_file_index_def js_lower_hex)
qed

lemma persisted_unnamed:
  assumes run: "persist_prepared_placement now uuid r result d = (d', Inr (i, t))" and ok: "placement_inv d"
    and r: "px_providerResourceId result = None" "prn_provider r = ''torbox''" "info_hash_pattern (prn_info_hash r)"
  shows "placement_inv d'"
    "\<exists>p \<in> set (db_placements d'). placement_key p = (''torbox'', ''default'', ''undefined'') \<and> pl_info_hash p = prn_info_hash r"
proof -
  from run obtain d1 p l where stored: "record_placement now (uuid 0) (prepared_placement r result) d = Inr (d1, Some p)"
    and inventory: "db_placements d' = db_placements d1"
    by (auto simp: persist_prepared_placement_def run_Inr inventory_placements split: option.splits if_splits)
  from unnamed_placement_input(4) [OF r] obtain idn where
    idn: "create_release_identity (plx_infoHash (prepared_placement r result)) JNull = Inr idn" "ri_infoHash idn = prn_info_hash r" by blast
  from record_placement_found [OF stored unnamed_placement_input(1-3) [OF r] idn(1)] idn(2) inventory
  show "\<exists>p \<in> set (db_placements d'). placement_key p = (''torbox'', ''default'', ''undefined'') \<and> pl_info_hash p = prn_info_hash r"
    by auto
  from record_placement_inv [OF stored ok] inventory show "placement_inv d'" by (simp add: placement_inv_def)
qed

text \<open>
  C31: A TorBox torrent that becomes ready while it is polled is stored as the provider resource
  \<open>undefined\<close>, since the answer to a poll does not repeat the id of the resource. The next release whose
  torrent becomes ready in the same way can therefore not be stored any more: its preparation never gets
  ready at this step.
\<close>

theorem polled_placements_collide:
  assumes "adapters ''torbox'' = Some a" "\<forall>i x. ad_poll a i x = Inr (tb_poll (answer i) x)"
    and "prn_provider r1 = ''torbox''" "has_resource r1" "info_hash_pattern (prn_info_hash r1)"
    and "prn_provider r2 = ''torbox''" "has_resource r2" "info_hash_pattern (prn_info_hash r2)"
    and "prn_info_hash r1 \<noteq> prn_info_hash r2" "placement_inv (pw_db w)"
    and "advance_row cfg now uuid adapters r1 w = (w1, Inr ''ready'')" "pw_db w2 = pw_db w1"
  shows "(\<exists>p \<in> set (db_placements (pw_db w1)). placement_key p = (''torbox'', ''default'', ''undefined'')
      \<and> pl_info_hash p = prn_info_hash r1)
    \<and> snd (advance_row cfg later uuid2 adapters r2 w2) \<noteq> Inr ''ready''"
proof (rule conjI)
  let ?res = "\<lambda>r. tb_poll (answer (nullish (prn_resource_id r) [])) (coord_of r)"
  have none: "px_providerResourceId (?res r) = None" for r
    by (auto simp: tb_poll_def no_result_def Let_def split: tb_answer.splits sum.splits)
  from polled_row [of adapters r1 a "?res r1", OF _ assms(4) _ assms(11)] assms(1-3) obtain i t where
    run: "persist_prepared_placement now uuid r1 (?res r1) (pw_db w) = (pw_db w1, Inr (i, t))" by auto
  note unnamed = persisted_unnamed [OF run assms(10) none assms(3,5)]
  then show "\<exists>p \<in> set (db_placements (pw_db w1)). placement_key p = (''torbox'', ''default'', ''undefined'')
      \<and> pl_info_hash p = prn_info_hash r1" by blast
  then obtain p where p: "p \<in> set (db_placements (pw_db w2))" "placement_key p = (''torbox'', ''default'', ''undefined'')"
    "pl_info_hash p = prn_info_hash r1" using assms(12) by auto
  show "snd (advance_row cfg later uuid2 adapters r2 w2) \<noteq> Inr ''ready''"
  proof
    assume "snd (advance_row cfg later uuid2 adapters r2 w2) = Inr ''ready''"
    then obtain w3 where "advance_row cfg later uuid2 adapters r2 w2 = (w3, Inr ''ready'')" by (metis prod.collapse)
    from polled_row [of adapters r2 a "?res r2", OF _ assms(7) _ this] assms(1,2,6) obtain j u where
      "persist_prepared_placement later uuid2 r2 (?res r2) (pw_db w2) = (pw_db w3, Inr (j, u))" by auto
    then obtain d q where stored: "record_placement later (uuid2 0) (prepared_placement r2 (?res r2)) (pw_db w2) = Inr (d, q)"
      by (auto simp: persist_prepared_placement_def run_Inr split: option.splits if_splits)
    from unnamed_placement_input(4) [OF none assms(6,8)] obtain idn where
      idn: "create_release_identity (plx_infoHash (prepared_placement r2 (?res r2))) JNull = Inr idn" "ri_infoHash idn = prn_info_hash r2" by blast
    have "placement_inv (pw_db w2)" "pl_info_hash p \<noteq> ri_infoHash idn" using unnamed(1) assms(9,12) p(3) idn(2) by simp_all
    from record_placement_other_hash [OF p(1,2) this(1) unnamed_placement_input(1-3) [OF none assms(6,8)] idn(1) this(2), of later "uuid2 0"] stored
    show False by simp
  qed
qed

text \<open>
  C32: A Real-Debrid torrent that is polled never gets ready: the answer carries no complete inventory,
  so the placement of a downloaded torrent is not stored, the database stays the same, and the preparation
  is tried again until its attempts are used up.
\<close>

theorem rd_poll_never_ready:
  assumes "adapters (prn_provider r) = Some a" "\<forall>i x. ad_poll a i x = Inr (rd_poll map_target (answer i) x)" "has_resource r"
  shows "pw_db (fst (advance_row cfg now uuid adapters r w)) = pw_db w
    \<and> snd (advance_row cfg now uuid adapters r w) \<noteq> Inr ''ready''"
proof -
  let ?result = "rd_poll map_target (answer (nullish (prn_resource_id r) [])) (coord_of r)"
  have "px_inventoryFiles ?result = None"
    by (auto simp: rd_poll_def classify_add_error_def no_result_def split: rd_answer.splits sum.splits)
  then have fails: "\<exists>e. persist_prepared_placement t u r ?result d = (d, Inl e)" for t u d
    by (auto simp: persist_prepared_placement_def split: option.splits)
  have same: "pw_db (fst (handle_result cfg now uuid r ?result w)) = pw_db w"
    using fails [of now uuid "pw_db (remember_refusal cfg now r (to_prepare_outcome ?result) w)"]
    by (auto simp: handle_result_def Let_def close_row_def map_table_def refused_row_frame park_row_frame)
  obtain w1 out where h: "handle_result cfg now uuid r ?result w = (w1, out)" by (cases "handle_result cfg now uuid r ?result w")
  have "pw_db (fst (advance_row cfg now uuid adapters r w)) = pw_db w"
    using assms same h by (cases out) (simp_all add: advance_row_def step_row_def park_row_frame)
  moreover have "snd (advance_row cfg now uuid adapters r w) \<noteq> Inr ''ready''"
  proof
    assume "snd (advance_row cfg now uuid adapters r w) = Inr ''ready''"
    then obtain w' where "advance_row cfg now uuid adapters r w = (w', Inr ''ready'')" by (metis prod.collapse)
    from polled_row [OF assms(1,3) _ this, of ?result] assms(2) obtain p t where
      "persist_prepared_placement now uuid r ?result (pw_db w) = (pw_db w', Inr (p, t))" by auto
    with fails [of now uuid "pw_db w"] show False by auto
  qed
  ultimately show ?thesis by simp
qed

section \<open>Witnesses\<close>

definition other_hash :: string where
  "other_hash = replicate 40 (CHR ''b'')"

definition sample_play :: "string \<Rightarrow> prep_input" where
  "sample_play h = \<lparr>ppx_infoHash = h, ppx_provider = [], ppx_mediaType = ''movie'', ppx_mediaId = ''tt1'', ppx_season = None,
     ppx_episode = None, ppx_title = None, ppx_candidate = \<lparr>cd_filename = Some ''film.mkv'', cd_name = None, cd_size = SizeIs 700,
       cd_magnet = None, cd_plan = []\<rparr>, ppx_source = ''play'', ppx_sessionId = None\<rparr>"

definition sample_prep :: "nat \<Rightarrow> string \<Rightarrow> string \<Rightarrow> preparation" where
  "sample_prep i h p = (new_preparation 10 9000 h ((sample_play h)\<lparr>ppx_provider := p\<rparr>) i)
     \<lparr>prn_state := PpAcquiring, prn_attempts := 1, prn_resource_id := Some ''77''\<rparr>"

definition no_preparations :: prep_world where
  "no_preparations = \<lparr>pw_table = \<lparr>pt_rows = [], pt_seq = 0\<rparr>, pw_blocked = [], pw_ineligible = [], pw_db = empty_db\<rparr>"

definition two_plays :: prep_world where
  "two_plays = foldl (prep_event_step default_prep_config) no_preparations
     [PlayStarts 10 (sample_play sample_hash) [''torbox''], PlayStarts 20 (sample_play other_hash) [''torbox'']]"

definition polled_film :: tb_answer where
  "polled_film = TbTorrent ''completed'' [\<lparr>tb_id = ''5'', tb_path = ''film.mkv'', tb_size = Some 700\<rparr>]"

definition film_adapters :: "string \<Rightarrow> prep_adapter option" where
  "film_adapters p = (if p = ''torbox'' then Some \<lparr>ad_account = None, ad_acquire = (\<lambda>_ _ _. Inr no_result),
     ad_poll = (\<lambda>_ x. Inr (tb_poll polled_film x))\<rparr> else None)"

definition film_uuid :: "nat \<Rightarrow> string" where
  "film_uuid n = ''u'' @ show_nat n"

definition film_ready :: "prep_world \<times> string res" where
  "film_ready = advance_row default_prep_config 30 film_uuid film_adapters (sample_prep 1 sample_hash ''torbox'') no_preparations"

lemma preparation_single_flight_witness:
  "prep_inv (pw_table (foldl (prep_event_step default_prep_config) no_preparations
     [PlayStarts 10 (sample_play sample_hash) [''torbox''], PlayStarts 20 (sample_play sample_hash) [''torbox''],
      Tick 30 (\<lambda>_ _. ''u'') film_adapters 5]))"
  by (rule preparation_single_flight)
    (simp add: no_preparations_def prep_inv_def single_flight_def unique_where_def unique_by_def)

lemma two_plays_active: "count_active (pw_table two_plays) = 2"
  by code_simp

lemma two_plays_expiry: "\<forall>t \<in> set [1000, 70000]. \<forall>r \<in> set (pt_rows (pw_table two_plays)). unexpired t r"
  by code_simp

lemma full_queue_stands_still_witness:
  "count_active (pw_table (foldl (prep_event_step default_prep_config) two_plays
     [Tick 1000 (\<lambda>_ _. ''u'') film_adapters 5, Tick 70000 (\<lambda>_ _. ''u'') film_adapters 5])) = 2"
proof -
  have "fg_maxConcurrentTotal default_prep_config \<le> count_active (pw_table two_plays)"
    by (simp add: default_prep_config_def two_plays_active)
  then show ?thesis
    using full_queue_stands_still [of default_prep_config two_plays "[1000, 70000]"
      "[Tick 1000 (\<lambda>_ _. ''u'') film_adapters 5, Tick 70000 (\<lambda>_ _. ''u'') film_adapters 5]"] two_plays_expiry
    by (simp add: two_plays_active)
qed

lemma content_block_hides_provider_witness:
  "snd (start_preparation default_prep_config 100 (sample_play other_hash) [''torbox'']
     (remember_refusal default_prep_config 50 (sample_prep 1 sample_hash ''torbox'') PoContentBlocked no_preparations))
   = Inr (NotStarted ''no-eligible-provider'')"
  using content_block_hides_provider [of "sample_prep 1 sample_hash ''torbox''" 100 50 default_prep_config]
  by (simp add: sample_prep_def new_preparation_def default_prep_config_def)

lemma null_size_is_zero_bytes_witness:
  "tb_poll polled_film (coord_of ((sample_prep 1 sample_hash ''torbox'')\<lparr>prn_candidate := \<lparr>cd_filename = Some ''film.mkv'',
     cd_name = None, cd_size = SizeNull, cd_magnet = None, cd_plan = []\<rparr>\<rparr>)) = no_result"
proof -
  have "tb_mappable [\<lparr>tb_id = ''5'', tb_path = ''film.mkv'', tb_size = Some 700\<rparr>] = [\<lparr>tb_id = ''5'', tb_path = ''film.mkv'', tb_size = Some 700\<rparr>]"
    by code_simp
  with null_size_is_zero_bytes [of "(sample_prep 1 sample_hash ''torbox'')\<lparr>prn_candidate := \<lparr>cd_filename = Some ''film.mkv'',
     cd_name = None, cd_size = SizeNull, cd_magnet = None, cd_plan = []\<rparr>\<rparr>", OF _ refl]
  show ?thesis unfolding polled_film_def by simp
qed

lemma film_ready_run: "snd film_ready = Inr ''ready''"
  by code_simp

lemma polled_placements_collide_witness:
  "snd (advance_row default_prep_config 40 film_uuid film_adapters (sample_prep 2 other_hash ''torbox'') (fst film_ready)) \<noteq> Inr ''ready''"
proof -
  have hashes: "info_hash_pattern sample_hash" "info_hash_pattern other_hash" "sample_hash \<noteq> other_hash" by code_simp+
  have rows: "prn_provider (sample_prep i h p) = p" "has_resource (sample_prep i h p)" "prn_info_hash (sample_prep i h p) = h" for i h p
    by (simp_all add: sample_prep_def new_preparation_def sample_play_def has_resource_def)
  have run: "advance_row default_prep_config 30 film_uuid film_adapters (sample_prep 1 sample_hash ''torbox'') no_preparations
    = (fst film_ready, Inr ''ready'')" using film_ready_run by (simp add: film_ready_def prod_eq_iff)
  show ?thesis
    using polled_placements_collide [of film_adapters _ "\<lambda>_. polled_film", OF _ _ _ _ _ _ _ _ _ _ run refl]
      hashes rows by (simp add: film_adapters_def no_preparations_def placement_inv_def unique_by_def unique_where_def empty_db_def)
qed

lemma rd_poll_never_ready_witness:
  "snd (advance_row default_prep_config 30 film_uuid (\<lambda>_. Some \<lparr>ad_account = None, ad_acquire = (\<lambda>_ _ _. Inr no_result),
       ad_poll = (\<lambda>i x. Inr (rd_poll (\<lambda>files x. Inr \<lparr>mp_providerFileId = None, mp_path = ''film.mkv'', mp_size = 700\<rparr>)
          (RdTorrent ''downloaded'' [\<lparr>rd_id = ''5'', rd_path = ''film.mkv'', rd_bytes = Some 700\<rparr>]) x))\<rparr>)
     (sample_prep 1 sample_hash ''realdebrid'') no_preparations) \<noteq> Inr ''ready''"
proof -
  have "has_resource (sample_prep 1 sample_hash ''realdebrid'')" by (simp add: sample_prep_def has_resource_def)
  then show ?thesis
    using rd_poll_never_ready [of _ _ _ "\<lambda>files x. Inr \<lparr>mp_providerFileId = None, mp_path = ''film.mkv'', mp_size = 700\<rparr>"
      "\<lambda>_. RdTorrent ''downloaded'' [\<lparr>rd_id = ''5'', rd_path = ''film.mkv'', rd_bytes = Some 700\<rparr>]"] by simp
qed

end
