(* ===== verification/Retirement.thy ===== *)
theory Retirement
  imports Store_Library Store_Bindings Promotion_Store Canonical_Path
begin

text \<open>
  Temporary publications, \<open>library/retirement.js\<close>, with the request intents of \<open>library/intent.js\<close> and the
  control-plane part of \<open>library/unpublish.js\<close>: a published item is permanent, or temporary with the time
  at which it retires. The sweep unpublishes due items unless the media is owned by a permanent promotion, and
  sightings of playback move the time: a start keeps the item, an end lets it go after a day.
\<close>

section \<open>Request intents\<close>

definition day_ms :: int where
  "day_ms = 24 * 60 * 60 * 1000"

definition default_temp_ttl_ms :: int where
  "default_temp_ttl_ms = 7 * day_ms"

definition min_temp_ttl_ms :: int where
  "min_temp_ttl_ms = 3 * 60 * 1000"

definition max_temp_ttl_ms :: int where
  "max_temp_ttl_ms = 90 * day_ms"

definition request_intents :: "string list" where
  "request_intents = [''library'', ''watch'', ''immediate'']"

text \<open>The intent and whether it comes from the old shape of a request; or the error.\<close>

definition normalize_request_intent :: "string option \<Rightarrow> bool \<Rightarrow> string + string \<times> bool" where
  "normalize_request_intent intent temporary =
     (if nullish intent [] = [] then Inr (if temporary then ''watch'' else ''library'', True)
      else let name = js_lower (js_trim (nullish intent [])) in
        if name = ''download'' then Inl ''intent 'download' belongs on POST /api/download-request''
        else if name \<notin> set request_intents then Inl ''unknown intent'' else Inr (name, False))"

definition intent_ttl_ms :: "int option \<Rightarrow> int \<Rightarrow> int" where
  "intent_ttl_ms ttlHours defaultMs = (case ttlHours of
      None \<Rightarrow> defaultMs | Some h \<Rightarrow> if 0 < h then h * 3600 * 1000 else defaultMs)"

definition upgrades_allowed :: "library_item \<Rightarrow> bool" where
  "upgrades_allowed r \<longleftrightarrow> li_publication_mode r \<noteq> ''temporary'' \<and> li_upgrade_policy r \<noteq> ''off''"

definition display_intent :: "library_item \<Rightarrow> string" where
  "display_intent r = (if li_publication_mode r = ''temporary'' then ''watch''
     else if li_upgrade_policy r \<noteq> ''auto'' then ''immediate'' else li_intent r)"

section \<open>Marking and clearing\<close>

record publication_id =
  pb_mediaType :: string
  pb_mediaId :: string
  pb_season :: "int option"
  pb_episode :: "int option"

definition identity_key_for :: "publication_id \<Rightarrow> string res" where
  "identity_key_for x = (if pb_mediaType x \<noteq> ''movie'' \<and> pb_season x \<noteq> None
     then create_library_identity_key ''episode'' (Some (pb_mediaId x)) (pb_season x) (pb_episode x) None
     else create_library_identity_key ''movie'' (Some (pb_mediaId x)) None None None)"

text \<open>A look-up that throws finds nothing.\<close>

definition find_item :: "db \<Rightarrow> publication_id \<Rightarrow> library_item option" where
  "find_item d x = (case res_bind (identity_key_for x) (get_library_item_by_identity_key d) of
      Inl e \<Rightarrow> None | Inr found \<Rightarrow> found)"

record publication_result =
  pu_ok :: bool
  pu_unchanged :: bool
  pu_libraryItemId :: "string option"
  pu_retireAt :: "int option"
  pu_reason :: "string option"

definition no_library_item :: publication_result where
  "no_library_item = \<lparr>pu_ok = False, pu_unchanged = False, pu_libraryItemId = None, pu_retireAt = None,
     pu_reason = Some ''no-library-item''\<rparr>"

definition upd_item :: "string \<Rightarrow> (library_item \<Rightarrow> library_item) \<Rightarrow> db \<Rightarrow> db" where
  "upd_item i f d = d\<lparr>db_items := upd_where (\<lambda>r. li_id r = i) f (db_items d)\<rparr>"

definition clamp_ttl :: "int option \<Rightarrow> int" where
  "clamp_ttl ttl = min (max (if nullish ttl 0 = 0 then default_temp_ttl_ms else nullish ttl 0) min_temp_ttl_ms) max_temp_ttl_ms"

definition set_temporary :: "int \<Rightarrow> int \<Rightarrow> library_item \<Rightarrow> library_item" where
  "set_temporary now at r = r\<lparr>li_publication_mode := ''temporary'', li_retire_at := Some at, li_intent := ''watch'',
     li_upgrade_policy := ''off'', li_updated_at := now\<rparr>"

definition set_permanent :: "int \<Rightarrow> string \<Rightarrow> string \<Rightarrow> library_item \<Rightarrow> library_item" where
  "set_permanent now intent policy r = r\<lparr>li_publication_mode := ''permanent'', li_retire_at := None, li_intent := intent,
     li_upgrade_policy := policy, li_updated_at := now\<rparr>"

definition mark_temporary_publication :: "int \<Rightarrow> int option \<Rightarrow> publication_id \<Rightarrow> db \<Rightarrow> db \<times> publication_result" where
  "mark_temporary_publication now ttl x d = (case find_item d x of
      None \<Rightarrow> (d, no_library_item)
    | Some r \<Rightarrow>
        if li_publication_mode r = ''temporary'' \<and> li_intent r = ''watch''
        then (d, \<lparr>pu_ok = True, pu_unchanged = True, pu_libraryItemId = Some (li_id r), pu_retireAt = li_retire_at r, pu_reason = None\<rparr>)
        else let at = now + clamp_ttl ttl in
          (upd_item (li_id r) (set_temporary now at) d,
           \<lparr>pu_ok = True, pu_unchanged = False, pu_libraryItemId = Some (li_id r), pu_retireAt = Some at, pu_reason = None\<rparr>))"

definition clear_temporary_publication ::
  "int \<Rightarrow> string \<Rightarrow> int option \<Rightarrow> publication_id \<Rightarrow> db \<Rightarrow> db \<times> publication_result" where
  "clear_temporary_publication now intent ttl x d = (case find_item d x of
      None \<Rightarrow> (d, no_library_item)
    | Some r \<Rightarrow>
        let unchanged = (\<lambda>reason. \<lparr>pu_ok = True, pu_unchanged = True, pu_libraryItemId = Some (li_id r), pu_retireAt = None, pu_reason = reason\<rparr>);
            settled = (li_publication_mode r = ''permanent'' \<and> li_retire_at r = None);
            policy = (if intent = ''immediate'' then ''off'' else ''auto'')
        in if intent = ''watch''
           then (if settled then (d, unchanged (Some ''already-permanent'')) else mark_temporary_publication now ttl x d)
           else if settled \<and> li_intent r = intent \<and> li_upgrade_policy r = policy then (d, unchanged None)
           else (upd_item (li_id r) (set_permanent now (if intent = ''immediate'' then ''immediate'' else ''library'') policy) d,
             \<lparr>pu_ok = True, pu_unchanged = False, pu_libraryItemId = Some (li_id r), pu_retireAt = None, pu_reason = None\<rparr>))"

text \<open>The profile goes to the item, or to the episodes of a film that was published as episodes.\<close>

definition set_publication_profile :: "int \<Rightarrow> string \<Rightarrow> publication_id \<Rightarrow> db \<Rightarrow> db \<times> publication_result" where
  "set_publication_profile now profile x d = (case find_item d x of
      Some r \<Rightarrow> (upd_item (li_id r) (\<lambda>r. r\<lparr>li_profile := profile, li_updated_at := now\<rparr>) d,
        \<lparr>pu_ok = True, pu_unchanged = False, pu_libraryItemId = Some (li_id r), pu_retireAt = None, pu_reason = None\<rparr>)
    | None \<Rightarrow>
        let P = (\<lambda>r. li_media_id r = pb_mediaId x \<and> li_media_type r = Episode) in
        if pb_mediaType x = ''movie'' \<and> pb_mediaId x \<noteq> [] \<and> list_ex P (db_items d)
        then (d\<lparr>db_items := upd_where P (\<lambda>r. r\<lparr>li_profile := profile, li_updated_at := now\<rparr>) (db_items d)\<rparr>,
          \<lparr>pu_ok = True, pu_unchanged = False, pu_libraryItemId = None, pu_retireAt = None, pu_reason = None\<rparr>)
        else (d, no_library_item))"

section \<open>The sweep\<close>

text \<open>
  \<open>unpublishMedia\<close> for one film or episode, the calls the sweep makes. What it removes from the cache and
  from the file system is outside.
\<close>

definition unpublish_media :: "int \<Rightarrow> string \<Rightarrow> int option \<Rightarrow> int option \<Rightarrow> db \<Rightarrow> (db \<times> unpublish_result option) res" where
  "unpublish_media now mediaId season episode d =
     (let mid = js_trim mediaId; unit_episode = (season \<noteq> None \<and> episode \<noteq> None) in
      if mid = [] then Inl (JsError ''mediaId is required'')
      else res_bind (if unit_episode then create_library_identity_key ''episode'' (Some mid) season episode None
                     else create_library_identity_key ''movie'' (Some mid) None None None)
        (\<lambda>key. unpublish_library_item now key d))"

definition due_publications :: "int \<Rightarrow> nat \<Rightarrow> db \<Rightarrow> library_item list" where
  "due_publications now limit d = take limit (sort_key (\<lambda>r. nullish (li_retire_at r) 0)
     (filter (\<lambda>r. li_desired_state r = DesPresent \<and> li_publication_mode r = ''temporary''
        \<and> (case li_retire_at r of None \<Rightarrow> False | Some t \<Rightarrow> t \<le> now)) (db_items d)))"

datatype retire_action = AdoptedPermanent | RetiredItem | RetireError js_error

definition media_name :: "media_type \<Rightarrow> string" where
  "media_name m = (case m of Movie \<Rightarrow> ''movie'' | Episode \<Rightarrow> ''episode'')"

definition row_identity :: "library_item \<Rightarrow> publication_id" where
  "row_identity r = \<lparr>pb_mediaType = media_name (li_media_type r), pb_mediaId = li_media_id r,
     pb_season = li_season r, pb_episode = li_episode r\<rparr>"

definition owned_permanently :: "promotions \<Rightarrow> library_item \<Rightarrow> bool" where
  "owned_permanently ps r \<longleftrightarrow> (case get_promotion_by_media (li_media_id r) (li_media_type r) (li_season r) (li_episode r) ps of
      None \<Rightarrow> False | Some p \<Rightarrow> pm_status p = PrPermanent)"

definition retire_row :: "int \<Rightarrow> promotions \<Rightarrow> library_item \<Rightarrow> db \<Rightarrow> db \<times> retire_action" where
  "retire_row now ps r d =
     (if owned_permanently ps r then (fst (clear_temporary_publication now ''library'' None (row_identity r) d), AdoptedPermanent)
      else case unpublish_media now (li_media_id r) (li_season r) (li_episode r) d of
        Inl e \<Rightarrow> (d, RetireError e) | Inr (d', _) \<Rightarrow> (d', RetiredItem))"

fun retire_rows :: "int \<Rightarrow> promotions \<Rightarrow> library_item list \<Rightarrow> db \<Rightarrow> db \<times> (string \<times> retire_action) list" where
  "retire_rows now ps [] d = (d, [])"
| "retire_rows now ps (r # rs) d = (let (d1, a) = retire_row now ps r d; (d2, as) = retire_rows now ps rs d1
     in (d2, (li_id r, a) # as))"

definition retire_due_publications :: "int \<Rightarrow> nat \<Rightarrow> promotions \<Rightarrow> db \<Rightarrow> db \<times> (string \<times> retire_action) list" where
  "retire_due_publications now limit ps d = retire_rows now ps (due_publications now limit d) d"

definition count_temporary_publications :: "db \<Rightarrow> nat" where
  "count_temporary_publications d =
     length (filter (\<lambda>r. li_desired_state r = DesPresent \<and> li_publication_mode r = ''temporary'') (db_items d))"

definition count_playback_observable_publications :: "db \<Rightarrow> nat" where
  "count_playback_observable_publications d = length (concat (map (\<lambda>r. filter (\<lambda>b. bd_library_item_id b = li_id r
     \<and> bd_status b = BdActive) (db_bindings d)) (filter (\<lambda>r. li_desired_state r = DesPresent) (db_items d))))"

section \<open>Playback\<close>

text \<open>
  \<open>observePlaybackSessions\<close>. The progress of a sighting is a fraction, \<open>None\<close> where it is not a finite number;
  every double is a rational number, so the comparisons are exact. The completion threshold is the double
  that \<open>0.9\<close> denotes.
\<close>

record playback_session =
  ys_mediaId :: "string option"
  ys_season :: "int option"
  ys_episode :: "int option"
  ys_progress :: "rat option"

record playback_counts =
  yc_observed :: nat
  yc_extended :: nat
  yc_completed :: nat

definition playback_extension_ms :: int where
  "playback_extension_ms = 7 * day_ms"

definition completion_progress :: rat where
  "completion_progress = 8106479329266893 / 9007199254740992"

definition completed_grace_ms :: int where
  "completed_grace_ms = day_ms"

definition clamp_progress :: "rat option \<Rightarrow> rat" where
  "clamp_progress p = (case p of None \<Rightarrow> 0 | Some x \<Rightarrow> min (max x 0) 1)"

definition session_of :: "playback_session list \<Rightarrow> library_item \<Rightarrow> playback_session option" where
  "session_of sessions r = find (\<lambda>y. ys_mediaId y = Some (li_media_id r) \<and> ys_season y = li_season r
     \<and> ys_episode y = li_episode r) sessions"

definition note_played :: "int \<Rightarrow> rat \<Rightarrow> library_item \<Rightarrow> library_item" where
  "note_played now progress r = r\<lparr>li_first_played_at := coalesce (li_first_played_at r) (Some now), li_last_played_at := Some now,
     li_max_progress := Some (max (nullish (li_max_progress r) 0) progress), li_updated_at := now\<rparr>"

definition set_timer :: "int \<Rightarrow> int \<Rightarrow> library_item \<Rightarrow> library_item" where
  "set_timer now t r = r\<lparr>li_retire_at := Some t, li_updated_at := now\<rparr>"

text \<open>What a sighting of the row does to its timer: the new time, if any.\<close>

definition played_timer :: "int \<Rightarrow> rat \<Rightarrow> int option \<Rightarrow> int option" where
  "played_timer now progress timer =
     (if completion_progress \<le> progress
      then (let grace = now + completed_grace_ms in case timer of
          None \<Rightarrow> Some grace | Some t \<Rightarrow> if grace < t then Some grace else None)
      else (case timer of
          None \<Rightarrow> None | Some t \<Rightarrow> if t < now + playback_extension_ms then Some (now + playback_extension_ms) else None))"

definition observe_item :: "int \<Rightarrow> playback_session list \<Rightarrow> library_item \<Rightarrow> db \<times> playback_counts \<Rightarrow> db \<times> playback_counts" where
  "observe_item now sessions r st = (case session_of sessions r of
      None \<Rightarrow> st
    | Some y \<Rightarrow>
        let progress = clamp_progress (ys_progress y); d = upd_item (li_id r) (note_played now progress) (fst st);
            c = (snd st)\<lparr>yc_observed := yc_observed (snd st) + 1\<rparr>; timer = played_timer now progress (li_retire_at r)
        in (case timer of None \<Rightarrow> d | Some t \<Rightarrow> upd_item (li_id r) (set_timer now t) d,
            if completion_progress \<le> progress then c\<lparr>yc_completed := yc_completed c + 1\<rparr>
            else if timer \<noteq> None then c\<lparr>yc_extended := yc_extended c + 1\<rparr> else c))"

text \<open>The temporary items in the order of their timers, those without one first.\<close>

definition temporary_publications :: "nat \<Rightarrow> db \<Rightarrow> library_item list" where
  "temporary_publications limit d =
     (let temporary = filter (\<lambda>r. li_desired_state r = DesPresent \<and> li_publication_mode r = ''temporary'') (db_items d)
      in take limit (filter (\<lambda>r. li_retire_at r = None) temporary
           @ sort_key (\<lambda>r. nullish (li_retire_at r) 0) (filter (\<lambda>r. li_retire_at r \<noteq> None) temporary)))"

definition observe_playback_sessions :: "int \<Rightarrow> nat \<Rightarrow> playback_session list \<Rightarrow> db \<Rightarrow> db \<times> playback_counts" where
  "observe_playback_sessions now limit sessions d =
     fold (observe_item now sessions) (temporary_publications limit d)
       (d, \<lparr>yc_observed = 0, yc_extended = 0, yc_completed = 0\<rparr>)"

end
