(* ===== verification/Retirement_Properties.thy ===== *)
theory Retirement_Properties
  imports Retirement
begin

text \<open>
  Properties of temporary publications: an item has a time of retirement exactly when it is temporary, and
  what becomes of a retired item that is requested again.
\<close>

section \<open>Timers\<close>

definition timer_ok :: "library_item \<Rightarrow> bool" where
  "timer_ok r \<longleftrightarrow> (li_publication_mode r = ''permanent'' \<and> li_retire_at r = None)
     \<or> (li_publication_mode r = ''temporary'' \<and> li_retire_at r \<noteq> None)"

definition timers_ok :: "db \<Rightarrow> bool" where
  "timers_ok d \<longleftrightarrow> (\<forall>r \<in> set (db_items d). timer_ok r)"

lemma timers_upd:
  "timers_ok d \<Longrightarrow> db_items d' = upd_where P f (db_items d) \<Longrightarrow> (\<And>r. timer_ok r \<Longrightarrow> timer_ok (f r)) \<Longrightarrow> timers_ok d'"
  by (auto simp: timers_ok_def in_upd_where)

lemma upd_item_timers: "timers_ok d \<Longrightarrow> (\<And>r. timer_ok r \<Longrightarrow> timer_ok (f r)) \<Longrightarrow> timers_ok (upd_item i f d)"
  by (auto simp: timers_ok_def upd_item_def in_upd_where)

lemma unpublish_items:
  assumes "unpublish_library_item now key d = Inr (d', r)"
  obtains P where "db_items d' = upd_where P (\<lambda>i. i\<lparr>li_desired_state := DesAbsent, li_updated_at := now\<rparr>) (db_items d)"
    "db_paths d' = db_paths d"
proof -
  from assms obtain found where "get_library_item_by_identity_key d key = Inr found"
    by (auto simp: unpublish_library_item_def res_bind_Inr)
  with assms show thesis
    using that [of "\<lambda>_. False"] by (cases found) (auto simp: unpublish_library_item_def Let_def upd_where_none intro: that)
qed

lemma unpublish_media_items:
  assumes "unpublish_media now m s e d = Inr (d', r)"
  obtains P where "db_items d' = upd_where P (\<lambda>i. i\<lparr>li_desired_state := DesAbsent, li_updated_at := now\<rparr>) (db_items d)"
    "db_paths d' = db_paths d"
proof -
  from assms obtain key where "unpublish_library_item now key d = Inr (d', r)"
    by (auto simp: unpublish_media_def Let_def res_bind_Inr split: if_splits)
  then show thesis by (rule unpublish_items) (rule that)
qed

lemma mark_timers: "timers_ok d \<Longrightarrow> timers_ok (fst (mark_temporary_publication now ttl x d))"
  by (auto simp: mark_temporary_publication_def Let_def set_temporary_def timer_ok_def split: option.splits intro!: upd_item_timers)

lemma clear_timers: "timers_ok d \<Longrightarrow> timers_ok (fst (clear_temporary_publication now intent ttl x d))"
  by (auto simp: clear_temporary_publication_def Let_def set_permanent_def timer_ok_def split: option.splits
      intro!: upd_item_timers mark_timers)

lemma timer_ok_profile [simp]: "timer_ok (r\<lparr>li_profile := p, li_updated_at := n\<rparr>) = timer_ok r"
  by (simp add: timer_ok_def)

lemma profile_timers: "timers_ok d \<Longrightarrow> timers_ok (fst (set_publication_profile now profile x d))"
proof (cases "find_item d x")
  case None
  assume "timers_ok d"
  with None show ?thesis by (auto simp: set_publication_profile_def Let_def timers_ok_def in_upd_where)
next
  case (Some r)
  assume "timers_ok d"
  with Some show ?thesis by (simp add: set_publication_profile_def upd_item_timers)
qed

lemma retire_row_timers: "timers_ok d \<Longrightarrow> timers_ok (fst (retire_row now ps r d))"
proof (cases "owned_permanently ps r")
  case True
  assume "timers_ok d"
  with True show ?thesis by (simp add: retire_row_def clear_timers)
next
  case False
  assume ok: "timers_ok d"
  show ?thesis
  proof (cases "unpublish_media now (li_media_id r) (li_season r) (li_episode r) d")
    case (Inl e)
    with False ok show ?thesis by (simp add: retire_row_def)
  next
    case (Inr res)
    obtain d' u where res: "res = (d', u)" by (cases res)
    from Inr have "timers_ok d'" unfolding res
      by (rule unpublish_media_items) (erule timers_upd [OF ok], simp add: timer_ok_def)
    with False Inr res show ?thesis by (simp add: retire_row_def)
  qed
qed

lemma retire_rows_timers: "timers_ok d \<Longrightarrow> timers_ok (fst (retire_rows now ps rs d))"
proof (induction rs arbitrary: d)
  case (Cons r rs)
  from Cons.IH [OF retire_row_timers [OF Cons.prems]] show ?case by (simp add: Let_def split_beta)
qed simp

lemma ensure_timers:
  assumes "ensure_library_item sha now input d = Inr (d', r)" "timers_ok d"
  shows "timers_ok d'"
  using assms(1)
proof (rule ensure_library_item_cases)
  fix key i mt title ds
  assume "d' = d\<lparr>db_items := upd_where (\<lambda>r. li_identity_key r = key)
        (merge_item (new_item i key mt (nullish (ii_mediaId input) []) input title ds now)) (db_items d)\<rparr>"
  then have "db_items d' = upd_where (\<lambda>r. li_identity_key r = key)
        (merge_item (new_item i key mt (nullish (ii_mediaId input) []) input title ds now)) (db_items d)" by simp
  then show ?thesis by (rule timers_upd [OF assms(2)]) (simp add: merge_item_def timer_ok_def)
qed (use assms(2) in \<open>auto simp: timers_ok_def timer_ok_def new_item_def\<close>)

text \<open>Sightings write the timers of temporary items, found by their unique id.\<close>

lemma upd_item_keys:
  "(\<And>r. li_id (f r) = li_id r \<and> li_identity_key (f r) = li_identity_key r) \<Longrightarrow> library_inv d \<Longrightarrow> library_inv (upd_item i f d)"
  by (simp add: library_inv_def upd_item_def unique_by_upd_where)

lemma observe_item_shape:
  "fst (observe_item now sessions r st) = fst st
    \<or> (\<exists>f. fst (observe_item now sessions r st) = upd_item (li_id r) f (fst st)
        \<and> (\<forall>q. li_id (f q) = li_id q \<and> li_identity_key (f q) = li_identity_key q \<and> li_publication_mode (f q) = li_publication_mode q
            \<and> (li_retire_at q \<noteq> None \<longrightarrow> li_retire_at (f q) \<noteq> None)))"
proof (cases "session_of sessions r")
  case None
  then show ?thesis by (simp add: observe_item_def)
next
  case (Some y)
  let ?p = "clamp_progress (ys_progress y)"
  have twice: "upd_item i g (upd_item i f d) = upd_item i (\<lambda>q. g (f q)) d" if "\<And>q. li_id (f q) = li_id q" for i f g d
    using that by (auto simp: upd_item_def upd_where_def)
  show ?thesis
  proof (cases "played_timer now ?p (li_retire_at r)")
    case None
    with Some show ?thesis by (auto simp: observe_item_def Let_def note_played_def)
  next
    case (Some t)
    have "fst (observe_item now sessions r st) = upd_item (li_id r) (\<lambda>q. set_timer now t (note_played now ?p q)) (fst st)"
      using Some \<open>session_of sessions r = Some y\<close> twice [of "note_played now ?p"]
      by (simp add: observe_item_def Let_def note_played_def)
    then show ?thesis by (auto simp: set_timer_def note_played_def)
  qed
qed

lemma observe_item_timers:
  assumes "timers_ok d" "library_inv d" "li_publication_mode r = ''temporary''"
    and "\<forall>q \<in> set (db_items d). li_id q = li_id r \<longrightarrow> li_publication_mode q = ''temporary''"
  shows "timers_ok (fst (observe_item now sessions r (d, c))) \<and> library_inv (fst (observe_item now sessions r (d, c)))
    \<and> map (\<lambda>q. (li_id q, li_publication_mode q)) (db_items (fst (observe_item now sessions r (d, c))))
      = map (\<lambda>q. (li_id q, li_publication_mode q)) (db_items d)"
  using observe_item_shape [of now sessions r "(d, c)"]
proof (elim disjE exE conjE)
  assume "fst (observe_item now sessions r (d, c)) = fst (d, c)"
  with assms show ?thesis by simp
next
  fix f
  assume f: "fst (observe_item now sessions r (d, c)) = upd_item (li_id r) f (fst (d, c))"
    "\<forall>q. li_id (f q) = li_id q \<and> li_identity_key (f q) = li_identity_key q \<and> li_publication_mode (f q) = li_publication_mode q
      \<and> (li_retire_at q \<noteq> None \<longrightarrow> li_retire_at (f q) \<noteq> None)"
  have "timer_ok q" if "q \<in> set (db_items (upd_item (li_id r) f d))" for q
  proof -
    from that obtain q0 where q0: "q0 \<in> set (db_items d)" "q = (if li_id q0 = li_id r then f q0 else q0)"
      by (auto simp: upd_item_def in_upd_where)
    with assms(1) have "timer_ok q0" by (simp add: timers_ok_def)
    with q0 assms(4) f(2) show ?thesis by (auto simp: timer_ok_def)
  qed
  moreover have "map (\<lambda>q. (li_id q, li_publication_mode q)) (db_items (upd_item (li_id r) f d))
      = map (\<lambda>q. (li_id q, li_publication_mode q)) (db_items d)"
    unfolding upd_item_def using f(2) by (simp add: map_upd_where)
  ultimately show ?thesis using f assms(2) by (simp add: timers_ok_def upd_item_keys)
qed

lemma observe_items_timers:
  assumes "timers_ok d" "library_inv d"
    and "\<forall>r \<in> set rs. li_publication_mode r = ''temporary''
      \<and> (\<forall>q \<in> set (db_items d). li_id q = li_id r \<longrightarrow> li_publication_mode q = ''temporary'')"
  shows "timers_ok (fst (fold (observe_item now sessions) rs (d, c))) \<and> library_inv (fst (fold (observe_item now sessions) rs (d, c)))"
  using assms
proof (induction rs arbitrary: d c)
  case (Cons r rs)
  obtain d1 c1 where one: "observe_item now sessions r (d, c) = (d1, c1)" by (cases "observe_item now sessions r (d, c)")
  from Cons.prems(3) have "li_publication_mode r = ''temporary''"
    "\<forall>q \<in> set (db_items d). li_id q = li_id r \<longrightarrow> li_publication_mode q = ''temporary''" by simp_all
  note s = observe_item_timers [OF Cons.prems(1,2) this, of now sessions c, unfolded one fst_conv]
  have "(\<lambda>q. (li_id q, li_publication_mode q)) ` set (db_items d1) = (\<lambda>q. (li_id q, li_publication_mode q)) ` set (db_items d)"
    using s by (metis set_map)
  then have "\<forall>r \<in> set rs. li_publication_mode r = ''temporary''
      \<and> (\<forall>q \<in> set (db_items d1). li_id q = li_id r \<longrightarrow> li_publication_mode q = ''temporary'')"
    using Cons.prems(3) by (simp add: image_iff set_eq_iff) (metis (no_types, lifting))
  with Cons.IH [of d1 c1] s one show ?case by simp
qed simp

lemma observe_timers:
  assumes "timers_ok d" "library_inv d"
  shows "timers_ok (fst (observe_playback_sessions now limit sessions d))
    \<and> library_inv (fst (observe_playback_sessions now limit sessions d))"
  unfolding observe_playback_sessions_def
proof (rule observe_items_timers [OF assms], intro ballI conjI impI)
  fix r q
  assume "r \<in> set (temporary_publications limit d)"
  then have r: "r \<in> set (db_items d)" "li_publication_mode r = ''temporary''"
    by (auto simp: temporary_publications_def Let_def dest!: in_set_takeD)
  then show "li_publication_mode r = ''temporary''" by simp
  assume "q \<in> set (db_items d)" "li_id q = li_id r"
  with assms(2) r show "li_publication_mode q = ''temporary''" unfolding library_inv_def by (metis unique_byD)
qed

text \<open>
  The operations on publications: an item is ensured, marked, cleared, gets a profile, the sweep runs, or
  sightings of playback are folded in.
\<close>

datatype publication_op =
    EnsureItem int item_input
  | MarkTemporary int "int option" publication_id
  | ClearTemporary int string "int option" publication_id
  | SetProfile int string publication_id
  | SweepDue int nat promotions
  | ObservePlayback int nat "playback_session list"

fun publication_step :: "(string \<Rightarrow> string) \<Rightarrow> db \<Rightarrow> publication_op \<Rightarrow> db" where
  "publication_step sha d (EnsureItem now input) = (case ensure_library_item sha now input d of Inl e \<Rightarrow> d | Inr (d', r) \<Rightarrow> d')"
| "publication_step sha d (MarkTemporary now ttl x) = fst (mark_temporary_publication now ttl x d)"
| "publication_step sha d (ClearTemporary now intent ttl x) = fst (clear_temporary_publication now intent ttl x d)"
| "publication_step sha d (SetProfile now profile x) = fst (set_publication_profile now profile x d)"
| "publication_step sha d (SweepDue now limit ps) = fst (retire_due_publications now limit ps d)"
| "publication_step sha d (ObservePlayback now limit sessions) = fst (observe_playback_sessions now limit sessions d)"

text \<open>All of them keep the keys of the items.\<close>

lemma library_inv_items:
  assumes "library_inv d" "db_paths d' = db_paths d" "db_items d' = upd_where P f (db_items d)"
    and "\<And>r. li_id (f r) = li_id r \<and> li_identity_key (f r) = li_identity_key r"
  shows "library_inv d'"
  using assms by (simp add: library_inv_def unique_by_upd_where)

lemma mark_keys: "library_inv d \<Longrightarrow> library_inv (fst (mark_temporary_publication now ttl x d))"
  by (auto simp: mark_temporary_publication_def Let_def set_temporary_def split: option.splits intro!: upd_item_keys)

lemma clear_keys: "library_inv d \<Longrightarrow> library_inv (fst (clear_temporary_publication now intent ttl x d))"
  by (auto simp: clear_temporary_publication_def Let_def set_permanent_def split: option.splits intro!: upd_item_keys mark_keys)

lemma profile_keys: "library_inv d \<Longrightarrow> library_inv (fst (set_publication_profile now profile x d))"
  by (auto simp: set_publication_profile_def Let_def split: option.splits intro!: upd_item_keys
      elim!: library_inv_items [where P = "\<lambda>r. li_media_id r = pb_mediaId x \<and> li_media_type r = Episode"])

lemma retire_row_keys: "library_inv d \<Longrightarrow> library_inv (fst (retire_row now ps r d))"
proof (cases "owned_permanently ps r")
  case True
  assume "library_inv d"
  with True show ?thesis by (simp add: retire_row_def clear_keys)
next
  case False
  assume ok: "library_inv d"
  show ?thesis
  proof (cases "unpublish_media now (li_media_id r) (li_season r) (li_episode r) d")
    case (Inl e)
    with False ok show ?thesis by (simp add: retire_row_def)
  next
    case (Inr res)
    obtain d' u where res: "res = (d', u)" by (cases res)
    from Inr [unfolded res] have "library_inv d'"
    proof (rule unpublish_media_items)
      fix P
      assume "db_items d' = upd_where P (\<lambda>i. i\<lparr>li_desired_state := DesAbsent, li_updated_at := now\<rparr>) (db_items d)"
        "db_paths d' = db_paths d"
      from library_inv_items [OF ok this(2,1)] show "library_inv d'" by simp
    qed
    with False Inr res show ?thesis by (simp add: retire_row_def)
  qed
qed

lemma retire_rows_keys: "library_inv d \<Longrightarrow> library_inv (fst (retire_rows now ps rs d))"
proof (induction rs arbitrary: d)
  case (Cons r rs)
  from Cons.IH [OF retire_row_keys [OF Cons.prems]] show ?case by (simp add: Let_def split_beta)
qed simp

lemma publication_step_timers:
  assumes "timers_ok d" "library_inv d"
  shows "timers_ok (publication_step sha d p) \<and> library_inv (publication_step sha d p)"
proof (cases p)
  case (EnsureItem now input)
  then show ?thesis
    using assms ensure_timers [of sha now input d] ensure_library_item_inv [OF assms(2), of sha now input]
    by (cases "ensure_library_item sha now input d") auto
next
  case (ObservePlayback now limit sessions)
  then show ?thesis using observe_timers [OF assms] by simp
qed (use assms in \<open>simp_all add: mark_timers clear_timers profile_timers retire_due_publications_def retire_rows_timers
       mark_keys clear_keys profile_keys retire_rows_keys\<close>)

text \<open>What a sighting does to a timer.\<close>

lemma played_timer_bounds:
  "played_timer now progress timer = Some t \<Longrightarrow>
     (progress < completion_progress \<longrightarrow> t = now + playback_extension_ms \<and> (\<exists>t0. timer = Some t0 \<and> t0 < t))
     \<and> (completion_progress \<le> progress \<longrightarrow> t = now + completed_grace_ms \<and> (\<forall>t0. timer = Some t0 \<longrightarrow> t < t0))"
  by (auto simp: played_timer_def Let_def split: option.splits if_splits)

lemma mark_bounds:
  assumes "mark_temporary_publication now ttl x d = (d', res)" "pu_ok res" "\<not> pu_unchanged res"
  shows "\<exists>t. pu_retireAt res = Some t \<and> now + min_temp_ttl_ms \<le> t \<and> t \<le> now + max_temp_ttl_ms"
  using assms by (auto simp: mark_temporary_publication_def Let_def no_library_item_def clamp_ttl_def min_temp_ttl_ms_def
      max_temp_ttl_ms_def day_ms_def split: option.splits if_splits)

text \<open>
  C36: Along any sequence of operations on publications, sightings of playback included, an item has a time
  of retirement exactly when it is temporary, so the sweep finds every temporary item and no permanent one.
  A new timer lies between three minutes and ninety days in the future, whatever the request asks for; a
  sighting before the end of the playback only moves a timer later, to seven days from now, and one at the
  end only moves it earlier, to a day from now.
\<close>

theorem temporary_items_have_timers:
  assumes "timers_ok d" "library_inv d"
  shows "timers_ok (foldl (publication_step sha) d ops)
    \<and> (\<forall>now ttl x. let res = snd (mark_temporary_publication now ttl x (foldl (publication_step sha) d ops)) in
        pu_ok res \<and> \<not> pu_unchanged res \<longrightarrow>
        (\<exists>t. pu_retireAt res = Some t \<and> now + min_temp_ttl_ms \<le> t \<and> t \<le> now + max_temp_ttl_ms))
    \<and> (\<forall>now progress timer t. played_timer now progress timer = Some t \<longrightarrow>
        (if completion_progress \<le> progress then t = now + completed_grace_ms \<and> (\<forall>t0. timer = Some t0 \<longrightarrow> t < t0)
         else t = now + playback_extension_ms \<and> (\<exists>t0. timer = Some t0 \<and> t0 < t)))"
proof (intro conjI)
  have "timers_ok (foldl (publication_step sha) d ops) \<and> library_inv (foldl (publication_step sha) d ops)"
    using assms by (induction ops arbitrary: d) (simp_all add: publication_step_timers)
  then show "timers_ok (foldl (publication_step sha) d ops)" ..
  show "\<forall>now ttl x. let res = snd (mark_temporary_publication now ttl x (foldl (publication_step sha) d ops)) in
        pu_ok res \<and> \<not> pu_unchanged res \<longrightarrow>
        (\<exists>t. pu_retireAt res = Some t \<and> now + min_temp_ttl_ms \<le> t \<and> t \<le> now + max_temp_ttl_ms)"
    unfolding Let_def using mark_bounds by (metis prod.collapse)
  show "\<forall>now progress timer t. played_timer now progress timer = Some t \<longrightarrow>
        (if completion_progress \<le> progress then t = now + completed_grace_ms \<and> (\<forall>t0. timer = Some t0 \<longrightarrow> t < t0)
         else t = now + playback_extension_ms \<and> (\<exists>t0. timer = Some t0 \<and> t0 < t))"
    using played_timer_bounds by (simp add: not_le)
qed

section \<open>A retired item that is requested again\<close>

definition timer_of :: "library_item \<Rightarrow> string \<times> string \<times> int option" where
  "timer_of r = (li_publication_mode r, li_intent r, li_retire_at r)"

definition timers_kept :: "db \<Rightarrow> db \<Rightarrow> bool" where
  "timers_kept d d' \<longleftrightarrow> (\<forall>r \<in> set (db_items d). \<exists>r' \<in> set (db_items d'). li_identity_key r' = li_identity_key r
     \<and> li_id r' = li_id r \<and> timer_of r' = timer_of r)"

lemma timers_kept_trans: "timers_kept a b \<Longrightarrow> timers_kept b c \<Longrightarrow> timers_kept a c"
  unfolding timers_kept_def by metis

lemma timers_kept_upd:
  assumes "db_items d' = upd_where P f (db_items d)"
    and "\<And>r. li_identity_key (f r) = li_identity_key r \<and> li_id (f r) = li_id r \<and> timer_of (f r) = timer_of r"
  shows "timers_kept d d'"
  unfolding timers_kept_def
proof
  fix r
  assume "r \<in> set (db_items d)"
  then have "(if P r then f r else r) \<in> set (db_items d')" unfolding assms(1) in_upd_where by blast
  then show "\<exists>r' \<in> set (db_items d'). li_identity_key r' = li_identity_key r \<and> li_id r' = li_id r \<and> timer_of r' = timer_of r"
    using assms(2) by (intro bexI) auto
qed

lemma ensure_timers_kept: "ensure_library_item sha now input d = Inr (d', r) \<Longrightarrow> timers_kept d d'"
proof (erule ensure_library_item_cases)
  fix key i mt title ds
  assume "d' = d\<lparr>db_items := upd_where (\<lambda>r. li_identity_key r = key)
        (merge_item (new_item i key mt (nullish (ii_mediaId input) []) input title ds now)) (db_items d)\<rparr>"
  then have "db_items d' = upd_where (\<lambda>r. li_identity_key r = key)
        (merge_item (new_item i key mt (nullish (ii_mediaId input) []) input title ds now)) (db_items d)" by simp
  then show ?thesis by (rule timers_kept_upd) (simp add: merge_item_def timer_of_def)
qed (auto simp: timers_kept_def)

lemma find_item_key:
  "find_item d x = Some r \<Longrightarrow> r \<in> set (db_items d) \<and> (\<exists>key. identity_key_for x = Inr key \<and> li_identity_key r = key)"
  by (auto simp: find_item_def get_library_item_by_identity_key_def res_bind_def split: sum.splits if_splits dest!: find_SomeD)

text \<open>
  C35: A watch-once item that was retired keeps its expired timer. When it is requested again for watching,
  its item is wanted again but marking it as temporary changes nothing, so the next sweep finds it due and
  retires it at once.
\<close>

theorem republished_watch_is_due_at_once:
  assumes "library_inv d" "find_item d x = Some r" "li_publication_mode r = ''temporary''" "li_intent r = ''watch''"
    and "li_retire_at r = Some t" "t \<le> now" "\<not> owned_permanently ps r"
    and "retire_row now ps r d = (d1, RetiredItem)"
    and "ensure_library_item sha again input d1 = Inr (d2, item)"
    and "find_item d2 x = Some r2" "li_desired_state r2 = DesPresent"
  shows "mark_temporary_publication again ttl x d2 = (d2, \<lparr>pu_ok = True, pu_unchanged = True,
      pu_libraryItemId = Some (li_id r2), pu_retireAt = Some t, pu_reason = None\<rparr>)
    \<and> (\<forall>later. now \<le> later \<longrightarrow> r2 \<in> set (due_publications later (length (db_items d2)) d2))"
proof -
  obtain u where "unpublish_media now (li_media_id r) (li_season r) (li_episode r) d = Inr (d1, u)"
    using assms(7,8) by (auto simp: retire_row_def split: sum.splits)
  then obtain P where items: "db_items d1 = upd_where P (\<lambda>i. i\<lparr>li_desired_state := DesAbsent, li_updated_at := now\<rparr>) (db_items d)"
    and paths: "db_paths d1 = db_paths d" by (rule unpublish_media_items)
  have "timers_kept d d1" by (rule timers_kept_upd [OF items]) (simp add: timer_of_def)
  then have kept: "timers_kept d d2" using ensure_timers_kept [OF assms(9)] by (rule timers_kept_trans)
  have "library_inv d1" using assms(1) by (simp add: library_inv_def items paths unique_by_def map_upd_where)
  then have "library_inv d2" using assms(9) by (rule ensure_library_item_inv)
  moreover obtain r' where r': "r' \<in> set (db_items d2)" "li_identity_key r' = li_identity_key r" "timer_of r' = timer_of r"
    using kept find_item_key [OF assms(2)] unfolding timers_kept_def by blast
  moreover from find_item_key [OF assms(2)] find_item_key [OF assms(10)] have "li_identity_key r2 = li_identity_key r" by auto
  ultimately have "r' = r2"
    using find_item_key [OF assms(10)] unfolding library_inv_def by (auto dest: unique_byD [of li_identity_key])
  with r' assms(3-5) have t: "li_publication_mode r2 = ''temporary''" "li_intent r2 = ''watch''" "li_retire_at r2 = Some t"
    by (simp_all add: timer_of_def)
  have "r2 \<in> set (due_publications later (length (db_items d2)) d2)" if "now \<le> later" for later
  proof -
    let ?due = "filter (\<lambda>r. li_desired_state r = DesPresent \<and> li_publication_mode r = ''temporary''
        \<and> (case li_retire_at r of None \<Rightarrow> False | Some t \<Rightarrow> t \<le> later)) (db_items d2)"
    have "r2 \<in> set ?due" using find_item_key [OF assms(10)] assms(6,11) t that by auto
    then show ?thesis by (simp add: due_publications_def)
  qed
  with t assms(10) show ?thesis by (simp add: mark_temporary_publication_def)
qed

section \<open>Witnesses\<close>

definition film_input :: item_input where
  "film_input = \<lparr>ii_mediaType = ''movie'', ii_mediaId = Some ''tt1'', ii_season = None, ii_episode = None, ii_editionKey = None,
     ii_title = Some ''Film'', ii_year = Some 2020, ii_desiredState = Some ''present''\<rparr>"

definition film_id :: publication_id where
  "film_id = \<lparr>pb_mediaType = ''movie'', pb_mediaId = ''tt1'', pb_season = None, pb_episode = None\<rparr>"

definition first_letters :: "string \<Rightarrow> string" where
  "first_letters s = take 24 s"

text \<open>A film that is published for watching and retired eight days later.\<close>

definition watched_film :: db where
  "watched_film = foldl (publication_step first_letters) empty_db [EnsureItem 10 film_input, MarkTemporary 10 None film_id]"

definition film_row :: library_item where
  "film_row = (case find_item watched_film film_id of Some r \<Rightarrow> r)"

definition retired_film :: db where
  "retired_film = fst (retire_row (8 * day_ms) [] film_row watched_film)"

definition wanted_film :: db where
  "wanted_film = publication_step first_letters retired_film (EnsureItem (9 * day_ms) film_input)"

definition wanted_row :: library_item where
  "wanted_row = (case find_item wanted_film film_id of Some r \<Rightarrow> r)"

lemma temporary_items_have_timers_witness:
  "timers_ok (foldl (publication_step first_letters) empty_db [EnsureItem 10 film_input, MarkTemporary 10 None film_id,
     ObservePlayback (2 * day_ms) 200 [\<lparr>ys_mediaId = Some ''tt1'', ys_season = None, ys_episode = None, ys_progress = Some (1 / 2)\<rparr>],
     SweepDue (8 * day_ms) 10 []])"
proof -
  have "timers_ok empty_db" "library_inv empty_db"
    by (simp_all add: timers_ok_def empty_db_def library_inv_def unique_by_def unique_where_def)
  then show ?thesis by (rule temporary_items_have_timers [THEN conjunct1])
qed

lemma film_found: "find_item watched_film film_id = Some film_row" "find_item wanted_film film_id = Some wanted_row"
  by code_simp+

lemma film_timer: "li_publication_mode film_row = ''temporary''" "li_intent film_row = ''watch''"
    "li_retire_at film_row = Some (10 + 7 * day_ms)" "li_desired_state wanted_row = DesPresent"
    "snd (retire_row (8 * day_ms) [] film_row watched_film) = RetiredItem"
  by code_simp+

lemma film_ensured:
  "\<exists>item. ensure_library_item first_letters (9 * day_ms) film_input retired_film = Inr (wanted_film, item)"
proof -
  have "is_ok (ensure_library_item first_letters (9 * day_ms) film_input retired_film)" by code_simp
  then show ?thesis by (auto simp: is_ok_conv wanted_film_def)
qed

lemma watched_film_inv: "library_inv watched_film"
proof -
  have "distinct (map li_id (db_items watched_film)) \<and> distinct (map li_identity_key (db_items watched_film)) \<and> db_paths watched_film = []"
    by code_simp
  then show ?thesis by (simp add: library_inv_def unique_by_def unique_where_def)
qed

lemma republished_watch_is_due_at_once_witness:
  "wanted_row \<in> set (due_publications (9 * day_ms) (length (db_items wanted_film)) wanted_film)"
proof -
  from film_ensured obtain item where item: "ensure_library_item first_letters (9 * day_ms) film_input retired_film = Inr (wanted_film, item)" ..
  have run: "retire_row (8 * day_ms) [] film_row watched_film = (retired_film, RetiredItem)"
    using film_timer(5) by (simp add: retired_film_def prod_eq_iff)
  have "10 + 7 * day_ms \<le> 8 * day_ms" by (simp add: day_ms_def)
  moreover have "\<not> owned_permanently [] film_row" by (simp add: owned_permanently_def get_promotion_by_media_def)
  ultimately show ?thesis
    using republished_watch_is_due_at_once [OF watched_film_inv film_found(1) film_timer(1-3) _ _ run item film_found(2) film_timer(4)]
    by (simp add: day_ms_def)
qed

end
