(* ===== verification/Spec2Isabelle.thy ===== *)
theory Spec2Isabelle
  imports Repair_Safety Library_Properties Route_Properties Job_Properties Repair_Run Intent_Properties Preparation_Properties Retirement_Properties
begin

text \<open>
  A verification library for the media-search control plane of the repository
  (\<open>src/media-search/src\<close>, JavaScript). The program keeps a library of films and episodes whose bytes
  live at debrid providers. A library item has a canonical path and a binding; a binding names one
  torrent file, and the route to its bytes: a placement at a provider, a file of the placement and an
  exposure of it. Workers observe the providers and record what they saw in a SQLite database;
  reconciliation, repair and route recovery read it and move bindings and routes. Next to it are two
  job tables, downloads and promotions, with workers of their own.

  How the parts correspond to the code:

  \<^item> \<open>Prelude\<close>: errors as a sum (\<open>Inl\<close> is the thrown error; the operation's transaction is then rolled
    back, so a failing operation returns no state), JavaScript values, strings, identifiers, and tables:
    a table is the list of its rows in insertion order, \<open>upd_where\<close>, \<open>upsert\<close>, \<open>top_by\<close> are the SQL
    statements the sources use.
  \<^item> \<open>Release_Identity\<close>: \<open>api/release-contract.js\<close>. \<open>Canonical_Path\<close>:
    \<open>lib/control-plane/canonical-path.js\<close>. \<open>Representation_Authority\<close>:
    \<open>lib/control-plane/representation-authority.js\<close>.
  \<^item> \<open>Store_Schema\<close>: the tables of \<open>lib/control-plane/store.js\<close>, one record each, and the state \<open>db\<close>.
    The operations of the store follow in the order of the file: \<open>Store_Library\<close> (items, paths,
    presentation identity), \<open>Store_Provider\<close> (placements, delivery evidence), \<open>Store_Observations\<close>
    (look-up, readiness, exposure, Zurg observations, mappings), \<open>Store_Inventory\<close>
    (\<open>replaceProviderFileInventory\<close>), \<open>Store_Bindings\<close> (\<open>activateBinding\<close> and the operations on
    bindings), \<open>Store_Repair\<close> (repair transactions and steps),
    \<open>Store_Lifecycle\<close> (lifecycle events, accepted torrent files, consumer observations and
    \<open>getReconciliationSnapshot\<close>).
  \<^item> \<open>Json_Text\<close>: \<open>JSON.stringify\<close> and the sorted \<open>stableStringify\<close>. \<open>Reconciler\<close>:
    \<open>lib/control-plane/reconciler.js\<close>, the plan made from a snapshot and its execution.
  \<^item> \<open>Store_Run\<close>: code that calls the store several times. Every call is a transaction of its own, so a
    \<open>run\<close> returns the store also when it throws; \<open>run_catch\<close> is \<open>try ... catch\<close>.
  \<^item> \<open>Rd_Zurg_Slice\<close>, \<open>Rd_Zurg_Projection\<close>: \<open>lib/control-plane/rd-zurg-slice.js\<close>, its operations over
    injected adapters (a \<open>gateway\<close>: one optional function per capability) and \<open>projectRdZurgLifecycle\<close>.
    \<open>Repair_Planner\<close>: \<open>repair-planner.js\<close>. \<open>Repair_Executor\<close>: \<open>repair-executor.js\<close>; a \<open>repair_world\<close> gives
    the gateway that answers while an action runs (an action runs at most once in an execution).
  \<^item> \<open>Routes\<close>: \<open>route-classification.js\<close>, \<open>route-recovery.js\<close>, the database part of
    \<open>route-reconciler.js\<close> and \<open>listDataPlaneCoordinates\<close>.
  \<^item> \<open>Job_Retry\<close>: \<open>lib/lifecycle/job-retry.js\<close>; \<open>Download_Store\<close>: \<open>lib/download/store.js\<close> and
    \<open>worker.js\<close>; \<open>Promotion_Store\<close>: \<open>lib/promotion/store.js\<close> and \<open>worker.js\<close>.
    \<open>Future_Intents\<close>: \<open>lib/anticipation/future-intents.js\<close> and \<open>season-reconciliation.js\<close>: the media
    that are expected to be wanted, and the seasons that own their episodes.
    \<open>Preparation_Store\<close>: \<open>lib/prepare/contract.js\<close> and \<open>store.js\<close>, the attempts to acquire a release
    at a provider; \<open>Preparation_Driver\<close>: \<open>driver.js\<close>, with the file mapping and the polling of
    \<open>torbox-acquire.js\<close> and \<open>rd-acquire.js\<close>. The driver closes a preparation through the operations of
    the control-plane store. \<open>Retirement\<close>: \<open>lib/library/retirement.js\<close> and \<open>intent.js\<close>, the temporary
    publications and their retirement.

  The interfaces are locales: \<open>latest_wins\<close> (\<open>Latest_Wins\<close>), the contract of every observation table
  whose rows are replaced by newer ones only, is interpreted on the placement, look-up, readiness,
  exposure, Zurg and mapping tables; \<open>job_store\<close> (\<open>Job_Retry\<close>), the contract of a job table towards
  the retry policy, is interpreted on downloads and promotions; \<open>run_relation\<close> (\<open>Store_Run\<close>), a relation
  between the store before and after that sequences of calls keep, is interpreted on what the slice
  keeps (\<open>slice_kept\<close>), on sequences of operations that keep the invariant (\<open>run_sound\<close>), and on runs
  that write no step or only transactions.

  What the lemmas show. \<open>Inventory_Invariant\<close>: an inventory replacement keeps the file tables
  consistent, file by file. \<open>Binding_Properties\<close>: what activation requires, the history of bindings,
  the representation boundary. \<open>Repair_Properties\<close>, \<open>Repair_Machine\<close>, \<open>Repair_Safety\<close>: the invariant of
  the repair tables, the step relation of the operations and its refinement of the status graph.
  \<open>Library_Properties\<close>: keys, paths, the write-once presentation. \<open>Route_Properties\<close>: the routes offered
  to the data plane, retirement. \<open>Job_Properties\<close>: retry budgets, the worker runs, the handoff.
  \<open>Intent_Properties\<close>: who owns the episodes of a season, what wakes the scheduler.
  \<open>Preparation_Properties\<close>: the single flight of preparations, a full queue, the memory of refusals,
  candidates whose size is null, and what becomes of a resource that is polled. \<open>Retirement_Properties\<close>: the
  timers of publications along all operations and sightings of playback, and a retired item that is requested again.
  \<open>Store_References\<close>, \<open>Store_Machine\<close>, \<open>Inventory_References\<close>, \<open>Store_Invariant\<close>: the step relation
  \<open>store_step\<close> of all operations of the store and the invariant \<open>store_inv\<close> of the whole database, the
  references between its tables included. \<open>Reconciler_Properties\<close>, \<open>Route_Acceptance\<close>: what a plan of the
  reconciler keeps, and when the store accepts a planned route. \<open>Planner_Properties\<close>: what the triggers
  and actions of a repair plan say about the evidence. \<open>Slice_Invariant\<close>: the slice and the executor are
  sequences of store operations. \<open>Executor_Properties\<close>, \<open>Execution_Properties\<close>: every started step is
  settled unless the outcome of a mutation is unknown; success is proven. \<open>Persist_Properties\<close>: how plans
  become transactions. \<open>Control_Plane_Run\<close> and \<open>Repair_Run\<close> evaluate the system on concrete stores, from
  the empty one on, and hold the properties that span components.

  Conventions. An operation reads the clock once, its argument \<open>now\<close>. A query without \<open>ORDER BY\<close>
  returns the rows in insertion order, and \<open>ORDER BY ... LIMIT 1\<close> the first of equal rows. Strings
  hold code units below 256. Not under \<open>src/\<close> and therefore arguments of the definitions: new UUIDs,
  SHA-256 (\<open>digest\<close>), Unicode normalization, the collation of \<open>String.localeCompare\<close> (\<open>loc\<close>, a sort key),
  the provider adapters, the resolver, the materializer and the file system. The ids of new torrent files
  are assumed short and without white space (\<open>id_ok\<close>, \<open>good_ids\<close>), as UUIDs are. Messages of errors leave
  out the values they quote. The scope of a repair plan is one of the provider \<open>realdebrid\<close>, the only one
  the slice observes. No definition uses
  fuel: every loop of the modelled code runs over a list. The retry budget is the constant of the code,
  six attempts.

  Not modelled: the migrations of old databases; the back-fill of requested seasons from the request tables
  and the run of the scheduler that reads the future intents; the calls by which the adapters of the
  preparation driver acquire a torrent, and its callbacks for a rebind and a notification, which the workers
  do not pass; the unpublishing of whole seasons; the checks of the constructors of the slice and the executor
  that their dependencies have the methods they call; the callback that tells the durability enroller of an activation; everything that only talks to other processes (HTTP
  routes, provider clients, WebDAV, players), whose services are not under \<open>src/\<close>; discovery and
  ranking; the Rust data plane and the shell importers. Operations that the code interleaves across
  \<open>await\<close> are modelled as the sequence of their store operations.
\<close>

end
